(* ===== verification/Prelude.thy ===== *)
theory Prelude
  imports Complex_Main "HOL-Library.Multiset"
begin

text \<open>
  Shared vocabulary of the development: the collections the component theories add their
  facts to, and generic facts about association lists (the shape of a JavaScript object with
  string keys) and about lists that the components use. Nothing here models code of the
  repository by itself.
\<close>

named_theorems js_eval \<open>equations that evaluate the JavaScript primitives on constructors\<close>
named_theorems table_eval \<open>equations that evaluate the transition tables\<close>

section \<open>Association lists\<close>

type_synonym 'v fields = "(string \<times> 'v) list"

lemma map_of_filter_key:
  "map_of (filter (\<lambda>(k, _). P k) xs) k = (if P k then map_of xs k else None)"
  by (induction xs) auto

lemma map_of_map_snd: "map_of (map (\<lambda>(k, v). (k, f v)) xs) k = map_option f (map_of xs k)"
  by (induction xs) auto

lemma map_of_eq_if_mset:
  assumes "distinct (map fst xs)" and "mset xs = mset ys"
  shows "map_of xs = map_of ys"
proof -
  have "mset (map fst xs) = mset (map fst ys)"
    using assms(2) by (simp add: mset_map)
  then have "distinct (map fst ys)"
    using assms(1) by (metis distinct_count_atmost_1 set_mset_mset)
  moreover have "set xs = set ys"
    using assms(2) by (metis set_mset_mset)
  ultimately show ?thesis
    using assms(1) by (simp add: map_of_inject_set)
qed

text \<open>Writing a key of a JavaScript object or \<open>Map\<close>: a key that is there keeps its place.\<close>

fun put_field :: "'k \<Rightarrow> 'v \<Rightarrow> ('k \<times> 'v) list \<Rightarrow> ('k \<times> 'v) list" where
  "put_field k v [] = [(k, v)]"
| "put_field k v ((k', v') # fs) = (if k = k' then (k, v) # fs else (k', v') # put_field k v fs)"

lemma map_of_put_field [simp]: "map_of (put_field k v fs) = (map_of fs)(k \<mapsto> v)"
  by (induction k v fs rule: put_field.induct) auto

lemma keys_put_field: "fst ` set (put_field k v fs) = insert k (fst ` set fs)"
  by (induction k v fs rule: put_field.induct) auto

lemma distinct_put_field: "distinct (map fst fs) \<Longrightarrow> distinct (map fst (put_field k v fs))"
proof (induction k v fs rule: put_field.induct)
  case (2 k v k' v' fs)
  then show ?case using keys_put_field[of k v fs] by auto
qed simp

text \<open>\<open>Object.fromEntries(kvs)\<close>\<close>

definition from_entries :: "('k \<times> 'v) list \<Rightarrow> ('k \<times> 'v) list" where
  "from_entries kvs = foldl (\<lambda>acc kv. put_field (fst kv) (snd kv) acc) [] kvs"

lemma map_of_from_entries: "map_of (from_entries kvs) = map_of (rev kvs)"
  by (induction kvs rule: rev_induct) (auto simp: from_entries_def)

lemma distinct_from_entries: "distinct (map fst (from_entries kvs))"
  by (induction kvs rule: rev_induct) (auto simp: from_entries_def intro: distinct_put_field)

section \<open>First element with a property\<close>

lemma find_SomeD: "List.find P xs = Some x \<Longrightarrow> x \<in> set xs \<and> P x"
  by (induction xs) (auto split: if_splits)

lemma find_None_all: "List.find P xs = None \<longleftrightarrow> (\<forall>x \<in> set xs. \<not> P x)"
  by (auto simp: find_None_iff)

section \<open>Removal of duplicates that keeps first occurrences\<close>

text \<open>\<open>[...new Set(xs)]\<close>: the elements of \<open>xs\<close> in order of first occurrence.\<close>

fun uniq :: "'a list \<Rightarrow> 'a list" where
  "uniq [] = []"
| "uniq (x # xs) = x # filter (\<lambda>y. y \<noteq> x) (uniq xs)"

lemma set_uniq [simp]: "set (uniq xs) = set xs"
  by (induction xs) auto

lemma distinct_uniq [simp]: "distinct (uniq xs)"
  by (induction xs) auto

lemma uniq_Nil_iff [simp]: "uniq xs = [] \<longleftrightarrow> xs = []"
  by (cases xs) auto

lemma uniq_idem: "distinct xs \<Longrightarrow> uniq xs = xs"
proof (induction xs)
  case (Cons x xs)
  then have "filter (\<lambda>y. y \<noteq> x) xs = xs"
    by (intro filter_True) auto
  with Cons show ?case by simp
qed simp

section \<open>Stable sorting and filtering\<close>

lemma map_filter_append: "List.map_filter f (xs @ ys) = List.map_filter f xs @ List.map_filter f ys"
  by (simp add: List.map_filter_def)

lemma insort_key_append:
  "\<forall>b \<in> set bs. f x \<le> f b \<Longrightarrow> insort_key f x (as @ bs) = insort_key f x as @ bs"
  by (induction as) (auto simp: insort_is_Cons)

lemma sort_key_append:
  "\<forall>x \<in> set xs. \<forall>y \<in> set ys. f x \<le> f y \<Longrightarrow> sort_key f (xs @ ys) = sort_key f xs @ sort_key f ys"
  by (induction xs) (auto simp: insort_key_append)

lemma foldl_invariant: "P a \<Longrightarrow> (\<And>acc x. P acc \<Longrightarrow> P (step acc x)) \<Longrightarrow> P (foldl step a xs)"
  by (induction xs arbitrary: a) simp_all

section \<open>Code that may throw\<close>

definition and_then :: "'err + 'a \<Rightarrow> ('a \<Rightarrow> 'err + 'b) \<Rightarrow> 'err + 'b" where
  "and_then m f = (case m of Inl e \<Rightarrow> Inl e | Inr x \<Rightarrow> f x)"

definition require :: "bool \<Rightarrow> 'e \<Rightarrow> 'e + unit" where
  "require b e = (if b then Inr () else Inl e)"

lemma and_then_simps [simp]: "and_then (Inl e) f = Inl e" "and_then (Inr x) f = f x"
  by (simp_all add: and_then_def)

lemma require_simps [simp]: "require True e = Inr ()" "require False e = Inl e"
  by (simp_all add: require_def)

lemma and_then_Inr: "and_then m f = Inr y \<longleftrightarrow> (\<exists>x. m = Inr x \<and> f x = Inr y)"
  by (cases m) auto

lemma and_then_require_Inr: "and_then (require b e) f = Inr y \<longleftrightarrow> b \<and> f () = Inr y"
  by (cases b) auto

lemma require_Inr: "require b e = Inr u \<longleftrightarrow> b"
  by (cases b) auto

text \<open>A map whose function may throw, on the elements in order.\<close>

fun map_throwing :: "('a \<Rightarrow> 'err + 'b) \<Rightarrow> 'a list \<Rightarrow> 'err + ('b list)" where
  "map_throwing step (x # rest) =
     and_then (step x) (\<lambda>first. and_then (map_throwing step rest) (\<lambda>others. Inr (first # others)))"
| "map_throwing step [] = Inr []"

lemma map_throwing_length: "map_throwing f xs = Inr ys \<Longrightarrow> length ys = length xs"
  by (induction xs arbitrary: ys) (auto simp: and_then_Inr)

end
