(* ===== verification/Js_Number.thy ===== *)
theory Js_Number
  imports Prelude "HOL-Library.Log_Nat"
begin

text \<open>
  The Number type of JavaScript: IEEE 754 binary64 values with the exact rational result of
  each operation rounded to nearest, ties to even. The one simplification is that the two
  zeros are one value (the modelled code never divides by a zero it has not excluded, and
  never calls \<open>Object.is\<close>). \<open>rnd\<close> is the rounding; the facts the components use are that it
  is exact on integers up to \<open>2^53\<close>, monotone, and keeps signs.
\<close>

datatype jnum = NaN | PInf | NInf | Fin rat

section \<open>Rounding to binary64\<close>

definition ilog2 :: "rat \<Rightarrow> int" where
  "ilog2 x = (let (p, q) = quotient_of x; e = bitlen p - bitlen q
              in if 2 powi e \<le> x then e else e - 1)"

definition rhe :: "rat \<Rightarrow> int" where
  "rhe y = (let f = \<lfloor>y\<rfloor>; d = y - of_int f in
     if d < 1 / 2 then f else if d > 1 / 2 then f + 1 else if even f then f else f + 1)"

definition grid :: "rat \<Rightarrow> int" where
  "grid x = max (ilog2 x - 52) (- 1074)"

definition rnd_pos :: "rat \<Rightarrow> rat" where
  "rnd_pos x = of_int (rhe (x / 2 powi (grid x))) * 2 powi (grid x)"

definition rnd :: "rat \<Rightarrow> jnum" where
  "rnd x =
     (if x = 0 then Fin 0
      else let y = rnd_pos \<bar>x\<bar> in
        if 2 ^ 1024 \<le> y then (if 0 < x then PInf else NInf)
        else Fin (if 0 < x then y else - y))"


subsection \<open>The exponent\<close>

lemma powi2_pos [simp]: "(0::rat) < 2 powi e"
  by simp

lemma powi2_mono: "a \<le> b \<Longrightarrow> (2::rat) powi a \<le> 2 powi b"
  by (simp add: power_int_increasing)

lemma powi2_less_iff: "(2::rat) powi a < 2 powi b \<longleftrightarrow> a < b"
  by (meson linorder_not_le powi2_mono power_int_strict_increasing one_less_numeral_iff semiring_norm(76))

lemma bitlen_powi:
  assumes "0 < n"
  shows "2 powi (bitlen n - 1) \<le> (of_int n :: rat)" and "(of_int n :: rat) < 2 powi bitlen n"
proof -
  have b: "1 \<le> bitlen n"
    using assms by (metis bitlen_eq_zero_iff bitlen_nonneg int_one_le_iff_zero_less le_less not_less)
  have "2 ^ nat (bitlen n - 1) \<le> n" "n < 2 ^ nat (bitlen n)"
    using bitlen_bounds[OF assms] by auto
  then have *: "(2::rat) ^ nat (bitlen n - 1) \<le> of_int n" "of_int n < (2::rat) ^ nat (bitlen n)"
    by (metis of_int_le_iff of_int_less_iff of_int_numeral of_int_power)+
  show "2 powi (bitlen n - 1) \<le> (of_int n :: rat)" and "(of_int n :: rat) < 2 powi bitlen n"
    using * b by (simp_all add: power_int_def)
qed

lemma ilog2_bounds:
  assumes "0 < x"
  shows "2 powi (ilog2 x) \<le> x" and "x < 2 powi (ilog2 x + 1)"
proof -
  obtain p q where pq: "quotient_of x = (p, q)" by fastforce
  have q: "0 < q" using quotient_of_denom_pos[OF pq] .
  have x: "x = of_int p / of_int q" using quotient_of_div[OF pq] .
  have p: "0 < p" using assms q unfolding x by (simp add: zero_less_divide_iff)
  let ?e = "bitlen p - bitlen q"
  have hi: "x < 2 powi (?e + 1)"
  proof -
    have "x * 2 powi (bitlen q - 1) \<le> x * of_int q"
      using bitlen_powi(1)[OF q] assms by simp
    also have "\<dots> = of_int p" using q by (simp add: x)
    also have "\<dots> < 2 powi (?e + 1) * 2 powi (bitlen q - 1)"
      using bitlen_powi(2)[OF p] by (simp flip: power_int_add)
    finally show ?thesis by simp
  qed
  have lo: "2 powi (?e - 1) \<le> x"
  proof -
    have "(2::rat) powi (?e - 1) * of_int q \<le> 2 powi (?e - 1) * 2 powi bitlen q"
      using bitlen_powi(2)[OF q] by simp
    also have "\<dots> = 2 powi (bitlen p - 1)" by (simp flip: power_int_add)
    also have "\<dots> \<le> of_int p" using bitlen_powi(1)[OF p] .
    also have "\<dots> = x * of_int q" using q by (simp add: x)
    finally show ?thesis using q by simp
  qed
  show "2 powi (ilog2 x) \<le> x" and "x < 2 powi (ilog2 x + 1)"
    using hi lo by (auto simp: ilog2_def pq Let_def)
qed

lemma ilog2_less_iff: "0 < x \<Longrightarrow> ilog2 x < k \<longleftrightarrow> x < 2 powi k"
  using ilog2_bounds[of x] powi2_mono[of "ilog2 x + 1" k] powi2_mono[of k "ilog2 x"]
  by (smt (verit) order.strict_trans1 order.strict_trans2 order_less_irrefl)

lemma ilog2_ge_iff: "0 < x \<Longrightarrow> k \<le> ilog2 x \<longleftrightarrow> 2 powi k \<le> x"
  using ilog2_less_iff[of x k] by linarith

lemma ilog2_mono: "0 < x \<Longrightarrow> x \<le> y \<Longrightarrow> ilog2 x \<le> ilog2 y"
  using ilog2_bounds(1)[of x] by (simp add: ilog2_ge_iff)

lemma grid_mono: "0 < x \<Longrightarrow> x \<le> y \<Longrightarrow> grid x \<le> grid y"
  using ilog2_mono[of x y] by (simp add: grid_def)

subsection \<open>Rounding to an integer, ties to even\<close>

lemma rhe_of_int [simp]: "rhe (of_int n) = n"
  by (simp add: rhe_def)

lemma rhe_bounds: "\<lfloor>y\<rfloor> \<le> rhe y" "rhe y \<le> \<lfloor>y\<rfloor> + 1"
  by (simp_all add: rhe_def Let_def)

lemma rhe_mono:
  assumes "y \<le> z"
  shows "rhe y \<le> rhe z"
proof (cases "\<lfloor>y\<rfloor> = \<lfloor>z\<rfloor>")
  case True
  then show ?thesis using assms by (auto simp: rhe_def Let_def)
next
  case False
  then have "\<lfloor>y\<rfloor> + 1 \<le> \<lfloor>z\<rfloor>" using floor_mono[OF assms] by linarith
  then show ?thesis using rhe_bounds[of y] rhe_bounds[of z] by linarith
qed

lemma rhe_le_int: "y \<le> of_int n \<Longrightarrow> rhe y \<le> n"
  using rhe_mono[of y "of_int n"] by simp

lemma rhe_ge_int: "of_int n \<le> y \<Longrightarrow> n \<le> rhe y"
  using rhe_mono[of "of_int n" y] by simp

lemma rhe_error: "\<bar>of_int (rhe y) - y\<bar> \<le> 1 / 2"
proof -
  have "of_int \<lfloor>y\<rfloor> \<le> y" "y < of_int \<lfloor>y\<rfloor> + 1" using floor_correct[of y] by auto
  then show ?thesis unfolding rhe_def Let_def abs_if
    by (cases "y - of_int \<lfloor>y\<rfloor> < 1 / 2"; cases "1 / 2 < y - of_int \<lfloor>y\<rfloor>"; cases "even \<lfloor>y\<rfloor>"; simp; linarith?)
qed

subsection \<open>Rounding of positive rationals\<close>

lemma powi2_int: "0 \<le> k \<Longrightarrow> (2::rat) powi k = of_int (2 ^ nat k)"
  by (simp add: power_int_def)

lemma rnd_pos_exact_grid:
  assumes "x = of_int m * 2 powi k" and "grid x \<le> k"
  shows "rnd_pos x = x"
proof -
  have "2 powi k / (2::rat) powi grid x = 2 powi (k - grid x)"
    by (simp add: power_int_diff)
  also have "\<dots> = of_int (2 ^ nat (k - grid x))"
    using assms(2) by (intro powi2_int) simp
  finally have "x / 2 powi grid x = of_int (m * 2 ^ nat (k - grid x))"
    by (simp only: assms(1) times_divide_eq_right[symmetric] of_int_mult)
  then show ?thesis
    unfolding rnd_pos_def by (metis nonzero_eq_divide_eq powi2_pos rhe_of_int less_irrefl)
qed

lemma rnd_pos_nonneg: "0 \<le> x \<Longrightarrow> 0 \<le> rnd_pos x"
  using rhe_ge_int[of 0 "x / 2 powi grid x"] by (simp add: rnd_pos_def)

lemma rnd_pos_mono:
  assumes "0 < x" and "x \<le> z"
  shows "rnd_pos x \<le> rnd_pos z"
proof (cases "grid x = grid z")
  case True
  have "x / 2 powi grid z \<le> z / 2 powi grid z"
    using assms by (simp add: divide_right_mono)
  then show ?thesis unfolding rnd_pos_def True by (simp add: rhe_mono)
next
  case False
  then have lt: "grid x < grid z" using grid_mono[OF assms] by simp
  let ?L = "ilog2 z"
  have gz: "grid z = ?L - 52" using lt by (auto simp: grid_def max_def split: if_splits)
  have lx: "ilog2 x < ?L" using lt by (auto simp: grid_def max_def split: if_splits)
  have "x \<le> 2 powi ?L" using lx assms(1) by (simp add: ilog2_less_iff)
  then have "x / 2 powi grid x \<le> 2 powi ?L / 2 powi grid x"
    by (simp add: divide_right_mono)
  also have "\<dots> = of_int (2 ^ nat (?L - grid x))"
    using lt gz by (subst powi2_int[symmetric]) (simp_all add: power_int_diff)
  finally have "rhe (x / 2 powi grid x) \<le> 2 ^ nat (?L - grid x)"
    by (rule rhe_le_int)
  then have "rnd_pos x \<le> of_int (2 ^ nat (?L - grid x)) * 2 powi grid x"
    unfolding rnd_pos_def by (intro mult_right_mono) (simp_all only: of_int_le_iff, simp)
  also have "\<dots> = 2 powi ?L"
    using lt gz by (subst powi2_int[symmetric]) (simp_all flip: power_int_add)
  finally have 1: "rnd_pos x \<le> 2 powi ?L" .
  have "of_int (2 ^ nat (?L - grid z)) \<le> z / 2 powi grid z"
  proof -
    have "of_int (2 ^ nat (?L - grid z)) = (2::rat) powi ?L / 2 powi grid z"
      using gz by (subst powi2_int[symmetric]) (simp_all add: power_int_diff)
    also have "\<dots> \<le> z / 2 powi grid z"
      using ilog2_bounds(1)[of z] assms by (simp add: divide_right_mono)
    finally show ?thesis .
  qed
  then have "2 ^ nat (?L - grid z) \<le> rhe (z / 2 powi grid z)"
    by (rule rhe_ge_int)
  then have "of_int (2 ^ nat (?L - grid z)) * 2 powi grid z \<le> rnd_pos z"
    unfolding rnd_pos_def by (intro mult_right_mono) (simp_all only: of_int_le_iff, simp)
  moreover have "of_int (2 ^ nat (?L - grid z)) * 2 powi grid z = (2::rat) powi ?L"
    using gz by (subst powi2_int[symmetric]) (simp_all add: power_int_diff)
  ultimately show ?thesis using 1 by simp
qed

lemma rnd_pos_scaled:
  assumes "0 < x" and "x = of_int m * 2 powi k" and "m \<le> 2 ^ 53" and "- 1074 \<le> k"
  shows "rnd_pos x = x"
proof (cases "m < 2 ^ 53")
  case True
  have "(of_int m :: rat) < of_int (2 ^ 53)" using True by (simp only: of_int_less_iff)
  then have "x < of_int (2 ^ 53) * 2 powi k"
    unfolding assms(2) by (rule mult_strict_right_mono) simp
  also have "\<dots> = 2 powi (53 + k)"
    by (simp add: power_int_add)
  finally have "grid x \<le> k" using assms(1,4) by (simp add: grid_def ilog2_less_iff[symmetric])
  with assms(2) show ?thesis by (rule rnd_pos_exact_grid)
next
  case False
  then have m: "m = 2 ^ 53" using assms(3) by simp
  have x: "x = of_int (2 ^ 52) * 2 powi (k + 1)"
    by (simp add: assms(2) m power_int_add)
  then have "x < 2 powi (54 + k)" by (simp add: power_int_add)
  then have "grid x \<le> k + 1" using assms(1,4) by (simp add: grid_def ilog2_less_iff[symmetric])
  with x show ?thesis by (rule rnd_pos_exact_grid)
qed

section \<open>The order on numbers\<close>

text \<open>\<open><\<close>, \<open><=\<close> and \<open>===\<close> on numbers: every comparison with NaN is false.\<close>

fun jlt :: "jnum \<Rightarrow> jnum \<Rightarrow> bool" where
  "jlt (Fin a) (Fin b) = (a < b)"
| "jlt NInf (Fin b) = True"
| "jlt NInf PInf = True"
| "jlt (Fin a) PInf = True"
| "jlt _ _ = False"

definition jnumeq :: "jnum \<Rightarrow> jnum \<Rightarrow> bool" where
  "jnumeq a b \<longleftrightarrow> a \<noteq> NaN \<and> a = b"

definition jle :: "jnum \<Rightarrow> jnum \<Rightarrow> bool" where
  "jle a b \<longleftrightarrow> jlt a b \<or> jnumeq a b"

definition is_finite :: "jnum \<Rightarrow> bool" where
  "is_finite a \<longleftrightarrow> (case a of Fin _ \<Rightarrow> True | _ \<Rightarrow> False)"

lemma is_finite_simps [simp, js_eval]:
  "is_finite (Fin a)" "\<not> is_finite NaN" "\<not> is_finite PInf" "\<not> is_finite NInf"
  by (simp_all add: is_finite_def)

lemma jle_simps [simp, js_eval]:
  "jle (Fin a) (Fin b) \<longleftrightarrow> a \<le> b"
  "jle (Fin a) PInf" "jle NInf (Fin a)" "jle PInf PInf" "jle NInf NInf" "jle NInf PInf"
  "\<not> jle PInf (Fin a)" "\<not> jle (Fin a) NInf" "\<not> jle PInf NInf"
  "\<not> jle NaN u" "\<not> jle u NaN"
  by (auto simp: jle_def jnumeq_def)

lemma jnumeq_simps [simp, js_eval]:
  "jnumeq (Fin a) (Fin b) \<longleftrightarrow> a = b" "\<not> jnumeq NaN u" "\<not> jnumeq u NaN"
  by (auto simp: jnumeq_def)

lemma jlt_NaN [simp]: "\<not> jlt NaN b" "\<not> jlt a NaN"
  by (cases b; simp) (cases a; simp)

lemma jle_refl: "a \<noteq> NaN \<Longrightarrow> jle a a"
  by (simp add: jle_def jnumeq_def)

lemma jle_trans: "jle a b \<Longrightarrow> jle b c \<Longrightarrow> jle a c"
  by (cases a; cases b; cases c) auto

lemma not_jlt: "a \<noteq> NaN \<Longrightarrow> b \<noteq> NaN \<Longrightarrow> \<not> jlt a b \<longleftrightarrow> jle b a"
  by (cases a; cases b) auto

lemma jle_antisym: "jle a b \<Longrightarrow> jle b a \<Longrightarrow> a = b"
  by (cases a; cases b) auto

lemma jle_PInf: "a \<noteq> NaN \<Longrightarrow> jle a PInf"
  and jle_NInf: "a \<noteq> NaN \<Longrightarrow> jle NInf a"
  by (cases a; simp)+

section \<open>Properties of rounding\<close>

lemma rnd_not_NaN [simp]: "rnd x \<noteq> NaN"
  by (simp add: rnd_def Let_def)

lemma rnd_0 [simp, js_eval]: "rnd 0 = Fin 0"
  by (simp add: rnd_def)

lemma rnd_mono:
  assumes "x \<le> z"
  shows "jle (rnd x) (rnd z)"
proof -
  consider "0 < x" | "x = 0" | "z = 0" | "x < 0" "0 < z" | "z < 0" using assms by linarith
  then show ?thesis
  proof cases
    case 1
    then have "rnd_pos x \<le> rnd_pos z" using assms by (intro rnd_pos_mono) auto
    then show ?thesis using 1 assms by (auto simp: rnd_def Let_def)
  next
    case 2
    then show ?thesis using assms rnd_pos_nonneg[of z] by (auto simp: rnd_def Let_def)
  next
    case 3
    then show ?thesis using assms rnd_pos_nonneg[of "- x"] by (auto simp: rnd_def Let_def)
  next
    case 4
    then show ?thesis using rnd_pos_nonneg[of z] rnd_pos_nonneg[of "- x"]
      by (auto simp: rnd_def Let_def)
  next
    case 5
    then have "rnd_pos (- z) \<le> rnd_pos (- x)" using assms by (intro rnd_pos_mono) auto
    then show ?thesis using 5 assms by (auto simp: rnd_def Let_def)
  qed
qed

lemma rnd_nonneg: "0 \<le> x \<Longrightarrow> jle (Fin 0) (rnd x)"
  using rnd_mono[of 0 x] by simp

lemma rnd_uminus: "rnd (- x) = (case rnd x of NaN \<Rightarrow> NaN | PInf \<Rightarrow> NInf | NInf \<Rightarrow> PInf | Fin a \<Rightarrow> Fin (- a))"
  by (auto simp: rnd_def Let_def)

text \<open>The values a variable of the program can hold: the fixed points of rounding.\<close>

definition is_double :: "rat \<Rightarrow> bool" where
  "is_double x \<longleftrightarrow> rnd x = Fin x"

lemma is_double_rnd: "is_double x \<Longrightarrow> rnd x = Fin x"
  by (simp add: is_double_def)

lemma is_double_bounded:
  assumes "x = of_int m * 2 powi k" and "\<bar>m\<bar> \<le> 2 ^ 53" and "- 1074 \<le> k" and big: "\<bar>x\<bar> < 2 ^ 1024"
  shows "is_double x"
proof -
  consider "x = 0" | "0 < x" | "x < 0" by linarith
  then show ?thesis
  proof cases
    case 2
    have "rnd_pos x = x" using 2 assms by (intro rnd_pos_scaled[where m = m and k = k]) auto
    then show ?thesis using 2 big by (simp add: is_double_def rnd_def Let_def)
  next
    case 3
    have "rnd_pos (- x) = - x" using 3 assms by (intro rnd_pos_scaled[where m = "- m" and k = k]) auto
    then show ?thesis using 3 big by (simp add: is_double_def rnd_def Let_def)
  qed (simp add: is_double_def)
qed

lemma is_double_scaled:
  assumes "x = of_int m * 2 powi k" and "\<bar>m\<bar> \<le> 2 ^ 53" and "- 1074 \<le> k" and "k \<le> 970"
  shows "is_double x"
proof -
  have "\<bar>x\<bar> = of_int \<bar>m\<bar> * 2 powi k" unfolding assms(1) abs_mult by simp
  also have "\<dots> \<le> of_int (2 ^ 53) * 2 powi 970"
    using assms(2,4) by (intro mult_mono) (simp_all only: of_int_le_iff powi2_mono, simp_all)
  also have "\<dots> < 2 ^ 1024" by (simp add: power_int_def)
  finally show ?thesis using assms by (intro is_double_bounded)
qed

text \<open>Rounding gives doubles: a rounded positive number is at most 53 bits on its grid.\<close>

lemma rnd_pos_form:
  assumes "0 < u"
  shows "\<exists>m k. rnd_pos u = of_int m * 2 powi k \<and> 0 \<le> m \<and> m \<le> 2 ^ 53 \<and> - 1074 \<le> k"
proof -
  define g where "g = grid u"
  have g: "ilog2 u - 52 \<le> g" "- 1074 \<le> g" by (simp_all add: g_def grid_def)
  have "u < 2 powi (ilog2 u + 1)" using ilog2_bounds(2)[OF assms] .
  also have "\<dots> \<le> 2 powi (53 + g)" using g by (intro powi2_mono) simp
  also have "\<dots> = 2 powi 53 * 2 powi g" by (simp add: power_int_add)
  finally have "u / 2 powi g \<le> of_int (2 ^ 53)" by (simp add: pos_divide_le_eq)
  then have "rhe (u / 2 powi g) \<le> 2 ^ 53" by (rule rhe_le_int)
  moreover have "0 \<le> rhe (u / 2 powi g)" using assms by (intro rhe_ge_int) simp
  ultimately show ?thesis using g(2) unfolding rnd_pos_def g_def[symmetric] by blast
qed

lemma rnd_is_double:
  assumes "rnd x = Fin y"
  shows "is_double y"
proof (cases "x = 0")
  case False
  then obtain m k where mk: "rnd_pos \<bar>x\<bar> = of_int m * 2 powi k" "0 \<le> m" "m \<le> 2 ^ 53" "- 1074 \<le> k"
    using rnd_pos_form[of "\<bar>x\<bar>"] by auto
  have "y = rnd_pos \<bar>x\<bar> \<or> y = - rnd_pos \<bar>x\<bar>" "\<bar>y\<bar> < 2 ^ 1024"
    using assms False rnd_pos_nonneg[of "\<bar>x\<bar>"] by (auto simp: rnd_def Let_def split: if_splits)
  then show ?thesis
    using mk is_double_bounded[of y m k] is_double_bounded[of y "- m" k] by auto
qed (use assms in \<open>simp add: is_double_def\<close>)

lemma is_double_of_int: "\<bar>n\<bar> \<le> 2 ^ 53 \<Longrightarrow> is_double (of_int n)"
  by (rule is_double_scaled[where m = n and k = 0]) simp_all

lemma is_double_numeral:
  "numeral w \<le> (2::int) ^ 53 \<Longrightarrow> is_double (numeral w)"
  "numeral w \<le> (2::int) ^ 53 \<Longrightarrow> is_double (- numeral w)"
  "is_double 0" "is_double 1" "is_double (- 1)"
  using is_double_of_int[of "numeral w"] is_double_of_int[of "- numeral w"]
    is_double_of_int[of 0] is_double_of_int[of 1] is_double_of_int[of "- 1"] by simp_all

lemma rnd_of_int: "\<bar>n\<bar> \<le> 2 ^ 53 \<Longrightarrow> rnd (of_int n) = Fin (of_int n)"
  using is_double_of_int by (simp add: is_double_def)

lemma rnd_numeral [simp, js_eval]:
  "numeral w \<le> (2::int) ^ 53 \<Longrightarrow> rnd (numeral w) = Fin (numeral w)"
  "numeral w \<le> (2::int) ^ 53 \<Longrightarrow> rnd (- numeral w) = Fin (- numeral w)"
  "rnd 1 = Fin 1" "rnd (- 1) = Fin (- 1)"
  using is_double_numeral by (simp_all add: is_double_def)

lemma jle_rnd_double: "is_double x \<Longrightarrow> x \<le> y \<Longrightarrow> jle (Fin x) (rnd y)"
  using rnd_mono[of x y] by (simp add: is_double_def)

lemma jle_rnd_double2: "is_double x \<Longrightarrow> y \<le> x \<Longrightarrow> jle (rnd y) (Fin x)"
  using rnd_mono[of y x] by (simp add: is_double_def)

section \<open>Arithmetic\<close>

fun jneg :: "jnum \<Rightarrow> jnum" where
  "jneg NaN = NaN"
| "jneg PInf = NInf"
| "jneg NInf = PInf"
| "jneg (Fin a) = Fin (- a)"

fun jadd :: "jnum \<Rightarrow> jnum \<Rightarrow> jnum" where
  "jadd (Fin a) (Fin b) = rnd (a + b)"
| "jadd NaN _ = NaN"
| "jadd _ NaN = NaN"
| "jadd PInf NInf = NaN"
| "jadd NInf PInf = NaN"
| "jadd PInf _ = PInf"
| "jadd _ PInf = PInf"
| "jadd NInf _ = NInf"
| "jadd _ NInf = NInf"

definition jsub :: "jnum \<Rightarrow> jnum \<Rightarrow> jnum" where
  "jsub a b = jadd a (jneg b)"

definition jinf :: "bool \<Rightarrow> jnum" where
  "jinf pos = (if pos then PInf else NInf)"

fun jmul :: "jnum \<Rightarrow> jnum \<Rightarrow> jnum" where
  "jmul (Fin a) (Fin b) = rnd (a * b)"
| "jmul NaN _ = NaN"
| "jmul _ NaN = NaN"
| "jmul (Fin a) PInf = (if a = 0 then NaN else jinf (0 < a))"
| "jmul (Fin a) NInf = (if a = 0 then NaN else jinf (a < 0))"
| "jmul PInf (Fin b) = (if b = 0 then NaN else jinf (0 < b))"
| "jmul NInf (Fin b) = (if b = 0 then NaN else jinf (b < 0))"
| "jmul PInf PInf = PInf"
| "jmul NInf NInf = PInf"
| "jmul PInf NInf = NInf"
| "jmul NInf PInf = NInf"

fun jdiv :: "jnum \<Rightarrow> jnum \<Rightarrow> jnum" where
  "jdiv (Fin a) (Fin b) = (if b = 0 then (if a = 0 then NaN else jinf (0 < a)) else rnd (a / b))"
| "jdiv NaN _ = NaN"
| "jdiv _ NaN = NaN"
| "jdiv (Fin a) _ = Fin 0"
| "jdiv PInf (Fin b) = jinf (0 \<le> b)"
| "jdiv NInf (Fin b) = jinf (b < 0)"
| "jdiv _ _ = NaN"

fun jabs :: "jnum \<Rightarrow> jnum" where
  "jabs (Fin a) = Fin \<bar>a\<bar>"
| "jabs NaN = NaN"
| "jabs _ = PInf"

text \<open>\<open>Math.min\<close>, \<open>Math.max\<close>: NaN if either argument is.\<close>

definition jmin :: "jnum \<Rightarrow> jnum \<Rightarrow> jnum" where
  "jmin a b = (if a = NaN \<or> b = NaN then NaN else if jlt b a then b else a)"

definition jmax :: "jnum \<Rightarrow> jnum \<Rightarrow> jnum" where
  "jmax a b = (if a = NaN \<or> b = NaN then NaN else if jlt a b then b else a)"

text \<open>
  \<open>Math.floor\<close>, \<open>Math.ceil\<close>, \<open>Math.trunc\<close> and \<open>Math.round\<close> (ties towards plus infinity):
  their results are integers no farther from the argument than one, so no rounding of
  the result is needed.
\<close>

definition jfloor :: "jnum \<Rightarrow> jnum" where
  "jfloor a = (case a of Fin r \<Rightarrow> Fin (of_int \<lfloor>r\<rfloor>) | _ \<Rightarrow> a)"

definition jceil :: "jnum \<Rightarrow> jnum" where
  "jceil a = (case a of Fin r \<Rightarrow> Fin (of_int \<lceil>r\<rceil>) | _ \<Rightarrow> a)"

definition jtrunc :: "jnum \<Rightarrow> jnum" where
  "jtrunc a = (case a of Fin r \<Rightarrow> Fin (of_int (if 0 \<le> r then \<lfloor>r\<rfloor> else \<lceil>r\<rceil>)) | _ \<Rightarrow> a)"

definition jround :: "jnum \<Rightarrow> jnum" where
  "jround a = (case a of Fin r \<Rightarrow> Fin (of_int \<lfloor>r + 1 / 2\<rfloor>) | _ \<Rightarrow> a)"

definition jsign :: "jnum \<Rightarrow> jnum" where
  "jsign a = (case a of Fin r \<Rightarrow> Fin (sgn r) | PInf \<Rightarrow> Fin 1 | NInf \<Rightarrow> Fin (- 1) | NaN \<Rightarrow> NaN)"

definition is_integer :: "jnum \<Rightarrow> bool" where
  "is_integer a \<longleftrightarrow> (case a of Fin r \<Rightarrow> r = of_int \<lfloor>r\<rfloor> | _ \<Rightarrow> False)"

text \<open>
  \<open>a ** n\<close> for a non-negative integer exponent, correctly rounded. (ECMAScript leaves the
  last digit of a power that is not representable to the implementation.)
\<close>

definition jpow :: "jnum \<Rightarrow> jnum \<Rightarrow> jnum" where
  "jpow a n = (case (a, n) of
       (Fin r, Fin k) \<Rightarrow> if 0 \<le> k \<and> k = of_int \<lfloor>k\<rfloor> then rnd (r ^ nat \<lfloor>k\<rfloor>) else NaN
     | _ \<Rightarrow> NaN)"

subsection \<open>Laws\<close>

lemma jround_Fin [js_eval]: "jround (Fin r) = Fin (of_int \<lfloor>r + 1 / 2\<rfloor>)"
  and jfloor_Fin [js_eval]: "jfloor (Fin r) = Fin (of_int \<lfloor>r\<rfloor>)"
  and jceil_Fin [js_eval]: "jceil (Fin r) = Fin (of_int \<lceil>r\<rceil>)"
  by (simp_all add: jround_def jfloor_def jceil_def)

lemma jlt_asym: "jlt a b \<Longrightarrow> \<not> jlt b a"
  by (cases a; cases b) auto

lemma jround_mono: "jle a b \<Longrightarrow> jle (jround a) (jround b)"
  by (cases a; cases b) (auto simp: jround_def floor_mono)

lemma jadd_mono:
  assumes "jle a b" "jle c d" "jadd a c \<noteq> NaN" "jadd b d \<noteq> NaN"
  shows "jle (jadd a c) (jadd b d)"
  using assms
  by (cases a; cases b; cases c; cases d; simp add: rnd_mono add_mono jle_PInf jle_NInf)

lemma jle_jadd_nonneg:
  assumes "is_double p" and "jle (Fin 0) c"
  shows "jle (Fin p) (jadd (Fin p) c)"
  using assms by (cases c) (auto intro!: jle_rnd_double)

lemma jle_jsub_nonneg:
  assumes "is_double p" and "jle (Fin 0) c"
  shows "jle (jsub (Fin p) c) (Fin p)"
  using assms by (cases c) (auto simp: jsub_def intro!: jle_rnd_double2)

lemma jmin_le: "a \<noteq> NaN \<Longrightarrow> b \<noteq> NaN \<Longrightarrow> jle (jmin a b) a \<and> jle (jmin a b) b"
  by (auto simp: jmin_def not_jlt jle_refl jle_def jnumeq_def)

lemma jmax_ge: "a \<noteq> NaN \<Longrightarrow> b \<noteq> NaN \<Longrightarrow> jle a (jmax a b) \<and> jle b (jmax a b)"
  by (auto simp: jmax_def not_jlt jle_refl jle_def jnumeq_def)

lemma jadd_int:
  assumes "\<bar>m + n\<bar> \<le> 2 ^ 53"
  shows "jadd (Fin (of_int m)) (Fin (of_int n)) = Fin (of_int (m + n))"
  using rnd_of_int[OF assms] by simp

text \<open>Amounts: non-negative numbers that a variable can hold.\<close>

definition amount :: "jnum \<Rightarrow> bool" where
  "amount n \<longleftrightarrow> (case n of Fin r \<Rightarrow> 0 \<le> r \<and> is_double r | PInf \<Rightarrow> True | _ \<Rightarrow> False)"

lemma amount_not_NaN: "amount n \<Longrightarrow> n \<noteq> NaN"
  by (auto simp: amount_def)

lemma amount_int: "0 \<le> i \<Longrightarrow> i \<le> 2 ^ 53 \<Longrightarrow> amount (Fin (of_int i))"
  by (simp add: amount_def is_double_of_int)

lemma amount_jadd:
  assumes "amount a" and "amount b"
  shows "amount (jadd a b)" and "jle a (jadd a b)"
proof -
  have "amount (rnd x)" if "0 \<le> x" for x
    using rnd_nonneg[OF that] rnd_is_double[of x] by (cases "rnd x") (auto simp: amount_def)
  then show "amount (jadd a b)"
    using assms by (cases a; cases b) (auto simp: amount_def)
  show "jle a (jadd a b)"
    using assms by (cases a; cases b) (auto simp: amount_def intro!: jle_rnd_double)
qed

lemma jadd_amount_mono: "jle a b \<Longrightarrow> amount a \<Longrightarrow> amount b \<Longrightarrow> amount c \<Longrightarrow> jle (jadd a c) (jadd b c)"
  using jadd_mono[of a b c c] amount_jadd(1)[of a c] amount_jadd(1)[of b c] amount_not_NaN jle_refl by blast

end
