(* ===== verification/Js_String.thy ===== *)
theory Js_String
  imports Js_Number "HOL-Library.Char_ord" "HOL-Library.List_Lexorder"
begin

text \<open>
  The string operations the modelled code uses, on \<open>char list\<close>: a string of the model is a
  sequence of UTF-16 code units below 256 and case mapping is the ASCII one (the desk's
  identifiers, codes and timestamps are ASCII). \<open>to_number_str\<close> is the conversion
  \<open>Number(s)\<close> of the language (StringToNumber) and \<open>num_str\<close> is \<open>String(n)\<close>
  (Number::toString in base ten, with the shortest digits that read back).
\<close>

abbreviation code :: "char \<Rightarrow> nat" where
  "code c \<equiv> of_char c"

section \<open>Trimming and case\<close>

definition is_space :: "char \<Rightarrow> bool" where
  "is_space c \<longleftrightarrow> code c \<in> {9, 10, 11, 12, 13, 32, 160}"

definition trim :: "string \<Rightarrow> string" where
  "trim s = rev (dropWhile is_space (rev (dropWhile is_space s)))"

lemma trim_idem [simp]: "trim (trim s) = trim s"
proof -
  define u where "u = dropWhile is_space s"
  define w where "w = rev (dropWhile is_space (rev u))"
  have w: "trim s = w" by (simp add: trim_def u_def w_def)
  have u_w: "u = w @ rev (takeWhile is_space (rev u))"
    unfolding w_def by (metis rev_append rev_rev_ident takeWhile_dropWhile_id)
  have "\<not> is_space (hd w)" if "w \<noteq> []"
  proof -
    have "hd u = hd w" using u_w that by (metis hd_append2)
    moreover have "u \<noteq> []" using that by (auto simp: w_def)
    ultimately show ?thesis unfolding u_def by (metis hd_dropWhile)
  qed
  then have "dropWhile is_space w = w" by (cases w) auto
  moreover have "dropWhile is_space (rev w) = rev w" by (simp add: w_def)
  ultimately have "trim w = w" by (simp add: trim_def)
  then show ?thesis by (simp add: w)
qed

lemma trim_Nil [simp]: "trim [] = []"
  by (simp add: trim_def)

definition upper_char :: "char \<Rightarrow> char" where
  "upper_char c = (if 97 \<le> code c \<and> code c \<le> 122 then char_of (code c - 32) else c)"

definition lower_char :: "char \<Rightarrow> char" where
  "lower_char c = (if 65 \<le> code c \<and> code c \<le> 90 then char_of (code c + 32) else c)"

definition to_upper :: "string \<Rightarrow> string" where
  "to_upper s = List.map upper_char s"

definition to_lower :: "string \<Rightarrow> string" where
  "to_lower s = List.map lower_char s"

lemma code_lower: "code (lower_char c) = (if 65 \<le> code c \<and> code c \<le> 90 then code c + 32 else code c)"
  by (simp add: lower_char_def)

lemma is_space_lower: "is_space (lower_char c) = is_space c"
  by (simp add: is_space_def code_lower)

lemma trim_to_lower: "trim (to_lower s) = to_lower (trim s)"
  by (simp add: trim_def to_lower_def rev_map dropWhile_map comp_def is_space_lower)

lemma to_lower_idem [simp]: "to_lower (to_lower s) = to_lower s"
proof -
  have "lower_char (lower_char c) = lower_char c" for c
    unfolding lower_char_def[of "lower_char c"] code_lower by auto
  then show ?thesis by (simp add: to_lower_def)
qed

lemma to_lower_Nil_iff [simp]: "to_lower s = [] \<longleftrightarrow> s = []"
  by (simp add: to_lower_def)

text \<open>\<open>replaceAll\<close> of one character by another.\<close>

definition replace_char :: "char \<Rightarrow> char \<Rightarrow> string \<Rightarrow> string" where
  "replace_char a b s = List.map (\<lambda>c. if c = a then b else c) s"

section \<open>Searching\<close>

fun starts_with :: "string \<Rightarrow> string \<Rightarrow> bool" where
  "starts_with s [] = True"
| "starts_with [] (p # ps) = False"
| "starts_with (c # s) (p # ps) = (c = p \<and> starts_with s ps)"

definition ends_with :: "string \<Rightarrow> string \<Rightarrow> bool" where
  "ends_with s p = starts_with (rev s) (rev p)"

fun str_includes :: "string \<Rightarrow> string \<Rightarrow> bool" where
  "str_includes [] p = (p = [])"
| "str_includes (c # s) p = (starts_with (c # s) p \<or> str_includes s p)"

text \<open>\<open>s.replace(p, r)\<close> with a string pattern: the first occurrence only.\<close>

fun replace_first :: "string \<Rightarrow> string \<Rightarrow> string \<Rightarrow> string" where
  "replace_first p r [] = (if p = [] then r else [])"
| "replace_first p r (c # s) =
     (if starts_with (c # s) p then r @ drop (length p) (c # s) else c # replace_first p r s)"

definition is_digit :: "char \<Rightarrow> bool" where
  "is_digit c \<longleftrightarrow> 48 \<le> code c \<and> code c \<le> 57"

definition is_upper_letter :: "char \<Rightarrow> bool" where
  "is_upper_letter c \<longleftrightarrow> 65 \<le> code c \<and> code c \<le> 90"

definition is_lower_letter :: "char \<Rightarrow> bool" where
  "is_lower_letter c \<longleftrightarrow> 97 \<le> code c \<and> code c \<le> 122"

definition is_hex_digit :: "char \<Rightarrow> bool" where
  "is_hex_digit c \<longleftrightarrow> is_digit c \<or> 97 \<le> code c \<and> code c \<le> 102 \<or> 65 \<le> code c \<and> code c \<le> 70"

section \<open>Numbers to and from strings\<close>

definition digit_val :: "char \<Rightarrow> int" where
  "digit_val c =
     (if is_digit c then int (code c) - 48
      else if 97 \<le> code c then int (code c) - 87 else int (code c) - 55)"

definition digits_val :: "int \<Rightarrow> string \<Rightarrow> int" where
  "digits_val base s = foldl (\<lambda>n c. n * base + digit_val c) 0 s"

definition digit_char :: "int \<Rightarrow> char" where
  "digit_char d = char_of (nat (if d < 10 then 48 + d else 87 + d))"

text \<open>The decimal digits of a non-negative integer.\<close>

function nat_str :: "int \<Rightarrow> string" where
  "nat_str n = (if n < 10 then [digit_char n] else nat_str (n div 10) @ [digit_char (n mod 10)])"
  by pat_completeness auto
termination
  by (relation "measure nat") auto

declare nat_str.simps [simp del]

definition int_str :: "int \<Rightarrow> string" where
  "int_str i = (if i < 0 then ''-'' @ nat_str (- i) else nat_str i)"

subsection \<open>\<open>Number(s)\<close>\<close>

definition parse_exponent :: "string \<Rightarrow> int option" where
  "parse_exponent s =
     (case s of [] \<Rightarrow> Some 0
      | c # r \<Rightarrow>
        if c = CHR ''e'' \<or> c = CHR ''E'' then
          (let (neg, ds) = (case r of x # ys \<Rightarrow> if x = CHR ''-'' then (True, ys)
                              else if x = CHR ''+'' then (False, ys) else (False, r)
                            | [] \<Rightarrow> (False, r))
           in if ds \<noteq> [] \<and> list_all is_digit ds
              then Some (if neg then - digits_val 10 ds else digits_val 10 ds)
              else None)
        else None)"

definition parse_unsigned :: "string \<Rightarrow> rat option" where
  "parse_unsigned s =
     (let i = takeWhile is_digit s; r = dropWhile is_digit s;
          (f, t) = (case r of x # ys \<Rightarrow> if x = CHR ''.''
                      then (takeWhile is_digit ys, dropWhile is_digit ys) else ([], r)
                    | [] \<Rightarrow> ([], r))
      in if i = [] \<and> f = [] then None
         else map_option (\<lambda>e. of_int (digits_val 10 (i @ f)) * 10 powi (e - int (length f)))
                (parse_exponent t))"

definition parse_based :: "string \<Rightarrow> rat option" where
  "parse_based s =
     (case s of z # x # ds \<Rightarrow>
        if z \<noteq> CHR ''0'' \<or> ds = [] then None
        else if (x = CHR ''x'' \<or> x = CHR ''X'') \<and> list_all is_hex_digit ds
        then Some (of_int (digits_val 16 ds))
        else if (x = CHR ''o'' \<or> x = CHR ''O'') \<and> list_all (\<lambda>c. 48 \<le> code c \<and> code c \<le> 55) ds
        then Some (of_int (digits_val 8 ds))
        else if (x = CHR ''b'' \<or> x = CHR ''B'') \<and> list_all (\<lambda>c. 48 \<le> code c \<and> code c \<le> 49) ds
        then Some (of_int (digits_val 2 ds))
        else None
      | _ \<Rightarrow> None)"

definition parse_signed :: "string \<Rightarrow> jnum" where
  "parse_signed s =
     (let (neg, u) = (case s of x # ys \<Rightarrow> if x = CHR ''-'' then (True, ys)
                        else if x = CHR ''+'' then (False, ys) else (False, s)
                      | [] \<Rightarrow> (False, s))
      in if u = ''Infinity'' then jinf (\<not> neg)
         else case parse_unsigned u of None \<Rightarrow> NaN | Some q \<Rightarrow> rnd (if neg then - q else q))"

definition to_number_str :: "string \<Rightarrow> jnum" where
  "to_number_str s =
     (let t = trim s in
      if t = [] then Fin 0
      else case parse_based t of Some q \<Rightarrow> rnd q | None \<Rightarrow> parse_signed t)"

subsection \<open>\<open>String(n)\<close>\<close>

definition dec_exp :: "rat \<Rightarrow> int" where
  "dec_exp r = (if 1 \<le> r then int (length (nat_str \<lfloor>r\<rfloor>))
                else 1 - int (length (nat_str (\<lceil>1 / r\<rceil> - 1))))"

definition reads_back :: "rat \<Rightarrow> int \<Rightarrow> int \<Rightarrow> bool" where
  "reads_back r s p \<longleftrightarrow> rnd (of_int s * 10 powi p) = Fin r"

text \<open>
  The fewest digits \<open>s\<close>, with their scale \<open>p\<close>, such that \<open>s * 10 ^ p\<close> reads back as \<open>r\<close>;
  seventeen digits always do.
\<close>

fun shortest_digits :: "nat \<Rightarrow> rat \<Rightarrow> int \<Rightarrow> nat \<Rightarrow> int \<times> int" where
  "shortest_digits 0 r n k = (\<lfloor>r * 10 powi (17 - n)\<rfloor>, n - 17)"
| "shortest_digits (Suc fuel) r n k =
     (let y = r * 10 powi (int k - n); a = \<lfloor>y\<rfloor>; b = a + 1;
          near = (if y - of_int a \<le> 1 / 2 then a else b);
          far = (if near = a then b else a); p = n - int k
      in if reads_back r near p then (near, p)
         else if reads_back r far p then (far, p)
         else shortest_digits fuel r n (Suc k))"

definition strip_zeros :: "string \<Rightarrow> string" where
  "strip_zeros s = rev (dropWhile (\<lambda>c. c = CHR ''0'') (rev s))"

definition pos_num_str :: "rat \<Rightarrow> string" where
  "pos_num_str r =
     (let (s, p) = shortest_digits 17 r (dec_exp r) 1;
          n = p + int (length (nat_str s));
          ds = strip_zeros (nat_str s); k = int (length ds)
      in if k \<le> n \<and> n \<le> 21 then ds @ replicate (nat (n - k)) (CHR ''0'')
         else if 0 < n \<and> n \<le> 21 then take (nat n) ds @ ''.'' @ drop (nat n) ds
         else if - 6 < n \<and> n \<le> 0 then ''0.'' @ replicate (nat (- n)) (CHR ''0'') @ ds
         else (let e = n - 1;
                   es = (if e < 0 then ''-'' else ''+'') @ nat_str \<bar>e\<bar>
               in if k = 1 then ds @ ''e'' @ es
                  else take 1 ds @ ''.'' @ drop 1 ds @ ''e'' @ es))"

definition num_str :: "jnum \<Rightarrow> string" where
  "num_str a = (case a of NaN \<Rightarrow> ''NaN'' | PInf \<Rightarrow> ''Infinity'' | NInf \<Rightarrow> ''-Infinity''
     | Fin r \<Rightarrow> if r = 0 then ''0'' else if r < 0 then ''-'' @ pos_num_str (- r) else pos_num_str r)"

end
