(* ===== verification/Js_Date.thy ===== *)
theory Js_Date
  imports Js_String "HOL-Library.Monad_Syntax"
begin

text \<open>
  The part of JavaScript's \<open>Date\<close> the code uses. An instant is an integer number of
  milliseconds since the epoch. \<open>to_iso\<close> is \<open>new Date(t).toISOString()\<close>, \<open>None\<close> where it
  throws a RangeError; \<open>iso_parse\<close> reads the date-time string format of ECMAScript in the
  forms that do not depend on the local time zone (a date alone, or a date and time with
  \<open>Z\<close> or an explicit offset). Every other string is left to the host: what
  \<open>Date.parse\<close> returns for it is implementation-defined. The main fact is the round trip
  \<open>iso_parse_to_iso\<close>.
\<close>

section \<open>The proleptic Gregorian calendar\<close>

definition day_from_year :: "int \<Rightarrow> int" where
  "day_from_year y = 365 * (y - 1970) + (y - 1969) div 4 - (y - 1901) div 100 + (y - 1601) div 400"

definition is_leap :: "int \<Rightarrow> bool" where
  "is_leap y \<longleftrightarrow> y mod 4 = 0 \<and> (y mod 100 \<noteq> 0 \<or> y mod 400 = 0)"

definition month_starts :: "bool \<Rightarrow> int list" where
  "month_starts leap =
     (if leap then [0, 31, 60, 91, 121, 152, 182, 213, 244, 274, 305, 335, 366]
      else [0, 31, 59, 90, 120, 151, 181, 212, 243, 273, 304, 334, 365])"

text \<open>\<open>month\<close> counts from 1, as the written date does.\<close>

definition month_start :: "int \<Rightarrow> int \<Rightarrow> int" where
  "month_start y month = month_starts (is_leap y) ! nat (month - 1)"

definition days_in_month :: "int \<Rightarrow> int \<Rightarrow> int" where
  "days_in_month y month = month_start y (month + 1) - month_start y month"

definition make_day :: "int \<Rightarrow> int \<Rightarrow> int \<Rightarrow> int" where
  "make_day y month d = day_from_year y + month_start y month + d - 1"

definition year_of_day :: "int \<Rightarrow> int" where
  "year_of_day n =
     (let y = 1970 + (n * 400) div 146097 in
      if n < day_from_year y then y - 1 else if day_from_year (y + 1) \<le> n then y + 1 else y)"

definition month_of :: "bool \<Rightarrow> int \<Rightarrow> int" where
  "month_of leap k = int (length (filter (\<lambda>m. m \<le> k) (month_starts leap)))"

lemma div_pred:
  fixes y m :: int
  assumes "0 < m"
  shows "(y - 1) div m = y div m - (if y mod m = 0 then 1 else 0)"
proof -
  have y: "y = m * (y div m) + y mod m" by simp
  show ?thesis
  proof (cases "y mod m = 0")
    case True
    have "m * (y div m - 1) = m * (y div m) - m" by (simp add: right_diff_distrib)
    then have "y - 1 = m * (y div m - 1) + (m - 1)" using y True by linarith
    then have "(y - 1) div m = y div m - 1" by (rule int_div_pos_eq) (use assms in simp_all)
    with True show ?thesis by simp
  next
    case False
    have "y - 1 = m * (y div m) + (y mod m - 1)" using y by (simp add: algebra_simps)
    moreover have "0 \<le> y mod m - 1" "y mod m - 1 < m"
      using False assms pos_mod_sign[of m y] pos_mod_bound[of m y] by linarith+
    ultimately have "(y - 1) div m = y div m" by (rule int_div_pos_eq)
    with False show ?thesis by simp
  qed
qed

lemma div_step:
  fixes y m c :: int
  assumes "0 < m"
  shows "(y + 1 - (c * m + 1)) div m = (y - (c * m + 1)) div m + (if y mod m = 0 then 1 else 0)"
proof -
  have shift: "(z - c * m) div m = z div m - c" for z
    using assms div_mult_self1[of m z "- c"] by simp
  have "y + 1 - (c * m + 1) = y - c * m" "y - (c * m + 1) = (y - 1) - c * m" by simp_all
  then show ?thesis using div_pred[OF assms, of y] by (simp only: shift)
qed

lemma day_from_year_Suc: "day_from_year (y + 1) = day_from_year y + (if is_leap y then 366 else 365)"
proof -
  have a: "(y + 1 - 1969) div 4 = (y - 1969) div 4 + (if y mod 4 = 0 then 1 else 0)"
    using div_step[of 4 y 492] by simp
  have b: "(y + 1 - 1901) div 100 = (y - 1901) div 100 + (if y mod 100 = 0 then 1 else 0)"
    using div_step[of 100 y 19] by simp
  have c: "(y + 1 - 1601) div 400 = (y - 1601) div 400 + (if y mod 400 = 0 then 1 else 0)"
    using div_step[of 400 y 4] by simp
  have "y mod 400 = 0 \<longrightarrow> y mod 100 = 0"
  proof
    assume "y mod 400 = 0"
    moreover have "y mod 400 mod 100 = y mod 100" by (rule mod_mod_cancel) simp
    ultimately show "y mod 100 = 0" by simp
  qed
  moreover have "y mod 100 = 0 \<longrightarrow> y mod 4 = 0"
  proof
    assume "y mod 100 = 0"
    moreover have "y mod 100 mod 4 = y mod 4" by (rule mod_mod_cancel) simp
    ultimately show "y mod 4 = 0" by simp
  qed
  ultimately show ?thesis unfolding day_from_year_def a b c is_leap_def
    by (cases "y mod 4 = 0"; cases "y mod 100 = 0"; cases "y mod 400 = 0") simp_all
qed

lemma div_bounds:
  fixes x m :: int
  assumes "0 < m"
  shows "m * (x div m) \<le> x" and "x < m * (x div m) + m"
  using assms pos_mod_sign[of m x] pos_mod_bound[of m x] mult_div_mod_eq[of m x] by linarith+

lemma day_from_year_bounds:
  "400 * day_from_year y \<le> 146097 * (y - 1970) + 600"
  "146097 * (y - 1970) - 600 \<le> 400 * day_from_year y"
proof -
  have f: "4 * ((y - 1969) div 4) \<le> y - 1969" "y - 1969 < 4 * ((y - 1969) div 4) + 4"
    "100 * ((y - 1901) div 100) \<le> y - 1901" "y - 1901 < 100 * ((y - 1901) div 100) + 100"
    "400 * ((y - 1601) div 400) \<le> y - 1601" "y - 1601 < 400 * ((y - 1601) div 400) + 400"
    by (intro div_bounds; simp)+
  then show "400 * day_from_year y \<le> 146097 * (y - 1970) + 600"
    "146097 * (y - 1970) - 600 \<le> 400 * day_from_year y"
    unfolding day_from_year_def by (simp_all add: algebra_simps)
qed

lemma year_of_day_bounds:
  "day_from_year (year_of_day n) \<le> n" "n < day_from_year (year_of_day n + 1)"
proof -
  define y where "y = 1970 + (n * 400) div 146097"
  have y: "146097 * (y - 1970) \<le> 400 * n" "400 * n < 146097 * (y - 1970) + 146097"
    using div_bounds[of 146097 "n * 400"] by (simp_all add: y_def)
  have lo: "day_from_year (y - 1) \<le> n"
    using day_from_year_bounds(1)[of "y - 1"] y by simp
  have hi: "n < day_from_year (y + 1 + 1)"
    using day_from_year_bounds(2)[of "y + 1 + 1"] y by simp
  show "day_from_year (year_of_day n) \<le> n"
    unfolding year_of_day_def y_def[symmetric] Let_def using lo by auto
  show "n < day_from_year (year_of_day n + 1)"
    unfolding year_of_day_def y_def[symmetric] Let_def using hi by auto
qed

lemma month_of_correct:
  assumes "0 \<le> k" and "k < (if leap then 366 else 365)"
  shows "1 \<le> month_of leap k \<and> month_of leap k \<le> 12
    \<and> month_starts leap ! nat (month_of leap k - 1) \<le> k
    \<and> k < month_starts leap ! nat (month_of leap k)"
  using assms by (cases leap) (auto simp: month_of_def month_starts_def)

section \<open>Fixed-width decimal numbers\<close>

fun pad :: "nat \<Rightarrow> int \<Rightarrow> string" where
  "pad 0 n = []"
| "pad (Suc k) n = pad k (n div 10) @ [digit_char (n mod 10)]"

definition take_digits :: "nat \<Rightarrow> string \<Rightarrow> (int \<times> string) option" where
  "take_digits k s =
     (if k \<le> length s \<and> list_all is_digit (take k s)
      then Some (digits_val 10 (take k s), drop k s) else None)"

definition expect :: "char \<Rightarrow> string \<Rightarrow> string option" where
  "expect c s = (case s of x # r \<Rightarrow> if x = c then Some r else None | [] \<Rightarrow> None)"

lemma expect_Cons [simp]: "expect c (c # r) = Some r"
  by (simp add: expect_def)

lemma length_pad [simp]: "length (pad k n) = k"
  by (induction k arbitrary: n) auto

lemma code_digit_char: "0 \<le> d \<Longrightarrow> d < 10 \<Longrightarrow> code (digit_char d) = nat (48 + d)"
  by (simp add: digit_char_def)

lemma is_digit_digit_char: "0 \<le> d \<Longrightarrow> d < 10 \<Longrightarrow> is_digit (digit_char d)"
  by (simp add: is_digit_def code_digit_char le_nat_iff nat_le_iff)

lemma digit_val_digit_char: "0 \<le> d \<Longrightarrow> d < 10 \<Longrightarrow> digit_val (digit_char d) = d"
  by (simp add: digit_val_def is_digit_digit_char code_digit_char)

lemma pad_digits: "list_all is_digit (pad k n)"
  by (induction k arbitrary: n) (auto simp: is_digit_digit_char)

lemma digits_val_pad: "digits_val 10 (pad k n) = n mod 10 ^ k"
proof (induction k arbitrary: n)
  case (Suc k)
  have "digits_val 10 (pad (Suc k) n) = (n div 10) mod 10 ^ k * 10 + n mod 10"
    using Suc[of "n div 10"] by (simp add: digits_val_def digit_val_digit_char)
  also have "\<dots> = n mod 10 ^ Suc k"
    by (simp add: zmod_zmult2_eq)
  finally show ?case .
qed (simp add: digits_val_def)

lemma take_digits_pad:
  "0 \<le> n \<Longrightarrow> n < 10 ^ k \<Longrightarrow> take_digits k (pad k n @ r) = Some (n, r)"
  by (simp add: take_digits_def pad_digits digits_val_pad)

section \<open>\<open>toISOString\<close>\<close>

abbreviation ms_per_day :: int where
  "ms_per_day \<equiv> 86400000"

definition time_limit :: int where
  "time_limit = 8640000000000000"

definition year_str :: "int \<Rightarrow> string" where
  "year_str y = (if 0 \<le> y \<and> y \<le> 9999 then pad 4 y
     else (if y < 0 then CHR ''-'' else CHR ''+'') # pad 6 \<bar>y\<bar>)"

definition date_str :: "int \<Rightarrow> string" where
  "date_str n =
     (let y = year_of_day n; k = n - day_from_year y; m = month_of (is_leap y) k
      in year_str y @ ''-'' @ pad 2 m @ ''-'' @ pad 2 (k - month_start y m + 1))"

definition time_str :: "int \<Rightarrow> string" where
  "time_str t =
     ''T'' @ pad 2 (t div 3600000) @ '':'' @ pad 2 (t div 60000 mod 60) @ '':''
       @ pad 2 (t div 1000 mod 60) @ ''.'' @ pad 3 (t mod 1000) @ ''Z''"

definition to_iso :: "int \<Rightarrow> string option" where
  "to_iso t = (if \<bar>t\<bar> \<le> time_limit
               then Some (date_str (t div ms_per_day) @ time_str (t mod ms_per_day)) else None)"

section \<open>\<open>Date.parse\<close> on the date-time string format\<close>

definition parse_year :: "string \<Rightarrow> (int \<times> string) option" where
  "parse_year s =
     (case s of c # r \<Rightarrow>
        if c = CHR ''+'' then take_digits 6 r
        else if c = CHR ''-'' then
          (case take_digits 6 r of Some (y, t) \<Rightarrow> if y = 0 then None else Some (- y, t) | None \<Rightarrow> None)
        else take_digits 4 s
      | [] \<Rightarrow> None)"

definition parse_zone :: "string \<Rightarrow> int option" where
  "parse_zone s =
     (if s = ''Z'' then Some 0
      else case s of c # r \<Rightarrow>
        if c = CHR ''+'' \<or> c = CHR ''-'' then
          do { (h, r) \<leftarrow> take_digits 2 r; r \<leftarrow> expect (CHR '':'') r; (m, r) \<leftarrow> take_digits 2 r;
               if r = [] \<and> h \<le> 23 \<and> m \<le> 59
               then Some ((if c = CHR ''-'' then - 1 else 1) * (h * 60 + m) * 60000) else None }
        else None
      | [] \<Rightarrow> None)"

definition parse_seconds :: "string \<Rightarrow> (int \<times> string) option" where
  "parse_seconds s =
     (case expect (CHR '':'') s of None \<Rightarrow> Some (0, s)
      | Some r \<Rightarrow>
        do { (sec, r) \<leftarrow> take_digits 2 r;
             if 59 < sec then None
             else case expect (CHR ''.'') r of None \<Rightarrow> Some (sec * 1000, r)
               | Some r \<Rightarrow> do { (ms, r) \<leftarrow> take_digits 3 r; Some (sec * 1000 + ms, r) } })"

definition parse_time :: "string \<Rightarrow> int option" where
  "parse_time s =
     do { r \<leftarrow> expect (CHR ''T'') s; (h, r) \<leftarrow> take_digits 2 r; r \<leftarrow> expect (CHR '':'') r;
          (m, r) \<leftarrow> take_digits 2 r; (ms, r) \<leftarrow> parse_seconds r; z \<leftarrow> parse_zone r;
          if 59 < m \<or> 24 < h \<or> (h = 24 \<and> (m \<noteq> 0 \<or> ms \<noteq> 0)) then None
          else Some (h * 3600000 + m * 60000 + ms - z) }"

definition make_date :: "int \<Rightarrow> int \<Rightarrow> int \<Rightarrow> int option" where
  "make_date y m d =
     (if 1 \<le> m \<and> m \<le> 12 \<and> 1 \<le> d \<and> d \<le> days_in_month y m then Some (make_day y m d) else None)"

definition parse_date_time :: "string \<Rightarrow> int option" where
  "parse_date_time s =
     do { (y, r) \<leftarrow> parse_year s;
          if r = [] then do { n \<leftarrow> make_date y 1 1; Some (n * ms_per_day) }
          else do { r \<leftarrow> expect (CHR ''-'') r; (m, r) \<leftarrow> take_digits 2 r;
            if r = [] then do { n \<leftarrow> make_date y m 1; Some (n * ms_per_day) }
            else do { r \<leftarrow> expect (CHR ''-'') r; (d, r) \<leftarrow> take_digits 2 r; n \<leftarrow> make_date y m d;
              if r = [] then Some (n * ms_per_day)
              else do { t \<leftarrow> parse_time r; Some (n * ms_per_day + t) } } } }"

definition iso_parse :: "string \<Rightarrow> int option" where
  "iso_parse s = (case parse_date_time s of
      Some t \<Rightarrow> if \<bar>t\<bar> \<le> time_limit then Some t else None | None \<Rightarrow> None)"

section \<open>Round trip\<close>

lemma parse_year_year_str:
  assumes "- 999999 \<le> y" "y \<le> 999999"
  shows "parse_year (year_str y @ r) = Some (y, r)"
proof (cases "0 \<le> y \<and> y \<le> 9999")
  case True
  define c where "c = digit_char (y div 1000 mod 10)"
  obtain w where w: "pad 4 y = c # w"
    by (simp add: numeral_eq_Suc zdiv_zmult2_eq[symmetric] c_def)
  have c: "c \<noteq> CHR ''+''" "c \<noteq> CHR ''-''"
    using is_digit_digit_char[of "y div 1000 mod 10"] by (auto simp: is_digit_def c_def)
  have "take_digits 4 (pad 4 y @ r) = Some (y, r)"
    using True by (intro take_digits_pad) auto
  then show ?thesis
    using True c by (simp add: parse_year_def year_str_def w)
next
  case False
  have "take_digits 6 (pad 6 \<bar>y\<bar> @ r) = Some (\<bar>y\<bar>, r)"
    using assms by (intro take_digits_pad) auto
  then show ?thesis
    using False assms by (auto simp: parse_year_def year_str_def)
qed

lemma parse_time_time_str:
  assumes "0 \<le> t" "t < ms_per_day"
  shows "parse_time (time_str t) = Some t"
proof -
  have h: "take_digits 2 (pad 2 (t div 3600000) @ r) = Some (t div 3600000, r)" for r
    using assms by (intro take_digits_pad) auto
  have lt60: "x mod 60 < 60" "0 \<le> x mod 60" for x :: int by simp_all
  have p60: "take_digits 2 (pad 2 (x mod 60) @ r) = Some (x mod 60, r)" for x r
    using lt60[of x] by (intro take_digits_pad) simp_all
  note m = p60[of "t div 60000"] and s = p60[of "t div 1000"]
  have ms: "take_digits 3 (pad 3 (t mod 1000) @ r) = Some (t mod 1000, r)" for r
    by (intro take_digits_pad) auto
  have split: "t = t div 3600000 * 3600000 + t div 60000 mod 60 * 60000
      + (t div 1000 mod 60 * 1000 + t mod 1000)"
  proof -
    have "t div 3600000 = t div 60000 div 60" "t div 60000 = t div 1000 div 60"
      by (simp_all add: zdiv_zmult2_eq[symmetric])
    then show ?thesis
      using mult_div_mod_eq[of 60 "t div 60000"] mult_div_mod_eq[of 60 "t div 1000"]
        mult_div_mod_eq[of 1000 t] by linarith
  qed
  have "t div 3600000 < 24"
    using assms div_bounds[of 3600000 t] by simp
  then have "t div 3600000 \<le> 23" "t div 60000 mod 60 \<le> 59" "t div 1000 mod 60 \<le> 59"
    using lt60[of "t div 60000"] lt60[of "t div 1000"] by linarith+
  then show ?thesis
    using split by (simp add: parse_time_def time_str_def h m s ms parse_seconds_def parse_zone_def)
qed

lemma year_of_day_limit:
  assumes "\<bar>n\<bar> \<le> 100000000"
  shows "- 999999 \<le> year_of_day n" "year_of_day n \<le> 999999"
proof -
  have *: "day_from_year (year_of_day n) \<le> n" "n < day_from_year (year_of_day n + 1)"
    by (rule year_of_day_bounds)+
  show "- 999999 \<le> year_of_day n" "year_of_day n \<le> 999999"
    using * assms day_from_year_bounds[of "year_of_day n"]
      day_from_year_bounds[of "year_of_day n + 1"] by (simp_all add: abs_le_iff)
qed

lemma parse_date_str:
  assumes "\<bar>n\<bar> \<le> 100000000" and "r \<noteq> []"
  shows "parse_date_time (date_str n @ r) = map_option (\<lambda>t. n * ms_per_day + t) (parse_time r)"
proof -
  define y where "y = year_of_day n"
  define k where "k = n - day_from_year y"
  define m where "m = month_of (is_leap y) k"
  have k: "0 \<le> k" "k < (if is_leap y then 366 else 365)"
    using year_of_day_bounds[of n] day_from_year_Suc[of y] by (auto simp: k_def y_def)
  have m: "1 \<le> m" "m \<le> 12" "month_starts (is_leap y) ! nat (m - 1) \<le> k"
    "k < month_starts (is_leap y) ! nat m"
    using month_of_correct[OF k] by (auto simp: m_def)
  define d where "d = k - month_start y m + 1"
  have d: "1 \<le> d" "d \<le> days_in_month y m"
    using m by (auto simp: d_def days_in_month_def month_start_def)
  have "days_in_month y m \<le> 31"
  proof -
    have "m = 1 \<or> m = 2 \<or> m = 3 \<or> m = 4 \<or> m = 5 \<or> m = 6 \<or> m = 7 \<or> m = 8 \<or> m = 9
      \<or> m = 10 \<or> m = 11 \<or> m = 12" using m(1,2) by arith
    then show ?thesis
      by (auto simp: days_in_month_def month_start_def month_starts_def)
  qed
  then have d99: "d < 10 ^ 2" using d by simp
  have py: "parse_year (year_str y @ s) = Some (y, s)" for s
    using year_of_day_limit[OF assms(1)] by (intro parse_year_year_str) (auto simp: y_def)
  have pm: "take_digits 2 (pad 2 m @ s) = Some (m, s)" for s
    using m by (intro take_digits_pad) auto
  have pd: "take_digits 2 (pad 2 d @ s) = Some (d, s)" for s
    using d d99 by (intro take_digits_pad) auto
  have mk: "make_date y m d = Some n"
    using m d by (simp add: make_date_def make_day_def d_def k_def)
  have "date_str n = year_str y @ ''-'' @ pad 2 m @ ''-'' @ pad 2 d"
    by (simp add: date_str_def Let_def y_def k_def m_def d_def)
  then show ?thesis
    using assms(2) by (cases "parse_time r") (simp_all add: parse_date_time_def py pm pd mk)
qed

theorem iso_parse_to_iso:
  assumes "to_iso t = Some s"
  shows "iso_parse s = Some t"
proof -
  have t: "\<bar>t\<bar> \<le> time_limit" and s: "s = date_str (t div ms_per_day) @ time_str (t mod ms_per_day)"
    using assms by (auto simp: to_iso_def split: if_splits)
  have n: "\<bar>t div ms_per_day\<bar> \<le> 100000000" using t by (auto simp: time_limit_def abs_if split: if_splits)
  have "parse_time (time_str (t mod ms_per_day)) = Some (t mod ms_per_day)"
    by (rule parse_time_time_str) auto
  moreover have "time_str (t mod ms_per_day) \<noteq> []" by (simp add: time_str_def)
  ultimately have "parse_date_time s = Some (t div ms_per_day * ms_per_day + t mod ms_per_day)"
    unfolding s using parse_date_str[OF n] by simp
  then show ?thesis using t by (simp add: iso_parse_def)
qed

lemma to_iso_Some: "\<bar>t\<bar> \<le> time_limit \<Longrightarrow> \<exists>s. to_iso t = Some s"
  by (simp add: to_iso_def)

lemma trim_ends: "s \<noteq> [] \<Longrightarrow> \<not> is_space (hd s) \<Longrightarrow> \<not> is_space (last s) \<Longrightarrow> trim s = s"
proof -
  assume s: "s \<noteq> []" "\<not> is_space (hd s)" "\<not> is_space (last s)"
  have "dropWhile is_space s = s" using s(1,2) by (cases s) auto
  moreover have "dropWhile is_space (rev s) = rev s"
    using s(1,3) by (cases s rule: rev_cases) auto
  ultimately show ?thesis by (simp add: trim_def)
qed

lemma is_digit_not_space: "is_digit c \<Longrightarrow> \<not> is_space c"
  by (auto simp: is_digit_def is_space_def)

lemma hd_year_str: "year_str y \<noteq> [] \<and> \<not> is_space (hd (year_str y))"
proof (cases "0 \<le> y \<and> y \<le> 9999")
  case True
  have "pad 4 y \<noteq> []" by (metis length_pad list.size(3) zero_neq_numeral)
  then have "is_digit (hd (pad 4 y))" using pad_digits[of 4 y] by (cases "pad 4 y") auto
  with True \<open>pad 4 y \<noteq> []\<close> show ?thesis by (simp add: year_str_def is_digit_not_space)
qed (auto simp: year_str_def is_space_def)

lemma to_iso_ends_with_Z:
  assumes "to_iso t = Some s"
  shows "ends_with s ''Z'' \<and> trim s = s \<and> s \<noteq> []"
proof -
  let ?y = "year_of_day (t div ms_per_day)"
  obtain u where s: "s = year_str ?y @ u @ ''Z''"
    using assms by (auto simp: to_iso_def date_str_def time_str_def Let_def split: if_splits)
  then have "hd s = hd (year_str ?y)" "last s = CHR ''Z''" "s \<noteq> []" using hd_year_str[of ?y] by simp_all
  then have "trim s = s" using hd_year_str[of ?y] by (intro trim_ends) (simp_all add: is_space_def)
  with s show ?thesis by (simp add: ends_with_def)
qed

end
