(* ===== verification/Js_Value.thy ===== *)
theory Js_Value
  imports Js_Date
begin

text \<open>
  JavaScript values and the operators the modelled code applies to them. A value is what JSON
  can carry, plus \<open>undefined\<close>: the code never stores functions, symbols or BigInts in the
  records it exchanges. An object is an association list with distinct keys in insertion
  order. Reads of a missing property give \<open>undefined\<close> (\<open>get\<close>); properties an object inherits
  from \<open>Object.prototype\<close> are not modelled, and a read of a property of \<open>undefined\<close> or \<open>null\<close>, which
  throws, is read as \<open>undefined\<close>: the functions are called with objects, and where the code guards a
  read with \<open>?.\<close> this is what it gives. The record \<open>host\<close> holds what the program takes
  from its environment: SHA-256 of \<open>node:crypto\<close>, the collation behind \<open>localeCompare\<close>,
  \<open>Date.parse\<close> outside the ISO format, the text \<open>Intl.DateTimeFormat\<close> gives for the offset of
  Europe/Paris at an instant (\<open>GMT+1\<close>, \<open>GMT+2\<close>) and the date and time it shows there (as the instant at
  which UTC shows the same), and the clock.
\<close>

datatype jsval =
    Undef
  | Null
  | Bool bool
  | Num jnum
  | Str string
  | Arr "jsval list"
  | Obj "(string \<times> jsval) list"

type_synonym jsobj = "(string \<times> jsval) list"

record host =
  sha256 :: "string \<Rightarrow> string"
  locale_compare :: "string \<Rightarrow> string \<Rightarrow> int"
  legacy_date :: "string \<Rightarrow> int option"
  paris_short_offset :: "int \<Rightarrow> string"
  paris_wall :: "int \<Rightarrow> int"
  clock_ms :: int

text \<open>
  A thrown exception: class, \<open>code\<close> (empty if it has none), message and details. Functions that
  may throw return \<open>js_error + 'a\<close>.
\<close>

datatype js_error = Js_Error (err_name: string) (err_code: string) (err_message: string) (err_details: jsobj)

definition TypeError :: "string \<Rightarrow> js_error" where
  "TypeError m = Js_Error ''TypeError'' [] m []"

definition RangeError :: "string \<Rightarrow> js_error" where
  "RangeError m = Js_Error ''RangeError'' [] m []"

section \<open>Properties\<close>

definition fget :: "jsobj \<Rightarrow> string \<Rightarrow> jsval" where
  "fget fs k = (case map_of fs k of Some v \<Rightarrow> v | None \<Rightarrow> Undef)"

fun get :: "jsval \<Rightarrow> string \<Rightarrow> jsval" where
  "get (Obj fs) k = fget fs k"
| "get _ k = Undef"

fun fset :: "string \<Rightarrow> jsval \<Rightarrow> jsobj \<Rightarrow> jsobj" where
  "fset k v [] = [(k, v)]"
| "fset k v ((k', v') # fs) = (if k = k' then (k, v) # fs else (k', v') # fset k v fs)"

text \<open>\<open>{ ...base, k1: v1, ... }\<close>\<close>

definition spread :: "jsobj \<Rightarrow> jsobj \<Rightarrow> jsobj" where
  "spread base fs = foldl (\<lambda>acc (k, v). fset k v acc) base fs"

lemma fget_Nil [simp, js_eval]: "fget [] k = Undef"
  and fget_Cons [simp, js_eval]: "fget ((k', v) # fs) k = (if k = k' then v else fget fs k)"
  by (auto simp: fget_def)

lemma fget_fset [simp]: "fget (fset k v fs) k' = (if k' = k then v else fget fs k')"
  by (induction k v fs rule: fset.induct) auto

section \<open>Conversions and operators\<close>

fun truthy :: "jsval \<Rightarrow> bool" where
  "truthy Undef = False"
| "truthy Null = False"
| "truthy (Bool b) = b"
| "truthy (Num n) = (n \<noteq> NaN \<and> n \<noteq> Fin 0)"
| "truthy (Str s) = (s \<noteq> [])"
| "truthy (Arr _) = True"
| "truthy (Obj _) = True"

fun nullish :: "jsval \<Rightarrow> bool" where
  "nullish Undef = True"
| "nullish Null = True"
| "nullish _ = False"

text \<open>\<open>a || b\<close> and \<open>a ?? b\<close>\<close>

definition js_or :: "jsval \<Rightarrow> jsval \<Rightarrow> jsval" where
  "js_or a b = (if truthy a then a else b)"

definition js_coalesce :: "jsval \<Rightarrow> jsval \<Rightarrow> jsval" where
  "js_coalesce a b = (if nullish a then b else a)"

text \<open>\<open>String(v)\<close>\<close>

fun to_str :: "jsval \<Rightarrow> string" where
  "to_str Undef = ''undefined''"
| "to_str Null = ''null''"
| "to_str (Bool b) = (if b then ''true'' else ''false'')"
| "to_str (Num n) = num_str n"
| "to_str (Str s) = s"
| "to_str (Arr xs) = concat (case List.map (\<lambda>x. if nullish x then [] else to_str x) xs of
     [] \<Rightarrow> [] | s # ss \<Rightarrow> s # List.map (\<lambda>t. '','' @ t) ss)"
| "to_str (Obj _) = ''[object Object]''"

text \<open>\<open>Number(v)\<close>\<close>

fun to_num :: "jsval \<Rightarrow> jnum" where
  "to_num Undef = NaN"
| "to_num Null = Fin 0"
| "to_num (Bool b) = Fin (if b then 1 else 0)"
| "to_num (Num n) = n"
| "to_num (Str s) = to_number_str s"
| "to_num (Arr xs) = to_number_str (to_str (Arr xs))"
| "to_num (Obj _) = NaN"

fun is_string :: "jsval \<Rightarrow> bool" where
  "is_string (Str _) = True"
| "is_string _ = False"

fun is_obj :: "jsval \<Rightarrow> bool" where
  "is_obj (Obj _) = True"
| "is_obj _ = False"

text \<open>\<open>value && typeof value === "object" && !Array.isArray(value) ? value : {}\<close>\<close>

fun obj_or_empty :: "jsval \<Rightarrow> jsobj" where
  "obj_or_empty (Obj fs) = fs"
| "obj_or_empty _ = []"

text \<open>\<open>Array.isArray(value) ? value : []\<close>\<close>

fun arr_or_empty :: "jsval \<Rightarrow> jsval list" where
  "arr_or_empty (Arr xs) = xs"
| "arr_or_empty _ = []"

text \<open>\<open>===\<close> on values that are not objects (no modelled comparison is between objects).\<close>

fun strict_eq :: "jsval \<Rightarrow> jsval \<Rightarrow> bool" where
  "strict_eq (Num a) (Num b) = jnumeq a b"
| "strict_eq (Str a) (Str b) = (a = b)"
| "strict_eq (Bool a) (Bool b) = (a = b)"
| "strict_eq Undef Undef = True"
| "strict_eq Null Null = True"
| "strict_eq _ _ = False"

text \<open>\<open>values.find((v) => v !== undefined && v !== null && v !== "")\<close>, \<open>undefined\<close> if none.\<close>

definition present :: "jsval \<Rightarrow> bool" where
  "present v \<longleftrightarrow> v \<noteq> Undef \<and> v \<noteq> Null \<and> v \<noteq> Str []"

fun js_opt_str :: "string option \<Rightarrow> jsval" where
  "js_opt_str None = Null"
| "js_opt_str (Some s) = Str s"

fun js_opt_num :: "jnum option \<Rightarrow> jsval" where
  "js_opt_num None = Null"
| "js_opt_num (Some n) = Num n"

text \<open>\<open>String(v || "")\<close>\<close>

definition str_or_empty :: "jsval \<Rightarrow> string" where
  "str_or_empty v = to_str (js_or v (Str []))"

lemma str_or_empty_Str [simp, js_eval]: "str_or_empty (Str s) = s"
  and str_or_empty_Undef [simp, js_eval]: "str_or_empty Undef = []"
  and str_or_empty_Null [simp, js_eval]: "str_or_empty Null = []"
  by (simp_all add: str_or_empty_def js_or_def)

text \<open>\<open>Number(v || 0)\<close>\<close>

definition num_or_zero :: "jsval \<Rightarrow> jnum" where
  "num_or_zero v = to_num (js_or v (Num (Fin 0)))"

text \<open>\<open>values.includes(v)\<close> for names; the number of elements; the ids of results.\<close>

definition named :: "jsval \<Rightarrow> string list \<Rightarrow> bool" where
  "named v names \<longleftrightarrow> v \<in> Str ` set names"

definition js_count :: "'a list \<Rightarrow> jsval" where
  "js_count xs = Num (Fin (of_nat (length xs)))"

lemma named_simps [simp]:
  "named v [] \<longleftrightarrow> False" "named v (n # ns) \<longleftrightarrow> v = Str n \<or> named v ns"
  by (auto simp: named_def)

lemma js_or_truthy [simp]: "truthy a \<Longrightarrow> js_or a b = a"
  and js_or_falsy [simp]: "\<not> truthy a \<Longrightarrow> js_or a b = b"
  by (auto simp: js_or_def)

section \<open>Date.parse\<close>

text \<open>\<open>Date.parse(s)\<close>, \<open>None\<close> for NaN.\<close>

definition date_parse :: "host \<Rightarrow> string \<Rightarrow> int option" where
  "date_parse H s = (case iso_parse s of Some t \<Rightarrow> Some t | None \<Rightarrow> legacy_date H s)"

lemma date_parse_to_iso: "to_iso t = Some s \<Longrightarrow> date_parse H s = Some t"
  by (simp add: date_parse_def iso_parse_to_iso)

section \<open>JSON.stringify\<close>

definition hex4 :: "nat \<Rightarrow> string" where
  "hex4 n = ''00'' @ [digit_char (int n div 16), digit_char (int n mod 16)]"

definition json_char :: "char \<Rightarrow> string" where
  "json_char c =
     (if c = CHR 0x22 then [CHR 0x5C, CHR 0x22]
      else if c = CHR 0x5C then [CHR 0x5C, CHR 0x5C]
      else if code c = 8 then CHR 0x5C # ''b''
      else if code c = 12 then CHR 0x5C # ''f''
      else if code c = 10 then CHR 0x5C # ''n''
      else if code c = 13 then CHR 0x5C # ''r''
      else if code c = 9 then CHR 0x5C # ''t''
      else if code c < 32 then CHR 0x5C # ''u'' @ hex4 (code c)
      else [c])"

definition json_str :: "string \<Rightarrow> string" where
  "json_str s = [CHR 0x22] @ concat (List.map json_char s) @ [CHR 0x22]"

fun join :: "string list \<Rightarrow> string" where
  "join [] = []"
| "join [s] = s"
| "join (s # t # ss) = s @ '','' @ join (t # ss)"

text \<open>
  Own keys in the order of the language: integer indices ascending, then the others in
  order of insertion.
\<close>

definition is_index :: "string \<Rightarrow> bool" where
  "is_index k \<longleftrightarrow> k = ''0'' \<or> (k \<noteq> [] \<and> list_all is_digit k \<and> hd k \<noteq> CHR ''0''
     \<and> digits_val 10 k < 4294967295)"

definition own_order :: "(string \<times> 'a) list \<Rightarrow> (string \<times> 'a) list" where
  "own_order fs = sort_key (\<lambda>(k, _). digits_val 10 k) (filter (\<lambda>(k, _). is_index k) fs)
     @ filter (\<lambda>(k, _). \<not> is_index k) fs"

text \<open>\<open>JSON.stringify\<close>; \<open>None\<close> is its result \<open>undefined\<close>.\<close>

fun json :: "jsval \<Rightarrow> string option" where
  "json Undef = None"
| "json Null = Some ''null''"
| "json (Bool b) = Some (if b then ''true'' else ''false'')"
| "json (Num n) = Some (case n of Fin _ \<Rightarrow> num_str n | _ \<Rightarrow> ''null'')"
| "json (Str s) = Some (json_str s)"
| "json (Arr xs) = Some (''['' @ join (List.map (\<lambda>x. case json x of Some t \<Rightarrow> t | None \<Rightarrow> ''null'') xs) @ '']'')"
| "json (Obj fs) = Some (''{'' @ join (List.map (\<lambda>(k, t). json_str k @ '':'' @ t)
     (List.map_filter (\<lambda>(k, t). map_option (Pair k) t)
       (own_order (List.map (\<lambda>kv. (fst kv, json (snd kv))) fs)))) @ ''}'')"

section \<open>Objects as sequences of entries\<close>

text \<open>\<open>Object.entries(v)\<close>\<close>

fun js_entries :: "jsval \<Rightarrow> jsobj" where
  "js_entries (Obj fs) = own_order fs"
| "js_entries (Arr xs) = List.map (\<lambda>(i, x). (nat_str (int i), x)) (enumerate 0 xs)"
| "js_entries (Str s) = List.map (\<lambda>(i, c). (nat_str (int i), Str [c])) (enumerate 0 s)"
| "js_entries _ = []"

lemma map_of_filter_keep:
  "(\<And>v. P (k, v)) \<Longrightarrow> map_of (filter P fs) k = map_of fs k"
  by (induction fs) auto

lemma fget_filter_keep: "(\<And>v. P (k, v)) \<Longrightarrow> fget (filter P fs) k = fget fs k"
  by (simp add: fget_def map_of_filter_keep)

text \<open>The names an object inherits from \<open>Object.prototype\<close>, found by \<open>o[name]\<close> on any plain object.\<close>

definition PROTOTYPE_NAMES :: "string list" where
  "PROTOTYPE_NAMES = [''constructor'', ''__defineGetter__'', ''__defineSetter__'', ''hasOwnProperty'',
     ''__lookupGetter__'', ''__lookupSetter__'', ''isPrototypeOf'', ''propertyIsEnumerable'',
     ''toString'', ''valueOf'', ''__proto__'', ''toLocaleString'']"

lemma own_order_plain: "list_all (\<lambda>kv. \<not> is_index (fst kv)) fs \<Longrightarrow> own_order fs = fs"
proof -
  assume "list_all (\<lambda>kv. \<not> is_index (fst kv)) fs"
  then have "filter (\<lambda>(k, _). is_index k) fs = []" "filter (\<lambda>(k, _). \<not> is_index k) fs = fs"
    by (auto simp: list_all_iff filter_empty_conv filter_id_conv)
  then show ?thesis by (simp only: own_order_def) simp
qed

text \<open>A host for concrete evaluations: identity for SHA-256, UTC+1 in Paris, the clock at 0.\<close>

definition sample_host :: host where
  "sample_host = \<lparr>sha256 = (\<lambda>s. s), locale_compare = (\<lambda>a b. if a < b then - 1 else if a = b then 0 else 1),
     legacy_date = (\<lambda>_. None), paris_short_offset = (\<lambda>_. ''GMT+1''),
     paris_wall = (\<lambda>t. t + 3600000), clock_ms = 0\<rparr>"

end
