(* ===== verification/Canonical_Json.thy ===== *)
theory Canonical_Json
  imports Js_Value
begin

text \<open>
  \<open>canonicalJson\<close> and \<open>canonicalSha256\<close> of \<open>packages/desk-domain/src/execution-scope.js\<close>: every
  identifier and evidence hash of the desk is a SHA-256 of this text. \<open>same_data\<close> relates values
  that differ only in the order of object keys and in properties that are \<open>undefined\<close>.
\<close>

function sortCanonical :: "jsval \<Rightarrow> jsval" where
  "sortCanonical (Arr xs) = Arr (List.map sortCanonical xs)"
| "sortCanonical (Obj fs) = Obj (List.map (\<lambda>kv. (fst kv, sortCanonical (snd kv)))
     (filter (\<lambda>kv. snd kv \<noteq> Undef) (sort_key fst fs)))"
| "sortCanonical Undef = Undef"
| "sortCanonical Null = Null"
| "sortCanonical (Bool b) = Bool b"
| "sortCanonical (Num n) = Num n"
| "sortCanonical (Str s) = Str s"
  by pat_completeness auto

lemma size_field: "kv \<in> set fs \<Longrightarrow> size (snd kv) < Suc (size_list (size_prod (\<lambda>x. 0) size) fs)"
  by (induction fs) auto

lemma size_elem: "x \<in> set xs \<Longrightarrow> size x < Suc (size_list size xs)"
  by (induction xs) auto

termination sortCanonical
  by (relation "measure size") (auto dest: size_field size_elem)

definition canonicalJson :: "jsval \<Rightarrow> string option" where
  "canonicalJson value = json (sortCanonical value)"

text \<open>
  \<open>canonicalSha256\<close>; for \<open>undefined\<close> there is no text and \<open>update\<close> throws (no caller passes it).
\<close>

definition canonicalSha256 :: "host \<Rightarrow> jsval \<Rightarrow> string" where
  "canonicalSha256 H value = sha256 H (case canonicalJson value of Some t \<Rightarrow> t | None \<Rightarrow> [])"

section \<open>Canonical form\<close>

abbreviation defined_fields :: "jsobj \<Rightarrow> jsobj" where
  "defined_fields fs \<equiv> filter (\<lambda>kv. snd kv \<noteq> Undef) fs"

inductive same_data :: "jsval \<Rightarrow> jsval \<Rightarrow> bool" where
  same_atom: "same_data v v"
| same_arr: "list_all2 same_data xs ys \<Longrightarrow> same_data (Arr xs) (Arr ys)"
| same_obj: "distinct (List.map fst fs) \<Longrightarrow> mset fs' = mset (defined_fields fs) \<Longrightarrow>
     list_all2 (\<lambda>p q. fst p = fst q \<and> same_data (snd p) (snd q)) fs' (defined_fields gs) \<Longrightarrow>
     distinct (List.map fst gs) \<Longrightarrow> same_data (Obj fs) (Obj gs)"

lemma sort_key_defined:
  "filter (\<lambda>kv. snd kv \<noteq> Undef) (sort_key fst fs) = sort_key fst (defined_fields fs)"
  by (simp add: filter_sort)

lemma distinct_defined: "distinct (List.map fst fs) \<Longrightarrow> distinct (List.map fst (defined_fields fs))"
  by (simp add: distinct_map_filter)

lemma distinct_keys_mset: "mset xs = mset ys \<Longrightarrow> distinct (List.map f xs) = distinct (List.map f ys)"
  by (metis mset_eq_imp_distinct_iff mset_map)

lemma filter_key_singleton:
  "distinct (List.map f xs) \<Longrightarrow> k \<in> set xs \<Longrightarrow> filter (\<lambda>x. f k = f x) xs = [k]"
proof (induction xs)
  case (Cons x xs)
  show ?case
  proof (cases "k = x")
    case True
    with Cons.prems have "\<forall>y \<in> set xs. f k \<noteq> f y" by auto
    with True show ?thesis by (simp add: filter_empty_conv)
  next
    case False
    with Cons show ?thesis by (auto simp: rev_image_eqI)
  qed
qed simp

lemma sort_key_mset_eq:
  assumes "mset xs = mset ys" and "distinct (List.map f xs)"
  shows "sort_key f xs = sort_key f ys"
proof (rule properties_for_sort_key)
  have ys: "distinct (List.map f (sort_key f ys))"
    using assms distinct_keys_mset[of xs "sort_key f ys" f] by simp
  show "mset (sort_key f ys) = mset xs" using assms(1) by simp
  show "sorted (List.map f (sort_key f ys))" by simp
  fix k assume k: "k \<in> set (sort_key f ys)"
  then have "k \<in> set xs" using assms(1) by (metis mset_eq_setD set_sort)
  then show "filter (\<lambda>x. f k = f x) (sort_key f ys) = filter (\<lambda>x. f k = f x) xs"
    using filter_key_singleton[OF ys k] filter_key_singleton[OF assms(2)] by simp
qed

lemma list_all2_insort_key:
  assumes "list_all2 R xs ys" and "R x y" and key: "\<And>a b. R a b \<Longrightarrow> f a = g b"
  shows "list_all2 R (insort_key f x xs) (insort_key g y ys)"
  using assms(1)
proof induction
  case (Cons a as b bs)
  then show ?case using assms(2) key[OF Cons.hyps(1)] key[OF assms(2)] by simp
qed (use assms(2) in simp)

lemma list_all2_sort_key:
  assumes "list_all2 R xs ys" and key: "\<And>a b. R a b \<Longrightarrow> f a = g b"
  shows "list_all2 R (sort_key f xs) (sort_key g ys)"
  using assms(1) by induction (auto intro: list_all2_insort_key key)

lemma sortCanonical_same_data: "same_data v w \<Longrightarrow> sortCanonical v = sortCanonical w"
proof (induction rule: same_data.induct)
  case (same_arr xs ys)
  then have "List.map sortCanonical xs = List.map sortCanonical ys"
    by (induction rule: list_all2_induct) auto
  then show ?case by simp
next
  case (same_obj fs fs' gs)
  have "distinct (List.map fst fs')"
    using distinct_defined[OF same_obj(1)] distinct_keys_mset[OF same_obj(2), of fst] by (rule iffD2[rotated])
  then have "sort_key fst fs' = sort_key fst (defined_fields fs)"
    using same_obj(2) sort_key_mset_eq by blast
  moreover have "list_all2 (\<lambda>p q. fst p = fst q \<and> sortCanonical (snd p) = sortCanonical (snd q))
      (sort_key fst fs') (sort_key fst (defined_fields gs))"
    by (rule list_all2_sort_key) (use same_obj.IH in \<open>auto elim!: list_all2_mono\<close>)
  moreover from this have "List.map (\<lambda>kv. (fst kv, sortCanonical (snd kv))) (sort_key fst fs')
      = List.map (\<lambda>kv. (fst kv, sortCanonical (snd kv))) (sort_key fst (defined_fields gs))"
    by (induction rule: list_all2_induct) auto
  ultimately show ?case by (simp add: sort_key_defined)
qed simp

text \<open>
  C4. Hashes do not depend on how an object was assembled: two values that differ only in the
  order of keys, at any depth, and in properties that are \<open>undefined\<close> have the same canonical
  text and the same hash.
\<close>

theorem canonicalSha256_order_independent:
  assumes "same_data v w"
  shows "canonicalJson v = canonicalJson w \<and> canonicalSha256 H v = canonicalSha256 H w"
  using sortCanonical_same_data[OF assms] by (simp add: canonicalJson_def canonicalSha256_def)

theorem canonicalSha256_order_independent_witness:
  "canonicalJson (Obj [(''b'', Num (Fin 1)), (''a'', Arr [Null]), (''c'', Undef)])
     = canonicalJson (Obj [(''a'', Arr [Null]), (''b'', Num (Fin 1))])
   \<and> canonicalSha256 sample_host (Obj [(''b'', Num (Fin 1)), (''a'', Arr [Null]), (''c'', Undef)])
     = canonicalSha256 sample_host (Obj [(''a'', Arr [Null]), (''b'', Num (Fin 1))])"
proof (rule canonicalSha256_order_independent)
  show "same_data (Obj [(''b'', Num (Fin 1)), (''a'', Arr [Null]), (''c'', Undef)])
     (Obj [(''a'', Arr [Null]), (''b'', Num (Fin 1))])"
    by (rule same_obj[where fs' = "[(''a'', Arr [Null]), (''b'', Num (Fin 1))]"]) (auto intro: same_atom)
qed

end
