(* ===== verification/Domain_Helpers.thy ===== *)
theory Domain_Helpers
  imports Canonical_Json
begin

text \<open>
  The small helpers that close most files of \<open>packages/desk-domain/src\<close> (\<open>text\<close>, \<open>upper\<close>,
  \<open>record\<close>, \<open>array\<close>, \<open>firstDefined\<close>, \<open>hash\<close>), each file with its own copy of the same code, and
  \<open>Array.prototype.sort\<close>.
\<close>

definition js_text :: "jsval \<Rightarrow> string" where
  "js_text value = trim (to_str (js_coalesce value (Str [])))"

definition js_upper :: "jsval \<Rightarrow> string" where
  "js_upper value = to_upper (js_text value)"

definition js_record :: "jsval \<Rightarrow> jsobj option" where
  "js_record value = (case value of Obj fs \<Rightarrow> Some fs | _ \<Rightarrow> None)"

definition firstDefined :: "jsval list \<Rightarrow> jsval" where
  "firstDefined values = (case List.find present values of Some v \<Rightarrow> v | None \<Rightarrow> Null)"

definition js_hash :: "host \<Rightarrow> jsval \<Rightarrow> string" where
  "js_hash H value = ''sha256:'' @ canonicalSha256 H value"

lemma js_text_Str [simp]: "js_text (Str s) = trim s"
  by (simp add: js_text_def js_coalesce_def)

lemma js_text_nullish [simp]: "nullish v \<Longrightarrow> js_text v = []"
  by (simp add: js_text_def js_coalesce_def)

lemma trim_js_text [simp]: "trim (js_text v) = js_text v"
  by (simp add: js_text_def)

lemma firstDefined_Nil [simp]: "firstDefined [] = Null"
  and firstDefined_Cons: "firstDefined (v # vs) = (if present v then v else firstDefined vs)"
  by (auto simp: firstDefined_def)

definition nullableText :: "jsval \<Rightarrow> string option" where
  "nullableText value = (case value of Str s \<Rightarrow> if trim s = [] then None else Some (trim s) | _ \<Rightarrow> None)"

text \<open>
  \<open>timestamp(value, fallback)\<close> of the runtime policies: the instant in ISO form, \<open>fallback\<close> (\<open>null\<close> is
  \<open>None\<close>) for what is not a date. \<open>Date.parse\<close> gives no instant that \<open>toISOString\<close> cannot print.
\<close>

definition js_timestamp :: "host \<Rightarrow> jsval \<Rightarrow> string option \<Rightarrow> string option" where
  "js_timestamp H value fallback =
     (case (case nullableText value of Some s \<Rightarrow> Some s | None \<Rightarrow> fallback) of
        None \<Rightarrow> fallback
      | Some s \<Rightarrow> (case date_parse H s of
            None \<Rightarrow> fallback
          | Some t \<Rightarrow> (case to_iso t of Some i \<Rightarrow> Some i | None \<Rightarrow> fallback)))"

text \<open>\<open>new Date(0).toISOString()\<close>\<close>

definition epoch_iso :: string where
  "epoch_iso = ''1970-01-01T00:00:00.000Z''"

lemma to_iso_epoch: "to_iso 0 = Some epoch_iso"
  by code_simp

text \<open>\<open>Date.parse(s || "")\<close> as a number; \<open>null\<close> is no date.\<close>

definition date_num :: "host \<Rightarrow> string option \<Rightarrow> jnum" where
  "date_num H s = (case s of None \<Rightarrow> NaN | Some x \<Rightarrow>
     (case date_parse H x of Some t \<Rightarrow> Fin (of_int t) | None \<Rightarrow> NaN))"

text \<open>\<open>value ? Date.parse(value) : null\<close>, \<open>null\<close> for what is not a date.\<close>

definition parseTimestamp :: "host \<Rightarrow> jsval \<Rightarrow> int option" where
  "parseTimestamp H value = (if \<not> truthy value then None else date_parse H (to_str value))"

lemma js_timestamp_Some_iso:
  "js_timestamp H v None = Some s \<Longrightarrow> \<exists>t x. nullableText v = Some x \<and> date_parse H x = Some t \<and> to_iso t = Some s"
  by (auto simp: js_timestamp_def split: option.splits)

section \<open>Array.prototype.sort\<close>

text \<open>
  A stable sort by a comparator, given as \<open>after x y\<close>: the comparator's result on \<open>x, y\<close> is
  positive. For a consistent comparator the language fixes the result, which is this one.
\<close>

fun js_insert :: "('a \<Rightarrow> 'a \<Rightarrow> bool) \<Rightarrow> 'a \<Rightarrow> 'a list \<Rightarrow> 'a list" where
  "js_insert after x [] = [x]"
| "js_insert after x (y # ys) = (if after x y then y # js_insert after x ys else x # y # ys)"

definition js_sort :: "('a \<Rightarrow> 'a \<Rightarrow> bool) \<Rightarrow> 'a list \<Rightarrow> 'a list" where
  "js_sort after xs = foldr (js_insert after) xs []"

lemma mset_js_insert [simp]: "mset (js_insert after x ys) = {#x#} + mset ys"
  by (induction ys) auto

lemma mset_js_sort [simp]: "mset (js_sort after xs) = mset xs"
  by (induction xs) (auto simp: js_sort_def)

lemma set_js_sort [simp]: "set (js_sort after xs) = set xs"
  by (metis mset_js_sort set_mset_mset)

lemma length_js_sort [simp]: "length (js_sort after xs) = length xs"
  by (metis mset_js_sort size_mset)

lemma js_sort_Nil_iff [simp]: "js_sort after xs = [] \<longleftrightarrow> xs = []"
  by (metis length_0_conv length_js_sort)

text \<open>Where \<open>after\<close> is the strict part of a total preorder, the result is sorted.\<close>

lemma sorted_js_insert:
  assumes total: "\<And>a b. \<not> after a b \<or> \<not> after b a"
    and trans: "\<And>a b c. \<not> after a b \<Longrightarrow> \<not> after b c \<Longrightarrow> \<not> after a c"
    and "sorted_wrt (\<lambda>a b. \<not> after a b) ys"
  shows "sorted_wrt (\<lambda>a b. \<not> after a b) (js_insert after x ys)"
  using assms(3)
proof (induction ys)
  case (Cons y ys)
  have "set (js_insert after x ys) = insert x (set ys)"
    by (metis mset_js_insert set_mset_add_mset_insert set_mset_mset add_mset_add_single union_commute)
  then show ?case using Cons total[of x y] trans by auto
qed simp

lemma sorted_js_sort:
  assumes "\<And>a b. \<not> after a b \<or> \<not> after b a"
    and "\<And>a b c. \<not> after a b \<Longrightarrow> \<not> after b c \<Longrightarrow> \<not> after a c"
  shows "sorted_wrt (\<lambda>a b. \<not> after a b) (js_sort after xs)"
proof (induction xs)
  case (Cons x xs)
  then show ?case
    using sorted_js_insert[of after "js_sort after xs" x, OF assms] by (simp add: js_sort_def)
qed (simp add: js_sort_def)

text \<open>If the comparator puts every element of a class before every other, the class comes first.\<close>

lemma js_insert_class:
  assumes "\<And>a b. a \<in> insert x (set ys) \<Longrightarrow> b \<in> insert x (set ys) \<Longrightarrow> P a \<Longrightarrow> \<not> P b \<Longrightarrow>
      \<not> after a b \<and> after b a"
    and "sorted_wrt (\<lambda>a b. P b \<longrightarrow> P a) ys"
  shows "sorted_wrt (\<lambda>a b. P b \<longrightarrow> P a) (js_insert after x ys)"
  using assms
proof (induction ys)
  case (Cons y ys)
  have "set (js_insert after x ys) = insert x (set ys)"
    by (metis mset_js_insert set_mset_add_mset_insert set_mset_mset add_mset_add_single union_commute)
  then show ?case using Cons Cons.prems(1)[of x y] Cons.prems(1)[of y x] by auto
qed simp

lemma js_sort_class:
  assumes "\<And>a b. a \<in> set xs \<Longrightarrow> b \<in> set xs \<Longrightarrow> P a \<Longrightarrow> \<not> P b \<Longrightarrow> \<not> after a b \<and> after b a"
  shows "sorted_wrt (\<lambda>a b. P b \<longrightarrow> P a) (js_sort after xs)"
  using assms
proof (induction xs)
  case (Cons x xs)
  have "js_sort after (x # xs) = js_insert after x (js_sort after xs)" by (simp add: js_sort_def)
  moreover have "sorted_wrt (\<lambda>a b. P b \<longrightarrow> P a) (js_sort after xs)" using Cons by simp
  ultimately show ?case using js_insert_class[of x "js_sort after xs" P after] Cons.prems by simp
qed (simp add: js_sort_def)

lemma sorted_class_split:
  "sorted_wrt (\<lambda>a b. P b \<longrightarrow> P a) xs \<Longrightarrow> xs = filter P xs @ filter (\<lambda>x. \<not> P x) xs"
proof (induction xs)
  case (Cons x xs)
  show ?case
  proof (cases "P x")
    case False
    then have "filter P xs = []" "filter (\<lambda>x. \<not> P x) xs = xs"
      using Cons.prems by (auto simp: filter_empty_conv filter_id_conv)
    then show ?thesis using False by simp
  qed (use Cons in simp)
qed simp

section \<open>Grouping\<close>

text \<open>A \<open>Map\<close> of arrays: \<open>map.set(key, [...(map.get(key) || []), x])\<close>\<close>

fun add_to_bucket :: "string \<Rightarrow> 'a \<Rightarrow> (string \<times> 'a list) list \<Rightarrow> (string \<times> 'a list) list" where
  "add_to_bucket k x [] = [(k, [x])]"
| "add_to_bucket k x ((k', xs) # bs) = (if k = k' then (k', xs @ [x]) # bs else (k', xs) # add_to_bucket k x bs)"

lemma add_to_bucket_length:
  "sum_list (List.map (length \<circ> snd) (add_to_bucket k x bs)) = Suc (sum_list (List.map (length \<circ> snd) bs))"
  by (induction bs) auto

lemma add_to_bucket_keys: "fst ` set (add_to_bucket k x bs) = insert k (fst ` set bs)"
  by (induction k x bs rule: add_to_bucket.induct) auto

lemma add_to_bucket_distinct: "distinct (List.map fst bs) \<Longrightarrow> distinct (List.map fst (add_to_bucket k x bs))"
proof (induction bs)
  case (Cons b bs)
  then show ?case using add_to_bucket_keys[of k x bs] by (cases b) auto
qed simp

lemma add_to_bucket_items:
  "(k', xs) \<in> set (add_to_bucket k x bs) \<Longrightarrow> (k', xs) \<in> set bs \<or> k' = k \<and> (xs = [x] \<or> (\<exists>ys. (k, ys) \<in> set bs \<and> xs = ys @ [x]))"
  by (induction k x bs rule: add_to_bucket.induct) (auto split: if_splits)

lemma mset_add_to_bucket: "mset (concat (List.map snd (add_to_bucket k x bs))) = add_mset x (mset (concat (List.map snd bs)))"
  by (induction k x bs rule: add_to_bucket.induct) auto

lemma add_to_bucket_nonempty:
  "list_all (\<lambda>(k, xs). xs \<noteq> []) bs \<Longrightarrow> list_all (\<lambda>(k, xs). xs \<noteq> []) (add_to_bucket k x bs)"
  by (induction k x bs rule: add_to_bucket.induct) auto

end
