(* ===== verification/Lifecycle.thy ===== *)
theory Lifecycle
  imports Js_Value
begin

text \<open>
  What the four lifecycle machines of the desk share (\<open>thesis-state-machine-v1.js\<close>,
  \<open>setup-state-machine-v1.js\<close>, \<open>position-state-machine-v1.js\<close>, \<open>replan-state-machine-v1.js\<close>):
  the normalisation of codes, the shape of a transition result, and, as a locale, the contract
  their clients rely on. \<open>machine\<close> is a table of states and commands; its runs apply a list of
  commands, keeping the state where the table has no entry, as the stores that persist these
  states do. \<open>frozen_machine\<close> adds that a terminal state never changes again.
\<close>

definition normalizeEnum :: "jsval \<Rightarrow> string" where
  "normalizeEnum value =
     replace_char (CHR '' '') (CHR ''_'') (replace_char (CHR ''-'') (CHR ''_'')
       (to_upper (trim (str_or_empty value))))"

record 's transition =
  schema_version :: string
  domain :: string
  tr_accepted :: bool
  previous_state :: string
  next_state :: "'s option"
  command :: string
  reason :: string
  terminal :: bool

text \<open>A default of a destructured parameter: used for \<open>undefined\<close> only.\<close>

definition default_param :: "jsval \<Rightarrow> string \<Rightarrow> jsval" where
  "default_param v d = (if v = Undef then Str d else v)"

lemma default_param_Str [simp]: "default_param (Str s) d = Str s"
  by (simp add: default_param_def)

text \<open>
  \<open>transitionResult\<close>: every machine builds the same record, with its own schema version,
  domain and set of terminal states; \<open>command\<close> is called \<open>event\<close> by two of them.
\<close>

definition transitionResult ::
  "string \<Rightarrow> string \<Rightarrow> ('s \<Rightarrow> bool) \<Rightarrow> bool \<Rightarrow> string \<Rightarrow> 's option \<Rightarrow> string \<Rightarrow> string \<Rightarrow> 's transition" where
  "transitionResult schema dmn final acc previousState nextState cmd why =
     \<lparr>schema_version = schema, domain = dmn, tr_accepted = acc, previous_state = previousState,
      next_state = nextState, command = cmd, reason = why,
      terminal = (case nextState of Some s \<Rightarrow> final s | None \<Rightarrow> False)\<rparr>"

lemma transitionResult_simps [simp]:
  "next_state (transitionResult sc d f a p n c r) = n"
  "tr_accepted (transitionResult sc d f a p n c r) = a"
  "reason (transitionResult sc d f a p n c r) = r"
  "terminal (transitionResult sc d f a p n c r) = (case n of Some s \<Rightarrow> f s | None \<Rightarrow> False)"
  "previous_state (transitionResult sc d f a p n c r) = p"
  "command (transitionResult sc d f a p n c r) = c"
  by (simp_all add: transitionResult_def)

section \<open>Systems with an invariant\<close>

text \<open>
  A system that applies operations one after the other. Every operation keeps the invariant;
  in a \<open>settling_system\<close> a settled state that satisfies it does not change any more.
\<close>

locale invariant_system =
  fixes step :: "'s \<Rightarrow> 'c \<Rightarrow> 's"
    and inv :: "'s \<Rightarrow> bool"
  assumes inv_step: "inv s \<Longrightarrow> inv (step s c)"
begin

definition iterate :: "'s \<Rightarrow> 'c list \<Rightarrow> 's" where
  "iterate s cs = foldl step s cs"

lemma iterate_append: "iterate s (cs @ ds) = iterate (iterate s cs) ds"
  by (simp add: iterate_def)

lemma inv_iterate: "inv s \<Longrightarrow> inv (iterate s cs)"
  by (induction cs arbitrary: s) (simp_all add: iterate_def inv_step)

end

locale settling_system = invariant_system step inv
  for step :: "'s \<Rightarrow> 'c \<Rightarrow> 's" and inv :: "'s \<Rightarrow> bool" +
  fixes settled :: "'s \<Rightarrow> bool"
  assumes settled_step: "inv s \<Longrightarrow> settled s \<Longrightarrow> step s c = s"
begin

lemma settled_iterate: "inv s \<Longrightarrow> settled s \<Longrightarrow> iterate s cs = s"
  by (induction cs) (simp_all add: iterate_def settled_step)

lemma settled_absorbing: "inv s \<Longrightarrow> settled (iterate s cs) \<Longrightarrow> iterate s (cs @ ds) = iterate s cs"
  by (simp add: iterate_append settled_iterate inv_iterate)

end

section \<open>The contract of a machine\<close>

locale machine =
  fixes parse :: "string \<Rightarrow> 's option"
    and name :: "'s \<Rightarrow> string"
    and table :: "'s \<Rightarrow> 'c \<Rightarrow> 's option"
    and noop :: "'c"
  assumes parse_name: "parse (name s) = Some s"
    and name_parse: "parse n = Some s \<Longrightarrow> name s = n"
    and table_noop: "table s noop = Some s"
begin

definition step :: "'s \<Rightarrow> 'c \<Rightarrow> 's" where
  "step s c = (case table s c of Some t \<Rightarrow> t | None \<Rightarrow> s)"

definition run :: "'s \<Rightarrow> 'c list \<Rightarrow> 's" where
  "run s cs = foldl step s cs"

lemma name_inject: "name s = name t \<longleftrightarrow> s = t"
  by (metis option.inject parse_name)

lemma run_Nil [simp]: "run s [] = s"
  by (simp add: run_def)

lemma run_Cons [simp]: "run s (c # cs) = run (step s c) cs"
  by (simp add: run_def)

lemma run_append: "run s (cs @ ds) = run (run s cs) ds"
  by (simp add: run_def)

lemma step_Some: "table s c = Some t \<Longrightarrow> step s c = t"
  and step_None: "table s c = None \<Longrightarrow> step s c = s"
  by (simp_all add: step_def)

lemma step_noop [simp]: "step s noop = s"
  by (simp add: step_def table_noop)

lemma run_invariant:
  assumes "\<And>s c t. I s \<Longrightarrow> table s c = Some t \<Longrightarrow> I t" and "I s"
  shows "I (run s cs)"
  using assms(2)
proof (induction cs arbitrary: s)
  case (Cons c cs)
  have "I (step s c)" using Cons.prems assms(1) by (auto simp: step_def split: option.splits)
  then show ?case using Cons.IH by simp
qed simp

text \<open>
  A run that starts inside \<open>A\<close>, where every edge that leaves \<open>A\<close> enters \<open>B\<close>, and ends
  outside \<open>A\<close> has visited \<open>B\<close>.
\<close>

lemma run_passes:
  assumes exit: "\<And>s c t. A s \<Longrightarrow> table s c = Some t \<Longrightarrow> A t \<or> B t"
    and "A s" and "\<not> A (run s cs)"
  shows "\<exists>ds es. cs = ds @ es \<and> B (run s ds)"
  using assms(2,3)
proof (induction cs arbitrary: s)
  case (Cons c cs)
  show ?case
  proof (cases "A (step s c)")
    case True
    with Cons obtain ds es where "cs = ds @ es" "B (run (step s c) ds)"
      by (metis run_Cons)
    then show ?thesis by (intro exI[of _ "c # ds"] exI[of _ es]) simp
  next
    case False
    then have "B (step s c)" using exit[of s c] Cons.prems by (auto simp: step_def split: option.splits)
    then show ?thesis by (intro exI[of _ "[c]"] exI[of _ cs]) simp
  qed
qed simp

text \<open>A run that starts outside \<open>P\<close> and ends in it has a command by which it enters \<open>P\<close>.\<close>

lemma run_enters:
  assumes "\<not> P s" and "P (run s cs)"
  shows "\<exists>ds c es. cs = ds @ c # es \<and> \<not> P (run s ds) \<and> table (run s ds) c = Some (run s (ds @ [c]))
           \<and> P (run s (ds @ [c]))"
  using assms
proof (induction cs arbitrary: s)
  case (Cons c cs)
  show ?case
  proof (cases "P (step s c)")
    case True
    with Cons.prems have "table s c = Some (step s c)"
      by (auto simp: step_def split: option.splits)
    with True Cons.prems show ?thesis
      by (intro exI[of _ "[]"] exI[of _ c] exI[of _ cs]) (simp add: run_append)
  next
    case False
    with Cons obtain ds d es where "cs = ds @ d # es" "\<not> P (run (step s c) ds)"
      "table (run (step s c) ds) d = Some (run (step s c) (ds @ [d]))" "P (run (step s c) (ds @ [d]))"
      by (metis run_Cons)
    then show ?thesis by (intro exI[of _ "c # ds"] exI[of _ d] exI[of _ es]) simp
  qed
qed simp

end

locale frozen_machine = machine parse name table noop
  for parse :: "string \<Rightarrow> 's option" and name :: "'s \<Rightarrow> string"
    and table :: "'s \<Rightarrow> 'c \<Rightarrow> 's option" and noop :: "'c" +
  fixes final :: "'s \<Rightarrow> bool"
  assumes final_frozen: "final s \<Longrightarrow> table s c = Some t \<Longrightarrow> t = s"
begin

lemma run_final: "final s \<Longrightarrow> run s cs = s"
  using run_invariant[of "\<lambda>t. t = s"] final_frozen by blast

end

text \<open>A machine whose final states are frozen is a settling system.\<close>

sublocale frozen_machine \<subseteq> settling: settling_system step "\<lambda>_. True" final
  by unfold_locales (auto simp: step_def dest: final_frozen split: option.splits)

end
