(* ===== verification/Agent_Runtime.thy ===== *)
theory Agent_Runtime
  imports Domain_Helpers Lifecycle
begin

text \<open>
  \<open>packages/desk-domain/src/agent-runtime-v1.js\<close> and \<open>agent-runtime-retry-policy-v1.js\<close>: the durable
  tasks of the desk's workers. A task is claimed under a lease, extended, completed, failed or
  expired; every accepted transition returns the next task, the lease and an event, sealed by
  canonical hashes. Texts that the source normalises to \<open>null\<close> are \<open>string option\<close>s; counters are
  JavaScript numbers. The \<open>issues\<close> array the source pushes to is returned as a second component,
  in the order of the pushes.
\<close>

section \<open>Normalisation of fields\<close>

record issue =
  code_of :: string
  path :: string
  details :: jsobj

definition issue_of :: "string \<Rightarrow> string \<Rightarrow> issue" where
  "issue_of c p = \<lparr>code_of = c, path = p, details = []\<rparr>"

definition rt_upper :: "jsval \<Rightarrow> string option" where
  "rt_upper value = map_option to_upper (nullableText value)"

text \<open>\<open>UUID_RE\<close>, with its flag \<open>i\<close>.\<close>

definition is_uuid :: "string \<Rightarrow> bool" where
  "is_uuid s \<longleftrightarrow> length s = 36 \<and> list_all is_hex_digit (take 8 s) \<and> s ! 8 = CHR ''-''
     \<and> list_all is_hex_digit (take 4 (drop 9 s)) \<and> s ! 13 = CHR ''-''
     \<and> s ! 14 \<in> set ''12345'' \<and> list_all is_hex_digit (take 3 (drop 15 s)) \<and> s ! 18 = CHR ''-''
     \<and> s ! 19 \<in> set ''89abAB'' \<and> list_all is_hex_digit (take 3 (drop 20 s)) \<and> s ! 23 = CHR ''-''
     \<and> list_all is_hex_digit (drop 24 s)"

definition requiredUuid :: "jsval \<Rightarrow> string \<Rightarrow> string option \<times> issue list" where
  "requiredUuid value p =
     (case nullableText value of
        None \<Rightarrow> (None, [issue_of ''AGENT_RUNTIME_UUID_REQUIRED'' p])
      | Some s \<Rightarrow> (Some s, if is_uuid s then []
          else [\<lparr>code_of = ''AGENT_RUNTIME_UUID_INVALID'', path = p, details = [(''value'', Str s)]\<rparr>]))"

definition nullableUuid :: "jsval \<Rightarrow> string \<Rightarrow> string option \<times> issue list" where
  "nullableUuid value p =
     (case nullableText value of
        None \<Rightarrow> (None, [])
      | Some s \<Rightarrow> (Some s, if is_uuid s then []
          else [\<lparr>code_of = ''AGENT_RUNTIME_UUID_INVALID'', path = p, details = [(''value'', Str s)]\<rparr>]))"

definition requiredText :: "jsval \<Rightarrow> string \<Rightarrow> string option \<times> issue list" where
  "requiredText value p = (nullableText value,
     if nullableText value = None then [issue_of ''AGENT_RUNTIME_TEXT_REQUIRED'' p] else [])"

definition enumValue :: "jsval \<Rightarrow> string list \<Rightarrow> string \<Rightarrow> string option \<times> issue list" where
  "enumValue value values p =
     (let normalized = rt_upper value in
      (normalized, if (case normalized of Some s \<Rightarrow> s \<in> set values | None \<Rightarrow> False) then []
         else [\<lparr>code_of = ''AGENT_RUNTIME_ENUM_INVALID'', path = p, details = [(''value'', value)]\<rparr>]))"

definition enumOrDefault :: "jsval \<Rightarrow> string list \<Rightarrow> string \<Rightarrow> string" where
  "enumOrDefault value values fallback =
     (case rt_upper value of Some s \<Rightarrow> if s \<in> set values then s else fallback | None \<Rightarrow> fallback)"

definition timestamp_issues :: "host \<Rightarrow> jsval \<Rightarrow> string \<Rightarrow> string \<Rightarrow> issue list" where
  "timestamp_issues H value p s = (if date_parse H s = None
     then [\<lparr>code_of = ''AGENT_RUNTIME_TIMESTAMP_INVALID'', path = p, details = [(''value'', value)]\<rparr>] else [])"

definition requiredTimestamp :: "host \<Rightarrow> jsval \<Rightarrow> string \<Rightarrow> string option \<times> issue list" where
  "requiredTimestamp H value p =
     (case nullableText value of
        None \<Rightarrow> (None, [issue_of ''AGENT_RUNTIME_TIMESTAMP_REQUIRED'' p])
      | Some s \<Rightarrow> (Some s, timestamp_issues H value p s))"

definition optionalTimestamp :: "host \<Rightarrow> jsval \<Rightarrow> string \<Rightarrow> string option \<times> issue list" where
  "optionalTimestamp H value p =
     (case nullableText value of None \<Rightarrow> (None, []) | Some s \<Rightarrow> (Some s, timestamp_issues H value p s))"

definition rt_integer :: "jsval \<Rightarrow> jnum \<Rightarrow> jnum" where
  "rt_integer value fallback = (if is_integer (to_num value) then to_num value else fallback)"

definition stringArray :: "jsval \<Rightarrow> jsval" where
  "stringArray value = Arr (List.map_filter (\<lambda>v. map_option Str (nullableText v)) (arr_or_empty value))"

definition nullableJsonObject :: "jsval \<Rightarrow> jsobj option" where
  "nullableJsonObject value = (case value of Obj fs \<Rightarrow> Some fs | _ \<Rightarrow> None)"

definition validateNotBefore ::
  "host \<Rightarrow> string \<Rightarrow> string option \<Rightarrow> string \<Rightarrow> string option \<Rightarrow> issue list" where
  "validateNotBefore H leftName left rightName right =
     (case (left, right) of
        (Some l, Some r) \<Rightarrow>
          (case (date_parse H l, date_parse H r) of
             (Some a, Some b) \<Rightarrow> if a < b then [\<lparr>code_of = ''AGENT_RUNTIME_TIMESTAMP_ORDER_INVALID'',
                 path = leftName, details = [(''left'', Str leftName), (''right'', Str rightName)]\<rparr>] else []
           | _ \<Rightarrow> [])
      | _ \<Rightarrow> [])"

section \<open>Agents, missions and conversations\<close>

definition AGENT_STATUSES_V1 :: "string list" where
  "AGENT_STATUSES_V1 = [''IDLE'', ''BUSY'', ''OFFLINE'', ''DISABLED'']"

definition AGENT_MISSION_STATUSES_V1 :: "string list" where
  "AGENT_MISSION_STATUSES_V1 = [''CREATED'', ''ASSIGNED'', ''IN_PROGRESS'', ''PAUSED'', ''COMPLETED'',
     ''FAILED'', ''CANCELLED'']"

definition AGENT_CONVERSATION_STATUSES_V1 :: "string list" where
  "AGENT_CONVERSATION_STATUSES_V1 = [''OPEN'', ''ROTATING'', ''ARCHIVED'', ''FAILED'']"

definition AGENT_TASK_STATUSES_V1 :: "string list" where
  "AGENT_TASK_STATUSES_V1 = [''PENDING'', ''READY'', ''CLAIMED'', ''RUNNING'', ''WAITING_DEPENDENCY'',
     ''DONE'', ''ERROR'', ''CANCELLED'', ''EXPIRED'']"

definition AGENT_LEASE_STATUSES_V1 :: "string list" where
  "AGENT_LEASE_STATUSES_V1 = [''ACTIVE'', ''EXPIRED'', ''RELEASED'', ''BROKEN'']"

definition AGENT_EVENT_TYPES_V1 :: "string list" where
  "AGENT_EVENT_TYPES_V1 = [''AGENT_REGISTERED'', ''MISSION_CREATED'', ''CONVERSATION_ATTACHED'',
     ''EXECUTION_POLICY_RESOLVED'', ''TASK_CREATED'', ''TASK_CLAIMED'', ''LEASE_EXTENDED'',
     ''TASK_COMPLETED'', ''TASK_FAILED'', ''TASK_EXPIRED'', ''TASK_DEAD_LETTERED'', ''TASK_REQUEUED'',
     ''TASK_CANCELLED'']"

record 'n validation_result =
  v_ok :: bool
  v_reasons :: "string list"
  v_entity :: string
  v_issues :: "issue list"
  v_normalized :: 'n

definition validationResult :: "string \<Rightarrow> 'n \<Rightarrow> issue list \<Rightarrow> 'n validation_result" where
  "validationResult ent normalized issues =
     \<lparr>v_ok = (issues = []), v_reasons = uniq (List.map code_of issues), v_entity = ent,
      v_issues = issues, v_normalized = normalized\<rparr>"

definition validateAgentV1 :: "host \<Rightarrow> jsval \<Rightarrow> jsobj validation_result" where
  "validateAgentV1 H input =
     (let (agent_id, i1) = requiredUuid (js_coalesce (get input ''agent_id'') (get input ''id'')) ''agent_id'';
          (agent_type, i2) = requiredText (js_coalesce (get input ''agent_type'') (get input ''type'')) ''agent_type'';
          (st, i3) = enumValue (get input ''status'') AGENT_STATUSES_V1 ''status'';
          (created, i4) = requiredTimestamp H (js_coalesce (get input ''created_at_utc'') (get input ''created_at'')) ''created_at_utc'';
          (updated, i5) = optionalTimestamp H (js_coalesce (get input ''updated_at_utc'') (get input ''updated_at'')) ''updated_at_utc'';
          i6 = validateNotBefore H ''updated_at_utc'' updated ''created_at_utc'' created
      in validationResult ''agent''
        [(''schema_version'', Str ''agent_v1''), (''agent_id'', js_opt_str agent_id),
         (''agent_key'', js_opt_str (nullableText (get input ''agent_key''))),
         (''agent_type'', js_opt_str agent_type), (''status'', js_opt_str st),
         (''worker_group'', js_opt_str (nullableText (get input ''worker_group''))),
         (''capabilities'', stringArray (get input ''capabilities'')),
         (''model_policy'', Obj (obj_or_empty (get input ''model_policy''))),
         (''metadata'', Obj (obj_or_empty (get input ''metadata''))),
         (''created_at_utc'', js_opt_str created), (''updated_at_utc'', js_opt_str updated)]
        (i1 @ i2 @ i3 @ i4 @ i5 @ i6))"

definition validateAgentMissionV1 :: "host \<Rightarrow> jsval \<Rightarrow> jsobj validation_result" where
  "validateAgentMissionV1 H input =
     (let (mission_id, i1) = requiredUuid (js_coalesce (get input ''mission_id'') (get input ''id'')) ''mission_id'';
          (agent_id, i2) = nullableUuid (get input ''agent_id'') ''agent_id'';
          (mission_type, i3) = requiredText (js_coalesce (get input ''mission_type'') (get input ''type'')) ''mission_type'';
          (lane, i4) = requiredText (get input ''lane'') ''lane'';
          (objective, i5) = requiredText (get input ''objective'') ''objective'';
          (correlation_id, i6) = requiredText (get input ''correlation_id'') ''correlation_id'';
          (st, i7) = enumValue (get input ''status'') AGENT_MISSION_STATUSES_V1 ''status'';
          (prompt_id, i8) = nullableUuid (get input ''prompt_composition_id'') ''prompt_composition_id'';
          (created, i9) = requiredTimestamp H (js_coalesce (get input ''created_at_utc'') (get input ''created_at'')) ''created_at_utc'';
          (updated, i10) = optionalTimestamp H (js_coalesce (get input ''updated_at_utc'') (get input ''updated_at'')) ''updated_at_utc'';
          i11 = (if st \<noteq> Some ''CREATED'' \<and> agent_id = None
                 then [issue_of ''MISSION_AGENT_REQUIRED_AFTER_CREATED'' ''agent_id''] else []);
          i12 = validateNotBefore H ''updated_at_utc'' updated ''created_at_utc'' created
      in validationResult ''agent_mission''
        [(''schema_version'', Str ''agent_mission_v1''), (''mission_id'', js_opt_str mission_id),
         (''mission_key'', js_opt_str (nullableText (get input ''mission_key''))),
         (''agent_id'', js_opt_str agent_id), (''mission_type'', js_opt_str mission_type),
         (''lane'', js_opt_str lane), (''objective'', js_opt_str objective),
         (''context_ref'', js_opt_str (nullableText (get input ''context_ref''))),
         (''correlation_id'', js_opt_str correlation_id), (''status'', js_opt_str st),
         (''priority'', Num (rt_integer (get input ''priority'') (Fin 100))),
         (''prompt_composition_id'', js_opt_str prompt_id),
         (''model_policy'', Obj (obj_or_empty (get input ''model_policy''))),
         (''metadata'', Obj (obj_or_empty (get input ''metadata''))),
         (''created_at_utc'', js_opt_str created), (''updated_at_utc'', js_opt_str updated)]
        (i1 @ i2 @ i3 @ i4 @ i5 @ i6 @ i7 @ i8 @ i9 @ i10 @ i11 @ i12))"

definition validateAgentConversationV1 :: "host \<Rightarrow> jsval \<Rightarrow> jsobj validation_result" where
  "validateAgentConversationV1 H input =
     (let (conversation_id, i1) = requiredUuid (js_coalesce (get input ''conversation_id'') (get input ''id'')) ''conversation_id'';
          (mission_id, i2) = requiredUuid (get input ''mission_id'') ''mission_id'';
          (provider, i3) = requiredText (get input ''provider'') ''provider'';
          (st, i4) = enumValue (get input ''status'') AGENT_CONVERSATION_STATUSES_V1 ''status'';
          turn_count = rt_integer (get input ''turn_count'') (Fin 0);
          (last_used, i5) = optionalTimestamp H (get input ''last_used_at_utc'') ''last_used_at_utc'';
          (created, i6) = requiredTimestamp H (js_coalesce (get input ''created_at_utc'') (get input ''created_at'')) ''created_at_utc'';
          (updated, i7) = optionalTimestamp H (js_coalesce (get input ''updated_at_utc'') (get input ''updated_at'')) ''updated_at_utc'';
          i8 = (if jlt turn_count (Fin 0) then [issue_of ''CONVERSATION_TURN_COUNT_NEGATIVE'' ''turn_count''] else []);
          i9 = validateNotBefore H ''updated_at_utc'' updated ''created_at_utc'' created
      in validationResult ''agent_conversation''
        [(''schema_version'', Str ''agent_conversation_v1''), (''conversation_id'', js_opt_str conversation_id),
         (''mission_id'', js_opt_str mission_id), (''provider'', js_opt_str provider),
         (''external_conversation_ref'', js_opt_str (nullableText
            (js_coalesce (get input ''external_conversation_ref'') (get input ''thread_ref'')))),
         (''status'', js_opt_str st),
         (''affinity_key'', js_opt_str (nullableText (get input ''affinity_key''))),
         (''turn_count'', Num turn_count), (''last_used_at_utc'', js_opt_str last_used),
         (''metadata'', Obj (obj_or_empty (get input ''metadata''))),
         (''created_at_utc'', js_opt_str created), (''updated_at_utc'', js_opt_str updated)]
        (i1 @ i2 @ i3 @ i4 @ i5 @ i6 @ i7 @ i8 @ i9))"

section \<open>Tasks\<close>

record task =
  task_id :: "string option"
  mission_id :: "string option"
  conversation_id :: "string option"
  task_key :: "string option"
  task_type :: "string option"
  lane :: "string option"
  input_ref :: "string option"
  output_ref :: "string option"
  task_status :: "string option"
  priority :: jnum
  task_payload :: jsobj
  idempotency_key :: "string option"
  prompt_render_snapshot_id :: "string option"
  depends_on_task_id :: "string option"
  assigned_worker_id :: "string option"
  attempt_count :: jnum
  max_attempts :: jnum
  not_before_utc :: "string option"
  lease_token :: "string option"
  lease_expires_at_utc :: "string option"
  claimed_at_utc :: "string option"
  completed_at_utc :: "string option"
  failed_at_utc :: "string option"
  last_error :: "jsobj option"
  correlation_id :: "string option"
  revision :: jnum
  task_metadata :: jsobj
  created_at_utc :: "string option"
  updated_at_utc :: "string option"

text \<open>The object a task is, in the order of its keys.\<close>

definition task_obj :: "task \<Rightarrow> jsobj" where
  "task_obj t =
     [(''schema_version'', Str ''agent_task_v1''), (''task_id'', js_opt_str (task_id t)),
      (''mission_id'', js_opt_str (mission_id t)), (''conversation_id'', js_opt_str (conversation_id t)),
      (''task_key'', js_opt_str (task_key t)), (''task_type'', js_opt_str (task_type t)),
      (''lane'', js_opt_str (lane t)), (''input_ref'', js_opt_str (input_ref t)),
      (''output_ref'', js_opt_str (output_ref t)), (''status'', js_opt_str (task_status t)),
      (''priority'', Num (priority t)), (''payload'', Obj (task_payload t)),
      (''idempotency_key'', js_opt_str (idempotency_key t)),
      (''prompt_render_snapshot_id'', js_opt_str (prompt_render_snapshot_id t)),
      (''depends_on_task_id'', js_opt_str (depends_on_task_id t)),
      (''assigned_worker_id'', js_opt_str (assigned_worker_id t)),
      (''attempt_count'', Num (attempt_count t)), (''max_attempts'', Num (max_attempts t)),
      (''not_before_utc'', js_opt_str (not_before_utc t)), (''lease_token'', js_opt_str (lease_token t)),
      (''lease_expires_at_utc'', js_opt_str (lease_expires_at_utc t)),
      (''claimed_at_utc'', js_opt_str (claimed_at_utc t)),
      (''completed_at_utc'', js_opt_str (completed_at_utc t)), (''failed_at_utc'', js_opt_str (failed_at_utc t)),
      (''last_error'', case last_error t of None \<Rightarrow> Null | Some fs \<Rightarrow> Obj fs),
      (''correlation_id'', js_opt_str (correlation_id t)), (''revision'', Num (revision t)),
      (''metadata'', Obj (task_metadata t)), (''created_at_utc'', js_opt_str (created_at_utc t)),
      (''updated_at_utc'', js_opt_str (updated_at_utc t))]"

definition normalizeTask :: "host \<Rightarrow> jsval \<Rightarrow> task \<times> issue list" where
  "normalizeTask H e =
     (let maxAttempts = rt_integer (get e ''max_attempts'') (Fin 1);
          (v_task_id, i1) = requiredUuid (js_coalesce (get e ''task_id'') (get e ''id'')) ''task_id'';
          (v_mission_id, i2) = requiredUuid (get e ''mission_id'') ''mission_id'';
          (v_conversation_id, i3) = nullableUuid (get e ''conversation_id'') ''conversation_id'';
          (v_task_type, i4) = requiredText (js_coalesce (get e ''task_type'') (get e ''type'')) ''task_type'';
          (v_lane, i5) = requiredText (get e ''lane'') ''lane'';
          (v_status, i6) = enumValue (get e ''status'') AGENT_TASK_STATUSES_V1 ''status'';
          (v_prompt, i7) = nullableUuid (get e ''prompt_render_snapshot_id'') ''prompt_render_snapshot_id'';
          (v_depends, i8) = nullableUuid (get e ''depends_on_task_id'') ''depends_on_task_id'';
          (v_not_before, i9) = optionalTimestamp H (get e ''not_before_utc'') ''not_before_utc'';
          (v_lease_exp, i10) = optionalTimestamp H (get e ''lease_expires_at_utc'') ''lease_expires_at_utc'';
          (v_claimed, i11) = optionalTimestamp H (get e ''claimed_at_utc'') ''claimed_at_utc'';
          (v_completed, i12) = optionalTimestamp H (get e ''completed_at_utc'') ''completed_at_utc'';
          (v_failed, i13) = optionalTimestamp H (get e ''failed_at_utc'') ''failed_at_utc'';
          (v_created, i14) = requiredTimestamp H (js_coalesce (get e ''created_at_utc'') (get e ''created_at'')) ''created_at_utc'';
          (v_updated, i15) = optionalTimestamp H (js_coalesce (get e ''updated_at_utc'') (get e ''updated_at'')) ''updated_at_utc''
      in (\<lparr>task_id = v_task_id, mission_id = v_mission_id, conversation_id = v_conversation_id,
           task_key = nullableText (get e ''task_key''), task_type = v_task_type, lane = v_lane,
           input_ref = nullableText (get e ''input_ref''), output_ref = nullableText (get e ''output_ref''),
           task_status = v_status, priority = rt_integer (get e ''priority'') (Fin 100),
           task_payload = obj_or_empty (get e ''payload''),
           idempotency_key = nullableText (get e ''idempotency_key''),
           prompt_render_snapshot_id = v_prompt, depends_on_task_id = v_depends,
           assigned_worker_id = nullableText (get e ''assigned_worker_id''),
           attempt_count = rt_integer (get e ''attempt_count'') (Fin 0),
           max_attempts = (if jlt (Fin 0) maxAttempts then maxAttempts else Fin 1),
           not_before_utc = v_not_before, lease_token = nullableText (get e ''lease_token''),
           lease_expires_at_utc = v_lease_exp, claimed_at_utc = v_claimed,
           completed_at_utc = v_completed, failed_at_utc = v_failed,
           last_error = nullableJsonObject (get e ''last_error''),
           correlation_id = nullableText (get e ''correlation_id''),
           revision = rt_integer (get e ''revision'') (Fin 0),
           task_metadata = obj_or_empty (get e ''metadata''),
           created_at_utc = v_created, updated_at_utc = v_updated\<rparr>,
          i1 @ i2 @ i3 @ i4 @ i5 @ i6 @ i7 @ i8 @ i9 @ i10 @ i11 @ i12 @ i13 @ i14 @ i15))"

definition FINAL_TASK_STATUSES :: "string list" where
  "FINAL_TASK_STATUSES = [''DONE'', ''ERROR'', ''CANCELLED'', ''EXPIRED'']"

definition CLAIMABLE_TASK_STATUSES :: "string list" where
  "CLAIMABLE_TASK_STATUSES = [''PENDING'', ''READY'']"

definition LEASED_TASK_STATUSES :: "string list" where
  "LEASED_TASK_STATUSES = [''CLAIMED'', ''RUNNING'']"

definition status_in :: "task \<Rightarrow> string list \<Rightarrow> bool" where
  "status_in t xs = (case task_status t of Some s \<Rightarrow> s \<in> set xs | None \<Rightarrow> False)"

definition validateTaskChronology :: "host \<Rightarrow> task \<Rightarrow> issue list" where
  "validateTaskChronology H t =
     validateNotBefore H ''updated_at_utc'' (updated_at_utc t) ''created_at_utc'' (created_at_utc t)
     @ validateNotBefore H ''claimed_at_utc'' (claimed_at_utc t) ''created_at_utc'' (created_at_utc t)
     @ validateNotBefore H ''completed_at_utc'' (completed_at_utc t) ''created_at_utc'' (created_at_utc t)
     @ validateNotBefore H ''failed_at_utc'' (failed_at_utc t) ''created_at_utc'' (created_at_utc t)
     @ (if jlt (attempt_count t) (Fin 0) then [issue_of ''TASK_ATTEMPT_COUNT_NEGATIVE'' ''attempt_count''] else [])
     @ (if jlt (revision t) (Fin 0) then [issue_of ''TASK_REVISION_NEGATIVE'' ''revision''] else [])
     @ (if status_in t LEASED_TASK_STATUSES \<and> (assigned_worker_id t = None \<or> lease_token t = None)
        then [issue_of ''TASK_LEASE_REQUIRED_FOR_LEASED_STATUS'' ''lease_token''] else [])
     @ (if task_status t = Some ''DONE'' \<and> completed_at_utc t = None
        then [issue_of ''TASK_COMPLETED_AT_REQUIRED'' ''completed_at_utc''] else [])
     @ (if task_status t = Some ''ERROR'' \<and> last_error t = None
        then [issue_of ''TASK_ERROR_REQUIRED'' ''last_error''] else [])"

definition validateAgentTaskV1 :: "host \<Rightarrow> jsval \<Rightarrow> task validation_result" where
  "validateAgentTaskV1 H input =
     (let (t, issues) = normalizeTask H input
      in validationResult ''agent_task'' t (issues @ validateTaskChronology H t))"

section \<open>Leases, events and results\<close>

record lease =
  l_task_id :: "string option"
  l_mission_id :: "string option"
  l_worker_id :: "string option"
  l_token :: "string option"
  l_status :: string
  l_acquired_at_utc :: "string option"
  l_expires_at_utc :: "string option"
  l_released_at_utc :: "string option"
  l_heartbeat_at_utc :: "string option"
  l_metadata :: jsobj

definition lease_obj :: "lease \<Rightarrow> jsobj" where
  "lease_obj l =
     [(''schema_version'', Str ''agent_lease_v1''), (''task_id'', js_opt_str (l_task_id l)),
      (''mission_id'', js_opt_str (l_mission_id l)), (''worker_id'', js_opt_str (l_worker_id l)),
      (''lease_token'', js_opt_str (l_token l)), (''status'', Str (l_status l)),
      (''acquired_at_utc'', js_opt_str (l_acquired_at_utc l)), (''expires_at_utc'', js_opt_str (l_expires_at_utc l)),
      (''released_at_utc'', js_opt_str (l_released_at_utc l)),
      (''heartbeat_at_utc'', js_opt_str (l_heartbeat_at_utc l)), (''metadata'', Obj (l_metadata l))]"

definition seal :: "host \<Rightarrow> string \<Rightarrow> jsobj \<Rightarrow> jsobj" where
  "seal H k fs = spread fs [(k, Str (''sha256:'' @ canonicalSha256 H (Obj fs)))]"

text \<open>\<open>buildLease\<close>; the object returned is \<open>seal H ''lease_hash'' (lease_obj l)\<close>.\<close>

definition buildLease :: "task \<Rightarrow> jsobj \<Rightarrow> lease" where
  "buildLease t overrides =
     \<lparr>l_task_id = task_id t, l_mission_id = mission_id t,
      l_worker_id = nullableText (fget overrides ''worker_id''),
      l_token = nullableText (fget overrides ''lease_token''),
      l_status = enumOrDefault (fget overrides ''status'') AGENT_LEASE_STATUSES_V1 ''ACTIVE'',
      l_acquired_at_utc = nullableText (fget overrides ''acquired_at_utc''),
      l_expires_at_utc = nullableText (fget overrides ''expires_at_utc''),
      l_released_at_utc = nullableText (fget overrides ''released_at_utc''),
      l_heartbeat_at_utc = nullableText (fget overrides ''heartbeat_at_utc''),
      l_metadata = obj_or_empty (fget overrides ''metadata'')\<rparr>"

definition buildAgentEventV1 :: "host \<Rightarrow> jsobj \<Rightarrow> jsobj" where
  "buildAgentEventV1 H input =
     (let eventType = rt_upper (fget input ''event_type'');
          t = fget input ''task''; l = fget input ''lease''
      in seal H ''event_hash''
        [(''schema_version'', Str ''agent_event_v1''),
         (''event_type'', case eventType of Some e \<Rightarrow> if e \<in> set AGENT_EVENT_TYPES_V1 then Str e else Null | None \<Rightarrow> Null),
         (''mission_id'', js_opt_str (nullableText (js_coalesce (fget input ''mission_id'') (get t ''mission_id'')))),
         (''task_id'', js_opt_str (nullableText (js_coalesce (fget input ''task_id'') (get t ''task_id'')))),
         (''conversation_id'', js_opt_str (nullableText (js_coalesce (fget input ''conversation_id'') (get t ''conversation_id'')))),
         (''lease_token'', js_opt_str (nullableText (js_coalesce (fget input ''lease_token'') (get l ''lease_token'')))),
         (''correlation_id'', js_opt_str (nullableText (js_coalesce (fget input ''correlation_id'') (get t ''correlation_id'')))),
         (''causation_id'', js_opt_str (nullableText (fget input ''causation_id''))),
         (''actor'', js_opt_str (nullableText (fget input ''actor''))),
         (''payload'', Obj (obj_or_empty (fget input ''payload''))),
         (''created_at_utc'', js_opt_str (nullableText (js_coalesce (fget input ''now_utc'') (fget input ''created_at_utc''))))])"

definition agentRuntimeHashV1 :: "host \<Rightarrow> jsval \<Rightarrow> string" where
  "agentRuntimeHashV1 H input = ''sha256:'' @ canonicalSha256 H (if input = Undef then Obj [] else input)"

text \<open>
  The result of a transition. \<open>res_sealed\<close> is the task's object with its \<open>task_hash\<close>, present
  when the transition was accepted; a rejection returns the unsealed task.
\<close>

record agent_transition =
  res_ok :: bool
  res_reasons :: "string list"
  res_task :: task
  res_sealed :: "jsobj option"
  res_lease :: "lease option"
  res_event :: "jsobj option"

definition transitionAccepted :: "host \<Rightarrow> task \<Rightarrow> lease \<Rightarrow> jsobj \<Rightarrow> agent_transition" where
  "transitionAccepted H t l e = \<lparr>res_ok = True, res_reasons = [], res_task = t,
     res_sealed = Some (seal H ''task_hash'' (task_obj t)), res_lease = Some l, res_event = Some e\<rparr>"

definition transitionRejected :: "string list \<Rightarrow> task \<Rightarrow> agent_transition" where
  "transitionRejected rs t = \<lparr>res_ok = False, res_reasons = uniq (filter (\<lambda>r. r \<noteq> []) rs), res_task = t,
     res_sealed = None, res_lease = None, res_event = None\<rparr>"

lemma transition_simps [simp]:
  "res_ok (transitionAccepted H t l e)" "\<not> res_ok (transitionRejected rs t)"
  "res_task (transitionAccepted H t l e) = t" "res_task (transitionRejected rs t) = t"
  "res_lease (transitionAccepted H t l e) = Some l" "res_event (transitionAccepted H t l e) = Some e"
  by (simp_all add: transitionAccepted_def transitionRejected_def)

section \<open>Time\<close>

text \<open>\<open>Date.parse(s || "")\<close>; the empty string is not a date.\<close>

definition opt_date :: "host \<Rightarrow> string option \<Rightarrow> int option" where
  "opt_date H s = (case s of Some x \<Rightarrow> date_parse H x | None \<Rightarrow> None)"

definition leaseExpired :: "host \<Rightarrow> task \<Rightarrow> string option \<Rightarrow> bool" where
  "leaseExpired H t now = (case (opt_date H (lease_expires_at_utc t), opt_date H now) of
     (Some expiresAt, Some nowTime) \<Rightarrow> expiresAt \<le> nowTime | _ \<Rightarrow> False)"

definition hasActiveLease :: "host \<Rightarrow> task \<Rightarrow> string option \<Rightarrow> bool" where
  "hasActiveLease H t now \<longleftrightarrow> lease_token t \<noteq> None \<and> lease_expires_at_utc t \<noteq> None \<and> \<not> leaseExpired H t now"

definition notBeforeInFuture :: "host \<Rightarrow> task \<Rightarrow> string option \<Rightarrow> bool" where
  "notBeforeInFuture H t now = (case (opt_date H (not_before_utc t), opt_date H now) of
     (Some notBefore, Some nowTime) \<Rightarrow> notBefore > nowTime | _ \<Rightarrow> False)"

text \<open>\<open>new Date(Date.parse(value) + seconds * 1000).toISOString()\<close>, which throws outside the range of dates.\<close>

definition timestampPlusSeconds :: "host \<Rightarrow> string option \<Rightarrow> jnum \<Rightarrow> js_error + string" where
  "timestampPlusSeconds H value seconds =
     (case jadd (case opt_date H value of Some t \<Rightarrow> Fin (of_int t) | None \<Rightarrow> NaN) (jmul seconds (Fin 1000)) of
        Fin r \<Rightarrow> (case to_iso (if 0 \<le> r then \<lfloor>r\<rfloor> else \<lceil>r\<rceil>) of
            Some s \<Rightarrow> Inr s | None \<Rightarrow> Inl (RangeError ''Invalid time value''))
      | _ \<Rightarrow> Inl (RangeError ''Invalid time value''))"

section \<open>agent-runtime-retry-policy-v1.js\<close>

text \<open>\<open>a % b\<close> and \<open>Number.parseInt(s, 16)\<close> on the hexadecimal digits of a digest.\<close>

definition jrem :: "jnum \<Rightarrow> jnum \<Rightarrow> jnum" where
  "jrem a b = (case (a, b) of
       (Fin x, Fin y) \<Rightarrow> if y = 0 then NaN
         else Fin (x - y * of_int (if 0 \<le> x / y then \<lfloor>x / y\<rfloor> else \<lceil>x / y\<rceil>))
     | (Fin x, PInf) \<Rightarrow> Fin x | (Fin x, NInf) \<Rightarrow> Fin x | _ \<Rightarrow> NaN)"

definition parse_int16 :: "string \<Rightarrow> jnum" where
  "parse_int16 s = (let ds = takeWhile is_hex_digit s in
     if ds = [] then NaN else Fin (of_int (digits_val 16 (to_lower ds))))"

definition boundedJitter :: "host \<Rightarrow> task \<Rightarrow> jsval \<Rightarrow> jnum \<Rightarrow> jnum" where
  "boundedJitter H t cmd jitterSeconds =
     (let maxJitter = jmax (Fin 0) jitterSeconds in
      if maxJitter = Fin 0 then Fin 0
      else let h = ''sha256:'' @ canonicalSha256 H (Obj
             [(''task_id'', js_opt_str (task_id t)), (''attempt_count'', Num (attempt_count t)),
              (''error_code'', get cmd ''error_code'')])
           in jrem (parse_int16 (drop (length h - 8) h)) (jadd maxJitter (Fin 1)))"

definition rawDelay :: "task \<Rightarrow> jsval \<Rightarrow> jnum" where
  "rawDelay t policy =
     (let base = rt_integer (get policy ''base_delay_seconds'') (Fin 60);
          multiplier = rt_integer (get policy ''multiplier'') (Fin 2);
          attempts = (if truthy (Num (attempt_count t)) then attempt_count t else Fin 1);
          exponent = jmax (Fin 0) (jsub attempts (Fin 1))
      in jmul (jmax (Fin 0) base) (jpow (jmax (Fin 1) multiplier) exponent))"

definition planAgentTaskRetryV1 ::
  "host \<Rightarrow> task \<Rightarrow> jsval \<Rightarrow> string option \<Rightarrow> string \<Rightarrow> js_error + (jnum option \<times> string option)" where
  "planAgentTaskRetryV1 H t cmd nowUtc nextStatus =
     (if nextStatus \<noteq> ''READY'' then Inr (None, None)
      else let policy = Obj (obj_or_empty (get cmd ''retry_policy''));
               maxd = rt_integer (get policy ''max_delay_seconds'') (Fin 900);
               jitter = rt_integer (get policy ''jitter_seconds'') (Fin 0);
               retryAfterSeconds = jadd (jmin (jmax (Fin 0) maxd) (rawDelay t policy))
                  (boundedJitter H t cmd jitter)
           in and_then (timestampPlusSeconds H nowUtc retryAfterSeconds)
                (\<lambda>next. Inr (Some retryAfterSeconds, Some next)))"

section \<open>Transitions\<close>

definition transitionPreflight :: "host \<Rightarrow> string \<Rightarrow> task \<Rightarrow> issue list \<Rightarrow> string list + unit" where
  "transitionPreflight H action t issues =
     (let issues = issues @ validateTaskChronology H t in
      if issues \<noteq> [] then Inl (List.map code_of issues)
      else if task_id t = None then Inl [''TASK_ID_REQUIRED'']
      else if mission_id t = None then Inl [''MISSION_ID_REQUIRED'']
      else if task_status t = None then Inl [''TASK_'' @ to_upper action @ ''_STATUS_REQUIRED'']
      else Inr ())"

definition leasePreflight :: "host \<Rightarrow> string \<Rightarrow> task \<Rightarrow> jsval \<Rightarrow> issue list \<Rightarrow> string list + unit" where
  "leasePreflight H action t cmd issues =
     (let (workerId, w) = requiredText (get cmd ''worker_id'') ''worker_id'';
          (token, l) = requiredText (get cmd ''lease_token'') ''lease_token'' in
      case transitionPreflight H action t (issues @ w @ l) of
        Inl rs \<Rightarrow> Inl rs
      | Inr _ \<Rightarrow>
          if \<not> status_in t LEASED_TASK_STATUSES then Inl [''TASK_NOT_LEASED'']
          else if lease_token t = None \<or> assigned_worker_id t = None then Inl [''AGENT_TASK_LEASE_REQUIRED'']
          else if assigned_worker_id t \<noteq> workerId \<or> lease_token t \<noteq> token then Inl [''AGENT_TASK_LEASE_MISMATCH'']
          else Inr ())"

text \<open>The event of a transition, about the sealed task and lease.\<close>

definition transition_event ::
  "host \<Rightarrow> string \<Rightarrow> task \<Rightarrow> lease \<Rightarrow> string option \<Rightarrow> string option \<Rightarrow> jsobj \<Rightarrow> jsobj" where
  "transition_event H ty t l actor now pay = buildAgentEventV1 H
     [(''event_type'', Str ty), (''task'', Obj (seal H ''task_hash'' (task_obj t))),
      (''lease'', Obj (seal H ''lease_hash'' (lease_obj l))), (''actor'', js_opt_str actor),
      (''now_utc'', js_opt_str now), (''payload'', Obj pay)]"

definition claimAgentTaskV1 :: "host \<Rightarrow> jsval \<Rightarrow> jsval \<Rightarrow> js_error + agent_transition" where
  "claimAgentTaskV1 H taskInput cmd =
     (let (t, i0) = normalizeTask H taskInput;
          (now, i1) = requiredTimestamp H (get cmd ''now_utc'') ''now_utc'';
          (workerId, i2) = requiredText (get cmd ''worker_id'') ''worker_id'';
          (token, i3) = requiredText (get cmd ''lease_token'') ''lease_token'';
          leaseSeconds = rt_integer (get cmd ''lease_seconds'') (Fin 900) in
      case transitionPreflight H ''claim'' t (i0 @ i1 @ i2 @ i3) of
        Inl rs \<Rightarrow> Inr (transitionRejected rs t)
      | Inr _ \<Rightarrow>
          if jle leaseSeconds (Fin 0) then Inr (transitionRejected [''LEASE_SECONDS_INVALID''] t)
          else if status_in t FINAL_TASK_STATUSES then Inr (transitionRejected [''TASK_FINAL''] t)
          else if hasActiveLease H t now \<and> status_in t LEASED_TASK_STATUSES
            then Inr (transitionRejected [''AGENT_TASK_ALREADY_LEASED''] t)
          else if notBeforeInFuture H t now then Inr (transitionRejected [''AGENT_TASK_NOT_READY_BEFORE''] t)
          else if \<not> status_in t CLAIMABLE_TASK_STATUSES \<and> \<not> leaseExpired H t now
            then Inr (transitionRejected [''TASK_NOT_CLAIMABLE''] t)
          else and_then (timestampPlusSeconds H now leaseSeconds) (\<lambda>expires.
            let l = buildLease t [(''worker_id'', js_opt_str workerId), (''lease_token'', js_opt_str token),
                      (''acquired_at_utc'', js_opt_str now), (''expires_at_utc'', Str expires)];
                t' = t\<lparr>task_status := Some ''CLAIMED'', assigned_worker_id := workerId, lease_token := token,
                       lease_expires_at_utc := l_expires_at_utc l, claimed_at_utc := now,
                       not_before_utc := None, attempt_count := jadd (attempt_count t) (Fin 1),
                       revision := jadd (revision t) (Fin 1), updated_at_utc := now\<rparr>
            in Inr (transitionAccepted H t' l (transition_event H ''TASK_CLAIMED'' t' l workerId now
                 [(''previous_status'', js_opt_str (task_status t)),
                  (''next_status'', js_opt_str (task_status t')),
                  (''attempt_count'', Num (attempt_count t'))]))))"

definition extendAgentLeaseV1 :: "host \<Rightarrow> jsval \<Rightarrow> jsval \<Rightarrow> js_error + agent_transition" where
  "extendAgentLeaseV1 H taskInput cmd =
     (let (t, i0) = normalizeTask H taskInput;
          (now, i1) = requiredTimestamp H (get cmd ''now_utc'') ''now_utc'';
          leaseSeconds = rt_integer (get cmd ''lease_seconds'') (Fin 900) in
      case leasePreflight H ''extend'' t cmd (i0 @ i1) of
        Inl rs \<Rightarrow> Inr (transitionRejected rs t)
      | Inr _ \<Rightarrow>
          if jle leaseSeconds (Fin 0) then Inr (transitionRejected [''LEASE_SECONDS_INVALID''] t)
          else if leaseExpired H t now then Inr (transitionRejected [''AGENT_TASK_LEASE_EXPIRED''] t)
          else and_then (timestampPlusSeconds H now leaseSeconds) (\<lambda>expires.
            let l = buildLease t [(''worker_id'', js_opt_str (assigned_worker_id t)),
                      (''lease_token'', js_opt_str (lease_token t)),
                      (''acquired_at_utc'', js_opt_str (if claimed_at_utc t = None then now else claimed_at_utc t)),
                      (''expires_at_utc'', Str expires), (''heartbeat_at_utc'', js_opt_str now)];
                t' = t\<lparr>lease_expires_at_utc := l_expires_at_utc l,
                       revision := jadd (revision t) (Fin 1), updated_at_utc := now\<rparr>
            in Inr (transitionAccepted H t' l (transition_event H ''LEASE_EXTENDED'' t' l
                 (assigned_worker_id t) now [(''next_lease_expires_at_utc'', js_opt_str (l_expires_at_utc l))]))))"

definition completeAgentTaskV1 :: "host \<Rightarrow> jsval \<Rightarrow> jsval \<Rightarrow> js_error + agent_transition" where
  "completeAgentTaskV1 H taskInput cmd =
     (let (t, i0) = normalizeTask H taskInput;
          (now, i1) = requiredTimestamp H (get cmd ''now_utc'') ''now_utc'' in
      case leasePreflight H ''complete'' t cmd (i0 @ i1) of
        Inl rs \<Rightarrow> Inr (transitionRejected rs t)
      | Inr _ \<Rightarrow>
          if leaseExpired H t now then Inr (transitionRejected [''AGENT_TASK_LEASE_EXPIRED''] t)
          else
            let t' = t\<lparr>task_status := Some ''DONE'',
                   output_ref := (case nullableText (get cmd ''output_ref'') of Some r \<Rightarrow> Some r | None \<Rightarrow> output_ref t),
                   completed_at_utc := now, lease_token := None, lease_expires_at_utc := None,
                   revision := jadd (revision t) (Fin 1), updated_at_utc := now\<rparr>;
                l = buildLease t [(''worker_id'', js_opt_str (assigned_worker_id t)),
                      (''lease_token'', js_opt_str (lease_token t)),
                      (''acquired_at_utc'', js_opt_str (if claimed_at_utc t = None then now else claimed_at_utc t)),
                      (''expires_at_utc'', js_opt_str (lease_expires_at_utc t)),
                      (''released_at_utc'', js_opt_str now), (''status'', Str ''RELEASED'')]
            in Inr (transitionAccepted H t' l (transition_event H ''TASK_COMPLETED'' t' l
                 (assigned_worker_id t) now [(''output_ref'', js_opt_str (output_ref t'))])))"

definition failAgentTaskV1 :: "host \<Rightarrow> jsval \<Rightarrow> jsval \<Rightarrow> js_error + agent_transition" where
  "failAgentTaskV1 H taskInput cmd =
     (let (t, i0) = normalizeTask H taskInput;
          (now, i1) = requiredTimestamp H (get cmd ''now_utc'') ''now_utc'' in
      case leasePreflight H ''fail'' t cmd (i0 @ i1) of
        Inl rs \<Rightarrow> Inr (transitionRejected rs t)
      | Inr _ \<Rightarrow>
          let retryable = (get cmd ''retryable'' = Bool True);
              maxAttempts = (if truthy (Num (max_attempts t)) then max_attempts t else Fin 1);
              nextStatus = (if retryable \<and> jlt (attempt_count t) maxAttempts then ''READY'' else ''ERROR'')
          in and_then (planAgentTaskRetryV1 H t cmd now nextStatus) (\<lambda>(retryAfter, nextRetry).
            let (errorCode, i2) = requiredText (get cmd ''error_code'') ''error_code'';
                errCode = (case errorCode of Some c \<Rightarrow> c | None \<Rightarrow> ''AGENT_TASK_FAILED'');
                t' = t\<lparr>task_status := Some nextStatus, lease_token := None, lease_expires_at_utc := None,
                   not_before_utc := nextRetry, failed_at_utc := now,
                   last_error := Some
                     [(''error_code'', Str errCode),
                      (''error_message'', js_opt_str (nullableText (get cmd ''error_message''))),
                      (''retryable'', Bool retryable), (''retry_after_seconds'', js_opt_num retryAfter),
                      (''next_retry_at_utc'', js_opt_str nextRetry), (''failed_at_utc'', js_opt_str now)],
                   revision := jadd (revision t) (Fin 1), updated_at_utc := now\<rparr>
            in if i2 \<noteq> [] then Inr (transitionRejected (List.map code_of i2) t)
               else let l = buildLease t [(''worker_id'', js_opt_str (assigned_worker_id t)),
                      (''lease_token'', js_opt_str (lease_token t)),
                      (''acquired_at_utc'', js_opt_str (if claimed_at_utc t = None then now else claimed_at_utc t)),
                      (''expires_at_utc'', js_opt_str (lease_expires_at_utc t)),
                      (''released_at_utc'', js_opt_str now), (''status'', Str ''RELEASED'')]
               in Inr (transitionAccepted H t' l (transition_event H ''TASK_FAILED'' t' l
                 (assigned_worker_id t) now
                 [(''next_status'', Str nextStatus), (''error_code'', Str errCode), (''retryable'', Bool retryable),
                  (''retry_after_seconds'', js_opt_num retryAfter), (''next_retry_at_utc'', js_opt_str nextRetry)]))))"

definition expireAgentTaskLeaseV1 :: "host \<Rightarrow> jsval \<Rightarrow> jsval \<Rightarrow> js_error + agent_transition" where
  "expireAgentTaskLeaseV1 H taskInput cmd =
     (let (t, i0) = normalizeTask H taskInput;
          (now, i1) = requiredTimestamp H (get cmd ''now_utc'') ''now_utc'' in
      case transitionPreflight H ''expire'' t (i0 @ i1) of
        Inl rs \<Rightarrow> Inr (transitionRejected rs t)
      | Inr _ \<Rightarrow>
          if lease_token t = None \<or> lease_expires_at_utc t = None
            then Inr (transitionRejected [''AGENT_TASK_LEASE_REQUIRED''] t)
          else if \<not> leaseExpired H t now then Inr (transitionRejected [''AGENT_TASK_LEASE_NOT_EXPIRED''] t)
          else
            let nextStatus = (if jlt (attempt_count t) (max_attempts t) then ''READY'' else ''EXPIRED'');
                t' = t\<lparr>task_status := Some nextStatus, lease_token := None, lease_expires_at_utc := None,
                   revision := jadd (revision t) (Fin 1), updated_at_utc := now\<rparr>;
                l = buildLease t [(''worker_id'', js_opt_str (assigned_worker_id t)),
                      (''lease_token'', js_opt_str (lease_token t)),
                      (''acquired_at_utc'', js_opt_str (if claimed_at_utc t = None then now else claimed_at_utc t)),
                      (''expires_at_utc'', js_opt_str (lease_expires_at_utc t)), (''status'', Str ''EXPIRED'')]
            in Inr (transitionAccepted H t' l (transition_event H ''TASK_EXPIRED'' t' l
                 (case nullableText (get cmd ''actor'') of Some a \<Rightarrow> Some a | None \<Rightarrow> Some ''agent-runtime'') now
                 [(''previous_lease_expires_at_utc'', js_opt_str (lease_expires_at_utc t)),
                  (''next_status'', Str nextStatus)])))"

section \<open>Bounds of the retry delay\<close>

lemma rt_integer_Fin: "is_integer d \<Longrightarrow> \<exists>m. rt_integer v d = Fin (of_int m)"
  by (cases "to_num v"; cases d) (auto simp: rt_integer_def is_integer_def intro: exI[of _ "\<lfloor>_\<rfloor>"])

lemma jmax_0_int: "jmax (Fin 0) (Fin (of_int m)) = Fin (of_int (max 0 m))"
  by (simp add: jmax_def max_def)

lemma hex_digit_val: "is_hex_digit c \<Longrightarrow> 0 \<le> digit_val (lower_char c) \<and> digit_val (lower_char c) \<le> 15"
proof -
  assume "is_hex_digit c"
  then consider "48 \<le> code c \<and> code c \<le> 57" | "97 \<le> code c \<and> code c \<le> 102" | "65 \<le> code c \<and> code c \<le> 70"
    by (auto simp: is_hex_digit_def is_digit_def)
  then show ?thesis
    by cases (auto simp: digit_val_def lower_char_def is_digit_def)
qed

lemma digits_val_hex:
  "list_all is_hex_digit s \<Longrightarrow> 0 \<le> digits_val 16 (to_lower s) \<and> digits_val 16 (to_lower s) < 16 ^ length s"
proof (induction s rule: rev_induct)
  case (snoc c s)
  then have "0 \<le> digit_val (lower_char c)" "digit_val (lower_char c) \<le> 15" using hex_digit_val by auto
  with snoc show ?case by (auto simp: digits_val_def to_lower_def)
qed (simp add: digits_val_def to_lower_def)

lemma parse_int16_bounds:
  assumes "length s \<le> 8"
  shows "parse_int16 s = NaN \<or> (\<exists>k. parse_int16 s = Fin (of_int k) \<and> 0 \<le> k \<and> k < 2 ^ 32)"
proof -
  let ?d = "takeWhile is_hex_digit s"
  have "list_all is_hex_digit ?d" by (induction s) auto
  then have "0 \<le> digits_val 16 (to_lower ?d)" "digits_val 16 (to_lower ?d) < 16 ^ length ?d"
    using digits_val_hex by auto
  moreover have "(16::int) ^ length ?d \<le> 16 ^ 8"
    using assms length_takeWhile_le[of is_hex_digit s] by (intro power_increasing) auto
  ultimately show ?thesis by (auto simp: parse_int16_def Let_def)
qed

lemma jrem_bounds:
  assumes "0 \<le> k" "k < 2 ^ 32" "0 < m"
  shows "\<exists>j. jrem (Fin (of_int k)) (jadd (Fin (of_int m)) (Fin 1)) = Fin j \<and> 0 \<le> j \<and> j \<le> of_int m"
proof (cases "m + 1 \<le> 2 ^ 53")
  case True
  then have "jadd (Fin (of_int m)) (Fin 1) = Fin (of_int (m + 1))"
    using jadd_int[of m 1] assms(3) by simp
  moreover have "\<lfloor>(of_int k :: rat) / of_int (m + 1)\<rfloor> = k div (m + 1)"
    by (rule floor_divide_of_int_eq)
  moreover have "0 \<le> (of_int k :: rat) / of_int (m + 1)" using assms by simp
  ultimately have "jrem (Fin (of_int k)) (jadd (Fin (of_int m)) (Fin 1))
      = Fin (of_int k - of_int (m + 1) * of_int (k div (m + 1)))"
    using assms(3) by (simp add: jrem_def)
  also have "of_int k - of_int (m + 1) * of_int (k div (m + 1)) = (of_int (k mod (m + 1)) :: rat)"
    by (metis minus_mult_div_eq_mod of_int_diff of_int_mult)
  finally show ?thesis
    using assms(3) pos_mod_sign[of "m + 1" k] pos_mod_bound[of "m + 1" k] by auto
next
  case False
  have "jle (Fin (of_int (2 ^ 53))) (rnd (of_int m + 1))"
    by (rule jle_rnd_double) (use False is_double_of_int[of "2 ^ 53"] in \<open>simp_all\<close>)
  then consider "rnd (of_int m + 1) = PInf" | y where "rnd (of_int m + 1) = Fin y" "2 ^ 53 \<le> y"
    by (cases "rnd (of_int m + 1)") auto
  then show ?thesis
  proof cases
    case 1
    then show ?thesis using assms False by (simp add: jrem_def)
  next
    case 2
    have "(of_int k :: rat) < y" using 2(2) assms(2) by simp
    then have "\<lfloor>(of_int k :: rat) / y\<rfloor> = 0" using assms(1) 2(2) by (simp add: floor_eq_iff)
    with 2 assms False show ?thesis by (simp add: jrem_def)
  qed
qed

lemma boundedJitter_bounds:
  "boundedJitter H t cmd (Fin (of_int j)) = NaN
    \<or> (\<exists>x. boundedJitter H t cmd (Fin (of_int j)) = Fin x \<and> 0 \<le> x \<and> x \<le> of_int (max 0 j))"
proof (cases "j \<le> 0")
  case True
  then show ?thesis by (simp add: boundedJitter_def jmax_0_int max_def)
next
  case False
  define h where "h = ''sha256:'' @ canonicalSha256 H (Obj
             [(''task_id'', js_opt_str (task_id t)), (''attempt_count'', Num (attempt_count t)),
              (''error_code'', get cmd ''error_code'')])"
  have "boundedJitter H t cmd (Fin (of_int j))
      = jrem (parse_int16 (drop (length h - 8) h)) (jadd (Fin (of_int j)) (Fin 1))"
    using False by (simp add: boundedJitter_def jmax_0_int max_def h_def Let_def)
  moreover have "parse_int16 (drop (length h - 8) h) = NaN
      \<or> (\<exists>k. parse_int16 (drop (length h - 8) h) = Fin (of_int k) \<and> 0 \<le> k \<and> k < 2 ^ 32)"
    by (rule parse_int16_bounds) simp
  ultimately show ?thesis
    using jrem_bounds[of _ j] False by (auto simp: jrem_def max_def) (metis+)?
qed

lemma jpow_nonneg: "jpow (Fin (of_int (max 1 m))) e = NaN \<or> jle (Fin 0) (jpow (Fin (of_int (max 1 m))) e)"
  by (cases e) (auto simp: jpow_def intro!: rnd_nonneg zero_le_power)

lemma rawDelay_nonneg: "rawDelay t policy = NaN \<or> jle (Fin 0) (rawDelay t policy)"
proof -
  obtain b where b: "rt_integer (get policy ''base_delay_seconds'') (Fin 60) = Fin (of_int b)"
    using rt_integer_Fin[of "Fin 60"] by (auto simp: is_integer_def)
  obtain m where m: "rt_integer (get policy ''multiplier'') (Fin 2) = Fin (of_int m)"
    using rt_integer_Fin[of "Fin 2"] by (auto simp: is_integer_def)
  have one: "jmax (Fin 1) (Fin (of_int m)) = Fin (of_int (max 1 m))"
    by (simp add: jmax_def max_def)
  have "jmul (Fin (of_int (max 0 b))) p = NaN \<or> jle (Fin 0) (jmul (Fin (of_int (max 0 b))) p)"
    if "p = NaN \<or> jle (Fin 0) p" for p
    using that by (cases p) (auto simp: jinf_def intro!: rnd_nonneg)
  then show ?thesis
    using jpow_nonneg[of m] by (simp add: rawDelay_def b m one jmax_0_int Let_def)
qed

lemma fget_obj_or_empty [simp]: "fget (obj_or_empty v) k = get v k"
  by (cases v) simp_all

section \<open>What an accepted transition establishes\<close>

lemma preflight_Inr:
  "transitionPreflight H a t issues = Inr u \<longleftrightarrow>
     issues = [] \<and> validateTaskChronology H t = [] \<and> task_id t \<noteq> None \<and> mission_id t \<noteq> None \<and> task_status t \<noteq> None"
  by (auto simp: transitionPreflight_def Let_def)

lemma requiredText_snd: "snd (requiredText v p) = [] \<longleftrightarrow> nullableText v \<noteq> None"
  and requiredText_fst: "fst (requiredText v p) = nullableText v"
  by (simp_all add: requiredText_def)

lemma requiredTimestamp_snd:
  "snd (requiredTimestamp H v p) = [] \<longleftrightarrow> (\<exists>s. nullableText v = Some s \<and> date_parse H s \<noteq> None)"
  and requiredTimestamp_fst: "fst (requiredTimestamp H v p) = nullableText v"
  by (auto simp: requiredTimestamp_def timestamp_issues_def split: option.split)

text \<open>The facts every accepted operation under a lease rests on.\<close>

definition holds_lease :: "task \<Rightarrow> jsval \<Rightarrow> bool" where
  "holds_lease t cmd \<longleftrightarrow> status_in t LEASED_TASK_STATUSES
     \<and> lease_token t \<noteq> None \<and> lease_token t = nullableText (get cmd ''lease_token'')
     \<and> assigned_worker_id t \<noteq> None \<and> assigned_worker_id t = nullableText (get cmd ''worker_id'')"

lemma leasePreflight_Inr:
  "leasePreflight H a t cmd issues = Inr u \<Longrightarrow> issues = [] \<and> holds_lease t cmd"
  by (auto simp: leasePreflight_def holds_lease_def preflight_Inr requiredText_def split: sum.splits if_splits)

definition accepted_as :: "js_error + agent_transition \<Rightarrow> agent_transition \<Rightarrow> bool" where
  "accepted_as m r \<longleftrightarrow> m = Inr r \<and> res_ok r"

lemma accepted_as_simps [simp]:
  "\<not> accepted_as (Inl e) r" "\<not> accepted_as (Inr (transitionRejected rs t)) r"
  "accepted_as (Inr (transitionAccepted H t l ev)) r \<longleftrightarrow> r = transitionAccepted H t l ev"
  by (auto simp: accepted_as_def)

lemma accepted_as_and_then: "accepted_as (and_then m f) r \<longleftrightarrow> (\<exists>x. m = Inr x \<and> accepted_as (f x) r)"
  by (cases m) (auto simp: accepted_as_def)

abbreviation the_task :: "host \<Rightarrow> jsval \<Rightarrow> task" where
  "the_task H v \<equiv> fst (normalizeTask H v)"

abbreviation the_now :: "jsval \<Rightarrow> string option" where
  "the_now cmd \<equiv> nullableText (get cmd ''now_utc'')"

lemma claim_accepted:
  assumes "accepted_as (claimAgentTaskV1 H v cmd) r"
  shows "\<not> status_in (the_task H v) FINAL_TASK_STATUSES
    \<and> \<not> (hasActiveLease H (the_task H v) (the_now cmd) \<and> status_in (the_task H v) LEASED_TASK_STATUSES)
    \<and> \<not> notBeforeInFuture H (the_task H v) (the_now cmd)
    \<and> nullableText (get cmd ''worker_id'') \<noteq> None \<and> nullableText (get cmd ''lease_token'') \<noteq> None
    \<and> (\<exists>expires. timestampPlusSeconds H (the_now cmd) (rt_integer (get cmd ''lease_seconds'') (Fin 900)) = Inr expires
      \<and> res_task r = (the_task H v)\<lparr>task_status := Some ''CLAIMED'',
          assigned_worker_id := nullableText (get cmd ''worker_id''),
          lease_token := nullableText (get cmd ''lease_token''),
          lease_expires_at_utc := nullableText (Str expires), claimed_at_utc := the_now cmd,
          not_before_utc := None, attempt_count := jadd (attempt_count (the_task H v)) (Fin 1),
          revision := jadd (revision (the_task H v)) (Fin 1), updated_at_utc := the_now cmd\<rparr>)"
  using assms
  by (auto simp: claimAgentTaskV1_def Let_def split_def requiredText_fst requiredTimestamp_fst preflight_Inr
      requiredText_snd accepted_as_and_then buildLease_def split: sum.splits if_splits)

lemma extend_accepted:
  assumes "accepted_as (extendAgentLeaseV1 H v cmd) r"
  shows "holds_lease (the_task H v) cmd \<and> \<not> leaseExpired H (the_task H v) (the_now cmd)
    \<and> (\<exists>expires. timestampPlusSeconds H (the_now cmd) (rt_integer (get cmd ''lease_seconds'') (Fin 900)) = Inr expires
      \<and> res_task r = (the_task H v)\<lparr>lease_expires_at_utc := nullableText (Str expires),
          revision := jadd (revision (the_task H v)) (Fin 1), updated_at_utc := the_now cmd\<rparr>)"
  using assms
  by (auto simp: extendAgentLeaseV1_def Let_def split_def requiredTimestamp_fst accepted_as_and_then
      buildLease_def dest!: leasePreflight_Inr split: sum.splits if_splits)

lemma complete_accepted:
  assumes "accepted_as (completeAgentTaskV1 H v cmd) r"
  shows "holds_lease (the_task H v) cmd \<and> \<not> leaseExpired H (the_task H v) (the_now cmd)
    \<and> task_status (res_task r) = Some ''DONE'' \<and> lease_token (res_task r) = None
    \<and> lease_expires_at_utc (res_task r) = None
    \<and> revision (res_task r) = jadd (revision (the_task H v)) (Fin 1)"
  using assms
  by (auto simp: completeAgentTaskV1_def Let_def split_def requiredTimestamp_fst
      dest!: leasePreflight_Inr split: sum.splits if_splits)

lemma fail_accepted:
  assumes "accepted_as (failAgentTaskV1 H v cmd) r"
  shows "holds_lease (the_task H v) cmd
    \<and> task_status (res_task r) = Some (if get cmd ''retryable'' = Bool True \<and> jlt (attempt_count (the_task H v))
          (if truthy (Num (max_attempts (the_task H v))) then max_attempts (the_task H v) else Fin 1)
        then ''READY'' else ''ERROR'')
    \<and> lease_token (res_task r) = None \<and> lease_expires_at_utc (res_task r) = None
    \<and> revision (res_task r) = jadd (revision (the_task H v)) (Fin 1)
    \<and> attempt_count (res_task r) = attempt_count (the_task H v)
    \<and> max_attempts (res_task r) = max_attempts (the_task H v)"
  using assms
  by (auto simp: failAgentTaskV1_def Let_def split_def accepted_as_and_then
      dest!: leasePreflight_Inr split: sum.splits if_splits)

lemma expire_accepted:
  assumes "accepted_as (expireAgentTaskLeaseV1 H v cmd) r"
  shows "lease_token (the_task H v) \<noteq> None \<and> leaseExpired H (the_task H v) (the_now cmd)
    \<and> task_status (res_task r) = Some (if jlt (attempt_count (the_task H v)) (max_attempts (the_task H v))
        then ''READY'' else ''EXPIRED'')
    \<and> lease_token (res_task r) = None \<and> lease_expires_at_utc (res_task r) = None
    \<and> revision (res_task r) = jadd (revision (the_task H v)) (Fin 1)
    \<and> attempt_count (res_task r) = attempt_count (the_task H v)
    \<and> max_attempts (res_task r) = max_attempts (the_task H v)"
  using assms
  by (auto simp: expireAgentTaskLeaseV1_def Let_def split_def requiredTimestamp_fst
      split: sum.splits if_splits)

section \<open>Sequences of operations on a stored task\<close>

datatype runtime_op = Claim | Extend | Complete | Fail | Expire

fun runtime_call :: "host \<Rightarrow> runtime_op \<Rightarrow> jsval \<Rightarrow> jsval \<Rightarrow> js_error + agent_transition" where
  "runtime_call H Claim = claimAgentTaskV1 H"
| "runtime_call H Extend = extendAgentLeaseV1 H"
| "runtime_call H Complete = completeAgentTaskV1 H"
| "runtime_call H Fail = failAgentTaskV1 H"
| "runtime_call H Expire = expireAgentTaskLeaseV1 H"

text \<open>The store keeps the sealed task of an accepted transition, and what it had otherwise.\<close>

definition sealed_task :: "host \<Rightarrow> task \<Rightarrow> jsval" where
  "sealed_task H t = Obj (seal H ''task_hash'' (task_obj t))"

definition runtime_step :: "host \<Rightarrow> jsval \<Rightarrow> runtime_op \<times> jsval \<Rightarrow> jsval" where
  "runtime_step H v call = (case runtime_call H (fst call) v (snd call) of
     Inr r \<Rightarrow> if res_ok r then sealed_task H (res_task r) else v | Inl _ \<Rightarrow> v)"

definition runtime_run :: "host \<Rightarrow> jsval \<Rightarrow> (runtime_op \<times> jsval) list \<Rightarrow> jsval" where
  "runtime_run H v calls = foldl (runtime_step H) v calls"

definition lease_consistent :: "host \<Rightarrow> jsval \<Rightarrow> bool" where
  "lease_consistent H v \<longleftrightarrow> status_in (the_task H v) LEASED_TASK_STATUSES \<or> lease_token (the_task H v) = None"

definition final_task :: "host \<Rightarrow> jsval \<Rightarrow> bool" where
  "final_task H v \<longleftrightarrow> status_in (the_task H v) FINAL_TASK_STATUSES"

lemma normalizeTask_status_token:
  "task_status (the_task H v) = rt_upper (get v ''status'')"
  "lease_token (the_task H v) = nullableText (get v ''lease_token'')"
  by (simp_all only: normalizeTask_def Let_def split_def fst_conv enumValue_def task.simps)

lemma get_sealed_task: "k \<noteq> ''task_hash'' \<Longrightarrow> get (sealed_task H t) k = fget (task_obj t) k"
  by (simp add: sealed_task_def seal_def spread_def)

lemma the_task_sealed:
  "task_status (the_task H (sealed_task H t)) = rt_upper (js_opt_str (task_status t))"
  "lease_token (the_task H (sealed_task H t)) = nullableText (js_opt_str (lease_token t))"
proof -
  have "fget (task_obj t) ''status'' = js_opt_str (task_status t)"
    "fget (task_obj t) ''lease_token'' = js_opt_str (lease_token t)"
    by (simp_all add: task_obj_def)
  then show "task_status (the_task H (sealed_task H t)) = rt_upper (js_opt_str (task_status t))"
    "lease_token (the_task H (sealed_task H t)) = nullableText (js_opt_str (lease_token t))"
    by (simp_all add: normalizeTask_status_token get_sealed_task)
qed

lemma rt_upper_status [simp]: "s \<in> set AGENT_TASK_STATUSES_V1 \<Longrightarrow> rt_upper (Str s) = Some s"
  by (auto simp: AGENT_TASK_STATUSES_V1_def) (code_simp+)

lemma runtime_step_cases:
  "runtime_step H v call = v \<or> (\<exists>r. accepted_as (runtime_call H (fst call) v (snd call)) r
     \<and> runtime_step H v call = sealed_task H (res_task r))"
  by (auto simp: runtime_step_def accepted_as_def split: sum.split)

lemma runtime_step_consistent:
  assumes "lease_consistent H v"
  shows "lease_consistent H (runtime_step H v call)"
proof -
  obtain op cmd where call: "call = (op, cmd)" by (cases call)
  have sealed: "lease_consistent H (sealed_task H t)"
    if "status_in t LEASED_TASK_STATUSES \<or> lease_token t = None" for t
    using that rt_upper_status
    by (auto simp: lease_consistent_def status_in_def the_task_sealed nullableText_def LEASED_TASK_STATUSES_def
        AGENT_TASK_STATUSES_V1_def split: option.splits)
  have "status_in (res_task r) LEASED_TASK_STATUSES \<or> lease_token (res_task r) = None"
    if "accepted_as (runtime_call H op v cmd) r" for r
    using that by (cases op) (auto dest!: claim_accepted extend_accepted complete_accepted fail_accepted
        expire_accepted simp: holds_lease_def status_in_def LEASED_TASK_STATUSES_def)
  then show ?thesis
    using assms runtime_step_cases[of H v call] sealed by (auto simp: call)
qed

lemma final_not_leased: "status_in t FINAL_TASK_STATUSES \<Longrightarrow> \<not> status_in t LEASED_TASK_STATUSES"
  by (auto simp: status_in_def FINAL_TASK_STATUSES_def LEASED_TASK_STATUSES_def split: option.splits)

lemma runtime_step_final:
  assumes "lease_consistent H v" and "final_task H v"
  shows "runtime_step H v call = v"
proof -
  obtain op cmd where call: "call = (op, cmd)" by (cases call)
  have "\<not> accepted_as (runtime_call H op v cmd) r" for r
    using assms final_not_leased[of "the_task H v"]
    by (cases op) (auto dest!: claim_accepted extend_accepted complete_accepted fail_accepted
        expire_accepted simp: holds_lease_def final_task_def lease_consistent_def)
  then show ?thesis using runtime_step_cases[of H v call] by (auto simp: call)
qed

interpretation rt: settling_system "runtime_step H" "lease_consistent H" "final_task H" for H
  by unfold_locales (auto intro: runtime_step_consistent runtime_step_final)

lemma runtime_run_iterate: "runtime_run H v calls = rt.iterate H v calls"
  by (simp add: runtime_run_def rt.iterate_def)

section \<open>Properties\<close>

definition sample_task :: jsval where
  "sample_task = Obj [(''task_id'', Str ''11111111-1111-4111-8111-111111111111''),
     (''mission_id'', Str ''22222222-2222-4222-8222-222222222222''), (''task_type'', Str ''monitor''),
     (''lane'', Str ''live''), (''status'', Str ''ready''), (''max_attempts'', Num (Fin 1)),
     (''created_at_utc'', Str ''2026-08-09T10:00:00.000Z'')]"

definition claim_cmd :: "string \<Rightarrow> string \<Rightarrow> jsval" where
  "claim_cmd token now = Obj [(''worker_id'', Str ''w1''), (''lease_token'', Str token), (''now_utc'', Str now),
     (''lease_seconds'', Num (Fin 900))]"

lemma Ex_accepted_as [simp]: "Ex (accepted_as (Inr (transitionAccepted H t l ev)))"
  by auto

text \<open>Enough for a claim to be accepted, as a condition that evaluates.\<close>

definition task_valid :: "host \<Rightarrow> jsval \<Rightarrow> bool" where
  "task_valid H v \<longleftrightarrow> snd (normalizeTask H v) = [] \<and> validateTaskChronology H (the_task H v) = []
     \<and> task_id (the_task H v) \<noteq> None \<and> mission_id (the_task H v) \<noteq> None \<and> task_status (the_task H v) \<noteq> None"

definition cmd_valid :: "host \<Rightarrow> jsval \<Rightarrow> bool" where
  "cmd_valid H cmd \<longleftrightarrow> snd (requiredTimestamp H (get cmd ''now_utc'') ''now_utc'') = []
     \<and> nullableText (get cmd ''worker_id'') \<noteq> None \<and> nullableText (get cmd ''lease_token'') \<noteq> None"

definition lease_end :: "host \<Rightarrow> jsval \<Rightarrow> js_error + string" where
  "lease_end H cmd = timestampPlusSeconds H (the_now cmd) (rt_integer (get cmd ''lease_seconds'') (Fin 900))"

definition claimable :: "host \<Rightarrow> jsval \<Rightarrow> jsval \<Rightarrow> bool" where
  "claimable H v cmd \<longleftrightarrow> \<not> jle (rt_integer (get cmd ''lease_seconds'') (Fin 900)) (Fin 0)
     \<and> \<not> status_in (the_task H v) FINAL_TASK_STATUSES
     \<and> \<not> (hasActiveLease H (the_task H v) (the_now cmd) \<and> status_in (the_task H v) LEASED_TASK_STATUSES)
     \<and> \<not> notBeforeInFuture H (the_task H v) (the_now cmd)
     \<and> (status_in (the_task H v) CLAIMABLE_TASK_STATUSES \<or> leaseExpired H (the_task H v) (the_now cmd))
     \<and> \<not> Sum_Type.isl (lease_end H cmd)"

lemma claim_accepts:
  assumes "task_valid H v" and "cmd_valid H cmd" and "claimable H v cmd"
  shows "\<exists>r. accepted_as (claimAgentTaskV1 H v cmd) r"
proof -
  obtain expires where "lease_end H cmd = Inr expires"
    using assms(3) by (cases "lease_end H cmd") (auto simp: claimable_def)
  moreover have "transitionPreflight H ''claim'' (the_task H v) (snd (normalizeTask H v)
      @ snd (requiredTimestamp H (get cmd ''now_utc'') ''now_utc'')
      @ snd (requiredText (get cmd ''worker_id'') ''worker_id'')
      @ snd (requiredText (get cmd ''lease_token'') ''lease_token'')) = Inr ()"
    using assms(1,2) by (simp add: preflight_Inr task_valid_def cmd_valid_def requiredText_snd)
  ultimately show ?thesis
    using assms(3) by (auto simp: claimAgentTaskV1_def Let_def split_def requiredText_fst requiredTimestamp_fst
        claimable_def lease_end_def)
qed

definition sample_ready :: task where
  "sample_ready = \<lparr>task_id = Some ''11111111-1111-4111-8111-111111111111'',
     mission_id = Some ''22222222-2222-4222-8222-222222222222'', conversation_id = None, task_key = None,
     task_type = Some ''monitor'', lane = Some ''live'', input_ref = None, output_ref = None,
     task_status = Some ''READY'', priority = Fin 100, task_payload = [], idempotency_key = None,
     prompt_render_snapshot_id = None, depends_on_task_id = None, assigned_worker_id = None,
     attempt_count = Fin 0, max_attempts = Fin 1, not_before_utc = None, lease_token = None,
     lease_expires_at_utc = None, claimed_at_utc = None, completed_at_utc = None, failed_at_utc = None,
     last_error = None, correlation_id = None, revision = Fin 0, task_metadata = [],
     created_at_utc = Some ''2026-08-09T10:00:00.000Z'', updated_at_utc = None\<rparr>"

lemma sample_times:
  "date_parse sample_host ''2026-08-09T10:00:00.000Z'' = Some 1786269600000"
  "to_iso 1786270500000 = Some ''2026-08-09T10:15:00.000Z''"
  by code_simp+

lemma normalize_sample: "normalizeTask sample_host sample_task = (sample_ready, [])"
  by code_simp

lemma sample_claim: "\<exists>r. accepted_as (claimAgentTaskV1 sample_host sample_task (claim_cmd ''t1'' ''2026-08-09T10:00:00.000Z'')) r"
proof (rule claim_accepts)
  have now: "the_now (claim_cmd t ''2026-08-09T10:00:00.000Z'') = Some ''2026-08-09T10:00:00.000Z''" for t
    by (simp add: claim_cmd_def) code_simp
  have secs: "rt_integer (get (claim_cmd t n) ''lease_seconds'') (Fin 900) = Fin 900" for t n
    by (simp add: claim_cmd_def rt_integer_def is_integer_def)
  show "task_valid sample_host sample_task"
    unfolding task_valid_def normalize_sample fst_conv snd_conv by code_simp
  show "cmd_valid sample_host (claim_cmd ''t1'' ''2026-08-09T10:00:00.000Z'')" by code_simp
  show "claimable sample_host sample_task (claim_cmd ''t1'' ''2026-08-09T10:00:00.000Z'')"
    by (simp add: claimable_def normalize_sample now secs lease_end_def timestampPlusSeconds_def opt_date_def
        sample_times status_in_def sample_ready_def FINAL_TASK_STATUSES_def CLAIMABLE_TASK_STATUSES_def
        hasActiveLease_def notBeforeInFuture_def)
qed

subsection \<open>A claimed task is exclusive\<close>

lemma normalizeTask_lease_end: "lease_expires_at_utc (the_task H v) = nullableText (get v ''lease_expires_at_utc'')"
proof -
  have "fst (optionalTimestamp H w p) = nullableText w" for w p
    by (simp add: optionalTimestamp_def split: option.split)
  then show ?thesis by (simp only: normalizeTask_def Let_def split_def fst_conv task.simps)
qed

lemma nullableText_again: "nullableText (js_opt_str (nullableText v)) = nullableText v"
  by (auto simp: nullableText_def split: jsval.split)

text \<open>The hash of a sealed task is not one of the fields that are read back.\<close>

lemma normalize_sealed: "normalizeTask H (sealed_task H t) = normalizeTask H (Obj (task_obj t))"
proof -
  have "get (sealed_task H t) k = get (Obj (task_obj t)) k" if "k \<noteq> ''task_hash''" for k
    using get_sealed_task[OF that] by simp
  then show ?thesis unfolding normalizeTask_def by simp
qed

text \<open>What the store reads back of a task that was just claimed: its status, token and the end of its lease.\<close>

lemma claimed_read_back:
  assumes "accepted_as (claimAgentTaskV1 H v cmd) r"
  shows "task_status (the_task H (sealed_task H (res_task r))) = Some ''CLAIMED''"
    and "lease_token (the_task H (sealed_task H (res_task r))) = nullableText (get cmd ''lease_token'')"
    and "lease_expires_at_utc (the_task H (sealed_task H (res_task r))) = lease_expires_at_utc (res_task r)"
    and "nullableText (get cmd ''lease_token'') \<noteq> None"
proof -
  obtain expires where r: "task_status (res_task r) = Some ''CLAIMED''" "lease_token (res_task r) = nullableText (get cmd ''lease_token'')"
      "lease_expires_at_utc (res_task r) = nullableText (Str expires)" and some: "nullableText (get cmd ''lease_token'') \<noteq> None"
    using claim_accepted[OF assms] by auto
  have "fget (task_obj t) ''lease_expires_at_utc'' = js_opt_str (lease_expires_at_utc t)" for t by (simp add: task_obj_def)
  then show "lease_expires_at_utc (the_task H (sealed_task H (res_task r))) = lease_expires_at_utc (res_task r)"
    by (simp add: normalizeTask_lease_end get_sealed_task r nullableText_again)
  show "task_status (the_task H (sealed_task H (res_task r))) = Some ''CLAIMED''"
    "lease_token (the_task H (sealed_task H (res_task r))) = nullableText (get cmd ''lease_token'')"
    by (simp_all add: the_task_sealed r nullableText_again AGENT_TASK_STATUSES_V1_def)
  show "nullableText (get cmd ''lease_token'') \<noteq> None" by (rule some)
qed

text \<open>A claim of a task under a live lease, branch by branch: validation comes first, then the seconds of the lease, then the lease.\<close>

lemma claim_under_lease:
  assumes "status_in (the_task H v) LEASED_TASK_STATUSES" and "hasActiveLease H (the_task H v) (the_now cmd)"
  shows "\<exists>codes. claimAgentTaskV1 H v cmd = Inr (transitionRejected codes (the_task H v)) \<and> codes \<noteq> []
    \<and> (task_valid H v \<and> cmd_valid H cmd \<and> \<not> jle (rt_integer (get cmd ''lease_seconds'') (Fin 900)) (Fin 0)
       \<longrightarrow> codes = [''AGENT_TASK_ALREADY_LEASED''])"
proof -
  let ?issues = "snd (normalizeTask H v) @ snd (requiredTimestamp H (get cmd ''now_utc'') ''now_utc'')
      @ snd (requiredText (get cmd ''worker_id'') ''worker_id'') @ snd (requiredText (get cmd ''lease_token'') ''lease_token'')"
  have final: "\<not> status_in (the_task H v) FINAL_TASK_STATUSES" using assms(1) final_not_leased by blast
  show ?thesis
  proof (cases "transitionPreflight H ''claim'' (the_task H v) ?issues")
    case (Inl codes)
    then have "codes \<noteq> []" "\<not> (task_valid H v \<and> cmd_valid H cmd)"
      by (auto simp: transitionPreflight_def task_valid_def cmd_valid_def requiredText_snd Let_def split: if_splits)
    with Inl show ?thesis
      by (auto simp: claimAgentTaskV1_def Let_def split_def)
  next
    case (Inr u)
    then show ?thesis using assms final
      by (auto simp: claimAgentTaskV1_def Let_def split_def requiredTimestamp_fst)
  qed
qed

text \<open>
  C1. Mutual exclusion of workers: an accepted claim puts the task under the token of its caller, and from then on every claim of
  the stored task that is dated before the end of that lease is refused and leaves the store as it is, whoever makes it, however
  many are made; the reason is \<open>AGENT_TASK_ALREADY_LEASED\<close> alone where the stored task and the new command are
  valid and ask for a positive number of seconds.
\<close>

theorem claim_is_exclusive:
  assumes "accepted_as (claimAgentTaskV1 H v cmd) r"
    and "opt_date H (lease_expires_at_utc (res_task r)) = Some lease_end_ms"
    and "list_all (\<lambda>c. case opt_date H (the_now c) of Some now_ms \<Rightarrow> now_ms < lease_end_ms | None \<Rightarrow> False) claims"
  shows "lease_token (res_task r) = nullableText (get cmd ''lease_token'') \<and> lease_token (res_task r) \<noteq> None
    \<and> assigned_worker_id (res_task r) = nullableText (get cmd ''worker_id'') \<and> assigned_worker_id (res_task r) \<noteq> None
    \<and> runtime_run H (sealed_task H (res_task r)) (List.map (Pair Claim) claims) = sealed_task H (res_task r)
    \<and> list_all (\<lambda>c. \<exists>codes. claimAgentTaskV1 H (sealed_task H (res_task r)) c
          = Inr (transitionRejected codes (the_task H (sealed_task H (res_task r)))) \<and> codes \<noteq> []
        \<and> (task_valid H (sealed_task H (res_task r)) \<and> cmd_valid H c
             \<and> \<not> jle (rt_integer (get c ''lease_seconds'') (Fin 900)) (Fin 0)
           \<longrightarrow> codes = [''AGENT_TASK_ALREADY_LEASED''])) claims"
proof -
  let ?v = "sealed_task H (res_task r)"
  note stored = claimed_read_back[OF assms(1)]
  have leased: "status_in (the_task H ?v) LEASED_TASK_STATUSES" by (simp add: status_in_def stored(1) LEASED_TASK_STATUSES_def)
  have "lease_expires_at_utc (res_task r) \<noteq> None" using assms(2) by (cases "lease_expires_at_utc (res_task r)") (simp_all add: opt_date_def)
  then have active: "hasActiveLease H (the_task H ?v) (the_now c)" if "c \<in> set claims" for c
    using that assms(2,3) stored by (auto simp: hasActiveLease_def leaseExpired_def list_all_iff split: option.splits)
  note refused = claim_under_lease[OF leased active]
  then have unchanged: "runtime_step H ?v (Claim, c) = ?v" if "c \<in> set claims" for c
    using that by (fastforce simp: runtime_step_def transitionRejected_def)
  have "foldl (runtime_step H) ?v (List.map (Pair Claim) cs) = ?v" if "set cs \<subseteq> set claims" for cs
    using that unchanged by (induction cs) auto
  then have "runtime_run H ?v (List.map (Pair Claim) claims) = ?v" by (simp add: runtime_run_def)
  then show ?thesis using refused claim_accepted[OF assms(1)] by (auto simp: list_all_iff)
qed

text \<open>
  C5. The worker that holds the lease is the only one that can extend, complete or fail a task:
  these are accepted only in a leased status, from the worker and with the token recorded in the
  task, and an extension or completion only while the lease has not expired.
\<close>

theorem lease_owner_only:
  assumes "accepted_as (runtime_call H op v cmd) r" and "op = Extend \<or> op = Complete \<or> op = Fail"
  shows "holds_lease (the_task H v) cmd \<and> (op \<noteq> Fail \<longrightarrow> \<not> leaseExpired H (the_task H v) (the_now cmd))"
  using assms by (auto dest: extend_accepted complete_accepted fail_accepted)

definition sample_claimed :: task where
  "sample_claimed = sample_ready\<lparr>task_status := Some ''CLAIMED'', assigned_worker_id := Some ''w1'',
     lease_token := Some ''t1'', lease_expires_at_utc := Some ''2026-08-09T10:15:00.000Z'',
     claimed_at_utc := Some ''2026-08-09T10:00:00.000Z'', attempt_count := Fin 1, revision := Fin 1,
     updated_at_utc := Some ''2026-08-09T10:00:00.000Z''\<rparr>"

lemma normalize_claimed: "normalizeTask sample_host (Obj (task_obj sample_claimed)) = (sample_claimed, [])"
  by code_simp

lemma claimed_valid: "task_valid sample_host (Obj (task_obj sample_claimed))"
  unfolding task_valid_def normalize_claimed fst_conv snd_conv by code_simp

text \<open>A sample: the task is claimed at ten, and a claim five minutes later is refused.\<close>

lemma sample_claimed_by:
  assumes "accepted_as (claimAgentTaskV1 sample_host sample_task (claim_cmd ''t1'' ''2026-08-09T10:00:00.000Z'')) r"
  shows "res_task r = sample_claimed"
proof -
  have now: "the_now (claim_cmd t ''2026-08-09T10:00:00.000Z'') = Some ''2026-08-09T10:00:00.000Z''" for t
    by (simp add: claim_cmd_def) code_simp
  have texts: "nullableText (get (claim_cmd ''t1'' n) ''worker_id'') = Some ''w1''" "nullableText (get (claim_cmd ''t1'' n) ''lease_token'') = Some ''t1''"
    "nullableText (Str ''2026-08-09T10:15:00.000Z'') = Some ''2026-08-09T10:15:00.000Z''" for n
    by (simp_all add: claim_cmd_def nullableText_def) (code_simp+)
  have secs: "rt_integer (get (claim_cmd t n) ''lease_seconds'') (Fin 900) = Fin 900" for t n
    by (simp add: claim_cmd_def rt_integer_def is_integer_def)
  have ends: "timestampPlusSeconds sample_host (Some ''2026-08-09T10:00:00.000Z'') (Fin 900) = Inr ''2026-08-09T10:15:00.000Z''"
    by (simp add: timestampPlusSeconds_def opt_date_def sample_times)
  obtain expires where "Inr ''2026-08-09T10:15:00.000Z'' = (Inr expires :: js_error + string)"
    "res_task r = sample_ready\<lparr>task_status := Some ''CLAIMED'', assigned_worker_id := Some ''w1'', lease_token := Some ''t1'',
      lease_expires_at_utc := nullableText (Str expires), claimed_at_utc := Some ''2026-08-09T10:00:00.000Z'', not_before_utc := None,
      attempt_count := jadd (attempt_count sample_ready) (Fin 1), revision := jadd (revision sample_ready) (Fin 1),
      updated_at_utc := Some ''2026-08-09T10:00:00.000Z''\<rparr>"
    using claim_accepted[OF assms] unfolding now secs texts normalize_sample fst_conv ends by blast
  then show ?thesis using texts(3) by (auto simp: sample_claimed_def sample_ready_def)
qed

theorem claim_is_exclusive_witness:
  "\<exists>r. accepted_as (claimAgentTaskV1 sample_host sample_task (claim_cmd ''t1'' ''2026-08-09T10:00:00.000Z'')) r
    \<and> claimAgentTaskV1 sample_host (sealed_task sample_host (res_task r)) (claim_cmd ''t2'' ''2026-08-09T10:05:00.000Z'')
        = Inr (transitionRejected [''AGENT_TASK_ALREADY_LEASED''] (the_task sample_host (sealed_task sample_host (res_task r))))"
proof -
  let ?c = "claim_cmd ''t2'' ''2026-08-09T10:05:00.000Z''"
  obtain r where r: "accepted_as (claimAgentTaskV1 sample_host sample_task (claim_cmd ''t1'' ''2026-08-09T10:00:00.000Z'')) r"
    using sample_claim by blast
  note claimed = sample_claimed_by[OF r]
  have ends: "opt_date sample_host (lease_expires_at_utc (res_task r)) = Some 1786270500000" unfolding claimed by code_simp
  have dated: "list_all (\<lambda>c. case opt_date sample_host (the_now c) of Some now_ms \<Rightarrow> now_ms < 1786270500000 | None \<Rightarrow> False) [?c]" by code_simp
  have valid: "task_valid sample_host (sealed_task sample_host (res_task r))"
    using claimed_valid unfolding claimed task_valid_def normalize_sealed .
  moreover have "cmd_valid sample_host ?c" by code_simp
  moreover have "\<not> jle (rt_integer (get ?c ''lease_seconds'') (Fin 900)) (Fin 0)" by (simp add: claim_cmd_def rt_integer_def is_integer_def)
  moreover note claim_is_exclusive[OF r ends dated, THEN conjunct2, THEN conjunct2, THEN conjunct2, THEN conjunct2, THEN conjunct2]
  ultimately show ?thesis using r by (auto)
qed

lemma leasePreflight_ok:
  assumes "task_valid H v" and "cmd_valid H cmd" and "holds_lease (the_task H v) cmd"
  shows "leasePreflight H a (the_task H v) cmd (snd (normalizeTask H v)
      @ snd (requiredTimestamp H (get cmd ''now_utc'') ''now_utc'')) = Inr ()"
proof -
  have "transitionPreflight H a (the_task H v) [] = Inr ()"
    using assms(1) by (simp add: preflight_Inr task_valid_def)
  then show ?thesis
    using assms by (auto simp: leasePreflight_def Let_def task_valid_def cmd_valid_def requiredText_def holds_lease_def)
qed

lemma complete_accepts:
  assumes "task_valid H v" and "cmd_valid H cmd" and "holds_lease (the_task H v) cmd"
    and "\<not> leaseExpired H (the_task H v) (the_now cmd)"
  shows "\<exists>r. accepted_as (completeAgentTaskV1 H v cmd) r"
  using leasePreflight_ok[OF assms(1-3)] assms(4)
  by (auto simp: completeAgentTaskV1_def Let_def split_def requiredTimestamp_fst)

lemma sample_complete:
  "\<exists>r. accepted_as (completeAgentTaskV1 sample_host (Obj (task_obj sample_claimed)) (claim_cmd ''t1'' ''2026-08-09T10:00:00.000Z'')) r"
proof (rule complete_accepts[OF claimed_valid])
  show "cmd_valid sample_host (claim_cmd ''t1'' ''2026-08-09T10:00:00.000Z'')" by code_simp
  show "holds_lease (the_task sample_host (Obj (task_obj sample_claimed))) (claim_cmd ''t1'' ''2026-08-09T10:00:00.000Z'')"
    unfolding normalize_claimed fst_conv by code_simp
  show "\<not> leaseExpired sample_host (the_task sample_host (Obj (task_obj sample_claimed)))
     (the_now (claim_cmd ''t1'' ''2026-08-09T10:00:00.000Z''))"
    unfolding normalize_claimed fst_conv by code_simp
qed

theorem lease_owner_only_witness:
  "\<exists>r. accepted_as (runtime_call sample_host Complete (Obj (task_obj sample_claimed)) (claim_cmd ''t1'' ''2026-08-09T10:00:00.000Z'')) r
    \<and> holds_lease (the_task sample_host (Obj (task_obj sample_claimed))) (claim_cmd ''t1'' ''2026-08-09T10:00:00.000Z'')"
proof -
  obtain r where r: "accepted_as (runtime_call sample_host Complete (Obj (task_obj sample_claimed)) (claim_cmd ''t1'' ''2026-08-09T10:00:00.000Z'')) r"
    using sample_complete by auto
  from lease_owner_only[OF r] r show ?thesis by auto
qed

text \<open>
  A final task never changes again: in a store whose task carries a lease token only while it
  is leased (which every operation preserves), once a sequence of operations has reached \<open>DONE\<close>,
  \<open>ERROR\<close>, \<open>CANCELLED\<close> or \<open>EXPIRED\<close>, whatever operations follow leave the stored task as it is.
\<close>

theorem final_task_immutable:
  assumes "lease_consistent H v" and "final_task H (runtime_run H v calls)"
  shows "runtime_run H v (calls @ later) = runtime_run H v calls"
  using rt.settled_absorbing[OF assms(1)] assms(2) by (simp add: runtime_run_iterate)

theorem final_task_immutable_witness:
  "runtime_run sample_host (Obj (task_obj sample_claimed))
     ([(Complete, claim_cmd ''t1'' ''2026-08-09T10:00:00.000Z'')] @ [(Claim, claim_cmd ''t2'' ''2026-08-09T11:00:00.000Z'')])
   = runtime_run sample_host (Obj (task_obj sample_claimed)) [(Complete, claim_cmd ''t1'' ''2026-08-09T10:00:00.000Z'')]"
proof (rule final_task_immutable)
  show "lease_consistent sample_host (Obj (task_obj sample_claimed))"
    unfolding lease_consistent_def normalize_claimed fst_conv by code_simp
  obtain r where r: "accepted_as (completeAgentTaskV1 sample_host (Obj (task_obj sample_claimed)) (claim_cmd ''t1'' ''2026-08-09T10:00:00.000Z'')) r"
    using sample_complete by blast
  then have "task_status (res_task r) = Some ''DONE''" using complete_accepted by blast
  moreover have "runtime_run sample_host (Obj (task_obj sample_claimed)) [(Complete, claim_cmd ''t1'' ''2026-08-09T10:00:00.000Z'')]
      = sealed_task sample_host (res_task r)"
    using r by (simp add: runtime_run_def runtime_step_def accepted_as_def)
  ultimately show "final_task sample_host (runtime_run sample_host (Obj (task_obj sample_claimed))
      [(Complete, claim_cmd ''t1'' ''2026-08-09T10:00:00.000Z'')])"
    by (simp add: final_task_def status_in_def the_task_sealed FINAL_TASK_STATUSES_def AGENT_TASK_STATUSES_V1_def)
qed

text \<open>
  A task goes back to \<open>READY\<close> only while attempts remain: an accepted operation whose next
  status is \<open>READY\<close> is a failure declared retryable or an expiration, of a task whose attempt
  count is below its maximum.
\<close>

theorem requeue_only_below_max_attempts:
  assumes "accepted_as (runtime_call H op v cmd) r" and "task_status (res_task r) = Some ''READY''"
  shows "(op = Fail \<and> get cmd ''retryable'' = Bool True \<or> op = Expire)
    \<and> jlt (attempt_count (res_task r)) (max_attempts (res_task r))"
proof -
  have pos: "jlt (Fin 0) (max_attempts (the_task H v))"
    by (simp add: normalizeTask_def Let_def split_def)
  then have truthy: "truthy (Num (max_attempts (the_task H v)))"
    by (cases "max_attempts (the_task H v)") auto
  show ?thesis
    using assms truthy
    by (cases op) (auto dest!: claim_accepted extend_accepted complete_accepted fail_accepted expire_accepted
        simp: holds_lease_def status_in_def LEASED_TASK_STATUSES_def split: if_splits)
qed

lemma expire_accepts:
  assumes "task_valid H v" and "cmd_valid H cmd" and "lease_token (the_task H v) \<noteq> None"
    and "lease_expires_at_utc (the_task H v) \<noteq> None" and "leaseExpired H (the_task H v) (the_now cmd)"
  shows "\<exists>r. accepted_as (expireAgentTaskLeaseV1 H v cmd) r"
proof -
  have "transitionPreflight H ''expire'' (the_task H v) [] = Inr ()"
    using assms(1) by (simp add: preflight_Inr task_valid_def)
  then show ?thesis
    using assms by (auto simp: expireAgentTaskLeaseV1_def Let_def split_def requiredTimestamp_fst
        task_valid_def cmd_valid_def)
qed

definition sample_retryable :: task where
  "sample_retryable = sample_claimed\<lparr>max_attempts := Fin 2\<rparr>"

lemma normalize_retryable: "normalizeTask sample_host (Obj (task_obj sample_retryable)) = (sample_retryable, [])"
  by code_simp

theorem requeue_only_below_max_attempts_witness:
  "\<exists>r. accepted_as (runtime_call sample_host Expire (Obj (task_obj sample_retryable)) (claim_cmd ''t1'' ''2026-08-09T10:15:00.000Z'')) r
     \<and> jlt (attempt_count (res_task r)) (max_attempts (res_task r))"
proof -
  have "\<exists>r. accepted_as (expireAgentTaskLeaseV1 sample_host (Obj (task_obj sample_retryable)) (claim_cmd ''t1'' ''2026-08-09T10:15:00.000Z'')) r"
    by (rule expire_accepts, unfold task_valid_def normalize_retryable fst_conv snd_conv) (code_simp+)
  then obtain r where r: "accepted_as (runtime_call sample_host Expire (Obj (task_obj sample_retryable)) (claim_cmd ''t1'' ''2026-08-09T10:15:00.000Z'')) r"
    by auto
  have "jlt (attempt_count (the_task sample_host (Obj (task_obj sample_retryable))))
      (max_attempts (the_task sample_host (Obj (task_obj sample_retryable))))"
    unfolding normalize_retryable fst_conv by code_simp
  then have "task_status (res_task r) = Some ''READY''"
    using expire_accepted r by simp
  from requeue_only_below_max_attempts[OF r this] r show ?thesis by auto
qed

text \<open>
  The limit on attempts does not bind a claim: a leased task whose lease has expired is claimed
  again, whatever its attempt count, so a task whose workers die exceeds \<open>max_attempts\<close>.
\<close>

theorem claim_exceeds_max_attempts:
  assumes "task_valid H v" and "cmd_valid H cmd" and "claimable H v cmd"
    and "attempt_count (the_task H v) = Fin (of_int n)" and "max_attempts (the_task H v) = Fin (of_int m)"
    and "m \<le> n" and "\<bar>n + 1\<bar> \<le> 2 ^ 53"
  shows "\<exists>r. accepted_as (claimAgentTaskV1 H v cmd) r \<and> jlt (max_attempts (res_task r)) (attempt_count (res_task r))"
proof -
  obtain r where r: "accepted_as (claimAgentTaskV1 H v cmd) r"
    using claim_accepts[OF assms(1-3)] by blast
  have "jadd (Fin (of_int n)) (Fin 1) = Fin (of_int (n + 1))"
    using jadd_int[of n 1] assms(7) by simp
  with claim_accepted[OF r] assms(4-6) have "jlt (max_attempts (res_task r)) (attempt_count (res_task r))"
    by auto
  with r show ?thesis by blast
qed

theorem claim_exceeds_max_attempts_witness:
  "\<exists>r. accepted_as (claimAgentTaskV1 sample_host (Obj (task_obj sample_claimed)) (claim_cmd ''t2'' ''2026-08-09T10:15:00.000Z'')) r
     \<and> jlt (max_attempts (res_task r)) (attempt_count (res_task r))"
proof (rule claim_exceeds_max_attempts[where n = 1 and m = 1, OF claimed_valid])
  have now: "the_now (claim_cmd t ''2026-08-09T10:15:00.000Z'') = Some ''2026-08-09T10:15:00.000Z''" for t
    by (simp add: claim_cmd_def) code_simp
  have secs: "rt_integer (get (claim_cmd t n) ''lease_seconds'') (Fin 900) = Fin 900" for t n
    by (simp add: claim_cmd_def rt_integer_def is_integer_def)
  have times: "date_parse sample_host ''2026-08-09T10:15:00.000Z'' = Some 1786270500000"
    "to_iso 1786271400000 = Some ''2026-08-09T10:30:00.000Z''"
    by code_simp+
  show "claimable sample_host (Obj (task_obj sample_claimed)) (claim_cmd ''t2'' ''2026-08-09T10:15:00.000Z'')"
    unfolding claimable_def lease_end_def normalize_claimed fst_conv now secs
    by (simp add: timestampPlusSeconds_def opt_date_def times status_in_def sample_claimed_def sample_ready_def FINAL_TASK_STATUSES_def CLAIMABLE_TASK_STATUSES_def
        hasActiveLease_def notBeforeInFuture_def leaseExpired_def)
  show "cmd_valid sample_host (claim_cmd ''t2'' ''2026-08-09T10:15:00.000Z'')" by code_simp
qed (simp_all add: normalize_claimed, simp_all add: sample_claimed_def sample_ready_def)

text \<open>
  The delay before a retry is bounded: it is never negative and never above the maximum delay
  of the policy plus its maximum jitter, however many attempts the exponential back-off has seen.
\<close>

theorem retry_delay_bounds:
  assumes "planAgentTaskRetryV1 H t cmd now ''READY'' = Inr (Some d, Some next_at)"
  shows "jle (Fin 0) d \<and> jle d (jadd
      (jmax (Fin 0) (rt_integer (get (get cmd ''retry_policy'') ''max_delay_seconds'') (Fin 900)))
      (jmax (Fin 0) (rt_integer (get (get cmd ''retry_policy'') ''jitter_seconds'') (Fin 0))))"
proof -
  define raw where "raw = rawDelay t (Obj (obj_or_empty (get cmd ''retry_policy'')))"
  obtain a where a: "rt_integer (get (get cmd ''retry_policy'') ''max_delay_seconds'') (Fin 900) = Fin (of_int a)"
    using rt_integer_Fin[of "Fin 900"] by (auto simp: is_integer_def)
  obtain j where j: "rt_integer (get (get cmd ''retry_policy'') ''jitter_seconds'') (Fin 0) = Fin (of_int j)"
    using rt_integer_Fin[of "Fin 0"] by (auto simp: is_integer_def)
  have d: "d = jadd (jmin (Fin (of_int (max 0 a))) raw) (boundedJitter H t cmd (Fin (of_int j)))"
    and "timestampPlusSeconds H now d \<noteq> Inl (RangeError ''Invalid time value'')"
    using assms by (auto simp: planAgentTaskRetryV1_def Let_def a j jmax_0_int and_then_Inr raw_def)
  then have "d \<noteq> NaN" by (auto simp: timestampPlusSeconds_def split: jnum.splits option.splits)
  then have notnan: "raw \<noteq> NaN" "boundedJitter H t cmd (Fin (of_int j)) \<noteq> NaN"
    by (auto simp: d jmin_def) (metis jadd.simps jnum.exhaust)+
  have "jle (Fin 0) raw" using rawDelay_nonneg notnan(1) unfolding raw_def by blast
  then have "\<exists>y. jmin (Fin (of_int (max 0 a))) raw = Fin y \<and> 0 \<le> y \<and> y \<le> of_int (max 0 a)"
    by (cases raw) (auto simp: jmin_def)
  then obtain y where y: "jmin (Fin (of_int (max 0 a))) raw = Fin y" "0 \<le> y" "y \<le> of_int (max 0 a)"
    by blast
  obtain x where x: "boundedJitter H t cmd (Fin (of_int j)) = Fin x" "0 \<le> x" "x \<le> of_int (max 0 j)"
    using boundedJitter_bounds[of H t cmd j] notnan(2) by auto
  show ?thesis
    using x y by (simp add: d a j jmax_0_int rnd_nonneg rnd_mono add_mono)
qed

lemma retry_time: "to_iso 1786269660000 = Some ''2026-08-09T10:01:00.000Z''"
  by code_simp

theorem retry_delay_bounds_witness:
  "jle (Fin 0) (Fin 60) \<and> jle (Fin 60) (jadd
      (jmax (Fin 0) (rt_integer (get (get (Obj []) ''retry_policy'') ''max_delay_seconds'') (Fin 900)))
      (jmax (Fin 0) (rt_integer (get (get (Obj []) ''retry_policy'') ''jitter_seconds'') (Fin 0))))"
proof (rule retry_delay_bounds)
  show "planAgentTaskRetryV1 sample_host sample_claimed (Obj []) (Some ''2026-08-09T10:00:00.000Z'') ''READY''
      = Inr (Some (Fin 60), Some ''2026-08-09T10:01:00.000Z'')"
    by (simp add: planAgentTaskRetryV1_def Let_def rawDelay_def boundedJitter_def sample_claimed_def
        rt_integer_def is_integer_def jmax_def jmin_def jpow_def jsub_def timestampPlusSeconds_def opt_date_def
        sample_times retry_time)
qed

end
