(* ===== verification/Batch_Join.thy ===== *)
theory Batch_Join
  imports Domain_Helpers
begin

text \<open>
  \<open>packages/desk-domain/src/agent-batch-join-policy-v1.js\<close>: when a batch of agent tasks gives a joint
  result. The tasks are normalised, grouped by status and judged by one of five policies; the
  decision lists the accepted tasks and what to do with the open ones. The decision is proved to be
  stable while tasks finish and to come once no task is open.
\<close>

section \<open>Tasks of a batch\<close>

definition AGENT_BATCH_JOIN_POLICIES_V1 :: "string list" where
  "AGENT_BATCH_JOIN_POLICIES_V1 = [''ALL'', ''ANY'', ''FIRST_SOCK'', ''QUORUM'', ''TIMEOUT_WITH_PARTIAL_RESULTS'']"

definition DONE_STATUSES :: "string list" where
  "DONE_STATUSES = [''DONE'']"

definition FAILED_STATUSES :: "string list" where
  "FAILED_STATUSES = [''ERROR'', ''CANCELLED'', ''EXPIRED'']"

definition OPEN_STATUSES :: "string list" where
  "OPEN_STATUSES = [''PENDING'', ''READY'', ''CLAIMED'', ''RUNNING'', ''WAITING_DEPENDENCY'']"

record batch_task =
  bt_task_id :: string
  bt_task_key :: "string option"
  bt_status :: string
  bt_output_ref :: "string option"
  bt_completed_at_utc :: "string option"
  bt_created_at_utc :: "string option"

text \<open>\<open>normalizeTasks\<close>: a task without an id is dropped.\<close>

definition batch_task_of :: "host \<Rightarrow> jsval \<Rightarrow> batch_task option" where
  "batch_task_of H t = (case nullableText (js_coalesce (get t ''task_id'') (get t ''id'')) of
     None \<Rightarrow> None
   | Some tid \<Rightarrow> Some
      \<lparr>bt_task_id = tid, bt_task_key = nullableText (get t ''task_key''),
       bt_status = to_upper (trim (str_or_empty (get t ''status''))),
       bt_output_ref = nullableText (get t ''output_ref''),
       bt_completed_at_utc = js_timestamp H (get t ''completed_at_utc'') None,
       bt_created_at_utc = js_timestamp H (js_coalesce (get t ''created_at_utc'') (get t ''created_at'')) None\<rparr>)"

definition batch_normalizeTasks :: "host \<Rightarrow> jsval \<Rightarrow> batch_task list" where
  "batch_normalizeTasks H tasks = List.map_filter (batch_task_of H) (arr_or_empty tasks)"

definition byIdentity :: "host \<Rightarrow> batch_task \<Rightarrow> batch_task \<Rightarrow> int" where
  "byIdentity H left right = locale_compare H (bt_task_id left) (bt_task_id right)"

text \<open>\<open>String(task.completed_at_utc || task.created_at_utc || "")\<close>\<close>

definition completion_key :: "batch_task \<Rightarrow> string" where
  "completion_key t = (case bt_completed_at_utc t of Some s \<Rightarrow> s | None \<Rightarrow>
     (case bt_created_at_utc t of Some s \<Rightarrow> s | None \<Rightarrow> []))"

definition byCompletion :: "host \<Rightarrow> batch_task \<Rightarrow> batch_task \<Rightarrow> int" where
  "byCompletion H left right =
     (let c = locale_compare H (completion_key left) (completion_key right)
      in if c \<noteq> 0 then c else byIdentity H left right)"

record task_groups =
  g_done :: "batch_task list"
  g_failed :: "batch_task list"
  g_open :: "batch_task list"

definition bt_in :: "string list \<Rightarrow> batch_task \<Rightarrow> bool" where
  "bt_in statuses t \<longleftrightarrow> bt_status t \<in> set statuses"

definition groupTasks :: "host \<Rightarrow> batch_task list \<Rightarrow> task_groups" where
  "groupTasks H tasks =
     \<lparr>g_done = js_sort (\<lambda>l r. 0 < byCompletion H l r) (filter (bt_in DONE_STATUSES) tasks),
      g_failed = js_sort (\<lambda>l r. 0 < byIdentity H l r) (filter (bt_in FAILED_STATUSES) tasks),
      g_open = js_sort (\<lambda>l r. 0 < byIdentity H l r) (filter (bt_in OPEN_STATUSES) tasks)\<rparr>"

section \<open>Decisions\<close>

record join_decision =
  j_status :: string
  j_accepted :: "batch_task list"
  j_actions :: "jsval list"
  j_reasons :: "string list"
  j_timedOut :: bool

definition joinDecision :: "string \<Rightarrow> batch_task list \<Rightarrow> jsval list \<Rightarrow> string list \<Rightarrow> bool \<Rightarrow> join_decision" where
  "joinDecision st accepted actions reasons timedOut =
     \<lparr>j_status = st, j_accepted = accepted, j_actions = actions, j_reasons = reasons, j_timedOut = timedOut\<rparr>"

definition cancelOpenTasks :: "batch_task list \<Rightarrow> string \<Rightarrow> jsval list" where
  "cancelOpenTasks tasks acceptedTaskId =
     List.map (\<lambda>t. Obj [(''task_id'', Str (bt_task_id t)), (''action'', Str ''MARK_SUPERSEDED''),
         (''reason'', Str ''FIRST_SOCK_ACCEPTED_ANOTHER_TASK'')])
       (filter (\<lambda>t. bt_task_id t \<noteq> acceptedTaskId \<and> bt_in OPEN_STATUSES t) tasks)"

definition markOpenPartial :: "batch_task list \<Rightarrow> jsval list" where
  "markOpenPartial tasks =
     List.map (\<lambda>t. Obj [(''task_id'', Str (bt_task_id t)), (''action'', Str ''KEEP_UNFINISHED''),
         (''reason'', Str ''BATCH_JOIN_TIMED_OUT'')]) tasks"

definition join_deadline :: "host \<Rightarrow> jsval \<Rightarrow> string option" where
  "join_deadline H input = js_timestamp H (js_coalesce (get input ''deadline_at_utc'') (get input ''deadline_at'')) None"

definition deadlineReached :: "host \<Rightarrow> jsval \<Rightarrow> string option \<Rightarrow> bool" where
  "deadlineReached H input nowUtc =
     (join_deadline H input \<noteq> None \<and> jle (date_num H (join_deadline H input)) (date_num H nowUtc))"

text \<open>The quorum: the explicit one between 1 and the number of tasks, else the majority.\<close>

definition quorumSize :: "jsval \<Rightarrow> nat \<Rightarrow> nat" where
  "quorumSize input n =
     (let explicit = to_num (js_coalesce (get input ''quorum_size'') (get input ''quorum'')) in
      if \<not> is_integer explicit then max 1 (n div 2 + 1)
      else case explicit of Fin r \<Rightarrow> max 1 (nat (min (int (if n = 0 then 1 else n)) \<lfloor>r\<rfloor>)) | _ \<Rightarrow> 1)"

definition firstDone :: "host \<Rightarrow> batch_task list \<Rightarrow> batch_task" where
  "firstDone H doneTasks = hd (js_sort (\<lambda>l r. 0 < byCompletion H l r) doneTasks)"

definition decideAll :: "batch_task list \<Rightarrow> task_groups \<Rightarrow> join_decision" where
  "decideAll tasks groups =
     (if g_failed groups \<noteq> [] then joinDecision ''FAILED'' [] [] [''ALL_FAILED_TASK_PRESENT''] False
      else if length (g_done groups) = length tasks
        then joinDecision ''COMPLETED'' (g_done groups) [] [''ALL_TASKS_DONE''] False
      else joinDecision ''WAITING'' [] [] [''ALL_WAITING_FOR_OPEN_TASKS''] False)"

definition decideAny :: "host \<Rightarrow> batch_task list \<Rightarrow> task_groups \<Rightarrow> join_decision" where
  "decideAny H tasks groups =
     (if g_done groups \<noteq> [] then joinDecision ''COMPLETED'' [firstDone H (g_done groups)] [] [''ANY_SUCCESS_AVAILABLE''] False
      else if length (g_failed groups) = length tasks
        then joinDecision ''FAILED'' [] [] [''ANY_NO_SUCCESS_POSSIBLE''] False
      else joinDecision ''WAITING'' [] [] [''ANY_WAITING_FOR_FIRST_SUCCESS''] False)"

definition decideFirstSock :: "host \<Rightarrow> batch_task list \<Rightarrow> task_groups \<Rightarrow> join_decision" where
  "decideFirstSock H tasks groups =
     (if g_done groups \<noteq> [] then
        let accepted = firstDone H (g_done groups)
        in joinDecision ''COMPLETED'' [accepted] (cancelOpenTasks tasks (bt_task_id accepted))
             [''FIRST_SOCK_SUCCESS_AVAILABLE''] False
      else if length (g_failed groups) = length tasks
        then joinDecision ''FAILED'' [] [] [''FIRST_SOCK_NO_SUCCESS_POSSIBLE''] False
      else joinDecision ''WAITING'' [] [] [''FIRST_SOCK_WAITING_FOR_FIRST_SUCCESS''] False)"

definition decideQuorum :: "batch_task list \<Rightarrow> task_groups \<Rightarrow> jsval \<Rightarrow> join_decision" where
  "decideQuorum tasks groups input =
     (let quorum = quorumSize input (length tasks) in
      if quorum \<le> length (g_done groups)
        then joinDecision (if length (g_done groups) = length tasks then ''COMPLETED'' else ''COMPLETED_PARTIAL'')
               (take quorum (g_done groups)) [] [''QUORUM_REACHED''] False
      else if length (g_done groups) + length (g_open groups) < quorum
        then joinDecision ''FAILED'' (g_done groups) [] [''QUORUM_IMPOSSIBLE''] False
      else joinDecision ''WAITING'' [] [] [''QUORUM_WAITING_FOR_MORE_RESULTS''] False)"

definition decideTimeoutWithPartial ::
  "host \<Rightarrow> batch_task list \<Rightarrow> task_groups \<Rightarrow> string option \<Rightarrow> jsval \<Rightarrow> join_decision" where
  "decideTimeoutWithPartial H tasks groups nowUtc input =
     (if length (g_done groups) = length tasks
        then joinDecision ''COMPLETED'' (g_done groups) [] [''TIMEOUT_POLICY_ALL_TASKS_DONE''] False
      else if \<not> deadlineReached H input nowUtc
        then joinDecision ''WAITING'' [] [] [''TIMEOUT_POLICY_BEFORE_DEADLINE''] False
      else if g_done groups \<noteq> []
        then joinDecision ''COMPLETED_PARTIAL'' (g_done groups) (markOpenPartial (g_open groups))
               [''TIMEOUT_WITH_PARTIAL_RESULTS''] True
      else joinDecision ''TIMED_OUT'' [] (markOpenPartial (g_open groups)) [''TIMEOUT_WITHOUT_RESULTS''] True)"

definition decide ::
  "host \<Rightarrow> string \<Rightarrow> batch_task list \<Rightarrow> task_groups \<Rightarrow> string option \<Rightarrow> jsval \<Rightarrow> join_decision" where
  "decide H policy tasks groups nowUtc input =
     (if tasks = [] then joinDecision ''FAILED'' [] [] [''BATCH_EMPTY''] False
      else if policy = ''ALL'' then decideAll tasks groups
      else if policy = ''ANY'' then decideAny H tasks groups
      else if policy = ''FIRST_SOCK'' then decideFirstSock H tasks groups
      else if policy = ''QUORUM'' then decideQuorum tasks groups input
      else decideTimeoutWithPartial H tasks groups nowUtc input)"

section \<open>The evaluation\<close>

definition batch_enumValue :: "jsval \<Rightarrow> string list \<Rightarrow> string \<Rightarrow> string" where
  "batch_enumValue value allowed fallback =
     (let normalized = to_upper (trim (str_or_empty value))
      in if normalized \<in> set allowed then normalized else fallback)"

definition join_policy :: "jsval \<Rightarrow> string" where
  "join_policy input = batch_enumValue (get input ''policy'') AGENT_BATCH_JOIN_POLICIES_V1 ''TIMEOUT_WITH_PARTIAL_RESULTS''"

definition join_now :: "host \<Rightarrow> jsval \<Rightarrow> string option" where
  "join_now H input = js_timestamp H (get input ''now_utc'') (Some epoch_iso)"

definition join_tasks :: "host \<Rightarrow> jsval \<Rightarrow> batch_task list" where
  "join_tasks H input = batch_normalizeTasks H (get input ''tasks'')"

definition join_of :: "host \<Rightarrow> jsval \<Rightarrow> join_decision" where
  "join_of H input = decide H (join_policy input) (join_tasks H input) (groupTasks H (join_tasks H input))
     (join_now H input) input"

definition task_ids_js :: "batch_task list \<Rightarrow> jsval" where
  "task_ids_js ts = Arr (List.map (\<lambda>t. Str (bt_task_id t)) ts)"

definition join_result :: "host \<Rightarrow> jsval \<Rightarrow> jsobj" where
  "join_result H input =
     (let tasks = join_tasks H input; groups = groupTasks H tasks; d = join_of H input in
      [(''schema_version'', Str ''agent_batch_join_v1''), (''policy_version'', Str ''1.0.0''),
       (''batch_id'', js_opt_str (nullableText (js_coalesce (get input ''batch_id'') (get input ''id'')))),
       (''policy'', Str (join_policy input)), (''status'', Str (j_status d)),
       (''now_utc'', js_opt_str (join_now H input)),
       (''deadline_at_utc'', js_opt_str (join_deadline H input)),
       (''quorum_size'', Num (Fin (of_nat (quorumSize input (length tasks))))),
       (''counts'', Obj [(''total'', Num (Fin (of_nat (length tasks)))),
          (''done'', Num (Fin (of_nat (length (g_done groups))))),
          (''failed'', Num (Fin (of_nat (length (g_failed groups))))),
          (''open'', Num (Fin (of_nat (length (g_open groups)))))]),
       (''accepted_task_ids'', task_ids_js (j_accepted d)),
       (''failed_task_ids'', task_ids_js (g_failed groups)),
       (''open_task_ids'', task_ids_js (g_open groups)),
       (''remaining_task_actions'', Arr (j_actions d)),
       (''reasons'', Arr (List.map Str (j_reasons d))), (''timed_out'', Bool (j_timedOut d))])"

definition evaluateAgentBatchJoinPolicyV1 :: "host \<Rightarrow> jsval \<Rightarrow> jsobj" where
  "evaluateAgentBatchJoinPolicyV1 H input =
     join_result H input @ [(''join_hash'', Str (js_hash H (Obj (join_result H input))))]"

section \<open>Counts\<close>

definition count_in :: "string list \<Rightarrow> batch_task list \<Rightarrow> nat" where
  "count_in statuses ts = length (filter (bt_in statuses) ts)"

lemma groups_length [simp]:
  "length (g_done (groupTasks H ts)) = count_in DONE_STATUSES ts"
  "length (g_failed (groupTasks H ts)) = count_in FAILED_STATUSES ts"
  "length (g_open (groupTasks H ts)) = count_in OPEN_STATUSES ts"
  by (simp_all add: groupTasks_def count_in_def)

lemma groups_set [simp]:
  "set (g_done (groupTasks H ts)) = {t \<in> set ts. bt_in DONE_STATUSES t}"
  "set (g_open (groupTasks H ts)) = {t \<in> set ts. bt_in OPEN_STATUSES t}"
  by (auto simp: groupTasks_def)

lemma groups_Nil_iff [simp]:
  "g_done (groupTasks H ts) = [] \<longleftrightarrow> count_in DONE_STATUSES ts = 0"
  "g_failed (groupTasks H ts) = [] \<longleftrightarrow> count_in FAILED_STATUSES ts = 0"
  by (simp_all add: groupTasks_def count_in_def)

lemma quorum_pos: "1 \<le> quorumSize input n"
  by (simp add: quorumSize_def Let_def split: jnum.splits)

text \<open>When a batch is still waiting, by its counts alone.\<close>

definition waits :: "host \<Rightarrow> jsval \<Rightarrow> bool" where
  "waits H input =
     (let ts = join_tasks H input; n = length ts; d = count_in DONE_STATUSES ts;
          f = count_in FAILED_STATUSES ts; o' = count_in OPEN_STATUSES ts; p = join_policy input in
      if n = 0 then False
      else if p = ''ALL'' then f = 0 \<and> d \<noteq> n
      else if p = ''ANY'' \<or> p = ''FIRST_SOCK'' then d = 0 \<and> f \<noteq> n
      else if p = ''QUORUM'' then d < quorumSize input n \<and> quorumSize input n \<le> d + o'
      else d \<noteq> n \<and> \<not> deadlineReached H input (join_now H input))"

lemma join_status: "fget (evaluateAgentBatchJoinPolicyV1 H input) ''status'' = Str (j_status (join_of H input))"
  by (simp add: evaluateAgentBatchJoinPolicyV1_def join_result_def Let_def)

lemma join_accepted:
  "fget (evaluateAgentBatchJoinPolicyV1 H input) ''accepted_task_ids'' = task_ids_js (j_accepted (join_of H input))"
  by (simp add: evaluateAgentBatchJoinPolicyV1_def join_result_def Let_def)

lemmas decide_defs = decide_def decideAll_def decideAny_def decideFirstSock_def decideQuorum_def
  decideTimeoutWithPartial_def joinDecision_def

lemma waiting_iff: "j_status (join_of H input) = ''WAITING'' \<longleftrightarrow> waits H input"
  by (simp add: join_of_def waits_def decide_defs Let_def)

section \<open>Tasks that finish\<close>

definition finished :: "batch_task \<Rightarrow> bool" where
  "finished t \<longleftrightarrow> bt_in DONE_STATUSES t \<or> bt_in FAILED_STATUSES t"

text \<open>A later state of a task: an open task may have any status at all, the others keep theirs.\<close>

definition progresses :: "batch_task \<Rightarrow> batch_task \<Rightarrow> bool" where
  "progresses t t' \<longleftrightarrow> (bt_in OPEN_STATUSES t \<or> bt_status t' = bt_status t)"

lemmas status_lists = bt_in_def finished_def DONE_STATUSES_def FAILED_STATUSES_def OPEN_STATUSES_def

lemma status_exclusive:
  "bt_in OPEN_STATUSES t \<Longrightarrow> \<not> bt_in DONE_STATUSES t \<and> \<not> bt_in FAILED_STATUSES t"
  "bt_in DONE_STATUSES t \<Longrightarrow> \<not> bt_in OPEN_STATUSES t \<and> \<not> bt_in FAILED_STATUSES t"
  "bt_in FAILED_STATUSES t \<Longrightarrow> \<not> bt_in OPEN_STATUSES t \<and> \<not> bt_in DONE_STATUSES t"
  by (auto simp: status_lists)

lemma count_in_Nil [simp]: "count_in xs [] = 0"
  by (simp add: count_in_def)

lemma filter_le:
  "list_all2 (\<lambda>t u. P t \<longrightarrow> Q u) ts us \<Longrightarrow> length (filter P ts) \<le> length (filter Q us)"
  by (induction rule: list_all2_induct) auto

lemma progress_counts:
  assumes "list_all2 progresses ts us"
  shows "count_in DONE_STATUSES ts \<le> count_in DONE_STATUSES us"
    and "count_in FAILED_STATUSES ts \<le> count_in FAILED_STATUSES us"
    and "count_in (DONE_STATUSES @ OPEN_STATUSES) us \<le> count_in (DONE_STATUSES @ OPEN_STATUSES) ts"
proof -
  have same: "progresses t u \<Longrightarrow> \<not> bt_in OPEN_STATUSES t \<Longrightarrow> bt_in xs u = bt_in xs t" for t u xs
    by (auto simp: progresses_def bt_in_def)
  have sep: "list_all2 (\<lambda>t u. bt_in xs t \<longrightarrow> bt_in xs u) ts us" if "\<And>t. bt_in xs t \<Longrightarrow> \<not> bt_in OPEN_STATUSES t" for xs
    using assms by (rule list_all2_mono) (use same that in blast)
  show "count_in DONE_STATUSES ts \<le> count_in DONE_STATUSES us"
    "count_in FAILED_STATUSES ts \<le> count_in FAILED_STATUSES us"
    unfolding count_in_def using status_exclusive(2,3) by (blast intro: filter_le sep)+
  have "list_all2 (\<lambda>u t. bt_in (DONE_STATUSES @ OPEN_STATUSES) u \<longrightarrow> bt_in (DONE_STATUSES @ OPEN_STATUSES) t) us ts"
    using assms by (auto simp: list_all2_conv_all_nth bt_in_def progresses_def)
  then show "count_in (DONE_STATUSES @ OPEN_STATUSES) us \<le> count_in (DONE_STATUSES @ OPEN_STATUSES) ts"
    unfolding count_in_def by (rule filter_le)
qed

lemma count_done_open:
  "count_in (DONE_STATUSES @ OPEN_STATUSES) ts = count_in DONE_STATUSES ts + count_in OPEN_STATUSES ts"
proof (induction ts)
  case (Cons t ts)
  have "bt_in (DONE_STATUSES @ OPEN_STATUSES) t \<longleftrightarrow> bt_in DONE_STATUSES t \<or> bt_in OPEN_STATUSES t"
    by (simp add: bt_in_def)
  then show ?case using Cons status_exclusive(1)[of t] by (auto simp: count_in_def)
qed (simp add: count_in_def)

lemma count_le: "count_in xs ts \<le> length ts"
  by (simp add: count_in_def)

lemma finished_counts:
  "list_all finished ts \<Longrightarrow> count_in DONE_STATUSES ts + count_in FAILED_STATUSES ts = length ts
     \<and> count_in OPEN_STATUSES ts = 0"
  by (induction ts) (auto simp: count_in_def status_lists)

lemma done_open_failed: "count_in DONE_STATUSES ts + count_in FAILED_STATUSES ts \<le> length ts"
  by (induction ts) (auto simp: count_in_def status_lists)

section \<open>Properties\<close>

lemma firstDone_in: "ts \<noteq> [] \<Longrightarrow> firstDone H ts \<in> set ts"
  by (metis firstDone_def hd_in_set js_sort_Nil_iff set_js_sort)

lemma decision_sel [simp]:
  "j_status (joinDecision s a x r b) = s" "j_accepted (joinDecision s a x r b) = a" "j_actions (joinDecision s a x r b) = x"
  by (simp_all add: joinDecision_def)

text \<open>Every policy accepts only tasks of the group of finished ones, and some if it completes.\<close>

lemma decideAll_accepts: "set (j_accepted (decideAll ts g)) \<subseteq> set (g_done g)"
  by (simp add: decideAll_def)

lemma decideAny_accepts: "set (j_accepted (decideAny H ts g)) \<subseteq> set (g_done g)"
  using firstDone_in[of "g_done g" H] by (simp add: decideAny_def)

lemma decideFirstSock_accepts: "set (j_accepted (decideFirstSock H ts g)) \<subseteq> set (g_done g)"
  using firstDone_in[of "g_done g" H] by (simp add: decideFirstSock_def Let_def)

lemma decideQuorum_accepts: "set (j_accepted (decideQuorum ts g input)) \<subseteq> set (g_done g)"
  by (simp add: decideQuorum_def Let_def set_take_subset)

lemma decideTimeout_accepts: "set (j_accepted (decideTimeoutWithPartial H ts g now input)) \<subseteq> set (g_done g)"
  by (simp add: decideTimeoutWithPartial_def)

lemma decide_accepts: "set (j_accepted (decide H p ts g now input)) \<subseteq> set (g_done g)"
  using decideAll_accepts[of ts g] decideAny_accepts[of H ts g] decideFirstSock_accepts[of H ts g]
    decideQuorum_accepts[of ts g input] decideTimeout_accepts[of H ts g now input]
  unfolding decide_def by (simp split: if_split)

definition completes :: "string \<Rightarrow> bool" where
  "completes s \<longleftrightarrow> s = ''COMPLETED'' \<or> s = ''COMPLETED_PARTIAL''"

lemma completes_simps [simp]:
  "completes ''COMPLETED''" "completes ''COMPLETED_PARTIAL''" "\<not> completes ''WAITING''" "\<not> completes ''FAILED''"
  "\<not> completes ''TIMED_OUT''"
  by (simp_all add: completes_def)

lemma decideAll_completes:
  "completes (j_status (decideAll ts g)) \<Longrightarrow> j_accepted (decideAll ts g) = g_done g \<and> length (g_done g) = length ts"
  by (simp add: decideAll_def split: if_splits)

lemma decideQuorum_completes:
  "completes (j_status (decideQuorum ts g input)) \<Longrightarrow>
     length (j_accepted (decideQuorum ts g input)) = quorumSize input (length ts)"
  by (simp add: decideQuorum_def Let_def split: if_splits)

lemma decide_completes:
  assumes "ts \<noteq> []" and "completes (j_status (decide H p ts g now input))"
  shows "j_accepted (decide H p ts g now input) \<noteq> []"
proof -
  have "j_accepted (decideAll ts g) \<noteq> []" if "completes (j_status (decideAll ts g))"
    using decideAll_completes[OF that] assms(1) by auto
  moreover have "j_accepted (decideAny H ts g) \<noteq> []" if "completes (j_status (decideAny H ts g))"
    using that by (simp add: decideAny_def split: if_splits)
  moreover have "j_accepted (decideFirstSock H ts g) \<noteq> []" if "completes (j_status (decideFirstSock H ts g))"
    using that by (simp add: decideFirstSock_def Let_def split: if_splits)
  moreover have "j_accepted (decideQuorum ts g input) \<noteq> []" if "completes (j_status (decideQuorum ts g input))"
    using decideQuorum_completes[OF that] quorum_pos[of input "length ts"] by auto
  moreover have "j_accepted (decideTimeoutWithPartial H ts g now input) \<noteq> []"
    if "completes (j_status (decideTimeoutWithPartial H ts g now input))"
    using that assms(1) by (auto simp: decideTimeoutWithPartial_def split: if_splits)
  ultimately show ?thesis using assms unfolding decide_def by (simp split: if_split_asm)
qed

definition open_batch :: jsval where
  "open_batch = Obj [(''policy'', Str ''quorum''), (''quorum_size'', Num (Fin 2)),
     (''tasks'', Arr [Obj [(''task_id'', Str ''a''), (''status'', Str ''DONE'')],
                     Obj [(''task_id'', Str ''b''), (''status'', Str ''done'')],
                     Obj [(''task_id'', Str ''c''), (''status'', Str ''RUNNING'')]])]"

definition closed_batch :: jsval where
  "closed_batch = Obj [(''policy'', Str ''quorum''), (''quorum_size'', Num (Fin 2)),
     (''tasks'', Arr [Obj [(''task_id'', Str ''a''), (''status'', Str ''DONE'')],
                     Obj [(''task_id'', Str ''b''), (''status'', Str ''done'')],
                     Obj [(''task_id'', Str ''c''), (''status'', Str ''ERROR'')]])]"

text \<open>The same batch at a later time, at which its open tasks may have moved to any status.\<close>

definition later_batch :: "host \<Rightarrow> jsval \<Rightarrow> jsval \<Rightarrow> bool" where
  "later_batch H a b \<longleftrightarrow> list_all2 progresses (join_tasks H a) (join_tasks H b)
     \<and> (\<forall>k \<in> {''policy'', ''quorum_size'', ''quorum'', ''deadline_at_utc'', ''deadline_at''}. get b k = get a k)
     \<and> jle (date_num H (join_now H a)) (date_num H (join_now H b))"

lemma later_deadline: "later_batch H a b \<Longrightarrow> deadlineReached H a (join_now H a) \<Longrightarrow> deadlineReached H b (join_now H b)"
  using jle_trans by (auto simp: later_batch_def deadlineReached_def join_deadline_def)

lemma later_quorum: "later_batch H a b \<Longrightarrow> quorumSize b n = quorumSize a n"
  by (simp add: later_batch_def quorumSize_def)

lemma later_policy: "later_batch H a b \<Longrightarrow> join_policy b = join_policy a"
  by (simp add: later_batch_def join_policy_def)

lemma later_waits:
  assumes "later_batch H a b" and "waits H b"
  shows "waits H a"
proof -
  have prog: "list_all2 progresses (join_tasks H a) (join_tasks H b)"
    using assms(1) by (simp add: later_batch_def)
  then have len: "length (join_tasks H b) = length (join_tasks H a)"
    by (simp add: list_all2_lengthD)
  show ?thesis
    using assms(2) progress_counts[OF prog, unfolded count_done_open] later_deadline[OF assms(1)] done_open_failed[of "join_tasks H b"]
      done_open_failed[of "join_tasks H a"]
    by (auto simp: waits_def Let_def len later_quorum[OF assms(1)] later_policy[OF assms(1)] split: if_splits)
qed

text \<open>
  C21. A decision on a batch is final: once a batch is no longer waiting it is not waiting at any later time, whatever
  status its open tasks have by then: pending, ready, claimed, running, waiting, finished, or none the policy knows.
\<close>

theorem join_decision_stable:
  assumes "later_batch H a b"
    and "fget (evaluateAgentBatchJoinPolicyV1 H a) ''status'' \<noteq> Str ''WAITING''"
  shows "fget (evaluateAgentBatchJoinPolicyV1 H b) ''status'' \<noteq> Str ''WAITING''"
  using assms later_waits by (simp add: join_status waiting_iff) blast

lemma sample_batches:
  "join_tasks sample_host open_batch = [\<lparr>bt_task_id = ''a'', bt_task_key = None, bt_status = ''DONE'',
      bt_output_ref = None, bt_completed_at_utc = None, bt_created_at_utc = None\<rparr>,
    \<lparr>bt_task_id = ''b'', bt_task_key = None, bt_status = ''DONE'', bt_output_ref = None,
      bt_completed_at_utc = None, bt_created_at_utc = None\<rparr>,
    \<lparr>bt_task_id = ''c'', bt_task_key = None, bt_status = ''RUNNING'', bt_output_ref = None,
      bt_completed_at_utc = None, bt_created_at_utc = None\<rparr>]"
  "join_tasks sample_host closed_batch = [\<lparr>bt_task_id = ''a'', bt_task_key = None, bt_status = ''DONE'',
      bt_output_ref = None, bt_completed_at_utc = None, bt_created_at_utc = None\<rparr>,
    \<lparr>bt_task_id = ''b'', bt_task_key = None, bt_status = ''DONE'', bt_output_ref = None,
      bt_completed_at_utc = None, bt_created_at_utc = None\<rparr>,
    \<lparr>bt_task_id = ''c'', bt_task_key = None, bt_status = ''ERROR'', bt_output_ref = None,
      bt_completed_at_utc = None, bt_created_at_utc = None\<rparr>]"
  by code_simp+

lemma sample_batch_policy: "join_policy open_batch = ''QUORUM''" "join_policy closed_batch = ''QUORUM''"
  "join_now sample_host open_batch = Some epoch_iso" "join_now sample_host closed_batch = Some epoch_iso"
  "date_num sample_host (Some epoch_iso) = Fin 0"
  by code_simp+

lemma sample_later: "later_batch sample_host open_batch closed_batch"
  by (simp add: later_batch_def sample_batches sample_batch_policy)
    (simp add: open_batch_def closed_batch_def progresses_def status_lists)

lemma sample_quorum: "quorumSize open_batch n = max 1 (nat (min (int (if n = 0 then 1 else n)) 2))"
  by (simp add: quorumSize_def open_batch_def js_coalesce_def is_integer_def)

lemma sample_not_waiting: "\<not> waits sample_host open_batch"
  by (simp add: waits_def Let_def sample_batches sample_batch_policy sample_quorum count_in_def status_lists)

theorem join_decision_stable_witness:
  "fget (evaluateAgentBatchJoinPolicyV1 sample_host closed_batch) ''status'' \<noteq> Str ''WAITING''"
  using join_decision_stable[OF sample_later] sample_not_waiting by (simp add: join_status waiting_iff)

text \<open>
  Every batch is decided: when all its tasks have finished, and for the policy with a timeout also
  its deadline has passed or all of them succeeded, its status is not \<open>WAITING\<close>.
\<close>

theorem join_decided_when_finished:
  assumes "list_all finished (join_tasks H input)"
    and "join_policy input = ''TIMEOUT_WITH_PARTIAL_RESULTS'' \<longrightarrow> deadlineReached H input (join_now H input)
      \<or> list_all (bt_in DONE_STATUSES) (join_tasks H input)"
  shows "fget (evaluateAgentBatchJoinPolicyV1 H input) ''status'' \<noteq> Str ''WAITING''"
proof -
  have policy: "join_policy input \<in> set AGENT_BATCH_JOIN_POLICIES_V1"
    by (simp add: join_policy_def batch_enumValue_def Let_def AGENT_BATCH_JOIN_POLICIES_V1_def)
  have "list_all (bt_in DONE_STATUSES) ts \<Longrightarrow> count_in DONE_STATUSES ts = length ts" for ts
    by (induction ts) (auto simp: count_in_def)
  then have "\<not> waits H input"
    using finished_counts[OF assms(1)] assms(2) policy
    by (auto simp: waits_def Let_def AGENT_BATCH_JOIN_POLICIES_V1_def)
  then show ?thesis by (simp add: join_status waiting_iff)
qed

theorem join_decided_when_finished_witness:
  "fget (evaluateAgentBatchJoinPolicyV1 sample_host closed_batch) ''status'' \<noteq> Str ''WAITING''
    \<and> length (join_tasks sample_host closed_batch) = 3"
  using join_decided_when_finished[of sample_host closed_batch]
  by (simp add: sample_batches sample_batch_policy status_lists)

text \<open>
  What a decision accepts: only tasks of the batch that succeeded; if it completes, at least one; all
  of them under the policy \<open>ALL\<close>, and exactly the quorum under the policy \<open>QUORUM\<close>.
\<close>

theorem join_accepts_successes:
  assumes "fget (evaluateAgentBatchJoinPolicyV1 H input) ''status'' = Str st" and "completes st"
    and "join_tasks H input \<noteq> []"
  shows "\<exists>acc. fget (evaluateAgentBatchJoinPolicyV1 H input) ''accepted_task_ids'' = task_ids_js acc \<and> acc \<noteq> []
    \<and> set acc \<subseteq> {t \<in> set (join_tasks H input). bt_status t = ''DONE''}
    \<and> (join_policy input = ''ALL'' \<longrightarrow> set acc = set (join_tasks H input))
    \<and> (join_policy input = ''QUORUM'' \<longrightarrow> length acc = quorumSize input (length (join_tasks H input)))"
proof -
  define ts where "ts = join_tasks H input"
  define d where "d = join_of H input"
  have st: "completes (j_status d)" using assms(1,2) by (simp add: join_status d_def)
  have dd: "d = decide H (join_policy input) ts (groupTasks H ts) (join_now H input) input"
    by (simp add: d_def join_of_def ts_def)
  have ne: "ts \<noteq> []" using assms(3) by (simp add: ts_def)
  have sub: "set (j_accepted d) \<subseteq> {t \<in> set ts. bt_status t = ''DONE''}"
    using decide_accepts[of H "join_policy input" ts "groupTasks H ts"] by (simp add: dd bt_in_def DONE_STATUSES_def)
  have "set (j_accepted d) = set ts" if "join_policy input = ''ALL''"
  proof -
    have "completes (j_status (decideAll ts (groupTasks H ts)))" "d = decideAll ts (groupTasks H ts)"
      using st ne that by (simp_all add: dd decide_def)
    with decideAll_completes[of ts "groupTasks H ts"]
    have "set (j_accepted d) = {t \<in> set ts. bt_in DONE_STATUSES t}"
      "length (filter (bt_in DONE_STATUSES) ts) = length ts" by (simp_all flip: count_in_def)
    then show ?thesis by (auto simp: filter_id_conv dest: length_filter_less)
  qed
  moreover have "length (j_accepted d) = quorumSize input (length ts)" if "join_policy input = ''QUORUM''"
    using st ne that decideQuorum_completes[of ts "groupTasks H ts" input] by (simp add: dd decide_def)
  moreover have "j_accepted d \<noteq> []" using decide_completes[OF ne] st unfolding dd by blast
  ultimately show ?thesis
    using sub by (intro exI[of _ "j_accepted d"]) (simp add: join_accepted flip: d_def ts_def)
qed

theorem join_accepts_successes_witness:
  "\<exists>acc. fget (evaluateAgentBatchJoinPolicyV1 sample_host open_batch) ''accepted_task_ids'' = task_ids_js acc
     \<and> length acc = 2"
proof -
  have "fget (evaluateAgentBatchJoinPolicyV1 sample_host open_batch) ''status'' = Str ''COMPLETED_PARTIAL''"
    by (simp add: join_status join_of_def sample_batches sample_batch_policy decide_def decideQuorum_def Let_def
        sample_quorum count_in_def status_lists)
  from join_accepts_successes[OF this] show ?thesis
    by (auto simp: sample_batches sample_batch_policy sample_quorum)
qed

text \<open>
  The policy with a timeout, which is the default, waits for its deadline even if every task has
  failed; without a deadline it waits for ever.
\<close>

theorem timeout_without_deadline_waits:
  assumes "join_policy input = ''TIMEOUT_WITH_PARTIAL_RESULTS''" and "join_deadline H input = None"
    and "join_tasks H input \<noteq> []" and "list_all (bt_in FAILED_STATUSES) (join_tasks H input)"
  shows "fget (evaluateAgentBatchJoinPolicyV1 H input) ''status'' = Str ''WAITING''"
proof -
  have "list_all finished (join_tasks H input)"
    using assms(4) by (simp add: list_all_iff finished_def)
  moreover have "count_in DONE_STATUSES (join_tasks H input) = 0"
    using assms(4) status_exclusive(3) by (auto simp: count_in_def list_all_iff filter_empty_conv)
  ultimately have "waits H input"
    using assms by (simp add: waits_def Let_def deadlineReached_def)
  then show ?thesis by (simp add: join_status waiting_iff)
qed

definition failed_batch :: jsval where
  "failed_batch = Obj [(''tasks'', Arr [Obj [(''task_id'', Str ''a''), (''status'', Str ''ERROR'')]])]"

theorem timeout_without_deadline_waits_witness:
  "fget (evaluateAgentBatchJoinPolicyV1 sample_host failed_batch) ''status'' = Str ''WAITING''"
proof (rule timeout_without_deadline_waits)
  show "join_policy failed_batch = ''TIMEOUT_WITH_PARTIAL_RESULTS''" "join_deadline sample_host failed_batch = None"
    by code_simp+
  have "join_tasks sample_host failed_batch = [\<lparr>bt_task_id = ''a'', bt_task_key = None, bt_status = ''ERROR'',
      bt_output_ref = None, bt_completed_at_utc = None, bt_created_at_utc = None\<rparr>]" by code_simp
  then show "join_tasks sample_host failed_batch \<noteq> []"
    "list_all (bt_in FAILED_STATUSES) (join_tasks sample_host failed_batch)" by (simp_all add: status_lists)
qed

text \<open>A \<open>quorum\<close> of \<open>null\<close> is a quorum of one, an absent one is a majority.\<close>

lemma null_quorum_is_one:
  "quorumSize (Obj [(''quorum'', Null)]) n = 1" "quorumSize (Obj []) n = max 1 (n div 2 + 1)"
  by (simp_all add: quorumSize_def js_coalesce_def is_integer_def)

end
