(* ===== verification/Domain_Result.thy ===== *)
theory Domain_Result
  imports Js_Value
begin

text \<open>
  The vocabulary every rule of the trading domain answers in: \<open>packages/desk-domain/src/result.js\<close>
  (accepted, rejected or review-required, with reason codes, flags and evidence),
  \<open>instant.js\<close> (instants and time windows) and \<open>setup-shape.js\<close> (reading prices, direction
  and reward/risk geometry out of a loosely shaped setup record).
\<close>

section \<open>result.js\<close>

datatype domain_status = ACCEPTED | REJECTED | REVIEW_REQUIRED

record domain_result =
  ok :: bool
  status :: domain_status
  reasons :: "string list"
  flags :: "string list"
  evidence :: jsobj

definition uniqueStrings :: "string list \<Rightarrow> string list" where
  "uniqueStrings values = uniq (filter (\<lambda>v. v \<noteq> []) values)"

text \<open>
  \<open>domainResult\<close> throws a TypeError for a status outside \<open>DOMAIN_STATUSES\<close>; the type
  \<open>domain_status\<close> has no such value.
\<close>

definition domainResult :: "domain_status \<Rightarrow> string list \<Rightarrow> string list \<Rightarrow> jsobj \<Rightarrow> domain_result" where
  "domainResult st rs fs ev =
     \<lparr>ok = (st = ACCEPTED), status = st, reasons = uniqueStrings rs, flags = uniqueStrings fs,
      evidence = ev\<rparr>"

definition accepted :: "string list \<Rightarrow> string list \<Rightarrow> jsobj \<Rightarrow> domain_result" where
  "accepted rs fs ev = domainResult ACCEPTED rs fs ev"

definition rejected :: "string \<Rightarrow> string list \<Rightarrow> string list \<Rightarrow> jsobj \<Rightarrow> domain_result" where
  "rejected reason rs fs ev = domainResult REJECTED (reason # rs) fs ev"

definition reviewRequired :: "string \<Rightarrow> string list \<Rightarrow> string list \<Rightarrow> jsobj \<Rightarrow> domain_result" where
  "reviewRequired reason rs fs ev = domainResult REVIEW_REQUIRED (reason # rs) fs ev"

definition resultFromIssues ::
  "string list \<Rightarrow> string list \<Rightarrow> string list \<Rightarrow> jsobj \<Rightarrow> domain_result" where
  "resultFromIssues rejectReasons reviewReasons fs ev =
     (if rejectReasons \<noteq> [] then domainResult REJECTED rejectReasons fs ev
      else if reviewReasons \<noteq> [] then domainResult REVIEW_REQUIRED reviewReasons fs ev
      else accepted [] fs ev)"

lemma resultFromIssues_simps [simp]:
  "ok (resultFromIssues rej rvw fs ev) \<longleftrightarrow> rej = [] \<and> rvw = []"
  "status (resultFromIssues rej rvw fs ev) =
     (if rej \<noteq> [] then REJECTED else if rvw \<noteq> [] then REVIEW_REQUIRED else ACCEPTED)"
  "flags (resultFromIssues rej rvw fs ev) = uniqueStrings fs"
  "evidence (resultFromIssues rej rvw fs ev) = ev"
  "reasons (resultFromIssues rej rvw fs ev) = uniqueStrings (if rej \<noteq> [] then rej else rvw)"
  by (auto simp: resultFromIssues_def domainResult_def accepted_def)

lemma set_uniqueStrings [simp]: "set (uniqueStrings xs) = {x \<in> set xs. x \<noteq> []}"
  by (simp add: uniqueStrings_def)

section \<open>instant.js\<close>

definition parseInstant :: "host \<Rightarrow> jsval \<Rightarrow> int option" where
  "parseInstant H value =
     (case value of Str s \<Rightarrow> if trim s = [] then None else date_parse H s | _ \<Rightarrow> None)"

definition isAfterInstant :: "host \<Rightarrow> jsval \<Rightarrow> jsval \<Rightarrow> bool" where
  "isAfterInstant H left right =
     (case (parseInstant H left, parseInstant H right) of
        (Some l, Some r) \<Rightarrow> l > r
      | _ \<Rightarrow> False)"

definition firstPresent :: "jsval list \<Rightarrow> jsval" where
  "firstPresent values = (case List.find present values of Some v \<Rightarrow> v | None \<Rightarrow> Undef)"

definition isWithinTimeWindow :: "host \<Rightarrow> jsval \<Rightarrow> jsval \<Rightarrow> bool" where
  "isWithinTimeWindow H timestamp window =
     (let startMs = parseInstant H (firstPresent
            [get window ''start'', get window ''start_paris'', get window ''start_at_paris'']);
          endMs = parseInstant H (firstPresent
            [get window ''end'', get window ''end_paris'', get window ''end_at_paris''])
      in case parseInstant H timestamp of
           None \<Rightarrow> startMs = None \<and> endMs = None
         | Some t \<Rightarrow>
             if (case startMs of Some s \<Rightarrow> t < s | None \<Rightarrow> False) then False
             else if (case endMs of Some e \<Rightarrow> t > e | None \<Rightarrow> False) then False
             else True)"

lemma isAfterInstant_irrefl: "\<not> isAfterInstant H x x"
  by (auto simp: isAfterInstant_def split: option.splits)

lemma isAfterInstant_trans:
  "isAfterInstant H x y \<Longrightarrow> isAfterInstant H y z \<Longrightarrow> isAfterInstant H x z"
  by (auto simp: isAfterInstant_def split: option.splits)

lemma firstPresent_Nil [simp]: "firstPresent [] = Undef"
  and firstPresent_Cons: "firstPresent (v # vs) = (if present v then v else firstPresent vs)"
  by (auto simp: firstPresent_def)

section \<open>setup-shape.js\<close>

definition numberOrNull :: "jsval \<Rightarrow> jnum option" where
  "numberOrNull value =
     (case value of
        Num n \<Rightarrow> if is_finite n then Some n else None
      | Str s \<Rightarrow> if trim s \<noteq> [] \<and> is_finite (to_number_str s) then Some (to_number_str s) else None
      | _ \<Rightarrow> None)"

definition priceFromValue :: "jsval \<Rightarrow> jnum option" where
  "priceFromValue value =
     (case numberOrNull value of Some n \<Rightarrow> Some n
      | None \<Rightarrow>
        (case value of
           Obj _ \<Rightarrow>
             (case numberOrNull (firstPresent
                 [get value ''price'', get value ''level'', get value ''value'', get value ''target'']) of
                Some n \<Rightarrow> Some n
              | None \<Rightarrow>
                 (case (numberOrNull (get value ''from''), numberOrNull (get value ''to'')) of
                    (Some a, Some b) \<Rightarrow> Some (jdiv (jadd a b) (Fin 2))
                  | (Some a, None) \<Rightarrow> Some a
                  | (None, b) \<Rightarrow> b))
         | _ \<Rightarrow> None))"

definition setupEntry :: "jsval \<Rightarrow> jnum option" where
  "setupEntry setup = priceFromValue (firstPresent
     [get setup ''entry_price'', get setup ''entry'', get setup ''entry_zone'', get setup ''entryZone''])"

definition setupStop :: "jsval \<Rightarrow> jnum option" where
  "setupStop setup = priceFromValue (firstPresent
     [get setup ''stop_loss'', get setup ''stop'', get setup ''sl_price'', get setup ''sl''])"

definition setupTarget :: "jsval \<Rightarrow> jnum option" where
  "setupTarget setup = priceFromValue (firstPresent
     [get setup ''take_profit_1'', get setup ''tp1_price'', get setup ''tp1'',
      get setup ''take_profit'', get setup ''target'', get setup ''take_profits''])"

definition setupDirection :: "jsval \<Rightarrow> string" where
  "setupDirection setup =
     (let raw = to_lower (str_or_empty (firstPresent
            [get setup ''direction'', get setup ''side'', get setup ''order_type'']))
      in if str_includes raw ''buy'' \<or> raw = ''long'' then ''long''
         else if str_includes raw ''sell'' \<or> raw = ''short'' then ''short''
         else if raw = ''neutral'' \<or> raw = ''wait'' then raw
         else ''unknown'')"

definition setupInstrument :: "jsval \<Rightarrow> string" where
  "setupInstrument setup = to_upper (str_or_empty (firstPresent
     [get setup ''instrument'', get setup ''symbol'', get setup ''ticker'']))"

definition setupKey :: "jsval \<Rightarrow> string" where
  "setupKey setup = to_lower (str_or_empty (firstPresent
     [get setup ''setup_id'', get setup ''setup_key'', get setup ''setup_name'', get setup ''setup_type'']))"

definition firstTargetFromCollection :: "jsval \<Rightarrow> jnum option" where
  "firstTargetFromCollection value =
     (case value of
        Arr xs \<Rightarrow>
          (case List.find (\<lambda>x. \<not> nullish x) xs of None \<Rightarrow> None
           | Some first \<Rightarrow> if \<not> truthy first then None
              else priceFromValue (firstPresent
                [get first ''target'', get first ''price'', get first ''level'', first]))
      | Obj _ \<Rightarrow> priceFromValue (firstPresent
          [get value ''tp1'', get value ''take_profit_1'', get value ''target'',
           get value ''price'', get value ''level''])
      | _ \<Rightarrow> priceFromValue value)"

definition round_digits :: "jnum \<Rightarrow> nat \<Rightarrow> jnum" where
  "round_digits value digits =
     (let factor = jpow (Fin 10) (Fin (of_nat digits)) in jdiv (jround (jmul value factor)) factor)"

record geometry =
  direction :: string
  entry :: "jnum option"
  stop :: "jnum option"
  target :: "jnum option"
  riskPoints :: "jnum option"
  rewardPoints :: "jnum option"
  rr :: "jnum option"

definition tradable :: "string \<Rightarrow> bool" where
  "tradable d \<longleftrightarrow> d \<in> {''long'', ''short''}"

definition computeRewardRisk :: "jsval \<Rightarrow> geometry" where
  "computeRewardRisk setup =
     (let d = setupDirection setup; e = setupEntry setup; s = setupStop setup;
          t = firstTargetFromCollection
                (case setupTarget setup of Some n \<Rightarrow> Num n | None \<Rightarrow> get setup ''take_profits'')
      in case (e, s, t) of
           (Some en, Some st, Some tg) \<Rightarrow>
             if \<not> tradable d then \<lparr>direction = d, entry = e, stop = s, target = t,
                 riskPoints = None, rewardPoints = None, rr = None\<rparr>
             else (let risk = jabs (jsub en st); reward = jabs (jsub tg en)
                   in \<lparr>direction = d, entry = e, stop = s, target = t,
                       riskPoints = Some risk, rewardPoints = Some reward,
                       rr = (if jlt (Fin 0) risk then Some (round_digits (jdiv reward risk) 4) else None)\<rparr>)
         | _ \<Rightarrow> \<lparr>direction = d, entry = e, stop = s, target = t,
                 riskPoints = None, rewardPoints = None, rr = None\<rparr>)"

definition geometry_js :: "geometry \<Rightarrow> jsval" where
  "geometry_js g = Obj [(''direction'', Str (direction g)), (''entry'', js_opt_num (entry g)),
     (''stop'', js_opt_num (stop g)), (''target'', js_opt_num (target g)),
     (''riskPoints'', js_opt_num (riskPoints g)), (''rewardPoints'', js_opt_num (rewardPoints g)),
     (''rr'', js_opt_num (rr g))]"

subsection \<open>Facts\<close>

lemma numberOrNull_finite: "numberOrNull v = Some n \<Longrightarrow> is_finite n"
  by (auto simp: numberOrNull_def split: jsval.splits if_splits)

lemma setupDirection_values:
  "setupDirection s \<in> {''long'', ''short'', ''neutral'', ''wait'', ''unknown''}"
  by (auto simp: setupDirection_def Let_def)

lemma computeRewardRisk_simps [simp]:
  "direction (computeRewardRisk s) = setupDirection s"
  "entry (computeRewardRisk s) = setupEntry s"
  "stop (computeRewardRisk s) = setupStop s"
  by (auto simp: computeRewardRisk_def Let_def split: option.splits)

lemma round_digits_mono:
  assumes "jle a b"
  shows "jle (round_digits a 4) (round_digits b 4)"
proof -
  have p: "jpow (Fin 10) (Fin (of_nat 4)) = Fin 10000"
    by (simp add: jpow_def)
  have "jle (jmul a (Fin 10000)) (jmul b (Fin 10000))"
    using assms by (cases a; cases b) (auto simp: jinf_def intro!: rnd_mono jle_PInf jle_NInf)
  then have r: "jle (jround (jmul a (Fin 10000))) (jround (jmul b (Fin 10000)))"
    by (rule jround_mono)
  have "jle (jdiv x (Fin 10000)) (jdiv y (Fin 10000))" if "jle x y" for x y
    using that by (cases x; cases y)
      (auto simp: jinf_def divide_right_mono intro!: rnd_mono jle_PInf jle_NInf)
  then show ?thesis unfolding round_digits_def p Let_def using r by blast
qed

lemma round_digits_0: "round_digits (Fin 0) 4 = Fin 0"
proof -
  have "\<lfloor>1 / 2 :: rat\<rfloor> = 0" by (rule floor_unique) simp_all
  then show ?thesis by (simp add: round_digits_def jpow_def jround_def)
qed

text \<open>Ratios of counts stay between zero and one when rounded.\<close>

lemma rnd_unit: "0 \<le> x \<Longrightarrow> x \<le> of_nat n \<Longrightarrow> n \<le> 2 ^ 53 \<Longrightarrow> \<exists>q. rnd x = Fin q \<and> 0 \<le> q \<and> q \<le> of_nat n"
  using jle_rnd_double2[of "of_nat n" x] rnd_nonneg[of x] is_double_of_int[of "int n"] by (cases "rnd x") auto

lemma round_4_unit:
  assumes "0 \<le> q" and "q \<le> 1"
  shows "\<exists>s. round_digits (Fin q) 4 = Fin s \<and> 0 \<le> s \<and> s \<le> 1"
proof -
  have p: "jpow (Fin 10) (Fin 4) = Fin 10000" by (simp add: jpow_def)
  obtain m where m: "rnd (q * 10000) = Fin m" "0 \<le> m" "m \<le> 10000"
    using rnd_unit[of "q * 10000" 10000] assms by auto
  have "0 \<le> \<lfloor>m + 1 / 2\<rfloor>" "\<lfloor>m + 1 / 2\<rfloor> \<le> 10000" using m by (auto simp: floor_le_iff)
  then have "0 \<le> rat_of_int \<lfloor>m + 1 / 2\<rfloor> / 10000" "rat_of_int \<lfloor>m + 1 / 2\<rfloor> / 10000 \<le> 1" by simp_all
  then show ?thesis
    using rnd_unit[of "rat_of_int \<lfloor>m + 1 / 2\<rfloor> / 10000" 1] by (simp add: round_digits_def p m jround_Fin Let_def)
qed

text \<open>Rounding to four digits leaves integers of a reasonable size.\<close>

lemma round_digits_int:
  assumes "\<bar>i * 10000\<bar> \<le> (2 :: int) ^ 53"
  shows "round_digits (Fin (of_int i)) 4 = Fin (of_int i)"
proof -
  have a: "rnd (of_int i * 10000) = Fin (of_int (i * 10000))" using rnd_of_int[OF assms] by simp
  have "\<lfloor>of_int (i * 10000) + 1 / 2 :: rat\<rfloor> = i * 10000" by (rule floor_unique) simp_all
  moreover have "rnd (of_int i) = Fin (of_int i)" by (rule rnd_of_int) (use assms in \<open>simp add: abs_mult\<close>)
  ultimately show ?thesis using a by (simp add: round_digits_def jpow_def jround_def)
qed

end
