(* ===== verification/Predicate_Conditions.thy ===== *)
theory Predicate_Conditions
  imports Domain_Result Domain_Helpers Lifecycle
begin

text \<open>
  The stateless part of \<open>packages/desk-domain/src/deterministic-predicate-registry-v1.js\<close>: the normal form of a
  condition, which rows it sees, and the predicates that look only at those rows (prices, zones, indicators,
  windows of time, events). A condition and a row are JavaScript objects; an evaluation is the object the code
  returns (\<open>matched\<close>, and \<open>state\<close> where the predicate decides it). Only the window of time may throw.
\<close>

section \<open>Rows and values\<close>

definition isClosedRow :: "jsval \<Rightarrow> bool" where
  "isClosedRow row \<longleftrightarrow> get row ''closed'' \<noteq> Bool False \<and> get row ''is_closed'' \<noteq> Bool False
     \<and> normalizeEnum (js_or (get row ''status'') (Str ''CLOSED'')) \<noteq> ''OPEN''"

definition rowTimestamp :: "jsval \<Rightarrow> jsval" where
  "rowTimestamp row = js_or (get row ''timestamp_paris'') (js_or (get row ''close_time_paris'')
     (js_or (get row ''time_paris'') (js_or (get row ''timestamp'') (js_or (get row ''time'') Null))))"

definition row_ms :: "host \<Rightarrow> jsval \<Rightarrow> int option" where
  "row_ms H row = parseTimestamp H (rowTimestamp row)"

definition isReservedMacroEventRow :: "jsval \<Rightarrow> bool" where
  "isReservedMacroEventRow row \<longleftrightarrow> get row ''event_record'' = Bool True
     \<or> normalizeEnum (get row ''event_row_type'') = ''MACRO_CALENDAR_EVENT''
     \<or> normalizeEnum (get row ''instrument'') = ''__MACRO_EVENTS__''"

definition positiveIntegerOrNull :: "jsval \<Rightarrow> jnum option" where
  "positiveIntegerOrNull value =
     (let parsed = to_num value in if is_integer parsed \<and> jlt (Fin 0) parsed then Some parsed else None)"

definition positiveInteger :: "jsval \<Rightarrow> jnum \<Rightarrow> jnum" where
  "positiveInteger value fallback = (case positiveIntegerOrNull value of Some n \<Rightarrow> n | None \<Rightarrow> fallback)"

definition num_field :: "jsval \<Rightarrow> string \<Rightarrow> jnum option" where
  "num_field row k = numberOrNull (get row k)"

text \<open>\<open>rows.at(-1)\<close>\<close>

definition last_row :: "jsval list \<Rightarrow> jsval" where
  "last_row rows = (if rows = [] then Undef else last rows)"

section \<open>The normal form of a condition\<close>

definition defaultWeight :: "string \<Rightarrow> jnum" where
  "defaultWeight importance = (if importance = ''PRIMARY'' then Fin 2 else if importance = ''SECONDARY'' then Fin 1 else Fin 0)"

definition normalizeMemoryPolicy :: "jsval \<Rightarrow> string \<Rightarrow> string \<Rightarrow> string" where
  "normalizeMemoryPolicy value effect role =
     (if effect = ''BLOCK_IF_TRUE'' then (if role = ''INVALIDATION'' then ''INVALIDATE_TERMINAL'' else ''LATEST_ONLY'')
      else let normalized = normalizeEnum value
        in if normalized \<in> {''LATEST_ONLY'', ''LATCH_UNTIL_TRIGGER''} then normalized else ''LATCH_UNTIL_TRIGGER'')"

definition inferPredicateType :: "string \<Rightarrow> string" where
  "inferPredicateType operator =
     (if str_includes operator ''BREAK_RETEST'' then ''BREAK_RETEST_SEQUENCE''
      else if str_includes operator ''CROSS'' then ''PRICE_CROSS''
      else if str_includes operator ''TOUCH'' then ''ZONE_TOUCH''
      else if str_includes operator ''BREAK'' \<or> str_includes operator ''BREAKOUT'' then ''BREAKOUT_CLOSE''
      else if str_includes operator ''REJECT'' then ''REJECTION_PATTERN''
      else if str_includes operator ''VWAP'' then ''VWAP_RELATION''
      else if str_includes operator ''RSI'' then ''RSI_THRESHOLD''
      else ''PRICE_RELATION'')"

definition normalizeCondition :: "jsval \<Rightarrow> nat \<Rightarrow> jsval" where
  "normalizeCondition condition index =
     (let rawRole = normalizeEnum (get condition ''role'');
          importance = normalizeEnum (js_or (get condition ''importance'') (js_or (get condition ''priority_class'')
            (Str (if rawRole \<in> {''INVALIDATION'', ''VETO''} then ''HARD_BLOCKER''
                  else if get condition ''required_for_trigger'' = Bool True then ''MANDATORY'' else ''SECONDARY''))));
          effect = normalizeEnum (js_or (get condition ''effect'')
            (Str (if importance \<in> {''HARD_BLOCKER'', ''INVALIDATION'', ''VETO''} \<or> rawRole \<in> {''INVALIDATION'', ''VETO''}
                  then ''BLOCK_IF_TRUE'' else ''REQUIRE_TRUE'')));
          role = (if rawRole \<noteq> [] then rawRole
            else if effect = ''BLOCK_IF_TRUE'' then ''VETO'' else if importance = ''MANDATORY'' then ''ACTIVATION'' else ''CONFIRMATION'');
          operator = normalizeEnum (js_or (get condition ''operator'') (js_or (get condition ''comparator'') (get condition ''kind'')))
      in Obj (spread (obj_or_empty condition)
        [(''condition_id'', Str (to_str (js_or (get condition ''condition_id'') (js_or (get condition ''id'')
            (Str (''condition_'' @ nat_str (int index + 1))))))),
         (''predicate_type'', Str (normalizeEnum (js_or (get condition ''predicate_type'') (Str (inferPredicateType operator))))),
         (''role'', Str (normalizeEnum (Str role))), (''effect'', Str effect),
         (''instrument'', Str (normalizeEnum (js_or (get condition ''instrument'') (js_or (get condition ''contract'') (get condition ''asset''))))),
         (''timeframe'', Str (normalizeEnum (js_or (get condition ''timeframe'') (get condition ''interval'')))),
         (''operator'', Str operator),
         (''threshold'', js_opt_num (numberOrNull (js_coalesce (get condition ''threshold'') (js_coalesce (get condition ''level'')
            (js_coalesce (get condition ''price'') (get condition ''value'')))))),
         (''importance'', Str importance),
         (''required_for_trigger'', Bool (effect \<noteq> ''BLOCK_IF_TRUE'' \<and>
            (get condition ''required_for_trigger'' = Bool True \<or> importance = ''MANDATORY'' \<or> normalizeEnum (Str role) = ''ACTIVATION''))),
         (''memory_policy'', Str (normalizeMemoryPolicy (get condition ''memory_policy'') effect (normalizeEnum (Str role)))),
         (''tolerance_points'', Num (jmax (Fin 0)
            (case numberOrNull (js_coalesce (get condition ''tolerance_points'') (get condition ''tolerance'')) of Some n \<Rightarrow> n | None \<Rightarrow> Fin 0))),
         (''weight'', Num (jmax (Fin 0)
            (case numberOrNull (get condition ''weight'') of Some n \<Rightarrow> n | None \<Rightarrow> defaultWeight importance))),
         (''sequence'', js_opt_num (positiveIntegerOrNull (get condition ''sequence''))),
         (''max_bars'', js_opt_num (positiveIntegerOrNull (js_coalesce (get condition ''max_bars'')
            (get (get condition ''temporal_rule'') ''max_bars''))))]))"

text \<open>Reads of a normalized condition.\<close>

definition cd_text :: "jsval \<Rightarrow> string \<Rightarrow> string" where
  "cd_text condition k = to_str (get condition k)"

definition cd_threshold :: "jsval \<Rightarrow> jnum option" where
  "cd_threshold condition = numberOrNull (get condition ''threshold'')"

definition cd_tolerance :: "jsval \<Rightarrow> jnum" where
  "cd_tolerance condition = to_num (get condition ''tolerance_points'')"

definition cd_field :: "jsval \<Rightarrow> string" where
  "cd_field condition = to_str (js_or (get condition ''field'') (Str ''close''))"

section \<open>Outcomes and relations\<close>

definition match_row :: "jsval \<Rightarrow> jnum option \<Rightarrow> jsobj \<Rightarrow> jsobj" where
  "match_row row value evidence_fields = [(''matched'', Bool True), (''observed_at_paris'', rowTimestamp row),
     (''observed_value'', js_opt_num value), (''evidence'', Obj evidence_fields)]"

definition noMatch :: jsobj where
  "noMatch = [(''matched'', Bool False)]"

definition unknown :: "string \<Rightarrow> jsobj" where
  "unknown why = [(''state'', Str ''UNKNOWN''), (''matched'', Bool False), (''reason'', Str why)]"

definition operatorIsAbove :: "string \<Rightarrow> bool" where
  "operatorIsAbove operator \<longleftrightarrow> str_includes (normalizeEnum (Str operator)) ''ABOVE''
     \<or> to_upper (trim operator) \<in> {''>'', ''GT'', ''GTE'', ''>=''}"

definition operatorIsBelow :: "string \<Rightarrow> bool" where
  "operatorIsBelow operator \<longleftrightarrow> str_includes (normalizeEnum (Str operator)) ''BELOW''
     \<or> to_upper (trim operator) \<in> {''<'', ''LT'', ''LTE'', ''<=''}"

definition relationMatches :: "jnum option \<Rightarrow> jnum option \<Rightarrow> string \<Rightarrow> jnum \<Rightarrow> bool" where
  "relationMatches value threshold operator tolerance =
     (case (value, threshold) of
        (Some v, Some t) \<Rightarrow>
          if operatorIsAbove operator then jle (jsub t tolerance) v
          else if operatorIsBelow operator then jle v (jadd t tolerance)
          else if str_includes operator ''EQUAL'' \<or> str_includes operator ''NEAR'' then jle (jabs (jsub v t)) tolerance
          else False
      | _ \<Rightarrow> False)"

definition sequenceDirection :: "jsval \<Rightarrow> string" where
  "sequenceDirection condition =
     (let explicit = normalizeEnum (js_or (get condition ''sequence_direction'') (js_or (get condition ''break_direction'')
            (get condition ''direction'')))
      in if explicit \<in> {''ABOVE'', ''LONG'', ''UP'', ''BULLISH''} then ''ABOVE''
         else if explicit \<in> {''BELOW'', ''SHORT'', ''DOWN'', ''BEARISH''} then ''BELOW''
         else if operatorIsBelow (cd_text condition ''operator'') then ''BELOW'' else ''ABOVE'')"

definition rejectionDirection :: "jsval \<Rightarrow> string" where
  "rejectionDirection condition =
     (let operator = normalizeEnum (get condition ''operator'')
      in if str_includes operator ''ABOVE'' \<or> str_includes operator ''RESISTANCE'' then ''ABOVE''
         else if str_includes operator ''BELOW'' \<or> str_includes operator ''SUPPORT'' then ''BELOW''
         else sequenceDirection condition)"

definition evaluateRowsByTemporalRule :: "jsval \<Rightarrow> jsval list \<Rightarrow> (jsval \<Rightarrow> bool) \<Rightarrow> jsobj" where
  "evaluateRowsByTemporalRule condition rows predicate =
     (let mode = normalizeEnum (js_or (get (get condition ''temporal_rule'') ''mode'') (Str ''LATEST_CLOSED''));
          value = (\<lambda>row. num_field row (cd_field condition))
      in if mode = ''CONSECUTIVE_CLOSED'' then
           (let count_js = positiveInteger (get (get condition ''temporal_rule'') ''count'') (Fin 1);
                wanted = (case count_js of Fin r \<Rightarrow> nat \<lfloor>r\<rfloor> | _ \<Rightarrow> 0);
                closed = filter isClosedRow rows; tail = drop (length closed - wanted) closed
            in if length tail < wanted \<or> \<not> list_all predicate tail then noMatch
               else match_row (last_row tail) (value (last_row tail)) [(''consecutive_count'', Num count_js)])
         else if mode = ''ANY_SINCE_ARM'' \<or> mode = ''CROSS_AFTER_ARM'' then
           (case List.find predicate rows of Some row \<Rightarrow> match_row row (value row) [] | None \<Rightarrow> noMatch)
         else if rows \<noteq> [] \<and> predicate (last rows) then match_row (last rows) (value (last rows)) [] else noMatch)"

section \<open>The predicates\<close>

definition evaluatePriceRelation :: "jsval \<Rightarrow> jsval list \<Rightarrow> jsobj" where
  "evaluatePriceRelation condition rows =
     (if cd_threshold condition = None then unknown ''PRICE_THRESHOLD_MISSING''
      else if \<not> list_ex (\<lambda>row. num_field row (cd_field condition) \<noteq> None) rows then unknown ''PRICE_FIELD_MISSING''
      else evaluateRowsByTemporalRule condition rows (\<lambda>row. relationMatches (num_field row (cd_field condition))
        (cd_threshold condition) (cd_text condition ''operator'') (cd_tolerance condition)))"

text \<open>The loop over consecutive rows that have the price: the first that crosses.\<close>

definition crossed :: "bool \<Rightarrow> jnum \<Rightarrow> jnum \<Rightarrow> jnum \<Rightarrow> jnum \<Rightarrow> bool" where
  "crossed up threshold tolerance previous current =
     (if up then jle previous threshold \<and> jlt (jadd threshold tolerance) current
      else jle threshold previous \<and> jlt current (jsub threshold tolerance))"

fun first_cross :: "string \<Rightarrow> (jnum \<Rightarrow> jnum \<Rightarrow> bool) \<Rightarrow> jsval list \<Rightarrow> jsobj" where
  "first_cross k crosses (a # b # rows) =
     (case (num_field a k, num_field b k) of
        (Some previous, Some current) \<Rightarrow>
          if crosses previous current then match_row b (Some current) [(''previous_value'', Num previous)]
          else first_cross k crosses (b # rows)
      | _ \<Rightarrow> first_cross k crosses (b # rows))"
| "first_cross k crosses _ = noMatch"

definition evaluatePriceCross :: "jsval \<Rightarrow> jsval list \<Rightarrow> jsobj" where
  "evaluatePriceCross condition rows =
     (case cd_threshold condition of None \<Rightarrow> unknown ''PRICE_THRESHOLD_MISSING''
      | Some threshold \<Rightarrow>
          (let numericRows = filter (\<lambda>row. num_field row (cd_field condition) \<noteq> None) rows
           in if length numericRows < 2 then unknown ''PRICE_CROSS_SERIES_INSUFFICIENT''
              else first_cross (cd_field condition)
                (crossed (operatorIsAbove (cd_text condition ''operator'')) threshold (cd_tolerance condition)) numericRows))"

definition zone_bound :: "jsval \<Rightarrow> string \<Rightarrow> string \<Rightarrow> string \<Rightarrow> jnum option" where
  "zone_bound condition near far threshold_key = numberOrNull (js_coalesce (get (get condition ''zone'') near)
     (js_coalesce (get (get condition ''zone'') far)
       (js_coalesce (get condition threshold_key) (get condition ''threshold''))))"

definition evaluateZoneTouch :: "jsval \<Rightarrow> jsval list \<Rightarrow> jsobj" where
  "evaluateZoneTouch condition rows =
     (case (zone_bound condition ''lower'' ''from'' ''lower_threshold'', zone_bound condition ''upper'' ''to'' ''upper_threshold'') of
        (Some lower, Some upper) \<Rightarrow>
          (let lowBound = jsub (jmin lower upper) (cd_tolerance condition);
               highBound = jadd (jmax lower upper) (cd_tolerance condition)
           in evaluateRowsByTemporalRule condition rows (\<lambda>row.
                case (num_field row ''high'', num_field row ''low'') of
                  (Some high, Some low) \<Rightarrow> jle lowBound high \<and> jle low highBound
                | _ \<Rightarrow> False))
      | _ \<Rightarrow> unknown ''ZONE_BOUNDS_MISSING'')"

definition evaluateBreakoutClose :: "jsval \<Rightarrow> jsval list \<Rightarrow> jsobj" where
  "evaluateBreakoutClose condition rows =
     (if cd_threshold condition = None then unknown ''BREAKOUT_LEVEL_MISSING''
      else if \<not> list_ex (\<lambda>row. isClosedRow row \<and> num_field row ''close'' \<noteq> None) rows then unknown ''CLOSED_PRICE_FIELD_MISSING''
      else evaluateRowsByTemporalRule condition rows (\<lambda>row. isClosedRow row \<and> relationMatches (num_field row ''close'')
        (cd_threshold condition) (cd_text condition ''operator'') (cd_tolerance condition)))"

definition evaluateRejectionPattern :: "jsval \<Rightarrow> jsval list \<Rightarrow> jsobj" where
  "evaluateRejectionPattern condition rows =
     (let up = (rejectionDirection condition = ''ABOVE''); tolerance = cd_tolerance condition
      in evaluateRowsByTemporalRule condition rows (\<lambda>row. isClosedRow row \<and>
           (case (num_field row ''high'', num_field row ''low'', num_field row ''close'', cd_threshold condition) of
              (Some high, Some low, Some close, Some threshold) \<Rightarrow>
                if up then jle (jsub threshold tolerance) high \<and> jle close (jadd threshold tolerance)
                else jle low (jadd threshold tolerance) \<and> jle (jsub threshold tolerance) close
            | _ \<Rightarrow> False)))"

definition vwap_reference :: "jsval \<Rightarrow> jsval \<Rightarrow> jnum option" where
  "vwap_reference condition row = numberOrNull (js_coalesce (get row (to_str (get condition ''reference_code'')))
     (js_coalesce (get row ''vwap'') (get row ''VWAP'')))"

definition evaluateVwapRelation :: "jsval \<Rightarrow> jsval list \<Rightarrow> jsobj" where
  "evaluateVwapRelation condition rows =
     (let usable = filter (\<lambda>row. num_field row ''close'' \<noteq> None \<and> vwap_reference condition row \<noteq> None) rows
      in if usable = [] then unknown ''VWAP_VALUE_MISSING''
         else evaluateRowsByTemporalRule condition usable (\<lambda>row. relationMatches (num_field row ''close'')
           (vwap_reference condition row) (cd_text condition ''operator'') (cd_tolerance condition)))"

definition rsi_value :: "jsval \<Rightarrow> jnum option" where
  "rsi_value row = numberOrNull (js_coalesce (get row ''rsi'') (get row ''RSI''))"

definition evaluateRsiThreshold :: "jsval \<Rightarrow> jsval list \<Rightarrow> jsobj" where
  "evaluateRsiThreshold condition rows =
     (if cd_threshold condition = None then unknown ''RSI_THRESHOLD_MISSING''
      else let usable = filter (\<lambda>row. rsi_value row \<noteq> None) rows
        in if usable = [] then unknown ''RSI_VALUE_MISSING''
           else evaluateRowsByTemporalRule condition usable (\<lambda>row. relationMatches (rsi_value row)
             (cd_threshold condition) (cd_text condition ''operator'') (cd_tolerance condition)))"

definition evaluateIntermarketConfirmation :: "jsval \<Rightarrow> jsval list \<Rightarrow> jsobj" where
  "evaluateIntermarketConfirmation condition rows =
     (let usable = filter (\<lambda>row. num_field row ''alignment_score'' \<noteq> None) rows
      in if usable = [] then unknown ''INTERMARKET_M1_ALIGNMENT_UNAVAILABLE''
         else let evaluation = evaluateRowsByTemporalRule condition usable (\<lambda>row. relationMatches (num_field row ''alignment_score'')
                (cd_threshold condition) (cd_text condition ''operator'') (cd_tolerance condition))
           in if fget evaluation ''matched'' \<noteq> Bool True then evaluation
              else let matchedRow = (case List.find (\<lambda>row. strict_eq (rowTimestamp row) (fget evaluation ''observed_at_paris'')) usable of
                     Some row \<Rightarrow> row | None \<Rightarrow> last_row usable)
                in spread evaluation [(''evidence'', Obj (spread (obj_or_empty (fget evaluation ''evidence''))
                     [(''alignment_lineage'', js_or (get matchedRow ''alignment_lineage'') Null)]))])"

definition num_or :: "jsval \<Rightarrow> jnum \<Rightarrow> jnum" where
  "num_or v d = (case numberOrNull v of Some n \<Rightarrow> n | None \<Rightarrow> d)"

definition event_matches :: "host \<Rightarrow> int \<Rightarrow> jnum \<Rightarrow> jnum \<Rightarrow> jsval \<Rightarrow> bool" where
  "event_matches H referenceMs beforeMinutes afterMinutes ev =
     (let startMs = parseTimestamp H (js_or (get ev ''window_start_paris'') (js_or (get ev ''blackout_start_paris'') (get ev ''start_paris'')));
          endMs = parseTimestamp H (js_or (get ev ''window_end_paris'') (js_or (get ev ''blackout_end_paris'') (get ev ''end_paris'')));
          reference = Fin (of_int referenceMs)
      in case (startMs, endMs) of
           (Some s, Some e) \<Rightarrow> s \<le> referenceMs \<and> referenceMs \<le> e
         | _ \<Rightarrow>
             (case parseTimestamp H (js_or (get ev ''scheduled_at_paris'') (js_or (get ev ''timestamp_paris'') (get ev ''time_paris''))) of
                None \<Rightarrow> False
              | Some eventMs \<Rightarrow> jle (jsub (Fin (of_int eventMs)) (jmul beforeMinutes (Fin 60000))) reference
                  \<and> jle reference (jadd (Fin (of_int eventMs)) (jmul afterMinutes (Fin 60000)))))"

definition event_id :: "jsval \<Rightarrow> string" where
  "event_id ev = trim (str_or_empty (js_or (get ev ''event_window_ref'') (js_or (get ev ''event_window_id'')
     (js_or (get ev ''event_id'') (get ev ''id'')))))"

definition evaluateEventBlackout :: "host \<Rightarrow> jsval \<Rightarrow> jsval list \<Rightarrow> jsobj" where
  "evaluateEventBlackout H condition rows =
     (case parseTimestamp H (js_or (get condition ''reference_time_paris'') (get condition ''evaluation_time_paris'')) of
        None \<Rightarrow> unknown ''EVENT_REFERENCE_TIME_MISSING''
      | Some referenceMs \<Rightarrow>
          (let referenceId = trim (str_or_empty (get condition ''event_window_ref'')) in
           if referenceId = [] then unknown ''EVENT_WINDOW_REFERENCE_MISSING''
           else let candidates = filter (\<lambda>ev. isReservedMacroEventRow ev \<and> event_id ev = referenceId) rows in
             if candidates = [] then unknown ''EVENT_WINDOW_UNAVAILABLE''
             else let found = List.find (event_matches H referenceMs (num_or (get condition ''before_minutes'') (Fin 0))
                    (num_or (get condition ''after_minutes'') (Fin 0))) candidates;
                  ref = [(''event_window_ref'', Str referenceId)]
               in if normalizeEnum (get condition ''operator'') = ''EVENT_CLEAR''
                  then (case found of Some _ \<Rightarrow> noMatch | None \<Rightarrow> match_row (last_row candidates) None ref)
                  else (case found of Some ev \<Rightarrow> match_row ev None ref | None \<Rightarrow> noMatch)))"

section \<open>Windows of time in Paris\<close>

definition ymd_shape :: "string \<Rightarrow> bool" where
  "ymd_shape s \<longleftrightarrow> length s = 10 \<and> list_all is_digit (take 4 s) \<and> s ! 4 = CHR ''-''
     \<and> list_all is_digit (take 2 (drop 5 s)) \<and> s ! 7 = CHR ''-'' \<and> list_all is_digit (drop 8 s)"

definition isTimeOfDay :: "jsval \<Rightarrow> bool" where
  "isTimeOfDay value =
     (let s = str_or_empty value
      in (length s = 5 \<or> length s = 8 \<and> s ! 5 = CHR '':'' \<and> list_all is_digit (drop 6 s))
         \<and> list_all is_digit (take 2 s) \<and> s ! 2 = CHR '':'' \<and> list_all is_digit (take 2 (drop 3 s)))"

definition localDatePart :: "jsval \<Rightarrow> jsval" where
  "localDatePart value =
     (let s = take 10 (str_or_empty value) in if ymd_shape s then Str s else Null)"

text \<open>\<open>Date.UTC(year, month - 1, day, hour, minute, second)\<close>: years below 100 are of the 20th century.\<close>

definition date_utc :: "int \<Rightarrow> int \<Rightarrow> int \<Rightarrow> int \<Rightarrow> int \<Rightarrow> int \<Rightarrow> int" where
  "date_utc y month d h m s =
     (let year = (if 0 \<le> y \<and> y \<le> 99 then 1900 + y else y)
      in make_day (year + (month - 1) div 12) ((month - 1) mod 12 + 1) d * ms_per_day + h * 3600000 + m * 60000 + s * 1000)"

text \<open>
  Three corrections towards the instant whose wall clock in Paris shows the target (\<open>parisDateTimeParts\<close> reads
  the wall clock).
\<close>

fun paris_candidate :: "host \<Rightarrow> int \<Rightarrow> nat \<Rightarrow> int \<Rightarrow> int" where
  "paris_candidate H targetUtc 0 candidate = candidate"
| "paris_candidate H targetUtc (Suc n) candidate =
     paris_candidate H targetUtc n (candidate + (targetUtc - paris_wall H candidate))"

definition parisLocalToEpochMs :: "host \<Rightarrow> int \<Rightarrow> int \<Rightarrow> int \<Rightarrow> int \<Rightarrow> int \<Rightarrow> int \<Rightarrow> int" where
  "parisLocalToEpochMs H y month d h m s =
     (let targetUtc = date_utc y month d h m s in paris_candidate H targetUtc 3 targetUtc)"

text \<open>
  A time of day needs a date; a date that is not a string is an array of one, of which the digits are not found.
\<close>

definition parseParisWindowBoundary :: "host \<Rightarrow> jsval \<Rightarrow> jsval \<Rightarrow> int option" where
  "parseParisWindowBoundary H value tradingDate =
     (if \<not> truthy value then None
      else if \<not> isTimeOfDay value then parseTimestamp H value
      else case tradingDate of
          Str d \<Rightarrow> if \<not> ymd_shape d then None
            else (let t = to_str value; sec = (if length t = 8 then digits_val 10 (drop 6 t) else 0)
              in Some (parisLocalToEpochMs H (digits_val 10 (take 4 d)) (digits_val 10 (take 2 (drop 5 d)))
                   (digits_val 10 (drop 8 d)) (digits_val 10 (take 2 t)) (digits_val 10 (take 2 (drop 3 t))) sec))
        | _ \<Rightarrow> None)"

text \<open>\<open>addUtcDate(date, 1)\<close>: \<open>toISOString\<close> throws for a date of the right shape that does not exist.\<close>

definition addUtcDate :: "host \<Rightarrow> jsval \<Rightarrow> js_error + jsval" where
  "addUtcDate H date =
     (if \<not> ymd_shape (str_or_empty date) then Inr Null
      else case date_parse H (to_str date @ ''T00:00:00Z'') of
          None \<Rightarrow> Inl (RangeError ''Invalid time value'')
        | Some epochMs \<Rightarrow> (case to_iso (epochMs + 86400000) of
              None \<Rightarrow> Inl (RangeError ''Invalid time value'') | Some s \<Rightarrow> Inr (Str (take 10 s))))"

definition in_window :: "host \<Rightarrow> int \<Rightarrow> int option \<Rightarrow> jsval \<Rightarrow> bool" where
  "in_window H startMs endMs row = (case row_ms H row of None \<Rightarrow> False
     | Some t \<Rightarrow> startMs \<le> t \<and> t < (case endMs of Some e \<Rightarrow> e | None \<Rightarrow> 0))"

definition evaluateTimeWindow :: "host \<Rightarrow> jsval \<Rightarrow> jsval list \<Rightarrow> js_error + jsobj" where
  "evaluateTimeWindow H condition rows =
     (let referenceValue = js_or (get condition ''reference_time_paris'') (rowTimestamp (last_row rows));
          tradingDate = js_or (get condition ''trading_date'') (localDatePart referenceValue);
          startValue = js_or (get (get condition ''window'') ''start_paris'') (get condition ''start_paris'');
          endValue = js_or (get (get condition ''window'') ''end_paris'') (get condition ''end_paris'');
          outside = (normalizeEnum (get condition ''operator'') = ''OUTSIDE_WINDOW'')
      in case (parseParisWindowBoundary H startValue tradingDate, parseParisWindowBoundary H endValue tradingDate) of
           (Some startMs, Some endMs) \<Rightarrow>
             and_then (if endMs \<le> startMs \<and> isTimeOfDay endValue
                 then and_then (addUtcDate H tradingDate) (\<lambda>next_day. Inr (parseParisWindowBoundary H endValue next_day))
                 else Inr (Some endMs))
               (\<lambda>closing. Inr (evaluateRowsByTemporalRule condition rows
                  (\<lambda>row. if outside then \<not> in_window H startMs closing row else in_window H startMs closing row)))
         | _ \<Rightarrow> Inr (unknown ''TIME_WINDOW_MISSING''))"

end
