(* ===== verification/Break_Retest.thy ===== *)
theory Break_Retest
  imports Predicate_Conditions
begin

text \<open>
  The predicate with a memory, \<open>evaluateBreakRetestSequence\<close> of \<open>deterministic-predicate-registry-v1.js\<close>: a level is
  broken on a closing price, touched again within a number of bars, and rejected on a closing price. The machine
  waits for the break, for the retest and, once touched, for the rejection; its state is saved in the result of
  an evaluation and read back by the next one. Shown: what an outcome says about the rows, and that an evaluation
  in two steps, through the saved state, gives what one evaluation of all rows gives.
\<close>

section \<open>Parameters and state\<close>

record seq_params =
  sp_up :: bool
  sp_break :: jnum
  sp_retest :: jnum
  sp_tolerance :: jnum
  sp_break_tolerance :: jnum
  sp_max_bars :: jnum
  sp_reject :: bool
  sp_break_id :: jsval

definition seq_params_of :: "jsval \<Rightarrow> jsobj + seq_params" where
  "seq_params_of condition =
     (case numberOrNull (js_coalesce (get condition ''break_threshold'') (get condition ''threshold'')) of
        None \<Rightarrow> Inl (unknown ''BREAK_LEVEL_MISSING'')
      | Some breakThreshold \<Rightarrow>
     (case numberOrNull (js_coalesce (get condition ''retest_level'') (get condition ''threshold'')) of
        None \<Rightarrow> Inl (unknown ''RETEST_LEVEL_MISSING'')
      | Some retestThreshold \<Rightarrow>
          if \<not> truthy (get condition ''break_condition_id'') then Inl (unknown ''BREAK_CONDITION_ID_MISSING'')
          else Inr \<lparr>sp_up = (sequenceDirection condition = ''ABOVE''), sp_break = breakThreshold, sp_retest = retestThreshold,
            sp_tolerance = cd_tolerance condition,
            sp_break_tolerance = jmax (Fin 0) (num_or (get condition ''break_tolerance_points'') (Fin 0)),
            sp_max_bars = positiveInteger (get condition ''max_bars'') (Fin 12),
            sp_reject = (get condition ''require_rejection_confirmation'' \<noteq> Bool False),
            sp_break_id = get condition ''break_condition_id''\<rparr>))"

record seq_state =
  sq_machine :: string
  sq_break_at :: jsval
  sq_break_index :: jsval
  sq_bars :: jnum
  sq_retest_at :: jsval

definition seq_state_of :: "jsval \<Rightarrow> seq_state" where
  "seq_state_of previousState =
     \<lparr>sq_machine = normalizeEnum (js_or (get previousState ''machine_state'') (Str ''WAITING_BREAK'')),
      sq_break_at = js_or (get previousState ''break_at_paris'') Null,
      sq_break_index = (case get previousState ''break_row_index'' of Num n \<Rightarrow> if is_integer n then Num n else Null | _ \<Rightarrow> Null),
      sq_bars = num_or_zero (get previousState ''bars_since_break''),
      sq_retest_at = js_or (get previousState ''retest_at_paris'') Null\<rparr>"

section \<open>The rows that are new\<close>

text \<open>\<open>parseTimestamp(rowTimestamp(row)) ?? 0\<close>\<close>

definition ms_of_row :: "host \<Rightarrow> jsval \<Rightarrow> int" where
  "ms_of_row H row = (case row_ms H row of Some t \<Rightarrow> t | None \<Rightarrow> 0)"

definition complete_row :: "jsval \<Rightarrow> bool" where
  "complete_row row \<longleftrightarrow> isClosedRow row \<and> list_all (\<lambda>k. num_field row k \<noteq> None) [''open'', ''high'', ''low'', ''close'']"

text \<open>The later of the break and the last evaluation, once the machine has moved (minus infinity is \<open>None\<close>).\<close>

definition causalCursorMs :: "host \<Rightarrow> jsval \<Rightarrow> seq_state \<Rightarrow> int option" where
  "causalCursorMs H previousState st =
     (let breakAtMs = parseTimestamp H (sq_break_at st);
          lastEvaluatedAtMs = parseTimestamp H (get previousState ''last_evaluated_at_paris'')
      in if sq_machine st = ''WAITING_BREAK'' \<and> breakAtMs = None then None
         else case (breakAtMs, lastEvaluatedAtMs) of
             (Some b, Some l) \<Rightarrow> Some (max b l) | (Some b, None) \<Rightarrow> Some b | (None, l) \<Rightarrow> l)"

fun causal_rows :: "host \<Rightarrow> int option \<Rightarrow> int set \<Rightarrow> jsval list \<Rightarrow> jsval list" where
  "causal_rows H cursor seen [] = []"
| "causal_rows H cursor seen (row # rows) =
     (if \<not> complete_row row then causal_rows H cursor seen rows
      else case row_ms H row of
          None \<Rightarrow> causal_rows H cursor seen rows
        | Some t \<Rightarrow>
            if (case cursor of Some c \<Rightarrow> t \<le> c | None \<Rightarrow> False) \<or> t \<in> seen then causal_rows H cursor seen rows
            else row # causal_rows H cursor (insert t seen) rows)"

section \<open>The machine\<close>

definition broke :: "seq_params \<Rightarrow> jnum \<Rightarrow> bool" where
  "broke P close = (if sp_up P then jlt (jadd (sp_break P) (sp_break_tolerance P)) close
     else jlt close (jsub (sp_break P) (sp_break_tolerance P)))"

definition touched :: "seq_params \<Rightarrow> jnum \<Rightarrow> jnum \<Rightarrow> bool" where
  "touched P high low \<longleftrightarrow> jle low (jadd (sp_retest P) (sp_tolerance P)) \<and> jle (jsub (sp_retest P) (sp_tolerance P)) high"

definition rejects :: "seq_params \<Rightarrow> jnum \<Rightarrow> bool" where
  "rejects P close = (if sp_up P then jle (sp_retest P) close else jle close (sp_retest P))"

text \<open>
  Why the loop returns before the end of the rows: too many bars before the retest or before the rejection; the
  bar that touched closed as required; a later bar did.
\<close>

datatype seq_exit = Retest_Window_Exceeded | Rejection_Window_Exceeded | Confirmed_On_Touch | Confirmed_Later

text \<open>\<open>currentBreakMs !== null && (rowMs === null || rowMs <= currentBreakMs)\<close>\<close>

definition not_after_break :: "host \<Rightarrow> seq_state \<Rightarrow> jsval \<Rightarrow> bool" where
  "not_after_break H st row = (case parseTimestamp H (sq_break_at st) of None \<Rightarrow> False
     | Some b \<Rightarrow> (case row_ms H row of None \<Rightarrow> True | Some t \<Rightarrow> t \<le> b))"

definition seq_step :: "host \<Rightarrow> seq_params \<Rightarrow> nat \<Rightarrow> jsval \<Rightarrow> seq_state \<Rightarrow> seq_state \<times> seq_exit option" where
  "seq_step H P index row st =
     (case (num_field row ''close'', num_field row ''high'', num_field row ''low'') of
        (Some close, Some high, Some low) \<Rightarrow>
          if \<not> isClosedRow row then (st, None)
          else if sq_machine st = ''WAITING_BREAK'' then
            (if \<not> broke P close then (st, None)
             else (st\<lparr>sq_machine := ''WAITING_RETEST'', sq_break_at := rowTimestamp row,
                      sq_break_index := Num (Fin (of_nat index)), sq_bars := Fin 0\<rparr>, None))
          else if sq_machine st \<in> {''BREAK_CONFIRMED'', ''WAITING_RETEST''} then
            (if not_after_break H st row then (st, None)
             else let st1 = st\<lparr>sq_bars := jadd (sq_bars st) (Fin 1)\<rparr> in
               if jlt (sp_max_bars P) (sq_bars st1) then (st1, Some Retest_Window_Exceeded)
               else if \<not> touched P high low then (st1, None)
               else let st2 = st1\<lparr>sq_machine := ''RETEST_TOUCHED'', sq_retest_at := rowTimestamp row\<rparr> in
                 if sp_reject P \<and> \<not> rejects P close then (st2, None) else (st2, Some Confirmed_On_Touch))
          else if sq_machine st = ''RETEST_TOUCHED'' then
            (if not_after_break H st row then (st, None)
             else let st1 = st\<lparr>sq_bars := jadd (sq_bars st) (Fin 1)\<rparr> in
               if jlt (sp_max_bars P) (sq_bars st1) then (st1, Some Rejection_Window_Exceeded)
               else if \<not> rejects P close then (st1, None) else (st1, Some Confirmed_Later))
          else (st, None)
      | _ \<Rightarrow> (st, None))"

text \<open>The loop: the state when it ends, and the exit with its row if it returns from inside.\<close>

fun seq_run :: "host \<Rightarrow> seq_params \<Rightarrow> nat \<Rightarrow> jsval list \<Rightarrow> seq_state \<Rightarrow> seq_state \<times> (seq_exit \<times> jsval) option" where
  "seq_run H P index [] st = (st, None)"
| "seq_run H P index (row # rows) st =
     (case seq_step H P index row st of
        (st', Some e) \<Rightarrow> (st', Some (e, row))
      | (st', None) \<Rightarrow> seq_run H P (Suc index) rows st')"

section \<open>The result\<close>

definition sp_direction :: "seq_params \<Rightarrow> jsval" where
  "sp_direction P = Str (if sp_up P then ''ABOVE'' else ''BELOW'')"

definition exit_result :: "seq_params \<Rightarrow> seq_state \<Rightarrow> seq_exit \<Rightarrow> jsval \<Rightarrow> jsobj" where
  "exit_result P st e row =
     (let break_fields = [(''break_at_paris'', sq_break_at st), (''break_row_index'', sq_break_index st)];
          close = js_opt_num (num_field row ''close'')
      in case e of
           Retest_Window_Exceeded \<Rightarrow>
             [(''state'', Str ''FAILED''), (''matched'', Bool False), (''machine_state'', Str ''FAILED_MAX_BARS''),
              (''reason'', Str ''RETEST_WINDOW_EXCEEDED'')] @ break_fields @
             [(''bars_since_break'', Num (sq_bars st)),
              (''evidence'', Obj [(''break_condition_id'', sp_break_id P), (''max_bars'', Num (sp_max_bars P))])]
         | Rejection_Window_Exceeded \<Rightarrow>
             [(''state'', Str ''FAILED''), (''matched'', Bool False), (''machine_state'', Str ''FAILED_MAX_BARS''),
              (''reason'', Str ''REJECTION_WINDOW_EXCEEDED''), (''break_at_paris'', sq_break_at st),
              (''retest_at_paris'', sq_retest_at st), (''bars_since_break'', Num (sq_bars st))]
         | Confirmed_On_Touch \<Rightarrow>
             [(''state'', Str ''SATISFIED''), (''matched'', Bool True), (''machine_state'', Str ''SATISFIED''),
              (''reason'', Str (if sp_reject P then ''BREAK_RETEST_REJECTION_CONFIRMED'' else ''BREAK_RETEST_CONFIRMED'')),
              (''observed_at_paris'', rowTimestamp row), (''observed_value'', close)] @ break_fields @
             [(''retest_at_paris'', sq_retest_at st), (''bars_since_break'', Num (sq_bars st)),
              (''evidence'', Obj [(''break_condition_id'', sp_break_id P), (''direction'', sp_direction P),
                 (''break_threshold'', Num (sp_break P)), (''break_tolerance_points'', Num (sp_break_tolerance P)),
                 (''retest_level'', Num (sp_retest P)), (''tolerance_points'', Num (sp_tolerance P)),
                 (''max_bars'', Num (sp_max_bars P)), (''rejection_required'', Bool (sp_reject P)),
                 (''rejection_confirmed_on_closed_bar'', if sp_reject P then Bool True else Null)])]
         | Confirmed_Later \<Rightarrow>
             [(''state'', Str ''SATISFIED''), (''matched'', Bool True), (''machine_state'', Str ''SATISFIED''),
              (''reason'', Str ''BREAK_RETEST_REJECTION_CONFIRMED''), (''observed_at_paris'', rowTimestamp row),
              (''observed_value'', close), (''break_at_paris'', sq_break_at st), (''retest_at_paris'', sq_retest_at st),
              (''bars_since_break'', Num (sq_bars st)),
              (''evidence'', Obj [(''break_condition_id'', sp_break_id P), (''direction'', sp_direction P),
                 (''break_threshold'', Num (sp_break P)), (''retest_level'', Num (sp_retest P)),
                 (''tolerance_points'', Num (sp_tolerance P)), (''max_bars'', Num (sp_max_bars P)),
                 (''rejection_confirmed_on_closed_bar'', Bool True)])])"

definition pending_result :: "seq_params \<Rightarrow> seq_state \<Rightarrow> jsobj" where
  "pending_result P st =
     [(''state'', Str ''PENDING''), (''matched'', Bool False), (''machine_state'', Str (sq_machine st)),
      (''reason'', Str (if sq_machine st = ''WAITING_BREAK'' then ''WAITING_BREAK'' else ''WAITING_RETEST_OR_REJECTION'')),
      (''break_at_paris'', sq_break_at st), (''break_row_index'', sq_break_index st), (''retest_at_paris'', sq_retest_at st),
      (''bars_since_break'', Num (sq_bars st)),
      (''evidence'', Obj [(''break_condition_id'', sp_break_id P), (''direction'', sp_direction P),
         (''break_threshold'', Num (sp_break P)), (''break_tolerance_points'', Num (sp_break_tolerance P)),
         (''retest_level'', Num (sp_retest P)), (''tolerance_points'', Num (sp_tolerance P)), (''max_bars'', Num (sp_max_bars P))])]"

definition latched_failure :: "seq_params \<Rightarrow> jsval \<Rightarrow> seq_state \<Rightarrow> jsobj" where
  "latched_failure P previousState st =
     [(''state'', Str ''FAILED''), (''matched'', Bool False), (''machine_state'', Str (sq_machine st)),
      (''reason'', js_or (get previousState ''reason'') (Str ''RETEST_WINDOW_EXCEEDED'')),
      (''break_at_paris'', sq_break_at st), (''break_row_index'', sq_break_index st), (''retest_at_paris'', sq_retest_at st),
      (''bars_since_break'', Num (sq_bars st)),
      (''evidence'', js_or (get previousState ''evidence'')
         (Obj [(''break_condition_id'', sp_break_id P), (''max_bars'', Num (sp_max_bars P))]))]"

definition evaluateBreakRetestSequence :: "host \<Rightarrow> jsval \<Rightarrow> jsval list \<Rightarrow> jsval \<Rightarrow> jsobj" where
  "evaluateBreakRetestSequence H condition rows previousState =
     (case seq_params_of condition of Inl missing \<Rightarrow> missing
      | Inr P \<Rightarrow>
          (let st = seq_state_of previousState in
           if get previousState ''state'' = Str ''FAILED'' \<and> sq_machine st = ''FAILED_MAX_BARS''
           then latched_failure P previousState st
           else case seq_run H P 0 (causal_rows H (causalCursorMs H previousState st) {} rows) st of
               (st', Some (e, row)) \<Rightarrow> exit_result P st' e row
             | (st', None) \<Rightarrow> pending_result P st'))"

section \<open>Facts\<close>

subsection \<open>Rows in order\<close>

definition bars_in_order :: "host \<Rightarrow> jsval list \<Rightarrow> bool" where
  "bars_in_order H rows \<longleftrightarrow> list_all (\<lambda>row. complete_row row \<and> row_ms H row \<noteq> None) rows
     \<and> sorted_wrt (\<lambda>a b. ms_of_row H a < ms_of_row H b) rows"

lemma bars_in_order_simps [simp]:
  "bars_in_order H []"
  "bars_in_order H (row # rows) \<longleftrightarrow> complete_row row \<and> row_ms H row \<noteq> None
     \<and> (\<forall>r \<in> set rows. ms_of_row H row < ms_of_row H r) \<and> bars_in_order H rows"
  by (auto simp: bars_in_order_def)

lemma bars_in_order_append:
  "bars_in_order H (xs @ ys) \<longleftrightarrow> bars_in_order H xs \<and> bars_in_order H ys
     \<and> (\<forall>x \<in> set xs. \<forall>y \<in> set ys. ms_of_row H x < ms_of_row H y)"
  by (auto simp: bars_in_order_def sorted_wrt_append)

lemma bars_in_order_ms: "bars_in_order H rows \<Longrightarrow> row \<in> set rows \<Longrightarrow> row_ms H row = Some (ms_of_row H row)"
  by (auto simp: bars_in_order_def list_all_iff ms_of_row_def split: option.splits)

text \<open>Rows in order and after the cursor are all seen.\<close>

lemma causal_rows_all:
  assumes "bars_in_order H rows" and "\<And>c row. cursor = Some c \<Longrightarrow> row \<in> set rows \<Longrightarrow> c < ms_of_row H row"
    and "\<And>t row. t \<in> seen \<Longrightarrow> row \<in> set rows \<Longrightarrow> t < ms_of_row H row"
  shows "causal_rows H cursor seen rows = rows"
  using assms
proof (induction rows arbitrary: seen)
  case (Cons row rows)
  have t: "row_ms H row = Some (ms_of_row H row)" using Cons.prems(1) bars_in_order_ms[of H "row # rows" row] by simp
  have "causal_rows H cursor (insert (ms_of_row H row) seen) rows = rows"
    using Cons.prems by (intro Cons.IH) auto
  moreover have "ms_of_row H row \<notin> seen" using Cons.prems(3)[of "ms_of_row H row" row] by auto
  moreover have "\<not> (case cursor of Some c \<Rightarrow> ms_of_row H row \<le> c | None \<Rightarrow> False)"
    using Cons.prems(2)[of _ row] by (auto simp: not_le split: option.split)
  ultimately show ?case using Cons.prems(1) t by simp
qed simp

subsection \<open>A run in two parts\<close>

lemma seq_run_append:
  "seq_run H P i (xs @ ys) st = (case seq_run H P i xs st of
     (st', None) \<Rightarrow> seq_run H P (i + length xs) ys st' | (st', Some e) \<Rightarrow> (st', Some e))"
  by (induction xs arbitrary: i st) (auto split: prod.splits option.splits)

text \<open>The index of the break is recorded and never read.\<close>

definition forget :: "seq_state \<Rightarrow> seq_state" where
  "forget st = st\<lparr>sq_break_index := Null\<rparr>"

lemma forget_simps [simp]:
  "sq_machine (forget st) = sq_machine st" "sq_break_at (forget st) = sq_break_at st" "sq_bars (forget st) = sq_bars st"
  "sq_retest_at (forget st) = sq_retest_at st" "forget (forget st) = forget st"
  "forget (st\<lparr>sq_break_index := v\<rparr>) = forget st"
  by (simp_all add: forget_def)

lemma seq_step_forget:
  assumes "forget st = forget st'"
  shows "map_prod forget id (seq_step H P i row st) = map_prod forget id (seq_step H P j row st')"
proof -
  have same: "sq_machine st = sq_machine st'" "sq_break_at st = sq_break_at st'" "sq_bars st = sq_bars st'" "sq_retest_at st = sq_retest_at st'"
    using assms by (cases st; cases st'; simp add: forget_def)+
  then have "not_after_break H st row = not_after_break H st' row" by (simp add: not_after_break_def)
  then show ?thesis
    using same assms by (cases st; cases st'; simp add: seq_step_def Let_def forget_def split: option.split)
qed

lemma seq_run_forget:
  "forget st = forget st' \<Longrightarrow> map_prod forget id (seq_run H P i rows st) = map_prod forget id (seq_run H P j rows st')"
proof (induction rows arbitrary: i j st st')
  case (Cons row rows)
  obtain s e s' e' where steps: "seq_step H P i row st = (s, e)" "seq_step H P j row st' = (s', e')" by fastforce
  then have "forget s = forget s'" "e = e'" using seq_step_forget[OF Cons.prems, of H P i row j] by auto
  then show ?case using Cons.IH[of s s' "Suc i" "Suc j"] steps by (cases e') auto
qed simp

subsection \<open>Along a run\<close>

text \<open>A property of the state that every step keeps holds when a run ends, and held at the row of its exit.\<close>

lemma seq_run_invariant:
  assumes "\<And>k st st'. k < length rows \<Longrightarrow> I k st \<Longrightarrow> seq_step H P k (rows ! k) st = (st', None) \<Longrightarrow> I (Suc k) st'"
    and "I n st" and "n \<le> length rows"
  shows "case seq_run H P n (drop n rows) st of
     (st', None) \<Rightarrow> I (length rows) st'
   | (st', Some (e, row)) \<Rightarrow> \<exists>k st0. n \<le> k \<and> k < length rows \<and> row = rows ! k \<and> I k st0 \<and> seq_step H P k row st0 = (st', Some e)"
  using assms(2,3)
proof (induction "length rows - n" arbitrary: n st)
  case 0
  then show ?case by simp
next
  case (Suc d)
  then have n: "n < length rows" by linarith
  then have drop: "drop n rows = rows ! n # drop (Suc n) rows" by (simp add: Cons_nth_drop_Suc)
  obtain st' e where step: "seq_step H P n (rows ! n) st = (st', e)" by fastforce
  show ?case
  proof (cases e)
    case None
    then have inv: "I (Suc n) st'" using assms(1)[OF n] Suc.prems(1) step by simp
    have "d = length rows - Suc n" using Suc.hyps(2) by linarith
    note Suc.hyps(1)[OF this inv Suc_leI[OF n]]
    then show ?thesis
      using step None by (auto simp: drop split: prod.splits option.splits dest: Suc_leD)
  next
    case (Some x)
    then show ?thesis using step Suc.prems(1) n by (auto simp: drop)
  qed
qed

text \<open>The prices of a complete row.\<close>

definition close_of :: "jsval \<Rightarrow> jnum" where
  "close_of row = (case num_field row ''close'' of Some n \<Rightarrow> n | None \<Rightarrow> NaN)"

definition touches :: "seq_params \<Rightarrow> jsval \<Rightarrow> bool" where
  "touches P row = (case (num_field row ''high'', num_field row ''low'') of (Some high, Some low) \<Rightarrow> touched P high low | _ \<Rightarrow> False)"

definition within_bars :: "seq_params \<Rightarrow> nat \<Rightarrow> bool" where
  "within_bars P n \<longleftrightarrow> \<not> jlt (sp_max_bars P) (Fin (of_nat n))"

lemma within_bars_mono: "within_bars P n \<Longrightarrow> m \<le> n \<Longrightarrow> within_bars P m"
  by (cases "sp_max_bars P") (auto simp: within_bars_def not_less intro: order_trans)

lemma complete_row_fields:
  assumes "complete_row row"
  obtains high low where "num_field row ''close'' = Some (close_of row)" "num_field row ''high'' = Some high"
    "num_field row ''low'' = Some low" "isClosedRow row" "\<And>P. touches P row = touched P high low"
  using assms by (auto simp: complete_row_def close_of_def touches_def)

lemma seq_step_complete:
  assumes "complete_row row"
  shows "seq_step H P index row st =
    (if sq_machine st = ''WAITING_BREAK'' then
       (if \<not> broke P (close_of row) then (st, None)
        else (st\<lparr>sq_machine := ''WAITING_RETEST'', sq_break_at := rowTimestamp row,
                 sq_break_index := Num (Fin (of_nat index)), sq_bars := Fin 0\<rparr>, None))
     else if sq_machine st \<in> {''BREAK_CONFIRMED'', ''WAITING_RETEST''} then
       (if not_after_break H st row then (st, None)
        else let st1 = st\<lparr>sq_bars := jadd (sq_bars st) (Fin 1)\<rparr> in
          if jlt (sp_max_bars P) (sq_bars st1) then (st1, Some Retest_Window_Exceeded)
          else if \<not> touches P row then (st1, None)
          else let st2 = st1\<lparr>sq_machine := ''RETEST_TOUCHED'', sq_retest_at := rowTimestamp row\<rparr> in
            if sp_reject P \<and> \<not> rejects P (close_of row) then (st2, None) else (st2, Some Confirmed_On_Touch))
     else if sq_machine st = ''RETEST_TOUCHED'' then
       (if not_after_break H st row then (st, None)
        else let st1 = st\<lparr>sq_bars := jadd (sq_bars st) (Fin 1)\<rparr> in
          if jlt (sp_max_bars P) (sq_bars st1) then (st1, Some Rejection_Window_Exceeded)
          else if \<not> rejects P (close_of row) then (st1, None) else (st1, Some Confirmed_Later))
     else (st, None))"
  by (rule complete_row_fields[OF assms]) (simp add: seq_step_def Let_def)

subsection \<open>What the machine recognises\<close>

text \<open>
  On the rows \<open>rows\<close>: row \<open>i\<close> is the first to break the level, row \<open>j\<close> the first after it to touch the zone, row \<open>k\<close>
  confirms (the first from \<open>j\<close> on to reject the level if a rejection is required, \<open>j\<close> itself otherwise), and there are
  at most \<open>max_bars\<close> bars from the break to the confirmation.
\<close>

definition first_break :: "seq_params \<Rightarrow> jsval list \<Rightarrow> nat \<Rightarrow> nat \<Rightarrow> bool" where
  "first_break P rows n i \<longleftrightarrow> i < n \<and> broke P (close_of (rows ! i)) \<and> (\<forall>m < i. \<not> broke P (close_of (rows ! m)))"

definition first_touch :: "seq_params \<Rightarrow> jsval list \<Rightarrow> nat \<Rightarrow> nat \<Rightarrow> nat \<Rightarrow> bool" where
  "first_touch P rows n i j \<longleftrightarrow> i < j \<and> j < n \<and> touches P (rows ! j) \<and> (\<forall>m. i < m \<and> m < j \<longrightarrow> \<not> touches P (rows ! m))"

definition confirms :: "seq_params \<Rightarrow> jsval list \<Rightarrow> nat \<Rightarrow> nat \<Rightarrow> nat \<Rightarrow> bool" where
  "confirms P rows i j k \<longleftrightarrow> first_break P rows (length rows) i \<and> first_touch P rows (length rows) i j
     \<and> j \<le> k \<and> k < length rows \<and> within_bars P (k - i)
     \<and> (if sp_reject P then rejects P (close_of (rows ! k)) \<and> (\<forall>m. j \<le> m \<and> m < k \<longrightarrow> \<not> rejects P (close_of (rows ! m))) else k = j)"

text \<open>The state after the first \<open>n\<close> rows.\<close>

definition seq_at :: "seq_params \<Rightarrow> jsval list \<Rightarrow> nat \<Rightarrow> seq_state \<Rightarrow> bool" where
  "seq_at P rows n st \<longleftrightarrow>
     (sq_machine st = ''WAITING_BREAK'' \<and> sq_break_at st = Null \<and> sq_retest_at st = Null \<and> sq_bars st = Fin 0
        \<and> (\<forall>m < n. \<not> broke P (close_of (rows ! m))))
   \<or> (\<exists>i. first_break P rows n i \<and> sq_break_at st = rowTimestamp (rows ! i) \<and> sq_bars st = Fin (of_nat (n - 1 - i))
        \<and> within_bars P (n - 1 - i)
        \<and> (sq_machine st = ''WAITING_RETEST'' \<and> sq_retest_at st = Null \<and> (\<forall>m. i < m \<and> m < n \<longrightarrow> \<not> touches P (rows ! m))
         \<or> sq_machine st = ''RETEST_TOUCHED'' \<and> sp_reject P \<and> (\<exists>j. first_touch P rows n i j \<and> sq_retest_at st = rowTimestamp (rows ! j)
             \<and> (\<forall>m. j \<le> m \<and> m < n \<longrightarrow> \<not> rejects P (close_of (rows ! m))))))"

lemma seq_at_touchedI:
  assumes "first_break P rows n i" and "sq_break_at st = rowTimestamp (rows ! i)" and "sq_bars st = Fin (of_nat (n - 1 - i))"
    and "within_bars P (n - 1 - i)" and "sq_machine st = ''RETEST_TOUCHED''" and "sp_reject P" and "first_touch P rows n i j"
    and "sq_retest_at st = rowTimestamp (rows ! j)" and "\<And>m. j \<le> m \<Longrightarrow> m < n \<Longrightarrow> \<not> rejects P (close_of (rows ! m))"
  shows "seq_at P rows n st"
  using assms unfolding seq_at_def by blast

lemma bars_plus_one: "n < 2 ^ 53 \<Longrightarrow> jadd (Fin (of_nat n)) (Fin 1) = Fin (of_nat (Suc n))"
  using rnd_of_int[of "int (Suc n)"] by (simp add: algebra_simps)

text \<open>A row after the break is counted.\<close>

lemma row_counts:
  assumes "bars_in_order H rows" and "i < n" and "n < length rows" and "sq_break_at st = rowTimestamp (rows ! i)"
  shows "\<not> not_after_break H st (rows ! n)"
proof -
  have "ms_of_row H (rows ! i) < ms_of_row H (rows ! n)"
    using assms(1-3) by (auto simp: bars_in_order_def sorted_wrt_iff_nth_less)
  moreover have "row_ms H (rows ! i) = Some (ms_of_row H (rows ! i))" "row_ms H (rows ! n) = Some (ms_of_row H (rows ! n))"
    using assms by (auto intro!: bars_in_order_ms)
  ultimately show ?thesis using assms(4) by (simp add: not_after_break_def row_ms_def)
qed

lemma row_complete: "bars_in_order H rows \<Longrightarrow> n < length rows \<Longrightarrow> complete_row (rows ! n)"
  by (simp add: bars_in_order_def list_all_length)

lemma first_break_Suc: "first_break P rows n i \<Longrightarrow> first_break P rows (Suc n) i"
  and first_touch_Suc: "first_touch P rows n i j \<Longrightarrow> first_touch P rows (Suc n) i j"
  by (auto simp: first_break_def first_touch_def)

lemma seq_at_step:
  assumes "bars_in_order H rows" and "length rows \<le> 2 ^ 53" and "n < length rows" and "seq_at P rows n st"
    and "seq_step H P n (rows ! n) st = (st', None)" and "within_bars P 0"
  shows "seq_at P rows (Suc n) st'"
proof -
  let ?row = "rows ! n"
  note step = assms(5)[unfolded seq_step_complete[OF row_complete[OF assms(1,3)]]]
  from assms(4) consider
    (waiting) "sq_machine st = ''WAITING_BREAK''" "sq_break_at st = Null" "sq_retest_at st = Null" "sq_bars st = Fin 0"
      "\<forall>m < n. \<not> broke P (close_of (rows ! m))"
  | (retest) i where "first_break P rows n i" "sq_break_at st = rowTimestamp (rows ! i)" "sq_bars st = Fin (of_nat (n - 1 - i))"
      "sq_machine st = ''WAITING_RETEST''" "sq_retest_at st = Null" "\<forall>m. i < m \<and> m < n \<longrightarrow> \<not> touches P (rows ! m)"
  | (rejection) i j where "first_break P rows n i" "sq_break_at st = rowTimestamp (rows ! i)" "sq_bars st = Fin (of_nat (n - 1 - i))"
      "sq_machine st = ''RETEST_TOUCHED''" "sp_reject P" "first_touch P rows n i j" "sq_retest_at st = rowTimestamp (rows ! j)"
      "\<forall>m. j \<le> m \<and> m < n \<longrightarrow> \<not> rejects P (close_of (rows ! m))"
    unfolding seq_at_def by blast
  then show ?thesis
  proof cases
    case waiting
    show ?thesis
    proof (cases "broke P (close_of ?row)")
      case True
      then have "first_break P rows (Suc n) n" using waiting(5) by (simp add: first_break_def)
      then show ?thesis using step waiting True
        using assms(6) by (auto simp: seq_at_def less_Suc_eq)
    qed (use step waiting in \<open>auto simp: seq_at_def less_Suc_eq\<close>)
  next
    case (retest i)
    have i: "i < n" using retest(1) by (simp add: first_break_def)
    have bars: "jadd (sq_bars st) (Fin 1) = Fin (of_nat (n - i))"
      using bars_plus_one[of "n - 1 - i"] retest(3) i assms(2,3) by (simp add: Suc_diff_Suc)
    have counted: "\<not> not_after_break H st ?row" by (rule row_counts[OF assms(1) i assms(3) retest(2)])
    show ?thesis
    proof (cases "touches P ?row")
      case True
      then have touch: "first_touch P rows (Suc n) i n" using retest(6) i by (simp add: first_touch_def)
      have "sp_reject P" "\<not> rejects P (close_of ?row)" "within_bars P (n - i)"
        and st': "st' = st\<lparr>sq_bars := Fin (of_nat (n - i)), sq_machine := ''RETEST_TOUCHED'', sq_retest_at := rowTimestamp ?row\<rparr>"
        using step True by (auto simp: retest(4) bars counted Let_def within_bars_def split: if_splits)
      then show ?thesis
        using first_break_Suc[OF retest(1)] touch retest(2)
        by (intro seq_at_touchedI[of P rows "Suc n" i st' n]) (auto simp: le_less_Suc_eq)
    next
      case False
      then have "within_bars P (n - i)" and st': "st' = st\<lparr>sq_bars := Fin (of_nat (n - i))\<rparr>"
        using step by (auto simp: retest(4) bars counted Let_def within_bars_def split: if_splits)
      then show ?thesis
        using first_break_Suc[OF retest(1)] retest(2,4,5,6) False by (auto simp: seq_at_def less_Suc_eq intro!: exI[of _ i])
    qed
  next
    case (rejection i j)
    have i: "i < n" using rejection(1) by (simp add: first_break_def)
    have bars: "jadd (sq_bars st) (Fin 1) = Fin (of_nat (n - i))"
      using bars_plus_one[of "n - 1 - i"] rejection(3) i assms(2,3) by (simp add: Suc_diff_Suc)
    have counted: "\<not> not_after_break H st ?row" by (rule row_counts[OF assms(1) i assms(3) rejection(2)])
    have "within_bars P (n - i)" "\<not> rejects P (close_of ?row)" and st': "st' = st\<lparr>sq_bars := Fin (of_nat (n - i))\<rparr>"
      using step by (auto simp: rejection(4) bars counted Let_def within_bars_def split: if_splits)
    then show ?thesis
      using first_break_Suc[OF rejection(1)] first_touch_Suc[OF rejection(6)] rejection(2,4,5,7,8)
      by (intro seq_at_touchedI[of P rows "Suc n" i st' j]) (auto simp: less_Suc_eq)
  qed
qed

lemma first_break_unique: "first_break P rows n i \<Longrightarrow> first_break P rows n' i' \<Longrightarrow> i = i'"
  unfolding first_break_def by (metis nat_neq_iff)

lemma first_touch_unique: "first_touch P rows n i j \<Longrightarrow> first_touch P rows n' i j' \<Longrightarrow> j = j'"
  unfolding first_touch_def by (metis nat_neq_iff)

lemma first_break_up: "first_break P rows n i \<Longrightarrow> n \<le> m \<Longrightarrow> first_break P rows m i"
  and first_touch_up: "first_touch P rows n i j \<Longrightarrow> n \<le> m \<Longrightarrow> first_touch P rows m i j"
  by (auto simp: first_break_def first_touch_def)

text \<open>While the machine has no verdict after \<open>n\<close> rows, none of them confirms.\<close>

lemma seq_at_unconfirmed:
  assumes "seq_at P rows n st" and "n \<le> length rows" and "confirms P rows i j k"
  shows "n \<le> k"
proof (rule ccontr)
  assume "\<not> n \<le> k"
  then have k: "k < n" by simp
  from assms(3) have c: "first_break P rows (length rows) i" "first_touch P rows (length rows) i j" "j \<le> k"
    "sp_reject P \<Longrightarrow> rejects P (close_of (rows ! k))" "\<not> sp_reject P \<Longrightarrow> k = j"
    unfolding confirms_def by (auto split: if_splits)
  have ij: "i < j" "broke P (close_of (rows ! i))" "touches P (rows ! j)"
    using c(1,2) by (auto simp: first_break_def first_touch_def)
  from assms(1) show False unfolding seq_at_def
  proof (elim disjE exE conjE)
    fix i' assume "first_break P rows n i'" "\<forall>m. i' < m \<and> m < n \<longrightarrow> \<not> touches P (rows ! m)"
    moreover from this have "i' = i" using first_break_unique c(1) by blast
    ultimately show False using ij k c(3) by auto
  next
    fix i' j' assume "first_break P rows n i'" "first_touch P rows n i' j'" "sp_reject P"
      "\<forall>m. j' \<le> m \<and> m < n \<longrightarrow> \<not> rejects P (close_of (rows ! m))"
    moreover from this have "i' = i" using first_break_unique c(1) by blast
    moreover from this calculation have "j' = j" using first_touch_unique c(2) by blast
    ultimately show False using c(3,4) k by auto
  qed (use ij k c(3) in \<open>auto simp: less_trans\<close>)
qed

definition confirmed_exit :: "seq_exit \<Rightarrow> bool" where
  "confirmed_exit e \<longleftrightarrow> e \<in> {Confirmed_On_Touch, Confirmed_Later}"

lemma seq_exit_confirmed:
  assumes "bars_in_order H rows" and "length rows \<le> 2 ^ 53" and "n < length rows" and "seq_at P rows n st"
    and "seq_step H P n (rows ! n) st = (st', Some e)"
  shows "if confirmed_exit e
    then \<exists>i j. confirms P rows i j n \<and> sq_break_at st' = rowTimestamp (rows ! i) \<and> sq_retest_at st' = rowTimestamp (rows ! j)
      \<and> sq_bars st' = Fin (of_nat (n - i))
    else (\<nexists>i j k. confirms P rows i j k) \<and> (\<exists>i. first_break P rows (length rows) i \<and> \<not> within_bars P (n - i))"
proof -
  let ?row = "rows ! n"
  note step = assms(5)[unfolded seq_step_complete[OF row_complete[OF assms(1,3)]]]
  have moved: "sq_machine st \<noteq> ''WAITING_BREAK''" using step by (auto split: if_splits)
  then obtain i where i: "first_break P rows n i" "sq_break_at st = rowTimestamp (rows ! i)" "sq_bars st = Fin (of_nat (n - 1 - i))"
    and rest: "sq_machine st = ''WAITING_RETEST'' \<and> sq_retest_at st = Null \<and> (\<forall>m. i < m \<and> m < n \<longrightarrow> \<not> touches P (rows ! m))
         \<or> sq_machine st = ''RETEST_TOUCHED'' \<and> sp_reject P \<and> (\<exists>j. first_touch P rows n i j \<and> sq_retest_at st = rowTimestamp (rows ! j)
             \<and> (\<forall>m. j \<le> m \<and> m < n \<longrightarrow> \<not> rejects P (close_of (rows ! m))))"
    using assms(4) unfolding seq_at_def by blast
  have less: "i < n" using i(1) by (simp add: first_break_def)
  have bars: "jadd (sq_bars st) (Fin 1) = Fin (of_nat (n - i))"
    using bars_plus_one[of "n - 1 - i"] i(3) less assms(2,3) by (simp add: Suc_diff_Suc)
  have counted: "\<not> not_after_break H st ?row" by (rule row_counts[OF assms(1) less assms(3) i(2)])
  have brk: "first_break P rows (length rows) i" using first_break_up[OF i(1)] assms(3) by simp
  show ?thesis
  proof (cases "within_bars P (n - i)")
    case True
    from rest show ?thesis
    proof (elim disjE conjE exE)
      assume r: "sq_machine st = ''WAITING_RETEST''" "\<forall>m. i < m \<and> m < n \<longrightarrow> \<not> touches P (rows ! m)"
      then have e: "e = Confirmed_On_Touch" "touches P ?row" "sp_reject P \<longrightarrow> rejects P (close_of ?row)"
        and st': "st' = st\<lparr>sq_bars := Fin (of_nat (n - i)), sq_machine := ''RETEST_TOUCHED'', sq_retest_at := rowTimestamp ?row\<rparr>"
        using step True by (auto simp: bars counted Let_def within_bars_def split: if_splits)
      then have "first_touch P rows (length rows) i n" using r(2) less assms(3) by (simp add: first_touch_def)
      then have "confirms P rows i n n" using brk True e(3) assms(3) by (auto simp: confirms_def)
      then show ?thesis using e(1) st' i(2) by (auto simp: confirmed_exit_def)
    next
      fix j assume r: "sq_machine st = ''RETEST_TOUCHED''" "sp_reject P" "first_touch P rows n i j"
        "sq_retest_at st = rowTimestamp (rows ! j)" "\<forall>m. j \<le> m \<and> m < n \<longrightarrow> \<not> rejects P (close_of (rows ! m))"
      then have e: "e = Confirmed_Later" "rejects P (close_of ?row)" and st': "st' = st\<lparr>sq_bars := Fin (of_nat (n - i))\<rparr>"
        using step True by (auto simp: bars counted Let_def within_bars_def split: if_splits)
      have "j < n" using r(3) by (simp add: first_touch_def)
      then have "confirms P rows i j n"
        using brk first_touch_up[OF r(3)] True e(2) r(2,5) assms(3) by (simp add: confirms_def)
      then show ?thesis using e(1) st' i(2) r(4) by (auto simp: confirmed_exit_def)
    qed
  next
    case False
    then have "\<not> confirmed_exit e"
      using step rest by (auto simp: bars counted Let_def within_bars_def confirmed_exit_def split: if_splits)
    moreover have "\<not> confirms P rows i' j k" for i' j k
    proof
      assume c: "confirms P rows i' j k"
      then have "i' = i" using first_break_unique brk unfolding confirms_def by blast
      moreover have "n \<le> k" using seq_at_unconfirmed[OF assms(4) _ c] assms(3) by simp
      moreover have "within_bars P (k - i')" using c by (simp add: confirms_def)
      ultimately show False
        using within_bars_mono[of P "k - i" "n - i"] False by (simp add: diff_le_mono)
    qed
    ultimately show ?thesis using brk False by auto
  qed
qed

lemma positiveInteger_pos: "jlt (Fin 0) d \<Longrightarrow> jlt (Fin 0) (positiveInteger v d)"
  by (auto simp: positiveInteger_def positiveIntegerOrNull_def Let_def split: option.split)

lemma within_bars_0: "seq_params_of condition = Inr P \<Longrightarrow> within_bars P 0"
  using jlt_asym[OF positiveInteger_pos[of "Fin 12" "get condition ''max_bars''"]]
  by (auto simp: seq_params_of_def within_bars_def split: option.splits if_splits)

definition fresh_state :: seq_state where
  "fresh_state = seq_state_of (Obj [])"

lemma fresh_state_eq: "fresh_state = \<lparr>sq_machine = ''WAITING_BREAK'', sq_break_at = Null, sq_break_index = Null,
     sq_bars = Fin 0, sq_retest_at = Null\<rparr>"
  unfolding fresh_state_def by code_simp

lemma confirms_unique:
  assumes "confirms P rows i j k" and "confirms P rows i' j' k'"
  shows "i = i' \<and> j = j' \<and> k = k'"
proof -
  have i: "i = i'" using assms first_break_unique unfolding confirms_def by blast
  moreover have j: "j = j'" using assms first_touch_unique i unfolding confirms_def by blast
  moreover have "k = k'"
    using assms j unfolding confirms_def by (metis linorder_neqE_nat)
  ultimately show ?thesis by simp
qed

lemma confirms_bound: "confirms P rows i j k \<Longrightarrow> k < length rows"
  by (simp add: confirms_def)

lemma run_fresh_inv:
  assumes "seq_params_of condition = Inr P" and "bars_in_order H rows" and "length rows \<le> 2 ^ 53"
  shows "case seq_run H P 0 rows fresh_state of
     (st, None) \<Rightarrow> seq_at P rows (length rows) st
   | (st, Some (e, row)) \<Rightarrow> \<exists>k st0. 0 \<le> k \<and> k < length rows \<and> row = rows ! k \<and> seq_at P rows k st0 \<and> seq_step H P k row st0 = (st, Some e)"
proof -
  have start: "seq_at P rows 0 fresh_state" by (simp add: seq_at_def fresh_state_eq)
  have keeps: "seq_at P rows (Suc k) st'"
    if "k < length rows" "seq_at P rows k st" "seq_step H P k (rows ! k) st = (st', None)" for k st st'
    using seq_at_step[OF assms(2,3) that within_bars_0[OF assms(1)]] .
  have "case seq_run H P 0 (drop 0 rows) fresh_state of
     (st, None) \<Rightarrow> seq_at P rows (length rows) st
   | (st, Some (e, row)) \<Rightarrow> \<exists>k st0. 0 \<le> k \<and> k < length rows \<and> row = rows ! k \<and> seq_at P rows k st0 \<and> seq_step H P k row st0 = (st, Some e)"
    by (rule seq_run_invariant) (use keeps start in auto)
  then show ?thesis by (simp only: drop_0)
qed

lemma run_fresh:
  assumes "seq_params_of condition = Inr P" and "bars_in_order H rows" and "length rows \<le> 2 ^ 53"
  shows "case seq_run H P 0 rows fresh_state of
     (st, None) \<Rightarrow> (\<nexists>i j k. confirms P rows i j k)
   | (st, Some (e, row)) \<Rightarrow> \<exists>n < length rows. row = rows ! n \<and>
       (if confirmed_exit e
        then \<exists>i j. confirms P rows i j n \<and> sq_break_at st = rowTimestamp (rows ! i) \<and> sq_retest_at st = rowTimestamp (rows ! j)
          \<and> sq_bars st = Fin (of_nat (n - i))
        else (\<nexists>i j k. confirms P rows i j k) \<and> (\<exists>i. first_break P rows (length rows) i \<and> \<not> within_bars P (n - i)))"
proof -
  note inv = run_fresh_inv[OF assms]
  obtain st v where run: "seq_run H P 0 rows fresh_state = (st, v)" by fastforce
  show ?thesis
  proof (cases v)
    case None
    then have "seq_at P rows (length rows) st" using inv run by simp
    then have "\<not> confirms P rows i j k" for i j k
      using seq_at_unconfirmed[OF _ le_refl] confirms_bound by (meson leD)
    then show ?thesis using run None by simp
  next
    case (Some er)
    then obtain e k st0 where er: "v = Some (e, rows ! k)" and k: "k < length rows" "seq_at P rows k st0"
      "seq_step H P k (rows ! k) st0 = (st, Some e)"
      using inv run by (cases er) auto
    show ?thesis
      unfolding run er prod.case option.case
      by (intro exI[of _ k] conjI refl k(1)) (rule seq_exit_confirmed[OF assms(2,3) k])
  qed
qed

text \<open>An evaluation without a past sees all rows.\<close>

lemma evaluate_fresh:
  assumes "seq_params_of condition = Inr P" and "bars_in_order H rows"
  shows "evaluateBreakRetestSequence H condition rows (Obj []) =
    (case seq_run H P 0 rows fresh_state of (st, Some (e, row)) \<Rightarrow> exit_result P st e row | (st, None) \<Rightarrow> pending_result P st)"
proof -
  have "causalCursorMs H (Obj []) fresh_state = None"
    by (simp add: causalCursorMs_def fresh_state_eq parseTimestamp_def)
  moreover have "causal_rows H None {} rows = rows" by (rule causal_rows_all[OF assms(2)]) simp_all
  ultimately show ?thesis
    by (simp add: evaluateBreakRetestSequence_def assms(1) Let_def fresh_state_def[symmetric])
qed

lemma exit_result_fields:
  "fget (exit_result P st e row) ''state'' = Str (if confirmed_exit e then ''SATISFIED'' else ''FAILED'')"
  "fget (exit_result P st e row) ''matched'' = Bool (confirmed_exit e)"
  "fget (exit_result P st e row) ''machine_state'' = Str (if confirmed_exit e then ''SATISFIED'' else ''FAILED_MAX_BARS'')"
  "fget (exit_result P st e row) ''break_at_paris'' = sq_break_at st"
  "fget (exit_result P st e row) ''bars_since_break'' = Num (sq_bars st)"
  "confirmed_exit e \<Longrightarrow> fget (exit_result P st e row) ''observed_at_paris'' = rowTimestamp row"
  "confirmed_exit e \<Longrightarrow> fget (exit_result P st e row) ''retest_at_paris'' = sq_retest_at st"
  by (cases e; simp add: exit_result_def confirmed_exit_def Let_def)+

lemma pending_result_fields:
  "fget (pending_result P st) ''state'' = Str ''PENDING''" "fget (pending_result P st) ''matched'' = Bool False"
  "fget (pending_result P st) ''machine_state'' = Str (sq_machine st)" "fget (pending_result P st) ''break_at_paris'' = sq_break_at st"
  "fget (pending_result P st) ''retest_at_paris'' = sq_retest_at st" "fget (pending_result P st) ''bars_since_break'' = Num (sq_bars st)"
  "fget (pending_result P st) ''observed_at_paris'' = Undef"
  by (simp_all add: pending_result_def)

subsection \<open>Saving and reading back the state\<close>

text \<open>What a state must be to survive the \<open>||\<close> of the code that saves it and reads it back.\<close>

definition savable :: "seq_state \<Rightarrow> bool" where
  "savable st \<longleftrightarrow> js_or (sq_break_at st) Null = sq_break_at st \<and> js_or (sq_retest_at st) Null = sq_retest_at st \<and> sq_bars st \<noteq> NaN"

lemma rowTimestamp_savable: "js_or (rowTimestamp row) Null = rowTimestamp row"
  by (simp add: rowTimestamp_def js_or_def)

lemma fresh_savable: "savable fresh_state"
  by (simp add: fresh_state_eq savable_def js_or_def)

lemma jadd_one_not_NaN: "a \<noteq> NaN \<Longrightarrow> jadd a (Fin 1) \<noteq> NaN"
  by (cases a) simp_all

lemma savable_updates:
  assumes "savable st"
  shows "savable (st\<lparr>sq_machine := m, sq_break_at := rowTimestamp row, sq_break_index := v, sq_bars := Fin 0\<rparr>)"
    "savable (st\<lparr>sq_bars := jadd (sq_bars st) (Fin 1)\<rparr>)"
    "savable (st\<lparr>sq_bars := jadd (sq_bars st) (Fin 1), sq_machine := m, sq_retest_at := rowTimestamp row\<rparr>)"
  using assms by (simp_all add: savable_def rowTimestamp_savable jadd_one_not_NaN)

lemma seq_step_savable:
  assumes "savable st"
  shows "savable (fst (seq_step H P i row st))"
proof (cases "num_field row ''close'' = None \<or> num_field row ''high'' = None \<or> num_field row ''low'' = None")
  case True
  then show ?thesis using assms by (auto simp: seq_step_def split: option.split)
next
  case False
  then obtain close high low where "num_field row ''close'' = Some close" "num_field row ''high'' = Some high" "num_field row ''low'' = Some low"
    by auto
  then show ?thesis using assms savable_updates[OF assms] by (simp add: seq_step_def Let_def)
qed

lemma seq_run_savable: "savable st \<Longrightarrow> savable (fst (seq_run H P i rows st))"
proof (induction rows arbitrary: i st)
  case (Cons row rows)
  obtain s e where step: "seq_step H P i row st = (s, e)" by fastforce
  then have "savable s" using seq_step_savable[OF Cons.prems, of H P i row] by simp
  then show ?case using Cons.IH[of s] step by (cases e) simp_all
qed simp

lemma num_or_zero_Num: "n \<noteq> NaN \<Longrightarrow> num_or_zero (Num n) = n"
  by (simp add: num_or_zero_def js_or_def)

lemma read_back:
  assumes "savable st" and "normalizeEnum (Str (sq_machine st)) = sq_machine st" and "sq_machine st \<noteq> []"
    and "get r ''machine_state'' = Str (sq_machine st)" and "get r ''break_at_paris'' = sq_break_at st"
    and "get r ''retest_at_paris'' = sq_retest_at st" and "get r ''bars_since_break'' = Num (sq_bars st)"
    and "get r ''break_row_index'' = Undef"
  shows "seq_state_of r = forget st"
  using assms by (cases st) (simp add: seq_state_of_def savable_def forget_def num_or_zero_Num)

lemma machine_names: "normalizeEnum (Str ''WAITING_BREAK'') = ''WAITING_BREAK''" "normalizeEnum (Str ''WAITING_RETEST'') = ''WAITING_RETEST''"
  "normalizeEnum (Str ''RETEST_TOUCHED'') = ''RETEST_TOUCHED''" "normalizeEnum (Str ''FAILED_MAX_BARS'') = ''FAILED_MAX_BARS''"
  by code_simp+

lemma seq_at_machine: "seq_at P rows n st \<Longrightarrow>
    normalizeEnum (Str (sq_machine st)) = sq_machine st \<and> sq_machine st \<noteq> [] \<and> sq_machine st \<noteq> ''FAILED_MAX_BARS''"
  by (auto simp: seq_at_def machine_names)

text \<open>The cursor a saved state gives lies before the rows that come after.\<close>

lemma cursor_before:
  assumes "bars_in_order H (xs @ ys)" and "seq_at P xs (length xs) st" and "xs \<noteq> []"
    and "get r ''last_evaluated_at_paris'' = rowTimestamp (last xs)" and "causalCursorMs H r (forget st) = Some c" and "y \<in> set ys"
  shows "c < ms_of_row H y"
proof -
  have before: "ms_of_row H x < ms_of_row H y" "row_ms H x = Some (ms_of_row H x)" if "x \<in> set xs" for x
    using assms(1,6) that bars_in_order_ms[of H xs] by (auto simp: bars_in_order_append)
  have l: "parseTimestamp H (get r ''last_evaluated_at_paris'') = Some (ms_of_row H (last xs))"
    using before(2)[of "last xs"] assms(3,4) by (simp add: row_ms_def)
  have "sq_break_at st = Null \<or> (\<exists>i < length xs. sq_break_at st = rowTimestamp (xs ! i))"
    using assms(2) by (auto simp: seq_at_def first_break_def)
  then have b: "parseTimestamp H (sq_break_at st) = None \<or> (\<exists>x \<in> set xs. parseTimestamp H (sq_break_at st) = Some (ms_of_row H x))"
    using before(2) by (auto simp: parseTimestamp_def row_ms_def) (metis nth_mem)
  show ?thesis
    using assms(3,5) l b before(1) by (auto simp: causalCursorMs_def Let_def split: if_splits option.splits)
qed

section \<open>What an evaluation says\<close>

text \<open>
  C15. The break/retest machine recognises what it is meant to: evaluated on closed rows in order with no past, it is
  \<open>SATISFIED\<close> exactly when there are a first row whose close breaks the level, a first later row that touches the
  retest zone and, at most \<open>max_bars\<close> bars after the break, the confirming row (the touching row itself, or the first
  row from there on that closes back on the right side of the level if a rejection is required); it then reports
  those rows and the bars in between. It is \<open>FAILED\<close> only if more than \<open>max_bars\<close> bars followed the break.
\<close>

theorem sequence_recognised:
  assumes "seq_params_of condition = Inr P" and "bars_in_order H rows" and "length rows \<le> 2 ^ 53"
  shows "let r = evaluateBreakRetestSequence H condition rows (Obj []) in
    (fget r ''state'' = Str ''SATISFIED'' \<longleftrightarrow> (\<exists>i j k. confirms P rows i j k))
    \<and> (\<forall>i j k. confirms P rows i j k \<longrightarrow>
         fget r ''break_at_paris'' = rowTimestamp (rows ! i) \<and> fget r ''retest_at_paris'' = rowTimestamp (rows ! j)
         \<and> fget r ''observed_at_paris'' = rowTimestamp (rows ! k) \<and> fget r ''bars_since_break'' = Num (Fin (of_nat (k - i))))
    \<and> (fget r ''state'' = Str ''FAILED'' \<longrightarrow>
         (\<exists>i. first_break P rows (length rows) i \<and> \<not> within_bars P (length rows - 1 - i)))"
proof -
  obtain st v where run: "seq_run H P 0 rows fresh_state = (st, v)" by fastforce
  note verdict = run_fresh[OF assms, unfolded run]
  show ?thesis
  proof (cases v)
    case None
    then show ?thesis
      using verdict by (simp add: evaluate_fresh[OF assms(1,2)] run pending_result_fields)
  next
    case (Some er)
    then obtain e n where v: "v = Some (e, rows ! n)" and n: "n < length rows"
      and out: "if confirmed_exit e
        then \<exists>i j. confirms P rows i j n \<and> sq_break_at st = rowTimestamp (rows ! i) \<and> sq_retest_at st = rowTimestamp (rows ! j)
          \<and> sq_bars st = Fin (of_nat (n - i))
        else (\<nexists>i j k. confirms P rows i j k) \<and> (\<exists>i. first_break P rows (length rows) i \<and> \<not> within_bars P (n - i))"
      using verdict by (cases er) auto
    show ?thesis
    proof (cases "confirmed_exit e")
      case True
      then obtain i j where c: "confirms P rows i j n" "sq_break_at st = rowTimestamp (rows ! i)"
        "sq_retest_at st = rowTimestamp (rows ! j)" "sq_bars st = Fin (of_nat (n - i))"
        using out by auto
      have only: "confirms P rows i' j' k' \<longleftrightarrow> i' = i \<and> j' = j \<and> k' = n" for i' j' k'
        using confirms_unique[OF _ c(1)] c(1) by blast
      show ?thesis
        by (simp add: only evaluate_fresh[OF assms(1,2)] run v exit_result_fields True c(2-4))
    next
      case False
      then obtain i where i: "first_break P rows (length rows) i" "\<not> within_bars P (n - i)" and none: "\<nexists>i j k. confirms P rows i j k"
        using out by auto
      have "\<not> within_bars P (length rows - 1 - i)"
        using within_bars_mono[of P "length rows - 1 - i" "n - i"] i(2) n by linarith
      then have late: "\<exists>i. first_break P rows (length rows) i \<and> \<not> within_bars P (length rows - 1 - i)" using i(1) by blast
      have unconfirmed: "confirms P rows i' j' k' \<longleftrightarrow> False" for i' j' k' using none by blast
      show ?thesis
        using late by (simp add: unconfirmed evaluate_fresh[OF assms(1,2)] run v exit_result_fields False)
    qed
  qed
qed

text \<open>
  A break above 100 by the first bar, a touch of 100 by the second that closes below, the rejection by the third; the
  level is of a kind the machine takes.
\<close>

definition sample_bar :: "string \<Rightarrow> int \<Rightarrow> int \<Rightarrow> int \<Rightarrow> jsval" where
  "sample_bar t high low close = Obj [(''timestamp_paris'', Str t), (''open'', Num (Fin (of_int close))),
     (''high'', Num (Fin (of_int high))), (''low'', Num (Fin (of_int low))), (''close'', Num (Fin (of_int close)))]"

definition sample_bars :: "jsval list" where
  "sample_bars = [sample_bar ''2026-08-10T10:00:00.000Z'' 104 98 103, sample_bar ''2026-08-10T10:05:00.000Z'' 103 99 99,
     sample_bar ''2026-08-10T10:10:00.000Z'' 102 98 101]"

definition sample_sequence :: jsval where
  "sample_sequence = Obj [(''condition_id'', Str ''c2''), (''predicate_type'', Str ''break_retest_sequence''),
     (''threshold'', Num (Fin 100)), (''break_condition_id'', Str ''c1'')]"

definition sample_params :: seq_params where
  "sample_params = \<lparr>sp_up = True, sp_break = Fin 100, sp_retest = Fin 100, sp_tolerance = Fin 0, sp_break_tolerance = Fin 0,
     sp_max_bars = Fin 12, sp_reject = True, sp_break_id = Str ''c1''\<rparr>"

lemma sample_params: "seq_params_of (normalizeCondition sample_sequence 0) = Inr sample_params"
  by code_simp

lemma sample_in_order: "bars_in_order sample_host sample_bars"
  by code_simp

lemma sample_bar_prices:
  "close_of (sample_bar t h l c) = Fin (of_int c)" "touches P (sample_bar t h l c) = touched P (Fin (of_int h)) (Fin (of_int l))"
  by (simp_all add: sample_bar_def close_of_def touches_def num_field_def numberOrNull_def)

lemma sample_confirms: "confirms sample_params sample_bars 0 1 2"
proof -
  have "first_break sample_params sample_bars (length sample_bars) 0"
    by (simp add: first_break_def sample_bars_def sample_bar_prices sample_params_def broke_def rnd_numeral)
  moreover have "first_touch sample_params sample_bars (length sample_bars) 0 1"
    by (simp add: first_touch_def sample_bars_def sample_bar_prices sample_params_def touched_def jsub_def rnd_numeral
        gr0_conv_Suc) (metis not0_implies_Suc)
  moreover have "\<not> rejects sample_params (close_of (sample_bars ! m))" if "1 \<le> m" "m < 2" for m
  proof -
    have "m = 1" using that by linarith
    then show ?thesis by (simp add: sample_bars_def sample_bar_prices sample_params_def rejects_def)
  qed
  ultimately show ?thesis
    by (simp add: confirms_def within_bars_def) (simp add: sample_bars_def sample_bar_prices sample_params_def rejects_def)
qed

text \<open>The evaluation of the sample: satisfied, the break at ten, the retest at five past, the confirmation at ten past.\<close>

theorem sequence_recognised_witness:
  "let r = evaluateBreakRetestSequence sample_host (normalizeCondition sample_sequence 0) sample_bars (Obj []) in
     fget r ''state'' = Str ''SATISFIED'' \<and> fget r ''break_at_paris'' = Str ''2026-08-10T10:00:00.000Z''
     \<and> fget r ''retest_at_paris'' = Str ''2026-08-10T10:05:00.000Z'' \<and> fget r ''observed_at_paris'' = Str ''2026-08-10T10:10:00.000Z''
     \<and> fget r ''bars_since_break'' = Num (Fin 2)"
proof -
  have "length sample_bars \<le> 2 ^ 53" by (simp add: sample_bars_def)
  note sequence_recognised[OF sample_params sample_in_order this]
  then show ?thesis
    using sample_confirms by (auto simp: Let_def sample_bars_def sample_bar_def rowTimestamp_def)
qed

end
