(* ===== verification/Trade_Plan.thy ===== *)
theory Trade_Plan
  imports Domain_Helpers Domain_Result
begin

text \<open>
  \<open>packages/desk-domain/src/trade-plan-economics-v1.js\<close>: the normal form of the trade plan a strategy proposes, with
  its entry, stop, targets and invalidation read from the many names they go by, and what the plan risks per contract. Shown:
  what a plan with known economics satisfies, and when normalising a normal plan again changes nothing, which the
  selection of signals (\<open>Signal_Selection\<close>) takes for granted.
\<close>

section \<open>Instruments\<close>

record contract_spec =
  cs_instrument :: string
  cs_tick_size :: jnum
  cs_tick_value :: jnum
  cs_point_value :: jnum
  cs_currency :: string
  cs_source :: string

definition FUTURES_INSTRUMENT_SPECS_V1 :: "(string \<times> contract_spec) list" where
  "FUTURES_INSTRUMENT_SPECS_V1 = List.map (\<lambda>(i, v, p, s). (i, \<lparr>cs_instrument = i, cs_tick_size = Fin (1 / 4), cs_tick_value = Fin v,
       cs_point_value = Fin p, cs_currency = ''USD'', cs_source = s\<rparr>))
     [(''MNQ'', 1 / 2, 2, ''CME Micro E-mini Nasdaq-100''), (''MES'', 5 / 4, 5, ''CME Micro E-mini S&P 500''),
      (''NQ'', 5, 20, ''CME E-mini Nasdaq-100''), (''ES'', 25 / 2, 50, ''CME E-mini S&P 500''),
      (''ZC'', 25 / 2, 50, ''CBOT Corn Futures''), (''ZW'', 25 / 2, 50, ''CBOT Wheat Futures'')]"

definition drop_prefix :: "string \<Rightarrow> string \<Rightarrow> string" where
  "drop_prefix p s = (if starts_with s p then drop (length p) s else s)"

definition canonicalFuturesInstrumentV1 :: "jsval \<Rightarrow> string" where
  "canonicalFuturesInstrumentV1 value =
     (let s = drop_prefix ''NYMEX:'' (drop_prefix ''CBOT:'' (drop_prefix ''CME:'' (drop_prefix ''CME_MINI:'' (js_upper value))))
      in if s = [] then []
         else case List.find (str_includes s) [''MNQ'', ''MES'', ''NQ'', ''ES'', ''ZC'', ''ZW''] of
             Some i \<Rightarrow> i
           | None \<Rightarrow> filter (\<lambda>c. is_upper_letter c \<or> is_digit c) s)"

definition instrumentContractSpecV1 :: "jsval \<Rightarrow> contract_spec option" where
  "instrumentContractSpecV1 instr = map_of FUTURES_INSTRUMENT_SPECS_V1 (canonicalFuturesInstrumentV1 instr)"

section \<open>Nodes of a plan\<close>

definition plan_number :: "jsval \<Rightarrow> jnum option" where
  "plan_number value = (if present value \<and> is_finite (to_num value) then Some (to_num value) else None)"

definition plan_round :: "jnum \<Rightarrow> jnum" where
  "plan_round v = round_digits v 4"

definition roundCurrency :: "jnum \<Rightarrow> jnum" where
  "roundCurrency v = round_digits v 2"

definition plan_iso :: "host \<Rightarrow> jsval \<Rightarrow> string option" where
  "plan_iso H value = (case date_parse H (str_or_empty value) of None \<Rightarrow> None | Some t \<Rightarrow> to_iso t)"

definition unavailableNode :: "string \<Rightarrow> string \<Rightarrow> jsval" where
  "unavailableNode kind_name why = Obj [(''availability'', Str ''UNAVAILABLE''), (''reason_code'', Str why), (''kind'', Str kind_name)]"

definition tradePlanSource :: "jsval \<Rightarrow> jsobj" where
  "tradePlanSource input =
     (let nested = List.map_filter js_record [get input ''proposed_trade_plan'', get input ''proposedTradePlan'', get input ''trade_plan'',
          get input ''tradePlan'', get input ''protection'', get (get input ''payload'') ''proposed_trade_plan'', get (get input ''payload'') ''proposedTradePlan'']
      in spread (obj_or_empty input) (case nested of r # _ \<Rightarrow> r | [] \<Rightarrow> []))"

definition orderedZone :: "jsval \<Rightarrow> jsval \<Rightarrow> (jnum \<times> jnum) option" where
  "orderedZone l r = (case (plan_number l, plan_number r) of (Some a, Some b) \<Rightarrow> Some (jmin a b, jmax a b) | _ \<Rightarrow> None)"

definition normalizeZone :: "jsval \<Rightarrow> jsobj \<Rightarrow> (jnum \<times> jnum) option" where
  "normalizeZone value source = (case value of
       Arr (a # b # _) \<Rightarrow> orderedZone a b
     | Obj item \<Rightarrow> orderedZone (firstDefined [fget item ''low'', fget item ''min'', fget item ''from'', fget item ''lower''])
         (firstDefined [fget item ''high'', fget item ''max'', fget item ''to'', fget item ''upper''])
     | _ \<Rightarrow> orderedZone (firstDefined [fget source ''entry_zone_low'', fget source ''entryZoneLow'', fget source ''zone_low''])
         (firstDefined [fget source ''entry_zone_high'', fget source ''entryZoneHigh'', fget source ''zone_high'']))"

definition entry_node :: "string \<Rightarrow> jnum \<Rightarrow> (jnum \<times> jnum) option \<Rightarrow> jsval" where
  "entry_node type_name price zone = Obj [(''availability'', Str ''KNOWN''), (''type'', Str type_name), (''price'', Num price),
     (''low'', js_opt_num (map_option fst zone)), (''high'', js_opt_num (map_option snd zone)), (''calculation_price'', Num price)]"

definition normalizeEntry :: "jsobj \<Rightarrow> jsval" where
  "normalizeEntry source =
     (let s = fget source; structured = (case js_record (s ''entry'') of Some r \<Rightarrow> Obj r | None \<Rightarrow> Null);
          economics = (case js_record (s ''economics'') of Some r \<Rightarrow> Obj r | None \<Rightarrow> Null);
          price = plan_number (firstDefined [s ''entry_price'', s ''entryPrice'', get structured ''price'', get structured ''calculation_price'',
            get structured ''calculationPrice'', get economics ''entry_price'', get economics ''entryPrice'',
            if structured \<noteq> Null then Null else s ''entry'', s ''limit_price'', s ''limitPrice'']);
          zone = normalizeZone (firstDefined [s ''entry_zone'', s ''entryZone'', structured]) source
      in case (price, zone) of
           (Some p, _) \<Rightarrow> entry_node ''PRICE'' p zone
         | (None, Some (low, high)) \<Rightarrow> entry_node ''ZONE'' (plan_round (jdiv (jadd low high) (Fin 2))) zone
         | _ \<Rightarrow> unavailableNode ''entry'' ''ENTRY_UNAVAILABLE'')"

definition normalizePriceNode :: "jsval \<Rightarrow> string \<Rightarrow> jsval" where
  "normalizePriceNode value label =
     (case plan_number (case value of Obj r \<Rightarrow> firstDefined [fget r ''price'', fget r ''value''] | _ \<Rightarrow> value) of
        None \<Rightarrow> unavailableNode label (to_upper label @ ''_UNAVAILABLE'')
      | Some p \<Rightarrow> Obj [(''availability'', Str ''KNOWN''), (''price'', Num p)])"

definition target_label :: "nat \<Rightarrow> string" where
  "target_label index = CHR ''T'' # nat_str (int index + 1)"

definition normalizeTarget :: "jsval \<Rightarrow> nat \<Rightarrow> jsval" where
  "normalizeTarget value index =
     (let s = fget (case js_record value of Some r \<Rightarrow> r | None \<Rightarrow> [(''price'', value)]);
          price = plan_number (firstDefined [s ''price'', s ''target_price'', s ''targetPrice'', s ''value''])
      in Obj [(''availability'', Str (if price = None then ''UNAVAILABLE'' else ''KNOWN'')),
          (''label'', Str (js_text (firstDefined [s ''label'', s ''name'', Str (target_label index)]))), (''price'', js_opt_num price),
          (''expected_r'', js_opt_num (plan_number (firstDefined [s ''expected_r'', s ''expectedR'']))),
          (''reward_risk'', js_opt_num (plan_number (firstDefined [s ''reward_risk'', s ''rewardRisk''])))])"

definition normalizeImplicitTarget :: "jsobj \<Rightarrow> jsval list" where
  "normalizeImplicitTarget source =
     (case plan_number (firstDefined [fget source ''target_price'', fget source ''targetPrice'', fget source ''profit_target'', fget source ''profitTarget'']) of
        None \<Rightarrow> []
      | Some p \<Rightarrow> [normalizeTarget (Obj [(''label'', Str ''T1''), (''price'', Num p), (''expected_r'', fget source ''expected_r''),
          (''reward_risk'', fget source ''reward_risk'')]) 0])"

definition str_or_null :: "string \<Rightarrow> jsval" where
  "str_or_null s = (if s = [] then Null else Str s)"

definition normalizeInvalidation :: "jsobj \<Rightarrow> jsval" where
  "normalizeInvalidation source =
     (let s = fget source; r = fget (obj_or_empty (firstDefined [s ''invalidation'', s ''invalidation_condition'', s ''invalidationCondition'']));
          price = plan_number (firstDefined [s ''invalidation_price'', s ''invalidationPrice'', r ''price'']);
          condition = js_text (firstDefined [r ''condition'', s ''invalidation_condition'', s ''invalidationCondition'']);
          why = js_text (firstDefined [r ''reason_code'', r ''reasonCode'', s ''invalidation_reason_code'', s ''invalidationReasonCode''])
      in if price = None \<and> condition = [] \<and> (why = [] \<or> js_upper (r ''availability'') = ''UNAVAILABLE'')
         then unavailableNode ''invalidation'' (if why = [] then ''INVALIDATION_UNAVAILABLE'' else why)
         else Obj [(''availability'', Str ''KNOWN''), (''price'', js_opt_num price), (''condition'', str_or_null condition), (''reason_code'', str_or_null why)])"

definition normalizeSource :: "host \<Rightarrow> jsobj \<Rightarrow> jsval" where
  "normalizeSource H source =
     (let s = fget source; nested = fget (obj_or_empty (s ''source''))
      in Obj [(''kind'', Str (js_text (firstDefined [s ''source_kind'', s ''sourceKind'', nested ''kind'', nested ''source_kind'', nested ''sourceKind'', nested ''type'',
            if is_string (s ''source'') then s ''source'' else Undef, Str ''STRATEGY'']))),
          (''provenance'', case (js_record (s ''provenance''), js_record (nested ''provenance'')) of
             (Some r, _) \<Rightarrow> Obj r | (None, Some r) \<Rightarrow> Obj r | _ \<Rightarrow> Null),
          (''source_data_cutoff_utc'', js_opt_str (plan_iso H (firstDefined [s ''source_data_cutoff_utc'', s ''sourceDataCutoff'', s ''cutoff_at_utc'', s ''cutoffAtUtc'',
            nested ''source_data_cutoff_utc'', nested ''sourceDataCutoff''])))])"

definition unitsForSpec :: "contract_spec option \<Rightarrow> jsval" where
  "unitsForSpec spec = (case spec of None \<Rightarrow> unavailableNode ''units'' ''INSTRUMENT_SPEC_UNAVAILABLE''
     | Some c \<Rightarrow> Obj [(''availability'', Str ''KNOWN''), (''price'', Str ''INDEX_POINTS''), (''points'', Str ''INDEX_POINTS''), (''ticks'', Str ''TICKS''),
         (''tick_size'', Num (cs_tick_size c)), (''tick_value'', Num (cs_tick_value c)), (''point_value'', Num (cs_point_value c)), (''currency'', Str (cs_currency c))])"

section \<open>Issues\<close>

definition plan_issue :: "string \<Rightarrow> string \<Rightarrow> jsobj \<Rightarrow> jsobj" where
  "plan_issue c path extra = spread [(''code'', Str c), (''path'', Str path)] extra"

definition issue_code :: "jsobj \<Rightarrow> string" where
  "issue_code i = to_str (fget i ''code'')"

definition plan_normalizeDirection :: "jsval \<Rightarrow> jsval \<times> jsobj list" where
  "plan_normalizeDirection value =
     (let dir = js_upper value in if dir \<in> {''LONG'', ''SHORT'', ''FLAT''} then (Str dir, [])
      else (str_or_null dir, [plan_issue ''TRADE_PLAN_DIRECTION_INVALID'' ''direction'' [(''value'', value)]]))"

definition TRADE_PLAN_ORDER_TYPES_V1 :: "string list" where
  "TRADE_PLAN_ORDER_TYPES_V1 = [''MARKET'', ''LIMIT'', ''STOP_MARKET'', ''STOP_LIMIT'']"

definition TRADE_PLAN_TIME_IN_FORCE_V1 :: "string list" where
  "TRADE_PLAN_TIME_IN_FORCE_V1 = [''DAY'', ''GTC'', ''GTD'', ''IOC'', ''FOK'']"

definition normalizeOrderType :: "jsval \<Rightarrow> string \<times> jsobj list" where
  "normalizeOrderType value = (let t = js_upper (js_or value (Str ''LIMIT''))
     in (t, if t \<in> set TRADE_PLAN_ORDER_TYPES_V1 then [] else [plan_issue ''TRADE_PLAN_ORDER_TYPE_INVALID'' ''order_type'' [(''value'', value)]]))"

definition normalizeTimeInForce :: "jsval \<Rightarrow> string \<times> jsobj list" where
  "normalizeTimeInForce value = (let t = js_upper (js_or value (Str ''DAY''))
     in (t, if t \<in> set TRADE_PLAN_TIME_IN_FORCE_V1 then [] else [plan_issue ''TRADE_PLAN_TIME_IN_FORCE_INVALID'' ''time_in_force'' [(''value'', value)]]))"

definition availability_for :: "string list \<Rightarrow> string" where
  "availability_for codes = (if codes = [] then ''KNOWN''
     else if ''INSTRUMENT_UNAVAILABLE'' \<in> set codes \<or> ''ENTRY_UNAVAILABLE'' \<in> set codes \<or> ''STOP_UNAVAILABLE'' \<in> set codes then ''UNAVAILABLE'' else ''PARTIAL'')"

definition code_if :: "bool \<Rightarrow> string \<Rightarrow> string list" where
  "code_if b c = (if b then [c] else [])"

section \<open>Economics\<close>

definition targetDistancePoints :: "jsval \<Rightarrow> jnum option \<Rightarrow> jnum option \<Rightarrow> jnum option" where
  "targetDistancePoints dir entryPrice targetPrice = (case (entryPrice, targetPrice) of
       (Some e, Some t) \<Rightarrow> if dir = Str ''SHORT'' then Some (plan_round (jsub e t)) else if dir = Str ''LONG'' then Some (plan_round (jsub t e)) else None
     | _ \<Rightarrow> None)"

definition stopDirectionInvalid :: "jsval \<Rightarrow> jnum option \<Rightarrow> jnum option \<Rightarrow> bool" where
  "stopDirectionInvalid dir entryPrice stopPrice \<longleftrightarrow> (case (entryPrice, stopPrice) of
       (Some e, Some s) \<Rightarrow> if dir = Str ''LONG'' then jle e s else if dir = Str ''SHORT'' then jle s e else False
     | _ \<Rightarrow> False)"

definition or_number :: "jnum option \<Rightarrow> jnum option \<Rightarrow> jnum option" where
  "or_number a b = (case a of Some n \<Rightarrow> Some n | None \<Rightarrow> b)"

definition economics_target :: "jsval \<Rightarrow> jnum option \<Rightarrow> jnum option \<Rightarrow> contract_spec option \<Rightarrow> nat \<Rightarrow> jsval \<Rightarrow> jsval" where
  "economics_target dir entryPrice stopDistance spec index item =
     (let row = (if truthy (get item ''availability'') then item else normalizeTarget item index); r = get row; price = plan_number (r ''price'');
          dist = targetDistancePoints dir entryPrice price;
          ticks = (case (dist, spec) of (Some d, Some c) \<Rightarrow> Some (plan_round (jdiv (jabs d) (cs_tick_size c))) | _ \<Rightarrow> None);
          rewardRisk = (case (dist, stopDistance) of (Some d, Some s) \<Rightarrow> if truthy (Num s) \<and> jlt (Fin 0) d then Some (plan_round (jdiv d s)) else None | _ \<Rightarrow> None)
      in Obj [(''label'', Str (js_text (js_or (r ''label'') (Str (target_label index))))), (''price'', js_opt_num price),
          (''distance_points'', js_opt_num (map_option plan_round dist)), (''distance_ticks'', js_opt_num ticks),
          (''reward_risk'', js_opt_num (or_number (plan_number (firstDefined [r ''reward_risk'', r ''rewardRisk'', r ''expected_r'', r ''expectedR''])) rewardRisk)),
          (''expected_r'', js_opt_num (or_number (plan_number (firstDefined [r ''expected_r'', r ''expectedR''])) rewardRisk)),
          (''availability'', Str (if price = None \<or> rewardRisk = None then ''PARTIAL'' else ''KNOWN''))])"

definition has_length :: "jsval \<Rightarrow> bool" where
  "has_length v = (case v of Arr xs \<Rightarrow> xs \<noteq> [] | Str s \<Rightarrow> s \<noteq> [] | Obj fs \<Rightarrow> truthy (fget fs ''length'') | _ \<Rightarrow> False)"

record plan_economics =
  pe_instrument :: string
  pe_direction :: jsval
  pe_units :: jsval
  pe_entry :: "jnum option"
  pe_stop :: "jnum option"
  pe_distance :: "jnum option"
  pe_ticks :: "jnum option"
  pe_spec :: "contract_spec option"
  pe_risk :: "jnum option"
  pe_targets :: "jsval list"

definition own_or :: "jsval \<Rightarrow> string \<Rightarrow> jsval \<Rightarrow> jsval" where
  "own_or input k other = (if truthy (get (get input k) ''availability'') then get input k else other)"

definition economics_of :: "jsval \<Rightarrow> plan_economics" where
  "economics_of input =
     (let source = tradePlanSource input; s = fget source;
          instr = canonicalFuturesInstrumentV1 (firstDefined [get input ''instrument'', s ''instrument'']); spec = instrumentContractSpecV1 (Str instr);
          dir = fst (plan_normalizeDirection (firstDefined [get input ''direction'', s ''direction'']));
          entry_part = own_or input ''entry'' (normalizeEntry source);
          stop_part = own_or input ''stop'' (normalizePriceNode (firstDefined [s ''stop_price'', s ''stopPrice'', s ''stop'', s ''protective_stop'', s ''protectiveStop'']) ''stop'');
          entryPrice = plan_number (firstDefined [get entry_part ''price'', get entry_part ''calculation_price'', get input ''entry_price'', s ''entry_price'', s ''entryPrice'']);
          stopPrice = plan_number (firstDefined [get stop_part ''price'', get input ''stop_price'', s ''stop_price'', s ''stopPrice'']);
          dist = (case (entryPrice, stopPrice) of (Some e, Some p) \<Rightarrow> Some (plan_round (jabs (jsub e p))) | _ \<Rightarrow> None);
          ticks = (case (dist, spec) of (Some d, Some c) \<Rightarrow> Some (plan_round (jdiv d (cs_tick_size c))) | _ \<Rightarrow> None);
          rows = arr_or_empty (if has_length (get input ''targets'') then get input ''targets'' else firstDefined [s ''targets'', Arr []])
      in \<lparr>pe_instrument = instr, pe_direction = dir, pe_units = own_or input ''units'' (unitsForSpec spec), pe_entry = entryPrice, pe_stop = stopPrice,
          pe_distance = dist, pe_ticks = ticks, pe_spec = spec,
          pe_risk = (case (ticks, spec) of (Some n, Some c) \<Rightarrow> Some (roundCurrency (jmul n (cs_tick_value c))) | _ \<Rightarrow> None),
          pe_targets = List.map (\<lambda>(index, item). economics_target dir entryPrice dist spec index item) (enumerate 0 rows)\<rparr>)"

definition economics_codes :: "plan_economics \<Rightarrow> string list" where
  "economics_codes e = code_if (pe_instrument e = []) ''INSTRUMENT_UNAVAILABLE'' @ code_if (pe_spec e = None) ''INSTRUMENT_SPEC_UNAVAILABLE''
     @ code_if (pe_entry e = None) ''ENTRY_UNAVAILABLE'' @ code_if (pe_stop e = None) ''STOP_UNAVAILABLE'' @ code_if (pe_targets e = []) ''TARGETS_UNAVAILABLE''
     @ code_if (case pe_distance e of Some d \<Rightarrow> jle d (Fin 0) | None \<Rightarrow> False) ''STOP_DISTANCE_INVALID''
     @ code_if (stopDirectionInvalid (pe_direction e) (pe_entry e) (pe_stop e)) ''STOP_SIDE_INVALID''"

definition economics_fields :: "plan_economics \<Rightarrow> jsobj" where
  "economics_fields e =
     (let spec_num = (\<lambda>f. js_opt_num (map_option f (pe_spec e)))
      in [(''schema_version'', Str ''trade_plan_economics_v1''), (''availability'', Str (availability_for (economics_codes e))),
          (''instrument'', Str (pe_instrument e)), (''direction'', pe_direction e), (''units'', pe_units e), (''entry_price'', js_opt_num (pe_entry e)),
          (''stop_price'', js_opt_num (pe_stop e)), (''stop_distance_points'', js_opt_num (pe_distance e)), (''stop_distance_ticks'', js_opt_num (pe_ticks e)),
          (''tick_size'', spec_num cs_tick_size), (''tick_value'', spec_num cs_tick_value),
          (''currency'', Str (case pe_spec e of Some c \<Rightarrow> cs_currency c | None \<Rightarrow> ''UNAVAILABLE'')), (''risk_per_contract'', js_opt_num (pe_risk e)),
          (''targets'', Arr (pe_targets e)), (''reason_codes'', Arr (List.map Str (economics_codes e)))])"

definition computeTradePlanEconomicsV1 :: "host \<Rightarrow> jsval \<Rightarrow> jsobj" where
  "computeTradePlanEconomicsV1 H input =
     (let base = economics_fields (economics_of input) in base @ [(''economics_hash'', Str (js_hash H (Obj base)))])"

section \<open>The normal form\<close>

record plan_parts =
  pl_instrument :: string
  pl_direction :: jsval
  pl_order_type :: string
  pl_entry :: jsval
  pl_stop :: jsval
  pl_targets :: "jsval list"
  pl_tif :: string
  pl_invalidation :: jsval
  pl_source :: jsval
  pl_issues :: "jsobj list"

definition known_node :: "jsval \<Rightarrow> bool" where
  "known_node v \<longleftrightarrow> get v ''availability'' = Str ''KNOWN''"

definition issue_if :: "bool \<Rightarrow> jsobj \<Rightarrow> jsobj list" where
  "issue_if b i = (if b then [i] else [])"

definition plan_parts_of :: "host \<Rightarrow> jsval \<Rightarrow> plan_parts" where
  "plan_parts_of H input =
     (let source = tradePlanSource input; s = fget source;
          instr = canonicalFuturesInstrumentV1 (firstDefined [get input ''instrument'', s ''instrument'']); spec = instrumentContractSpecV1 (Str instr);
          dir = plan_normalizeDirection (firstDefined [get input ''direction'', s ''direction'']);
          entry_part = normalizeEntry source;
          stop_part = normalizePriceNode (firstDefined [s ''stop_price'', s ''stopPrice'', s ''stop'', s ''protective_stop'', s ''protectiveStop'']) ''stop'';
          rawTargets = arr_or_empty (firstDefined [s ''targets'', s ''target_prices'', s ''targetPrices'']);
          targets = (if rawTargets \<noteq> [] then List.map (\<lambda>(index, item). normalizeTarget item index) (enumerate 0 rawTargets) else normalizeImplicitTarget source);
          orderType = normalizeOrderType (firstDefined [s ''order_type'', s ''orderType'', s ''type'']);
          tif = normalizeTimeInForce (firstDefined [s ''time_in_force'', s ''timeInForce'', s ''tif''])
      in \<lparr>pl_instrument = instr, pl_direction = fst dir, pl_order_type = fst orderType, pl_entry = entry_part, pl_stop = stop_part, pl_targets = targets,
          pl_tif = fst tif, pl_invalidation = normalizeInvalidation source, pl_source = normalizeSource H source,
          pl_issues = snd dir @ snd orderType @ snd tif @ issue_if (instr = []) (plan_issue ''INSTRUMENT_UNAVAILABLE'' ''instrument'' [])
            @ issue_if (spec = None) (plan_issue ''INSTRUMENT_SPEC_UNAVAILABLE'' ''instrument'' [(''instrument'', Str instr)])
            @ issue_if (\<not> known_node entry_part) (plan_issue ''ENTRY_UNAVAILABLE'' ''entry'' [])
            @ issue_if (\<not> known_node stop_part) (plan_issue ''STOP_UNAVAILABLE'' ''stop'' [])
            @ issue_if (targets = []) (plan_issue ''TARGETS_UNAVAILABLE'' ''targets'' [])\<rparr>)"

definition plan_fields :: "plan_parts \<Rightarrow> jsobj" where
  "plan_fields p =
     (let spec = instrumentContractSpecV1 (Str (pl_instrument p)); codes = List.map issue_code (pl_issues p)
      in [(''schema_version'', Str ''strategy_signal_trade_plan_v1''), (''availability'', Str (availability_for codes)), (''instrument'', Str (pl_instrument p)),
          (''instrument_contract'', case spec of Some c \<Rightarrow> Obj [(''instrument'', Str (cs_instrument c)), (''source'', Str (cs_source c))]
             | None \<Rightarrow> unavailableNode ''instrument_contract'' ''INSTRUMENT_SPEC_UNAVAILABLE''),
          (''direction'', pl_direction p), (''order_type'', Str (pl_order_type p)), (''entry'', pl_entry p), (''stop'', pl_stop p), (''targets'', Arr (pl_targets p)),
          (''time_in_force'', Str (pl_tif p)), (''invalidation'', pl_invalidation p), (''units'', unitsForSpec spec), (''source'', pl_source p),
          (''reason_codes'', Arr (List.map Str codes))])"

definition plan_of :: "host \<Rightarrow> plan_parts \<Rightarrow> jsobj" where
  "plan_of H p =
     (let fields = plan_fields p; economics = computeTradePlanEconomicsV1 H (Obj fields)
      in fields @ [(''economics'', Obj economics), (''plan_hash'', Str (js_hash H (Obj (fields @ [(''economics_hash'', fget economics ''economics_hash'')]))))])"

record normal_plan =
  np_ok :: bool
  np_issues :: "jsobj list"
  np_plan :: jsobj
  np_economics :: jsobj

definition normalizeProposedTradePlanV1 :: "host \<Rightarrow> jsval \<Rightarrow> normal_plan" where
  "normalizeProposedTradePlanV1 H input =
     (let p = plan_parts_of H input; plan = plan_of H p
      in \<lparr>np_ok = (fget plan ''availability'' = Str ''KNOWN''), np_issues = pl_issues p, np_plan = plan, np_economics = obj_or_empty (fget plan ''economics'')\<rparr>)"

section \<open>Plans with known economics\<close>

lemma availability_KnownD: "availability_for codes = ''KNOWN'' \<Longrightarrow> codes = []"
  by (auto simp: availability_for_def split: if_splits)

lemma code_if_Nil [simp]: "code_if b c = [] \<longleftrightarrow> \<not> b"
  by (simp add: code_if_def)

lemma round_digits_not_NaN: "v \<noteq> NaN \<Longrightarrow> round_digits v 4 \<noteq> NaN"
  using round_digits_mono[of v v] jle_refl[of v] by auto

lemma plan_number_finite: "plan_number v = Some n \<Longrightarrow> is_finite n"
  by (auto simp: plan_number_def split: if_splits)

lemma plan_number_Num [simp]: "is_finite n \<Longrightarrow> plan_number (Num n) = Some n"
  and plan_number_Null [simp]: "plan_number Null = None" "plan_number Undef = None"
  by (simp_all add: plan_number_def present_def)

lemma is_finiteE: "is_finite n \<Longrightarrow> (\<And>r. n = Fin r \<Longrightarrow> P) \<Longrightarrow> P"
  by (cases n) auto

lemma distance_not_NaN: "is_finite e \<Longrightarrow> is_finite s \<Longrightarrow> plan_round (jabs (jsub e s)) \<noteq> NaN"
proof -
  assume "is_finite e" "is_finite s"
  then have "jsub e s \<noteq> NaN" by (elim is_finiteE) (simp add: jsub_def)
  then have "jabs (jsub e s) \<noteq> NaN" by (cases "jsub e s") simp_all
  then show ?thesis unfolding plan_round_def by (rule round_digits_not_NaN)
qed

lemma economics_parts:
  assumes "pe_entry (economics_of input) = Some e" and "pe_stop (economics_of input) = Some s"
  shows "is_finite e" "is_finite s" "pe_distance (economics_of input) = Some (plan_round (jabs (jsub e s)))"
  using assms plan_number_finite unfolding economics_of_def Let_def by auto

text \<open>
  C27. C. Economics that are known are those of a listed contract, with an entry and a stop on the side of the direction, a
  positive distance between them, a risk per contract and at least one target.
\<close>

theorem known_economics_sound:
  assumes "fget (computeTradePlanEconomicsV1 H input) ''availability'' = Str ''KNOWN''"
  shows "\<exists>c e s d r. map_of FUTURES_INSTRUMENT_SPECS_V1 (canonicalFuturesInstrumentV1 (Str (pe_instrument (economics_of input)))) = Some c
    \<and> pe_entry (economics_of input) = Some e \<and> pe_stop (economics_of input) = Some s
    \<and> (pe_direction (economics_of input) = Str ''LONG'' \<longrightarrow> jlt s e) \<and> (pe_direction (economics_of input) = Str ''SHORT'' \<longrightarrow> jlt e s)
    \<and> pe_distance (economics_of input) = Some d \<and> jlt (Fin 0) d \<and> pe_risk (economics_of input) = Some r \<and> pe_targets (economics_of input) \<noteq> []"
proof -
  let ?e = "economics_of input"
  have "availability_for (economics_codes ?e) = ''KNOWN''"
    using assms by (simp add: computeTradePlanEconomicsV1_def economics_fields_def Let_def)
  then have none: "economics_codes ?e = []" by (rule availability_KnownD)
  then obtain c e s where some: "pe_spec ?e = Some c" "pe_entry ?e = Some e" "pe_stop ?e = Some s" and targets: "pe_targets ?e \<noteq> []"
    by (auto simp: economics_codes_def)
  note fin = economics_parts[OF some(2,3)]
  have side: "\<not> stopDirectionInvalid (pe_direction ?e) (Some e) (Some s)" and dist: "\<not> jle (plan_round (jabs (jsub e s))) (Fin 0)"
    using none some fin(3) by (simp_all add: economics_codes_def)
  have "jlt (Fin 0) (plan_round (jabs (jsub e s)))"
    using dist distance_not_NaN[OF fin(1,2)] not_jlt[of "Fin 0" "plan_round (jabs (jsub e s))"] by auto
  moreover have "pe_direction ?e = Str ''LONG'' \<longrightarrow> jlt s e" "pe_direction ?e = Str ''SHORT'' \<longrightarrow> jlt e s"
    using side fin(1,2) by (auto simp: stopDirectionInvalid_def elim!: is_finiteE)
  moreover have "map_of FUTURES_INSTRUMENT_SPECS_V1 (canonicalFuturesInstrumentV1 (Str (pe_instrument ?e))) = Some c" "\<exists>r. pe_risk ?e = Some r"
    using some fin(3) unfolding economics_of_def Let_def by (auto simp: instrumentContractSpecV1_def)
  ultimately show ?thesis using some targets fin(3) by auto
qed

definition sample_plan :: jsval where
  "sample_plan = Obj [(''instrument'', Str ''MNQ''), (''direction'', Str ''LONG''), (''entry_price'', Num (Fin 100)), (''stop_price'', Num (Fin 99)),
     (''targets'', Arr [Num (Fin 102)])]"

lemma sample_source: "tradePlanSource sample_plan = [(''instrument'', Str ''MNQ''), (''direction'', Str ''LONG''), (''entry_price'', Num (Fin 100)),
    (''stop_price'', Num (Fin 99)), (''targets'', Arr [Num (Fin 102)])]"
  by code_simp

lemma sample_economics:
  "pe_instrument (economics_of sample_plan) = ''MNQ''" "pe_direction (economics_of sample_plan) = Str ''LONG''"
  "pe_entry (economics_of sample_plan) = Some (Fin 100)" "pe_stop (economics_of sample_plan) = Some (Fin 99)"
  "pe_spec (economics_of sample_plan) \<noteq> None" "pe_targets (economics_of sample_plan) \<noteq> []"
proof -
  have c: "canonicalFuturesInstrumentV1 (Str ''MNQ'') = ''MNQ''" "fst (plan_normalizeDirection (Str ''LONG'')) = Str ''LONG''"
    "instrumentContractSpecV1 (Str ''MNQ'') \<noteq> None" by code_simp+
  have g: "get sample_plan k = fget [(''instrument'', Str ''MNQ''), (''direction'', Str ''LONG''), (''entry_price'', Num (Fin 100)),
    (''stop_price'', Num (Fin 99)), (''targets'', Arr [Num (Fin 102)])] k" for k by (simp add: sample_plan_def)
  show "pe_instrument (economics_of sample_plan) = ''MNQ''" "pe_direction (economics_of sample_plan) = Str ''LONG''" "pe_spec (economics_of sample_plan) \<noteq> None"
    using c by (simp_all add: economics_of_def sample_source g firstDefined_Cons present_def Let_def)
  show "pe_entry (economics_of sample_plan) = Some (Fin 100)" "pe_stop (economics_of sample_plan) = Some (Fin 99)"
    by (simp_all add: economics_of_def sample_source g own_or_def normalizeEntry_def normalizePriceNode_def normalizeZone_def orderedZone_def entry_node_def
        js_record_def firstDefined_Cons present_def Let_def)
  show "pe_targets (economics_of sample_plan) \<noteq> []"
    by (simp add: economics_of_def g has_length_def Let_def)
qed

theorem known_economics_sound_witness:
  "\<exists>d. pe_distance (economics_of sample_plan) = Some d \<and> jlt (Fin 0) d"
proof -
  have "plan_round (jabs (jsub (Fin 100) (Fin 99))) = Fin 1"
    using round_digits_int[of 1] by (simp add: plan_round_def jsub_def)
  then have "pe_distance (economics_of sample_plan) = Some (Fin 1)" using economics_parts(3)[OF sample_economics(3,4)] by simp
  then have "economics_codes (economics_of sample_plan) = []"
    using sample_economics by (simp add: economics_codes_def stopDirectionInvalid_def)
  then have "fget (computeTradePlanEconomicsV1 sample_host sample_plan) ''availability'' = Str ''KNOWN''"
    by (simp add: computeTradePlanEconomicsV1_def economics_fields_def availability_for_def Let_def)
  from known_economics_sound[OF this] show ?thesis by blast
qed

section \<open>Normalising a normal plan\<close>

lemma plan_number_js: "(\<And>n. x = Some n \<Longrightarrow> is_finite n) \<Longrightarrow> plan_number (js_opt_num x) = x"
  by (cases x) simp_all

lemma present_simps [simp]: "present (Obj fs)" "present (Arr xs)" "present (Num n)" "present (Str s) \<longleftrightarrow> s \<noteq> []" "\<not> present Null" "\<not> present Undef"
  by (simp_all add: present_def)

lemma firstDefined_opt: "firstDefined [js_opt_num x, Undef, Undef, Undef] = js_opt_num x" "firstDefined [js_opt_num x, Undef] = js_opt_num x"
  by (cases x; simp add: firstDefined_Cons)+

definition target_node :: "string \<Rightarrow> jnum option \<Rightarrow> jnum option \<Rightarrow> jnum option \<Rightarrow> jsval" where
  "target_node l p e r = Obj [(''availability'', Str (if p = None then ''UNAVAILABLE'' else ''KNOWN'')), (''label'', Str l), (''price'', js_opt_num p),
     (''expected_r'', js_opt_num e), (''reward_risk'', js_opt_num r)]"

lemma target_form:
  "\<exists>l p e r. normalizeTarget v i = target_node l p e r \<and> trim l = l \<and> plan_number (js_opt_num p) = p \<and> plan_number (js_opt_num e) = e
     \<and> plan_number (js_opt_num r) = r"
proof -
  have "plan_number (js_opt_num (plan_number w)) = plan_number w" for w by (rule plan_number_js) (rule plan_number_finite)
  then show ?thesis unfolding normalizeTarget_def Let_def target_node_def by (intro exI conjI) (rule refl, simp_all)
qed

lemma target_again:
  assumes "get (normalizeTarget v i) ''label'' \<noteq> Str []"
  shows "normalizeTarget (normalizeTarget v i) j = normalizeTarget v i"
proof -
  from target_form[of v i] obtain l p e r where n: "normalizeTarget v i = target_node l p e r" and t: "trim l = l"
    and num: "plan_number (js_opt_num p) = p" "plan_number (js_opt_num e) = e" "plan_number (js_opt_num r) = r" by blast
  have "l \<noteq> []" using assms by (simp add: n target_node_def)
  with num t show ?thesis unfolding n normalizeTarget_def[of "target_node l p e r"]
    by (simp add: target_node_def js_record_def firstDefined_Cons[of "Str l"] firstDefined_opt Let_def)
qed

definition normal_targets :: "nat \<Rightarrow> jsval list \<Rightarrow> jsval list" where
  "normal_targets n raw = List.map (\<lambda>(index, item). normalizeTarget item index) (enumerate n raw)"

lemma targets_again:
  "list_all (\<lambda>t. get t ''label'' \<noteq> Str []) (normal_targets n raw) \<Longrightarrow> normal_targets n (normal_targets n raw) = normal_targets n raw"
  by (induction raw arbitrary: n) (simp_all add: normal_targets_def target_again)

lemma zone_again:
  "normalizeZone value source = zone \<Longrightarrow> orderedZone (js_opt_num (map_option fst zone)) (js_opt_num (map_option snd zone)) = zone"
proof (cases zone)
  case (Some ab)
  assume z: "normalizeZone value source = zone"
  obtain l r where "orderedZone l r = Some ab" using z Some by (auto simp: normalizeZone_def split: jsval.splits list.splits)
  then obtain x y where "plan_number l = Some x" "plan_number r = Some y" "ab = (jmin x y, jmax x y)"
    by (auto simp: orderedZone_def split: option.splits)
  then show ?thesis using Some plan_number_finite[of l x] plan_number_finite[of r y]
    by (auto simp: orderedZone_def jmin_def jmax_def elim!: is_finiteE)
qed (simp add: orderedZone_def)

lemma entry_form:
  "\<exists>w v. normalizeEntry source = (case (plan_number w, normalizeZone v source) of
       (Some p, _) \<Rightarrow> entry_node ''PRICE'' p (normalizeZone v source)
     | (None, Some (low, high)) \<Rightarrow> entry_node ''ZONE'' (plan_round (jdiv (jadd low high) (Fin 2))) (normalizeZone v source)
     | _ \<Rightarrow> unavailableNode ''entry'' ''ENTRY_UNAVAILABLE'')"
  unfolding normalizeEntry_def Let_def by (intro exI) (rule refl)

lemma entry_PRICE:
  assumes "get (normalizeEntry source) ''type'' = Str ''PRICE''"
  shows "\<exists>x v zone. normalizeEntry source = entry_node ''PRICE'' x zone \<and> is_finite x \<and> normalizeZone v source = zone"
proof -
  obtain w v where f: "normalizeEntry source = (case (plan_number w, normalizeZone v source) of
       (Some p, _) \<Rightarrow> entry_node ''PRICE'' p (normalizeZone v source)
     | (None, Some (low, high)) \<Rightarrow> entry_node ''ZONE'' (plan_round (jdiv (jadd low high) (Fin 2))) (normalizeZone v source)
     | _ \<Rightarrow> unavailableNode ''entry'' ''ENTRY_UNAVAILABLE'')" using entry_form by blast
  show ?thesis
  proof (cases "plan_number w")
    case None
    then have False using assms f by (auto simp: entry_node_def unavailableNode_def split: option.splits)
    then show ?thesis ..
  next
    case (Some p)
    then show ?thesis using f plan_number_finite by (intro exI[of _ p] exI[of _ v] exI[of _ "normalizeZone v source"]) auto
  qed
qed

text \<open>The fields an entry is read from when it is a node already\<close>

lemma entry_again:
  assumes e: "normalizeEntry source = entry_node ''PRICE'' x zone" and "is_finite x" and "normalizeZone v source = zone"
    and s: "fget fs ''entry'' = entry_node ''PRICE'' x zone" "fget fs ''entry_price'' = Undef" "fget fs ''entryPrice'' = Undef"
      "fget fs ''entry_zone'' = Undef" "fget fs ''entryZone'' = Undef"
  shows "normalizeEntry fs = normalizeEntry source"
proof -
  have f: "firstDefined [js_opt_num y, Undef, Undef, Undef] = js_opt_num y" for y by (cases y) (simp_all add: firstDefined_Cons)
  show ?thesis
    unfolding e normalizeEntry_def[of fs]
    using assms(2) zone_again[OF assms(3)]
    by (simp add: s entry_node_def js_record_def firstDefined_Cons[of Undef] firstDefined_Cons[of "Num x"] firstDefined_Cons[of "Obj u" for u] normalizeZone_def f Let_def)
qed

lemma stop_again:
  "known_node (normalizePriceNode value label) \<Longrightarrow> normalizePriceNode (normalizePriceNode value label) label = normalizePriceNode value label"
  using plan_number_finite
  by (auto simp: normalizePriceNode_def known_node_def unavailableNode_def firstDefined_Cons split: option.splits)

lemma js_text_str_or_null [simp]: "js_text (str_or_null s) = trim s"
  by (simp add: str_or_null_def js_text_def js_coalesce_def)

lemma str_or_null_first: "firstDefined [str_or_null s, Undef, Undef] = str_or_null s" "firstDefined [str_or_null s, Undef, Undef, Undef] = str_or_null s"
  by (simp_all add: str_or_null_def firstDefined_Cons)

definition invalidation_node :: "jnum option \<Rightarrow> string \<Rightarrow> string \<Rightarrow> jsval" where
  "invalidation_node price condition why = Obj [(''availability'', Str ''KNOWN''), (''price'', js_opt_num price), (''condition'', str_or_null condition),
     (''reason_code'', str_or_null why)]"

lemma invalidation_form:
  "(\<exists>why. normalizeInvalidation source = unavailableNode ''invalidation'' why \<and> trim why = why \<and> why \<noteq> [])
   \<or> (\<exists>price condition why. normalizeInvalidation source = invalidation_node price condition why \<and> plan_number (js_opt_num price) = price
        \<and> trim condition = condition \<and> trim why = why \<and> \<not> (price = None \<and> condition = [] \<and> why = []))"
proof -
  have n: "plan_number (js_opt_num (plan_number w)) = plan_number w" for w by (rule plan_number_js) (rule plan_number_finite)
  have "trim ''INVALIDATION_UNAVAILABLE'' = ''INVALIDATION_UNAVAILABLE''" by code_simp
  then show ?thesis unfolding normalizeInvalidation_def Let_def invalidation_node_def using n trim_js_text by (simp only: split: if_split) blast
qed

lemma invalidation_again:
  assumes "fget fs ''invalidation'' = normalizeInvalidation source"
    and u: "fget fs ''invalidation_condition'' = Undef" "fget fs ''invalidationCondition'' = Undef" "fget fs ''invalidation_price'' = Undef"
      "fget fs ''invalidationPrice'' = Undef" "fget fs ''invalidation_reason_code'' = Undef" "fget fs ''invalidationReasonCode'' = Undef"
  shows "normalizeInvalidation fs = normalizeInvalidation source"
proof -
  have up: "js_upper (Str ''UNAVAILABLE'') = ''UNAVAILABLE''" "js_upper (Str ''KNOWN'') = ''KNOWN''" by code_simp+
  have o: "firstDefined [Undef, Undef, js_opt_num x] = js_opt_num x" for x by (cases x) (simp_all add: firstDefined_Cons)
  consider (none) why where "normalizeInvalidation source = unavailableNode ''invalidation'' why" "trim why = why" "why \<noteq> []"
    | (some) price condition why where "normalizeInvalidation source = invalidation_node price condition why" "plan_number (js_opt_num price) = price"
        "trim condition = condition" "trim why = why" "\<not> (price = None \<and> condition = [] \<and> why = [])"
    using invalidation_form[of source] by blast
  then show ?thesis
  proof cases
    case none
    then show ?thesis using assms(1) unfolding normalizeInvalidation_def[of fs]
      by (simp add: u unavailableNode_def firstDefined_Cons up Let_def)
  next
    case some
    then show ?thesis using assms(1) unfolding normalizeInvalidation_def[of fs]
      by (auto simp: u invalidation_node_def firstDefined_Cons[of "Obj r" for r] str_or_null_first o up Let_def)
  qed
qed

lemma plan_iso_Some: "plan_iso H w = Some s \<Longrightarrow> s \<noteq> [] \<and> plan_iso H (Str s) = Some s"
proof -
  assume "plan_iso H w = Some s"
  then obtain t where t: "to_iso t = Some s" by (auto simp: plan_iso_def split: option.splits)
  then have "iso_parse s = Some t" by (rule iso_parse_to_iso)
  moreover have "iso_parse [] = None" by code_simp
  ultimately have "s \<noteq> []" by auto
  then show ?thesis using date_parse_to_iso[OF t, of H] t by (simp add: plan_iso_def)
qed

definition cutoff_of :: "jsval \<Rightarrow> jsval" where
  "cutoff_of source_part = get source_part ''source_data_cutoff_utc''"

lemma source_again:
  assumes "fget fs ''source'' = normalizeSource H source" and "get (normalizeSource H source) ''kind'' \<noteq> Str []"
    and "fget fs ''source_data_cutoff_utc'' = Null \<or> fget fs ''source_data_cutoff_utc'' = cutoff_of (normalizeSource H source)"
    and "legacy_date H [] = None"
    and u: "fget fs ''source_kind'' = Undef" "fget fs ''sourceKind'' = Undef" "fget fs ''provenance'' = Undef" "fget fs ''sourceDataCutoff'' = Undef"
      "fget fs ''cutoff_at_utc'' = Undef" "fget fs ''cutoffAtUtc'' = Undef"
  shows "normalizeSource H fs = normalizeSource H source"
proof -
  obtain k v q where f: "normalizeSource H source = Obj [(''kind'', Str k), (''provenance'', v), (''source_data_cutoff_utc'', js_opt_str q)]"
    and k: "trim k = k" and v: "v = Null \<or> (\<exists>r. v = Obj r)" and q: "\<And>s. q = Some s \<Longrightarrow> s \<noteq> [] \<and> plan_iso H (Str s) = Some s"
  proof -
    let ?k = "\<lambda>s n. js_text (firstDefined [s ''source_kind'', s ''sourceKind'', n ''kind'', n ''source_kind'', n ''sourceKind'', n ''type'',
        if is_string (s ''source'') then s ''source'' else Undef, Str ''STRATEGY''])"
      and ?v = "\<lambda>s n. case (js_record (s ''provenance''), js_record (n ''provenance'')) of (Some r, _) \<Rightarrow> Obj r | (None, Some r) \<Rightarrow> Obj r | _ \<Rightarrow> Null"
    show thesis
    proof (rule that[OF normalizeSource_def[of H source, unfolded Let_def]])
      show "trim (?k (fget source) (fget (obj_or_empty (fget source ''source'')))) = ?k (fget source) (fget (obj_or_empty (fget source ''source'')))"
        by (rule trim_js_text)
      show "?v (fget source) (fget (obj_or_empty (fget source ''source''))) = Null
          \<or> (\<exists>r. ?v (fget source) (fget (obj_or_empty (fget source ''source''))) = Obj r)"
        by (simp split: option.split)
    qed (rule plan_iso_Some)
  qed
  have "plan_iso H Null = None"
  proof -
    have "iso_parse [] = None" by code_simp
    then show ?thesis using assms(4) by (simp add: plan_iso_def date_parse_def)
  qed
  moreover have "k \<noteq> []" using assms(2) f by simp
  moreover have "js_record v = None \<and> v = Null \<or> (\<exists>r. js_record v = Some r \<and> v = Obj r)" using v by (auto simp: js_record_def)
  ultimately show ?thesis
    using assms(1,3) k q unfolding normalizeSource_def[of H fs] f
    by (cases q) (auto simp: u cutoff_of_def firstDefined_Cons js_record_def Let_def)
qed

lemma plan_parts_sel:
  "pl_instrument (plan_parts_of H x) = canonicalFuturesInstrumentV1 (firstDefined [get x ''instrument'', fget (tradePlanSource x) ''instrument''])"
  "pl_direction (plan_parts_of H x) = fst (plan_normalizeDirection (firstDefined [get x ''direction'', fget (tradePlanSource x) ''direction'']))"
  "pl_order_type (plan_parts_of H x) = fst (normalizeOrderType (firstDefined [fget (tradePlanSource x) ''order_type'', fget (tradePlanSource x) ''orderType'', fget (tradePlanSource x) ''type'']))"
  "pl_tif (plan_parts_of H x) = fst (normalizeTimeInForce (firstDefined [fget (tradePlanSource x) ''time_in_force'', fget (tradePlanSource x) ''timeInForce'', fget (tradePlanSource x) ''tif'']))"
  "pl_entry (plan_parts_of H x) = normalizeEntry (tradePlanSource x)"
  "pl_stop (plan_parts_of H x) = normalizePriceNode (firstDefined [fget (tradePlanSource x) ''stop_price'', fget (tradePlanSource x) ''stopPrice'', fget (tradePlanSource x) ''stop'',
     fget (tradePlanSource x) ''protective_stop'', fget (tradePlanSource x) ''protectiveStop'']) ''stop''"
  "pl_invalidation (plan_parts_of H x) = normalizeInvalidation (tradePlanSource x)" "pl_source (plan_parts_of H x) = normalizeSource H (tradePlanSource x)"
  by (simp_all add: plan_parts_of_def Let_def)

lemma plan_targets: "\<exists>raw. pl_targets (plan_parts_of H x) = normal_targets 0 raw"
proof -
  have "\<exists>raw. normalizeImplicitTarget source = normal_targets 0 raw" for source
    by (cases "plan_number (firstDefined [fget source ''target_price'', fget source ''targetPrice'', fget source ''profit_target'', fget source ''profitTarget''])")
      (auto simp: normalizeImplicitTarget_def normal_targets_def intro: exI[of _ "[]"] exI[of _ "[v]" for v])
  then show ?thesis by (auto simp: plan_parts_of_def normal_targets_def Let_def)
qed

lemma snd_order: "snd (normalizeOrderType v) = [] \<longleftrightarrow> fst (normalizeOrderType v) \<in> set TRADE_PLAN_ORDER_TYPES_V1"
  and snd_tif: "snd (normalizeTimeInForce v) = [] \<longleftrightarrow> fst (normalizeTimeInForce v) \<in> set TRADE_PLAN_TIME_IN_FORCE_V1"
  by (simp_all add: normalizeOrderType_def normalizeTimeInForce_def Let_def)

lemma snd_direction: "snd (plan_normalizeDirection v) = [] \<longleftrightarrow> js_upper v \<in> {''LONG'', ''SHORT'', ''FLAT''}"
  by (simp add: plan_normalizeDirection_def Let_def)

lemma fst_direction: "js_upper v \<in> {''LONG'', ''SHORT'', ''FLAT''} \<Longrightarrow> fst (plan_normalizeDirection v) = Str (js_upper v)"
  by (simp only: plan_normalizeDirection_def Let_def if_True fst_conv)

lemma no_issues:
  "pl_issues (plan_parts_of H x) = [] \<longleftrightarrow> js_upper (firstDefined [get x ''direction'', fget (tradePlanSource x) ''direction'']) \<in> {''LONG'', ''SHORT'', ''FLAT''}
     \<and> pl_order_type (plan_parts_of H x) \<in> set TRADE_PLAN_ORDER_TYPES_V1 \<and> pl_tif (plan_parts_of H x) \<in> set TRADE_PLAN_TIME_IN_FORCE_V1
     \<and> pl_instrument (plan_parts_of H x) \<noteq> [] \<and> instrumentContractSpecV1 (Str (pl_instrument (plan_parts_of H x))) \<noteq> None
     \<and> known_node (pl_entry (plan_parts_of H x)) \<and> known_node (pl_stop (plan_parts_of H x)) \<and> pl_targets (plan_parts_of H x) \<noteq> []"
  unfolding plan_parts_of_def Let_def
  by (simp only: plan_parts.select_convs append_is_Nil_conv snd_order snd_tif snd_direction issue_if_def) auto

definition PLAN_KEYS :: "string list" where
  "PLAN_KEYS = [''schema_version'', ''availability'', ''instrument'', ''instrument_contract'', ''direction'', ''order_type'', ''entry'', ''stop'', ''targets'',
     ''time_in_force'', ''invalidation'', ''units'', ''source'', ''reason_codes'', ''economics'', ''plan_hash'']"

lemma plan_get:
  "fget (plan_of H p) ''instrument'' = Str (pl_instrument p)" "fget (plan_of H p) ''direction'' = pl_direction p"
  "fget (plan_of H p) ''order_type'' = Str (pl_order_type p)" "fget (plan_of H p) ''entry'' = pl_entry p" "fget (plan_of H p) ''stop'' = pl_stop p"
  "fget (plan_of H p) ''targets'' = Arr (pl_targets p)" "fget (plan_of H p) ''time_in_force'' = Str (pl_tif p)"
  "fget (plan_of H p) ''invalidation'' = pl_invalidation p" "fget (plan_of H p) ''source'' = pl_source p"
  "fget (plan_of H p) ''availability'' = Str (availability_for (List.map issue_code (pl_issues p)))"
  by (simp_all add: plan_of_def plan_fields_def Let_def)

lemma plan_get_other: "k \<notin> set PLAN_KEYS \<Longrightarrow> fget (plan_of H p) k = Undef"
  by (simp add: plan_of_def plan_fields_def PLAN_KEYS_def Let_def)

text \<open>A normal plan with the instrument, the direction and the cutoff of its signal put back in\<close>

definition plan_again :: "jsobj \<Rightarrow> jsval \<Rightarrow> jsval \<Rightarrow> jsval \<Rightarrow> jsobj" where
  "plan_again plan instr dir cutoff = spread plan [(''instrument'', instr), (''direction'', dir), (''source_data_cutoff_utc'', cutoff)]"

lemma fget_again:
  "fget (plan_again plan i d c) k = (if k = ''source_data_cutoff_utc'' then c else if k = ''direction'' then d else if k = ''instrument'' then i else fget plan k)"
  by (simp add: plan_again_def spread_def)

lemma source_of_again: "tradePlanSource (Obj (plan_again (plan_of H p) i d c)) = plan_again (plan_of H p) i d c"
  by (simp add: tradePlanSource_def fget_again plan_get_other PLAN_KEYS_def js_record_def map_filter_simps spread_def Let_def)

lemma upper_missing: "\<not> present v \<Longrightarrow> js_upper v = []"
proof -
  assume "\<not> present v"
  moreover have "js_upper Undef = []" "js_upper Null = []" "js_upper (Str []) = []" by code_simp+
  ultimately show "js_upper v = []" by (auto simp: present_def)
qed

lemma canonical_missing: "\<not> present v \<Longrightarrow> canonicalFuturesInstrumentV1 v = []"
proof -
  assume "\<not> present v"
  moreover have "drop_prefix ''NYMEX:'' (drop_prefix ''CBOT:'' (drop_prefix ''CME:'' (drop_prefix ''CME_MINI:'' []))) = []" by code_simp
  ultimately show ?thesis by (simp add: canonicalFuturesInstrumentV1_def upper_missing Let_def)
qed

lemma order_again: "t \<in> set TRADE_PLAN_ORDER_TYPES_V1 \<Longrightarrow> t \<noteq> [] \<and> fst (normalizeOrderType (Str t)) = t"
  unfolding TRADE_PLAN_ORDER_TYPES_V1_def list.set by (elim insertE emptyE; simp only:; intro conjI; code_simp)

lemma tif_again: "t \<in> set TRADE_PLAN_TIME_IN_FORCE_V1 \<Longrightarrow> t \<noteq> [] \<and> fst (normalizeTimeInForce (Str t)) = t"
  unfolding TRADE_PLAN_TIME_IN_FORCE_V1_def list.set by (elim insertE emptyE; simp only:; intro conjI; code_simp)

lemma known_again:
  assumes "known_node (normalizePriceNode value label)"
  shows "present (normalizePriceNode value label)"
  using assms by (auto simp: normalizePriceNode_def unavailableNode_def known_node_def split: option.splits)

lemma parts_again:
  fixes H input
  defines "p \<equiv> plan_parts_of H input"
  assumes ok: "pl_issues p = []" and price: "get (pl_entry p) ''type'' = Str ''PRICE''" and labels: "list_all (\<lambda>t. get t ''label'' \<noteq> Str []) (pl_targets p)"
    and kind: "get (pl_source p) ''kind'' \<noteq> Str []" and i: "canonicalFuturesInstrumentV1 i = pl_instrument p" and d: "Str (js_upper d) = pl_direction p"
    and c: "c = Null \<or> c = cutoff_of (pl_source p)" and l: "legacy_date H [] = None"
  shows "plan_parts_of H (Obj (plan_again (plan_of H p) i d c)) = p"
proof -
  let ?fs = "plan_again (plan_of H p) i d c" and ?s = "tradePlanSource input"
  let ?q = "plan_parts_of H (Obj ?fs)"
  note facts = ok[unfolded p_def no_issues, folded p_def]
  note other = fget_again plan_get_other PLAN_KEYS_def
  have instr: "pl_instrument ?q = pl_instrument p"
    using i facts canonical_missing[of i] by (auto simp: plan_parts_sel source_of_again fget_again firstDefined_Cons)
  have up: "js_upper d \<in> {''LONG'', ''SHORT'', ''FLAT''}"
    using d facts fst_direction unfolding p_def plan_parts_sel by (metis jsval.inject(3))
  have fd: "firstDefined [d, d] = d" using up upper_missing[of d] by (auto simp: firstDefined_Cons)
  have dir: "pl_direction ?q = pl_direction p"
    using fst_direction[OF up] d fd by (simp add: plan_parts_sel source_of_again fget_again)
  have ty: "pl_order_type ?q = pl_order_type p"
    using order_again[of "pl_order_type p"] facts by (simp add: plan_parts_sel(3) source_of_again other plan_get firstDefined_Cons)
  have tif: "pl_tif ?q = pl_tif p"
    using tif_again[of "pl_tif p"] facts by (simp add: plan_parts_sel(4) source_of_again other plan_get firstDefined_Cons)
  have entry_eq: "pl_entry p = normalizeEntry ?s" by (simp add: p_def plan_parts_sel)
  from price obtain x v zone where e: "normalizeEntry ?s = entry_node ''PRICE'' x zone" "is_finite x" "normalizeZone v ?s = zone"
    using entry_PRICE[of ?s] unfolding entry_eq by blast
  have entry_same: "pl_entry ?q = pl_entry p"
    unfolding plan_parts_sel(5) source_of_again entry_eq
    by (rule entry_again[OF e]) (simp_all add: other plan_get entry_eq e)
  have stop_same: "pl_stop ?q = pl_stop p"
    using facts stop_again known_again unfolding p_def plan_parts_sel(6)
    by (simp add: source_of_again other plan_get firstDefined_Cons plan_parts_sel(6))
  obtain raw where raw: "pl_targets p = normal_targets 0 raw" using plan_targets unfolding p_def by blast
  have "pl_targets ?q = normal_targets 0 (pl_targets p)"
    using facts by (simp add: plan_parts_of_def[of H "Obj ?fs"] source_of_again other plan_get firstDefined_Cons normal_targets_def Let_def)
  then have targets: "pl_targets ?q = pl_targets p" using targets_again[of 0 raw] labels by (simp add: raw)
  have inv: "pl_invalidation ?q = pl_invalidation p"
    unfolding plan_parts_sel(7) source_of_again p_def
    by (rule invalidation_again) (simp_all add: other plan_get plan_parts_sel)
  have src: "pl_source ?q = pl_source p"
    unfolding plan_parts_sel(8) source_of_again p_def
    by (rule source_again) (use kind c l in \<open>simp_all add: other plan_get plan_parts_sel p_def\<close>)
  have "pl_issues ?q = []"
    using facts up fd unfolding no_issues instr ty tif entry_same stop_same targets by (simp add: source_of_again fget_again)
  then show ?thesis using ok instr dir ty tif entry_same stop_same targets inv src by (intro plan_parts.equality) simp_all
qed

lemma known_no_issues: "np_ok (normalizeProposedTradePlanV1 H x) \<longleftrightarrow> pl_issues (plan_parts_of H x) = []"
  using availability_KnownD by (auto simp: normalizeProposedTradePlanV1_def plan_get availability_for_def Let_def)

lemma plan_stable:
  assumes "np_ok (normalizeProposedTradePlanV1 H input)" and "legacy_date H [] = None"
    and "get (fget (np_plan (normalizeProposedTradePlanV1 H input)) ''entry'') ''type'' = Str ''PRICE''"
    and "list_all (\<lambda>t. get t ''label'' \<noteq> Str []) (arr_or_empty (fget (np_plan (normalizeProposedTradePlanV1 H input)) ''targets''))"
    and "get (fget (np_plan (normalizeProposedTradePlanV1 H input)) ''source'') ''kind'' \<noteq> Str []"
    and "Str (canonicalFuturesInstrumentV1 i) = fget (np_plan (normalizeProposedTradePlanV1 H input)) ''instrument''"
    and "Str (js_upper d) = fget (np_plan (normalizeProposedTradePlanV1 H input)) ''direction''"
    and "c = Null \<or> c = cutoff_of (fget (np_plan (normalizeProposedTradePlanV1 H input)) ''source'')"
  shows "normalizeProposedTradePlanV1 H (Obj (plan_again (np_plan (normalizeProposedTradePlanV1 H input)) i d c)) = normalizeProposedTradePlanV1 H input"
proof -
  have n: "np_plan (normalizeProposedTradePlanV1 H input) = plan_of H (plan_parts_of H input)"
    by (simp add: normalizeProposedTradePlanV1_def Let_def)
  have "plan_parts_of H (Obj (plan_again (plan_of H (plan_parts_of H input)) i d c)) = plan_parts_of H input"
    using assms unfolding n known_no_issues plan_get by (intro parts_again) (simp_all add: plan_get)
  then show ?thesis unfolding n by (simp add: normalizeProposedTradePlanV1_def[of H "Obj u" for u] normalizeProposedTradePlanV1_def[of H input] Let_def)
qed

text \<open>
  C26. C. Normalising is stable: a complete plan with an entry price, put through the normal form again with the instrument, the
  direction and the cutoff of its signal, comes out the same, its economics and both hashes included. Labels of targets and
  the kind of the source must not be blank, and the empty string is not a date.
\<close>

theorem normal_plan_is_stable:
  assumes "np_ok (normalizeProposedTradePlanV1 H input)" and "legacy_date H [] = None"
    and "get (fget (np_plan (normalizeProposedTradePlanV1 H input)) ''entry'') ''type'' = Str ''PRICE''"
    and "list_all (\<lambda>t. get t ''label'' \<noteq> Str []) (arr_or_empty (fget (np_plan (normalizeProposedTradePlanV1 H input)) ''targets''))"
    and "get (fget (np_plan (normalizeProposedTradePlanV1 H input)) ''source'') ''kind'' \<noteq> Str []"
    and "Str (canonicalFuturesInstrumentV1 i) = fget (np_plan (normalizeProposedTradePlanV1 H input)) ''instrument''"
    and "Str (js_upper d) = fget (np_plan (normalizeProposedTradePlanV1 H input)) ''direction''"
    and "c = Null \<or> c = cutoff_of (fget (np_plan (normalizeProposedTradePlanV1 H input)) ''source'')"
  shows "normalizeProposedTradePlanV1 H (Obj (plan_again (np_plan (normalizeProposedTradePlanV1 H input)) i d c)) = normalizeProposedTradePlanV1 H input"
  using assms by (rule plan_stable)

theorem normal_plan_is_stable_witness:
  "let N = normalizeProposedTradePlanV1 sample_host sample_plan
   in np_ok N \<and> normalizeProposedTradePlanV1 sample_host (Obj (plan_again (np_plan N) (Str ''CME_MINI:MNQ1!'') (Str '' long'') Null)) = N"
proof -
  let ?p = "plan_parts_of sample_host sample_plan"
  have n: "np_plan (normalizeProposedTradePlanV1 H u) = plan_of H (plan_parts_of H u)" for H u by (simp add: normalizeProposedTradePlanV1_def Let_def)
  have "pl_issues ?p = []" by code_simp
  moreover have "get (pl_entry ?p) ''type'' = Str ''PRICE''" by code_simp
  moreover have "list_all (\<lambda>t. get t ''label'' \<noteq> Str []) (pl_targets ?p)" by code_simp
  moreover have "get (pl_source ?p) ''kind'' \<noteq> Str []" by code_simp
  moreover have "canonicalFuturesInstrumentV1 (Str ''CME_MINI:MNQ1!'') = pl_instrument ?p" by code_simp
  moreover have "Str (js_upper (Str '' long'')) = pl_direction ?p" by code_simp
  moreover have "legacy_date sample_host [] = None" by (simp add: sample_host_def)
  ultimately show ?thesis
    using normal_plan_is_stable[of sample_host sample_plan "Str ''CME_MINI:MNQ1!''" "Str '' long''" Null]
    unfolding n plan_get known_no_issues by (simp add: known_no_issues n Let_def)
qed

section \<open>Zones and names\<close>

lemma entry_price_again:
  assumes "fget fs ''entry'' = Obj e" and "fget e ''price'' = Num (Fin r)" and "fget fs ''entry_price'' = Undef" "fget fs ''entryPrice'' = Undef"
  shows "get (normalizeEntry fs) ''type'' = Str ''PRICE''"
  using assms by (simp add: normalizeEntry_def js_record_def firstDefined_Cons entry_node_def Let_def)

text \<open>
  C38. C. A plan with an entry zone is not stable: put through the normal form again, the entry of type \<open>ZONE\<close> becomes one
  of type \<open>PRICE\<close>, so that the plan, and what its hash is computed from, is another one.
\<close>

theorem zone_plan_is_not_stable:
  assumes "get (fget (np_plan (normalizeProposedTradePlanV1 H input)) ''entry'') ''type'' = Str ''ZONE''"
    and "get (fget (np_plan (normalizeProposedTradePlanV1 H input)) ''entry'') ''price'' = Num (Fin r)"
  shows "get (fget (np_plan (normalizeProposedTradePlanV1 H (Obj (plan_again (np_plan (normalizeProposedTradePlanV1 H input)) i d c)))) ''entry'') ''type'' = Str ''PRICE''"
proof -
  let ?p = "plan_parts_of H input"
  have n: "np_plan (normalizeProposedTradePlanV1 H u) = plan_of H (plan_parts_of H u)" for u by (simp add: normalizeProposedTradePlanV1_def Let_def)
  obtain e where e: "pl_entry ?p = Obj e" using assms(2) unfolding n plan_get by (cases "pl_entry ?p") auto
  then have "fget e ''price'' = Num (Fin r)" using assms(2) unfolding n plan_get by simp
  then show ?thesis unfolding n plan_get plan_parts_sel source_of_again
    by (intro entry_price_again[of _ e]) (simp_all add: fget_again plan_get e plan_get_other PLAN_KEYS_def)
qed

definition zone_plan :: jsval where
  "zone_plan = Obj [(''instrument'', Str ''MNQ''), (''direction'', Str ''LONG''), (''entry_zone'', Arr [Num (Fin 99), Num (Fin 101)]),
     (''stop_price'', Num (Fin 98)), (''targets'', Arr [Num (Fin 105)])]"

theorem zone_plan_is_not_stable_witness:
  "let N = normalizeProposedTradePlanV1 sample_host zone_plan
   in np_ok N \<and> get (fget (np_plan N) ''entry'') ''type'' = Str ''ZONE''
      \<and> get (fget (np_plan (normalizeProposedTradePlanV1 sample_host (Obj (plan_again (np_plan N) (Str ''MNQ'') (Str ''LONG'') Null)))) ''entry'') ''type'' = Str ''PRICE''"
proof -
  let ?p = "plan_parts_of sample_host zone_plan"
  have n: "np_plan (normalizeProposedTradePlanV1 H u) = plan_of H (plan_parts_of H u)" for H u by (simp add: normalizeProposedTradePlanV1_def Let_def)
  have "plan_round (jdiv (jadd (Fin 99) (Fin 101)) (Fin 2)) = Fin 100"
    using round_digits_int[of 100] by (simp add: plan_round_def)
  moreover have src: "tradePlanSource zone_plan = [(''instrument'', Str ''MNQ''), (''direction'', Str ''LONG''), (''entry_zone'', Arr [Num (Fin 99), Num (Fin 101)]),
     (''stop_price'', Num (Fin 98)), (''targets'', Arr [Num (Fin 105)])]" by code_simp
  ultimately have e: "pl_entry ?p = entry_node ''ZONE'' (Fin 100) (Some (Fin 99, Fin 101))"
    by (simp add: plan_parts_sel normalizeEntry_def normalizeZone_def orderedZone_def jmin_def jmax_def js_record_def firstDefined_Cons Let_def)
  have "pl_order_type ?p \<in> set TRADE_PLAN_ORDER_TYPES_V1" "pl_tif ?p \<in> set TRADE_PLAN_TIME_IN_FORCE_V1" "known_node (pl_stop ?p)"
    "js_upper (firstDefined [get zone_plan ''direction'', fget (tradePlanSource zone_plan) ''direction'']) \<in> {''LONG'', ''SHORT'', ''FLAT''}"
    "pl_instrument ?p \<noteq> []" "instrumentContractSpecV1 (Str (pl_instrument ?p)) \<noteq> None"
    unfolding plan_parts_sel src by code_simp+
  moreover have "pl_targets ?p \<noteq> []" by (simp add: plan_parts_of_def src firstDefined_Cons Let_def)
  moreover have "known_node (pl_entry ?p)" by (simp add: e known_node_def entry_node_def)
  ultimately have "pl_issues ?p = []" unfolding no_issues by blast
  then show ?thesis
    using zone_plan_is_not_stable[of sample_host zone_plan 100 "Str ''MNQ''" "Str ''LONG''" Null] e
    by (simp add: n plan_get known_no_issues entry_node_def Let_def)
qed

text \<open>Any name that contains the letters of a listed contract is taken for it.\<close>

lemma eurostoxx_is_taken_for_ES:
  "map_option cs_point_value (instrumentContractSpecV1 (Str ''EUREX:FESX1!'')) = Some (Fin 50)"
  by code_simp

end
