(* ===== verification/Signal_Selection.thy ===== *)
theory Signal_Selection
  imports Trade_Plan "HOL-Library.Multiset"
begin

text \<open>
  \<open>packages/desk-domain/src/portfolio-signal-selection-v1.js\<close>: which of the signals that compete for an account and an
  instrument may trade. Signals are the objects built by \<open>signalCore\<close> (\<open>Candidate_Allocation\<close>): their ids are
  strings. Shown: every id is selected or rejected, exactly once; at most one signal per account and instrument is selected,
  and only with a plan that is its own normal form; and a complete plan is not refused.
\<close>

section \<open>A complete signal\<close>

definition sig_text :: "jsobj \<Rightarrow> string \<Rightarrow> string" where
  "sig_text s k = str_or_empty (fget s k)"

definition economicsBody :: "jsobj \<Rightarrow> jsobj" where
  "economicsBody value = filter (\<lambda>(k, v). k \<noteq> ''economics_hash'') value"

definition positive_risk :: "jsobj \<Rightarrow> bool" where
  "positive_risk economics \<longleftrightarrow> (case fget economics ''risk_per_contract'' of Num n \<Rightarrow> is_finite n \<and> jlt (Fin 0) n | _ \<Rightarrow> False)"

definition sameCanonicalEconomics :: "host \<Rightarrow> jsval \<Rightarrow> jsobj \<Rightarrow> bool" where
  "sameCanonicalEconomics H supplied canonical \<longleftrightarrow> get supplied ''availability'' = Str ''KNOWN'' \<and> get supplied ''schema_version'' = Str ''trade_plan_economics_v1''
     \<and> strict_eq (get supplied ''economics_hash'') (fget canonical ''economics_hash'')
     \<and> canonicalSha256 H (Obj (economicsBody (obj_or_empty supplied))) = canonicalSha256 H (Obj (economicsBody canonical)) \<and> positive_risk canonical"

definition canonicalCompleteSignal :: "host \<Rightarrow> jsobj \<Rightarrow> jsobj option" where
  "canonicalCompleteSignal H signal =
     (case fget signal ''proposed_trade_plan'' of
        Obj plan \<Rightarrow> if fget plan ''schema_version'' \<noteq> Str ''strategy_signal_trade_plan_v1'' then None
          else (let normalized = normalizeProposedTradePlanV1 H (Obj (plan_again plan (fget signal ''instrument'') (fget signal ''direction'')
              (fget signal ''source_data_cutoff_utc'')))
            in if \<not> np_ok normalized \<or> \<not> strict_eq (fget (np_plan normalized) ''plan_hash'') (fget plan ''plan_hash'') then None
               else if \<not> sameCanonicalEconomics H (fget signal ''trade_plan_economics'') (np_economics normalized) then None
               else if truthy (fget plan ''economics'') \<and> \<not> sameCanonicalEconomics H (fget plan ''economics'') (np_economics normalized) then None
               else Some (spread signal [(''proposed_trade_plan'', Obj (np_plan normalized)), (''trade_plan_economics'', Obj (np_economics normalized))]))
      | _ \<Rightarrow> None)"

section \<open>Rejections\<close>

record rejected_signal =
  rj_signal :: string
  rj_code :: string
  rj_policy :: string
  rj_selected :: "string option"
  rj_details :: jsobj

definition rejection :: "jsobj \<Rightarrow> string \<Rightarrow> string option \<Rightarrow> string \<Rightarrow> jsobj \<Rightarrow> rejected_signal" where
  "rejection signal c selectedSignalId policy details = \<lparr>rj_signal = sig_text signal ''signal_id'', rj_code = c, rj_policy = policy,
     rj_selected = (case selectedSignalId of Some s \<Rightarrow> if s = [] then None else Some s | None \<Rightarrow> None), rj_details = details\<rparr>"

definition rejection_js :: "rejected_signal \<Rightarrow> jsval" where
  "rejection_js r = Obj [(''signal_id'', Str (rj_signal r)),
     (''issues'', Arr [Obj (spread [(''code'', Str (rj_code r)), (''field'', Str ''conflict_resolution''), (''selection_policy'', Str (rj_policy r)),
       (''selected_signal_id'', js_opt_str (rj_selected r))] (rj_details r))])]"

section \<open>Duplicates and groups\<close>

definition group_signals :: "(jsobj \<Rightarrow> string) \<Rightarrow> jsobj list \<Rightarrow> (string \<times> jsobj list) list" where
  "group_signals key signals = foldl (\<lambda>bs s. add_to_bucket (key s) s bs) [] signals"

definition signal_hashes :: "host \<Rightarrow> jsobj list \<Rightarrow> string list" where
  "signal_hashes H row = sort (uniq (List.map (\<lambda>s. canonicalSha256 H (Obj s)) row))"

definition deduplicateSignals :: "host \<Rightarrow> jsobj list \<Rightarrow> jsobj list \<times> rejected_signal list" where
  "deduplicateSignals H signals =
     (let rows = List.map snd (group_signals (\<lambda>s. sig_text s ''signal_id'') signals); one = (\<lambda>row. length (signal_hashes H row) = 1)
      in (List.map hd (filter one rows),
          List.map (\<lambda>row. rejection (hd row) ''PORTFOLIO_DUPLICATE_SIGNAL_DIVERGENT'' None ''BEST_COMPLETE_PLAN_V1''
              [(''duplicate_count'', js_count row), (''signal_hashes'', Arr (List.map Str (signal_hashes H row)))])
            (filter (\<lambda>row. \<not> one row) rows)))"

definition competition_key :: "jsobj \<Rightarrow> string" where
  "competition_key s = (case json (Arr [fget s ''account_id'', fget s ''instrument'']) of Some t \<Rightarrow> t | None \<Rightarrow> [])"

section \<open>The winner\<close>

definition signal_confidence :: "jsobj \<Rightarrow> jnum" where
  "signal_confidence s = (case fget s ''confidence'' of Num n \<Rightarrow> if is_finite n then n else NInf | _ \<Rightarrow> NInf)"

definition signal_time :: "host \<Rightarrow> jsobj \<Rightarrow> int option" where
  "signal_time H s = date_parse H (to_str (fget s ''generated_at_utc''))"

definition loses_to :: "host \<Rightarrow> jsobj \<Rightarrow> jsobj \<Rightarrow> bool" where
  "loses_to H l r =
     (if signal_confidence l \<noteq> signal_confidence r then jlt (signal_confidence l) (signal_confidence r)
      else case (signal_time H l, signal_time H r) of
          (Some a, Some b) \<Rightarrow> if a \<noteq> b then b < a else sig_text r ''signal_id'' < sig_text l ''signal_id''
        | _ \<Rightarrow> sig_text r ''signal_id'' < sig_text l ''signal_id'')"

definition group_winner :: "host \<Rightarrow> jsobj list \<Rightarrow> jsobj option" where
  "group_winner H signals = (case js_sort (loses_to H) (List.map_filter (canonicalCompleteSignal H) signals) of w # _ \<Rightarrow> Some w | [] \<Rightarrow> None)"

definition group_losers :: "host \<Rightarrow> jsobj list \<Rightarrow> rejected_signal list" where
  "group_losers H signals =
     (let winner = map_option (\<lambda>w. sig_text w ''signal_id'') (group_winner H signals)
      in List.map (\<lambda>s. rejection s (if canonicalCompleteSignal H s \<noteq> None then ''PORTFOLIO_COMPETING_SIGNAL_NOT_SELECTED'' else ''PORTFOLIO_TRADE_PLAN_INCOMPLETE'')
             winner ''BEST_COMPLETE_PLAN_V1'' [])
           (filter (\<lambda>s. Some (sig_text s ''signal_id'') \<noteq> winner) signals))"

definition selectPortfolioSignalsV1 :: "host \<Rightarrow> jsobj list \<Rightarrow> string \<Rightarrow> jsobj list \<times> rejected_signal list" where
  "selectPortfolioSignalsV1 H signals conflictResolution =
     (if conflictResolution = ''NET_BY_DIRECTION'' then (signals, [])
      else if conflictResolution \<noteq> ''BEST_COMPLETE_PLAN_V1''
      then ([], List.map (\<lambda>s. rejection s ''PORTFOLIO_SELECTION_POLICY_INVALID'' None conflictResolution []) signals)
      else let identity = deduplicateSignals H signals; groups = List.map snd (group_signals competition_key (fst identity))
        in (List.map_filter (group_winner H) groups,
            js_sort (\<lambda>a b. rj_signal b < rj_signal a) (snd identity @ concat (List.map (group_losers H) groups))))"

section \<open>Groups\<close>

lemma group_signals_snoc: "group_signals key (xs @ [x]) = add_to_bucket (key x) x (group_signals key xs)"
  by (simp add: group_signals_def)

lemma group_keys_distinct: "distinct (List.map fst (group_signals key xs))"
  by (induction xs rule: rev_induct) (simp_all add: group_signals_snoc add_to_bucket_distinct, simp add: group_signals_def)

lemma group_keys: "fst ` set (group_signals key xs) = key ` set xs"
  by (induction xs rule: rev_induct) (simp_all add: group_signals_snoc add_to_bucket_keys, simp add: group_signals_def)

lemma group_nonempty: "list_all (\<lambda>(k, row). row \<noteq> []) (group_signals key xs)"
  by (induction xs rule: rev_induct) (simp_all add: group_signals_snoc add_to_bucket_nonempty, simp add: group_signals_def)

lemma group_members: "(k, row) \<in> set (group_signals key xs) \<Longrightarrow> list_all (\<lambda>s. key s = k) row"
proof (induction xs arbitrary: k row rule: rev_induct)
  case (snoc x xs)
  then show ?case by (auto simp: group_signals_snoc dest!: add_to_bucket_items)
qed (simp add: group_signals_def)

lemma group_content: "mset (concat (List.map snd (group_signals key xs))) = mset xs"
  by (induction xs rule: rev_induct) (simp_all add: group_signals_snoc mset_add_to_bucket, simp add: group_signals_def)

lemma mset_map_filter_split: "mset (List.map f (filter P xs)) + mset (List.map f (filter (\<lambda>x. \<not> P x) xs)) = mset (List.map f xs)"
  by (induction xs) simp_all

lemma complete_spread:
  "canonicalCompleteSignal H s = Some w \<Longrightarrow> \<exists>plan economics. w = spread s [(''proposed_trade_plan'', plan), (''trade_plan_economics'', economics)]"
  by (auto simp: canonicalCompleteSignal_def Let_def split: jsval.splits if_splits)

lemma complete_keeps:
  assumes "canonicalCompleteSignal H s = Some w" and "k \<noteq> ''proposed_trade_plan''" "k \<noteq> ''trade_plan_economics''"
  shows "fget w k = fget s k"
  using complete_spread[OF assms(1)] assms(2,3) by (auto simp: spread_def)

lemma complete_id: "canonicalCompleteSignal H s = Some w \<Longrightarrow> sig_text w ''signal_id'' = sig_text s ''signal_id''"
  and complete_key: "canonicalCompleteSignal H s = Some w \<Longrightarrow> competition_key w = competition_key s"
  using complete_keeps by (simp_all add: sig_text_def competition_key_def)

lemma in_map_filter: "y \<in> set (List.map_filter f xs) \<longleftrightarrow> (\<exists>x \<in> set xs. f x = Some y)"
  by (force simp: map_filter_def)

lemma winner_complete: "group_winner H row = Some w \<Longrightarrow> \<exists>s \<in> set row. canonicalCompleteSignal H s = Some w"
proof -
  assume "group_winner H row = Some w"
  then have "w \<in> set (js_sort (loses_to H) (List.map_filter (canonicalCompleteSignal H) row))"
    by (auto simp: group_winner_def simp del: set_js_sort split: list.splits)
  then show ?thesis by (auto simp: map_filter_def)
qed

abbreviation signal_ids :: "jsobj list \<Rightarrow> string list" where
  "signal_ids \<equiv> List.map (\<lambda>s. sig_text s ''signal_id'')"

lemma rejection_id [simp]: "rj_signal (rejection s c w p d) = sig_text s ''signal_id''"
  by (simp add: rejection_def)

lemma remove_one:
  assumes "distinct xs" and "x \<in> set xs"
  shows "mset xs = add_mset x (mset (filter (\<lambda>y. y \<noteq> x) xs))"
proof -
  have "filter (\<lambda>y. y \<noteq> x) xs = remove1 x xs"
    using distinct_remove1_removeAll[OF assms(1), of x] by (simp add: removeAll_filter_not_eq eq_commute)
  then show ?thesis using assms(2) by (metis insert_DiffM mset_remove1 set_mset_mset)
qed

text \<open>A group is its winner and its losers.\<close>

lemma group_accounts:
  assumes "distinct (signal_ids row)"
  shows "mset (signal_ids (case group_winner H row of Some w \<Rightarrow> [w] | None \<Rightarrow> [])) + mset (List.map rj_signal (group_losers H row)) = mset (signal_ids row)"
proof -
  have f: "List.map rj_signal (group_losers H row) = filter (\<lambda>i. Some i \<noteq> map_option (\<lambda>w. sig_text w ''signal_id'') (group_winner H row)) (signal_ids row)"
    by (simp add: group_losers_def comp_def filter_map Let_def)
  show ?thesis
  proof (cases "group_winner H row")
    case (Some w)
    then obtain s where "s \<in> set row" "canonicalCompleteSignal H s = Some w" using winner_complete by blast
    then have "sig_text w ''signal_id'' \<in> set (signal_ids row)" using complete_id by force
    from remove_one[OF assms this] show ?thesis unfolding f by (simp add: Some)
  qed (simp add: f)
qed

lemma groups_account:
  assumes "list_all (\<lambda>row. distinct (signal_ids row)) rows"
  shows "mset (signal_ids (List.map_filter (group_winner H) rows)) + mset (List.map rj_signal (concat (List.map (group_losers H) rows)))
    = mset (signal_ids (concat rows))"
  using assms
proof (induction rows)
  case (Cons row rows)
  then have "mset (signal_ids (case group_winner H row of Some w \<Rightarrow> [w] | None \<Rightarrow> [])) + mset (List.map rj_signal (group_losers H row)) = mset (signal_ids row)"
    by (intro group_accounts) simp
  with Cons show ?case by (cases "group_winner H row") (simp_all add: map_filter_simps ac_simps)
qed (simp add: map_filter_simps)

lemma dedup_accounts:
  "mset (signal_ids (fst (deduplicateSignals H signals))) + mset (List.map rj_signal (snd (deduplicateSignals H signals)))
    = mset (List.map fst (group_signals (\<lambda>s. sig_text s ''signal_id'') signals))"
proof -
  let ?g = "group_signals (\<lambda>s. sig_text s ''signal_id'') signals" and ?P = "\<lambda>row. length (signal_hashes H row) = 1"
  have "sig_text (hd row) ''signal_id'' = k" if "(k, row) \<in> set ?g" for k row
    using that group_nonempty[of "\<lambda>s. sig_text s ''signal_id''" signals] group_members[of k row "\<lambda>s. sig_text s ''signal_id''" signals]
    by (cases row) (auto simp: list_all_iff)
  then have all: "List.map (\<lambda>row. sig_text (hd row) ''signal_id'') (List.map snd ?g) = List.map fst ?g" by (auto intro!: map_cong)
  have "signal_ids (fst (deduplicateSignals H signals)) = List.map (\<lambda>row. sig_text (hd row) ''signal_id'') (filter ?P (List.map snd ?g))"
    "List.map rj_signal (snd (deduplicateSignals H signals)) = List.map (\<lambda>row. sig_text (hd row) ''signal_id'') (filter (\<lambda>row. \<not> ?P row) (List.map snd ?g))"
    by (simp_all add: deduplicateSignals_def comp_def Let_def)
  then show ?thesis
    using mset_map_filter_split[of "\<lambda>row. sig_text (hd row) ''signal_id''" ?P "List.map snd ?g"] unfolding all by (simp only:)
qed

lemma dedup_distinct: "distinct (signal_ids (fst (deduplicateSignals H signals)) @ List.map rj_signal (snd (deduplicateSignals H signals)))"
  using dedup_accounts[of H signals] group_keys_distinct[of "\<lambda>s. sig_text s ''signal_id''" signals]
  by (metis mset_append mset_eq_imp_distinct_iff)

section \<open>The selection\<close>

lemma selection_parts:
  "selectPortfolioSignalsV1 H signals ''BEST_COMPLETE_PLAN_V1'' =
     (let dd = deduplicateSignals H signals; rows = List.map snd (group_signals competition_key (fst dd))
      in (List.map_filter (group_winner H) rows, js_sort (\<lambda>a b. rj_signal b < rj_signal a) (snd dd @ concat (List.map (group_losers H) rows))))"
  by (simp add: selectPortfolioSignalsV1_def Let_def)

lemma group_ids: "mset (signal_ids (concat (List.map snd (group_signals key signals)))) = mset (signal_ids signals)"
  by (simp only: mset_map group_content)

lemma rows_distinct:
  assumes "distinct (signal_ids signals)"
  shows "list_all (\<lambda>row. distinct (signal_ids row)) (List.map snd (group_signals key signals))"
proof -
  let ?rows = "List.map snd (group_signals key signals)"
  have "distinct (signal_ids (concat ?rows))" using assms mset_eq_imp_distinct_iff[OF group_ids[of key signals]] by blast
  then have "distinct (concat (List.map signal_ids ?rows))" by (simp only: map_concat)
  then show ?thesis unfolding list_all_iff distinct_concat_iff by auto
qed

lemma selection_content:
  "let r = selectPortfolioSignalsV1 H signals ''BEST_COMPLETE_PLAN_V1''
   in mset (signal_ids (fst r)) + mset (List.map rj_signal (snd r)) = mset (List.map fst (group_signals (\<lambda>s. sig_text s ''signal_id'') signals))"
proof -
  let ?d = "deduplicateSignals H signals"
  let ?rows = "List.map snd (group_signals competition_key (fst ?d))"
  have "distinct (signal_ids (fst ?d))" using dedup_distinct[of H signals] by simp
  from groups_account[OF rows_distinct[OF this, of competition_key], of H]
  have "mset (signal_ids (List.map_filter (group_winner H) ?rows)) + mset (List.map rj_signal (concat (List.map (group_losers H) ?rows))) = mset (signal_ids (fst ?d))"
    by (simp only: group_ids)
  moreover have "mset (List.map rj_signal (js_sort c xs)) = mset (List.map rj_signal xs)" for c and xs :: "rejected_signal list"
    by (simp only: mset_map mset_js_sort)
  ultimately show ?thesis
    using dedup_accounts[of H signals] unfolding selection_parts Let_def fst_conv snd_conv by (simp only: map_append mset_append ac_simps)
qed

text \<open>
  C24. C. In a competition every signal is dealt with: the ids that are selected and the ids that are rejected are the ids of the
  signals, each of them once.
\<close>

theorem selection_accounts_for_signals:
  "let r = selectPortfolioSignalsV1 H signals ''BEST_COMPLETE_PLAN_V1''; ids = List.map (\<lambda>s. sig_text s ''signal_id'') (fst r) @ List.map rj_signal (snd r)
   in distinct ids \<and> set ids = (\<lambda>s. sig_text s ''signal_id'') ` set signals"
proof -
  let ?r = "selectPortfolioSignalsV1 H signals ''BEST_COMPLETE_PLAN_V1''" and ?g = "group_signals (\<lambda>s. sig_text s ''signal_id'') signals"
  let ?ids = "signal_ids (fst ?r) @ List.map rj_signal (snd ?r)"
  have m: "mset ?ids = mset (List.map fst ?g)" using selection_content[of H signals] by (simp add: Let_def)
  have "distinct ?ids" using mset_eq_imp_distinct_iff[OF m] group_keys_distinct by blast
  moreover have "set ?ids = fst ` set ?g" using arg_cong[OF m, of set_mset] by (simp only: set_mset_mset set_map)
  ultimately show ?thesis unfolding group_keys Let_def by blast
qed

lemma winners_distinct:
  assumes "distinct (List.map fst gs)" and "list_all (\<lambda>(k, row). list_all (\<lambda>s. competition_key s = k) row) gs"
  shows "distinct (List.map competition_key (List.map_filter (group_winner H) (List.map snd gs)))
    \<and> set (List.map competition_key (List.map_filter (group_winner H) (List.map snd gs))) \<subseteq> fst ` set gs"
  using assms
proof (induction gs)
  case (Cons g gs)
  obtain k row where g: "g = (k, row)" by (cases g)
  have "competition_key w = k" if "group_winner H row = Some w" for w
    using winner_complete[OF that] complete_key Cons.prems(2) by (auto simp: g list_all_iff)
  with Cons show ?case by (cases "group_winner H row") (auto simp: g map_filter_simps)
qed (simp add: map_filter_simps)

lemma dedup_origin: "s \<in> set (fst (deduplicateSignals H signals)) \<Longrightarrow> s \<in> set signals"
proof -
  assume s: "s \<in> set (fst (deduplicateSignals H signals))"
  obtain k row where "(k, row) \<in> set (group_signals (\<lambda>s. sig_text s ''signal_id'') signals)" "s = hd row"
    using s by (auto simp: deduplicateSignals_def Let_def)
  moreover from this have "hd row \<in> set row" using group_nonempty[of "\<lambda>s. sig_text s ''signal_id''" signals] by (auto simp: list_all_iff)
  ultimately have "s \<in> set (concat (List.map snd (group_signals (\<lambda>s. sig_text s ''signal_id'') signals)))" by force
  then show ?thesis using group_content[of "\<lambda>s. sig_text s ''signal_id''" signals] by (metis set_mset_mset)
qed

lemma selected_origin:
  assumes "w \<in> set (fst (selectPortfolioSignalsV1 H signals ''BEST_COMPLETE_PLAN_V1''))"
  shows "\<exists>s \<in> set signals. canonicalCompleteSignal H s = Some w"
proof -
  let ?g = "group_signals competition_key (fst (deduplicateSignals H signals))"
  have "w \<in> set (List.map_filter (group_winner H) (List.map snd ?g))" using assms unfolding selection_parts Let_def fst_conv .
  then obtain row where row: "row \<in> set (List.map snd ?g)" "group_winner H row = Some w" unfolding in_map_filter by blast
  then obtain s where s: "s \<in> set row" "canonicalCompleteSignal H s = Some w" using winner_complete by blast
  have "s \<in> set (concat (List.map snd ?g))" using row(1) s(1) by auto
  then have "s \<in> set (fst (deduplicateSignals H signals))"
    using group_content[of competition_key "fst (deduplicateSignals H signals)"] by (metis set_mset_mset)
  then show ?thesis using s(2) dedup_origin by blast
qed

text \<open>
  At most one signal for each account and instrument is selected, and every selected signal is one of the signals with
  its plan in normal form: nothing of it but the plan and its economics is changed, and its risk per contract is positive.
\<close>

theorem one_signal_per_instrument:
  "let selected = fst (selectPortfolioSignalsV1 H signals ''BEST_COMPLETE_PLAN_V1'')
   in distinct (List.map competition_key selected)
    \<and> list_all (\<lambda>w. list_ex (\<lambda>s. canonicalCompleteSignal H s = Some w) signals \<and> positive_risk (obj_or_empty (fget w ''trade_plan_economics''))) selected"
proof -
  let ?g = "group_signals competition_key (fst (deduplicateSignals H signals))"
  have "list_all (\<lambda>(k, row). list_all (\<lambda>s. competition_key s = k) row) ?g" using group_members by (auto simp: list_all_iff)
  from winners_distinct[OF group_keys_distinct this]
  have "distinct (List.map competition_key (fst (selectPortfolioSignalsV1 H signals ''BEST_COMPLETE_PLAN_V1'')))"
    unfolding selection_parts Let_def fst_conv by blast
  moreover have "positive_risk (obj_or_empty (fget w ''trade_plan_economics''))" if "canonicalCompleteSignal H s = Some w" for s w
    using that by (auto simp: canonicalCompleteSignal_def sameCanonicalEconomics_def spread_def Let_def split: jsval.splits if_splits)
  ultimately show ?thesis using selected_origin unfolding Let_def list_all_iff list_ex_iff by blast
qed

section \<open>Eligibility\<close>

text \<open>
  C25. C. A complete plan is not refused: a signal that carries a normal plan with an entry price, and the economics that go with
  it, is eligible when they are known and at risk, and its plan is left as it is.
\<close>

theorem complete_plan_is_eligible:
  assumes "np_ok (normalizeProposedTradePlanV1 H input)" and "legacy_date H [] = None"
    and "get (fget (np_plan (normalizeProposedTradePlanV1 H input)) ''entry'') ''type'' = Str ''PRICE''"
    and "list_all (\<lambda>t. get t ''label'' \<noteq> Str []) (arr_or_empty (fget (np_plan (normalizeProposedTradePlanV1 H input)) ''targets''))"
    and "get (fget (np_plan (normalizeProposedTradePlanV1 H input)) ''source'') ''kind'' \<noteq> Str []"
    and "Str (canonicalFuturesInstrumentV1 (fget s ''instrument'')) = fget (np_plan (normalizeProposedTradePlanV1 H input)) ''instrument''"
    and "Str (js_upper (fget s ''direction'')) = fget (np_plan (normalizeProposedTradePlanV1 H input)) ''direction''"
    and "fget s ''source_data_cutoff_utc'' = Null \<or> fget s ''source_data_cutoff_utc'' = cutoff_of (fget (np_plan (normalizeProposedTradePlanV1 H input)) ''source'')"
    and plan: "fget s ''proposed_trade_plan'' = Obj (np_plan (normalizeProposedTradePlanV1 H input))"
    and economics: "fget s ''trade_plan_economics'' = Obj (np_economics (normalizeProposedTradePlanV1 H input))"
    and known: "fget (np_economics (normalizeProposedTradePlanV1 H input)) ''availability'' = Str ''KNOWN''"
    and risk: "positive_risk (np_economics (normalizeProposedTradePlanV1 H input))"
  shows "\<exists>w. canonicalCompleteSignal H s = Some w \<and> fget w ''proposed_trade_plan'' = Obj (np_plan (normalizeProposedTradePlanV1 H input))"
proof -
  let ?N = "normalizeProposedTradePlanV1 H input"
  have again: "normalizeProposedTradePlanV1 H (Obj (plan_again (np_plan ?N) (fget s ''instrument'') (fget s ''direction'') (fget s ''source_data_cutoff_utc''))) = ?N"
    using assms(1-8) by (rule plan_stable)
  have schema: "fget (np_plan ?N) ''schema_version'' = Str ''strategy_signal_trade_plan_v1''"
    and hash: "\<exists>h. fget (np_plan ?N) ''plan_hash'' = Str h" and ec: "fget (np_plan ?N) ''economics'' = Obj (np_economics ?N)"
    by (simp_all add: normalizeProposedTradePlanV1_def plan_of_def plan_fields_def Let_def)
  have "fget (np_economics ?N) ''schema_version'' = Str ''trade_plan_economics_v1''" "\<exists>h. fget (np_economics ?N) ''economics_hash'' = Str h"
    by (simp_all add: normalizeProposedTradePlanV1_def plan_of_def plan_fields_def computeTradePlanEconomicsV1_def economics_fields_def Let_def)
  then have same: "sameCanonicalEconomics H (Obj (np_economics ?N)) (np_economics ?N)"
    using known risk by (auto simp: sameCanonicalEconomics_def)
  show ?thesis
    using hash unfolding canonicalCompleteSignal_def plan economics
    by (auto simp: again schema ec same assms(1) spread_def Let_def)
qed

lemma economics_of_plan:
  assumes "pl_entry p = entry_node ty (Fin x) zone" and "pl_stop p = Obj [(''availability'', Str ''KNOWN''), (''price'', Num (Fin y))]"
    and "pl_targets p \<noteq> []" and "pl_instrument p \<noteq> []" and "pl_direction p = Str d" "d \<noteq> []"
  shows "pe_entry (economics_of (Obj (plan_fields p))) = Some (Fin x)" "pe_stop (economics_of (Obj (plan_fields p))) = Some (Fin y)"
    "pe_targets (economics_of (Obj (plan_fields p))) \<noteq> []" "pe_instrument (economics_of (Obj (plan_fields p))) = canonicalFuturesInstrumentV1 (Str (pl_instrument p))"
    "pe_spec (economics_of (Obj (plan_fields p))) = instrumentContractSpecV1 (Str (canonicalFuturesInstrumentV1 (Str (pl_instrument p))))"
    "pe_direction (economics_of (Obj (plan_fields p))) = fst (plan_normalizeDirection (Str d))"
proof -
  have g: "get (Obj (plan_fields p)) ''instrument'' = Str (pl_instrument p)" "get (Obj (plan_fields p)) ''direction'' = Str d"
    "get (Obj (plan_fields p)) ''entry'' = entry_node ty (Fin x) zone" "get (Obj (plan_fields p)) ''stop'' = Obj [(''availability'', Str ''KNOWN''), (''price'', Num (Fin y))]"
    "get (Obj (plan_fields p)) ''targets'' = Arr (pl_targets p)"
    using assms by (simp_all add: plan_fields_def Let_def)
  show "pe_targets (economics_of (Obj (plan_fields p))) \<noteq> []"
    using assms(3) unfolding economics_of_def Let_def plan_economics.select_convs g by (cases "pl_targets p") (simp_all add: has_length_def)
  show "pe_entry (economics_of (Obj (plan_fields p))) = Some (Fin x)" "pe_stop (economics_of (Obj (plan_fields p))) = Some (Fin y)"
    unfolding economics_of_def Let_def plan_economics.select_convs own_or_def g by (simp_all add: entry_node_def firstDefined_Cons)
  show "pe_instrument (economics_of (Obj (plan_fields p))) = canonicalFuturesInstrumentV1 (Str (pl_instrument p))"
    "pe_spec (economics_of (Obj (plan_fields p))) = instrumentContractSpecV1 (Str (canonicalFuturesInstrumentV1 (Str (pl_instrument p))))"
    "pe_direction (economics_of (Obj (plan_fields p))) = fst (plan_normalizeDirection (Str d))"
    using assms(4,6) unfolding economics_of_def Let_def plan_economics.select_convs g by (simp_all add: firstDefined_Cons)
qed

definition sample_signal :: jsobj where
  "sample_signal = [(''instrument'', Str ''MNQ''), (''direction'', Str ''LONG''), (''source_data_cutoff_utc'', Null),
     (''proposed_trade_plan'', Obj (np_plan (normalizeProposedTradePlanV1 sample_host sample_plan))),
     (''trade_plan_economics'', Obj (np_economics (normalizeProposedTradePlanV1 sample_host sample_plan)))]"

lemma sample_np_economics:
  "np_economics (normalizeProposedTradePlanV1 H x) = computeTradePlanEconomicsV1 H (Obj (plan_fields (plan_parts_of H x)))"
  by (simp add: normalizeProposedTradePlanV1_def plan_of_def plan_fields_def Let_def)

lemma sample_signal_economics:
  "fget (np_economics (normalizeProposedTradePlanV1 sample_host sample_plan)) ''availability'' = Str ''KNOWN''"
  "positive_risk (np_economics (normalizeProposedTradePlanV1 sample_host sample_plan))"
proof -
  let ?p = "plan_parts_of sample_host sample_plan" and ?e = "economics_of (Obj (plan_fields (plan_parts_of sample_host sample_plan)))"
  have "pl_entry ?p = entry_node ''PRICE'' (Fin 100) None" "pl_stop ?p = Obj [(''availability'', Str ''KNOWN''), (''price'', Num (Fin 99))]"
    "pl_targets ?p \<noteq> []" "pl_instrument ?p = ''MNQ''" "pl_direction ?p = Str ''LONG''" by code_simp+
  note e = economics_of_plan[OF this(1-3), of "''LONG''", unfolded this(4,5), simplified]
  have spec: "instrumentContractSpecV1 (Str (canonicalFuturesInstrumentV1 (Str ''MNQ''))) = Some \<lparr>cs_instrument = ''MNQ'', cs_tick_size = Fin (1 / 4), cs_tick_value = Fin (1 / 2),
       cs_point_value = Fin 2, cs_currency = ''USD'', cs_source = ''CME Micro E-mini Nasdaq-100''\<rparr>"
    and dir: "fst (plan_normalizeDirection (Str ''LONG'')) = Str ''LONG''" and name: "canonicalFuturesInstrumentV1 (Str ''MNQ'') = ''MNQ''" by code_simp+
  have dist: "pe_distance ?e = Some (Fin 1)"
    using economics_parts(3)[OF e(1,2)] round_digits_int[of 1] by (simp add: plan_round_def jsub_def)
  then have codes: "economics_codes ?e = []" using e spec dir name by (simp add: economics_codes_def stopDirectionInvalid_def)
  then show "fget (np_economics (normalizeProposedTradePlanV1 sample_host sample_plan)) ''availability'' = Str ''KNOWN''"
    by (simp add: sample_np_economics computeTradePlanEconomicsV1_def economics_fields_def availability_for_def Let_def)
  have "pe_ticks ?e = (case (pe_distance ?e, pe_spec ?e) of (Some d, Some c) \<Rightarrow> Some (plan_round (jdiv d (cs_tick_size c))) | _ \<Rightarrow> None)"
    "pe_risk ?e = (case (pe_ticks ?e, pe_spec ?e) of (Some n, Some c) \<Rightarrow> Some (roundCurrency (jmul n (cs_tick_value c))) | _ \<Rightarrow> None)"
    unfolding economics_of_def Let_def plan_economics.select_convs by (rule refl)+
  moreover have "plan_round (jdiv (Fin 1) (Fin (1 / 4))) = Fin 4" using round_digits_int[of 4] by (simp add: plan_round_def)
  moreover have "\<lfloor>401 / 2 :: rat\<rfloor> = 200" by (rule floor_unique) simp_all
  then have "roundCurrency (jmul (Fin 4) (Fin (1 / 2))) = Fin 2" by (simp add: roundCurrency_def round_digits_def jpow_def jround_def)
  ultimately have "pe_risk ?e = Some (Fin 2)" using dist e(5) spec by simp
  then show "positive_risk (np_economics (normalizeProposedTradePlanV1 sample_host sample_plan))"
    by (simp add: sample_np_economics computeTradePlanEconomicsV1_def economics_fields_def positive_risk_def Let_def)
qed

theorem complete_plan_is_eligible_witness: "\<exists>w. canonicalCompleteSignal sample_host sample_signal = Some w"
proof -
  let ?p = "plan_parts_of sample_host sample_plan"
  have n: "np_plan (normalizeProposedTradePlanV1 H u) = plan_of H (plan_parts_of H u)" for H u by (simp add: normalizeProposedTradePlanV1_def Let_def)
  have "pl_issues ?p = []" by code_simp
  moreover have "get (pl_entry ?p) ''type'' = Str ''PRICE''" by code_simp
  moreover have "list_all (\<lambda>t. get t ''label'' \<noteq> Str []) (pl_targets ?p)" by code_simp
  moreover have "get (pl_source ?p) ''kind'' \<noteq> Str []" by code_simp
  moreover have "canonicalFuturesInstrumentV1 (Str ''MNQ'') = pl_instrument ?p" by code_simp
  moreover have "Str (js_upper (Str ''LONG'')) = pl_direction ?p" by code_simp
  moreover have "legacy_date sample_host [] = None" by (simp add: sample_host_def)
  ultimately have "\<exists>w. canonicalCompleteSignal sample_host sample_signal = Some w
     \<and> fget w ''proposed_trade_plan'' = Obj (np_plan (normalizeProposedTradePlanV1 sample_host sample_plan))"
    by (intro complete_plan_is_eligible)
      (simp_all add: sample_signal_def known_no_issues n plan_get sample_signal_economics)
  then show ?thesis by blast
qed

end
