(* ===== verification/Target_Position.thy ===== *)
theory Target_Position
  imports Domain_Helpers Domain_Result
begin

text \<open>
  \<open>packages/desk-domain/src/portfolio-target-position-v1.js\<close>: from the allocations of a portfolio and their risk
  evaluation to one net target position per account and instrument. Every allocation becomes a leg, which either
  carries the reason it is skipped or contributes its approved size. Allocations, signals, positions and evaluations
  are objects. Shown: no allocation is lost or counted twice, what a target is made of was authorised, and where
  the authorisation can be missed.
\<close>

section \<open>Numbers and directions\<close>

definition positiveOrZero :: "jsval \<Rightarrow> jnum" where
  "positiveOrZero value = (if is_finite (to_num value) \<and> jlt (Fin 0) (to_num value) then to_num value else Fin 0)"

definition target_numberOrNull :: "jsval \<Rightarrow> jnum option" where
  "target_numberOrNull value = (case value of
       Num n \<Rightarrow> if is_finite n then Some n else None
     | Str s \<Rightarrow> if s \<noteq> [] \<and> is_finite (to_number_str s) then Some (to_number_str s) else None
     | _ \<Rightarrow> None)"

definition size_round :: "jnum \<Rightarrow> jnum" where
  "size_round v = round_digits (if v = NaN then Fin 0 else v) 4"

definition directionFromSignedSize :: "jnum \<Rightarrow> string" where
  "directionFromSignedSize v = (if jlt (Fin 0) v then ''LONG'' else if jlt v (Fin 0) then ''SHORT'' else ''FLAT'')"

definition signedSize :: "string \<Rightarrow> jnum \<Rightarrow> jnum" where
  "signedSize dir size_value = (let magnitude = jabs (num_or_zero (Num size_value))
     in if dir = ''SHORT'' then jneg magnitude else if dir = ''LONG'' then magnitude else Fin 0)"

definition sum_sizes :: "jnum list \<Rightarrow> jnum" where
  "sum_sizes sizes = size_round (foldl jadd (Fin 0) sizes)"

text \<open>\<open>upper(firstDefined(v.net_direction, v.direction))\<close>\<close>

definition net_direction_of :: "jsval \<Rightarrow> string" where
  "net_direction_of v = js_upper (firstDefined [get v ''net_direction'', get v ''direction''])"

definition signal_direction_of :: "jsval \<Rightarrow> string" where
  "signal_direction_of v = js_upper (firstDefined [get v ''direction'', get v ''net_direction''])"

definition target_iso :: "host \<Rightarrow> jsval \<Rightarrow> string option" where
  "target_iso H value = (case date_parse H (str_or_empty value) of None \<Rightarrow> None | Some t \<Rightarrow> to_iso t)"

section \<open>The risk evaluation\<close>

record risk_view =
  rv_status :: string
  rv_hash :: string
  rv_rules :: string
  rv_available :: bool
  rv_evaluations :: "(string \<times> jsval) list"

definition RISK_UNAVAILABLE :: "string list" where
  "RISK_UNAVAILABLE = [''CONFIG_MISSING'', ''UNAVAILABLE'', ''ERROR'', ''FAILED'']"

definition normalizeRiskBudgetEvaluation :: "jsval \<Rightarrow> risk_view" where
  "normalizeRiskBudgetEvaluation value =
     (let source = fget (obj_or_empty value); rows = arr_or_empty (source ''allocation_evaluations'')
      in \<lparr>rv_status = js_upper (source ''status''),
          rv_hash = js_text (source ''evaluation_hash''),
          rv_rules = js_text (firstDefined [source ''rule_set_version'', get (source ''budget'') ''budget_hash'', get (source ''budget'') ''budget_id'']),
          rv_available = (rows \<noteq> [] \<and> js_upper (source ''status'') \<notin> set RISK_UNAVAILABLE),
          rv_evaluations = from_entries (List.map (\<lambda>row. (js_text (get row ''candidate_allocation_id''), row)) rows)\<rparr>)"

definition isNonExposureAllocation :: "jsval \<Rightarrow> bool" where
  "isNonExposureAllocation allocation \<longleftrightarrow> js_upper (get allocation ''status'') = ''NEUTRALIZED''
     \<or> net_direction_of allocation = ''FLAT'' \<or> positiveOrZero (get allocation ''proposed_size'') = Fin 0"

definition riskDecisionIssue :: "jsval \<Rightarrow> jsval option \<Rightarrow> risk_view \<Rightarrow> string" where
  "riskDecisionIssue allocation evaluation risk =
     (if isNonExposureAllocation allocation then []
      else case evaluation of
          None \<Rightarrow> if \<not> rv_available risk then ''GLOBAL_RISK_UNAVAILABLE'' else ''RISK_DECISION_MISSING''
        | Some e \<Rightarrow> (let status_name = js_upper (get e ''status'')
            in if status_name \<in> set RISK_UNAVAILABLE then ''GLOBAL_RISK_UNAVAILABLE''
               else if status_name = [] then ''RISK_DECISION_STATUS_MISSING'' else []))"

definition risk_status :: "jsval \<Rightarrow> jsval \<Rightarrow> jsval" where
  "risk_status allocation evaluation = firstDefined [get evaluation ''status'', get allocation ''status'', Str ''PASS'']"

definition approvedSize :: "jsval \<Rightarrow> jsval \<Rightarrow> jnum" where
  "approvedSize allocation evaluation =
     (if js_upper (risk_status allocation evaluation) \<in> {''BLOCK'', ''NEUTRALIZED''} then Fin 0
      else positiveOrZero (firstDefined [get evaluation ''approved_size'', get allocation ''approved_size'', get allocation ''proposed_size'']))"

definition riskDecisionRef :: "host \<Rightarrow> string \<Rightarrow> jsval \<Rightarrow> jnum \<Rightarrow> risk_view \<Rightarrow> string" where
  "riskDecisionRef H allocationId evaluation approved risk =
     (let explicit = js_text (firstDefined [get evaluation ''risk_decision_id'', get evaluation ''riskDecisionId''])
      in if explicit \<noteq> [] then explicit
         else ''riskeval:'' @ canonicalSha256 H (Obj [(''allocationId'', Str allocationId), (''approved'', Num approved),
           (''status'', js_or (get evaluation ''status'') (Str ''PASS'')), (''evaluation_hash'', Str (rv_hash risk))]))"

section \<open>Trade plans\<close>

definition proposedTradePlan :: "jsval \<Rightarrow> jsobj option" where
  "proposedTradePlan signal = js_record (firstDefined [get signal ''proposed_trade_plan'', get signal ''proposedTradePlan''])"

definition plan_directions :: "jsobj \<Rightarrow> string list" where
  "plan_directions plan = List.map js_upper (filter present [fget plan ''direction'', fget plan ''side'', get (fget plan ''economics'') ''direction''])"

definition signalPlanDirection :: "jsval \<Rightarrow> string" where
  "signalPlanDirection signal =
     (let dir = signal_direction_of signal;
          directions = plan_directions (case proposedTradePlan signal of Some p \<Rightarrow> p | None \<Rightarrow> [])
      in if dir \<in> {''LONG'', ''SHORT''} \<and> directions \<noteq> [] \<and> list_all (\<lambda>d. d \<in> {''LONG'', ''SHORT''}) directions
            \<and> length (uniq directions) = 1 \<and> hd directions = dir
         then dir else [])"

definition no_plan :: "string \<Rightarrow> string \<Rightarrow> jsobj" where
  "no_plan availability_name why = [(''availability'', Str availability_name), (''reason_code'', Str why)]"

definition known_plan :: "jsval list \<Rightarrow> jsobj list \<Rightarrow> jsobj \<Rightarrow> string \<Rightarrow> jnum \<Rightarrow> jsobj" where
  "known_plan planSignals plans plan netDirection approved =
     (let signal = (case planSignals of [] \<Rightarrow> Undef | s # _ \<Rightarrow> s)
      in [(''availability'', Str (if length plans = 1 \<and> fget plan ''availability'' = Str ''KNOWN'' then ''KNOWN'' else ''PARTIAL'')),
          (''source_signal_id'', Str (js_text (get signal ''signal_id''))),
          (''side'', Str (js_upper (firstDefined [fget plan ''direction'', Str netDirection]))),
          (''authorized_quantity'', Num (size_round approved)),
          (''order_type'', Str (js_text (firstDefined [fget plan ''order_type'', Str ''LIMIT'']))),
          (''entry'', js_or (fget plan ''entry'') Null), (''stop'', js_or (fget plan ''stop'') Null),
          (''targets'', Arr (arr_or_empty (fget plan ''targets''))),
          (''time_in_force'', Str (js_text (firstDefined [fget plan ''time_in_force'', Str ''DAY'']))),
          (''invalidation'', js_or (fget plan ''invalidation'') Null),
          (''economics'', js_or (fget plan ''economics'')
             (case js_record (firstDefined [get signal ''trade_plan_economics'', get signal ''tradePlanEconomics'']) of Some r \<Rightarrow> Obj r | None \<Rightarrow> Null)),
          (''immutable_after_risk'', Bool True),
          (''merge_policy'', Str (if length plans = 1 then ''SINGLE_SIGNAL'' else ''FIRST_SIGNAL_PARTIAL''))])"

definition approvedTradePlanForAllocation :: "jsval \<Rightarrow> jnum \<Rightarrow> jsobj" where
  "approvedTradePlanForAllocation allocation approved =
     (let signals = arr_or_empty (get allocation ''contributing_signals'');
          netDirection = net_direction_of allocation;
          signalsWithPlans = filter (\<lambda>s. proposedTradePlan s \<noteq> None) signals;
          planSignals = filter (\<lambda>s. signalPlanDirection s = netDirection) signalsWithPlans;
          plans = List.map_filter proposedTradePlan planSignals
      in if netDirection = ''FLAT'' then no_plan ''NOT_APPLICABLE'' ''FLAT_TARGET_NO_TRADE_PLAN''
         else if signalsWithPlans \<noteq> [] \<and> planSignals = []
         then no_plan ''UNAVAILABLE'' ''ALIGNED_TRADE_PLAN_REQUIRED'' @ [(''expected_direction'', Str netDirection)]
         else case plans of
             [] \<Rightarrow> no_plan ''UNAVAILABLE'' ''PROPOSED_TRADE_PLAN_UNAVAILABLE''
           | plan # _ \<Rightarrow> known_plan planSignals plans plan netDirection approved)"

section \<open>Legs\<close>

record strategy_row =
  sr_instance :: string
  sr_signal :: string
  sr_approved :: jnum
  sr_signed :: jnum

definition strategyBreakdown :: "jsval \<Rightarrow> jnum \<Rightarrow> strategy_row list" where
  "strategyBreakdown allocation approved =
     (let requested = jabs (case target_numberOrNull (get allocation ''net_size'') of Some n \<Rightarrow> n
            | None \<Rightarrow> signedSize (net_direction_of allocation) (positiveOrZero (get allocation ''proposed_size'')));
          approvalRatio = (if jlt (Fin 0) requested then jdiv approved requested else Fin 0)
      in List.map (\<lambda>signal.
           let signed = size_round (jmul (signedSize (signal_direction_of signal) (positiveOrZero (get signal ''proposed_size''))) approvalRatio)
           in \<lparr>sr_instance = js_text (get signal ''strategy_instance_id''), sr_signal = js_text (get signal ''signal_id''),
               sr_approved = jabs signed, sr_signed = signed\<rparr>) (arr_or_empty (get allocation ''contributing_signals'')))"

definition riskAllocationForEvaluation :: "jsval \<Rightarrow> jnum \<Rightarrow> string \<Rightarrow> jsobj" where
  "riskAllocationForEvaluation evaluation approved reference =
     (let authorized = (case js_record (get evaluation ''authorized'') of Some r \<Rightarrow> r | None \<Rightarrow> []);
          tradeRisk = (case js_record (get evaluation ''trade_risk'') of Some r \<Rightarrow> r
            | None \<Rightarrow> obj_or_empty (get (get evaluation ''risk_economics'') ''trade_risk''))
      in [(''availability'', js_or (fget authorized ''availability'') (js_or (fget tradeRisk ''availability'') (Str ''PARTIAL''))),
          (''risk_decision_id'', Str (js_text (Str reference))),
          (''risk_amount'', js_opt_num (target_numberOrNull (fget authorized ''risk_amount''))),
          (''risk_pct'', js_opt_num (target_numberOrNull (fget authorized ''risk_pct''))),
          (''risk_per_contract'', js_opt_num (target_numberOrNull (fget tradeRisk ''risk_per_contract''))),
          (''authorized_quantity'', Num (size_round approved)),
          (''risk_budget_id'', Str (js_text (firstDefined [get evaluation ''risk_budget_id'', get evaluation ''riskBudgetId''])))])"

definition allocationDirectionIssue :: "jsval \<Rightarrow> string" where
  "allocationDirectionIssue allocation =
     (let dir = net_direction_of allocation
      in if dir \<notin> {''LONG'', ''SHORT'', ''FLAT''} then ''ALLOCATION_DIRECTION_INVALID''
         else if \<not> present (get allocation ''net_size'') then []
         else case target_numberOrNull (get allocation ''net_size'') of
             None \<Rightarrow> ''ALLOCATION_NET_SIZE_INVALID''
           | Some netSize \<Rightarrow> if directionFromSignedSize netSize \<noteq> dir then ''ALLOCATION_DIRECTION_MISMATCH'' else [])"

definition allocationSkipReason :: "jsval \<Rightarrow> jnum \<Rightarrow> string \<Rightarrow> string \<Rightarrow> jsobj \<Rightarrow> string" where
  "allocationSkipReason allocation approved riskIssue riskDecisionStatus plan =
     (let directionIssue = allocationDirectionIssue allocation
      in if riskIssue \<noteq> [] then riskIssue
         else if js_text (get allocation ''id'') = [] then ''ALLOCATION_ID_MISSING''
         else if js_upper (get allocation ''instrument'') = [] then ''INSTRUMENT_MISSING''
         else if directionIssue \<noteq> [] then directionIssue
         else if jlt approved (Fin 0) then ''APPROVED_SIZE_INVALID''
         else if approved = Fin 0
         then ''RISK_'' @ js_upper (firstDefined [Str riskDecisionStatus, get allocation ''status'', Str ''BLOCK'']) @ ''_NO_APPROVED_SIZE''
         else if fget plan ''reason_code'' = Str ''ALIGNED_TRADE_PLAN_REQUIRED'' then ''ALIGNED_TRADE_PLAN_REQUIRED''
         else [])"

record leg =
  leg_allocation :: string
  leg_ref :: string
  leg_ref_status :: string
  leg_rules :: string
  leg_hash :: string
  leg_account :: string
  leg_instrument :: string
  leg_direction :: string
  leg_signed :: jnum
  leg_approved :: jnum
  leg_requested :: jnum
  leg_status :: string
  leg_rows :: "strategy_row list"
  leg_plan :: jsobj
  leg_risk :: jsobj
  leg_skip :: string

definition approvedAllocationLeg :: "host \<Rightarrow> jsval \<Rightarrow> risk_view \<Rightarrow> string \<Rightarrow> leg" where
  "approvedAllocationLeg H allocation risk accountId =
     (let allocation_id = js_text (get allocation ''id'');
          rawEvaluation = map_of (rv_evaluations risk) allocation_id;
          riskIssue = riskDecisionIssue allocation rawEvaluation risk;
          evaluation = (case rawEvaluation of Some e \<Rightarrow> e | None \<Rightarrow> Obj []);
          approved = approvedSize allocation evaluation;
          dir = net_direction_of allocation;
          plan = approvedTradePlanForAllocation allocation approved;
          decisionStatus = js_upper (risk_status allocation evaluation);
          reference = (if riskIssue \<noteq> [] then [] else riskDecisionRef H allocation_id evaluation approved risk)
      in \<lparr>leg_allocation = allocation_id, leg_ref = reference, leg_ref_status = decisionStatus,
          leg_rules = js_text (firstDefined [get evaluation ''rule_set_version'', Str (rv_rules risk)]), leg_hash = rv_hash risk,
          leg_account = js_text (firstDefined [get allocation ''account_id'', get allocation ''accountId'', Str accountId]),
          leg_instrument = js_upper (get allocation ''instrument''), leg_direction = dir, leg_signed = signedSize dir approved,
          leg_approved = approved,
          leg_requested = positiveOrZero (firstDefined [get allocation ''proposed_size'', get evaluation ''requested_size'']),
          leg_status = js_text (risk_status allocation evaluation),
          leg_rows = strategyBreakdown allocation approved, leg_plan = plan,
          leg_risk = riskAllocationForEvaluation evaluation approved reference,
          leg_skip = allocationSkipReason allocation approved riskIssue decisionStatus plan\<rparr>)"

section \<open>Targets\<close>

record strategy_total =
  st_instance :: string
  st_signals :: "string list"
  st_signed :: jnum
  st_approved :: jnum

definition add_strategy_row :: "(string \<times> strategy_total) list \<Rightarrow> strategy_row \<Rightarrow> (string \<times> strategy_total) list" where
  "add_strategy_row rows item =
     (let key = (if sr_instance item = [] then ''UNKNOWN'' else sr_instance item);
          row = (case map_of rows key of Some r \<Rightarrow> r | None \<Rightarrow> \<lparr>st_instance = key, st_signals = [], st_signed = Fin 0, st_approved = Fin 0\<rparr>)
      in put_field key (row\<lparr>st_signals := st_signals row @ [sr_signal item],
           st_signed := size_round (jadd (st_signed row) (sr_signed item)),
           st_approved := size_round (jadd (st_approved row) (sr_approved item))\<rparr>) rows)"

definition mergeStrategyBreakdown :: "host \<Rightarrow> leg list \<Rightarrow> strategy_total list" where
  "mergeStrategyBreakdown H legs = js_sort (\<lambda>l r. 0 < locale_compare H (st_instance l) (st_instance r))
     (List.map snd (foldl add_strategy_row [] (concat (List.map leg_rows legs))))"

definition strategy_total_js :: "strategy_total \<Rightarrow> jsval" where
  "strategy_total_js r = Obj [(''strategy_instance_id'', Str (st_instance r)), (''signal_ids'', Arr (List.map Str (st_signals r))),
     (''signed_size'', Num (st_signed r)), (''approved_size'', Num (st_approved r))]"

definition mergeApprovedTradePlans :: "leg list \<Rightarrow> jsobj" where
  "mergeApprovedTradePlans legs =
     (case filter (\<lambda>p. fget p ''availability'' \<noteq> Str ''UNAVAILABLE'') (List.map leg_plan legs) of
        [] \<Rightarrow> no_plan ''UNAVAILABLE'' ''APPROVED_TRADE_PLAN_UNAVAILABLE''
      | [plan] \<Rightarrow> plan
      | plans \<Rightarrow> [(''availability'', Str ''PARTIAL''), (''merge_policy'', Str ''MULTI_SIGNAL_NETTED''),
          (''authorized_quantity'', Num (sum_sizes (List.map (jabs \<circ> leg_signed) legs))),
          (''plans'', Arr (List.map Obj plans)), (''reason_code'', Str ''MULTIPLE_TRADE_PLANS_NETTED'')])"

definition sumNullable :: "jsobj list \<Rightarrow> string \<Rightarrow> jnum option" where
  "sumNullable items k = (let sizes = List.map (\<lambda>item. target_numberOrNull (fget item k)) items
     in if sizes \<noteq> [] \<and> None \<notin> set sizes then Some (sum_sizes (List.map the sizes)) else None)"

text \<open>\<open>unique(texts.filter(Boolean))\<close>\<close>

definition unique_texts :: "string list \<Rightarrow> jsval" where
  "unique_texts texts = Arr (List.map Str (uniq (filter (\<lambda>s. s \<noteq> []) texts)))"

text \<open>\<open>unique(rows.map((row) => row[key]).filter(Boolean))\<close> of a text field\<close>

definition unique_field :: "string \<Rightarrow> jsobj list \<Rightarrow> jsval" where
  "unique_field k rows = unique_texts (List.map (\<lambda>row. to_str (fget row k)) rows)"

definition mergeRiskAllocation :: "leg list \<Rightarrow> jsobj" where
  "mergeRiskAllocation legs =
     (let rows = List.map leg_risk legs;
          allKnown = (rows \<noteq> [] \<and> list_all (\<lambda>r. fget r ''availability'' = Str ''KNOWN'') rows)
      in [(''availability'', Str (if allKnown then ''KNOWN'' else if rows \<noteq> [] then ''PARTIAL'' else ''UNAVAILABLE'')),
          (''risk_amount'', js_opt_num (sumNullable rows ''risk_amount'')),
          (''risk_pct'', js_opt_num (sumNullable rows ''risk_pct'')),
          (''risk_per_contract'', (case rows of [r] \<Rightarrow> js_opt_num (target_numberOrNull (fget r ''risk_per_contract'')) | _ \<Rightarrow> Null)),
          (''risk_budget_ids'', unique_field ''risk_budget_id'' rows),
          (''risk_decision_ids'', unique_field ''risk_decision_id'' rows)])"

definition signedPositionSize :: "jsval \<Rightarrow> jnum" where
  "signedPositionSize item = (if is_finite (to_num (get item ''signed_size'')) then to_num (get item ''signed_size'')
     else signedSize (js_upper (get item ''direction''))
       (positiveOrZero (firstDefined [get item ''size'', get item ''quantity'', get item ''contracts''])))"

definition add_current_position :: "string \<Rightarrow> (string \<times> jnum) list \<Rightarrow> jsval \<Rightarrow> (string \<times> jnum) list" where
  "add_current_position defaultAccountId state item =
     (let key = js_text (firstDefined [get item ''account_id'', get item ''accountId'', Str defaultAccountId]) @ '':'' @ js_upper (get item ''instrument'');
          before = (case map_of state key of Some n \<Rightarrow> num_or_zero (Num n) | None \<Rightarrow> Fin 0)
      in put_field key (size_round (jadd before (signedPositionSize item))) state)"

definition normalizeCurrentPositions :: "jsval \<Rightarrow> string \<Rightarrow> (string \<times> jnum) list" where
  "normalizeCurrentPositions items defaultAccountId = foldl (add_current_position defaultAccountId) [] (arr_or_empty items)"

definition targetKey :: "leg \<Rightarrow> string" where
  "targetKey l = leg_account l @ '':'' @ leg_instrument l"

definition leg_ids :: "leg list \<Rightarrow> jsval" where
  "leg_ids legs = Arr (List.map (Str \<circ> leg_allocation) legs)"

definition target_lineage :: "leg list \<Rightarrow> jsval" where
  "target_lineage legs =
     (let rows = concat (List.map leg_rows legs)
      in Obj [(''strategy_signal_ids'', unique_texts (List.map sr_signal rows)),
          (''strategy_instance_ids'', unique_texts (List.map sr_instance rows)),
          (''candidate_allocation_ids'', leg_ids legs),
          (''risk_decision_ids'', Arr (List.map Str (filter (\<lambda>s. s \<noteq> []) (List.map leg_ref legs))))])"

definition expected_exposure :: "jnum \<Rightarrow> jnum \<Rightarrow> jsval" where
  "expected_exposure current net = Obj [(''availability'', Str ''KNOWN''), (''current'', Num current), (''resulting'', Num net),
     (''delta'', Num (size_round (jsub net current))), (''unit'', Str ''CONTRACTS'')]"

definition target_base :: "host \<Rightarrow> string \<Rightarrow> leg list \<Rightarrow> (string \<times> jnum) list \<Rightarrow> jsval \<Rightarrow> jsobj" where
  "target_base H key legs currentPositions asOf =
     (let first = hd legs;
          net = sum_sizes (List.map leg_signed legs);
          current = (case map_of currentPositions key of Some n \<Rightarrow> num_or_zero (Num n) | None \<Rightarrow> Fin 0)
      in [(''schema_version'', Str ''target_position_v1''), (''account_id'', Str (leg_account first)), (''instrument'', Str (leg_instrument first)),
          (''net_target_size'', Num net), (''net_direction'', Str (directionFromSignedSize net)), (''current_net_size'', Num current),
          (''delta_size'', Num (size_round (jsub net current))), (''status'', Str (if net = Fin 0 then ''FLAT'' else ''TARGETED'')),
          (''derived_from_risk_decision_ids'', Arr (List.map (Str \<circ> leg_ref) legs)),
          (''risk_decision_statuses'', Arr (List.map (Str \<circ> leg_ref_status) legs)),
          (''risk_rule_set_versions'', unique_texts (List.map leg_rules legs)),
          (''risk_evaluation_hashes'', unique_texts (List.map leg_hash legs)),
          (''risk_approved_net_size'', Num net), (''candidate_allocation_ids'', leg_ids legs),
          (''strategy_breakdown'', Arr (List.map strategy_total_js (mergeStrategyBreakdown H legs))),
          (''approved_trade_plan'', Obj (mergeApprovedTradePlans legs)), (''risk_allocation'', Obj (mergeRiskAllocation legs)),
          (''expected_exposure'', expected_exposure current net), (''lineage'', target_lineage legs), (''computed_at_utc'', asOf)])"

definition targetForGroup :: "host \<Rightarrow> string \<Rightarrow> leg list \<Rightarrow> (string \<times> jnum) list \<Rightarrow> jsval \<Rightarrow> jsval" where
  "targetForGroup H key legs currentPositions asOf =
     (let base = target_base H key legs currentPositions asOf
      in Obj ((''id'', Str (''targetpos:'' @ canonicalSha256 H (Obj base))) # base))"

definition target_groups :: "leg list \<Rightarrow> (string \<times> leg list) list" where
  "target_groups legs = foldl (\<lambda>bs l. add_to_bucket (targetKey l) l bs) [] (filter (\<lambda>l. leg_skip l = []) legs)"

definition buildTargets :: "host \<Rightarrow> leg list \<Rightarrow> (string \<times> jnum) list \<Rightarrow> jsval \<Rightarrow> jsval list" where
  "buildTargets H legs currentPositions asOf = List.map (\<lambda>(key, items). targetForGroup H key items currentPositions asOf)
     (js_sort (\<lambda>l r. 0 < locale_compare H (fst l) (fst r)) (target_groups legs))"

section \<open>The plan\<close>

definition plan_as_of :: "host \<Rightarrow> jsval \<Rightarrow> jsval" where
  "plan_as_of H input = js_opt_str (target_iso H (firstDefined [get input ''as_of_utc'', get input ''asOfUtc'', js_opt_str (to_iso (clock_ms H))]))"

definition plan_account :: "jsval \<Rightarrow> string" where
  "plan_account input = js_text (firstDefined [get input ''account_id'', get input ''accountId'', Str ''default''])"

definition plan_allocations :: "jsval \<Rightarrow> jsval list" where
  "plan_allocations input = arr_or_empty (firstDefined [get input ''candidate_allocations'', get input ''allocations''])"

definition plan_risk :: "jsval \<Rightarrow> risk_view" where
  "plan_risk input = normalizeRiskBudgetEvaluation (get input ''risk_budget_evaluation'')"

definition plan_legs :: "host \<Rightarrow> jsval \<Rightarrow> leg list" where
  "plan_legs H input = List.map (\<lambda>a. approvedAllocationLeg H a (plan_risk input) (plan_account input)) (plan_allocations input)"

definition skipped_js :: "leg list \<Rightarrow> jsval list" where
  "skipped_js legs = List.map (\<lambda>l. Obj [(''candidate_allocation_id'', Str (leg_allocation l)), (''reason'', Str (leg_skip l))])
     (filter (\<lambda>l. leg_skip l \<noteq> []) legs)"

definition buildPortfolioTargetPositionPlanV1 :: "host \<Rightarrow> jsval \<Rightarrow> jsobj" where
  "buildPortfolioTargetPositionPlanV1 H input =
     (let asOf = plan_as_of H input;
          currentPositions = normalizeCurrentPositions (firstDefined [get input ''current_positions'', get input ''positions'', Arr []]) (plan_account input);
          legs = plan_legs H input;
          targets = buildTargets H legs currentPositions asOf;
          base = [(''schema_version'', Str ''portfolio_target_position_plan_v1''),
            (''status'', Str (if targets = [] then ''NO_TARGETS'' else ''TARGETS_READY'')), (''as_of_utc'', asOf),
            (''account_id'', Str (plan_account input)), (''target_positions'', Arr targets), (''skipped_allocations'', Arr (skipped_js legs))]
      in base @ [(''plan_hash'', Str (js_hash H (Obj base)))])"

section \<open>Nothing is lost\<close>

text \<open>The ids of the allocations a target is made of\<close>

definition target_allocations :: "jsval \<Rightarrow> jsval list" where
  "target_allocations t = arr_or_empty (get t ''candidate_allocation_ids'')"

lemma target_plan_fields:
  "fget (buildPortfolioTargetPositionPlanV1 H input) ''target_positions'' =
     Arr (buildTargets H (plan_legs H input) (normalizeCurrentPositions (firstDefined [get input ''current_positions'', get input ''positions'', Arr []]) (plan_account input)) (plan_as_of H input))"
  "fget (buildPortfolioTargetPositionPlanV1 H input) ''skipped_allocations'' = Arr (skipped_js (plan_legs H input))"
  by (simp_all add: buildPortfolioTargetPositionPlanV1_def Let_def)

lemma target_allocations_group: "target_allocations (targetForGroup H key legs cs asOf) = List.map (Str \<circ> leg_allocation) legs"
  by (simp add: target_allocations_def targetForGroup_def target_base_def Let_def leg_ids_def)

lemma target_groups_mset: "mset (concat (List.map snd (target_groups legs))) = mset (filter (\<lambda>l. leg_skip l = []) legs)"
proof -
  have "mset (concat (List.map snd (foldl (\<lambda>bs l. add_to_bucket (targetKey l) l bs) bs ls))) = mset (concat (List.map snd bs)) + mset ls" for bs ls
    by (induction ls arbitrary: bs) (simp_all add: mset_add_to_bucket)
  from this[of "[]" "filter (\<lambda>l. leg_skip l = []) legs"] show ?thesis by (simp add: target_groups_def)
qed

lemma mset_concat_map_sorted: "mset (concat (List.map f (js_sort after xs))) = mset (concat (List.map f xs))"
proof -
  have "mset (concat (List.map f xs)) = (\<Sum>x\<in>#mset xs. mset (f x))" for xs by (induction xs) simp_all
  then show ?thesis by simp
qed

lemma buildTargets_allocations:
  "mset (concat (List.map target_allocations (buildTargets H legs cs asOf))) = image_mset (Str \<circ> leg_allocation) (mset (filter (\<lambda>l. leg_skip l = []) legs))"
proof -
  have "concat (List.map target_allocations (buildTargets H legs cs asOf))
      = List.map (Str \<circ> leg_allocation) (concat (List.map snd (js_sort (\<lambda>l r. 0 < locale_compare H (fst l) (fst r)) (target_groups legs))))"
    by (simp add: buildTargets_def comp_def case_prod_unfold target_allocations_group[unfolded comp_def] map_concat)
  then show ?thesis by (simp only: mset_map mset_concat_map_sorted target_groups_mset)
qed

lemma leg_allocation_id: "leg_allocation (approvedAllocationLeg H a risk account) = js_text (get a ''id'')"
  by (simp add: approvedAllocationLeg_def Let_def)

text \<open>
  C34. Every allocation is accounted for exactly once: the ids in the targets of the plan and the ids of the skipped
  allocations are together the ids of all allocations, as many times as they occur.
\<close>

theorem targets_account_for_allocations:
  "mset (concat (List.map target_allocations (arr_or_empty (fget (buildPortfolioTargetPositionPlanV1 H input) ''target_positions''))))
     + mset (List.map (\<lambda>s. get s ''candidate_allocation_id'') (arr_or_empty (fget (buildPortfolioTargetPositionPlanV1 H input) ''skipped_allocations'')))
   = mset (List.map (\<lambda>a. Str (js_text (get a ''id''))) (plan_allocations input))"
proof -
  have "mset (List.map (\<lambda>s. get s ''candidate_allocation_id'') (skipped_js legs)) = image_mset (Str \<circ> leg_allocation) (mset (filter (\<lambda>l. leg_skip l \<noteq> []) legs))" for legs
    by (simp add: skipped_js_def comp_def multiset.map_comp)
  moreover have "image_mset (Str \<circ> leg_allocation) (mset (plan_legs H input)) = mset (List.map (\<lambda>a. Str (js_text (get a ''id''))) (plan_allocations input))"
    by (simp add: plan_legs_def multiset.map_comp comp_def leg_allocation_id)
  ultimately show ?thesis
    by (simp add: target_plan_fields buildTargets_allocations image_mset_union[symmetric] del: image_mset_union mset_map)
qed

section \<open>What a target is made of was authorised\<close>

text \<open>The evaluation found for an allocation, and whether it lets the allocation through\<close>

definition risk_decision :: "jsval \<Rightarrow> jsval \<Rightarrow> jsval option" where
  "risk_decision input allocation = map_of (rv_evaluations (plan_risk input)) (js_text (get allocation ''id''))"

definition passing_decision :: "jsval option \<Rightarrow> bool" where
  "passing_decision evaluation = (case evaluation of None \<Rightarrow> False
     | Some e \<Rightarrow> js_upper (get e ''status'') \<notin> {[], ''BLOCK'', ''NEUTRALIZED''} \<union> set RISK_UNAVAILABLE)"

definition authorised :: "jsval \<Rightarrow> jsval \<Rightarrow> bool" where
  "authorised input allocation \<longleftrightarrow> js_text (get allocation ''id'') \<noteq> [] \<and> js_upper (get allocation ''instrument'') \<noteq> []
     \<and> net_direction_of allocation \<in> {''LONG'', ''SHORT'', ''FLAT''}
     \<and> (passing_decision (risk_decision input allocation) \<or> isNonExposureAllocation allocation)"

lemma skip_reason_Nil:
  assumes "allocationSkipReason allocation approved riskIssue status_name plan = []"
  shows "riskIssue = []" "js_text (get allocation ''id'') \<noteq> []" "js_upper (get allocation ''instrument'') \<noteq> []"
    "allocationDirectionIssue allocation = []" "approved \<noteq> Fin 0"
  using assms by (auto simp: allocationSkipReason_def Let_def split: if_splits)

lemma direction_issue_Nil: "allocationDirectionIssue allocation = [] \<Longrightarrow> net_direction_of allocation \<in> {''LONG'', ''SHORT'', ''FLAT''}"
  unfolding allocationDirectionIssue_def Let_def by (auto split: if_splits)

lemma js_upper_nonempty: "js_upper v \<noteq> [] \<Longrightarrow> present v"
  by (cases v) (auto simp: js_upper_def present_def to_upper_def)

lemma leg_authorised:
  assumes "leg_skip (approvedAllocationLeg H allocation (plan_risk input) account) = []"
  shows "authorised input allocation"
proof -
  define decision where "decision = risk_decision input allocation"
  define evaluation where "evaluation = (case decision of Some e \<Rightarrow> e | None \<Rightarrow> Obj [])"
  have skip: "\<exists>st plan. allocationSkipReason allocation (approvedSize allocation evaluation) (riskDecisionIssue allocation decision (plan_risk input)) st plan = []"
    using assms unfolding approvedAllocationLeg_def Let_def by (auto simp: decision_def evaluation_def risk_decision_def)
  then have issue: "riskDecisionIssue allocation decision (plan_risk input) = []" and size: "approvedSize allocation evaluation \<noteq> Fin 0"
    using skip_reason_Nil(1,5) by (blast, blast)
  have "passing_decision decision" if exposed: "\<not> isNonExposureAllocation allocation"
  proof -
    obtain e where e: "decision = Some e" "js_upper (get e ''status'') \<notin> set RISK_UNAVAILABLE" "js_upper (get e ''status'') \<noteq> []"
      using issue exposed by (auto simp: riskDecisionIssue_def Let_def split: option.splits if_splits)
    then have "risk_status allocation e = get e ''status''"
      using js_upper_nonempty by (simp add: risk_status_def firstDefined_Cons)
    then have "js_upper (get e ''status'') \<notin> {''BLOCK'', ''NEUTRALIZED''}"
      using size e(1) by (auto simp: approvedSize_def evaluation_def)
    then show ?thesis using e by (simp add: passing_decision_def)
  qed
  then have decided: "passing_decision (risk_decision input allocation) \<or> isNonExposureAllocation allocation"
    unfolding decision_def by argo
  obtain st plan where "allocationSkipReason allocation (approvedSize allocation evaluation) (riskDecisionIssue allocation decision (plan_risk input)) st plan = []"
    using skip by iprover
  note facts = skip_reason_Nil[OF this]
  show ?thesis
    unfolding authorised_def by (intro conjI) (rule facts(2) facts(3) direction_issue_Nil[OF facts(4)] decided)+
qed

text \<open>
  C33. A target is made of authorised allocations only: each has an id, an instrument and a direction, and the risk evaluation
  decided on it, with a status that neither blocks it nor says that no decision could be made; except for the
  allocations that carry no exposure by their own account (neutralised, flat, or without a proposed size).
\<close>

theorem targets_are_authorised:
  "list_all (\<lambda>t. list_all (\<lambda>i. list_ex (\<lambda>a. Str (js_text (get a ''id'')) = i \<and> authorised input a) (plan_allocations input)) (target_allocations t))
     (arr_or_empty (fget (buildPortfolioTargetPositionPlanV1 H input) ''target_positions''))"
  unfolding list_all_iff
proof (intro ballI)
  fix t i assume t: "t \<in> set (arr_or_empty (fget (buildPortfolioTargetPositionPlanV1 H input) ''target_positions''))" and i: "i \<in> set (target_allocations t)"
  define targets where "targets = arr_or_empty (fget (buildPortfolioTargetPositionPlanV1 H input) ''target_positions'')"
  have "i \<in># mset (concat (List.map target_allocations targets))" using t i by (auto simp: targets_def)
  then have "i \<in># image_mset (Str \<circ> leg_allocation) (mset (filter (\<lambda>l. leg_skip l = []) (plan_legs H input)))"
    unfolding targets_def target_plan_fields(1) arr_or_empty.simps buildTargets_allocations .
  then obtain a where a: "a \<in> set (plan_allocations input)"
    and "i = Str (leg_allocation (approvedAllocationLeg H a (plan_risk input) (plan_account input)))"
    and "leg_skip (approvedAllocationLeg H a (plan_risk input) (plan_account input)) = []"
    by (auto simp: plan_legs_def)
  then have "Str (js_text (get a ''id'')) = i \<and> authorised input a"
    using leg_authorised by (simp add: leg_allocation_id)
  then show "list_ex (\<lambda>a. Str (js_text (get a ''id'')) = i \<and> authorised input a) (plan_allocations input)"
    using a by (auto simp: list_ex_iff)
qed

definition unsized_allocation :: jsval where
  "unsized_allocation = Obj [(''id'', Str ''A1''), (''instrument'', Str ''MNQ''), (''direction'', Str ''LONG''), (''approved_size'', Num (Fin 5))]"

lemma upper_words: "js_upper (Str ''LONG'') = ''LONG''" "js_upper (Str ''PASS'') = ''PASS''" "js_upper (Str ''MNQ'') = ''MNQ''" "js_text (Str ''A1'') = ''A1''"
  by code_simp+

text \<open>The leg of an allocation that states an approved size and no proposed one, without a decision of the risk evaluation\<close>

lemma unsized_leg:
  assumes decision: "risk_decision input a = None"
    and id: "js_text (get a ''id'') \<noteq> []" "js_upper (get a ''instrument'') \<noteq> []"
    and dir: "net_direction_of a = dir" "dir \<in> {''LONG'', ''SHORT''}"
    and sizes: "get a ''approved_size'' = Num (Fin n)" "0 < n" "\<not> present (get a ''proposed_size'')" "\<not> present (get a ''net_size'')"
    and state: "js_upper (get a ''status'') \<notin> {''BLOCK'', ''NEUTRALIZED''}"
    and plans: "list_all (\<lambda>s. proposedTradePlan s = None) (arr_or_empty (get a ''contributing_signals''))"
  shows "leg_skip (approvedAllocationLeg H a (plan_risk input) account) = []
    \<and> leg_signed (approvedAllocationLeg H a (plan_risk input) account) = signedSize dir (Fin n)"
proof -
  have none: "map_of (rv_evaluations (plan_risk input)) (js_text (get a ''id'')) = None" using decision by (simp add: risk_decision_def)
  have "to_number_str [] = Fin 0" by code_simp
  then have "to_num (get a ''proposed_size'') \<in> {NaN, Fin 0}" using sizes(3) by (cases "get a ''proposed_size''") (auto simp: present_def)
  then have free: "isNonExposureAllocation a" by (auto simp: isNonExposureAllocation_def positiveOrZero_def)
  have "js_upper (risk_status a (Obj [])) \<notin> {''BLOCK'', ''NEUTRALIZED''}"
    using state by (simp add: risk_status_def firstDefined_Cons present_def upper_words del: js_text_Str)
  then have approved: "approvedSize a (Obj []) = Fin n"
    using sizes(1,2) by (simp add: approvedSize_def firstDefined_Cons present_def positiveOrZero_def)
  have issue: "allocationDirectionIssue a = []" using dir sizes(4) by (auto simp: allocationDirectionIssue_def)
  have "filter (\<lambda>s. proposedTradePlan s \<noteq> None) (arr_or_empty (get a ''contributing_signals'')) = []"
    using plans by (simp add: filter_empty_conv list_all_iff)
  then have plan: "approvedTradePlanForAllocation a x = no_plan ''UNAVAILABLE'' ''PROPOSED_TRADE_PLAN_UNAVAILABLE''" for x
    using dir unfolding approvedTradePlanForAllocation_def Let_def by (auto simp: map_filter_def)
  show ?thesis
    using id dir sizes(2) unfolding approvedAllocationLeg_def Let_def none
    by (simp add: approved riskDecisionIssue_def free allocationSkipReason_def issue plan no_plan_def)
qed

lemma unsized_target:
  "list_ex (\<lambda>t. get t ''net_target_size'' = Num (Fin 5) \<and> get t ''net_direction'' = Str ''LONG'')
     (arr_or_empty (fget (buildPortfolioTargetPositionPlanV1 H (Obj [(''candidate_allocations'', Arr [unsized_allocation])])) ''target_positions''))"
proof -
  let ?input = "Obj [(''candidate_allocations'', Arr [unsized_allocation])]"
  have allocations: "plan_allocations ?input = [unsized_allocation]" by (simp add: plan_allocations_def firstDefined_Cons present_def)
  define l where "l = approvedAllocationLeg H unsized_allocation (plan_risk ?input) (plan_account ?input)"
  have "js_text (get unsized_allocation ''id'') \<noteq> []" "js_upper (get unsized_allocation ''instrument'') \<noteq> []"
    "net_direction_of unsized_allocation = ''LONG''" "js_upper (get unsized_allocation ''status'') \<notin> {''BLOCK'', ''NEUTRALIZED''}"
    by code_simp+
  then have "leg_skip l = [] \<and> leg_signed l = signedSize ''LONG'' (Fin 5)" unfolding l_def
    by (intro unsized_leg)
      (simp_all add: risk_decision_def plan_risk_def normalizeRiskBudgetEvaluation_def from_entries_def unsized_allocation_def present_def)
  then have "leg_skip l = [] \<and> leg_signed l = Fin 5" by (simp add: signedSize_def num_or_zero_def js_or_def)
  moreover have "plan_legs H ?input = [l]" by (simp add: plan_legs_def allocations l_def)
  moreover have "sum_sizes [Fin 5] = Fin 5"
    using round_digits_int[of 5] rnd_of_int[of 5] by (simp add: sum_sizes_def size_round_def)
  ultimately show ?thesis
    by (simp add: target_plan_fields buildTargets_def target_groups_def js_sort_def targetForGroup_def target_base_def Let_def directionFromSignedSize_def)
qed

lemma unskipped_targeted:
  assumes "a \<in> set (plan_allocations input)" and "leg_skip (approvedAllocationLeg H a (plan_risk input) (plan_account input)) = []"
  shows "list_ex (\<lambda>t. Str (js_text (get a ''id'')) \<in> set (target_allocations t))
     (arr_or_empty (fget (buildPortfolioTargetPositionPlanV1 H input) ''target_positions''))"
proof -
  define targets where "targets = arr_or_empty (fget (buildPortfolioTargetPositionPlanV1 H input) ''target_positions'')"
  have "mset (concat (List.map target_allocations targets)) = image_mset (Str \<circ> leg_allocation) (mset (filter (\<lambda>l. leg_skip l = []) (plan_legs H input)))"
    unfolding targets_def target_plan_fields(1) arr_or_empty.simps by (rule buildTargets_allocations)
  moreover have "approvedAllocationLeg H a (plan_risk input) (plan_account input) \<in> set (filter (\<lambda>l. leg_skip l = []) (plan_legs H input))"
    using assms by (simp add: plan_legs_def)
  then have "Str (js_text (get a ''id'')) \<in># image_mset (Str \<circ> leg_allocation) (mset (filter (\<lambda>l. leg_skip l = []) (plan_legs H input)))"
    by (force simp: leg_allocation_id)
  ultimately have "Str (js_text (get a ''id'')) \<in> set (concat (List.map target_allocations targets))" by (metis set_mset_mset)
  then show ?thesis by (auto simp: targets_def list_ex_iff)
qed

text \<open>
  C40. The exception lets exposure through: an allocation with an id, an instrument and the direction \<open>LONG\<close> or \<open>SHORT\<close> that
  states a positive \<open>approved_size\<close> itself, and neither a proposed nor a net size, is among the allocations of a target,
  with the size it states, although the risk evaluation has no decision on it; as long as its own status does not block
  it and its signals carry no trade plan.
\<close>

theorem exposure_without_risk_decision:
  assumes "a \<in> set (plan_allocations input)" and "risk_decision input a = None"
    and "js_text (get a ''id'') \<noteq> []" and "js_upper (get a ''instrument'') \<noteq> []"
    and "net_direction_of a = dir" and "dir \<in> {''LONG'', ''SHORT''}"
    and "get a ''approved_size'' = Num (Fin n)" and "0 < n" and "\<not> present (get a ''proposed_size'')" and "\<not> present (get a ''net_size'')"
    and "js_upper (get a ''status'') \<notin> {''BLOCK'', ''NEUTRALIZED''}"
    and "list_all (\<lambda>s. proposedTradePlan s = None) (arr_or_empty (get a ''contributing_signals''))"
  shows "list_ex (\<lambda>t. Str (js_text (get a ''id'')) \<in> set (target_allocations t))
       (arr_or_empty (fget (buildPortfolioTargetPositionPlanV1 H input) ''target_positions''))
    \<and> leg_signed (approvedAllocationLeg H a (plan_risk input) (plan_account input)) = (if dir = ''LONG'' then Fin n else Fin (- n))"
proof -
  note leg = unsized_leg[OF assms(2-12), of H "plan_account input"]
  moreover have "signedSize dir (Fin n) = (if dir = ''LONG'' then Fin n else Fin (- n))"
    using assms(6,8) by (auto simp: signedSize_def num_or_zero_def js_or_def)
  ultimately show ?thesis using unskipped_targeted[OF assms(1)] by simp
qed

theorem exposure_without_risk_decision_witness:
  "list_ex (\<lambda>t. Str ''A1'' \<in> set (target_allocations t))
     (arr_or_empty (fget (buildPortfolioTargetPositionPlanV1 sample_host (Obj [(''candidate_allocations'', Arr [unsized_allocation])])) ''target_positions''))"
proof -
  let ?input = "Obj [(''candidate_allocations'', Arr [unsized_allocation])]"
  have "unsized_allocation \<in> set (plan_allocations ?input)" by (simp add: plan_allocations_def firstDefined_Cons present_def)
  moreover have "risk_decision ?input unsized_allocation = None"
    by (simp add: risk_decision_def plan_risk_def normalizeRiskBudgetEvaluation_def from_entries_def)
  moreover have "js_text (get unsized_allocation ''id'') = ''A1''" "js_upper (get unsized_allocation ''instrument'') = ''MNQ''"
    "net_direction_of unsized_allocation = ''LONG''" "js_upper (get unsized_allocation ''status'') = []"
    by code_simp+
  moreover have "get unsized_allocation ''approved_size'' = Num (Fin 5)" "\<not> present (get unsized_allocation ''proposed_size'')"
    "\<not> present (get unsized_allocation ''net_size'')"
    "list_all (\<lambda>s. proposedTradePlan s = None) (arr_or_empty (get unsized_allocation ''contributing_signals''))"
    by (simp_all add: unsized_allocation_def present_def)
  ultimately show ?thesis
    using exposure_without_risk_decision[of unsized_allocation ?input "''LONG''" 5 sample_host] by simp
qed

text \<open>
  A position whose signed size is \<open>null\<close> counts as zero whatever its size, since \<open>Number(null)\<close> is zero and finite: its account
  is taken for flat, and the whole target is ordered again.
\<close>

lemma null_signed_size_is_flat: "get item ''signed_size'' = Null \<Longrightarrow> signedPositionSize item = Fin 0"
  by (simp add: signedPositionSize_def)

text \<open>A blocked allocation has no target, not a flat one.\<close>

lemma blocked_leg_is_skipped:
  "js_upper (risk_status allocation evaluation) = ''BLOCK'' \<Longrightarrow> map_of (rv_evaluations risk) (js_text (get allocation ''id'')) = Some evaluation
     \<Longrightarrow> leg_skip (approvedAllocationLeg H allocation risk account) \<noteq> []"
  by (auto simp: approvedAllocationLeg_def Let_def approvedSize_def dest: skip_reason_Nil(5))

end
