(* ===== verification/Risk_Budget.thy ===== *)
theory Risk_Budget
  imports Target_Position
begin

text \<open>
  \<open>packages/desk-domain/src/portfolio-risk-budget-v1.js\<close> and \<open>portfolio-monetary-risk-v1.js\<close>: the limits of a portfolio,
  what is already used of them, and the size every allocation is granted, one after the other, each reserving what it was
  granted before the next is looked at. The totals of the virtual portfolio are numbers, and accounts, instruments and
  strategies are not named like properties that objects inherit. The report on the money at risk that accompanies
  each evaluation is in \<open>Risk_Economics\<close>. Shown: no granted size exceeds what a limit leaves, and a whole batch
  of allocations keeps within the limit of the portfolio.
\<close>

section \<open>Currencies and scopes\<close>

definition currency_code :: "jsval \<Rightarrow> string option" where
  "currency_code value = (let c = js_upper value in if length c = 3 \<and> list_all is_upper_letter c then Some c else None)"

definition normalizeMonetaryRiskScope :: "jsval \<Rightarrow> string" where
  "normalizeMonetaryRiskScope value = (let s = js_upper value in if s = ''PER_ALLOCATION'' then s else ''INVALID'')"

definition PORTFOLIO_RISK_SIZING_MODES_V1 :: "string list" where
  "PORTFOLIO_RISK_SIZING_MODES_V1 = [''REQUESTED_QUANTITY_CAP'', ''MONETARY_RISK_BUDGET'']"

definition normalizeSizingMode :: "jsval \<Rightarrow> string" where
  "normalizeSizingMode value = (if \<not> present value then ''REQUESTED_QUANTITY_CAP''
     else let mode = js_upper value in if mode \<in> set PORTFOLIO_RISK_SIZING_MODES_V1 then mode else ''INVALID'')"

section \<open>Limits\<close>

text \<open>A limit and whether what was given is not one.\<close>

definition contractLimit :: "jsval \<Rightarrow> jnum option \<times> bool" where
  "contractLimit value = (if \<not> present value then (None, False)
     else case target_numberOrNull value of
         Some n \<Rightarrow> if is_integer n \<and> jle (Fin 0) n then (Some n, False) else (None, True)
       | None \<Rightarrow> (None, True))"

definition nonNegativeLimit :: "jsval \<Rightarrow> jnum option \<times> bool" where
  "nonNegativeLimit value = (if \<not> present value then (None, False)
     else case target_numberOrNull value of
         Some n \<Rightarrow> if jle (Fin 0) n then (Some n, False) else (None, True)
       | None \<Rightarrow> (None, True))"

type_synonym limits = "(string \<times> jnum) list"

definition contractLimitMap :: "(string \<Rightarrow> string) \<Rightarrow> jsval \<Rightarrow> limits \<times> bool" where
  "contractLimitMap keyMapper value =
     (let entries = List.map (\<lambda>(k, item). (keyMapper k, contractLimit item)) (js_entries (Obj (obj_or_empty value)))
      in (from_entries (List.map_filter (\<lambda>(k, l). map_option (Pair k) (fst l)) entries), list_ex (\<lambda>(k, l). snd l) entries))"

definition DEFAULT_PORTFOLIO_CORRELATION_GROUPS_V1 :: jsobj where
  "DEFAULT_PORTFOLIO_CORRELATION_GROUPS_V1 = List.map (\<lambda>(g, symbols). (g, Arr (List.map Str symbols)))
     [(''equity_index'', [''MES'', ''ES'', ''MNQ'', ''NQ'', ''MYM'', ''YM'', ''M2K'', ''RTY'']), (''energy_crude'', [''MCL'', ''CL'']),
      (''metals'', [''MGC'', ''GC'', ''SIL'', ''SI'']), (''grains'', [''ZC'', ''ZW'', ''ZS'', ''KE''])]"

definition normalizeCorrelationGroups :: "jsval \<Rightarrow> (string \<times> string list) list" where
  "normalizeCorrelationGroups value =
     from_entries (List.map (\<lambda>(g, symbols). (g, List.map js_upper (arr_or_empty symbols)))
       (js_entries (Obj (case js_record value of Some r \<Rightarrow> r | None \<Rightarrow> DEFAULT_PORTFOLIO_CORRELATION_GROUPS_V1))))"

definition correlationGroup :: "string \<Rightarrow> (string \<times> string list) list \<Rightarrow> string" where
  "correlationGroup instr groups =
     (let compact = replace_first ''!'' [] (replace_first ''NYMEX:'' [] (replace_first ''CME_MINI:'' [] (js_upper (Str instr))))
      in case List.find (\<lambda>(g, symbols). list_ex (starts_with compact) symbols) (own_order groups) of
           Some (g, symbols) \<Rightarrow> g | None \<Rightarrow> ''single_name'')"

record risk_budget =
  rb_id :: string
  rb_portfolio :: "jnum option"
  rb_daily_r :: "jnum option"
  rb_weekly_r :: "jnum option"
  rb_money :: "jnum option"
  rb_money_currency :: "string option"
  rb_daily_money :: "jnum option"
  rb_weekly_money :: "jnum option"
  rb_loss_currency :: "string option"
  rb_scope :: string
  rb_mode :: string
  rb_accounts :: limits
  rb_instruments :: limits
  rb_strategies :: limits
  rb_correlations :: limits
  rb_groups :: "(string \<times> string list) list"
  rb_metadata :: jsobj
  rb_issues :: "string list"

definition issue_of :: "bool \<Rightarrow> string \<Rightarrow> string list" where
  "issue_of invalid c = (if invalid then [c] else [])"

definition normalized_budget :: "jsval \<Rightarrow> risk_budget" where
  "normalized_budget input =
     (let f = (\<lambda>ks. firstDefined (List.map (get input) ks));
          portfolio = contractLimit (f [''max_portfolio_abs_size'', ''maxPortfolioAbsSize'']);
          accounts = contractLimitMap trim (get input ''max_account_abs_size'');
          instruments = contractLimitMap (\<lambda>k. js_upper (Str k)) (get input ''max_instrument_abs_size'');
          strategies = contractLimitMap trim (get input ''max_strategy_abs_size'');
          correlations = contractLimitMap trim (get input ''max_correlation_group_abs_size'');
          dailyLoss = nonNegativeLimit (f [''max_daily_loss_r'', ''maxDailyLossR'']);
          weeklyLoss = nonNegativeLimit (f [''max_weekly_loss_r'', ''maxWeeklyLossR'']);
          monetaryRisk = nonNegativeLimit (f [''max_monetary_risk'', ''maxMonetaryRisk'', ''monetary_risk_budget'', ''monetaryRiskBudget'']);
          dailyMoney = nonNegativeLimit (f [''max_daily_loss_monetary'', ''maxDailyLossMonetary'']);
          weeklyMoney = nonNegativeLimit (f [''max_weekly_loss_monetary'', ''maxWeeklyLossMonetary''])
      in \<lparr>rb_id = js_text (firstDefined [get input ''budget_id'', get input ''id'', Str ''portfolio-risk-budget'']),
          rb_portfolio = fst portfolio, rb_daily_r = fst dailyLoss, rb_weekly_r = fst weeklyLoss, rb_money = fst monetaryRisk,
          rb_money_currency = currency_code (f [''max_monetary_risk_currency'', ''maxMonetaryRiskCurrency'', ''monetary_risk_currency'', ''monetaryRiskCurrency'']),
          rb_daily_money = fst dailyMoney, rb_weekly_money = fst weeklyMoney, rb_loss_currency = currency_code (f [''loss_currency'', ''lossCurrency'']),
          rb_scope = normalizeMonetaryRiskScope (f [''monetary_risk_scope'', ''monetaryRiskScope'']),
          rb_mode = normalizeSizingMode (f [''sizing_mode'', ''sizingMode'']),
          rb_accounts = fst accounts, rb_instruments = fst instruments, rb_strategies = fst strategies, rb_correlations = fst correlations,
          rb_groups = normalizeCorrelationGroups (get input ''correlation_groups''), rb_metadata = obj_or_empty (get input ''metadata''),
          rb_issues = issue_of (snd portfolio) ''MAX_PORTFOLIO_ABS_SIZE_INVALID'' @ issue_of (snd accounts) ''MAX_ACCOUNT_ABS_SIZE_INVALID''
            @ issue_of (snd instruments) ''MAX_INSTRUMENT_ABS_SIZE_INVALID'' @ issue_of (snd strategies) ''MAX_STRATEGY_ABS_SIZE_INVALID''
            @ issue_of (snd correlations) ''MAX_CORRELATION_GROUP_ABS_SIZE_INVALID'' @ issue_of (snd dailyLoss) ''MAX_DAILY_LOSS_R_INVALID''
            @ issue_of (snd weeklyLoss) ''MAX_WEEKLY_LOSS_R_INVALID'' @ issue_of (snd monetaryRisk) ''MAX_MONETARY_RISK_INVALID''
            @ issue_of (snd dailyMoney) ''MAX_DAILY_LOSS_MONETARY_INVALID'' @ issue_of (snd weeklyMoney) ''MAX_WEEKLY_LOSS_MONETARY_INVALID''\<rparr>)"

definition limits_js :: "limits \<Rightarrow> jsval" where
  "limits_js m = Obj (List.map (\<lambda>(k, n). (k, Num n)) m)"

definition budget_fields :: "risk_budget \<Rightarrow> jsobj" where
  "budget_fields b = [(''schema_version'', Str ''portfolio_risk_budget_v1''), (''budget_id'', Str (rb_id b)),
     (''max_portfolio_abs_size'', js_opt_num (rb_portfolio b)), (''max_daily_loss_r'', js_opt_num (rb_daily_r b)),
     (''max_weekly_loss_r'', js_opt_num (rb_weekly_r b)), (''max_monetary_risk'', js_opt_num (rb_money b)),
     (''max_monetary_risk_currency'', js_opt_str (rb_money_currency b)), (''max_daily_loss_monetary'', js_opt_num (rb_daily_money b)),
     (''max_weekly_loss_monetary'', js_opt_num (rb_weekly_money b)), (''loss_currency'', js_opt_str (rb_loss_currency b)),
     (''monetary_risk_scope'', Str (rb_scope b)), (''sizing_mode'', Str (rb_mode b)), (''max_account_abs_size'', limits_js (rb_accounts b)),
     (''max_instrument_abs_size'', limits_js (rb_instruments b)), (''max_strategy_abs_size'', limits_js (rb_strategies b)),
     (''max_correlation_group_abs_size'', limits_js (rb_correlations b)),
     (''correlation_groups'', Obj (List.map (\<lambda>(g, symbols). (g, Arr (List.map Str symbols))) (rb_groups b))),
     (''metadata'', Obj (rb_metadata b)), (''configuration_issues'', Arr (List.map Str (rb_issues b)))]"

definition normalizePortfolioRiskBudgetV1 :: "host \<Rightarrow> jsval \<Rightarrow> jsobj" where
  "normalizePortfolioRiskBudgetV1 H input =
     (let fields = budget_fields (normalized_budget input) in fields @ [(''budget_hash'', Str (js_hash H (Obj fields)))])"

definition hasMonetaryLossCaps :: "risk_budget \<Rightarrow> bool" where
  "hasMonetaryLossCaps b \<longleftrightarrow> rb_daily_money b \<noteq> None \<or> rb_weekly_money b \<noteq> None"

definition hasMonetaryConstraints :: "risk_budget \<Rightarrow> bool" where
  "hasMonetaryConstraints b \<longleftrightarrow> rb_money b \<noteq> None \<or> hasMonetaryLossCaps b"

definition budgetConfigurationMissing :: "risk_budget \<Rightarrow> bool" where
  "budgetConfigurationMissing b \<longleftrightarrow>
     (if rb_mode b \<notin> set PORTFOLIO_RISK_SIZING_MODES_V1 then True
      else if rb_issues b \<noteq> [] then True
      else if hasMonetaryConstraints b \<and> rb_mode b \<noteq> ''MONETARY_RISK_BUDGET'' then True
      else if rb_mode b = ''MONETARY_RISK_BUDGET'' \<and> (rb_money b = None \<or> rb_money_currency b = None \<or> rb_scope b \<noteq> ''PER_ALLOCATION''
         \<or> hasMonetaryLossCaps b \<and> (rb_loss_currency b = None \<or> rb_loss_currency b \<noteq> rb_money_currency b)) then True
      else list_all (\<lambda>l. l = None) [rb_portfolio b, rb_daily_r b, rb_weekly_r b, rb_money b, rb_daily_money b, rb_weekly_money b]
         \<and> rb_accounts b = [] \<and> rb_instruments b = [] \<and> rb_strategies b = [] \<and> rb_correlations b = [])"

section \<open>What is used\<close>

record risk_usage =
  us_open :: jnum
  us_total_r :: jnum
  us_weekly_r :: jnum
  us_daily_money :: "jnum option"
  us_weekly_money :: "jnum option"
  us_reserved :: "jnum option"
  us_money_known :: bool
  us_currency :: string
  us_accounts :: limits
  us_instruments :: limits
  us_strategies :: limits
  us_groups :: limits

text \<open>\<open>usage[key] || 0\<close>\<close>

definition used :: "limits \<Rightarrow> string \<Rightarrow> jnum" where
  "used m k = (case map_of m k of Some n \<Rightarrow> num_or_zero (Num n) | None \<Rightarrow> Fin 0)"

definition addExposure :: "limits \<Rightarrow> string \<Rightarrow> jnum \<Rightarrow> limits" where
  "addExposure m k n = put_field k (size_round (jadd (used m k) (num_or_zero (Num n)))) m"

text \<open>A total of the portfolio, zero where it is missing\<close>

definition portfolio_total :: "jsobj \<Rightarrow> string \<Rightarrow> jnum" where
  "portfolio_total portfolio k = to_num (js_coalesce (get (fget portfolio ''totals'') k) (Num (Fin 0)))"

record money_usage =
  mu_known :: bool
  mu_daily :: "jnum option"
  mu_weekly :: "jnum option"
  mu_reserved :: "jnum option"
  mu_currency :: string

definition number_or_null :: "jsval \<Rightarrow> jnum option" where
  "number_or_null value = (if \<not> present value then None else if is_finite (to_num value) then Some (to_num value) else None)"

definition normalizeMonetaryLossUsage :: "jsval \<Rightarrow> money_usage" where
  "normalizeMonetaryLossUsage value =
     (let source = fget (obj_or_empty value);
          availability = js_upper (firstDefined [source ''monetary_availability'', source ''monetaryAvailability'']);
          daily = number_or_null (firstDefined [source ''daily_loss_monetary'', source ''dailyLossMonetary'']);
          weekly = number_or_null (firstDefined [source ''weekly_loss_monetary'', source ''weeklyLossMonetary'']);
          reserved = number_or_null (firstDefined [source ''reserved_monetary_risk'', source ''reservedMonetaryRisk''])
      in case (daily, weekly, reserved, currency_code (source ''currency'')) of
           (Some d, Some w, Some r, Some c) \<Rightarrow>
             if availability = ''KNOWN'' \<and> jle (Fin 0) d \<and> jle (Fin 0) w \<and> jle (Fin 0) r
             then \<lparr>mu_known = True, mu_daily = Some d, mu_weekly = Some w, mu_reserved = Some r, mu_currency = c\<rparr>
             else \<lparr>mu_known = False, mu_daily = None, mu_weekly = None, mu_reserved = None, mu_currency = ''UNAVAILABLE''\<rparr>
         | _ \<Rightarrow> \<lparr>mu_known = False, mu_daily = None, mu_weekly = None, mu_reserved = None, mu_currency = ''UNAVAILABLE''\<rparr>)"

definition lossValue :: "jsval \<Rightarrow> string \<Rightarrow> jnum \<Rightarrow> jnum" where
  "lossValue lossUsage k fallback =
     (if fget (obj_or_empty lossUsage) ''availability'' \<noteq> Str ''KNOWN'' then fallback
      else case target_numberOrNull (get lossUsage k) of Some n \<Rightarrow> n | None \<Rightarrow> fallback)"

definition abs_size :: "jsval \<Rightarrow> jnum" where
  "abs_size v = jabs (num_or_zero v)"

definition allocation_account :: "string \<Rightarrow> jsval \<Rightarrow> string" where
  "allocation_account defaultAccountId v = js_text (firstDefined [get v ''account_id'', get v ''accountId'', Str defaultAccountId])"

definition allocation_instrument :: "jsval \<Rightarrow> string" where
  "allocation_instrument v = js_upper (get v ''instrument'')"

definition accountExposure :: "jsval list \<Rightarrow> jsval list \<Rightarrow> string \<Rightarrow> jsobj \<Rightarrow> limits" where
  "accountExposure positions allocations defaultAccountId portfolio =
     (let held = foldl (\<lambda>m p. addExposure m (allocation_account defaultAccountId p) (abs_size (js_or (get p ''signed_size'') (get p ''open_signed_size'')))) [] positions;
          all = foldl (\<lambda>m a. let k = allocation_account defaultAccountId a in if k \<in> fst ` set m then m else put_field k (Fin 0) m) held allocations
      in if all = [] then [(trim defaultAccountId, portfolio_total portfolio ''open_abs_size'')] else all)"

definition exposure_by :: "(jsval \<Rightarrow> string) \<Rightarrow> jsval list \<Rightarrow> jsval list \<Rightarrow> limits" where
  "exposure_by key positions allocations = foldl (\<lambda>m a. addExposure m (key a) (Fin 0))
     (foldl (\<lambda>m p. addExposure m (key p) (abs_size (get p ''signed_size''))) [] positions) allocations"

definition instrumentExposure :: "jsval list \<Rightarrow> jsval list \<Rightarrow> limits" where
  "instrumentExposure positions allocations = exposure_by allocation_instrument positions allocations"

definition correlationExposure :: "jsval list \<Rightarrow> jsval list \<Rightarrow> (string \<times> string list) list \<Rightarrow> limits" where
  "correlationExposure positions allocations groups = exposure_by (\<lambda>v. correlationGroup (allocation_instrument v) groups) positions allocations"

definition buildUsageSnapshot :: "jsobj \<Rightarrow> jsval list \<Rightarrow> (string \<times> string list) list \<Rightarrow> string \<Rightarrow> jsval \<Rightarrow> risk_usage" where
  "buildUsageSnapshot portfolio allocations groups accountId lossUsage =
     (let rows = arr_or_empty (fget portfolio ''by_strategy_instance''); positions = arr_or_empty (fget portfolio ''positions'');
          money = normalizeMonetaryLossUsage lossUsage
      in \<lparr>us_open = portfolio_total portfolio ''open_abs_size'',
          us_total_r = lossValue lossUsage ''daily_realized_r'' (portfolio_total portfolio ''total_r''),
          us_weekly_r = lossValue lossUsage ''weekly_realized_r'' (portfolio_total portfolio ''weekly_r''),
          us_daily_money = mu_daily money, us_weekly_money = mu_weekly money, us_reserved = mu_reserved money,
          us_money_known = mu_known money, us_currency = mu_currency money,
          us_accounts = accountExposure positions allocations accountId portfolio,
          us_instruments = instrumentExposure positions allocations,
          us_strategies = from_entries (List.map (\<lambda>row. (js_text (get row ''strategy_instance_id''), abs_size (get row ''open_signed_size''))) rows),
          us_groups = correlationExposure positions allocations groups\<rparr>)"

section \<open>Checks\<close>

record limit_check =
  lc_code :: string
  lc_scope :: string
  lc_unit :: "string option"
  lc_current :: jnum
  lc_proposed :: jnum
  lc_projected :: jnum
  lc_limit :: jnum
  lc_available :: jnum
  lc_breached :: bool

definition limitCheck :: "string \<Rightarrow> jnum \<Rightarrow> jnum \<Rightarrow> jnum option \<Rightarrow> string \<Rightarrow> limit_check list" where
  "limitCheck c current proposed limit scope = (case limit of None \<Rightarrow> []
     | Some l \<Rightarrow> (let now = num_or_zero (Num current); wanted = num_or_zero (Num proposed); projected = size_round (jadd now wanted)
         in [\<lparr>lc_code = c, lc_scope = scope, lc_unit = None, lc_current = size_round now, lc_proposed = size_round wanted,
              lc_projected = projected, lc_limit = l, lc_available = size_round (jsub l now), lc_breached = jlt l projected\<rparr>]))"

definition lossCheck :: "string \<Rightarrow> jnum \<Rightarrow> jnum option \<Rightarrow> limit_check list" where
  "lossCheck c currentR maxLossR = (case maxLossR of None \<Rightarrow> []
     | Some l \<Rightarrow> (let now = num_or_zero (Num currentR); loss = jabs (jmin (Fin 0) now)
         in [\<lparr>lc_code = c, lc_scope = ''portfolio'', lc_unit = None, lc_current = size_round now, lc_proposed = Fin 0,
              lc_projected = size_round loss, lc_limit = l, lc_available = size_round (jsub l loss), lc_breached = jle l loss\<rparr>]))"

definition moneyAdd :: "jnum option \<Rightarrow> jnum option \<Rightarrow> jnum" where
  "moneyAdd l r = (let z = (\<lambda>x. case x of Some n \<Rightarrow> num_or_zero (Num n) | None \<Rightarrow> Fin 0) in jadd (z l) (z r))"

definition moneyRound :: "jnum \<Rightarrow> jnum" where
  "moneyRound v = (let h = Fin 100 in jdiv (jround (jmul (num_or_zero (Num v)) h)) h)"

definition monetaryLossCheck :: "string \<Rightarrow> jnum \<Rightarrow> jnum option \<Rightarrow> jnum option \<Rightarrow> string option \<Rightarrow> limit_check list" where
  "monetaryLossCheck c current proposed limit unit_name = (case limit of None \<Rightarrow> []
     | Some l \<Rightarrow> (let projected = moneyAdd (Some current) proposed
         in [\<lparr>lc_code = c, lc_scope = ''portfolio'', lc_unit = unit_name, lc_current = current,
              lc_proposed = moneyRound (case proposed of Some n \<Rightarrow> n | None \<Rightarrow> Fin 0), lc_projected = projected, lc_limit = l,
              lc_available = moneyRound (jsub l current), lc_breached = jlt l projected\<rparr>]))"

definition monetaryLossChecks :: "risk_budget \<Rightarrow> risk_usage \<Rightarrow> jnum option \<Rightarrow> limit_check list" where
  "monetaryLossChecks b u proposedRisk =
     (if rb_mode b \<noteq> ''MONETARY_RISK_BUDGET'' \<or> \<not> hasMonetaryLossCaps b then []
      else monetaryLossCheck ''DAILY_LOSS_MONETARY'' (moneyAdd (us_daily_money u) (us_reserved u)) proposedRisk (rb_daily_money b) (rb_loss_currency b)
         @ monetaryLossCheck ''WEEKLY_LOSS_MONETARY'' (moneyAdd (us_weekly_money u) (us_reserved u)) proposedRisk (rb_weekly_money b) (rb_loss_currency b))"

definition signal_strategies :: "jsval \<Rightarrow> string list" where
  "signal_strategies allocation = filter (\<lambda>i. i \<noteq> []) (List.map (\<lambda>s. js_text (get s ''strategy_instance_id'')) (arr_or_empty (get allocation ''contributing_signals'')))"

definition proposedByStrategy :: "jsval \<Rightarrow> limits" where
  "proposedByStrategy allocation = foldl (\<lambda>m s. let i = js_text (get s ''strategy_instance_id'')
       in if i = [] then m else put_field i (jadd (used m i) (abs_size (get s ''proposed_size''))) m) []
     (arr_or_empty (get allocation ''contributing_signals''))"

definition strategyChecks :: "jsval \<Rightarrow> risk_usage \<Rightarrow> risk_budget \<Rightarrow> limit_check list" where
  "strategyChecks allocation u b = concat (List.map (\<lambda>(i, proposed).
     limitCheck ''STRATEGY_ABS_SIZE'' (used (us_strategies u) i) proposed (map_of (rb_strategies b) i) i) (own_order (proposedByStrategy allocation)))"

definition allocationStatus :: "limit_check list \<Rightarrow> string" where
  "allocationStatus checks = (if list_ex (\<lambda>c. lc_breached c \<and> jle (lc_available c) (Fin 0)) checks then ''BLOCK''
     else if list_ex lc_breached checks then ''REDUCE'' else ''PASS'')"

definition sizing_check :: "limit_check \<Rightarrow> bool" where
  "sizing_check c \<longleftrightarrow> jlt (Fin 0) (lc_proposed c) \<and> \<not> str_includes (lc_code c) ''LOSS''"

definition availableSize :: "limit_check list \<Rightarrow> jnum \<Rightarrow> jnum" where
  "availableSize checks fallback = (case List.map lc_available (filter sizing_check checks) of
       [] \<Rightarrow> fallback | v # vs \<Rightarrow> jmax (Fin 0) (jfloor (foldl jmin v vs)))"

section \<open>Sizing\<close>

record requested_size =
  rq_raw :: "jnum option"
  rq_quantity :: jnum
  rq_valid :: bool

definition requestedQuantity :: "jsval \<Rightarrow> requested_size" where
  "requestedQuantity value = (case target_numberOrNull value of
       None \<Rightarrow> \<lparr>rq_raw = None, rq_quantity = Fin 0, rq_valid = False\<rparr>
     | Some n \<Rightarrow> if n = Fin 0 then \<lparr>rq_raw = Some n, rq_quantity = Fin 0, rq_valid = True\<rparr>
         else if is_integer n \<and> jlt (Fin 0) n then \<lparr>rq_raw = Some n, rq_quantity = n, rq_valid = True\<rparr>
         else \<lparr>rq_raw = Some n, rq_quantity = Fin 0, rq_valid = False\<rparr>)"

record sizing =
  sz_mode :: string
  sz_quantity :: jnum
  sz_requested :: jnum
  sz_reduced :: bool
  sz_reason :: "string option"
  sz_per_contract :: "jnum option"
  sz_multiplier :: "jnum option"
  sz_effective :: "jnum option"
  sz_authorized :: "jnum option"
  sz_currency :: string

definition requestedSizing :: "jnum \<Rightarrow> sizing" where
  "requestedSizing quantity = \<lparr>sz_mode = ''REQUESTED_QUANTITY_CAP'', sz_quantity = quantity, sz_requested = quantity, sz_reduced = False,
     sz_reason = None, sz_per_contract = None, sz_multiplier = None, sz_effective = None, sz_authorized = None, sz_currency = []\<rparr>"

definition unavailableSizing :: "jnum \<Rightarrow> string \<Rightarrow> sizing" where
  "unavailableSizing requested why = \<lparr>sz_mode = ''MONETARY_RISK_BUDGET'', sz_quantity = Fin 0, sz_requested = requested, sz_reduced = True,
     sz_reason = Some why, sz_per_contract = None, sz_multiplier = None, sz_effective = None, sz_authorized = None, sz_currency = ''UNAVAILABLE''\<rparr>"

definition allocationMultiplier :: "jsval \<Rightarrow> jnum option" where
  "allocationMultiplier allocation =
     (let found = List.map (\<lambda>s. target_numberOrNull (get s ''context_risk_multiplier'')) (arr_or_empty (get allocation ''contributing_signals''))
      in if found = [] \<or> list_ex (\<lambda>v. case v of None \<Rightarrow> True | Some n \<Rightarrow> jlt n (Fin 0) \<or> jlt (Fin 1) n) found then None
         else Some (case List.map the found of v # vs \<Rightarrow> foldl jmin v vs | [] \<Rightarrow> Fin 0))"

definition moneyMultiply :: "jnum option \<Rightarrow> jnum \<Rightarrow> jnum option" where
  "moneyMultiply unitValue quantity = map_option (\<lambda>v. jmul v (num_or_zero (Num quantity))) unitValue"

text \<open>The plans of the signals that carry economics, and the part of \<open>allocationTradeRisk\<close> the sizing reads.\<close>

definition trade_economics :: "jsval \<Rightarrow> jsobj list" where
  "trade_economics allocation = List.map_filter (\<lambda>s. js_record (firstDefined [get s ''trade_plan_economics'', get s ''tradePlanEconomics'',
       get (get s ''proposed_trade_plan'') ''economics'', get (get s ''proposedTradePlan'') ''economics'']))
     (arr_or_empty (get allocation ''contributing_signals''))"

definition known_economics :: "jsval \<Rightarrow> jsobj list" where
  "known_economics allocation = filter (\<lambda>e. fget e ''availability'' = Str ''KNOWN'') (trade_economics allocation)"

definition selected_economics :: "jsval \<Rightarrow> jsobj option" where
  "selected_economics allocation = (case known_economics allocation @ trade_economics allocation of e # _ \<Rightarrow> Some e | [] \<Rightarrow> None)"

record trade_risk =
  tr_availability :: string
  tr_currency :: string
  tr_per_contract :: "jnum option"

definition allocation_trade_risk :: "jsval \<Rightarrow> trade_risk" where
  "allocation_trade_risk allocation = (case selected_economics allocation of
       None \<Rightarrow> \<lparr>tr_availability = ''UNAVAILABLE'', tr_currency = ''UNAVAILABLE'', tr_per_contract = None\<rparr>
     | Some e \<Rightarrow> \<lparr>tr_availability = (if length (arr_or_empty (get allocation ''contributing_signals'')) = 1 \<and> length (known_economics allocation) = 1
             \<and> length (trade_economics allocation) = 1 then ''KNOWN'' else ''PARTIAL''),
         tr_currency = (case currency_code (fget e ''currency'') of Some c \<Rightarrow> c | None \<Rightarrow> ''UNAVAILABLE''),
         tr_per_contract = target_numberOrNull (fget e ''risk_per_contract'')\<rparr>)"

text \<open>The reason losses cannot be compared, or what the caps on them leave and the cap that is reached.\<close>

definition monetaryLossUsageAvailable :: "risk_budget \<Rightarrow> risk_usage \<Rightarrow> string + (jnum list \<times> string option)" where
  "monetaryLossUsageAvailable b u =
     (if \<not> hasMonetaryLossCaps b then Inr ([PInf], None)
      else if \<not> us_money_known u then Inl ''MONETARY_LOSS_USAGE_UNAVAILABLE''
      else if Some (us_currency u) \<noteq> rb_loss_currency b then Inl ''MONETARY_LOSS_CURRENCY_MISMATCH''
      else let money = (\<lambda>x. case x of Some n \<Rightarrow> n | None \<Rightarrow> Fin 0);
          left = (\<lambda>cap spent. case cap of None \<Rightarrow> PInf | Some l \<Rightarrow> jsub (jsub l (money spent)) (money (us_reserved u)));
          dailyRemaining = left (rb_daily_money b) (us_daily_money u); weeklyRemaining = left (rb_weekly_money b) (us_weekly_money u)
        in Inr ([dailyRemaining, weeklyRemaining],
             if jle dailyRemaining (Fin 0) then Some ''DAILY_MONETARY_LOSS_LIMIT_REACHED''
             else if jle weeklyRemaining (Fin 0) then Some ''WEEKLY_MONETARY_LOSS_LIMIT_REACHED'' else None))"

definition monetary_sizing :: "trade_risk \<Rightarrow> jnum \<Rightarrow> jnum \<Rightarrow> jnum \<Rightarrow> jnum \<Rightarrow> string option \<Rightarrow> sizing" where
  "monetary_sizing risk per_contract multiplier effective requested reached =
     (let quantity = jmin requested (jfloor (jdiv effective per_contract))
      in if jlt quantity (Fin 1)
         then \<lparr>sz_mode = ''MONETARY_RISK_BUDGET'', sz_quantity = Fin 0, sz_requested = requested, sz_reduced = True,
           sz_reason = Some (case reached of Some why \<Rightarrow> why | None \<Rightarrow> ''INSUFFICIENT_MIN_CONTRACT''), sz_per_contract = Some per_contract,
           sz_multiplier = Some multiplier, sz_effective = Some effective, sz_authorized = Some (Fin 0), sz_currency = tr_currency risk\<rparr>
         else \<lparr>sz_mode = ''MONETARY_RISK_BUDGET'', sz_quantity = quantity, sz_requested = requested, sz_reduced = jlt quantity requested,
           sz_reason = None, sz_per_contract = Some per_contract, sz_multiplier = Some multiplier, sz_effective = Some effective,
           sz_authorized = moneyMultiply (Some per_contract) quantity, sz_currency = tr_currency risk\<rparr>)"

definition authorizedSizing :: "jsval \<Rightarrow> risk_budget \<Rightarrow> requested_size \<Rightarrow> risk_usage \<Rightarrow> sizing" where
  "authorizedSizing allocation b requested u =
     (let quantity = rq_quantity requested; risk = allocation_trade_risk allocation
      in if \<not> rq_valid requested then unavailableSizing quantity ''REQUESTED_QUANTITY_INVALID''
         else if quantity = Fin 0 \<or> rb_mode b \<noteq> ''MONETARY_RISK_BUDGET'' then requestedSizing quantity
         else if normalizeSizingMode (firstDefined [get allocation ''sizing_mode'', get allocation ''sizingMode'']) \<noteq> ''MONETARY_RISK_BUDGET''
         then unavailableSizing quantity ''ALLOCATION_SIZING_MODE_MISMATCH''
         else case (rb_money b, tr_per_contract risk) of
             (None, _) \<Rightarrow> unavailableSizing quantity ''MONETARY_RISK_BUDGET_UNAVAILABLE''
           | (Some budget_money, None) \<Rightarrow> unavailableSizing quantity ''MONETARY_RISK_PER_CONTRACT_UNAVAILABLE''
           | (Some budget_money, Some per_contract) \<Rightarrow>
             if tr_availability risk \<noteq> ''KNOWN'' \<or> \<not> jlt (Fin 0) per_contract then unavailableSizing quantity ''MONETARY_RISK_PER_CONTRACT_UNAVAILABLE''
             else if Some (tr_currency risk) \<noteq> rb_money_currency b then unavailableSizing quantity ''MONETARY_RISK_CURRENCY_MISMATCH''
             else case allocationMultiplier allocation of
                 None \<Rightarrow> unavailableSizing quantity ''CONTEXT_RISK_MULTIPLIER_UNAVAILABLE''
               | Some multiplier \<Rightarrow>
                 (case monetaryLossUsageAvailable b u of
                    Inl why \<Rightarrow> unavailableSizing quantity why
                  | Inr (remaining, reached) \<Rightarrow>
                      monetary_sizing risk per_contract multiplier (foldl jmin (jmul budget_money multiplier) remaining) quantity reached))"

section \<open>Approval\<close>

record approval =
  ap_checks :: "limit_check list"
  ap_sizing :: sizing
  ap_size :: jnum
  ap_status :: string
  ap_insufficient :: bool

definition finalizeAllocationApproval :: "risk_budget \<Rightarrow> risk_usage \<Rightarrow> jnum \<Rightarrow> limit_check list \<Rightarrow> sizing \<Rightarrow> approval" where
  "finalizeAllocationApproval b u proposed checks z =
     (let limitStatus = allocationStatus checks;
          initialStatus = (if sz_reason z \<noteq> None \<or> limitStatus = ''BLOCK'' then ''BLOCK'' else if sz_reduced z then ''REDUCE'' else limitStatus);
          grantedSize = (if initialStatus = ''BLOCK'' then Fin 0 else jmin proposed (availableSize checks proposed));
          insufficientCapacity = (initialStatus \<noteq> ''BLOCK'' \<and> jlt (Fin 0) proposed \<and> jlt grantedSize (Fin 1));
          status_name = (if insufficientCapacity then ''BLOCK'' else initialStatus);
          finalApprovedSize = (if status_name = ''BLOCK'' then Fin 0 else grantedSize);
          finalSizing = (if sz_mode z = ''MONETARY_RISK_BUDGET'' \<and> sz_per_contract z \<noteq> None
            then z\<lparr>sz_authorized := moneyMultiply (sz_per_contract z) finalApprovedSize\<rparr> else z)
      in \<lparr>ap_checks = filter (\<lambda>c. \<not> str_includes (lc_code c) ''LOSS_MONETARY'') checks @ monetaryLossChecks b u (sz_authorized finalSizing),
          ap_sizing = finalSizing, ap_size = finalApprovedSize, ap_status = status_name, ap_insufficient = insufficientCapacity\<rparr>)"

definition allocation_checks :: "jsval \<Rightarrow> risk_budget \<Rightarrow> risk_usage \<Rightarrow> string \<Rightarrow> sizing \<Rightarrow> limit_check list" where
  "allocation_checks allocation b u accountId z =
     (let instr = allocation_instrument allocation; account = allocation_account accountId allocation; proposed = sz_quantity z; group = correlationGroup instr (rb_groups b)
      in limitCheck ''PORTFOLIO_ABS_SIZE'' (us_open u) proposed (rb_portfolio b) ''portfolio''
       @ limitCheck ''ACCOUNT_ABS_SIZE'' (used (us_accounts u) account) proposed (map_of (rb_accounts b) account) account
       @ limitCheck ''INSTRUMENT_ABS_SIZE'' (used (us_instruments u) instr) proposed (map_of (rb_instruments b) instr) instr
       @ limitCheck ''CORRELATION_GROUP_ABS_SIZE'' (used (us_groups u) group) proposed (map_of (rb_correlations b) group) group
       @ strategyChecks allocation u b
       @ lossCheck ''DAILY_LOSS_R'' (us_total_r u) (rb_daily_r b)
       @ lossCheck ''WEEKLY_LOSS_R'' (us_weekly_r u) (rb_weekly_r b)
       @ monetaryLossChecks b u (sz_authorized z))"

definition allocation_sizing :: "jsval \<Rightarrow> risk_budget \<Rightarrow> risk_usage \<Rightarrow> sizing" where
  "allocation_sizing allocation b u = authorizedSizing allocation b (requestedQuantity (get allocation ''proposed_size'')) u"

definition allocation_approval :: "jsval \<Rightarrow> risk_budget \<Rightarrow> risk_usage \<Rightarrow> string \<Rightarrow> approval" where
  "allocation_approval allocation b u accountId =
     (let z = allocation_sizing allocation b u
      in finalizeAllocationApproval b u (sz_quantity z) (allocation_checks allocation b u accountId z) z)"

section \<open>Reservation\<close>

definition reserve_in :: "limits \<Rightarrow> string \<Rightarrow> jnum \<Rightarrow> limits" where
  "reserve_in m k approved = put_field k (size_round (jadd (used m k) approved)) m"

definition reserveApprovedAllocation :: "risk_usage \<Rightarrow> jsval \<Rightarrow> jnum \<Rightarrow> jnum option \<Rightarrow> (string \<times> string list) list \<Rightarrow> string \<Rightarrow> risk_usage" where
  "reserveApprovedAllocation u allocation grantedSize approvedMonetaryRisk groups defaultAccountId =
     (let approved = num_or_zero (Num grantedSize); instr = allocation_instrument allocation
      in if \<not> jlt (Fin 0) approved then u
         else u\<lparr>us_open := size_round (jadd (us_open u) approved),
           us_accounts := reserve_in (us_accounts u) (allocation_account defaultAccountId allocation) approved,
           us_instruments := reserve_in (us_instruments u) instr approved,
           us_groups := reserve_in (us_groups u) (correlationGroup instr groups) approved,
           us_strategies := foldl (\<lambda>m i. reserve_in m i approved) (us_strategies u) (uniq (signal_strategies allocation)),
           us_reserved := (case approvedMonetaryRisk of
               Some r \<Rightarrow> if is_finite r \<and> jlt (Fin 0) r then Some (moneyAdd (us_reserved u) approvedMonetaryRisk) else us_reserved u
             | None \<Rightarrow> us_reserved u)\<rparr>)"

definition allocation_sort_key :: "jsval \<Rightarrow> string" where
  "allocation_sort_key a = js_text (get a ''account_id'') @ '':'' @ js_upper (get a ''instrument'') @ '':'' @ js_text (get a ''id'')"

definition allocation_order :: "host \<Rightarrow> jsval list \<Rightarrow> jsval list" where
  "allocation_order H allocations = js_sort (\<lambda>l r. 0 < locale_compare H (allocation_sort_key l) (allocation_sort_key r)) allocations"

definition usage_after :: "risk_budget \<Rightarrow> string \<Rightarrow> risk_usage \<Rightarrow> jsval \<Rightarrow> risk_usage" where
  "usage_after b accountId u allocation =
     (let ap = allocation_approval allocation b u accountId
      in reserveApprovedAllocation u allocation (size_round (ap_size ap)) (sz_authorized (ap_sizing ap)) (rb_groups b) accountId)"

text \<open>The evaluations in order, each with the usage it was made under.\<close>

fun evaluateAllocationsSequentially :: "risk_budget \<Rightarrow> string \<Rightarrow> risk_usage \<Rightarrow> jsval list \<Rightarrow> (jsval \<times> risk_usage \<times> approval) list" where
  "evaluateAllocationsSequentially b accountId u [] = []"
| "evaluateAllocationsSequentially b accountId u (a # as) =
     (a, u, allocation_approval a b u accountId) # evaluateAllocationsSequentially b accountId (usage_after b accountId u a) as"

section \<open>Whole sizes\<close>

definition whole :: "jnum \<Rightarrow> bool" where
  "whole x \<longleftrightarrow> (case x of Fin r \<Rightarrow> r = of_int \<lfloor>r\<rfloor> | _ \<Rightarrow> True)"

lemma whole_simps [simp]: "whole (Fin (of_int k))" "whole NaN" "whole PInf" "whole NInf" "whole (Fin 0)" "whole (Fin 1)"
  by (simp_all add: whole_def)

lemma wholeE: "whole x \<Longrightarrow> x \<noteq> NaN \<Longrightarrow> x \<noteq> PInf \<Longrightarrow> x \<noteq> NInf \<Longrightarrow> \<exists>k. x = Fin (of_int k)"
  by (auto simp: whole_def split: jnum.splits)

lemma whole_min: "whole a \<Longrightarrow> whole b \<Longrightarrow> whole (jmin a b)" and whole_max: "whole a \<Longrightarrow> whole b \<Longrightarrow> whole (jmax a b)"
  by (simp_all add: jmin_def jmax_def)

lemma whole_floor [simp]: "whole (jfloor a)"
  by (simp add: whole_def jfloor_def split: jnum.splits)

lemma is_integer_whole: "is_integer n \<Longrightarrow> whole n"
  by (auto simp: is_integer_def whole_def frac_def elim: Ints_cases split: jnum.splits)

text \<open>A size that is asked for: nothing, at least one whole contract, or not a number.\<close>

definition asked_size :: "jnum \<Rightarrow> bool" where
  "asked_size x \<longleftrightarrow> x = NaN \<or> x = Fin 0 \<or> jle (Fin 1) x \<and> whole x"

lemma asked_positive_integer:
  assumes "is_integer n" and "jlt (Fin 0) n"
  shows "asked_size n"
proof -
  have "whole n" using assms(1) by (rule is_integer_whole)
  moreover have "n \<noteq> NaN" using assms(2) by auto
  ultimately have "jle (Fin 1) n"
    using assms(2) wholeE[of n] by (cases n) auto
  with \<open>whole n\<close> show ?thesis by (simp add: asked_size_def)
qed

lemma requested_asked: "asked_size (rq_quantity (requestedQuantity v))"
  by (auto simp: requestedQuantity_def asked_positive_integer asked_size_def[of "Fin 0"] split: option.splits)

lemma monetary_asked:
  assumes "asked_size requested"
  shows "asked_size (sz_quantity (monetary_sizing risk per_contract multiplier effective requested reached))"
proof -
  let ?q = "jmin requested (jfloor (jdiv effective per_contract))"
  have "whole requested" using assms by (auto simp: asked_size_def)
  then have w: "whole ?q" by (rule whole_min) simp
  have "?q = NaN \<or> jle (Fin 1) ?q \<or> jlt ?q (Fin 1)" by (cases ?q) auto
  then show ?thesis using w by (auto simp: monetary_sizing_def asked_size_def Let_def)
qed

lemma sizing_asked: "asked_size (sz_quantity (authorizedSizing allocation b requested u))" if "asked_size (rq_quantity requested)"
  using that monetary_asked[OF that]
  by (auto simp: authorizedSizing_def requestedSizing_def unavailableSizing_def asked_size_def[of "Fin 0"] Let_def
      split: option.splits sum.splits)

section \<open>What the limits leave\<close>

lemma foldl_jmin_le: "foldl jmin v vs = NaN \<or> list_all (jle (foldl jmin v vs)) (v # vs)"
proof (induction vs arbitrary: v)
  case Nil
  show ?case using jle_refl[of v] by auto
next
  case (Cons x vs)
  let ?m = "foldl jmin (jmin v x) vs"
  have "?m = NaN \<or> jle ?m (jmin v x) \<and> list_all (jle ?m) vs" using Cons.IH[of "jmin v x"] by simp
  moreover have "jle ?m v \<and> jle ?m x" if m: "jle ?m (jmin v x)"
  proof -
    have "jmin v x \<noteq> NaN" using m by (cases "jmin v x") auto
    then have "v \<noteq> NaN" "x \<noteq> NaN" by (auto simp: jmin_def)
    then show ?thesis using m jmin_le[of v x] jle_trans by blast
  qed
  ultimately show ?case by auto
qed

lemma availableSize_le:
  assumes "c \<in> set checks" and "sizing_check c" and "lc_available c = Fin (of_int d)" and "availableSize checks fallback \<noteq> NaN"
  shows "\<exists>k. availableSize checks fallback = Fin (of_int k) \<and> 0 \<le> k \<and> k \<le> max 0 d"
proof -
  obtain v vs where v: "List.map lc_available (filter sizing_check checks) = v # vs"
    using assms(1,2) by (cases "filter sizing_check checks") (auto simp: filter_empty_conv)
  let ?m = "foldl jmin v vs"
  have size: "availableSize checks fallback = jmax (Fin 0) (jfloor ?m)" by (simp add: availableSize_def v)
  have "Fin (of_int d) \<in> set (v # vs)" unfolding v[symmetric] using assms(1-3) by force
  then have le: "?m = NaN \<or> jle ?m (Fin (of_int d))" using foldl_jmin_le[of v vs] by (auto simp: list_all_iff)
  show ?thesis
  proof (cases ?m)
    case NaN
    then show ?thesis using assms(4) by (simp add: size jfloor_def jmax_def)
  next
    case PInf
    then show ?thesis using le by simp
  next
    case NInf
    then show ?thesis by (intro exI[of _ 0]) (simp add: size jfloor_def jmax_def)
  next
    case (Fin r)
    then have "\<lfloor>r\<rfloor> \<le> d" using le by (simp add: floor_le_iff)
    then show ?thesis using Fin by (intro exI[of _ "max 0 \<lfloor>r\<rfloor>"]) (auto simp: size jfloor_def jmax_def)
  qed
qed

lemma size_round_int: "0 \<le> k \<Longrightarrow> k \<le> 10 ^ 11 \<Longrightarrow> size_round (Fin (of_int k)) = Fin (of_int k)"
  using round_digits_int[of k] by (simp add: size_round_def)

lemma size_round_positive:
  assumes "jle (Fin 1) x"
  shows "jlt (Fin 0) (size_round x)"
proof -
  have "jle (Fin 1) (round_digits x 4)" using round_digits_mono[OF assms] round_digits_int[of 1] by simp
  moreover have "x \<noteq> NaN" using assms by auto
  ultimately show ?thesis by (cases "round_digits x 4") (auto simp: size_round_def)
qed

lemma number_or_zero: "num_or_zero (Num n) = (if n = NaN then Fin 0 else n)"
  by (cases n) (simp_all add: num_or_zero_def js_or_def)

lemma limit_jsub_int: "\<bar>i\<bar> \<le> 10 ^ 11 \<Longrightarrow> \<bar>j\<bar> \<le> 10 ^ 11 \<Longrightarrow> jsub (Fin (of_int i)) (Fin (of_int j)) = Fin (of_int (i - j))"
  using rnd_of_int[of "i - j"] by (simp add: jsub_def)

text \<open>A granted size is a whole number that the limit of the portfolio leaves room for.\<close>

lemma granted_whole:
  assumes "c \<in> set checks" and "lc_available c = Fin (of_int d)" and "d \<le> 10 ^ 11"
    and "lc_proposed c = size_round (num_or_zero (Num proposed))" and "\<not> str_includes (lc_code c) ''LOSS''" and "asked_size proposed"
  shows "\<exists>k. size_round (ap_size (finalizeAllocationApproval b u proposed checks z)) = Fin (of_int k) \<and> 0 \<le> k \<and> k \<le> max 0 d"
proof -
  define g where "g = ap_size (finalizeAllocationApproval b u proposed checks z)"
  let ?a = "availableSize checks proposed"
  have zero: "\<exists>k. size_round (Fin 0) = Fin (of_int k) \<and> 0 \<le> k \<and> k \<le> max 0 d"
    using size_round_int[of 0] by (intro exI[of _ 0]) simp
  have "g = Fin 0 \<or> g = jmin proposed ?a" by (simp add: g_def finalizeAllocationApproval_def Let_def)
  moreover have "\<exists>k. size_round g = Fin (of_int k) \<and> 0 \<le> k \<and> k \<le> max 0 d" if g: "g = jmin proposed ?a"
  proof (cases "g = NaN")
    case True
    then show ?thesis using zero by (simp add: size_round_def)
  next
    case False
    then have n: "proposed \<noteq> NaN" "?a \<noteq> NaN" using g by (auto simp: jmin_def)
    show ?thesis
    proof (cases "proposed = Fin 0")
      case True
      have "availableSize checks (Fin 0) = Fin 0 \<or> jle (Fin 0) (availableSize checks (Fin 0))"
        using n(2) True by (auto simp: availableSize_def jmax_ge jmax_def split: list.splits if_splits)
          (metis jmax_def jmax_ge jnum.distinct(5))
      then have "g = Fin 0" using g n True by (cases "availableSize checks (Fin 0)") (auto simp: jmin_def)
      then show ?thesis using zero by simp
    next
      case False
      then have one: "jle (Fin 1) proposed" and w: "whole proposed" using assms(6) n by (auto simp: asked_size_def)
      have "sizing_check c" using assms(4,5) size_round_positive[OF one] n by (simp add: sizing_check_def number_or_zero)
      from availableSize_le[OF assms(1) this assms(2) n(2)]
      obtain a where a: "?a = Fin (of_int a)" "0 \<le> a" "a \<le> max 0 d" by blast
      obtain k where k: "g = Fin (of_int k)" "0 \<le> k" "k \<le> a"
      proof (cases proposed)
        case (Fin r)
        then obtain p where "proposed = Fin (of_int p)" using w wholeE by blast
        then show ?thesis using that[of "min p a"] one a g by (auto simp: jmin_def min_def split: if_splits)
      qed (use n that[of a] one a g in \<open>auto simp: jmin_def\<close>)
      then show ?thesis using a assms(3) size_round_int[of k] by (intro exI[of _ k]) auto
    qed
  qed
  ultimately show ?thesis using zero unfolding g_def[symmetric] by auto
qed

section \<open>A batch\<close>

lemma limitCheck_portfolio:
  assumes "0 \<le> n" "n \<le> 10 ^ 11" "0 \<le> L" "L \<le> 10 ^ 11"
  shows "\<exists>c. limitCheck nm (Fin (of_int n)) proposed (Some (Fin (of_int L))) scope = [c] \<and> lc_code c = nm
    \<and> lc_proposed c = size_round (num_or_zero (Num proposed)) \<and> lc_available c = Fin (of_int (L - n))"
proof -
  have "size_round (Fin (of_int (L - n))) = Fin (of_int (L - n))"
    using assms round_digits_int[of "L - n"] by (simp add: size_round_def)
  then show ?thesis using assms limit_jsub_int[of L n] by (simp add: limitCheck_def number_or_zero Let_def)
qed

lemma approval_whole:
  assumes "rb_portfolio b = Some (Fin (of_int L))" and "us_open u = Fin (of_int n)"
    and "0 \<le> n" "n \<le> 10 ^ 11" "0 \<le> L" "L \<le> 10 ^ 11"
  shows "\<exists>k. size_round (ap_size (allocation_approval a b u accountId)) = Fin (of_int k) \<and> 0 \<le> k \<and> k \<le> max 0 (L - n)"
proof -
  let ?z = "allocation_sizing a b u"
  from limitCheck_portfolio[OF assms(3-6)]
  obtain c where c: "limitCheck ''PORTFOLIO_ABS_SIZE'' (us_open u) (sz_quantity ?z) (rb_portfolio b) ''portfolio'' = [c]"
    and f: "lc_code c = ''PORTFOLIO_ABS_SIZE''" "lc_proposed c = size_round (num_or_zero (Num (sz_quantity ?z)))" "lc_available c = Fin (of_int (L - n))"
    unfolding assms(1,2) by blast
  have "c \<in> set (allocation_checks a b u accountId ?z)" by (simp add: allocation_checks_def c Let_def)
  moreover have "asked_size (sz_quantity ?z)" unfolding allocation_sizing_def by (intro sizing_asked requested_asked)
  moreover have "\<not> str_includes (lc_code c) ''LOSS''" unfolding f by code_simp
  ultimately show ?thesis unfolding allocation_approval_def Let_def
    using granted_whole[of c _ "L - n"] f assms(3,6) by simp
qed

definition granted_sizes :: "(jsval \<times> risk_usage \<times> approval) list \<Rightarrow> jnum list" where
  "granted_sizes evaluations = List.map (\<lambda>(a, u, ap). size_round (ap_size ap)) evaluations"

lemma usage_after_open:
  assumes "size_round (ap_size (allocation_approval a b u accountId)) = Fin (of_int k)" "0 \<le> k"
    and "us_open u = Fin (of_int n)" "0 \<le> n" "n + k \<le> 10 ^ 11"
  shows "us_open (usage_after b accountId u a) = Fin (of_int (n + k))"
proof (cases "k = 0")
  case True
  then show ?thesis using assms by (simp add: usage_after_def reserveApprovedAllocation_def number_or_zero Let_def)
next
  case False
  have "jadd (Fin (of_int n)) (Fin (of_int k)) = Fin (of_int (n + k))" using rnd_of_int[of "n + k"] assms by simp
  then show ?thesis using False assms size_round_int[of "n + k"]
    by (simp add: usage_after_def reserveApprovedAllocation_def number_or_zero Let_def)
qed

text \<open>
  Through a whole batch of allocations the granted sizes are whole contracts, none negative, and together with what was
  open before they stay within the limit of the portfolio (or, where that was already exceeded, grant nothing).
\<close>

lemma batch_within_portfolio_limit:
  assumes "rb_portfolio b = Some (Fin (of_int L))" and "us_open u = Fin (of_int n)"
    and "0 \<le> n" "n \<le> 10 ^ 11" "0 \<le> L" "L \<le> 10 ^ 11"
  shows "\<exists>ks. granted_sizes (evaluateAllocationsSequentially b accountId u allocations) = List.map (\<lambda>k. Fin (of_int k)) ks
    \<and> list_all ((\<le>) 0) ks \<and> n + sum_list ks \<le> max n L"
  using assms
proof (induction allocations arbitrary: u n)
  case Nil
  show ?case by (intro exI[of _ "[]"]) (simp add: granted_sizes_def)
next
  case (Cons a as)
  from approval_whole[OF Cons.prems] obtain k
    where k: "size_round (ap_size (allocation_approval a b u accountId)) = Fin (of_int k)" "0 \<le> k" "k \<le> max 0 (L - n)" by blast
  have "n + k \<le> max n L" using k by auto
  then have "n + k \<le> 10 ^ 11" using Cons.prems by linarith
  with k Cons.prems have "us_open (usage_after b accountId u a) = Fin (of_int (n + k))" by (intro usage_after_open) auto
  from Cons.IH[OF Cons.prems(1) this] k Cons.prems \<open>n + k \<le> 10 ^ 11\<close>
  obtain ks where ks: "granted_sizes (evaluateAllocationsSequentially b accountId (usage_after b accountId u a) as) = List.map (\<lambda>k. Fin (of_int k)) ks"
    "list_all ((\<le>) 0) ks" "n + k + sum_list ks \<le> max (n + k) L" by auto
  then show ?case using k \<open>n + k \<le> max n L\<close> by (intro exI[of _ "k # ks"]) (auto simp: granted_sizes_def)
qed

section \<open>Losses\<close>

lemma reached_loss_blocks:
  assumes "jle l (jabs (jmin (Fin 0) (num_or_zero (Num r))))" and "set (lossCheck cd r (Some l)) \<subseteq> set checks"
  shows "allocationStatus checks = ''BLOCK''"
proof -
  let ?loss = "jabs (jmin (Fin 0) (num_or_zero (Num r)))"
  have "jsub l ?loss = NaN \<or> jle (jsub l ?loss) (Fin 0)"
    using assms(1) rnd_mono[of _ 0] by (cases l; cases ?loss) (auto simp: jsub_def jinf_def)
  then have "jle (size_round (jsub l ?loss)) (Fin 0)"
    using round_digits_mono[of "jsub l ?loss" "Fin 0"] round_digits_int[of 0] by (auto simp: size_round_def)
  then obtain c where "lossCheck cd r (Some l) = [c]" "lc_breached c" "jle (lc_available c) (Fin 0)"
    using assms(1) by (auto simp: lossCheck_def Let_def)
  then have "list_ex (\<lambda>c. lc_breached c \<and> jle (lc_available c) (Fin 0)) checks"
    using assms(2) by (auto simp: list_ex_iff)
  then show ?thesis by (simp add: allocationStatus_def)
qed

lemma blocked_grants_nothing:
  "allocationStatus checks = ''BLOCK'' \<Longrightarrow> ap_size (finalizeAllocationApproval b u proposed checks z) = Fin 0
     \<and> ap_status (finalizeAllocationApproval b u proposed checks z) = ''BLOCK''"
  by (simp add: finalizeAllocationApproval_def Let_def)

text \<open>C29. C. Once the loss of the day or of the week has reached its limit nothing is granted to any allocation.\<close>

theorem loss_limit_blocks:
  assumes "rb_daily_r b = Some l \<and> jle l (jabs (jmin (Fin 0) (num_or_zero (Num (us_total_r u)))))
    \<or> rb_weekly_r b = Some l \<and> jle l (jabs (jmin (Fin 0) (num_or_zero (Num (us_weekly_r u)))))"
  shows "ap_size (allocation_approval a b u accountId) = Fin 0 \<and> ap_status (allocation_approval a b u accountId) = ''BLOCK''"
proof -
  let ?z = "allocation_sizing a b u"
  have "allocationStatus (allocation_checks a b u accountId ?z) = ''BLOCK''"
    using assms
  proof (elim disjE conjE)
    assume "rb_daily_r b = Some l" "jle l (jabs (jmin (Fin 0) (num_or_zero (Num (us_total_r u)))))"
    then show ?thesis by (intro reached_loss_blocks[of l "us_total_r u" "''DAILY_LOSS_R''"]) (auto simp: allocation_checks_def Let_def)
  next
    assume "rb_weekly_r b = Some l" "jle l (jabs (jmin (Fin 0) (num_or_zero (Num (us_weekly_r u)))))"
    then show ?thesis by (intro reached_loss_blocks[of l "us_weekly_r u" "''WEEKLY_LOSS_R''"]) (auto simp: allocation_checks_def Let_def)
  qed
  then show ?thesis unfolding allocation_approval_def Let_def by (rule blocked_grants_nothing)
qed

theorem loss_limit_blocks_witness:
  "let b = normalized_budget (Obj [(''max_daily_loss_r'', Num (Fin 2))]); a = Obj [(''instrument'', Str ''MES''), (''proposed_size'', Num (Fin 1))];
       u = buildUsageSnapshot [(''totals'', Obj [(''total_r'', Num (Fin (- 2)))])] [a] [] ''default'' Null
   in ap_size (allocation_approval a b u ''default'') = Fin 0 \<and> ap_status (allocation_approval a b u ''default'') = ''BLOCK''"
proof -
  let ?b = "normalized_budget (Obj [(''max_daily_loss_r'', Num (Fin 2))])"
    and ?a = "Obj [(''instrument'', Str ''MES''), (''proposed_size'', Num (Fin 1))]"
  let ?u = "buildUsageSnapshot [(''totals'', Obj [(''total_r'', Num (Fin (- 2)))])] [?a] [] ''default'' Null"
  have "rb_daily_r ?b = Some (Fin 2)"
    by (simp add: normalized_budget_def nonNegativeLimit_def firstDefined_def present_def target_numberOrNull_def Let_def)
  moreover have "us_total_r ?u = Fin (- 2)"
    by (simp add: buildUsageSnapshot_def lossValue_def portfolio_total_def js_coalesce_def Let_def)
  ultimately show ?thesis
    using loss_limit_blocks[of ?b "Fin 2" ?u ?a "''default''"] by (simp add: number_or_zero jmin_def)
qed

section \<open>A limit that is not applied\<close>

definition unsized_signal_allocation :: jsval where
  "unsized_signal_allocation = Obj [(''instrument'', Str ''MES''), (''proposed_size'', Num (Fin 5)),
     (''contributing_signals'', Arr [Obj [(''strategy_instance_id'', Str ''s1'')]])]"

definition strategy_budget :: risk_budget where
  "strategy_budget = normalized_budget (Obj [(''max_strategy_abs_size'', Obj [(''s1'', Num (Fin 2))])])"

lemma strategy_budget_fields:
  "rb_strategies strategy_budget = [(''s1'', Fin 2)]" "rb_accounts strategy_budget = []" "rb_instruments strategy_budget = []"
  "rb_correlations strategy_budget = []" "rb_portfolio strategy_budget = None" "rb_daily_r strategy_budget = None" "rb_weekly_r strategy_budget = None"
  "rb_daily_money strategy_budget = None" "rb_weekly_money strategy_budget = None" "rb_mode strategy_budget = ''REQUESTED_QUANTITY_CAP''"
  "\<not> budgetConfigurationMissing strategy_budget"
  by code_simp+

lemma unsized_signal: "own_order (proposedByStrategy unsized_signal_allocation) = [(''s1'', Fin 0)]"
  by code_simp

lemma unsized_sizing: "allocation_sizing unsized_signal_allocation strategy_budget u = requestedSizing (Fin 5)"
proof -
  have "is_integer (Fin 5)" by (simp add: is_integer_def)
  then show ?thesis
    by (simp add: allocation_sizing_def authorizedSizing_def requestedQuantity_def target_numberOrNull_def unsized_signal_allocation_def
        strategy_budget_fields Let_def)
qed

text \<open>A strategy limited to two contracts is granted five: its signal carries no size of its own.\<close>

lemma strategy_limit_not_applied:
  assumes "us_strategies u = []"
  shows "ap_status (allocation_approval unsized_signal_allocation strategy_budget u ''default'') = ''PASS''
    \<and> ap_size (allocation_approval unsized_signal_allocation strategy_budget u ''default'') = Fin 5"
proof -
  have z: "size_round (Fin 0) = Fin 0" using size_round_int[of 0] by simp
  have c: "allocation_checks unsized_signal_allocation strategy_budget u ''default'' (requestedSizing (Fin 5)) =
    [\<lparr>lc_code = ''STRATEGY_ABS_SIZE'', lc_scope = ''s1'', lc_unit = None, lc_current = Fin 0, lc_proposed = Fin 0, lc_projected = Fin 0, lc_limit = Fin 2,
       lc_available = size_round (Fin 2), lc_breached = False\<rparr>]"
    using z assms limit_jsub_int[of 2 0]
    by (simp add: allocation_checks_def strategy_budget_fields strategyChecks_def unsized_signal limitCheck_def lossCheck_def
        monetaryLossChecks_def used_def number_or_zero Let_def)
  have f: "sz_quantity (requestedSizing q) = q" "sz_reason (requestedSizing q) = None" "\<not> sz_reduced (requestedSizing q)" for q
    by (simp_all add: requestedSizing_def)
  show ?thesis
    by (simp add: allocation_approval_def unsized_sizing f c finalizeAllocationApproval_def allocationStatus_def availableSize_def sizing_check_def
        jmin_def Let_def)
qed

end
