(* ===== verification/Risk_Economics.thy ===== *)
theory Risk_Economics
  imports Risk_Budget
begin

text \<open>
  The rest of \<open>packages/desk-domain/src/portfolio-risk-budget-v1.js\<close>: the report on the money at risk that goes with
  each evaluation, the evaluation record, and \<open>evaluatePortfolioRiskBudgetV1\<close>, over \<open>Risk_Budget\<close>. Allocations are
  objects. Shown: a budget that is missing or malformed evaluates nothing, closes the gate and leaves the stage of
  the targets (\<open>Target_Position\<close>) with no decision to build on; the gate passes exactly when every allocation does;
  and the sizes the targets read are those that were granted, so that together they keep within the portfolio's limit.
\<close>

section \<open>Projections of the limits\<close>

definition check_js :: "limit_check \<Rightarrow> jsval" where
  "check_js c = Obj ([(''code'', Str (lc_code c)), (''scope'', Str (lc_scope c))]
     @ (case lc_unit c of Some n \<Rightarrow> [(''unit'', Str n)] | None \<Rightarrow> [])
     @ [(''current'', Num (lc_current c)), (''proposed'', Num (lc_proposed c)), (''projected'', Num (lc_projected c)),
        (''limit'', Num (lc_limit c)), (''available'', Num (lc_available c)), (''breached'', Bool (lc_breached c))])"

record limit_projection =
  lp_type :: string
  lp_scope :: string
  lp_value :: jnum
  lp_unit :: string
  lp_current :: "jnum option"
  lp_resulting :: "jnum option"
  lp_remaining :: jnum
  lp_breached :: bool
  lp_severity :: string

definition limitProjection :: "limit_check \<Rightarrow> limit_projection" where
  "limitProjection c =
     (let part = (\<lambda>n. if jlt (Fin 0) (lc_limit c) then Some (size_round (jdiv n (lc_limit c))) else None)
      in \<lparr>lp_type = lc_code c, lp_scope = lc_scope c, lp_value = lc_limit c,
          lp_unit = (case lc_unit c of Some n \<Rightarrow> n | None \<Rightarrow> if str_includes (lc_code c) ''LOSS_R'' then ''R'' else ''CONTRACTS''),
          lp_current = part (lc_current c), lp_resulting = part (lc_projected c), lp_remaining = size_round (lc_available c), lp_breached = lc_breached c,
          lp_severity = (if lc_breached c then if jle (lc_available c) (Fin 0) then ''BLOCK'' else ''REDUCE'' else ''INFO'')\<rparr>)"

definition projection_js :: "limit_projection \<Rightarrow> jsval" where
  "projection_js p = Obj [(''limit_id'', Str (lp_type p @ '':'' @ lp_scope p)), (''type'', Str (lp_type p)), (''scope'', Str (lp_scope p)),
     (''value'', Num (lp_value p)), (''unit'', Str (lp_unit p)), (''current_utilization'', js_opt_num (lp_current p)),
     (''resulting_utilization'', js_opt_num (lp_resulting p)), (''remaining'', Num (lp_remaining p)), (''breached'', Bool (lp_breached p)),
     (''severity'', Str (lp_severity p))]"

definition utilization :: "limit_projection \<Rightarrow> jnum" where
  "utilization p = (case lp_resulting p of Some n \<Rightarrow> n | None \<Rightarrow> Fin 0)"

definition nearest_limit :: "limit_projection list \<Rightarrow> limit_projection option" where
  "nearest_limit limits =
     (case js_sort (\<lambda>l r. jlt (utilization l) (utilization r)) (filter (\<lambda>p. lp_resulting p \<noteq> None) limits) of p # _ \<Rightarrow> Some p | [] \<Rightarrow> None)"

definition nearestLimitProjection :: "limit_projection list \<Rightarrow> jsval" where
  "nearestLimitProjection limits = (case nearest_limit limits of
       None \<Rightarrow> Obj [(''availability'', Str ''UNAVAILABLE''), (''reason_code'', Str ''NO_LIMIT_UTILIZATION_AVAILABLE'')]
     | Some p \<Rightarrow> Obj [(''availability'', Str ''KNOWN''), (''type'', Str (lp_type p)), (''utilization'', js_opt_num (lp_resulting p)),
         (''remaining'', Num (lp_remaining p)), (''severity'', Str (lp_severity p))])"

section \<open>Money at risk\<close>

definition metricNode :: "jnum \<Rightarrow> string \<Rightarrow> string \<Rightarrow> jsval" where
  "metricNode value unit_name availability_name =
     (if availability_name = ''KNOWN'' then Obj [(''availability'', Str availability_name), (''value'', Num (size_round value)), (''unit'', Str unit_name)]
      else Obj [(''availability'', Str availability_name), (''value'', Null), (''unit'', Str unit_name), (''reason_code'', Str ''SOURCE_UNAVAILABLE'')])"

definition unavailableMetric :: "string \<Rightarrow> jsval" where
  "unavailableMetric kind_name = Obj [(''availability'', Str ''UNAVAILABLE''), (''value'', Null), (''unit'', Str ''UNAVAILABLE''),
     (''reason_code'', Str (to_upper kind_name @ ''_UNAVAILABLE''))]"

definition monetaryMetric :: "risk_usage \<Rightarrow> string \<Rightarrow> jnum option \<Rightarrow> jsval" where
  "monetaryMetric u key amount_known =
     (if us_money_known u then metricNode (case amount_known of Some n \<Rightarrow> n | None \<Rightarrow> Fin 0) (us_currency u) ''KNOWN'' else unavailableMetric key)"

definition pctOf :: "jnum option \<Rightarrow> jnum option \<Rightarrow> jnum option" where
  "pctOf money capital = (case (money, capital) of
       (Some a, Some c) \<Rightarrow> if jle c (Fin 0) then None else Some (size_round (jmul (jdiv a c) (Fin 100)))
     | _ \<Rightarrow> None)"

definition normalizeAccountCapitalReference :: "host \<Rightarrow> jsval \<Rightarrow> jsobj" where
  "normalizeAccountCapitalReference H value =
     (let source = fget (obj_or_empty value);
          capital = target_numberOrNull (firstDefined [source ''value'', source ''equity'', source ''capital'', source ''net_liquidation_value'', source ''netLiquidationValue'']);
          as_of = js_opt_str (target_iso H (firstDefined [source ''as_of_utc'', source ''asOfUtc'', source ''captured_at'']))
      in case capital of
           None \<Rightarrow> [(''availability'', Str ''UNAVAILABLE''), (''source'', Str (js_text (firstDefined [source ''source'', Str ''ACCOUNT_CAPITAL_REFERENCE_UNAVAILABLE'']))),
             (''value'', Null), (''currency'', Str (js_text (firstDefined [source ''currency'', Str ''UNAVAILABLE'']))), (''as_of_utc'', as_of)]
         | Some n \<Rightarrow> [(''availability'', Str ''KNOWN''), (''source'', Str (js_text (firstDefined [source ''source'', Str ''ACCOUNT_SNAPSHOT'']))),
             (''value'', Num n), (''currency'', Str (js_text (firstDefined [source ''currency'', Str ''USD'']))), (''as_of_utc'', as_of)])"

definition allocationTradeRisk :: "jsval \<Rightarrow> jnum \<Rightarrow> jsobj" where
  "allocationTradeRisk allocation approved =
     (let risk = allocation_trade_risk allocation; n = Num (Fin (of_nat (length (arr_or_empty (get allocation ''contributing_signals'')))))
      in case selected_economics allocation of
           None \<Rightarrow> [(''availability'', Str (tr_availability risk)), (''reason_codes'', Arr [Str ''TRADE_PLAN_ECONOMICS_UNAVAILABLE'']),
             (''entry_price'', Null), (''stop_price'', Null), (''stop_distance_points'', Null), (''stop_distance_ticks'', Null), (''tick_size'', Null),
             (''tick_value'', Null), (''currency'', Str (tr_currency risk)), (''risk_per_contract'', Null), (''total_authorized_risk'', Null),
             (''expected_loss'', Null), (''signal_count'', n)]
         | Some e \<Rightarrow> (let number = (\<lambda>k. (k, js_opt_num (target_numberOrNull (fget e k)))); sum_at_risk = js_opt_num (moneyMultiply (tr_per_contract risk) approved)
             in [(''availability'', Str (tr_availability risk)), (''reason_codes'', Arr (arr_or_empty (fget e ''reason_codes''))), number ''entry_price'',
               number ''stop_price'', number ''stop_distance_points'', number ''stop_distance_ticks'', number ''tick_size'', number ''tick_value'',
               (''currency'', Str (tr_currency risk)), (''risk_per_contract'', js_opt_num (tr_per_contract risk)), (''total_authorized_risk'', sum_at_risk),
               (''expected_loss'', sum_at_risk), (''target_risks'', Arr (arr_or_empty (fget e ''targets''))), (''signal_count'', n)]))"

section \<open>The evaluation of an allocation\<close>

definition riskDecision :: "string \<Rightarrow> string" where
  "riskDecision status_name = (if status_name = ''PASS'' then ''APPROVED'' else if status_name = ''REDUCE'' then ''REDUCED'' else ''REJECTED'')"

definition sizing_js :: "sizing \<Rightarrow> jsval" where
  "sizing_js z =
     (let shared = [(''mode'', Str (sz_mode z)), (''quantity'', Num (sz_quantity z)), (''requested_quantity'', Num (sz_requested z)),
        (''reduced'', Bool (sz_reduced z)), (''reason_code'', js_opt_str (sz_reason z))]
      in if sz_mode z = ''REQUESTED_QUANTITY_CAP'' then Obj (shared @ [(''authorized_monetary_risk'', Null)])
         else Obj (shared @ [(''risk_per_contract'', js_opt_num (sz_per_contract z)), (''context_risk_multiplier'', js_opt_num (sz_multiplier z)),
           (''effective_monetary_risk_budget'', js_opt_num (sz_effective z)), (''authorized_monetary_risk'', js_opt_num (sz_authorized z)),
           (''currency'', Str (sz_currency z))]))"

definition breached_codes :: "approval \<Rightarrow> string list" where
  "breached_codes ap = List.map lc_code (filter lc_breached (ap_checks ap))"

definition reason_codes :: "approval \<Rightarrow> string list" where
  "reason_codes ap = breached_codes ap @ (case sz_reason (ap_sizing ap) of Some why \<Rightarrow> [why] | None \<Rightarrow> [])
     @ (if ap_insufficient ap then [''INSUFFICIENT_WHOLE_CONTRACT_CAPACITY''] else [])"

definition requested_raw :: "jsval \<Rightarrow> jnum option" where
  "requested_raw allocation = rq_raw (requestedQuantity (get allocation ''proposed_size''))"

definition evaluation_base :: "string \<Rightarrow> jsval \<Rightarrow> risk_budget \<Rightarrow> risk_usage \<Rightarrow> jsobj" where
  "evaluation_base accountId allocation b u =
     (let ap = allocation_approval allocation b u accountId
      in [(''candidate_allocation_id'', js_or (get allocation ''id'') (Str [])), (''account_id'', Str (allocation_account accountId allocation)),
          (''instrument'', Str (allocation_instrument allocation)), (''requested_size'', js_opt_num (requested_raw allocation)),
          (''sized_size'', Num (sz_quantity (allocation_sizing allocation b u))), (''approved_size'', Num (size_round (ap_size ap))),
          (''status'', Str (ap_status ap)), (''decision'', Str (riskDecision (ap_status ap))), (''reason_codes'', Arr (List.map Str (reason_codes ap))),
          (''limit_checks'', Arr (List.map check_js (ap_checks ap))), (''limits_applied'', Arr (List.map Str (breached_codes ap))),
          (''sizing'', sizing_js (ap_sizing ap))])"

text \<open>A number of the usage, zero where it is missing\<close>

definition usage_at :: "limits \<Rightarrow> string \<Rightarrow> jnum" where
  "usage_at m k = (case map_of m k of Some n \<Rightarrow> n | None \<Rightarrow> Fin 0)"

definition risk_part :: "jsval \<Rightarrow> jnum option \<Rightarrow> jnum option \<Rightarrow> trade_risk \<Rightarrow> jsval" where
  "risk_part quantity money capital risk = Obj [(''quantity'', quantity), (''risk_pct'', js_opt_num (pctOf money capital)),
     (''risk_amount'', js_opt_num money), (''currency'', Str (tr_currency risk)), (''availability'', Str (tr_availability risk))]"

definition portfolio_before :: "risk_usage \<Rightarrow> string \<Rightarrow> string \<Rightarrow> string \<Rightarrow> jsval" where
  "portfolio_before u instr bucket state_name =
     Obj [(''availability'', Str state_name), (''gross_exposure'', metricNode (us_open u) ''CONTRACTS'' state_name),
       (''net_exposure'', metricNode (us_open u) ''CONTRACTS'' state_name),
       (''instrument_exposure'', metricNode (usage_at (us_instruments u) instr) ''CONTRACTS'' state_name),
       (''correlation_group_exposure'', metricNode (usage_at (us_groups u) bucket) ''CONTRACTS'' state_name),
       (''open_risk'', unavailableMetric ''open_risk''), (''margin_used'', unavailableMetric ''margin_used''),
       (''daily_loss_used'', metricNode (us_total_r u) ''R'' state_name),
       (''daily_loss_monetary'', monetaryMetric u ''daily_loss_monetary'' (us_daily_money u)),
       (''weekly_loss_monetary'', monetaryMetric u ''weekly_loss_monetary'' (us_weekly_money u)),
       (''reserved_monetary_risk'', monetaryMetric u ''reserved_monetary_risk'' (us_reserved u)),
       (''trailing_drawdown_used'', unavailableMetric ''trailing_drawdown_used'')]"

definition portfolio_after :: "risk_usage \<Rightarrow> string \<Rightarrow> jnum \<Rightarrow> jnum option \<Rightarrow> string \<Rightarrow> string \<Rightarrow> jsval" where
  "portfolio_after u instr approved money currency_name state_name =
     (let after = (\<lambda>before. metricNode (size_round (jadd before (size_round approved))) ''CONTRACTS'' state_name)
      in Obj [(''availability'', Str state_name), (''gross_exposure'', after (us_open u)), (''net_exposure'', after (us_open u)),
        (''instrument_exposure'', after (usage_at (us_instruments u) instr)),
        (''open_risk'', case money of None \<Rightarrow> unavailableMetric ''open_risk''
           | Some n \<Rightarrow> Obj [(''availability'', Str ''KNOWN''), (''value'', Num n), (''unit'', Str currency_name)]),
        (''margin_used'', unavailableMetric ''margin_used'')])"

definition risk_economics :: "string \<Rightarrow> jsval \<Rightarrow> risk_budget \<Rightarrow> risk_usage \<Rightarrow> jsobj \<Rightarrow> bool \<Rightarrow> jsobj" where
  "risk_economics accountId allocation b u capitalReference portfolioAvailable =
     (let ap = allocation_approval allocation b u accountId; approved = ap_size ap; risk = allocation_trade_risk allocation;
          requestedRisk = moneyMultiply (tr_per_contract risk) (case requested_raw allocation of Some n \<Rightarrow> n | None \<Rightarrow> Fin 0);
          authorizedRisk = moneyMultiply (tr_per_contract risk) approved; capital = target_numberOrNull (fget capitalReference ''value'');
          limits = List.map limitProjection (ap_checks ap); instr = allocation_instrument allocation;
          state_name = (if portfolioAvailable then ''KNOWN'' else ''UNAVAILABLE'')
      in [(''schema_version'', Str ''global_risk_economics_v1''),
          (''availability'', Str (if tr_availability risk = ''KNOWN'' then ''KNOWN'' else ''PARTIAL'')), (''account_capital_reference'', Obj capitalReference),
          (''requested'', risk_part (js_opt_num (requested_raw allocation)) requestedRisk capital risk),
          (''authorized'', risk_part (Num (size_round approved)) authorizedRisk capital risk),
          (''trade_risk'', Obj (allocationTradeRisk allocation approved)),
          (''portfolio_before'', portfolio_before u instr (correlationGroup instr (rb_groups b)) state_name),
          (''portfolio_after'', portfolio_after u instr approved authorizedRisk (tr_currency risk) state_name),
          (''limits'', Arr (List.map projection_js limits)), (''nearest_limit'', nearestLimitProjection limits),
          (''breaches'', Arr (List.map projection_js (filter lp_breached limits))), (''reason_codes'', Arr (List.map Str (reason_codes ap))),
          (''risk_rule_set_version'', Str (js_text (firstDefined [get allocation ''risk_rule_set_version'', get allocation ''policy_version''])))])"

definition buildRiskEconomics :: "host \<Rightarrow> jsobj \<Rightarrow> jsobj" where
  "buildRiskEconomics H economics = List.map (\<lambda>k. (k, fget economics k)) [''account_capital_reference'', ''requested'', ''authorized'', ''trade_risk'',
       ''portfolio_before'', ''portfolio_after'', ''limits'', ''nearest_limit'', ''breaches'']
     @ [(''risk_economics'', Obj (economics @ [(''economics_hash'', Str (js_hash H (Obj economics)))]))]"

definition evaluateAllocation :: "host \<Rightarrow> jsval \<Rightarrow> risk_budget \<Rightarrow> risk_usage \<Rightarrow> string \<Rightarrow> jsobj \<Rightarrow> bool \<Rightarrow> jsobj" where
  "evaluateAllocation H allocation b u accountId capitalReference portfolioAvailable =
     (let base = evaluation_base accountId allocation b u;
          economics = buildRiskEconomics H (risk_economics accountId allocation b u capitalReference portfolioAvailable)
      in (''risk_decision_id'', Str (''portfoliorisk:'' @ take 24 (canonicalSha256 H (Obj (base @ [(''risk_economics'', Obj economics)]))))) # base @ economics)"

section \<open>The evaluation of a portfolio\<close>

definition aggregateStatus :: "string list \<Rightarrow> string" where
  "aggregateStatus statuses = (if ''BLOCK'' \<in> set statuses then ''BLOCK'' else if ''REDUCE'' \<in> set statuses then ''REDUCE'' else ''PASS'')"

definition gateSummary :: "bool \<Rightarrow> string list \<Rightarrow> bool \<times> string" where
  "gateSummary missing statuses = (if missing then (False, ''CONFIG_MISSING'')
     else (aggregateStatus statuses = ''PASS'', aggregateStatus statuses))"

definition usage_js :: "risk_usage \<Rightarrow> jsval" where
  "usage_js u = Obj [(''portfolio'', Obj [(''open_abs_size'', Num (us_open u)), (''total_r'', Num (us_total_r u)), (''weekly_r'', Num (us_weekly_r u)),
       (''daily_loss_monetary'', js_opt_num (us_daily_money u)), (''weekly_loss_monetary'', js_opt_num (us_weekly_money u)),
       (''reserved_monetary_risk'', js_opt_num (us_reserved u)), (''monetary_availability'', Str (if us_money_known u then ''KNOWN'' else ''UNAVAILABLE'')),
       (''monetary_currency'', Str (us_currency u))]),
     (''accounts'', limits_js (us_accounts u)), (''instruments'', limits_js (us_instruments u)), (''strategies'', limits_js (us_strategies u)),
     (''correlation_groups'', limits_js (us_groups u))]"

record risk_input =
  ri_as_of :: "string option"
  ri_budget_source :: jsval
  ri_budget :: risk_budget
  ri_allocations :: "jsval list"
  ri_available :: bool
  ri_capital :: jsobj
  ri_account :: string
  ri_usage :: risk_usage

definition risk_input_of :: "host \<Rightarrow> jsval \<Rightarrow> risk_input" where
  "risk_input_of H input =
     (let source = firstDefined [get input ''budget'', get input ''risk_budget'', Obj []]; b = normalized_budget source;
          allocations = arr_or_empty (firstDefined [get input ''candidate_allocations'', get input ''allocations'']);
          portfolio = get input ''virtual_portfolio''; metadata = fget (rb_metadata b);
          accountId = js_text (firstDefined [get input ''account_id'', get input ''accountId'', Str ''default''])
      in \<lparr>ri_as_of = target_iso H (firstDefined [get input ''as_of_utc'', get input ''asOfUtc'', js_opt_str (to_iso (clock_ms H))]),
          ri_budget_source = source, ri_budget = b, ri_allocations = allocations, ri_available = js_record portfolio \<noteq> None,
          ri_capital = normalizeAccountCapitalReference H (firstDefined [get input ''account_capital_reference'', get input ''accountCapitalReference'',
            metadata ''account_capital_reference'', metadata ''accountCapitalReference'']),
          ri_account = accountId,
          ri_usage = buildUsageSnapshot (obj_or_empty portfolio) allocations (rb_groups b) accountId (js_or (get input ''loss_usage'') (get input ''lossUsage''))\<rparr>)"

definition evaluation_steps :: "host \<Rightarrow> risk_input \<Rightarrow> (jsval \<times> risk_usage \<times> approval) list" where
  "evaluation_steps H i = evaluateAllocationsSequentially (ri_budget i) (ri_account i) (ri_usage i) (allocation_order H (ri_allocations i))"

definition evaluation_rows :: "host \<Rightarrow> risk_input \<Rightarrow> jsobj list" where
  "evaluation_rows H i = List.map (\<lambda>(a, u, ap). evaluateAllocation H a (ri_budget i) u (ri_account i) (ri_capital i) (ri_available i)) (evaluation_steps H i)"

definition portfolio_evaluation :: "host \<Rightarrow> risk_input \<Rightarrow> jsobj" where
  "portfolio_evaluation H i =
     (let missing = budgetConfigurationMissing (ri_budget i);
          statuses = List.map (\<lambda>(a, u, ap). ap_status ap) (evaluation_steps H i);
          gate = gateSummary missing statuses
      in [(''schema_version'', Str ''portfolio_risk_budget_evaluation_v1''),
          (''status'', Str (if missing then ''CONFIG_MISSING'' else aggregateStatus statuses)), (''as_of_utc'', js_opt_str (ri_as_of i)),
          (''account_id'', Str (ri_account i)), (''budget'', Obj (normalizePortfolioRiskBudgetV1 H (ri_budget_source i))), (''usage'', usage_js (ri_usage i)),
          (''account_capital_reference'', Obj (ri_capital i)),
          (''allocation_evaluations'', Arr (if missing then [] else List.map Obj (evaluation_rows H i))),
          (''gate'', Obj [(''pass'', Bool (fst gate)), (''reason'', Str (snd gate))])])"

definition evaluatePortfolioRiskBudgetV1 :: "host \<Rightarrow> jsval \<Rightarrow> jsobj" where
  "evaluatePortfolioRiskBudgetV1 H input =
     (let base = portfolio_evaluation H (risk_input_of H input) in base @ [(''evaluation_hash'', Str (js_hash H (Obj base)))])"

section \<open>The gate\<close>

lemma approval_status: "ap_status (allocation_approval a b u accountId) \<in> {''PASS'', ''REDUCE'', ''BLOCK''}"
  by (simp add: allocation_approval_def finalizeAllocationApproval_def allocationStatus_def Let_def)

lemma blocked_size: "ap_status (allocation_approval a b u accountId) = ''BLOCK'' \<Longrightarrow> ap_size (allocation_approval a b u accountId) = Fin 0"
  by (simp add: allocation_approval_def finalizeAllocationApproval_def Let_def split: if_splits)

lemma steps_are_approvals:
  "list_all (\<lambda>(a, v, ap). ap = allocation_approval a b v accountId) (evaluateAllocationsSequentially b accountId u allocations)"
  by (induction allocations arbitrary: u) simp_all

lemma step_statuses: "list_all (\<lambda>(a, u, ap). ap_status ap \<in> {''PASS'', ''REDUCE'', ''BLOCK''}) (evaluation_steps H i)"
proof -
  have "case x of (a, u, ap) \<Rightarrow> ap_status ap \<in> {''PASS'', ''REDUCE'', ''BLOCK''}"
    if "case x of (a, v, ap) \<Rightarrow> ap = allocation_approval a b v accountId" for x :: "jsval \<times> risk_usage \<times> approval" and b accountId
    using that approval_status[of "fst x" b "fst (snd x)" accountId] by (simp only: case_prod_unfold)
  then show ?thesis unfolding evaluation_steps_def by (rule list.pred_mono_strong[OF steps_are_approvals])
qed

lemma worst_of_three:
  assumes "p \<noteq> q" "p \<noteq> r" and "list_all (\<lambda>s. s \<in> {p, q, r}) ss"
  shows "(if r \<in> set ss then r else if q \<in> set ss then q else p) = p \<longleftrightarrow> list_all (\<lambda>s. s = p) ss"
  using assms by (auto simp: list_all_iff)

lemma aggregate_pass:
  "list_all (\<lambda>s. s \<in> {''PASS'', ''REDUCE'', ''BLOCK''}) statuses \<Longrightarrow> aggregateStatus statuses = ''PASS'' \<longleftrightarrow> list_all (\<lambda>s. s = ''PASS'') statuses"
  unfolding aggregateStatus_def by (rule worst_of_three) simp_all

lemma evaluation_field:
  "k \<noteq> ''evaluation_hash'' \<Longrightarrow> fget (evaluatePortfolioRiskBudgetV1 H input) k = fget (portfolio_evaluation H (risk_input_of H input)) k"
  by (simp add: evaluatePortfolioRiskBudgetV1_def Let_def fget_def map_add_def split: option.splits)

lemma evaluation_fields:
  "fget (evaluatePortfolioRiskBudgetV1 H input) ''status'' = Str (if budgetConfigurationMissing (ri_budget (risk_input_of H input)) then ''CONFIG_MISSING''
     else aggregateStatus (List.map (\<lambda>(a, u, ap). ap_status ap) (evaluation_steps H (risk_input_of H input))))"
  "fget (evaluatePortfolioRiskBudgetV1 H input) ''allocation_evaluations'' = Arr (if budgetConfigurationMissing (ri_budget (risk_input_of H input)) then []
     else List.map Obj (evaluation_rows H (risk_input_of H input)))"
  "get (fget (evaluatePortfolioRiskBudgetV1 H input) ''gate'') ''pass'' = Bool (fst (gateSummary (budgetConfigurationMissing (ri_budget (risk_input_of H input)))
     (List.map (\<lambda>(a, u, ap). ap_status ap) (evaluation_steps H (risk_input_of H input)))))"
  by (subst evaluation_field, simp, simp add: portfolio_evaluation_def Let_def fget_def)+

text \<open>
  The gate of an evaluation passes exactly when the budget is complete and every allocation passes as it was asked for:
  a single allocation that is cut or refused, or a missing limit, closes it.
\<close>

theorem gate_passes_iff_all_pass:
  "get (fget (evaluatePortfolioRiskBudgetV1 H input) ''gate'') ''pass'' = Bool (\<not> budgetConfigurationMissing (ri_budget (risk_input_of H input))
     \<and> list_all (\<lambda>(a, u, ap). ap_status ap = ''PASS'') (evaluation_steps H (risk_input_of H input)))"
proof -
  let ?i = "risk_input_of H input" and ?s = "List.map (\<lambda>(a, u, ap). ap_status ap)"
  have "list_all (\<lambda>s. s \<in> {''PASS'', ''REDUCE'', ''BLOCK''}) (?s (evaluation_steps H ?i))"
    using step_statuses[of H ?i] by (simp add: list.pred_map comp_def case_prod_unfold)
  from aggregate_pass[OF this]
  have "aggregateStatus (?s (evaluation_steps H ?i)) = ''PASS'' \<longleftrightarrow> list_all (\<lambda>(a, u, ap). ap_status ap = ''PASS'') (evaluation_steps H ?i)"
    by (simp add: list.pred_map comp_def case_prod_unfold)
  then show ?thesis by (simp add: evaluation_fields gateSummary_def)
qed

section \<open>What the targets read\<close>

text \<open>
  C30. C. With a missing or malformed budget nothing is evaluated, the gate is closed, and the stage of the targets refuses,
  with the code \<open>GLOBAL_RISK_UNAVAILABLE\<close>, the leg of every allocation that asks for exposure: one that is not neutralised,
  does not state the direction \<open>FLAT\<close> and proposes a positive size. An allocation that proposes no size is not
  among them, even if it states an approved one.
\<close>

theorem missing_budget_fails_closed:
  assumes "budgetConfigurationMissing (ri_budget (risk_input_of H input))"
    and "js_upper (get allocation ''status'') \<noteq> ''NEUTRALIZED''" and "net_direction_of allocation \<noteq> ''FLAT''"
    and "positiveOrZero (get allocation ''proposed_size'') \<noteq> Fin 0"
  shows "let E = evaluatePortfolioRiskBudgetV1 H input; risk = normalizeRiskBudgetEvaluation (Obj E)
    in fget E ''status'' = Str ''CONFIG_MISSING'' \<and> fget E ''allocation_evaluations'' = Arr [] \<and> get (fget E ''gate'') ''pass'' = Bool False
       \<and> leg_skip (approvedAllocationLeg H allocation risk account) = ''GLOBAL_RISK_UNAVAILABLE''"
proof -
  define risk where "risk = normalizeRiskBudgetEvaluation (Obj (evaluatePortfolioRiskBudgetV1 H input))"
  have "fget (evaluatePortfolioRiskBudgetV1 H input) ''status'' = Str ''CONFIG_MISSING''"
    and rows: "fget (evaluatePortfolioRiskBudgetV1 H input) ''allocation_evaluations'' = Arr []"
    and "get (fget (evaluatePortfolioRiskBudgetV1 H input) ''gate'') ''pass'' = Bool False"
    using assms(1) by (simp_all add: evaluation_fields gateSummary_def)
  moreover have "rv_evaluations risk = []" "\<not> rv_available risk"
    using rows by (simp_all add: risk_def normalizeRiskBudgetEvaluation_def from_entries_def Let_def)
  moreover have "\<not> isNonExposureAllocation allocation"
    using assms(2-4) by (simp add: isNonExposureAllocation_def)
  ultimately show ?thesis
    by (simp add: risk_def[symmetric] approvedAllocationLeg_def riskDecisionIssue_def allocationSkipReason_def Let_def)
qed

theorem missing_budget_fails_closed_witness:
  "let E = evaluatePortfolioRiskBudgetV1 sample_host (Obj []); risk = normalizeRiskBudgetEvaluation (Obj E);
       allocation = Obj [(''proposed_size'', Num (Fin 1)), (''direction'', Str ''LONG'')]
   in fget E ''status'' = Str ''CONFIG_MISSING'' \<and> leg_skip (approvedAllocationLeg sample_host allocation risk ''default'') = ''GLOBAL_RISK_UNAVAILABLE''"
proof -
  let ?a = "Obj [(''proposed_size'', Num (Fin 1)), (''direction'', Str ''LONG'')]"
  have "ri_budget (risk_input_of sample_host (Obj [])) = normalized_budget (Obj [])"
    by (simp add: risk_input_of_def firstDefined_def present_def Let_def)
  moreover have "budgetConfigurationMissing (normalized_budget (Obj []))" by code_simp
  ultimately have "budgetConfigurationMissing (ri_budget (risk_input_of sample_host (Obj [])))" by simp
  moreover have "js_upper (get ?a ''status'') \<noteq> ''NEUTRALIZED''" "net_direction_of ?a \<noteq> ''FLAT''" by code_simp+
  moreover have "positiveOrZero (get ?a ''proposed_size'') \<noteq> Fin 0" by code_simp
  ultimately show ?thesis
    using missing_budget_fails_closed[of sample_host "Obj []" ?a "''default''"] unfolding Let_def by simp
qed

lemma row_fields:
  "fget (evaluateAllocation H a b u accountId capital available) ''status'' = Str (ap_status (allocation_approval a b u accountId))"
  "fget (evaluateAllocation H a b u accountId capital available) ''approved_size'' = Num (size_round (ap_size (allocation_approval a b u accountId)))"
  by (simp_all add: evaluateAllocation_def evaluation_base_def Let_def fget_def)

lemma status_other: "s \<in> {''PASS'', ''REDUCE'', ''BLOCK''} \<Longrightarrow> s \<noteq> [] \<and> s \<noteq> ''NEUTRALIZED''"
  by (elim insertE emptyE; simp)

lemma status_upper: "s \<in> {''PASS'', ''REDUCE'', ''BLOCK''} \<Longrightarrow> js_upper (Str s) = s"
  by (elim insertE emptyE; simp only:; code_simp)

lemma size_read_back:
  assumes "size_round (ap_size (allocation_approval a b u accountId)) = Fin (of_int k)" and "0 \<le> k"
  shows "approvedSize a (Obj (evaluateAllocation H a b u accountId capital available)) = Fin (of_int k)"
proof -
  let ?s = "ap_status (allocation_approval a b u accountId)"
  have u: "js_upper (Str ?s) = ?s" using approval_status by (rule status_upper)
  have n: "?s \<noteq> []" "?s \<noteq> ''NEUTRALIZED''" using status_other[OF approval_status] by simp_all
  then have s: "js_upper (risk_status a (Obj (evaluateAllocation H a b u accountId capital available))) = ?s"
    using u by (simp add: risk_status_def row_fields firstDefined_def present_def)
  show ?thesis
  proof (cases "?s = ''BLOCK''")
    case True
    then have "Fin (of_int k) = size_round (Fin 0)" using assms(1) blocked_size by metis
    then show ?thesis using True s size_round_int[of 0] by (simp add: approvedSize_def)
  next
    case False
    then show ?thesis using assms s n by (simp add: approvedSize_def row_fields firstDefined_def present_def positiveOrZero_def)
  qed
qed

text \<open>The evaluation as the stage of the targets reads it, and the size each allocation has there: that of its leg,
  whose decision is looked up by the id of the allocation\<close>

definition risk_of_targets :: "host \<Rightarrow> jsval \<Rightarrow> risk_view" where
  "risk_of_targets H input = normalizeRiskBudgetEvaluation (Obj (evaluatePortfolioRiskBudgetV1 H input))"

definition sizes_for_targets :: "host \<Rightarrow> jsval \<Rightarrow> jnum list" where
  "sizes_for_targets H input = List.map (\<lambda>a. leg_approved (approvedAllocationLeg H a (risk_of_targets H input) (ri_account (risk_input_of H input))))
     (ri_allocations (risk_input_of H input))"

lemma leg_size: "leg_approved (approvedAllocationLeg H a risk account) =
    approvedSize a (case map_of (rv_evaluations risk) (js_text (get a ''id'')) of Some e \<Rightarrow> e | None \<Rightarrow> Obj [])"
  by (simp add: approvedAllocationLeg_def Let_def)

lemma steps_in_order: "List.map fst (evaluateAllocationsSequentially b accountId u allocations) = allocations"
  by (induction allocations arbitrary: u) simp_all

lemma row_key: "truthy (get a ''id'') \<Longrightarrow> fget (evaluateAllocation H a b u accountId capital available) ''candidate_allocation_id'' = get a ''id''"
  by (simp add: evaluateAllocation_def evaluation_base_def Let_def fget_def js_or_def)

lemma map_of_rev_distinct: "distinct (List.map fst kvs) \<Longrightarrow> (k, v) \<in> set kvs \<Longrightarrow> map_of (rev kvs) k = Some v"
  by (rule map_of_is_SomeI) (simp_all add: rev_map[symmetric])

text \<open>With ids that are given and distinct, an allocation finds its own row.\<close>

lemma row_found:
  assumes "\<not> budgetConfigurationMissing (ri_budget (risk_input_of H input))"
    and "distinct (List.map (\<lambda>a. js_text (get a ''id'')) (ri_allocations (risk_input_of H input)))"
    and "list_all (\<lambda>a. truthy (get a ''id'')) (ri_allocations (risk_input_of H input))"
    and "(a, u, ap) \<in> set (evaluation_steps H (risk_input_of H input))"
  shows "map_of (rv_evaluations (risk_of_targets H input)) (js_text (get a ''id''))
    = Some (Obj (evaluateAllocation H a (ri_budget (risk_input_of H input)) u (ri_account (risk_input_of H input))
        (ri_capital (risk_input_of H input)) (ri_available (risk_input_of H input))))"
proof -
  let ?i = "risk_input_of H input"
  let ?row = "\<lambda>(a, u, ap). Obj (evaluateAllocation H a (ri_budget ?i) u (ri_account ?i) (ri_capital ?i) (ri_available ?i))"
  let ?kv = "\<lambda>s. (js_text (get (?row s) ''candidate_allocation_id''), ?row s)"
  let ?steps = "evaluation_steps H ?i"
  have firsts: "List.map fst ?steps = allocation_order H (ri_allocations ?i)" by (simp add: evaluation_steps_def steps_in_order)
  then have firsts_set: "fst ` set ?steps = set (ri_allocations ?i)" by (metis allocation_order_def set_js_sort set_map)
  have key: "fst (?kv s) = js_text (get (fst s) ''id'')" if "s \<in> set ?steps" for s
  proof -
    from that firsts_set assms(3) have "truthy (get (fst s) ''id'')" by (auto simp: list_all_iff)
    then show ?thesis by (cases s) (simp add: row_key)
  qed
  have "List.map fst (List.map ?kv ?steps) = List.map (\<lambda>a. js_text (get a ''id'')) (allocation_order H (ri_allocations ?i))"
    unfolding firsts[symmetric] List.map.compositionality comp_def using key by (intro map_cong) simp_all
  moreover have "distinct (List.map (\<lambda>a. js_text (get a ''id'')) (allocation_order H (ri_allocations ?i)))"
    using assms(2) by (metis allocation_order_def mset_js_sort mset_map mset_eq_imp_distinct_iff)
  ultimately have "distinct (List.map fst (List.map ?kv ?steps))" by simp
  moreover have "(js_text (get a ''id''), ?row (a, u, ap)) \<in> set (List.map ?kv ?steps)"
    using assms(4) key[OF assms(4)] by force
  ultimately have "map_of (rev (List.map ?kv ?steps)) (js_text (get a ''id'')) = Some (?row (a, u, ap))"
    by (rule map_of_rev_distinct)
  moreover have "rv_evaluations (risk_of_targets H input) = from_entries (List.map ?kv ?steps)"
    using assms(1) by (simp add: risk_of_targets_def normalizeRiskBudgetEvaluation_def Let_def evaluation_fields evaluation_rows_def comp_def case_prod_unfold)
  ultimately show ?thesis by (simp add: map_of_from_entries)
qed

lemma sizes_read_back:
  assumes "granted_sizes steps = List.map (\<lambda>k. Fin (of_int k)) ks" and "list_all ((\<le>) 0) ks"
    and "list_all (\<lambda>(a, v, ap). ap = allocation_approval a b v accountId) steps"
  shows "List.map (\<lambda>(a, u, ap). approvedSize a (Obj (evaluateAllocation H a b u accountId capital available))) steps = List.map (\<lambda>k. Fin (of_int k)) ks"
  using assms
proof (induction steps arbitrary: ks)
  case Nil
  then show ?case by (simp add: granted_sizes_def)
next
  case (Cons s steps)
  obtain a u ap where s: "s = (a, u, ap)" by (cases s)
  from Cons.prems(1) obtain k ks' where k: "ks = k # ks'" "size_round (ap_size ap) = Fin (of_int k)"
    "granted_sizes steps = List.map (\<lambda>k. Fin (of_int k)) ks'" by (cases ks) (auto simp: granted_sizes_def s)
  with Cons.prems size_read_back[of a b u accountId k] Cons.IH[of ks'] show ?case by (simp add: s)
qed

lemma reorder_sizes:
  assumes "mset xs = mset ys" and "List.map f ys = List.map (\<lambda>k. Fin (of_int k)) ks"
  obtains ks' where "List.map f xs = List.map (\<lambda>k. Fin (of_int k)) ks'" "mset ks' = mset ks"
proof
  define c where "c x = (case f x of Fin r \<Rightarrow> \<lfloor>r\<rfloor> | _ \<Rightarrow> 0)" for x
  have "List.map (\<lambda>x. Fin (of_int (c x))) ys = List.map f ys \<and> List.map c ys = ks" using assms(2)
  proof (induction ys arbitrary: ks)
    case (Cons y ys)
    then obtain k ks' where "ks = k # ks'" "f y = Fin (of_int k)" "List.map f ys = List.map (\<lambda>k. Fin (of_int k)) ks'" by (cases ks) auto
    with Cons.IH[of ks'] show ?case by (simp add: c_def)
  qed simp
  then have c: "\<And>y. y \<in> set ys \<Longrightarrow> f y = Fin (of_int (c y))" and ks: "List.map c ys = ks" by (auto simp: map_eq_conv)
  from assms(1) have "set xs = set ys" by (rule mset_eq_setD)
  then show "List.map f xs = List.map (\<lambda>k. Fin (of_int k)) (List.map c xs)" using c by (simp add: map_eq_conv)
  show "mset (List.map c xs) = mset ks" using assms(1) ks by (metis mset_map)
qed

text \<open>
  C28. C. The sizes that the stage of the targets reads for the allocations of an evaluation, each looked up by the id of the
  allocation, are whole contracts, none negative, that together with what was open keep within the limit of the
  portfolio, or grant nothing where it was already exceeded: when the budget is complete, the limit and what is open are
  whole numbers up to 10^11, and the allocations have ids of their own.
\<close>

theorem target_sizes_within_portfolio_limit:
  assumes "\<not> budgetConfigurationMissing (ri_budget (risk_input_of H input))"
    and "distinct (List.map (\<lambda>a. js_text (get a ''id'')) (ri_allocations (risk_input_of H input)))"
    and "list_all (\<lambda>a. truthy (get a ''id'')) (ri_allocations (risk_input_of H input))"
    and "rb_portfolio (ri_budget (risk_input_of H input)) = Some (Fin (of_int L))" and "us_open (ri_usage (risk_input_of H input)) = Fin (of_int n)"
    and "0 \<le> n" "n \<le> 10 ^ 11" "0 \<le> L" "L \<le> 10 ^ 11"
  shows "\<exists>ks. sizes_for_targets H input = List.map (\<lambda>k. Fin (of_int k)) ks \<and> list_all ((\<le>) 0) ks \<and> n + sum_list ks \<le> max n L"
proof -
  let ?i = "risk_input_of H input"
  let ?size = "\<lambda>a. leg_approved (approvedAllocationLeg H a (risk_of_targets H input) (ri_account ?i))"
  let ?read = "\<lambda>(a, u, ap). approvedSize a (Obj (evaluateAllocation H a (ri_budget ?i) u (ri_account ?i) (ri_capital ?i) (ri_available ?i)))"
  from batch_within_portfolio_limit[OF assms(4-9), of "ri_account ?i" "allocation_order H (ri_allocations ?i)"] obtain ks
    where ks: "granted_sizes (evaluation_steps H ?i) = List.map (\<lambda>k. Fin (of_int k)) ks" "list_all ((\<le>) 0) ks" "n + sum_list ks \<le> max n L"
    unfolding evaluation_steps_def by blast
  have "?size a = ?read (a, u, ap)" if "(a, u, ap) \<in> set (evaluation_steps H ?i)" for a u ap
    using row_found[OF assms(1-3) that] by (simp add: leg_size)
  then have "List.map (?size \<circ> fst) (evaluation_steps H ?i) = List.map ?read (evaluation_steps H ?i)"
    by (intro map_cong) auto
  also have "\<dots> = List.map (\<lambda>k. Fin (of_int k)) ks"
    using sizes_read_back[OF ks(1,2)] steps_are_approvals unfolding evaluation_steps_def by blast
  finally have "List.map ?size (allocation_order H (ri_allocations ?i)) = List.map (\<lambda>k. Fin (of_int k)) ks"
    by (simp add: evaluation_steps_def steps_in_order flip: List.map_map)
  then obtain ks' where ks': "List.map ?size (ri_allocations ?i) = List.map (\<lambda>k. Fin (of_int k)) ks'" "mset ks' = mset ks"
    by (rule reorder_sizes[rotated]) (simp_all add: allocation_order_def)
  then have "list_all ((\<le>) 0) ks'" "sum_list ks' = sum_list ks"
    using ks(2) mset_eq_setD[OF ks'(2)] sum_mset_sum_list[of ks] sum_mset_sum_list[of ks'] by (simp_all add: list_all_iff)
  with ks'(1) ks(3) show ?thesis unfolding sizes_for_targets_def by metis
qed

definition sample_batch :: jsval where
  "sample_batch = Obj [(''budget'', Obj [(''max_portfolio_abs_size'', Num (Fin 3))]),
     (''allocations'', Arr [Obj [(''id'', Str ''A1''), (''instrument'', Str ''MES''), (''proposed_size'', Num (Fin 2))],
       Obj [(''id'', Str ''A2''), (''instrument'', Str ''MES''), (''proposed_size'', Num (Fin 2))]])]"

lemma sample_allocations: "ri_allocations (risk_input_of H sample_batch)
    = [Obj [(''id'', Str ''A1''), (''instrument'', Str ''MES''), (''proposed_size'', Num (Fin 2))],
       Obj [(''id'', Str ''A2''), (''instrument'', Str ''MES''), (''proposed_size'', Num (Fin 2))]]"
  by (simp add: sample_batch_def risk_input_of_def firstDefined_def present_def Let_def)

theorem target_sizes_within_portfolio_limit_witness:
  "\<exists>ks. sizes_for_targets sample_host sample_batch = List.map (\<lambda>k. Fin (of_int k)) ks \<and> list_all ((\<le>) 0) ks \<and> sum_list ks \<le> 3"
proof -
  let ?i = "risk_input_of sample_host sample_batch"
  have "is_integer (Fin 3)" by (simp add: is_integer_def)
  then have b: "rb_portfolio (ri_budget ?i) = Some (Fin (of_int 3))"
    by (simp add: sample_batch_def risk_input_of_def normalized_budget_def contractLimit_def firstDefined_def present_def target_numberOrNull_def Let_def)
  have u: "us_open (ri_usage ?i) = Fin (of_int 0)"
    by (simp add: sample_batch_def risk_input_of_def buildUsageSnapshot_def portfolio_total_def js_coalesce_def Let_def)
  have "ri_budget ?i = normalized_budget (Obj [(''max_portfolio_abs_size'', Num (Fin 3))])"
    by (simp add: sample_batch_def risk_input_of_def firstDefined_def present_def Let_def)
  moreover have "\<not> budgetConfigurationMissing (normalized_budget (Obj [(''max_portfolio_abs_size'', Num (Fin 3))]))" by code_simp
  ultimately have complete: "\<not> budgetConfigurationMissing (ri_budget ?i)" by simp
  have ids: "distinct (List.map (\<lambda>a. js_text (get a ''id'')) (ri_allocations ?i))" unfolding sample_allocations by code_simp
  have given: "list_all (\<lambda>a. truthy (get a ''id'')) (ri_allocations ?i)" unfolding sample_allocations by code_simp
  show ?thesis using target_sizes_within_portfolio_limit[OF complete ids given b u] by simp
qed

end
