(* ===== verification/Candidate_Allocation.thy ===== *)
theory Candidate_Allocation
  imports Signal_Selection Risk_Economics
begin

text \<open>
  \<open>packages/desk-domain/src/portfolio-candidate-allocation-v1.js\<close>: from the signals of the strategies to one candidate
  allocation for each account and instrument, and the virtual portfolio of the strategies. It opens the chain that
  \<open>Risk_Budget\<close>, \<open>Target_Position\<close> and \<open>Order_Intent\<close> continue. Items are objects, and instruments are not named
  like properties that objects inherit. Shown: every signal is allocated or rejected, exactly once; what every
  allocated signal satisfies; and that a strategy's opposite positions cancel in the exposure that risk is given.
\<close>

section \<open>The policy\<close>

record allocation_policy =
  al_conflict :: string
  al_default_size :: jnum
  al_sizing_mode :: string
  al_statuses :: "string list"
  al_accounts :: "string list"
  al_states :: "(string \<times> string) list"

definition alloc_positive :: "jsval \<Rightarrow> jnum \<Rightarrow> jnum" where
  "alloc_positive value fallback = (if is_finite (to_num value) \<and> jlt (Fin 0) (to_num value) then to_num value else fallback)"

definition alloc_number :: "jsval \<Rightarrow> jnum option" where
  "alloc_number value = (if is_finite (to_num value) then Some (to_num value) else None)"

definition unique_strings :: "string list \<Rightarrow> string list" where
  "unique_strings values = uniq (filter (\<lambda>s. s \<noteq> []) values)"

definition PORTFOLIO_STRATEGY_RUNTIME_STATES_V1 :: "string list" where
  "PORTFOLIO_STRATEGY_RUNTIME_STATES_V1 = [''ACTIVE'', ''SUSPENDED'', ''DISABLED'']"

definition PORTFOLIO_SIZING_MODES_V1 :: "string list" where
  "PORTFOLIO_SIZING_MODES_V1 = [''REQUESTED_QUANTITY_CAP'', ''MONETARY_RISK_BUDGET'']"

definition alloc_sizing_mode :: "jsval \<Rightarrow> string" where
  "alloc_sizing_mode value = (if \<not> present value then ''REQUESTED_QUANTITY_CAP''
     else let mode = js_upper value in if mode \<in> set PORTFOLIO_SIZING_MODES_V1 then mode else ''INVALID'')"

definition normalizeStrategyInstanceStates :: "jsval \<Rightarrow> (string \<times> string) list" where
  "normalizeStrategyInstanceStates input = from_entries (filter (\<lambda>(k, s). k \<noteq> []) (List.map (\<lambda>(k, v).
       let raw = (case v of Obj r \<Rightarrow> firstDefined [fget r ''runtime_state'', fget r ''runtimeState'', fget r ''status'', fget r ''state''] | _ \<Rightarrow> v);
           st = js_upper raw
       in (trim k, if st \<in> set PORTFOLIO_STRATEGY_RUNTIME_STATES_V1 then st else ''ACTIVE'')) (js_entries (Obj (obj_or_empty input)))))"

definition DEFAULT_SIGNAL_STATUSES :: "string list" where
  "DEFAULT_SIGNAL_STATUSES = [''ACTIVE'', ''PENDING'', ''PUBLISHED'']"

definition alloc_normalizePolicy :: "jsval \<Rightarrow> jsval \<Rightarrow> allocation_policy" where
  "alloc_normalizePolicy policy input =
     (let s = fget (obj_or_empty policy)
      in \<lparr>al_conflict = js_text (firstDefined [s ''conflict_resolution'', Str ''NET_BY_DIRECTION'']),
          al_default_size = alloc_positive (firstDefined [s ''default_signal_size'', Num (Fin 1)]) (Fin 1),
          al_sizing_mode = alloc_sizing_mode (firstDefined [s ''sizing_mode'', s ''sizingMode'', get input ''sizing_mode'', get input ''sizingMode'']),
          al_statuses = unique_strings (List.map js_upper (arr_or_empty (firstDefined [s ''active_signal_statuses'', Arr (List.map Str DEFAULT_SIGNAL_STATUSES)]))),
          al_accounts = unique_strings (filter (\<lambda>t. t \<noteq> []) (List.map js_text (arr_or_empty (s ''allowed_account_ids'')))),
          al_states = normalizeStrategyInstanceStates (firstDefined [s ''strategy_instance_states'', s ''strategy_states'', get input ''strategy_instance_states'',
            get input ''strategy_states'', Obj []])\<rparr>)"

definition policy_js :: "allocation_policy \<Rightarrow> jsval" where
  "policy_js p = Obj [(''conflict_resolution'', Str (al_conflict p)), (''default_signal_size'', Num (al_default_size p)), (''sizing_mode'', Str (al_sizing_mode p)),
     (''active_signal_statuses'', Arr (List.map Str (al_statuses p))), (''allowed_account_ids'', Arr (List.map Str (al_accounts p))),
     (''strategy_instance_states'', Obj (List.map (\<lambda>(k, s). (k, Str s)) (al_states p)))]"

definition strategyRuntimeState :: "string \<Rightarrow> allocation_policy \<Rightarrow> string" where
  "strategyRuntimeState strategyInstanceId p = (case map_of (al_states p) (trim strategyInstanceId) of Some s \<Rightarrow> s | None \<Rightarrow> ''ACTIVE'')"

section \<open>The size of a signal\<close>

definition signalSource :: "jsval \<Rightarrow> jsobj" where
  "signalSource item =
     (let payload = obj_or_empty (get item ''payload'')
      in case List.map_filter js_record [get item ''signal'', get item ''normalized_signal'', fget payload ''signal''] of r # _ \<Rightarrow> r | [] \<Rightarrow> payload)"

definition signalSize :: "jsval \<Rightarrow> jsobj \<Rightarrow> string \<Rightarrow> jnum" where
  "signalSize item source dir =
     (if dir = ''FLAT'' then Fin 0
      else let explicit = firstDefined [fget source ''proposed_size'', fget source ''size'', fget source ''quantity'', fget source ''contracts'',
             get item ''proposed_size'', get item ''size'', get item ''quantity'', get item ''contracts'']
        in if explicit = Null then Fin 1 else alloc_positive explicit (Fin 0))"

definition contextMultiplier :: "jsval \<Rightarrow> jsobj \<Rightarrow> jsval" where
  "contextMultiplier item source = firstDefined [fget source ''context_risk_multiplier'', fget source ''contextRiskMultiplier'',
     get (fget source ''context_gate'') ''risk_multiplier'', get (fget source ''contextGate'') ''risk_multiplier'', get item ''context_risk_multiplier'',
     get item ''contextRiskMultiplier'', get (get item ''context_gate'') ''risk_multiplier'', get (get item ''contextGate'') ''risk_multiplier'', Num (Fin 1)]"

definition contextMultiplierSource :: "jsval \<Rightarrow> jsobj \<Rightarrow> string" where
  "contextMultiplierSource item source = js_text (firstDefined [fget source ''context_risk_multiplier_source'', fget source ''contextRiskMultiplierSource'',
     get (fget source ''context_gate'') ''policy_version'', get (fget source ''contextGate'') ''policy_version'', get item ''context_risk_multiplier_source'',
     get item ''contextRiskMultiplierSource''])"

record context_sizing =
  cx_multiplier :: "jnum option"
  cx_source :: jsval
  cx_size :: jnum
  cx_issue :: "string option"

definition contextSizingResult :: "jnum \<Rightarrow> string \<Rightarrow> jnum \<Rightarrow> allocation_policy \<Rightarrow> context_sizing" where
  "contextSizingResult multiplier sourceRef requestedSize p =
     (let size_now = (if al_sizing_mode p = ''MONETARY_RISK_BUDGET'' then requestedSize else jfloor (jmul requestedSize multiplier))
      in \<lparr>cx_multiplier = Some multiplier, cx_source = str_or_null sourceRef, cx_size = size_now,
          cx_issue = (if jlt (Fin 0) size_now then None else Some ''CONTEXT_RISK_MULTIPLIER_ZERO_SIZE'')\<rparr>)"

definition contextAdjustedSize :: "jsval \<Rightarrow> jsobj \<Rightarrow> jnum \<Rightarrow> allocation_policy \<Rightarrow> context_sizing" where
  "contextAdjustedSize item source requestedSize p =
     (let ref = contextMultiplierSource item source
      in case alloc_number (contextMultiplier item source) of
           None \<Rightarrow> \<lparr>cx_multiplier = None, cx_source = str_or_null ref, cx_size = Fin 0, cx_issue = Some ''CONTEXT_RISK_MULTIPLIER_INVALID''\<rparr>
         | Some m \<Rightarrow>
             if jlt m (Fin 0) \<or> jlt (Fin 1) m
             then \<lparr>cx_multiplier = None, cx_source = str_or_null ref, cx_size = Fin 0, cx_issue = Some ''CONTEXT_RISK_MULTIPLIER_INVALID''\<rparr>
             else if m \<noteq> Fin 1 \<and> ref = []
             then \<lparr>cx_multiplier = Some m, cx_source = Null, cx_size = Fin 0, cx_issue = Some ''CONTEXT_RISK_MULTIPLIER_PROVENANCE_REQUIRED''\<rparr>
             else contextSizingResult m ref requestedSize p)"

section \<open>Signals\<close>

record signal_core =
  sg_id :: string
  sg_definition :: string
  sg_instance :: string
  sg_version :: string
  sg_account :: string
  sg_instrument :: string
  sg_direction :: string
  sg_requested :: jnum
  sg_context :: context_sizing
  sg_mode :: string
  sg_block :: string
  sg_confidence :: "jnum option"
  sg_origin :: string
  sg_generated :: "string option"
  sg_expires :: "string option"
  sg_cutoff :: "string option"
  sg_correlation :: string
  sg_status :: string
  sg_plan :: jsval
  sg_economics :: jsval

definition record_or_null :: "jsval \<Rightarrow> jsval" where
  "record_or_null v = (case js_record v of Some r \<Rightarrow> Obj r | None \<Rightarrow> Null)"

definition normalized_signal_plan :: "host \<Rightarrow> jsval \<Rightarrow> jsobj \<Rightarrow> string \<Rightarrow> jsobj option \<Rightarrow> normal_plan option" where
  "normalized_signal_plan H item source dir supplied = (case supplied of
       Some plan \<Rightarrow> if truthy (fget plan ''schema_version'') then None
         else Some (normalizeProposedTradePlanV1 H (Obj (plan_again plan (firstDefined [fget source ''instrument'', get item ''instrument'', fget plan ''instrument''])
           (firstDefined [Str dir, fget plan ''direction''])
           (firstDefined [fget source ''source_data_cutoff_utc'', fget source ''sourceDataCutoff'', get item ''source_data_cutoff_utc'', fget plan ''source_data_cutoff_utc'']))))
     | None \<Rightarrow> None)"

definition signalCore :: "host \<Rightarrow> jsval \<Rightarrow> jsobj \<Rightarrow> string \<Rightarrow> allocation_policy \<Rightarrow> signal_core" where
  "signalCore H item source defaultAccountId p =
     (let s = fget source; i = get item; dir = js_upper (firstDefined [s ''direction'', i ''direction'']);
          supplied = js_record (firstDefined [s ''proposed_trade_plan'', s ''proposedTradePlan'', i ''proposed_trade_plan'', i ''proposedTradePlan'']);
          normalized = normalized_signal_plan H item source dir supplied;
          plan = (case normalized of Some n \<Rightarrow> Obj (np_plan n) | None \<Rightarrow> (case supplied of Some r \<Rightarrow> Obj r | None \<Rightarrow> Null));
          requestedSize = signalSize item source dir
      in \<lparr>sg_id = js_text (firstDefined [s ''signal_id'', s ''id'', i ''signal_id'', i ''signal_outbox_id'', i ''id'']),
          sg_definition = js_text (firstDefined [s ''strategy_definition_id'', s ''strategyDefinitionId'', i ''strategy_definition_id'']),
          sg_instance = js_text (firstDefined [s ''strategy_instance_id'', s ''strategyInstanceId'', i ''strategy_instance_id'']),
          sg_version = js_text (firstDefined [s ''strategy_version_id'', s ''strategyVersionId'', i ''strategy_version_id'']),
          sg_account = js_text (firstDefined [s ''account_id'', s ''accountId'', i ''account_id'', i ''accountId'', Str defaultAccountId]),
          sg_instrument = js_upper (firstDefined [s ''instrument'', i ''instrument'']), sg_direction = dir, sg_requested = requestedSize,
          sg_context = contextAdjustedSize item source requestedSize p, sg_mode = al_sizing_mode p,
          sg_block = js_text (firstDefined [s ''portfolio_block_reason'', s ''portfolioBlockReason'', i ''portfolio_block_reason'', i ''portfolioBlockReason'']),
          sg_confidence = alloc_number (firstDefined [s ''confidence'', i ''confidence'']),
          sg_origin = js_upper (firstDefined [s ''execution_mode_origin'', s ''executionModeOrigin'', i ''execution_mode_origin'']),
          sg_generated = plan_iso H (firstDefined [s ''generated_at_utc'', s ''generated_at'', s ''generatedAt'', i ''generated_at_utc'']),
          sg_expires = plan_iso H (firstDefined [s ''expires_at_utc'', s ''expires_at'', s ''expiresAt'', i ''expires_at_utc'']),
          sg_cutoff = plan_iso H (firstDefined [s ''source_data_cutoff_utc'', s ''sourceDataCutoff'', i ''source_data_cutoff_utc'']),
          sg_correlation = js_text (firstDefined [s ''correlation_id'', s ''correlationId'', i ''correlation_id'']),
          sg_status = js_upper (firstDefined [i ''status'', s ''status'', Str ''ACTIVE'']), sg_plan = plan,
          sg_economics = record_or_null (firstDefined [s ''trade_plan_economics'', s ''tradePlanEconomics'', get plan ''economics'', i ''trade_plan_economics'',
            i ''tradePlanEconomics'', case normalized of Some n \<Rightarrow> Obj (np_economics n) | None \<Rightarrow> Undef])\<rparr>)"

definition signal_js :: "signal_core \<Rightarrow> jsobj" where
  "signal_js g = [(''signal_id'', Str (sg_id g)), (''strategy_definition_id'', Str (sg_definition g)), (''strategy_instance_id'', Str (sg_instance g)),
     (''strategy_version_id'', Str (sg_version g)), (''account_id'', Str (sg_account g)), (''instrument'', Str (sg_instrument g)), (''direction'', Str (sg_direction g)),
     (''requested_size'', Num (sg_requested g)), (''context_risk_multiplier'', js_opt_num (cx_multiplier (sg_context g))),
     (''context_risk_multiplier_source'', cx_source (sg_context g)), (''proposed_size'', Num (cx_size (sg_context g))), (''sizing_mode'', Str (sg_mode g)),
     (''portfolio_block_reason'', Str (sg_block g)), (''context_sizing_issue'', js_opt_str (cx_issue (sg_context g))), (''confidence'', js_opt_num (sg_confidence g)),
     (''execution_mode_origin'', Str (sg_origin g)), (''generated_at_utc'', js_opt_str (sg_generated g)), (''expires_at_utc'', js_opt_str (sg_expires g)),
     (''source_data_cutoff_utc'', js_opt_str (sg_cutoff g)), (''correlation_id'', Str (sg_correlation g)), (''status'', Str (sg_status g)),
     (''proposed_trade_plan'', sg_plan g), (''trade_plan_economics'', sg_economics g)]"

section \<open>Issues\<close>

type_synonym signal_issue = "string \<times> string"

definition required_if :: "bool \<Rightarrow> string \<Rightarrow> signal_issue list" where
  "required_if missing path = (if missing then [(''REQUIRED'', path)] else [])"

definition issue_when :: "bool \<Rightarrow> string \<Rightarrow> string \<Rightarrow> signal_issue list" where
  "issue_when b c path = (if b then [(c, path)] else [])"

definition requiredSignalIssues :: "signal_core \<Rightarrow> signal_issue list" where
  "requiredSignalIssues g = required_if (sg_id g = []) ''signal_id'' @ required_if (sg_instance g = []) ''strategy_instance_id''
     @ required_if (sg_account g = []) ''account_id'' @ required_if (sg_instrument g = []) ''instrument''
     @ required_if (sg_generated g \<in> {None, Some []}) ''generated_at_utc'' @ required_if (sg_expires g \<in> {None, Some []}) ''expires_at_utc''"

definition PORTFOLIO_ALLOCATION_DIRECTIONS_V1 :: "string list" where
  "PORTFOLIO_ALLOCATION_DIRECTIONS_V1 = [''LONG'', ''SHORT'', ''FLAT'']"

definition signalStateIssues :: "signal_core \<Rightarrow> allocation_policy \<Rightarrow> signal_issue list" where
  "signalStateIssues g p = issue_when (sg_direction g \<notin> set PORTFOLIO_ALLOCATION_DIRECTIONS_V1) ''SIGNAL_DIRECTION_INVALID'' ''direction''
     @ issue_when (sg_direction g = ''FLAT'') ''SIGNAL_FLAT_NOT_ALLOCATABLE'' ''direction''
     @ issue_when (sg_status g \<notin> set (al_statuses p)) ''SIGNAL_STATUS_NOT_ACTIVE'' ''status''
     @ issue_when (al_accounts p \<noteq> [] \<and> sg_account g \<notin> set (al_accounts p)) ''SIGNAL_ACCOUNT_NOT_IN_SCOPE'' ''account_id''
     @ issue_when (strategyRuntimeState (sg_instance g) p = ''DISABLED'') ''STRATEGY_INSTANCE_DISABLED'' ''strategy_instance_id''
     @ issue_when (strategyRuntimeState (sg_instance g) p = ''SUSPENDED'') ''STRATEGY_INSTANCE_SUSPENDED'' ''strategy_instance_id''"

text \<open>\<open>Date.parse\<close> of an instant that may be \<open>null\<close>\<close>

definition instant_of :: "host \<Rightarrow> string option \<Rightarrow> int option" where
  "instant_of H value = date_parse H (to_str (js_opt_str value))"

definition later :: "int option \<Rightarrow> int option \<Rightarrow> bool" where
  "later a b \<longleftrightarrow> (case (a, b) of (Some x, Some y) \<Rightarrow> y < x | _ \<Rightarrow> False)"

definition not_later :: "int option \<Rightarrow> int option \<Rightarrow> bool" where
  "not_later a b \<longleftrightarrow> (case (a, b) of (Some x, Some y) \<Rightarrow> x \<le> y | _ \<Rightarrow> False)"

definition signalTimingIssues :: "host \<Rightarrow> signal_core \<Rightarrow> string option \<Rightarrow> signal_issue list" where
  "signalTimingIssues H g asOf =
     issue_when (sg_generated g \<notin> {None, Some []} \<and> later (instant_of H (sg_generated g)) (instant_of H asOf)) ''SIGNAL_GENERATED_AFTER_AS_OF'' ''generated_at_utc''
     @ issue_when (sg_expires g \<notin> {None, Some []} \<and> not_later (instant_of H (sg_expires g)) (instant_of H asOf)) ''SIGNAL_EXPIRED'' ''expires_at_utc''"

definition signalSizingIssues :: "signal_core \<Rightarrow> allocation_policy \<Rightarrow> signal_issue list" where
  "signalSizingIssues g p = issue_when (al_sizing_mode p \<notin> set PORTFOLIO_SIZING_MODES_V1) ''PORTFOLIO_SIZING_MODE_INVALID'' ''sizing_mode''
     @ issue_when (jle (cx_size (sg_context g)) (Fin 0)) ''SIGNAL_SIZE_NOT_POSITIVE'' ''proposed_size''
     @ (case cx_issue (sg_context g) of Some c \<Rightarrow> [(c, ''context_risk_multiplier'')] | None \<Rightarrow> [])
     @ issue_when (sg_block g \<noteq> []) (''PORTFOLIO_'' @ sg_block g) ''portfolio_block_reason''"

definition signalIssues :: "host \<Rightarrow> signal_core \<Rightarrow> string option \<Rightarrow> allocation_policy \<Rightarrow> signal_issue list" where
  "signalIssues H g asOf p = requiredSignalIssues g @ signalStateIssues g p @ signalTimingIssues H g asOf @ signalSizingIssues g p"

definition normalizeSignal :: "host \<Rightarrow> jsval \<Rightarrow> string option \<Rightarrow> allocation_policy \<Rightarrow> string \<Rightarrow> signal_core \<times> signal_issue list" where
  "normalizeSignal H item asOf p defaultAccountId =
     (let g = signalCore H item (signalSource item) defaultAccountId p in (g, signalIssues H g asOf p))"

definition normalizeSignals :: "host \<Rightarrow> jsval \<Rightarrow> string option \<Rightarrow> allocation_policy \<Rightarrow> string \<Rightarrow> (signal_core \<times> signal_issue list) list" where
  "normalizeSignals H items asOf p defaultAccountId = List.map (\<lambda>item. normalizeSignal H item asOf p defaultAccountId) (arr_or_empty items)"

definition rejected_js :: "signal_core \<times> signal_issue list \<Rightarrow> jsval" where
  "rejected_js r = Obj [(''signal_id'', Str (sg_id (fst r))), (''issues'', Arr (List.map (\<lambda>(c, path). Obj [(''code'', Str c), (''path'', Str path)]) (snd r)))]"

section \<open>Allocations\<close>

definition field_text :: "jsobj \<Rightarrow> string \<Rightarrow> string" where
  "field_text s k = to_str (fget s k)"

definition allocationGroupKey :: "jsobj \<Rightarrow> string" where
  "allocationGroupKey s = field_text s ''account_id'' @ '':'' @ field_text s ''instrument''"

definition bySignal :: "host \<Rightarrow> jsobj \<Rightarrow> jsobj \<Rightarrow> bool" where
  "bySignal H l r = (let c = locale_compare H (field_text l ''generated_at_utc'') (field_text r ''generated_at_utc'')
     in 0 < (if c \<noteq> 0 then c else locale_compare H (field_text l ''signal_id'') (field_text r ''signal_id'')))"

definition signed_of :: "jsobj \<Rightarrow> jnum" where
  "signed_of s = signedSize (field_text s ''direction'') (num_or_zero (fget s ''proposed_size''))"

definition signalContribution :: "jsobj \<Rightarrow> jsobj" where
  "signalContribution s =
     (let keep = (\<lambda>k. (k, fget s k)); or_null = (\<lambda>k. (k, js_or (fget s k) Null))
      in [keep ''signal_id'', keep ''strategy_definition_id'', keep ''strategy_instance_id'', keep ''strategy_version_id'', keep ''account_id'', keep ''direction'',
          keep ''requested_size'', keep ''context_risk_multiplier'', or_null ''context_risk_multiplier_source'', keep ''sizing_mode'', keep ''proposed_size'',
          (''signed_size'', Num (signed_of s)), keep ''confidence'', keep ''source_data_cutoff_utc'', keep ''correlation_id'',
          or_null ''proposed_trade_plan'', or_null ''trade_plan_economics''])"

definition sum_field :: "jsobj list \<Rightarrow> string \<Rightarrow> jnum" where
  "sum_field items k = size_round (foldl (\<lambda>t item. jadd t (num_or_zero (fget item k))) (Fin 0) items)"

definition allocationConflictStatus :: "jnum \<Rightarrow> jnum \<Rightarrow> jnum \<Rightarrow> string" where
  "allocationConflictStatus longSize shortSize netSize =
     (if jlt (Fin 0) longSize \<and> jlt (Fin 0) shortSize \<and> netSize = Fin 0 then ''NEUTRALIZED_CONFLICT''
      else if jlt (Fin 0) longSize \<and> jlt (Fin 0) shortSize then ''OPPOSING_SIGNALS_NETTED'' else ''ALIGNED'')"

definition of_direction :: "string \<Rightarrow> jsobj list \<Rightarrow> jsobj list" where
  "of_direction dir items = filter (\<lambda>c. fget c ''direction'' = Str dir) items"

definition str_values :: "string list \<Rightarrow> jsval" where
  "str_values ss = Arr (List.map Str ss)"

definition contributions :: "host \<Rightarrow> jsobj list \<Rightarrow> jsobj list" where
  "contributions H signals = List.map signalContribution (js_sort (bySignal H) signals)"

definition allocation_base :: "host \<Rightarrow> jsobj list \<Rightarrow> string \<Rightarrow> string option \<Rightarrow> jsobj" where
  "allocation_base H signals portfolioScope asOf =
     (let cs = contributions H signals; first = (case signals of s # _ \<Rightarrow> s | [] \<Rightarrow> []);
          longSize = sum_field (of_direction ''LONG'' cs) ''proposed_size''; shortSize = sum_field (of_direction ''SHORT'' cs) ''proposed_size'';
          netSize = size_round (jsub longSize shortSize); instances = (\<lambda>dir. unique_strings (List.map (\<lambda>c. field_text c ''strategy_instance_id'') (of_direction dir cs)))
      in [(''portfolio_scope'', Str portfolioScope), (''as_of_utc'', js_opt_str asOf), (''sizing_mode'', js_or (fget first ''sizing_mode'') (Str ''REQUESTED_QUANTITY_CAP'')),
          (''account_id'', js_or (fget first ''account_id'') (Str ''default'')), (''signal_ids'', Arr (List.map (\<lambda>c. fget c ''signal_id'') cs)),
          (''instrument'', js_or (fget first ''instrument'') (Str [])), (''net_direction'', Str (directionFromSignedSize netSize)), (''proposed_size'', Num (jabs netSize)),
          (''long_size'', Num longSize), (''short_size'', Num shortSize), (''net_size'', Num netSize),
          (''status'', Str (if netSize = Fin 0 then ''NEUTRALIZED'' else ''PROPOSED'')), (''conflict_status'', Str (allocationConflictStatus longSize shortSize netSize)),
          (''simultaneous_signal_count'', js_count cs), (''strategy_instance_count'', js_count (uniq (List.map (\<lambda>c. field_text c ''strategy_instance_id'') cs))),
          (''long_strategy_instance_ids'', str_values (instances ''LONG'')), (''short_strategy_instance_ids'', str_values (instances ''SHORT'')),
          (''contributing_signals'', Arr (List.map Obj cs))])"

definition allocationForAccountInstrument :: "host \<Rightarrow> jsobj list \<Rightarrow> string \<Rightarrow> string option \<Rightarrow> jsobj" where
  "allocationForAccountInstrument H signals portfolioScope asOf =
     (let base = allocation_base H signals portfolioScope asOf in (''id'', Str (''candalloc:'' @ canonicalSha256 H (Obj base))) # base)"

definition allocation_groups :: "host \<Rightarrow> jsobj list \<Rightarrow> (string \<times> jsobj list) list" where
  "allocation_groups H signals = js_sort (\<lambda>l r. 0 < locale_compare H (fst l) (fst r)) (group_signals allocationGroupKey signals)"

definition allocateByAccountInstrument :: "host \<Rightarrow> jsobj list \<Rightarrow> string \<Rightarrow> string option \<Rightarrow> jsobj list" where
  "allocateByAccountInstrument H signals portfolioScope asOf =
     List.map (\<lambda>(k, items). allocationForAccountInstrument H items portfolioScope asOf) (allocation_groups H signals)"

definition arbitrationSummary :: "jsobj list \<Rightarrow> nat \<Rightarrow> jsval" where
  "arbitrationSummary allocations refused =
     (let count_if = (\<lambda>P. js_count (filter P allocations)); names = (\<lambda>k. str_values (unique_strings (List.map (\<lambda>a. field_text a k) allocations)))
      in Obj [(''allocation_count'', js_count allocations), (''rejected_signal_count'', Num (Fin (of_nat refused))),
          (''simultaneous_signal_count'', Num (foldl (\<lambda>t a. jadd t (num_or_zero (fget a ''simultaneous_signal_count''))) (Fin 0) allocations)),
          (''conflict_count'', count_if (\<lambda>a. fget a ''conflict_status'' \<noteq> Str ''ALIGNED'')), (''neutralized_count'', count_if (\<lambda>a. fget a ''status'' = Str ''NEUTRALIZED'')),
          (''account_ids'', names ''account_id''), (''instruments'', names ''instrument'')])"

section \<open>The virtual portfolio\<close>

record portfolio_leg =
  lg_instance :: string
  lg_signals :: "jsval list"
  lg_account :: string
  lg_instrument :: string
  lg_proposed :: jnum
  lg_open :: jnum
  lg_gross :: jnum
  lg_unrealized :: jnum
  lg_realized :: jnum

definition normalizeSignalLegs :: "jsobj list \<Rightarrow> portfolio_leg list" where
  "normalizeSignalLegs signals = List.map (\<lambda>s. \<lparr>lg_instance = str_or_empty (fget s ''strategy_instance_id''), lg_signals = filter truthy [fget s ''signal_id''],
     lg_account = to_str (js_or (fget s ''account_id'') (Str ''default'')), lg_instrument = str_or_empty (fget s ''instrument''), lg_proposed = signed_of s, lg_open = Fin 0,
     lg_gross = Fin 0, lg_unrealized = Fin 0, lg_realized = Fin 0\<rparr>) signals"

definition markFor :: "string \<Rightarrow> jsval \<Rightarrow> jsval" where
  "markFor instr marks = (let source = fget (obj_or_empty marks) in js_or (source instr) (source (to_lower instr)))"

record virtual_position =
  vp_id :: string
  vp_instance :: string
  vp_account :: string
  vp_instrument :: string
  vp_direction :: string
  vp_size :: jnum
  vp_entry :: "jnum option"
  vp_mark :: "jnum option"
  vp_risk_points :: jnum
  vp_realized :: jnum
  vp_signals :: "jsval list"

definition vp_signed :: "virtual_position \<Rightarrow> jnum" where
  "vp_signed p = signedSize (vp_direction p) (vp_size p)"

definition falsy_number :: "jnum option \<Rightarrow> bool" where
  "falsy_number x \<longleftrightarrow> \<not> truthy (js_opt_num x)"

definition positionUnrealizedR :: "virtual_position \<Rightarrow> jnum option" where
  "positionUnrealizedR p = (case (vp_entry p, vp_mark p) of
       (Some e, Some m) \<Rightarrow> if falsy_number (Some e) \<or> falsy_number (Some m) \<or> falsy_number (Some (vp_risk_points p)) then None
         else (let priceDelta = (if vp_direction p = ''SHORT'' then jsub e m else jsub m e)
           in Some (size_round (jmul (jdiv priceDelta (vp_risk_points p)) (vp_size p))))
     | _ \<Rightarrow> None)"

definition normalizePosition :: "jsval \<Rightarrow> jsval \<Rightarrow> virtual_position" where
  "normalizePosition marks item =
     (let i = get item; instr = js_upper (i ''instrument'')
      in \<lparr>vp_id = js_text (firstDefined [i ''position_id'', i ''id'']), vp_instance = js_text (firstDefined [i ''strategy_instance_id'', i ''strategyInstanceId'']),
          vp_account = js_text (firstDefined [i ''account_id'', i ''accountId'', Str ''default'']), vp_instrument = instr, vp_direction = js_upper (i ''direction''),
          vp_size = alloc_positive (firstDefined [i ''size'', i ''quantity'', i ''contracts'']) (Fin 0),
          vp_entry = alloc_number (firstDefined [i ''entry_price'', i ''entryPrice'']),
          vp_mark = alloc_number (firstDefined [i ''mark_price'', i ''markPrice'', markFor instr marks]),
          vp_risk_points = alloc_positive (firstDefined [i ''initial_risk_points'', i ''initialRiskPoints'']) (Fin 0),
          vp_realized = size_round (case alloc_number (firstDefined [i ''realized_r'', i ''realizedR'']) of Some n \<Rightarrow> n | None \<Rightarrow> Fin 0),
          vp_signals = arr_or_empty (firstDefined [i ''signal_ids'', i ''signalIds''])\<rparr>)"

definition position_js :: "virtual_position \<Rightarrow> jsval" where
  "position_js p = Obj [(''position_id'', Str (vp_id p)), (''strategy_instance_id'', Str (vp_instance p)), (''account_id'', Str (vp_account p)),
     (''instrument'', Str (vp_instrument p)), (''direction'', Str (vp_direction p)), (''size'', Num (vp_size p)), (''signed_size'', Num (vp_signed p)),
     (''entry_price'', js_opt_num (vp_entry p)), (''mark_price'', js_opt_num (vp_mark p)), (''initial_risk_points'', Num (vp_risk_points p)),
     (''realized_r'', Num (vp_realized p)), (''unrealized_r'', js_opt_num (positionUnrealizedR p))]"

definition position_leg :: "virtual_position \<Rightarrow> portfolio_leg" where
  "position_leg p = \<lparr>lg_instance = vp_instance p, lg_signals = vp_signals p, lg_account = vp_account p, lg_instrument = vp_instrument p, lg_proposed = Fin 0,
     lg_open = vp_signed p, lg_gross = jabs (vp_signed p), lg_unrealized = (case positionUnrealizedR p of Some n \<Rightarrow> num_or_zero (Num n) | None \<Rightarrow> Fin 0),
     lg_realized = vp_realized p\<rparr>"

record portfolio_row =
  pr_instruments :: "string list"
  pr_accounts :: "string list"
  pr_signals :: "jsval list"
  pr_proposed :: jnum
  pr_open :: jnum
  pr_gross :: jnum
  pr_unrealized :: jnum
  pr_realized :: jnum
  pr_total :: jnum

definition emptyPortfolioRow :: portfolio_row where
  "emptyPortfolioRow = \<lparr>pr_instruments = [], pr_accounts = [], pr_signals = [], pr_proposed = Fin 0, pr_open = Fin 0, pr_gross = Fin 0, pr_unrealized = Fin 0,
     pr_realized = Fin 0, pr_total = Fin 0\<rparr>"

definition add_leg :: "portfolio_row \<Rightarrow> portfolio_leg \<Rightarrow> portfolio_row" where
  "add_leg row leg =
     (let unrealized = size_round (jadd (pr_unrealized row) (lg_unrealized leg)); realized = size_round (jadd (pr_realized row) (lg_realized leg))
      in \<lparr>pr_instruments = unique_strings (pr_instruments row @ [lg_instrument leg]), pr_accounts = unique_strings (pr_accounts row @ [lg_account leg]),
          pr_signals = pr_signals row @ lg_signals leg, pr_proposed = size_round (jadd (pr_proposed row) (lg_proposed leg)),
          pr_open = size_round (jadd (pr_open row) (lg_open leg)), pr_gross = size_round (jadd (pr_gross row) (lg_gross leg)),
          pr_unrealized = unrealized, pr_realized = realized, pr_total = size_round (jadd unrealized realized)\<rparr>)"

definition addLegToPortfolio :: "(string \<times> portfolio_row) list \<Rightarrow> portfolio_leg \<Rightarrow> (string \<times> portfolio_row) list" where
  "addLegToPortfolio state leg =
     (let k = (if lg_instance leg = [] then ''UNKNOWN'' else lg_instance leg)
      in put_field k (add_leg (case map_of state k of Some row \<Rightarrow> row | None \<Rightarrow> emptyPortfolioRow) leg) state)"

definition row_js :: "string \<times> portfolio_row \<Rightarrow> jsval" where
  "row_js kr = (let r = snd kr in Obj [(''strategy_instance_id'', Str (fst kr)), (''instruments'', str_values (pr_instruments r)), (''account_ids'', str_values (pr_accounts r)),
     (''signal_ids'', Arr (pr_signals r)), (''proposed_signed_size'', Num (pr_proposed r)), (''open_signed_size'', Num (pr_open r)), (''gross_exposure'', Num (pr_gross r)),
     (''unrealized_r'', Num (pr_unrealized r)), (''realized_r'', Num (pr_realized r)), (''total_r'', Num (pr_total r))])"

definition row_sum :: "(portfolio_row \<Rightarrow> jnum) \<Rightarrow> portfolio_row list \<Rightarrow> jnum" where
  "row_sum f rows = size_round (foldl (\<lambda>t r. jadd t (f r)) (Fin 0) rows)"

definition portfolioTotals :: "portfolio_row list \<Rightarrow> jsval" where
  "portfolioTotals rows = Obj [(''strategy_instances'', js_count rows), (''proposed_abs_size'', Num (row_sum (\<lambda>r. jabs (pr_proposed r)) rows)),
     (''open_abs_size'', Num (row_sum (\<lambda>r. jabs (pr_open r)) rows)), (''gross_exposure'', Num (row_sum pr_gross rows)),
     (''unrealized_r'', Num (row_sum pr_unrealized rows)), (''realized_r'', Num (row_sum pr_realized rows)), (''total_r'', Num (row_sum pr_total rows))]"

definition portfolio_rows :: "jsobj list \<Rightarrow> jsval \<Rightarrow> jsval \<Rightarrow> (string \<times> portfolio_row) list" where
  "portfolio_rows signals positions marks =
     foldl addLegToPortfolio [] (normalizeSignalLegs signals @ List.map (position_leg \<circ> normalizePosition marks) (arr_or_empty positions))"

definition virtual_portfolio_fields :: "host \<Rightarrow> string option \<Rightarrow> string \<Rightarrow> jsobj list \<Rightarrow> jsval \<Rightarrow> jsval \<Rightarrow> jsobj" where
  "virtual_portfolio_fields H asOf portfolioScope signals positions marks =
     (let rows = portfolio_rows signals positions marks
      in [(''schema_version'', Str ''virtual_strategy_portfolio_v1''), (''as_of_utc'', js_opt_str asOf), (''portfolio_scope'', Str portfolioScope),
          (''totals'', portfolioTotals (List.map snd rows)),
          (''by_strategy_instance'', Arr (List.map row_js (js_sort (\<lambda>l r. 0 < locale_compare H (fst l) (fst r)) rows))),
          (''positions'', Arr (List.map (position_js \<circ> normalizePosition marks) (arr_or_empty positions)))])"

definition buildVirtualStrategyPortfolioV1 :: "host \<Rightarrow> jsval \<Rightarrow> jsobj" where
  "buildVirtualStrategyPortfolioV1 H input =
     (let fields = virtual_portfolio_fields H (plan_iso H (firstDefined [get input ''as_of_utc'', get input ''asOfUtc'', js_opt_str (to_iso (clock_ms H))]))
          (js_text (firstDefined [get input ''portfolio_scope'', get input ''scope'', Str ''default'']))
          (List.map_filter js_record (arr_or_empty (firstDefined [get input ''signals'', Arr []])))
          (firstDefined [get input ''positions'', get input ''virtual_positions'', Arr []]) (get input ''marks'')
      in fields @ [(''portfolio_hash'', Str (js_hash H (Obj fields)))])"

section \<open>The plan\<close>

record allocation_plan =
  ap_as_of :: "string option"
  ap_scope :: string
  ap_policy :: allocation_policy
  ap_signals :: "(signal_core \<times> signal_issue list) list"
  ap_selection :: "jsobj list \<times> rejected_signal list"

definition active_signals :: "(signal_core \<times> signal_issue list) list \<Rightarrow> jsobj list" where
  "active_signals signals = List.map (signal_js \<circ> fst) (filter (\<lambda>s. snd s = []) signals)"

definition allocation_plan_of :: "host \<Rightarrow> jsval \<Rightarrow> allocation_plan" where
  "allocation_plan_of H input =
     (let i = get input; asOf = plan_iso H (firstDefined [i ''as_of_utc'', i ''asOfUtc'', js_opt_str (to_iso (clock_ms H))]);
          accountId = js_text (firstDefined [i ''account_id'', i ''accountId'', i ''default_account_id'', i ''defaultAccountId'', i ''portfolio_scope'', i ''scope'', Str ''default'']);
          p = alloc_normalizePolicy (i ''policy'') input;
          signals = normalizeSignals H (firstDefined [i ''signals'', i ''signal_items'', i ''items'', Arr []]) asOf p accountId
      in \<lparr>ap_as_of = asOf, ap_scope = js_text (firstDefined [i ''portfolio_scope'', i ''scope'', Str ''default'']), ap_policy = p, ap_signals = signals,
          ap_selection = selectPortfolioSignalsV1 H (active_signals signals) (al_conflict p)\<rparr>)"

definition plan_allocations_of :: "host \<Rightarrow> allocation_plan \<Rightarrow> jsobj list" where
  "plan_allocations_of H a = allocateByAccountInstrument H (fst (ap_selection a)) (ap_scope a) (ap_as_of a)"

definition plan_rejected :: "allocation_plan \<Rightarrow> jsval list" where
  "plan_rejected a = List.map rejected_js (filter (\<lambda>s. snd s \<noteq> []) (ap_signals a)) @ List.map rejection_js (snd (ap_selection a))"

definition candidate_fields :: "host \<Rightarrow> jsval \<Rightarrow> jsobj" where
  "candidate_fields H input =
     (let a = allocation_plan_of H input; allocations = plan_allocations_of H a; refused = plan_rejected a
      in [(''schema_version'', Str ''portfolio_candidate_allocation_plan_v1''), (''status'', Str (if fst (ap_selection a) \<noteq> [] then ''ALLOCATED'' else ''NO_ACTIVE_SIGNALS'')),
          (''as_of_utc'', js_opt_str (ap_as_of a)), (''portfolio_scope'', Str (ap_scope a)), (''policy'', policy_js (ap_policy a)),
          (''candidate_allocations'', Arr (List.map Obj allocations)), (''rejected_signals'', Arr refused), (''arbitration_summary'', arbitrationSummary allocations (length refused)),
          (''virtual_portfolio'', Obj (buildVirtualStrategyPortfolioV1 H (Obj [(''as_of_utc'', js_opt_str (ap_as_of a)), (''portfolio_scope'', Str (ap_scope a)),
             (''signals'', Arr (List.map Obj (fst (ap_selection a)))), (''positions'', firstDefined [get input ''positions'', get input ''virtual_positions'', Arr []]),
             (''marks'', get input ''marks'')])))])"

definition buildCandidateAllocationPortfolioV1 :: "host \<Rightarrow> jsval \<Rightarrow> jsobj" where
  "buildCandidateAllocationPortfolioV1 H input =
     (let fields = candidate_fields H input in fields @ [(''plan_hash'', Str (js_hash H (Obj fields)))])"

section \<open>Every signal is dealt with\<close>

lemma contribution_id [simp]: "fget (signalContribution s) ''signal_id'' = fget s ''signal_id''"
  by (simp add: signalContribution_def Let_def)

lemma allocation_ids:
  "arr_or_empty (fget (allocationForAccountInstrument H items scope asOf) ''signal_ids'') = List.map (\<lambda>s. fget s ''signal_id'') (js_sort (bySignal H) items)"
  by (simp add: allocationForAccountInstrument_def allocation_base_def contributions_def comp_def Let_def)

lemma mset_concat_sorted: "mset (concat (List.map f (js_sort c xs))) = mset (concat (List.map f xs))"
proof -
  have "mset (concat (List.map f ys)) = sum_mset (image_mset (\<lambda>x. mset (f x)) (mset ys))" for ys by (induction ys) simp_all
  then show ?thesis by (simp only: mset_js_sort)
qed

lemma allocated_ids:
  "mset (concat (List.map (\<lambda>a. arr_or_empty (fget a ''signal_ids'')) (allocateByAccountInstrument H signals scope asOf))) = mset (List.map (\<lambda>s. fget s ''signal_id'') signals)"
proof -
  let ?g = "group_signals allocationGroupKey signals"
  have "concat (List.map (\<lambda>a. arr_or_empty (fget a ''signal_ids'')) (allocateByAccountInstrument H signals scope asOf))
      = concat (List.map (\<lambda>kr. List.map (\<lambda>s. fget s ''signal_id'') (js_sort (bySignal H) (snd kr))) (allocation_groups H signals))"
    by (simp add: allocateByAccountInstrument_def allocation_ids comp_def case_prod_unfold)
  moreover have bs: "mset (concat (List.map (\<lambda>kr. List.map (\<lambda>s. fget s ''signal_id'') (js_sort (bySignal H) (snd kr))) bs))
      = mset (List.map (\<lambda>s. fget s ''signal_id'') (concat (List.map snd bs)))" for bs
    by (induction bs) simp_all
  moreover have "mset (List.map (\<lambda>s. fget s ''signal_id'') (concat (List.map snd (allocation_groups H signals)))) = mset (List.map (\<lambda>s. fget s ''signal_id'') signals)"
    unfolding allocation_groups_def mset_map[of _ "concat _"] mset_concat_sorted group_content mset_map ..
  ultimately show ?thesis using bs[of "allocation_groups H signals"] by (simp only:)
qed

lemma active_ids: "List.map (\<lambda>s. fget s ''signal_id'') (active_signals signals) = List.map (\<lambda>s. Str (sg_id (fst s))) (filter (\<lambda>s. snd s = []) signals)"
  by (simp add: active_signals_def signal_js_def)

lemma candidate_field:
  "fget (buildCandidateAllocationPortfolioV1 H input) ''candidate_allocations'' = Arr (List.map Obj (plan_allocations_of H (allocation_plan_of H input)))"
  "fget (buildCandidateAllocationPortfolioV1 H input) ''rejected_signals'' = Arr (plan_rejected (allocation_plan_of H input))"
  by (simp_all add: buildCandidateAllocationPortfolioV1_def candidate_fields_def Let_def)

lemma split_mset: "mset (List.map f (filter P xs)) + mset (List.map f (filter (\<lambda>x. \<not> P x) xs)) = mset (List.map f xs)"
  by (induction xs) simp_all

text \<open>
  C22. C. Under netting every signal is allocated or rejected: the ids in the allocations and the ids of the rejected signals are
  together the ids of the signals, with their multiplicities.
\<close>

theorem every_signal_accounted:
  assumes "al_conflict (ap_policy (allocation_plan_of H input)) = ''NET_BY_DIRECTION''"
  shows "let E = buildCandidateAllocationPortfolioV1 H input
    in mset (concat (List.map (\<lambda>a. arr_or_empty (get a ''signal_ids'')) (arr_or_empty (fget E ''candidate_allocations'')))
         @ List.map (\<lambda>r. get r ''signal_id'') (arr_or_empty (fget E ''rejected_signals'')))
      = mset (List.map (\<lambda>s. Str (sg_id (fst s))) (ap_signals (allocation_plan_of H input)))"
proof -
  let ?a = "allocation_plan_of H input"
  have s: "ap_selection ?a = (active_signals (ap_signals ?a), [])"
    using assms by (simp add: allocation_plan_of_def selectPortfolioSignalsV1_def Let_def)
  have "mset (concat (List.map (\<lambda>a. arr_or_empty (get a ''signal_ids'')) (List.map Obj (plan_allocations_of H ?a))))
      = mset (List.map (\<lambda>s. Str (sg_id (fst s))) (filter (\<lambda>s. snd s = []) (ap_signals ?a)))"
    using allocated_ids[of H "active_signals (ap_signals ?a)"] by (simp add: plan_allocations_of_def s comp_def active_ids[unfolded mset_map])
  moreover have "List.map (\<lambda>r. get r ''signal_id'') (plan_rejected ?a) = List.map (\<lambda>s. Str (sg_id (fst s))) (filter (\<lambda>s. snd s \<noteq> []) (ap_signals ?a))"
    by (simp add: plan_rejected_def s rejected_js_def)
  ultimately show ?thesis
    using split_mset[of "\<lambda>s. Str (sg_id (fst s))" "\<lambda>s. snd s = []" "ap_signals ?a"]
    unfolding Let_def candidate_field arr_or_empty.simps by (simp only: mset_append)
qed

definition sample_signals :: jsval where
  "sample_signals = Obj [(''as_of_utc'', Str ''2026-01-01T00:00:00.000Z''), (''signals'', Arr [Obj [(''id'', Str ''S1'')]])]"

theorem every_signal_accounted_witness:
  "let E = buildCandidateAllocationPortfolioV1 sample_host sample_signals
   in mset (concat (List.map (\<lambda>a. arr_or_empty (get a ''signal_ids'')) (arr_or_empty (fget E ''candidate_allocations'')))
         @ List.map (\<lambda>r. get r ''signal_id'') (arr_or_empty (fget E ''rejected_signals''))) = {#Str ''S1''#}"
proof -
  let ?a = "allocation_plan_of sample_host sample_signals"
  let ?items = "[Obj [(''id'', Str ''S1'')]]"
  have "al_conflict (ap_policy ?a) = js_text (Str ''NET_BY_DIRECTION'')"
    by (simp add: allocation_plan_of_def alloc_normalizePolicy_def sample_signals_def firstDefined_Cons Let_def)
  also have "\<dots> = ''NET_BY_DIRECTION''" by code_simp
  finally have c: "al_conflict (ap_policy ?a) = ''NET_BY_DIRECTION''" .
  have items: "arr_or_empty (firstDefined [get sample_signals ''signals'', get sample_signals ''signal_items'', get sample_signals ''items'', Arr []]) = ?items"
    by (simp add: sample_signals_def firstDefined_Cons)
  have "sg_id (signalCore H (Obj [(''id'', Str ''S1'')]) (signalSource (Obj [(''id'', Str ''S1'')])) accountId p) = trim ''S1''" for H accountId p
    unfolding signalCore_def Let_def signal_core.select_convs by (simp add: signalSource_def js_record_def map_filter_simps firstDefined_Cons Let_def)
  also have "trim ''S1'' = ''S1''" by code_simp
  finally have "List.map (\<lambda>s. Str (sg_id (fst s))) (normalizeSignals H (firstDefined [get sample_signals ''signals'', get sample_signals ''signal_items'',
      get sample_signals ''items'', Arr []]) asOf p accountId) = [Str ''S1'']" for H asOf p accountId
    unfolding normalizeSignals_def items by (simp add: normalizeSignal_def Let_def)
  then have "List.map (\<lambda>s. Str (sg_id (fst s))) (ap_signals ?a) = [Str ''S1'']"
    unfolding allocation_plan_of_def Let_def allocation_plan.select_convs .
  then have "mset (List.map (\<lambda>s. Str (sg_id (fst s))) (ap_signals ?a)) = {#Str ''S1''#}" by (simp only: mset.simps)
  with every_signal_accounted[OF c] show ?thesis unfolding Let_def by (simp only:)
qed

section \<open>What is allocated\<close>

lemma selection_keeps:
  assumes "w \<in> set (fst (selectPortfolioSignalsV1 H signals cr))"
  shows "\<exists>s \<in> set signals. fget w ''signal_id'' = fget s ''signal_id'' \<and> fget w ''direction'' = fget s ''direction'' \<and> fget w ''proposed_size'' = fget s ''proposed_size''"
proof (cases "cr = ''BEST_COMPLETE_PLAN_V1''")
  case True
  then obtain s where "s \<in> set signals" "canonicalCompleteSignal H s = Some w" using assms selected_origin by blast
  then show ?thesis using complete_keeps[of H s w] by (intro bexI[of _ s]) simp_all
next
  case False
  then show ?thesis using assms by (auto simp: selectPortfolioSignalsV1_def split: if_splits)
qed

lemma issue_when_Nil [simp]: "issue_when b c p = [] \<longleftrightarrow> \<not> b" and required_if_Nil [simp]: "required_if b p = [] \<longleftrightarrow> \<not> b"
  by (simp_all add: issue_when_def required_if_def)

lemma context_without_issue: "cx_issue (contextAdjustedSize item source requested p) = None \<Longrightarrow> jlt (Fin 0) (cx_size (contextAdjustedSize item source requested p))"
  by (cases "alloc_number (contextMultiplier item source)") (auto simp: contextAdjustedSize_def contextSizingResult_def Let_def split: if_splits)

definition sound_signal :: "host \<Rightarrow> signal_core \<Rightarrow> string option \<Rightarrow> allocation_policy \<Rightarrow> bool" where
  "sound_signal H g asOf p \<longleftrightarrow> sg_direction g \<in> {''LONG'', ''SHORT''} \<and> jlt (Fin 0) (cx_size (sg_context g)) \<and> sg_account g \<noteq> [] \<and> sg_instrument g \<noteq> []
     \<and> sg_status g \<in> set (al_statuses p) \<and> strategyRuntimeState (sg_instance g) p \<noteq> ''DISABLED'' \<and> strategyRuntimeState (sg_instance g) p \<noteq> ''SUSPENDED''
     \<and> sg_block g = [] \<and> sg_expires g \<noteq> None \<and> \<not> not_later (instant_of H (sg_expires g)) (instant_of H asOf) \<and> \<not> later (instant_of H (sg_generated g)) (instant_of H asOf)"

lemma no_issue_sound:
  assumes "snd (normalizeSignal H item asOf p accountId) = []"
  shows "sound_signal H (fst (normalizeSignal H item asOf p accountId)) asOf p"
proof -
  define g where "g = signalCore H item (signalSource item) accountId p"
  have i: "signalIssues H g asOf p = []" using assms by (simp add: normalizeSignal_def g_def Let_def)
  have "cx_issue (sg_context g) = None" using i by (auto simp: signalIssues_def signalSizingIssues_def split: option.splits)
  then have size: "jlt (Fin 0) (cx_size (sg_context g))" unfolding g_def signalCore_def Let_def signal_core.select_convs by (rule context_without_issue)
  have "requiredSignalIssues g = []" "signalStateIssues g p = []" "signalTimingIssues H g asOf = []" "signalSizingIssues g p = []"
    using i by (simp_all add: signalIssues_def)
  then have "sg_direction g \<in> {''LONG'', ''SHORT''}" "sg_account g \<noteq> []" "sg_instrument g \<noteq> []" "sg_status g \<in> set (al_statuses p)"
    "strategyRuntimeState (sg_instance g) p \<noteq> ''DISABLED''" "strategyRuntimeState (sg_instance g) p \<noteq> ''SUSPENDED''" "sg_block g = []" "sg_expires g \<noteq> None"
    "\<not> not_later (instant_of H (sg_expires g)) (instant_of H asOf)" "\<not> later (instant_of H (sg_generated g)) (instant_of H asOf)"
    unfolding requiredSignalIssues_def signalStateIssues_def signalTimingIssues_def signalSizingIssues_def PORTFOLIO_ALLOCATION_DIRECTIONS_V1_def
    by (simp_all only: append_is_Nil_conv issue_when_Nil required_if_Nil list.set) auto
  then show ?thesis using size by (simp add: sound_signal_def normalizeSignal_def g_def[symmetric] Let_def)
qed

text \<open>
  C23. C. What is allocated is active: every signal that contributes to an allocation is one of the signals given, with the same
  id, direction and size, long or short with a positive size, of a strategy that is neither disabled nor suspended, and not
  expired where both instants are dates.
\<close>

theorem allocated_signals_are_active:
  "let a = allocation_plan_of H input
   in list_all (\<lambda>allocation. list_all (\<lambda>c. list_ex (\<lambda>(g, issues). issues = [] \<and> sound_signal H g (ap_as_of a) (ap_policy a)
          \<and> get c ''signal_id'' = Str (sg_id g) \<and> get c ''direction'' = Str (sg_direction g) \<and> get c ''proposed_size'' = Num (cx_size (sg_context g))) (ap_signals a))
        (arr_or_empty (fget allocation ''contributing_signals''))) (plan_allocations_of H a)"
proof -
  let ?a = "allocation_plan_of H input"
  have "\<exists>x \<in> set (ap_signals ?a). snd x = [] \<and> sound_signal H (fst x) (ap_as_of ?a) (ap_policy ?a) \<and> get c ''signal_id'' = Str (sg_id (fst x))
      \<and> get c ''direction'' = Str (sg_direction (fst x)) \<and> get c ''proposed_size'' = Num (cx_size (sg_context (fst x)))"
    if al: "allocation \<in> set (plan_allocations_of H ?a)" and c: "c \<in> set (arr_or_empty (fget allocation ''contributing_signals''))" for allocation c
  proof -
    obtain k items where ki: "(k, items) \<in> set (group_signals allocationGroupKey (fst (ap_selection ?a)))"
      and al': "allocation = allocationForAccountInstrument H items (ap_scope ?a) (ap_as_of ?a)"
      using al by (auto simp: plan_allocations_of_def allocateByAccountInstrument_def allocation_groups_def)
    obtain s where s: "s \<in> set items" "c = Obj (signalContribution s)"
      using c by (auto simp: al' allocationForAccountInstrument_def allocation_base_def contributions_def Let_def)
    have "s \<in> set (concat (List.map snd (group_signals allocationGroupKey (fst (ap_selection ?a)))))" using s ki by force
    then have "s \<in> set (fst (ap_selection ?a))" using group_content[of allocationGroupKey "fst (ap_selection ?a)"] by (metis set_mset_mset)
    then have "s \<in> set (fst (selectPortfolioSignalsV1 H (active_signals (ap_signals ?a)) (al_conflict (ap_policy ?a))))"
      by (simp add: allocation_plan_of_def Let_def)
    from selection_keeps[OF this] obtain x where x: "x \<in> set (ap_signals ?a)" "snd x = []"
      and f: "fget s ''signal_id'' = fget (signal_js (fst x)) ''signal_id''" "fget s ''direction'' = fget (signal_js (fst x)) ''direction''"
        "fget s ''proposed_size'' = fget (signal_js (fst x)) ''proposed_size''"
      by (auto simp: active_signals_def)
    obtain item accountId where "x = normalizeSignal H item (ap_as_of ?a) (ap_policy ?a) accountId"
      using x(1) by (auto simp: allocation_plan_of_def normalizeSignals_def Let_def)
    then have "sound_signal H (fst x) (ap_as_of ?a) (ap_policy ?a)" using no_issue_sound x(2) by blast
    then show ?thesis using x f s(2) by (intro bexI[of _ x]) (simp_all add: signalContribution_def signal_js_def Let_def)
  qed
  then show ?thesis unfolding Let_def list_all_iff list_ex_iff case_prod_unfold by blast
qed

section \<open>What goes unnoticed\<close>

definition opposite_positions :: jsval where
  "opposite_positions = Arr [
     Obj [(''strategy_instance_id'', Str ''S1''), (''instrument'', Str ''MNQ''), (''direction'', Str ''LONG''), (''size'', Num (Fin 3))],
     Obj [(''strategy_instance_id'', Str ''S1''), (''instrument'', Str ''ZC''), (''direction'', Str ''SHORT''), (''size'', Num (Fin 3))]]"

lemma opposite_row:
  "portfolio_rows [] opposite_positions marks = [(''S1'', \<lparr>pr_instruments = [''MNQ'', ''ZC''], pr_accounts = [''default''], pr_signals = [], pr_proposed = Fin 0,
     pr_open = Fin 0, pr_gross = Fin 6, pr_unrealized = Fin 0, pr_realized = Fin 0, pr_total = Fin 0\<rparr>)]"
proof -
  have r: "size_round (Fin 0) = Fin 0" "size_round (Fin 3) = Fin 3" "size_round (Fin (- 3)) = Fin (- 3)" "size_round (Fin 6) = Fin 6"
    using size_round_int[of 0] size_round_int[of 3] size_round_int[of 6] round_digits_int[of "- 3"] by (simp_all add: size_round_def)
  have t: "js_upper (Str ''LONG'') = ''LONG''" "js_upper (Str ''SHORT'') = ''SHORT''" "js_upper (Str ''MNQ'') = ''MNQ''" "js_upper (Str ''ZC'') = ''ZC''"
    "trim ''S1'' = ''S1''" "trim ''default'' = ''default''" by code_simp+
  have leg: "position_leg (normalizePosition marks (Obj [(''strategy_instance_id'', Str ''S1''), (''instrument'', Str i), (''direction'', Str d), (''size'', Num (Fin 3))]))
     = \<lparr>lg_instance = ''S1'', lg_signals = [], lg_account = ''default'', lg_instrument = js_upper (Str i), lg_proposed = Fin 0, lg_open = signedSize (js_upper (Str d)) (Fin 3),
        lg_gross = jabs (signedSize (js_upper (Str d)) (Fin 3)), lg_unrealized = Fin 0, lg_realized = Fin 0\<rparr>" for i d
    using r t by (simp add: position_leg_def normalizePosition_def positionUnrealizedR_def vp_signed_def alloc_positive_def alloc_number_def falsy_number_def
        firstDefined_Cons Let_def split: option.split)
  have s: "signedSize ''LONG'' (Fin 3) = Fin 3" "signedSize ''SHORT'' (Fin 3) = Fin (- 3)" by (simp_all add: signedSize_def number_or_zero)
  show ?thesis
    by (simp add: portfolio_rows_def opposite_positions_def normalizeSignalLegs_def leg t s addLegToPortfolio_def add_leg_def emptyPortfolioRow_def unique_strings_def
        r Let_def)
qed

text \<open>
  C37. C. The positions of a strategy cancel across instruments: a strategy that is long three contracts of one instrument and
  short three of another has a gross exposure of six, and the open size that risk starts from is zero.
\<close>

theorem opposite_positions_cancel:
  "let portfolio = buildVirtualStrategyPortfolioV1 H (Obj [(''positions'', opposite_positions)])
   in get (fget portfolio ''totals'') ''gross_exposure'' = Num (Fin 6)
      \<and> us_open (buildUsageSnapshot portfolio allocations groups accountId lossUsage) = Fin 0"
proof -
  have r: "size_round (Fin 0) = Fin 0" "size_round (Fin 6) = Fin 6" using size_round_int[of 0] size_round_int[of 6] by simp_all
  have "fget (buildVirtualStrategyPortfolioV1 H (Obj [(''positions'', opposite_positions)])) ''totals''
      = portfolioTotals (List.map snd (portfolio_rows [] opposite_positions Undef))"
    by (simp add: buildVirtualStrategyPortfolioV1_def virtual_portfolio_fields_def firstDefined_Cons opposite_positions_def map_filter_simps Let_def)
  then show ?thesis
    by (simp add: Let_def opposite_row portfolioTotals_def row_sum_def r buildUsageSnapshot_def portfolio_total_def js_coalesce_def)
qed

text \<open>Without a valid \<open>as_of_utc\<close> no signal is expired.\<close>

lemma invalid_as_of_never_expires: "legacy_date H ''null'' = None \<Longrightarrow> signalTimingIssues H g None = []"
proof -
  assume "legacy_date H ''null'' = None"
  moreover have "iso_parse ''null'' = None" by code_simp
  ultimately show ?thesis by (simp add: signalTimingIssues_def instant_of_def date_parse_def later_def not_later_def split: option.splits)
qed

text \<open>The default size of the policy is not the size of a signal without one.\<close>

lemma default_size_ignored: "signalSize (Obj []) [] ''LONG'' = Fin 1"
  by code_simp

end
