(* ===== verification/Circuit_Breaker.thy ===== *)
theory Circuit_Breaker
  imports Domain_Helpers
begin

text \<open>
  \<open>packages/desk-domain/src/execution-provider-circuit-breaker-v1.js\<close>: the barrier that decides
  whether an order intent may go to the primary broker provider, to a fallback, or to none. It
  reads the provider candidates, the commands and broker events already known for the intent, and
  the operator's fallback policy.
\<close>

section \<open>Candidates and policy\<close>

record provider =
  provider_id :: string
  adapter_id :: string
  role :: string
  priority :: jnum
  enabled :: bool
  fallback_allowed :: bool
  circuit_state :: string

record fallback_policy =
  fallback_mode :: string
  operator_approved :: bool

definition EXECUTION_PROVIDER_ROUTE_STATUSES_V1 :: "string list" where
  "EXECUTION_PROVIDER_ROUTE_STATUSES_V1 = [''PRIMARY_READY'', ''FALLBACK_READY'', ''BLOCKED_NO_PROVIDER'',
     ''BLOCKED_CIRCUIT_OPEN'', ''BLOCKED_DOUBLE_SEND_RISK'', ''BLOCKED_RECONCILIATION_REQUIRED'',
     ''BLOCKED_OPERATOR_APPROVAL_REQUIRED'']"

definition EXECUTION_PROVIDER_CIRCUIT_STATES_V1 :: "string list" where
  "EXECUTION_PROVIDER_CIRCUIT_STATES_V1 = [''CLOSED'', ''HALF_OPEN'', ''OPEN'']"

definition EXECUTION_PROVIDER_FALLBACK_MODES_V1 :: "string list" where
  "EXECUTION_PROVIDER_FALLBACK_MODES_V1 = [''DISABLED'', ''OPERATOR_APPROVAL'', ''AUTOMATIC_SAFE'']"

definition DOUBLE_SEND_EVENT_TYPES :: "string list" where
  "DOUBLE_SEND_EVENT_TYPES = [''ORDER_ACCEPTED'', ''ORDER_WORKING'', ''ORDER_FILLED'',
     ''ORDER_PARTIALLY_FILLED'', ''POSITION_UPDATED'', ''PROTECTION_UPDATED'']"

definition IN_FLIGHT_COMMAND_STATUSES :: "string list" where
  "IN_FLIGHT_COMMAND_STATUSES = [''PENDING'', ''READY'', ''LEASED'', ''RENDERED'', ''DELIVERED'',
     ''SUBMITTED'', ''ACKNOWLEDGED'', ''ACCEPTED'', ''WORKING'', ''PARTIALLY_FILLED'']"

definition circuitState :: "jsval \<Rightarrow> string" where
  "circuitState value = (let normalized = js_upper value in
     if normalized \<in> set EXECUTION_PROVIDER_CIRCUIT_STATES_V1 then normalized else ''CLOSED'')"

definition fallbackMode :: "jsval \<Rightarrow> string" where
  "fallbackMode value = (let normalized = (if js_upper value = [] then ''OPERATOR_APPROVAL'' else js_upper value) in
     if normalized \<in> set EXECUTION_PROVIDER_FALLBACK_MODES_V1 then normalized else ''OPERATOR_APPROVAL'')"

definition cb_integer :: "jsval \<Rightarrow> jnum \<Rightarrow> jnum" where
  "cb_integer value fallback = (if is_integer (to_num value) then to_num value else fallback)"

definition normalizeCandidate :: "jsval \<Rightarrow> nat \<Rightarrow> provider" where
  "normalizeCandidate candidate index =
     (let s = Obj (obj_or_empty candidate) in
      \<lparr>provider_id = js_text (js_or (get s ''provider_id'') (js_or (get s ''broker_provider_code'') (get s ''provider''))),
       adapter_id = js_text (js_or (get s ''adapter_id'') (get s ''adapter'')),
       role = (if js_upper (get s ''role'') \<noteq> [] then js_upper (get s ''role'')
               else if index = 0 then ''PRIMARY'' else ''FALLBACK''),
       priority = cb_integer (get s ''priority'') (Fin (of_nat index)),
       enabled = (get s ''enabled'' \<noteq> Bool False),
       fallback_allowed = (get s ''fallback_allowed'' \<noteq> Bool False),
       circuit_state = circuitState (js_or (get s ''circuit_state'') (js_or (get s ''circuitState'') (get s ''status'')))\<rparr>)"

text \<open>The comparator \<open>left.priority - right.priority || left.provider_id.localeCompare(right.provider_id)\<close>.\<close>

definition candidate_after :: "host \<Rightarrow> provider \<Rightarrow> provider \<Rightarrow> bool" where
  "candidate_after H l r = (let d = jsub (priority l) (priority r) in
     if truthy (Num d) then jlt (Fin 0) d else 0 < locale_compare H (provider_id l) (provider_id r))"

definition normalizeCandidates :: "host \<Rightarrow> jsval \<Rightarrow> provider list" where
  "normalizeCandidates H input = js_sort (candidate_after H)
     (filter enabled (List.map (\<lambda>(index, candidate). normalizeCandidate candidate index)
        (enumerate 0 (arr_or_empty input))))"

definition cb_normalizePolicy :: "jsval \<Rightarrow> jsval \<Rightarrow> fallback_policy" where
  "cb_normalizePolicy s whole =
     \<lparr>fallback_mode = fallbackMode (js_or (get s ''fallback_mode'') (get s ''fallbackMode'')),
      operator_approved = (get s ''operator_fallback_approval'' = Bool True
        \<or> get whole ''operator_fallback_approval'' = Bool True
        \<or> get (get s ''operator_approval'') ''approved'' = Bool True
        \<or> get (get whole ''operator_approval'') ''approved'' = Bool True)\<rparr>"

definition primaryCandidate :: "provider list \<Rightarrow> provider" where
  "primaryCandidate candidates = (case List.find (\<lambda>c. role c = ''PRIMARY'') candidates of
     Some c \<Rightarrow> c | None \<Rightarrow> hd candidates)"

definition fallbackCandidate :: "provider list \<Rightarrow> provider \<Rightarrow> provider option" where
  "fallbackCandidate candidates primary = List.find (\<lambda>c. provider_id c \<noteq> provider_id primary
     \<and> fallback_allowed c \<and> circuit_state c \<noteq> ''OPEN'') candidates"

section \<open>Evidence\<close>

definition cb_issue :: "string \<Rightarrow> string \<Rightarrow> jsval" where
  "cb_issue c m = Obj [(''code'', Str c), (''message'', Str m)]"

definition intentMatch :: "jsval \<Rightarrow> jsval \<Rightarrow> bool" where
  "intentMatch value intent =
     (let s = Obj (obj_or_empty value); intentId = js_text (get intent ''order_intent_id'') in
      intentId \<noteq> [] \<and> js_text (js_or (get s ''order_intent_id'') (get s ''intent_id'')) = intentId)"

definition command_status :: "jsval \<Rightarrow> string" where
  "command_status cmd = js_upper (js_or (get cmd ''status'') (get cmd ''command_status''))"

definition event_kind :: "jsval \<Rightarrow> string" where
  "event_kind e = js_upper (js_or (get e ''event_type'') (get e ''type''))"

definition inFlightCommand :: "jsval \<Rightarrow> bool" where
  "inFlightCommand cmd \<longleftrightarrow> command_status cmd \<in> set IN_FLIGHT_COMMAND_STATUSES"

definition safeRejectedCommand :: "jsval \<Rightarrow> bool" where
  "safeRejectedCommand cmd \<longleftrightarrow> command_status cmd \<in> {''REJECTED'', ''FAILED''}
     \<and> (get cmd ''safe_to_fallback'' = Bool True \<or> get cmd ''fallback_safe'' = Bool True
        \<or> get cmd ''submitted'' = Bool False)"

definition uncertainCommand :: "jsval \<Rightarrow> bool" where
  "uncertainCommand cmd \<longleftrightarrow> command_status cmd \<in> {''FAILED'', ''ERROR'', ''TIMEOUT'', ''UNKNOWN''}
     \<and> \<not> safeRejectedCommand cmd"

definition doubleSendEvent :: "jsval \<Rightarrow> bool" where
  "doubleSendEvent e \<longleftrightarrow> event_kind e \<in> set DOUBLE_SEND_EVENT_TYPES"

definition uncertainEvent :: "jsval \<Rightarrow> bool" where
  "uncertainEvent e \<longleftrightarrow> event_kind e \<in> {''PROVIDER_ERROR'', ''UNKNOWN''}"

definition doubleSendIssues :: "jsval list \<Rightarrow> jsval list \<Rightarrow> jsval list" where
  "doubleSendIssues commands events =
     List.map (\<lambda>c. cb_issue ''PROVIDER_COMMAND_IN_FLIGHT''
        (''Command already in flight on provider '' @ js_text (get c ''provider_id'') @ ''.''))
       (filter inFlightCommand commands)
     @ List.map (\<lambda>e. cb_issue ''PROVIDER_ORDER_MAY_EXIST''
        (''Provider event '' @ js_text (get e ''event_type'') @ '' exists on '' @ js_text (get e ''provider_id'') @ ''.''))
       (filter doubleSendEvent events)"

definition reconciliationIssues :: "jsval list \<Rightarrow> jsval list \<Rightarrow> jsval list" where
  "reconciliationIssues commands events =
     List.map (\<lambda>c. cb_issue ''PROVIDER_COMMAND_UNCERTAIN''
        (''Provider command '' @ js_text (get c ''execution_provider_command_id'')
           @ '' needs reconciliation before fallback.''))
       (filter uncertainCommand commands)
     @ List.map (\<lambda>e. cb_issue ''PROVIDER_EVENT_UNCERTAIN''
        (''Provider event '' @ js_text (get e ''event_type'') @ '' needs reconciliation before fallback.''))
       (filter uncertainEvent events)"

text \<open>A rejection: the provider's id and the reason.\<close>

definition safeRejections :: "jsval list \<Rightarrow> jsval list \<Rightarrow> (string \<times> string) list" where
  "safeRejections commands events =
     List.map (\<lambda>e. (js_text (get e ''provider_id''), ''ORDER_REJECTED''))
       (filter (\<lambda>e. js_upper (get e ''event_type'') = ''ORDER_REJECTED'') events)
     @ List.map (\<lambda>c. (js_text (get c ''provider_id''), js_upper (get c ''status'')))
       (filter safeRejectedCommand commands)"

record route_evidence =
  commands :: "jsval list"
  events :: "jsval list"
  double_send_risk :: "jsval list"
  reconciliation_required :: "jsval list"
  safe_rejections :: "(string \<times> string) list"

definition collectEvidence :: "jsval \<Rightarrow> jsval \<Rightarrow> route_evidence" where
  "collectEvidence input intent =
     (let cs = filter (\<lambda>c. intentMatch c intent)
            (arr_or_empty (js_or (get input ''active_provider_commands'') (get input ''provider_commands'')));
          es = filter (\<lambda>e. intentMatch e intent)
            (arr_or_empty (js_or (get input ''broker_provider_events'') (get input ''provider_events'')))
      in \<lparr>commands = cs, events = es, double_send_risk = doubleSendIssues cs es,
          reconciliation_required = reconciliationIssues cs es, safe_rejections = safeRejections cs es\<rparr>)"

definition hasSafeTerminalRejection :: "route_evidence \<Rightarrow> string \<Rightarrow> bool" where
  "hasSafeTerminalRejection ev pid \<longleftrightarrow> list_ex (\<lambda>r. fst r = pid) (safe_rejections ev)"

section \<open>The route\<close>

definition providerRouteRef :: "provider \<Rightarrow> jsval" where
  "providerRouteRef c = Obj [(''provider_id'', Str (provider_id c)), (''adapter_id'', Str (adapter_id c)),
     (''role'', Str (role c)), (''priority'', Num (priority c)), (''circuit_state'', Str (circuit_state c))]"

definition evidenceSummary :: "route_evidence \<Rightarrow> jsval" where
  "evidenceSummary ev = Obj [(''command_count'', Num (Fin (of_nat (length (commands ev))))),
     (''event_count'', Num (Fin (of_nat (length (events ev))))),
     (''double_send_risk_count'', Num (Fin (of_nat (length (double_send_risk ev))))),
     (''reconciliation_required_count'', Num (Fin (of_nat (length (reconciliation_required ev))))),
     (''safe_rejection_count'', Num (Fin (of_nat (length (safe_rejections ev)))))]"

text \<open>The route, with the object the code returns in \<open>route_object\<close>.\<close>

record route =
  route_status :: string
  selected :: "provider option"
  fallback_from :: "provider option"
  fallback_reason :: "string option"
  route_issues :: "jsval list"
  route_object :: jsobj

definition routeResult ::
  "host \<Rightarrow> string \<Rightarrow> string \<Rightarrow> jsval \<Rightarrow> provider list \<Rightarrow> route_evidence \<Rightarrow> fallback_policy
     \<Rightarrow> provider option \<Rightarrow> provider option \<Rightarrow> string option \<Rightarrow> jsval list \<Rightarrow> route" where
  "routeResult H st now intent candidates ev policy sel from why issues =
     (let ref = (\<lambda>c. case c of Some p \<Rightarrow> providerRouteRef p | None \<Rightarrow> Null);
          base = [(''schema_version'', Str ''execution_provider_circuit_breaker_v1''),
            (''evaluated_at_utc'', if now = [] then Null else Str now), (''status'', Str st),
            (''order_intent_id'', Str (js_text (get intent ''order_intent_id''))),
            (''selected_provider'', ref sel), (''fallback_from_provider'', ref from),
            (''fallback_reason'', js_opt_str why),
            (''policy'', Obj [(''fallback_mode'', Str (fallback_mode policy)),
                              (''operator_approved'', Bool (operator_approved policy))]),
            (''evidence_summary'', evidenceSummary ev), (''issues'', Arr issues)]
      in \<lparr>route_status = st, selected = sel, fallback_from = from, fallback_reason = why, route_issues = issues,
          route_object = spread base [(''route_hash'', Str (js_hash H (Obj base))),
            (''provider_candidates'', Arr (List.map providerRouteRef candidates))]\<rparr>)"

definition firstBlocker :: "jsval \<Rightarrow> provider list \<Rightarrow> route_evidence \<Rightarrow> (string \<times> jsval list) option" where
  "firstBlocker intent candidates ev =
     (if js_text (get intent ''order_intent_id'') = [] then
        Some (''BLOCKED_RECONCILIATION_REQUIRED'', [cb_issue ''ORDER_INTENT_REQUIRED'' ''Order intent id is required.''])
      else if candidates = [] then
        Some (''BLOCKED_NO_PROVIDER'', [cb_issue ''PROVIDER_CANDIDATE_REQUIRED'' ''At least one provider candidate is required.''])
      else if double_send_risk ev \<noteq> [] then Some (''BLOCKED_DOUBLE_SEND_RISK'', double_send_risk ev)
      else if reconciliation_required ev \<noteq> [] then
        Some (''BLOCKED_RECONCILIATION_REQUIRED'', reconciliation_required ev)
      else None)"

definition selectedRoute ::
  "host \<Rightarrow> string \<Rightarrow> jsval \<Rightarrow> provider list \<Rightarrow> route_evidence \<Rightarrow> fallback_policy \<Rightarrow> route" where
  "selectedRoute H now intent candidates ev policy =
     (let primary = primaryCandidate candidates;
          primaryBlocked = (circuit_state primary = ''OPEN'');
          primaryRejected = hasSafeTerminalRejection ev (provider_id primary);
          result = routeResult H in
      if \<not> primaryBlocked \<and> \<not> primaryRejected
      then result ''PRIMARY_READY'' now intent candidates ev policy (Some primary) None None []
      else let fallbackReason = (if primaryBlocked then ''PRIMARY_CIRCUIT_OPEN'' else ''PRIMARY_TERMINAL_REJECTED'') in
        case fallbackCandidate candidates primary of
          None \<Rightarrow> result ''BLOCKED_CIRCUIT_OPEN'' now intent candidates ev policy None None None
            [cb_issue ''FALLBACK_PROVIDER_UNAVAILABLE'' ''No enabled fallback provider is available.'']
        | Some fallback \<Rightarrow>
            if fallback_mode policy = ''DISABLED''
            then result ''BLOCKED_CIRCUIT_OPEN'' now intent candidates ev policy None None None
              [cb_issue ''FALLBACK_DISABLED'' ''Fallback mode is disabled by policy.'']
            else if fallback_mode policy = ''OPERATOR_APPROVAL'' \<and> \<not> operator_approved policy
            then result ''BLOCKED_OPERATOR_APPROVAL_REQUIRED'' now intent candidates ev policy None None None
              [cb_issue ''FALLBACK_OPERATOR_APPROVAL_REQUIRED'' ''Cross-provider fallback requires explicit operator approval.'']
            else result ''FALLBACK_READY'' now intent candidates ev policy (Some fallback) (Some primary)
              (Some fallbackReason) [])"

definition planExecutionProviderCircuitBreakerV1 :: "host \<Rightarrow> jsval \<Rightarrow> route" where
  "planExecutionProviderCircuitBreakerV1 H input =
     (let now = js_text (js_or (get input ''now'') (get input ''evaluated_at_utc''));
          intent = Obj (obj_or_empty (js_or (get input ''order_intent'') (get input ''intent'')));
          candidates = normalizeCandidates H (js_or (get input ''provider_candidates'') (get input ''providers''));
          policy = cb_normalizePolicy (js_or (get input ''policy'') (Obj [])) input;
          ev = collectEvidence input intent in
      case firstBlocker intent candidates ev of
        Some (st, issues) \<Rightarrow> routeResult H st now intent candidates ev policy None None None issues
      | None \<Rightarrow> selectedRoute H now intent candidates ev policy)"

section \<open>Properties\<close>

lemma routeResult_simps [simp]:
  "route_status (routeResult H st now i cs ev p sel from why iss) = st"
  "selected (routeResult H st now i cs ev p sel from why iss) = sel"
  "fallback_from (routeResult H st now i cs ev p sel from why iss) = from"
  "fallback_reason (routeResult H st now i cs ev p sel from why iss) = why"
  by (simp_all add: routeResult_def Let_def)

abbreviation route_intent :: "jsval \<Rightarrow> jsval" where
  "route_intent input \<equiv> Obj (obj_or_empty (js_or (get input ''order_intent'') (get input ''intent'')))"

abbreviation route_commands :: "jsval \<Rightarrow> jsval list" where
  "route_commands input \<equiv> arr_or_empty (js_or (get input ''active_provider_commands'') (get input ''provider_commands''))"

abbreviation route_events :: "jsval \<Rightarrow> jsval list" where
  "route_events input \<equiv> arr_or_empty (js_or (get input ''broker_provider_events'') (get input ''provider_events''))"

abbreviation route_candidates :: "host \<Rightarrow> jsval \<Rightarrow> provider list" where
  "route_candidates H input \<equiv> normalizeCandidates H (js_or (get input ''provider_candidates'') (get input ''providers''))"

abbreviation route_policy :: "jsval \<Rightarrow> fallback_policy" where
  "route_policy input \<equiv> cb_normalizePolicy (js_or (get input ''policy'') (Obj [])) input"

lemma primaryCandidate_in: "candidates \<noteq> [] \<Longrightarrow> primaryCandidate candidates \<in> set candidates"
  by (auto simp: primaryCandidate_def split: option.split dest: find_SomeD)

lemma normalizeCandidates_enabled: "c \<in> set (normalizeCandidates H v) \<Longrightarrow> enabled c"
  by (simp add: normalizeCandidates_def)

lemma firstBlocker_None:
  "firstBlocker intent candidates ev = None \<longleftrightarrow> js_text (get intent ''order_intent_id'') \<noteq> []
     \<and> candidates \<noteq> [] \<and> double_send_risk ev = [] \<and> reconciliation_required ev = []"
  by (auto simp: firstBlocker_def)

lemma selectedRoute_selected:
  assumes "candidates \<noteq> []" and "selected (selectedRoute H now intent candidates ev policy) = Some p"
  shows "p \<in> set candidates \<and> circuit_state p \<noteq> ''OPEN''
    \<and> (route_status (selectedRoute H now intent candidates ev policy) = ''PRIMARY_READY'' \<and> p = primaryCandidate candidates
         \<and> \<not> hasSafeTerminalRejection ev (provider_id p)
       \<or> route_status (selectedRoute H now intent candidates ev policy) = ''FALLBACK_READY''
         \<and> fallback_allowed p \<and> provider_id p \<noteq> provider_id (primaryCandidate candidates)
         \<and> (circuit_state (primaryCandidate candidates) = ''OPEN''
            \<or> hasSafeTerminalRejection ev (provider_id (primaryCandidate candidates)))
         \<and> (fallback_mode policy = ''DISABLED'' \<longrightarrow> False)
         \<and> (fallback_mode policy = ''OPERATOR_APPROVAL'' \<longrightarrow> operator_approved policy))"
  using assms primaryCandidate_in[OF assms(1)]
  by (auto simp: selectedRoute_def Let_def fallbackCandidate_def dest: find_SomeD split: if_splits option.splits)

lemma firstBlocker_blocks: "firstBlocker intent candidates ev = Some (st, issues) \<Longrightarrow> st \<noteq> ''FALLBACK_READY''"
  by (auto simp: firstBlocker_def split: if_splits)

lemma selectedRoute_fallback:
  assumes "route_status (selectedRoute H now intent candidates ev policy) = ''FALLBACK_READY''"
  shows "\<exists>p. selected (selectedRoute H now intent candidates ev policy) = Some p"
  using assms by (auto simp: selectedRoute_def Let_def split: if_splits option.splits)

lemma uncertainCommand_iff:
  "uncertainCommand c \<longleftrightarrow> command_status c \<in> {''ERROR'', ''TIMEOUT'', ''UNKNOWN''}
     \<or> command_status c = ''FAILED'' \<and> \<not> (get c ''safe_to_fallback'' = Bool True \<or> get c ''fallback_safe'' = Bool True \<or> get c ''submitted'' = Bool False)"
  by (auto simp: uncertainCommand_def safeRejectedCommand_def)

text \<open>
  C2. No route over known activity: a provider is selected only for an intent with an id, and only if none of its commands that the
  call is given has one of the ten statuses of a command in flight, none has failed or timed out without being marked safe, and none
  of its events is one of the six that show an order, position or protection, or an error; and the provider is an enabled
  candidate whose circuit is not open. A command of another status, \<open>FILLED\<close> among them, holds nothing back
  (\<open>route_filled_command_not_blocking\<close> below).
\<close>

theorem route_needs_clear_evidence:
  assumes "selected (planExecutionProviderCircuitBreakerV1 H input) = Some p"
  shows "js_text (get (route_intent input) ''order_intent_id'') \<noteq> []
    \<and> (\<forall>c \<in> set (route_commands input). intentMatch c (route_intent input) \<longrightarrow>
            command_status c \<notin> {''PENDING'', ''READY'', ''LEASED'', ''RENDERED'', ''DELIVERED'', ''SUBMITTED'', ''ACKNOWLEDGED'', ''ACCEPTED'',
               ''WORKING'', ''PARTIALLY_FILLED''}
            \<and> command_status c \<notin> {''ERROR'', ''TIMEOUT'', ''UNKNOWN''}
            \<and> (command_status c = ''FAILED'' \<longrightarrow> get c ''safe_to_fallback'' = Bool True \<or> get c ''fallback_safe'' = Bool True
                 \<or> get c ''submitted'' = Bool False))
    \<and> (\<forall>e \<in> set (route_events input). intentMatch e (route_intent input) \<longrightarrow>
            event_kind e \<notin> {''ORDER_ACCEPTED'', ''ORDER_WORKING'', ''ORDER_FILLED'', ''ORDER_PARTIALLY_FILLED'', ''POSITION_UPDATED'',
               ''PROTECTION_UPDATED''}
            \<and> event_kind e \<notin> {''PROVIDER_ERROR'', ''UNKNOWN''})
    \<and> p \<in> set (route_candidates H input) \<and> enabled p \<and> circuit_state p \<noteq> ''OPEN''"
proof -
  let ?ev = "collectEvidence input (route_intent input)"
  have none: "firstBlocker (route_intent input) (route_candidates H input) ?ev = None"
    using assms by (auto simp: planExecutionProviderCircuitBreakerV1_def Let_def split: option.splits prod.splits)
  then have sel: "selected (selectedRoute H (js_text (js_or (get input ''now'') (get input ''evaluated_at_utc'')))
      (route_intent input) (route_candidates H input) ?ev (route_policy input)) = Some p"
    using assms by (simp add: planExecutionProviderCircuitBreakerV1_def Let_def)
  from none have ev: "double_send_risk ?ev = []" "reconciliation_required ?ev = []"
    and ne: "route_candidates H input \<noteq> []" and id: "js_text (get (route_intent input) ''order_intent_id'') \<noteq> []"
    by (auto simp: firstBlocker_None)
  from selectedRoute_selected[OF ne sel] normalizeCandidates_enabled
  have "p \<in> set (route_candidates H input)" "enabled p" "circuit_state p \<noteq> ''OPEN''" by blast+
  moreover have "\<not> inFlightCommand c" "\<not> uncertainCommand c"
    if "c \<in> set (route_commands input)" "intentMatch c (route_intent input)" for c
    using ev that by (auto simp: collectEvidence_def Let_def doubleSendIssues_def reconciliationIssues_def filter_empty_conv)
  moreover have "\<not> doubleSendEvent e" "\<not> uncertainEvent e"
    if "e \<in> set (route_events input)" "intentMatch e (route_intent input)" for e
    using ev that by (auto simp: collectEvidence_def Let_def doubleSendIssues_def reconciliationIssues_def filter_empty_conv)
  ultimately show ?thesis using id
    unfolding inFlightCommand_def uncertainCommand_iff doubleSendEvent_def uncertainEvent_def
      IN_FLIGHT_COMMAND_STATUSES_def DOUBLE_SEND_EVENT_TYPES_def list.set insert_iff empty_iff
    by blast
qed

text \<open>
  A fallback is ready only when it is safe and allowed: the primary's circuit is open or the
  primary returned a safe terminal rejection, the fallback is another provider that allows it, and
  the policy is not disabled and approved where it asks for the operator. Without a selected
  provider the status is one of the blocking ones.
\<close>

theorem route_fallback_authorised:
  defines "r \<equiv> \<lambda>H input. planExecutionProviderCircuitBreakerV1 H input"
  assumes "route_status (r H input) = ''FALLBACK_READY''"
  shows "\<exists>p. selected (r H input) = Some p \<and> fallback_allowed p
    \<and> provider_id p \<noteq> provider_id (primaryCandidate (route_candidates H input))
    \<and> (circuit_state (primaryCandidate (route_candidates H input)) = ''OPEN''
       \<or> hasSafeTerminalRejection (collectEvidence input (route_intent input))
            (provider_id (primaryCandidate (route_candidates H input))))
    \<and> fallback_mode (route_policy input) \<noteq> ''DISABLED''
    \<and> (fallback_mode (route_policy input) = ''OPERATOR_APPROVAL'' \<longrightarrow> operator_approved (route_policy input))"
proof -
  let ?route = "selectedRoute H (js_text (js_or (get input ''now'') (get input ''evaluated_at_utc''))) (route_intent input)
    (route_candidates H input) (collectEvidence input (route_intent input)) (route_policy input)"
  have none: "firstBlocker (route_intent input) (route_candidates H input) (collectEvidence input (route_intent input)) = None"
    using assms firstBlocker_blocks
    by (fastforce simp: planExecutionProviderCircuitBreakerV1_def Let_def split: option.splits)
  then have r: "r H input = ?route" by (simp add: assms(1) planExecutionProviderCircuitBreakerV1_def Let_def)
  then obtain p where p: "selected ?route = Some p" using selectedRoute_fallback assms(2) by metis
  have "route_candidates H input \<noteq> []" using none by (simp add: firstBlocker_None)
  from selectedRoute_selected[OF this p] show ?thesis using assms(2) p unfolding r by auto
qed

definition sample_route_input :: jsval where
  "sample_route_input = Obj
     [(''order_intent'', Obj [(''order_intent_id'', Str ''oi1'')]),
      (''provider_candidates'', Arr [Obj [(''provider_id'', Str ''ninja''), (''circuit_state'', Str ''OPEN'')],
                                     Obj [(''provider_id'', Str ''pmt'')]]),
      (''policy'', Obj [(''fallback_mode'', Str ''AUTOMATIC_SAFE'')])]"

definition p_ninja :: provider where
  "p_ninja = \<lparr>provider_id = ''ninja'', adapter_id = [], role = ''PRIMARY'', priority = Fin 0, enabled = True,
     fallback_allowed = True, circuit_state = ''OPEN''\<rparr>"

definition p_pmt :: provider where
  "p_pmt = \<lparr>provider_id = ''pmt'', adapter_id = [], role = ''FALLBACK'', priority = Fin 1, enabled = True,
     fallback_allowed = True, circuit_state = ''CLOSED''\<rparr>"

lemma sample_candidates: "route_candidates sample_host sample_route_input = [p_ninja, p_pmt]"
proof -
  have "js_or (get sample_route_input ''provider_candidates'') (get sample_route_input ''providers'')
      = Arr [Obj [(''provider_id'', Str ''ninja''), (''circuit_state'', Str ''OPEN'')], Obj [(''provider_id'', Str ''pmt'')]]"
    by (simp add: sample_route_input_def js_or_def)
  moreover have "normalizeCandidate (Obj [(''provider_id'', Str ''ninja''), (''circuit_state'', Str ''OPEN'')]) 0 = p_ninja"
    "normalizeCandidate (Obj [(''provider_id'', Str ''pmt'')]) 1 = p_pmt" by code_simp+
  ultimately show ?thesis
    by (simp add: normalizeCandidates_def js_sort_def candidate_after_def p_ninja_def p_pmt_def Let_def jsub_def)
qed

lemma sample_route: "selected (planExecutionProviderCircuitBreakerV1 sample_host sample_route_input) = Some p_pmt
   \<and> route_status (planExecutionProviderCircuitBreakerV1 sample_host sample_route_input) = ''FALLBACK_READY''"
proof -
  have ev: "collectEvidence sample_route_input (route_intent sample_route_input)
      = \<lparr>commands = [], events = [], double_send_risk = [], reconciliation_required = [], safe_rejections = []\<rparr>"
    by code_simp
  have policy: "route_policy sample_route_input = \<lparr>fallback_mode = ''AUTOMATIC_SAFE'', operator_approved = False\<rparr>"
    by code_simp
  have id: "js_text (get (route_intent sample_route_input) ''order_intent_id'') = ''oi1''"
    by code_simp
  show ?thesis
    unfolding planExecutionProviderCircuitBreakerV1_def Let_def ev policy sample_candidates firstBlocker_def id
    by (simp add: selectedRoute_def Let_def primaryCandidate_def fallbackCandidate_def p_ninja_def p_pmt_def)
qed

theorem route_needs_clear_evidence_witness:
  "filter (\<lambda>c. intentMatch c (route_intent sample_route_input) \<and> command_status c \<in> {''SUBMITTED'', ''TIMEOUT''})
      (route_commands sample_route_input) = []
    \<and> filter (\<lambda>e. intentMatch e (route_intent sample_route_input) \<and> event_kind e = ''ORDER_FILLED'')
      (route_events sample_route_input) = []
    \<and> p_pmt \<in> set (route_candidates sample_host sample_route_input) \<and> enabled p_pmt \<and> circuit_state p_pmt \<noteq> ''OPEN''"
  using route_needs_clear_evidence[of sample_host sample_route_input p_pmt] sample_route
  by (auto simp: filter_empty_conv)

theorem route_fallback_authorised_witness:
  "\<exists>p. selected (planExecutionProviderCircuitBreakerV1 sample_host sample_route_input) = Some p
    \<and> provider_id p \<noteq> provider_id (primaryCandidate (route_candidates sample_host sample_route_input))"
  using route_fallback_authorised[of sample_host sample_route_input] sample_route by auto

text \<open>
  The barrier knows the commands that are in flight and those that failed, not those that
  succeeded: a command whose status is \<open>FILLED\<close> does not stop the route, so without a broker event
  for the fill the intent may be sent a second time.
\<close>

theorem route_filled_command_not_blocking:
  assumes "command_status c = ''FILLED''"
  shows "doubleSendIssues (c # cs) es = doubleSendIssues cs es
    \<and> reconciliationIssues (c # cs) es = reconciliationIssues cs es
    \<and> safeRejections (c # cs) es = safeRejections cs es"
  using assms
  by (simp add: doubleSendIssues_def reconciliationIssues_def safeRejections_def inFlightCommand_def
      uncertainCommand_def safeRejectedCommand_def IN_FLIGHT_COMMAND_STATUSES_def)

theorem route_filled_command_not_blocking_witness:
  "doubleSendIssues [Obj [(''status'', Str ''filled'')]] [] = doubleSendIssues [] []
    \<and> reconciliationIssues [Obj [(''status'', Str ''filled'')]] [] = reconciliationIssues [] []
    \<and> safeRejections [Obj [(''status'', Str ''filled'')]] [] = safeRejections [] []"
  by (rule route_filled_command_not_blocking) code_simp

end
