(* ===== verification/Decision_Gates.thy ===== *)
theory Decision_Gates
  imports Domain_Result
begin

text \<open>
  The gates around a decision: \<open>gate-evaluator.js\<close> (may a decision open new risk now),
  \<open>position-manager.js\<close> (may an open position be managed this way) and
  \<open>outcome-replayer.js\<close> (what happened to a setup on a candle sequence). The main facts are
  that a blocking gate is never lost in the result, and that a replayed outcome is settled by
  the first candle that touches a level, so candles after it cannot change it.
\<close>

section \<open>gate-evaluator.js\<close>

definition PASS_STATUSES :: "string list" where
  "PASS_STATUSES = [''pass'', ''passed'', ''ok'', ''accepted'', ''conditional_pass'']"

definition FAIL_STATUSES :: "string list" where
  "FAIL_STATUSES = [''fail'', ''failed'', ''blocked'', ''block'', ''rejected'', ''no_go'', ''red'']"

definition ENTRY_BLOCKING_WINDOW_STATUSES :: "string list" where
  "ENTRY_BLOCKING_WINDOW_STATUSES =
     [''red'', ''no_entry'', ''no_entries'', ''no_new_entries'', ''blocked'']"

definition gateStatus :: "jsval \<Rightarrow> string" where
  "gateStatus gate =
     (case gate of
        Bool b \<Rightarrow> if b then ''pass'' else []
      | Null \<Rightarrow> []
      | Undef \<Rightarrow> []
      | Str s \<Rightarrow> to_lower s
      | Num _ \<Rightarrow> []
      | _ \<Rightarrow> to_lower (str_or_empty (js_or (get gate ''status'')
               (js_or (get gate ''result'') (get gate ''verdict'')))))"

definition gatePasses :: "jsval \<Rightarrow> bool" where
  "gatePasses gate \<longleftrightarrow> gateStatus gate \<in> set PASS_STATUSES"

definition marketFunnelBlocks :: "jsval \<Rightarrow> bool" where
  "marketFunnelBlocks gate =
     (let st = gateStatus gate in
      if st = [] then True
      else if st \<in> set FAIL_STATUSES then True
      else get gate ''hard_gate'' = Bool True \<and> st \<notin> set PASS_STATUSES)"

definition opensNewRisk :: "jsval \<Rightarrow> bool" where
  "opensNewRisk decision =
     (let rawDecision = to_lower (str_or_empty (js_or (get decision ''decision'') (get decision ''action'')))
      in if rawDecision \<in> {''wait'', ''no_trade'', ''ne_pas_prendre'', ''gestion_seule'', ''management_only''}
         then False
         else rawDecision = ''prendre''
            \<or> to_lower (str_or_empty (get decision ''direction'')) \<in> {''long'', ''short''}
            \<or> (case numberOrNull (get decision ''risk_pct'') of
                 Some r \<Rightarrow> jlt (Fin 0) r | None \<Rightarrow> False))"

definition finalGateConflicts :: "jsval \<Rightarrow> jsval \<Rightarrow> bool" where
  "finalGateConflicts finalGate decision =
     (case finalGate of
        Obj _ \<Rightarrow>
          (let fallback = to_lower (str_or_empty (js_or (get finalGate ''fallback_decision'')
                 (get finalGate ''fallback'')));
               finalDecision = to_lower (str_or_empty (js_or (get finalGate ''final_decision'')
                 (get finalGate ''decision'')));
               waits = {''wait'', ''ne_pas_prendre'', ''no_trade''}
           in (fallback \<in> waits \<or> finalDecision \<in> waits) \<and> opensNewRisk decision)
      | _ \<Rightarrow> False)"

definition windowBlocksNewEntry :: "host \<Rightarrow> jsval \<Rightarrow> jsval \<Rightarrow> jsval \<Rightarrow> bool" where
  "windowBlocksNewEntry H window decision decisionTimestamp =
     (case window of
        Obj _ \<Rightarrow>
          opensNewRisk decision \<and>
          (to_lower (str_or_empty (js_or (get window ''status'') (get window ''entry_status'')))
             \<in> set ENTRY_BLOCKING_WINDOW_STATUSES
           \<or> get window ''new_entries_allowed'' = Bool False) \<and>
          isWithinTimeWindow H (js_or decisionTimestamp (js_or (get decision ''created_at'')
             (get decision ''decision_timestamp_paris''))) window
      | _ \<Rightarrow> False)"

text \<open>\<open>Object.keys\<close>: an array or a string has its indices.\<close>

definition object_keys :: "jsval \<Rightarrow> string list" where
  "object_keys v =
     (case v of Obj fs \<Rightarrow> List.map fst (own_order fs)
      | Arr xs \<Rightarrow> List.map (\<lambda>i. nat_str (int i)) [0..<length xs]
      | Str s \<Rightarrow> List.map (\<lambda>i. nat_str (int i)) [0..<length s]
      | _ \<Rightarrow> [])"

definition blocking_window_js :: "jsval \<Rightarrow> jsval" where
  "blocking_window_js w = Obj [
     (''id'', js_coalesce (js_coalesce (get w ''id'') (get w ''name'')) Null),
     (''status'', js_coalesce (get w ''status'') Null),
     (''start'', js_coalesce (js_coalesce (get w ''start'') (get w ''start_paris'')) Null),
     (''end'', js_coalesce (js_coalesce (get w ''end'') (get w ''end_paris'')) Null)]"

definition evaluateGates :: "host \<Rightarrow> jsval \<Rightarrow> jsval \<Rightarrow> jsval list \<Rightarrow> jsval \<Rightarrow> domain_result" where
  "evaluateGates H decision decisionGates timeWindows decisionTimestamp =
     (let gates = js_or decisionGates (js_or (get decision ''decision_gates'') (Obj []));
          dq = \<not> gatePasses (get gates ''data_quality_gate'');
          mf = marketFunnelBlocks (get gates ''market_funnel_gate'');
          fg = finalGateConflicts (get gates ''final_gate'') decision;
          blockingWindows = filter (\<lambda>w. windowBlocksNewEntry H w decision decisionTimestamp) timeWindows;
          bw = blockingWindows \<noteq> []
      in resultFromIssues
           ((if dq then [''data_quality_gate_failed''] else []) @
            (if mf then [''market_funnel_gate_failed''] else []) @
            (if bw then [''red_window_no_new_entry''] else []))
           (if fg then [''final_gate_conflict''] else [])
           ((if dq then [''GATE_DATA_QUALITY_FAILED''] else []) @
            (if mf then [''GATE_MARKET_FUNNEL_FAILED''] else []) @
            (if fg then [''GATE_FINAL_CONFLICT''] else []) @
            (if bw then [''GATE_RED_WINDOW_NO_NEW_ENTRY''] else []))
           ([(''checked_gates'', Arr (List.map Str (object_keys gates)))] @
            (if bw then [(''blocking_windows'', Arr (List.map blocking_window_js blockingWindows))] else [])))"

lemma evaluateGates_ok_iff:
  assumes "gates = js_or decisionGates (js_or (get decision ''decision_gates'') (Obj []))"
  shows "ok (evaluateGates H decision decisionGates timeWindows ts) \<longleftrightarrow>
    gatePasses (get gates ''data_quality_gate'')
    \<and> \<not> marketFunnelBlocks (get gates ''market_funnel_gate'')
    \<and> \<not> finalGateConflicts (get gates ''final_gate'') decision
    \<and> (\<forall>w \<in> set timeWindows. \<not> windowBlocksNewEntry H w decision ts)"
  unfolding evaluateGates_def Let_def assms[symmetric]
  by (auto simp: filter_empty_conv)

section \<open>position-manager.js\<close>

definition normalizedAction :: "jsval \<Rightarrow> string" where
  "normalizedAction action = to_lower (trim (to_str (firstPresent
     [get action ''action'', get action ''management_action'', get action ''type'', Str ''hold''])))"

definition openPositionSize :: "jsval \<Rightarrow> jnum option" where
  "openPositionSize position = numberOrNull (firstPresent
     [get position ''open_size'', get position ''remaining_size'', get position ''size_open'',
      get position ''quantity_open'', get position ''quantity'', get position ''size''])"

definition actionCloseSize :: "jsval \<Rightarrow> jnum option \<Rightarrow> jnum option" where
  "actionCloseSize action openSize =
     (case numberOrNull (firstPresent
        [get action ''close_size'', get action ''action_size'', get action ''size'', get action ''quantity'']) of
        Some direct \<Rightarrow> Some direct
      | None \<Rightarrow>
        (case (numberOrNull (firstPresent
            [get action ''close_pct'', get action ''partial_pct'', get action ''reduce_pct'']), openSize) of
           (Some pct, Some sz) \<Rightarrow> Some (jmul sz (if jlt (Fin 1) pct then jdiv pct (Fin 100) else pct))
         | _ \<Rightarrow> None))"

definition isFullRisk :: "jsval \<Rightarrow> bool" where
  "isFullRisk position =
     (if str_includes (to_lower (str_or_empty (js_or (get position ''status'')
            (get position ''position_status'')))) ''protected''
         \<or> get position ''protected'' = Bool True then False
      else case numberOrNull (firstPresent
             [get position ''risk_remaining_pct'', get position ''remaining_risk_pct'']) of
             Some r \<Rightarrow> jlt (Fin (3 / 4)) r
           | None \<Rightarrow> True)"

definition int_num :: "int \<Rightarrow> jnum" where
  "int_num n = Fin (of_int n)"

definition event_in_window :: "host \<Rightarrow> jnum \<Rightarrow> int option \<Rightarrow> jsval \<Rightarrow> bool" where
  "event_in_window H windowMinutes nowMs event =
     (if \<not> (truthy event \<and> (is_obj event \<or> (case event of Arr _ \<Rightarrow> True | _ \<Rightarrow> False))) then False
      else
        (let importance = to_lower (str_or_empty (js_or (get event ''importance'') (get event ''impact'')))
         in if importance \<noteq> [] \<and> importance \<notin> {''high'', ''major'', ''red''} then False
            else (case numberOrNull (firstPresent [get event ''minutes_until'', get event ''minutesUntil'']) of
                    Some m \<Rightarrow> jle (Fin 0) m \<and> jle m windowMinutes | None \<Rightarrow> False)
              \<or> (case (nowMs, parseInstant H (firstPresent [get event ''scheduled_at_paris'',
                          get event ''scheduled_at_utc'', get event ''timestamp''])) of
                    (Some now, Some scheduled) \<Rightarrow>
                      (let delta = jdiv (jsub (int_num scheduled) (int_num now)) (Fin 60000)
                       in jle (Fin 0) delta \<and> jle delta windowMinutes)
                  | _ \<Rightarrow> False)))"

definition imminentMajorEvent :: "host \<Rightarrow> jsval list \<Rightarrow> jsval \<Rightarrow> jsval option" where
  "imminentMajorEvent H events rules =
     (let windowMinutes = (case numberOrNull (get rules ''majorWindowMinutes'') of
             Some m \<Rightarrow> m | None \<Rightarrow> Fin 60);
          nowMs = parseInstant H (firstPresent
             [get rules ''now_paris'', get rules ''now_utc'', get rules ''now''])
      in List.find (event_in_window H windowMinutes nowMs) events)"

definition num_default :: "jnum option \<Rightarrow> jnum \<Rightarrow> jnum" where
  "num_default v d = (case v of Some n \<Rightarrow> n | None \<Rightarrow> d)"

definition evaluatePositionManagement ::
  "host \<Rightarrow> jsval \<Rightarrow> jsval \<Rightarrow> jsval \<Rightarrow> jsval list \<Rightarrow> domain_result" where
  "evaluatePositionManagement H position action rules macroEvents =
     (let actionType = normalizedAction action;
          currentR = numberOrNull (firstPresent [get action ''current_r'', get action ''unrealized_r'',
             get position ''current_r'', get position ''unrealized_r'', get position ''r_multiple'']);
          openSize = openPositionSize position;
          actionSize = actionCloseSize action openSize;
          beThreshold = num_default (numberOrNull (firstPresent [get rules ''beThresholdR'',
             get rules ''be_threshold_r'', get rules ''break_even_threshold_r''])) (Fin 1);
          majorWindowMinutes = num_default (numberOrNull (firstPresent
             [get rules ''majorEventWindowMinutes'', get rules ''major_event_window_minutes''])) (Fin 60);
          ev = [(''action'', Str actionType), (''current_r'', js_opt_num currentR),
             (''open_size'', js_opt_num openSize), (''action_size'', js_opt_num actionSize),
             (''be_threshold_r'', Num beThreshold)];
          be = actionType \<in> {''break_even'', ''be''} \<and>
             (case currentR of None \<Rightarrow> True | Some r \<Rightarrow> jlt r beThreshold);
          partialBad = actionType \<in> {''partial'', ''take_partial'', ''reduce''} \<and>
             (case (actionSize, openSize) of (Some a, Some o') \<Rightarrow> jlt o' a | _ \<Rightarrow> False);
          blockingEvent = imminentMajorEvent H macroEvents
             (Obj (fset ''majorWindowMinutes'' (Num majorWindowMinutes) (obj_or_empty rules)));
          major = isFullRisk position \<and> blockingEvent \<noteq> None
      in resultFromIssues
           ((if be then [''be_threshold_not_reached''] else []) @
            (if partialBad then [''partial_size_invalid''] else []))
           (if major then [''major_event_full_risk''] else [])
           ((if be then [''POSITION_BE_THRESHOLD_NOT_REACHED''] else []) @
            (if partialBad then [''POSITION_PARTIAL_SIZE_INVALID''] else []) @
            (if major then [''POSITION_MAJOR_EVENT_FULL_RISK''] else []))
           (ev @ (case blockingEvent of Some e \<Rightarrow> if major then [(''major_event'', e)] else [] | None \<Rightarrow> [])))"

lemma isFullRisk_includes_protected:
  assumes "get position ''status'' = Str s" and "str_includes (to_lower s) ''protected''"
  shows "\<not> isFullRisk position"
proof -
  have "s \<noteq> []" using assms(2) by (auto simp: to_lower_def)
  then show ?thesis using assms by (simp add: isFullRisk_def js_or_def)
qed

section \<open>outcome-replayer.js\<close>

record candle =
  timestamp :: string
  high :: jnum
  low :: jnum
  close :: "jnum option"

definition normalizedCandle :: "jsval \<Rightarrow> candle option" where
  "normalizedCandle c =
     (case (numberOrNull (get c ''high''), numberOrNull (get c ''low'')) of
        (Some h, Some l) \<Rightarrow> Some \<lparr>
          timestamp = str_or_empty (js_or (get c ''timestamp'') (js_or (get c ''timestamp_paris'')
             (js_or (get c ''timestamp_utc'') (get c ''time'')))),
          high = h, low = l, close = numberOrNull (get c ''close'')\<rparr>
      | _ \<Rightarrow> None)"

definition candle_key :: "host \<Rightarrow> candle \<Rightarrow> int" where
  "candle_key H c = (case parseInstant H (Str (timestamp c)) of Some t \<Rightarrow> t | None \<Rightarrow> 0)"

definition normalizedCandles :: "host \<Rightarrow> jsval \<Rightarrow> candle list" where
  "normalizedCandles H candles =
     (case candles of Arr xs \<Rightarrow> sort_key (candle_key H) (List.map_filter normalizedCandle xs) | _ \<Rightarrow> [])"

definition replayLookaheadCandles :: "host \<Rightarrow> jsval \<Rightarrow> jsval \<Rightarrow> string list" where
  "replayLookaheadCandles H candles cutoff =
     (case parseInstant H cutoff of None \<Rightarrow> []
      | Some cutoffMs \<Rightarrow>
         List.map timestamp (filter (\<lambda>c. case parseInstant H (Str (timestamp c)) of
              Some t \<Rightarrow> t > cutoffMs | None \<Rightarrow> False) (normalizedCandles H candles)))"

text \<open>The comparisons of \<open>candleTouch\<close>; an absent level is null, which compares as 0.\<close>

definition level :: "jnum option \<Rightarrow> jnum" where
  "level v = (case v of Some n \<Rightarrow> n | None \<Rightarrow> Fin 0)"

definition candleTouch :: "candle \<Rightarrow> geometry \<Rightarrow> bool \<times> bool" where
  "candleTouch c g =
     (if direction g = ''long'' then (jle (low c) (level (stop g)), jle (level (target g)) (high c))
      else (jle (level (stop g)) (high c), jle (low c) (level (target g))))"

datatype replay_event = Ambiguous candle | StopTouched candle | TargetTouched candle

fun replay_scan :: "geometry \<Rightarrow> candle list \<Rightarrow> replay_event option" where
  "replay_scan g [] = None"
| "replay_scan g (c # cs) =
     (let (s, t) = candleTouch c g in
      if s \<and> t then Some (Ambiguous c)
      else if s then Some (StopTouched c)
      else if t then Some (TargetTouched c)
      else replay_scan g cs)"

definition pnlPoints :: "string \<Rightarrow> jnum \<Rightarrow> jnum \<Rightarrow> jnum" where
  "pnlPoints dir en exitPrice = (if dir = ''short'' then jsub en exitPrice else jsub exitPrice en)"

definition outcome_js :: "jsobj \<Rightarrow> string \<Rightarrow> jnum \<Rightarrow> jsval \<Rightarrow> jnum \<Rightarrow> jsobj" where
  "outcome_js ev out price ts r = spread ev
     [(''outcome'', Str out), (''exit_price'', Num price), (''exit_timestamp'', ts), (''r_multiple'', Num r)]"

definition replayOutcome :: "host \<Rightarrow> jsval \<Rightarrow> jsval \<Rightarrow> jsval \<Rightarrow> domain_result" where
  "replayOutcome H setup candles cutoff =
     (let g = computeRewardRisk setup;
          risk = (case riskPoints g of Some r \<Rightarrow> numberOrNull (Num r) | None \<Rightarrow> None);
          ev = [(''normalized_price_geometry'', geometry_js g),
                (''candle_count'', Num (Fin (of_nat (length (arr_or_empty candles))))),
                (''outcome'', Null), (''r_multiple'', Null)];
          ahead = replayLookaheadCandles H candles cutoff;
          ev' = (if ahead \<noteq> [] then ev @ [(''replay_lookahead'', Arr (List.map Str ahead))] else ev);
          badR = \<not> tradable (setupDirection setup) \<or> (case risk of None \<Rightarrow> True | Some r \<Rightarrow> jle r (Fin 0));
          rejects = (if ahead \<noteq> [] then [(''replay_lookahead'', ''OUTCOME_REPLAY_LOOKAHEAD'')] else []) @
             (if badR then [(''invalid_r_distance'', ''OUTCOME_INVALID_R_DISTANCE'')] else [])
      in if rejects \<noteq> [] then resultFromIssues (List.map fst rejects) [] (List.map snd rejects) ev'
         else
           (let ordered = normalizedCandles H candles; r = level risk
            in case replay_scan g ordered of
                 Some (Ambiguous c) \<Rightarrow>
                   resultFromIssues [] [''ambiguous_candle_path''] [''OUTCOME_AMBIGUOUS_CANDLE_PATH'']
                     (ev' @ [(''ambiguous_candle'', Obj [(''timestamp'', Str (timestamp c)),
                        (''high'', Num (high c)), (''low'', Num (low c)), (''close'', js_opt_num (close c))])])
               | Some (StopTouched c) \<Rightarrow>
                   resultFromIssues [] [] [''OUTCOME_STOP_TOUCHED'']
                     (outcome_js ev' ''SL'' (level (stop g)) (Str (timestamp c)) (Fin (- 1)))
               | Some (TargetTouched c) \<Rightarrow>
                   resultFromIssues [] [] [''OUTCOME_TARGET_TOUCHED'']
                     (outcome_js ev' ''TP1'' (level (target g)) (Str (timestamp c))
                        (round_digits (jdiv (jabs (jsub (level (target g)) (level (entry g)))) r) 4))
               | None \<Rightarrow>
                   (let exitPrice = (case ordered of [] \<Rightarrow> level (entry g)
                          | _ \<Rightarrow> (case close (last ordered) of Some x \<Rightarrow> x | None \<Rightarrow> level (entry g)));
                        ts = (if ordered = [] then Null else js_or (Str (timestamp (last ordered))) Null)
                    in resultFromIssues [] [] []
                         (outcome_js ev' ''OPEN'' exitPrice ts
                            (round_digits (jdiv (pnlPoints (setupDirection setup) (level (entry g)) exitPrice) r) 4)))))"

subsection \<open>The scan is causal\<close>

lemma replay_scan_append:
  "replay_scan g (xs @ ys) = (case replay_scan g xs of Some e \<Rightarrow> Some e | None \<Rightarrow> replay_scan g ys)"
  by (induction xs) (auto simp: Let_def split: prod.splits)

lemma replay_scan_first:
  "replay_scan g cs = Some e \<Longrightarrow> \<exists>xs c ys. cs = xs @ c # ys \<and> replay_scan g xs = None
     \<and> replay_scan g [c] = Some e"
proof (induction cs)
  case (Cons c cs)
  show ?case
  proof (cases "replay_scan g [c]")
    case None
    then have "replay_scan g (c # cs) = replay_scan g cs"
      using replay_scan_append[of g "[c]" cs] by simp
    then obtain xs d ys where "cs = xs @ d # ys" "replay_scan g xs = None" "replay_scan g [d] = Some e"
      using Cons by auto
    moreover have "replay_scan g (c # xs) = None"
      using None calculation(2) replay_scan_append[of g "[c]" xs] by simp
    ultimately show ?thesis by (metis append_Cons)
  next
    case (Some e')
    then have "replay_scan g (c # cs) = Some e'"
      using replay_scan_append[of g "[c]" cs] by simp
    with Some Cons.prems show ?thesis
      by (metis append_Nil option.inject replay_scan.simps(1))
  qed
qed simp

lemma normalizedCandles_append:
  assumes "\<forall>c \<in> set (List.map_filter normalizedCandle xs). \<forall>d \<in> set (List.map_filter normalizedCandle ys).
    candle_key H c \<le> candle_key H d"
  shows "normalizedCandles H (Arr (xs @ ys)) = normalizedCandles H (Arr xs) @ normalizedCandles H (Arr ys)"
  using assms by (simp add: normalizedCandles_def map_filter_append sort_key_append)

section \<open>Properties\<close>

text \<open>
  The gates fail closed: a decision passes exactly when the data-quality gate is present and
  passes, the market-funnel gate is present and does not block, the final gate does not contradict
  a decision that opens risk, and no window blocks new entries now. Without any gate nothing passes.
\<close>

theorem evaluateGates_fail_closed:
  "(let gates = js_or decisionGates (js_or (get decision ''decision_gates'') (Obj [])) in
    ok (evaluateGates H decision decisionGates timeWindows ts) =
      (gatePasses (get gates ''data_quality_gate'')
       \<and> \<not> marketFunnelBlocks (get gates ''market_funnel_gate'')
       \<and> \<not> finalGateConflicts (get gates ''final_gate'') decision
       \<and> filter (\<lambda>w. windowBlocksNewEntry H w decision ts) timeWindows = []))
   \<and> status (evaluateGates H (Obj []) Undef timeWindows ts) = REJECTED"
proof
  show "let gates = js_or decisionGates (js_or (get decision ''decision_gates'') (Obj [])) in
    ok (evaluateGates H decision decisionGates timeWindows ts) =
      (gatePasses (get gates ''data_quality_gate'')
       \<and> \<not> marketFunnelBlocks (get gates ''market_funnel_gate'')
       \<and> \<not> finalGateConflicts (get gates ''final_gate'') decision
       \<and> filter (\<lambda>w. windowBlocksNewEntry H w decision ts) timeWindows = [])"
    unfolding Let_def by (subst evaluateGates_ok_iff[OF refl]) (simp add: filter_empty_conv)
  show "status (evaluateGates H (Obj []) Undef timeWindows ts) = REJECTED"
    by (simp add: evaluateGates_def Let_def js_or_def gatePasses_def gateStatus_def PASS_STATUSES_def)
qed

text \<open>
  What position management accepts: a move to break-even only with a current profit known to
  have reached the threshold, a partial close never above the open size when both are known, and no
  management of a full-risk position with a major event imminent.
\<close>

theorem position_management_accepts:
  assumes "ok (evaluatePositionManagement H position action rules macroEvents)"
  shows "(normalizedAction action \<in> {''break_even'', ''be''} \<longrightarrow>
      (\<exists>r. numberOrNull (firstPresent [get action ''current_r'', get action ''unrealized_r'',
             get position ''current_r'', get position ''unrealized_r'', get position ''r_multiple'']) = Some r
         \<and> \<not> jlt r (num_default (numberOrNull (firstPresent [get rules ''beThresholdR'',
             get rules ''be_threshold_r'', get rules ''break_even_threshold_r''])) (Fin 1))))
    \<and> (normalizedAction action \<in> {''partial'', ''take_partial'', ''reduce''} \<longrightarrow>
        (\<forall>a sz. actionCloseSize action (openPositionSize position) = Some a \<longrightarrow> openPositionSize position = Some sz
           \<longrightarrow> \<not> jlt sz a))
    \<and> (isFullRisk position \<longrightarrow> imminentMajorEvent H macroEvents
         (Obj (fset ''majorWindowMinutes'' (Num (num_default (numberOrNull (firstPresent
             [get rules ''majorEventWindowMinutes'', get rules ''major_event_window_minutes''])) (Fin 60)))
           (obj_or_empty rules))) = None)"
  using assms by (auto simp: evaluatePositionManagement_def Let_def split: option.splits if_splits)

theorem position_management_accepts_witness:
  "normalizedAction (Obj [(''action'', Str ''BE''), (''current_r'', Num (Fin 2))]) = ''be'' \<and>
   (\<exists>r. numberOrNull (firstPresent [Num (Fin 2), Undef, Undef, Undef, Undef]) = Some r \<and> \<not> jlt r (Fin 1))"
proof -
  let ?a = "Obj [(''action'', Str ''BE''), (''current_r'', Num (Fin 2))]"
  have be: "normalizedAction ?a = ''be''" by code_simp
  have "ok (evaluatePositionManagement sample_host (Obj []) ?a (Obj []) [])"
    unfolding evaluatePositionManagement_def Let_def be
    by (simp add: firstPresent_def numberOrNull_def num_default_def imminentMajorEvent_def present_def)
  from position_management_accepts[OF this] be show ?thesis
    by (simp add: firstPresent_def numberOrNull_def num_default_def present_def)
qed

text \<open>
  The full-risk test reads the word \<open>protected\<close> anywhere in the status: a position whose
  status is \<open>UNPROTECTED\<close> counts as protected, and the rule on imminent major events skips it.
\<close>

theorem unprotected_counts_as_protected:
  assumes "get position ''status'' = Str ''UNPROTECTED''"
  shows "\<not> isFullRisk position"
proof (rule isFullRisk_includes_protected[OF assms])
  show "str_includes (to_lower ''UNPROTECTED'') ''protected''" by code_simp
qed

theorem unprotected_counts_as_protected_witness:
  "\<not> isFullRisk (Obj [(''status'', Str ''UNPROTECTED''), (''risk_remaining_pct'', Num (Fin 1))])"
  by (rule unprotected_counts_as_protected) simp

text \<open>
  The replay of an outcome is causal: once a candle has touched the stop or the target (or
  both), candles appended with later timestamps do not change what the scan reports, and the
  report comes from the first candle that touches a level.
\<close>

theorem replay_outcome_causal:
  assumes "replay_scan g (normalizedCandles H (Arr xs)) = Some e"
    and "\<forall>c \<in> set (List.map_filter normalizedCandle xs). \<forall>d \<in> set (List.map_filter normalizedCandle ys).
      candle_key H c \<le> candle_key H d"
  shows "replay_scan g (normalizedCandles H (Arr (xs @ ys))) = Some e
    \<and> (\<exists>before c after. normalizedCandles H (Arr xs) = before @ c # after
         \<and> replay_scan g before = None \<and> replay_scan g [c] = Some e)"
  using assms replay_scan_first[OF assms(1)]
  by (simp add: normalizedCandles_append replay_scan_append)

definition sample_geometry :: geometry where
  "sample_geometry = \<lparr>direction = ''long'', entry = Some (Fin 100), stop = Some (Fin 90), target = Some (Fin 120),
     riskPoints = Some (Fin 10), rewardPoints = Some (Fin 20), rr = Some (Fin 2)\<rparr>"

definition candle_js :: "string \<Rightarrow> rat \<Rightarrow> rat \<Rightarrow> jsval" where
  "candle_js ts h l = Obj [(''timestamp'', Str ts), (''high'', Num (Fin h)), (''low'', Num (Fin l))]"

lemma normalizedCandle_js: "normalizedCandle (candle_js ts h l) = Some \<lparr>timestamp = ts, high = Fin h, low = Fin l, close = None\<rparr>"
  by (simp add: candle_js_def normalizedCandle_def numberOrNull_def js_or_def str_or_empty_def)

theorem replay_outcome_causal_witness:
  "replay_scan sample_geometry (normalizedCandles sample_host (Arr ([candle_js ''2026-01-05T10:00:00Z'' 121 99]
      @ [candle_js ''2026-01-05T10:05:00Z'' 100 80])))
   = Some (TargetTouched \<lparr>timestamp = ''2026-01-05T10:00:00Z'', high = Fin 121, low = Fin 99, close = None\<rparr>)"
proof -
  have keys: "parseInstant sample_host (Str ''2026-01-05T10:00:00Z'') = Some 1767607200000"
    "parseInstant sample_host (Str ''2026-01-05T10:05:00Z'') = Some 1767607500000"
    by code_simp+
  have scan: "replay_scan sample_geometry (normalizedCandles sample_host (Arr [candle_js ''2026-01-05T10:00:00Z'' 121 99]))
    = Some (TargetTouched \<lparr>timestamp = ''2026-01-05T10:00:00Z'', high = Fin 121, low = Fin 99, close = None\<rparr>)"
    by (simp add: normalizedCandles_def List.map_filter_def normalizedCandle_js candleTouch_def
        sample_geometry_def level_def jle_def jnumeq_def)
  show ?thesis
    using replay_outcome_causal[OF scan, of "[candle_js ''2026-01-05T10:05:00Z'' 100 80]"]
    by (simp add: List.map_filter_def normalizedCandle_js candle_key_def keys)
qed

end
