(* ===== verification/Entry_Order.thy ===== *)
theory Entry_Order
  imports Domain_Helpers
begin

text \<open>
  \<open>packages/desk-domain/src/entry-order-semantics-v1.js\<close>: which order types fit the entry mode of a setup, and which
  prices an order needs before it can be sent. A result carries its normalised fields and the list of its errors;
  an error is an object. Shown: exactly when a combination is valid, and that a valid one that has to be executable
  is an order of a compatible type with the prices its type needs.
\<close>

section \<open>Modes and types\<close>

definition CONTRACT_ORDER_TYPES_V1 :: "string list" where
  "CONTRACT_ORDER_TYPES_V1 = [''MARKET'', ''LIMIT'', ''STOP'', ''STOP_LIMIT'']"

definition ENTRY_MODES_V1 :: "string list" where
  "ENTRY_MODES_V1 = [''NEXT_BAR_MARKET_AFTER_CONFIRMATION'', ''RETEST_ZONE_AFTER_CONFIRMATION'', ''STOP_CROSS'', ''LIMIT_TOUCH'']"

definition ORDER_TYPES_BY_ENTRY_MODE_V1 :: "(string \<times> string list) list" where
  "ORDER_TYPES_BY_ENTRY_MODE_V1 =
     [(''NEXT_BAR_MARKET_AFTER_CONFIRMATION'', [''MARKET'']),
      (''RETEST_ZONE_AFTER_CONFIRMATION'', [''MARKET'', ''LIMIT'']),
      (''STOP_CROSS'', [''STOP'', ''STOP_LIMIT'']),
      (''LIMIT_TOUCH'', [''LIMIT''])]"

definition BROKER_ORDER_TYPE_BY_CONTRACT_V1 :: "(string \<times> string) list" where
  "BROKER_ORDER_TYPE_BY_CONTRACT_V1 =
     [(''MARKET'', ''market''), (''LIMIT'', ''limit''), (''STOP'', ''stop_market''), (''STOP_LIMIT'', ''stop_limit'')]"

definition ORDER_TYPE_ALIASES :: "(string \<times> string) list" where
  "ORDER_TYPE_ALIASES =
     [(''MARKET_ORDER'', ''MARKET''), (''LIMIT_ORDER'', ''LIMIT''), (''STOP_MARKET'', ''STOP''), (''STOPMARKET'', ''STOP''),
      (''STOP_ORDER'', ''STOP''), (''STOPLIMIT'', ''STOP_LIMIT'')]"

text \<open>\<open>replace(/[^A-Z0-9]+/g, "_")\<close>; \<open>inside\<close> says that the character before was replaced.\<close>

fun squeeze_codes :: "bool \<Rightarrow> string \<Rightarrow> string" where
  "squeeze_codes inside [] = []"
| "squeeze_codes inside (c # s) =
     (if is_upper_letter c \<or> is_digit c then c # squeeze_codes False s
      else if inside then squeeze_codes True s else CHR ''_'' # squeeze_codes True s)"

definition normalizedEnum :: "jsval \<Rightarrow> string" where
  "normalizedEnum value = squeeze_codes False (to_upper (trim (str_or_empty value)))"

definition normalizeContractOrderTypeV1 :: "jsval \<Rightarrow> string option" where
  "normalizeContractOrderTypeV1 value =
     (let normalized = normalizedEnum value;
          found = (case map_of ORDER_TYPE_ALIASES normalized of Some t \<Rightarrow> t | None \<Rightarrow> normalized)
      in if found \<in> set CONTRACT_ORDER_TYPES_V1 then Some found else None)"

definition normalizeEntryModeV1 :: "jsval \<Rightarrow> string option" where
  "normalizeEntryModeV1 value =
     (let normalized = normalizedEnum value in if normalized \<in> set ENTRY_MODES_V1 then Some normalized else None)"

definition entry_finite :: "jsval \<Rightarrow> jnum option" where
  "entry_finite value = (if nullish value \<or> value = Str [] then None
     else if is_finite (to_num value) then Some (to_num value) else None)"

section \<open>The validation\<close>

record entry_order =
  eo_valid :: bool
  eo_mode :: "string option"
  eo_type :: "string option"
  eo_broker :: "string option"
  eo_limit :: "jnum option"
  eo_stop :: "jnum option"
  eo_compatible :: "string list"
  eo_errors :: "jsobj list"

definition compatible_types :: "string option \<Rightarrow> string list" where
  "compatible_types mode = (case mode of None \<Rightarrow> []
     | Some m \<Rightarrow> (case map_of ORDER_TYPES_BY_ENTRY_MODE_V1 m of Some ts \<Rightarrow> ts | None \<Rightarrow> []))"

definition type_errors :: "jsval \<Rightarrow> jsval \<Rightarrow> jsobj list" where
  "type_errors entryMode orderType =
     (let mode = normalizeEntryModeV1 entryMode; type = normalizeContractOrderTypeV1 orderType
      in (if mode = None then [[(''code'', Str ''ENTRY_MODE_REQUIRED''), (''value'', js_coalesce entryMode Null)]] else [])
       @ (if type = None then [[(''code'', Str ''ORDER_TYPE_REQUIRED''), (''value'', js_coalesce orderType Null)]] else [])
       @ (case (mode, type) of
            (Some m, Some t) \<Rightarrow> if t \<in> set (compatible_types mode) then []
              else [[(''code'', Str ''ENTRY_MODE_ORDER_TYPE_INCOMPATIBLE''), (''entry_mode'', Str m), (''order_type'', Str t),
                (''allowed_order_types'', Arr (List.map Str (compatible_types mode)))]]
          | _ \<Rightarrow> []))"

definition price_errors :: "string option \<Rightarrow> jnum option \<Rightarrow> jnum option \<Rightarrow> bool \<Rightarrow> jsobj list" where
  "price_errors type limit_price stop_price requireExecutablePrices =
     (if type = Some ''STOP_LIMIT'' \<and> (stop_price = None \<or> limit_price = None)
      then [[(''code'', Str ''STOP_LIMIT_PARAMETERS_INCOMPLETE''), (''stop_price'', js_opt_num stop_price), (''limit_price'', js_opt_num limit_price)]]
      else [])
     @ (if requireExecutablePrices \<and> type = Some ''LIMIT'' \<and> limit_price = None
        then [[(''code'', Str ''ORDER_LIMIT_PRICE_REQUIRED''), (''limit_price'', js_opt_num limit_price)]] else [])
     @ (if requireExecutablePrices \<and> type = Some ''STOP'' \<and> stop_price = None
        then [[(''code'', Str ''ORDER_STOP_PRICE_REQUIRED''), (''stop_price'', js_opt_num stop_price)]] else [])"

definition validateEntryOrderSemanticsV1 :: "jsval \<Rightarrow> jsval \<Rightarrow> jsval \<Rightarrow> jsval \<Rightarrow> bool \<Rightarrow> entry_order" where
  "validateEntryOrderSemanticsV1 entryMode orderType limitPrice stopPrice requireExecutablePrices =
     (let mode = normalizeEntryModeV1 entryMode;
          type = normalizeContractOrderTypeV1 orderType;
          errors = type_errors entryMode orderType
            @ price_errors type (entry_finite limitPrice) (entry_finite stopPrice) requireExecutablePrices
      in \<lparr>eo_valid = (errors = []), eo_mode = mode, eo_type = type,
          eo_broker = (case type of Some t \<Rightarrow> map_of BROKER_ORDER_TYPE_BY_CONTRACT_V1 t | None \<Rightarrow> None),
          eo_limit = entry_finite limitPrice, eo_stop = entry_finite stopPrice,
          eo_compatible = compatible_types mode, eo_errors = errors\<rparr>)"

section \<open>What a valid entry order is\<close>

lemma order_type_cases:
  "normalizeContractOrderTypeV1 v = Some t \<Longrightarrow> t \<in> {''MARKET'', ''LIMIT'', ''STOP'', ''STOP_LIMIT''}"
  by (auto simp: normalizeContractOrderTypeV1_def Let_def CONTRACT_ORDER_TYPES_V1_def split: if_splits)

lemma entry_mode_cases: "normalizeEntryModeV1 v = Some m \<Longrightarrow> m \<in> set ENTRY_MODES_V1"
  by (auto simp: normalizeEntryModeV1_def Let_def split: if_splits)

lemma type_errors_Nil:
  "type_errors entryMode orderType = [] \<longleftrightarrow>
     (\<exists>m t. normalizeEntryModeV1 entryMode = Some m \<and> normalizeContractOrderTypeV1 orderType = Some t \<and> t \<in> set (compatible_types (Some m)))"
  by (cases "normalizeEntryModeV1 entryMode"; cases "normalizeContractOrderTypeV1 orderType") (simp_all add: type_errors_def Let_def)

text \<open>The prices an order of a type needs, at once (\<open>requireExecutablePrices\<close>) or when the setup is written.\<close>

definition prices_given :: "string \<Rightarrow> jnum option \<Rightarrow> jnum option \<Rightarrow> bool \<Rightarrow> bool" where
  "prices_given t limit_price stop_price executable \<longleftrightarrow>
     (t = ''STOP_LIMIT'' \<longrightarrow> limit_price \<noteq> None \<and> stop_price \<noteq> None)
   \<and> (executable \<longrightarrow> (t = ''LIMIT'' \<longrightarrow> limit_price \<noteq> None) \<and> (t = ''STOP'' \<longrightarrow> stop_price \<noteq> None))"

lemma price_errors_Nil: "price_errors (Some t) l s x = [] \<longleftrightarrow> prices_given t l s x"
  by (auto simp: price_errors_def prices_given_def)

lemma broker_type: "t \<in> {''MARKET'', ''LIMIT'', ''STOP'', ''STOP_LIMIT''} \<Longrightarrow> map_of BROKER_ORDER_TYPE_BY_CONTRACT_V1 t \<noteq> None"
  by (auto simp: BROKER_ORDER_TYPE_BY_CONTRACT_V1_def)

lemma entry_order_valid:
  "eo_valid (validateEntryOrderSemanticsV1 mode type l s x) \<longleftrightarrow> eo_errors (validateEntryOrderSemanticsV1 mode type l s x) = []"
  by (simp add: validateEntryOrderSemanticsV1_def Let_def)

text \<open>
  Exactly the executable combinations are valid: the mode is one of the four, the order type (after its aliases) is one
  the mode allows, a broker type exists for it, a stop-limit order always has both of its prices, and where the prices have
  to be executable a limit order has its limit and a stop order its stop.
\<close>

theorem entry_order_valid_exactly:
  "eo_valid (validateEntryOrderSemanticsV1 entryMode orderType limitPrice stopPrice executable) \<longleftrightarrow>
    (\<exists>m t b. normalizeEntryModeV1 entryMode = Some m \<and> normalizeContractOrderTypeV1 orderType = Some t
       \<and> eo_broker (validateEntryOrderSemanticsV1 entryMode orderType limitPrice stopPrice executable) = Some b
       \<and> t \<in> set (compatible_types (Some m))
       \<and> prices_given t (entry_finite limitPrice) (entry_finite stopPrice) executable)"
proof (cases "normalizeContractOrderTypeV1 orderType")
  case None
  then show ?thesis by (auto simp: validateEntryOrderSemanticsV1_def Let_def type_errors_Nil)
next
  case (Some t)
  then obtain b where "map_of BROKER_ORDER_TYPE_BY_CONTRACT_V1 t = Some b" using broker_type[OF order_type_cases] by blast
  then show ?thesis
    using Some by (auto simp: validateEntryOrderSemanticsV1_def Let_def type_errors_Nil price_errors_Nil)
qed

text \<open>Normalising a normalised type or mode changes nothing.\<close>

lemma normalized_types: "list_all (\<lambda>t. normalizeContractOrderTypeV1 (Str t) = Some t) CONTRACT_ORDER_TYPES_V1"
  by code_simp

lemma normalized_modes: "list_all (\<lambda>m. normalizeEntryModeV1 (Str m) = Some m) ENTRY_MODES_V1"
  by code_simp

lemma order_type_idempotent:
  "normalizeContractOrderTypeV1 v = Some t \<Longrightarrow> normalizeContractOrderTypeV1 (Str t) = Some t"
  using normalized_types by (auto simp: normalizeContractOrderTypeV1_def[of v] Let_def list_all_iff split: if_splits)

lemma entry_mode_idempotent: "normalizeEntryModeV1 v = Some m \<Longrightarrow> normalizeEntryModeV1 (Str m) = Some m"
  using entry_mode_cases normalized_modes by (auto simp: list_all_iff)

end
