(* ===== verification/Execution_Scope.thy ===== *)
theory Execution_Scope
  imports Canonical_Json
begin

text \<open>
  The rest of \<open>packages/desk-domain/src/execution-scope.js\<close>: building the scope (strategy, session,
  mode, trading date, cutoff, run and pack) a document of the desk belongs to, and comparing the
  scopes of linked documents. A scope is an object with a fixed set of keys and its own hash.
\<close>

definition DeskScopeError :: "string \<Rightarrow> string \<Rightarrow> jsobj \<Rightarrow> js_error" where
  "DeskScopeError c m details = Js_Error ''DeskScopeError'' c m details"

definition DESK_EXECUTION_MODES :: "string list" where
  "DESK_EXECUTION_MODES = [''live'', ''paper'', ''replay'', ''backtest'']"

section \<open>The strategy registry\<close>

record strategy =
  strategy_id :: jsval
  session :: jsval
  cutoff_time_paris :: jsval

definition DESK_STRATEGY_REGISTRY :: "(string \<times> strategy) list" where
  "DESK_STRATEGY_REGISTRY =
     [(''ny_open_1530'', \<lparr>strategy_id = Str ''ny_open_1530'', session = Str ''ny_open'',
         cutoff_time_paris = Str ''15:30:00''\<rparr>),
      (''asia_open'', \<lparr>strategy_id = Str ''asia_open'', session = Str ''asia_open'',
         cutoff_time_paris = Str ''00:15:00''\<rparr>)]"

text \<open>
  \<open>DESK_STRATEGY_REGISTRY[strategyId]\<close> also finds the inherited names: the value is then a
  function or the prototype, truthy and without the properties of a strategy.
\<close>

definition inherited_strategy :: strategy where
  "inherited_strategy = \<lparr>strategy_id = Undef, session = Undef, cutoff_time_paris = Undef\<rparr>"

definition strategyDefinition :: "string \<Rightarrow> js_error + strategy" where
  "strategyDefinition sid =
     (case map_of DESK_STRATEGY_REGISTRY sid of
        Some s \<Rightarrow> Inr s
      | None \<Rightarrow> if sid \<in> set PROTOTYPE_NAMES then Inr inherited_strategy
          else Inl (DeskScopeError ''INVALID_SCOPE'' (''Unknown strategy_id: '' @ sid @ ''.'')
                 [(''strategy_id'', Str sid)]))"

section \<open>Fields\<close>

definition optionalString :: "jsval \<Rightarrow> string" where
  "optionalString value = (if nullish value then [] else trim (to_str value))"

definition requiredString :: "jsval \<Rightarrow> string \<Rightarrow> js_error + string" where
  "requiredString value field =
     (let t = optionalString value in
      if t = [] then Inl (DeskScopeError ''SCOPE_REQUIRED'' (field @ '' is required.'') [(''field'', Str field)])
      else Inr t)"

definition requireReplayField :: "string \<Rightarrow> string \<Rightarrow> js_error + unit" where
  "requireReplayField value field = require (value \<noteq> [])
     (DeskScopeError ''SCOPE_REQUIRED'' (field @ '' is required for replay/backtest.'') [(''field'', Str field)])"

definition is_date_shape :: "string \<Rightarrow> bool" where
  "is_date_shape s \<longleftrightarrow> length s = 10 \<and> list_all is_digit (take 4 s) \<and> s ! 4 = CHR ''-''
     \<and> list_all is_digit (take 2 (drop 5 s)) \<and> s ! 7 = CHR ''-'' \<and> list_all is_digit (drop 8 s)"

definition assertDate :: "host \<Rightarrow> string \<Rightarrow> string \<Rightarrow> js_error + unit" where
  "assertDate H value field = require (is_date_shape value \<and> date_parse H (value @ ''T00:00:00Z'') \<noteq> None)
     (DeskScopeError ''INVALID_SCOPE'' (field @ '' must be an ISO date.'')
        [(''field'', Str field), (''value'', Str value)])"

section \<open>Offsets\<close>

text \<open>The match of \<open>/[+-]\d{2}:?\d{2}$/\<close>.\<close>

definition offset_shape :: "string \<Rightarrow> bool" where
  "offset_shape s \<longleftrightarrow> s \<noteq> [] \<and> hd s \<in> {CHR ''+'', CHR ''-''} \<and> list_all is_digit (take 2 (tl s))
     \<and> (length s = 5 \<and> list_all is_digit (drop 3 s)
        \<or> length s = 6 \<and> s ! 3 = CHR '':'' \<and> list_all is_digit (drop 4 s))"

definition offset_suffix :: "string \<Rightarrow> string option" where
  "offset_suffix s =
     (let a = drop (length s - 6) s; b = drop (length s - 5) s in
      if offset_shape a then Some a else if offset_shape b then Some b else None)"

definition parseIso :: "host \<Rightarrow> string \<Rightarrow> string \<Rightarrow> js_error + int" where
  "parseIso H value field =
     (if \<not> (ends_with value ''z'' \<or> ends_with value ''Z'' \<or> offset_suffix value \<noteq> None)
      then Inl (DeskScopeError ''TIMEZONE_INVALID'' (field @ '' must include an explicit UTC offset.'')
                  [(''field'', Str field), (''value'', Str value)])
      else case date_parse H value of
        None \<Rightarrow> Inl (DeskScopeError ''INVALID_SCOPE'' (field @ '' must be a valid ISO timestamp.'')
                  [(''field'', Str field), (''value'', Str value)])
      | Some t \<Rightarrow> Inr t)"

text \<open>The match of \<open>/GMT([+-])(\d+)(?::(\d+))?/\<close>: sign, hours, minutes if present.\<close>

fun match_gmt :: "string \<Rightarrow> (char \<times> string \<times> string option) option" where
  "match_gmt [] = None"
| "match_gmt (c # s) =
     (if starts_with (c # s) ''GMT'' \<and> drop 2 s \<noteq> [] \<and> hd (drop 2 s) \<in> {CHR ''+'', CHR ''-''}
         \<and> takeWhile is_digit (drop 3 s) \<noteq> []
      then (let r = dropWhile is_digit (drop 3 s);
                mins = (if starts_with r '':'' then takeWhile is_digit (tl r) else [])
            in Some (hd (drop 2 s), takeWhile is_digit (drop 3 s), if mins = [] then None else Some mins))
      else match_gmt s)"

definition pad_start2 :: "string \<Rightarrow> string" where
  "pad_start2 s = replicate (2 - length s) (CHR ''0'') @ s"

definition parisOffset :: "host \<Rightarrow> int \<Rightarrow> js_error + string" where
  "parisOffset H date =
     (let value = paris_short_offset H date in
      case match_gmt value of
        None \<Rightarrow> Inl (DeskScopeError ''TIMEZONE_INVALID'' ''Unable to resolve Europe/Paris offset.''
                  [(''value'', Str value)])
      | Some (sg, hours, mins) \<Rightarrow>
          Inr (sg # pad_start2 hours @ '':'' @ pad_start2 (case mins of Some m \<Rightarrow> m | None \<Rightarrow> ''00'')))"

definition hasParisOffset :: "host \<Rightarrow> string \<Rightarrow> int \<Rightarrow> js_error + bool" where
  "hasParisOffset H value epochMs =
     (case offset_suffix value of
        None \<Rightarrow> Inr False
      | Some m \<Rightarrow>
          (let actual = (if CHR '':'' \<in> set m then m else take 3 m @ '':'' @ drop 3 m) in
           and_then (parisOffset H epochMs) (\<lambda>p. Inr (actual = p))))"

text \<open>
  \<open>defaultCutoffParis\<close>. Its probe is noon of a valid date, an instant within the range of \<open>Date\<close>
  unless \<open>Date.parse\<close> fails on it, where \<open>formatToParts\<close> throws a RangeError.
\<close>

definition defaultCutoffParis :: "host \<Rightarrow> string \<Rightarrow> string \<Rightarrow> js_error + string" where
  "defaultCutoffParis H sid tradingDate =
     and_then (strategyDefinition sid) (\<lambda>s.
     and_then (assertDate H tradingDate ''trading_date'') (\<lambda>_.
     case date_parse H (tradingDate @ ''T12:00:00Z'') of
       None \<Rightarrow> Inl (RangeError ''Invalid time value'')
     | Some utcProbe \<Rightarrow>
         and_then (parisOffset H utcProbe) (\<lambda>offset.
           Inr (tradingDate @ ''T'' @ to_str (cutoff_time_paris s) @ offset))))"

section \<open>createDeskExecutionScope\<close>

definition null_if_empty :: "string \<Rightarrow> jsval" where
  "null_if_empty s = (if s = [] then Null else Str s)"

definition stripUndefined :: "jsobj \<Rightarrow> jsobj" where
  "stripUndefined value = filter (\<lambda>kv. snd kv \<noteq> Undef) (own_order value)"

definition createDeskExecutionScope :: "host \<Rightarrow> jsobj \<Rightarrow> jsobj \<Rightarrow> js_error + jsobj" where
  "createDeskExecutionScope H input options =
     and_then (requiredString (fget input ''strategy_id'') ''strategy_id'') (\<lambda>sid.
     and_then (strategyDefinition sid) (\<lambda>strat.
     and_then (requiredString (fget input ''session'') ''session'') (\<lambda>sess.
     and_then (requiredString (fget input ''mode'') ''mode'') (\<lambda>mode.
     and_then (requiredString (fget input ''trading_date'') ''trading_date'') (\<lambda>tradingDate.
     and_then (requiredString (fget input ''timezone'') ''timezone'') (\<lambda>timezone.
     and_then (requiredString (fget input ''cutoff_paris'') ''cutoff_paris'') (\<lambda>cutoffParis.
     and_then (requiredString (fget input ''cutoff_utc'') ''cutoff_utc'') (\<lambda>cutoffUtcInput.
     and_then (require (session strat = Str sess)
       (DeskScopeError ''STRATEGY_SESSION_MISMATCH''
          (''Strategy '' @ sid @ '' belongs to '' @ to_str (session strat) @ '', not '' @ sess @ ''.'')
          [(''strategy_id'', Str sid), (''expected_session'', session strat), (''actual_session'', Str sess)])) (\<lambda>_.
     and_then (require (mode \<in> set DESK_EXECUTION_MODES)
       (DeskScopeError ''INVALID_SCOPE'' (''Unsupported execution mode: '' @ mode @ ''.'')
          [(''field'', Str ''mode''), (''value'', Str mode)])) (\<lambda>_.
     and_then (assertDate H tradingDate ''trading_date'') (\<lambda>_.
     and_then (require (timezone = ''Europe/Paris'')
       (DeskScopeError ''TIMEZONE_INVALID'' ''Timezone must be Europe/Paris.'' [(''timezone'', Str timezone)])) (\<lambda>_.
     and_then (parseIso H cutoffParis ''cutoff_paris'') (\<lambda>cutoffParisMs.
     and_then (parseIso H cutoffUtcInput ''cutoff_utc'') (\<lambda>cutoffUtcMs.
     and_then (require (cutoffParisMs = cutoffUtcMs)
       (DeskScopeError ''INVALID_SCOPE'' ''cutoff_paris and cutoff_utc do not identify the same instant.''
          [(''cutoff_paris'', Str cutoffParis), (''cutoff_utc'', Str cutoffUtcInput)])) (\<lambda>_.
     and_then (hasParisOffset H cutoffParis cutoffParisMs) (\<lambda>isParis.
     and_then (if isParis then Inr () else
        and_then (parisOffset H cutoffParisMs) (\<lambda>expected. Inl
          (DeskScopeError ''TIMEZONE_INVALID'' ''cutoff_paris does not use the Europe/Paris offset for that instant.''
             [(''cutoff_paris'', Str cutoffParis), (''expected_offset'', Str expected)]))) (\<lambda>_.
     let backtestId = optionalString (fget input ''backtest_id'');
         runId = optionalString (fget input ''run_id'');
         packId = optionalString (fget input ''pack_id'');
         packBuildId = optionalString (fget input ''pack_build_id'') in
     and_then (if mode \<in> {''replay'', ''backtest''} then
          and_then (requireReplayField backtestId ''backtest_id'') (\<lambda>_.
          and_then (requireReplayField packId ''pack_id'') (\<lambda>_.
            requireReplayField packBuildId ''pack_build_id''))
        else require (backtestId = [] \<or> fget options ''allowLiveBacktestId'' = Bool True)
          (DeskScopeError ''INVALID_SCOPE'' (''backtest_id is forbidden in '' @ mode @ '' mode.'')
             [(''mode'', Str mode), (''backtest_id'', Str backtestId)])) (\<lambda>_.
     and_then (if fget options ''requirePack'' = Bool True then requiredString (Str packId) ''pack_id'' else Inr []) (\<lambda>_.
     and_then (if fget options ''requirePackBuild'' = Bool True then requiredString (Str packBuildId) ''pack_build_id'' else Inr []) (\<lambda>_.
     and_then (if fget options ''requireRun'' = Bool True then requiredString (Str runId) ''run_id'' else Inr []) (\<lambda>_.
     case to_iso cutoffUtcMs of
       None \<Rightarrow> Inl (RangeError ''Invalid time value'')
     | Some cutoffUtc \<Rightarrow>
        (let scope = stripUndefined
          [(''scope_schema_version'', Str ''1.0.0''),
           (''strategy_id'', Str sid),
           (''session'', Str sess),
           (''mode'', Str mode),
           (''trading_date'', Str tradingDate),
           (''timezone'', Str timezone),
           (''cutoff_paris'', Str cutoffParis),
           (''cutoff_utc'', Str cutoffUtc),
           (''run_id'', null_if_empty runId),
           (''backtest_id'', null_if_empty backtestId),
           (''pack_id'', null_if_empty packId),
           (''pack_build_id'', null_if_empty packBuildId)]
         in Inr (spread scope [(''scope_hash'', Str (canonicalSha256 H (Obj scope)))])))))))))))))))))))))))"

section \<open>assertSameExecutionScope\<close>

definition DEFAULT_SCOPE_FIELDS :: "string list" where
  "DEFAULT_SCOPE_FIELDS = [''strategy_id'', ''session'', ''mode'', ''trading_date'', ''timezone'',
     ''cutoff_paris'', ''cutoff_utc'', ''run_id'', ''backtest_id'', ''pack_id'', ''pack_build_id'']"

definition normalizeNullable :: "jsval \<Rightarrow> jsval" where
  "normalizeNullable value = (if value = Undef then Null else value)"

text \<open>For \<open>null\<close> the reads of its properties throw.\<close>

definition scopeWithoutHash :: "jsval \<Rightarrow> js_error + jsobj" where
  "scopeWithoutHash value =
     (let v = (if value = Undef then Obj [] else value) in
      if v = Null then Inl (TypeError ''Cannot read properties of null'')
      else Inr (filter (\<lambda>kv. fst kv \<noteq> ''scope_hash'')
             (js_entries (js_or (get v ''resolved_scope'') (js_or (get v ''scope'') v)))))"

definition assertSameExecutionScope :: "jsval \<Rightarrow> jsval \<Rightarrow> string list option \<Rightarrow> js_error + bool" where
  "assertSameExecutionScope parent child fieldNames =
     and_then (scopeWithoutHash parent) (\<lambda>parentScope.
     and_then (scopeWithoutHash child) (\<lambda>childScope.
     let mismatches = List.map (\<lambda>f. Obj [(''field'', Str f),
             (''parent'', js_coalesce (fget parentScope f) Null),
             (''child'', js_coalesce (fget childScope f) Null)])
           (filter (\<lambda>f. \<not> strict_eq (normalizeNullable (fget parentScope f)) (normalizeNullable (fget childScope f)))
              (case fieldNames of Some fs \<Rightarrow> fs | None \<Rightarrow> DEFAULT_SCOPE_FIELDS))
     in if mismatches \<noteq> [] then Inl (DeskScopeError ''CROSS_SCOPE_REFERENCE''
            ''Linked documents do not share the same execution scope.'' [(''mismatches'', Arr mismatches)])
        else Inr True))"

section \<open>What a scope is\<close>

abbreviation trimmed :: "string \<Rightarrow> bool" where
  "trimmed s \<equiv> trim s = s"

definition scope_fields where
  "scope_fields sid sess m td tz cp cu run bt pk pb =
     [(''scope_schema_version'', Str ''1.0.0''), (''strategy_id'', Str sid), (''session'', Str sess),
      (''mode'', Str m), (''trading_date'', Str td), (''timezone'', Str tz),
      (''cutoff_paris'', Str cp), (''cutoff_utc'', Str cu), (''run_id'', null_if_empty run),
      (''backtest_id'', null_if_empty bt), (''pack_id'', null_if_empty pk),
      (''pack_build_id'', null_if_empty pb)]"

definition sealed :: "host \<Rightarrow> jsobj \<Rightarrow> jsobj" where
  "sealed H scope = scope @ [(''scope_hash'', Str (canonicalSha256 H (Obj scope)))]"

lemma requiredString_Inr: "requiredString v f = Inr t \<longleftrightarrow> optionalString v = t \<and> t \<noteq> []"
  by (auto simp: requiredString_def Let_def)

lemma optionalString_trimmed [simp]: "trimmed (optionalString v)"
  by (simp add: optionalString_def)

lemma optionalString_back [simp]:
  "optionalString (Str s) = trim s" "optionalString (null_if_empty s) = trim s"
  by (simp_all add: optionalString_def null_if_empty_def)

lemma null_if_empty_not_Undef [simp]: "null_if_empty s \<noteq> Undef"
  by (simp add: null_if_empty_def)

lemma stripUndefined_plain:
  "list_all (\<lambda>kv. \<not> is_index (fst kv)) fs \<Longrightarrow> stripUndefined fs = filter (\<lambda>kv. snd kv \<noteq> Undef) fs"
  by (simp add: stripUndefined_def own_order_plain)

lemma is_index_letter: "\<not> is_digit c \<Longrightarrow> \<not> is_index (c # s)"
  by (auto simp: is_index_def is_digit_def)

lemma scope_fields_plain: "list_all (\<lambda>kv. \<not> is_index (fst kv)) (scope_fields sid sess m td tz cp cu run bt pk pb)"
  by (simp add: scope_fields_def is_index_letter is_digit_def)

lemma stripUndefined_scope:
  "stripUndefined (scope_fields sid sess m td tz cp cu run bt pk pb) = scope_fields sid sess m td tz cp cu run bt pk pb"
  by (simp add: stripUndefined_plain scope_fields_plain) (simp add: scope_fields_def)

lemma sealed_eq: "spread (scope_fields sid sess m td tz cp cu run bt pk pb)
    [(''scope_hash'', Str (canonicalSha256 H (Obj (scope_fields sid sess m td tz cp cu run bt pk pb))))]
  = sealed H (scope_fields sid sess m td tz cp cu run bt pk pb)"
  by (simp add: spread_def sealed_def scope_fields_def)

lemma requireReplayField_Inr: "requireReplayField v f = Inr u \<longleftrightarrow> v \<noteq> []"
  by (simp add: requireReplayField_def require_Inr)

abbreviation field :: "jsobj \<Rightarrow> string \<Rightarrow> string" where
  "field input k \<equiv> optionalString (fget input k)"

lemma not_paris_Inr:
  "(if isParis then Inr () else and_then m (\<lambda>x. Inl (f x))) = Inr u \<longleftrightarrow> isParis"
  by (auto simp: and_then_Inr)

lemma option_required_Inr:
  "(\<exists>x. (if b then requiredString v f else Inr []) = Inr x) \<longleftrightarrow> (b \<longrightarrow> optionalString v \<noteq> [])"
  by (auto simp: requiredString_Inr)

lemma case_option_Inr:
  "(case m of None \<Rightarrow> Inl e | Some c \<Rightarrow> Inr (f c)) = Inr y \<longleftrightarrow> (\<exists>c. m = Some c \<and> y = f c)"
  by (auto split: option.split)

lemma mode_ids_Inr:
  "(if b then and_then (requireReplayField x f) (\<lambda>_. and_then (requireReplayField y g) (\<lambda>_. requireReplayField z h))
    else require c e) = Inr () \<longleftrightarrow> (if b then x \<noteq> [] \<and> y \<noteq> [] \<and> z \<noteq> [] else c)"
  by (auto simp: and_then_Inr requireReplayField_Inr require_Inr)

lemma ex_required:
  "(\<exists>x. requiredString v f = Inr x \<and> P x) \<longleftrightarrow> optionalString v \<noteq> [] \<and> P (optionalString v)"
  by (auto simp: and_then_Inr requiredString_Inr)

lemma ex_Inr_unit: "(\<exists>u. m = Inr (u :: unit)) \<longleftrightarrow> m = Inr ()"
  and ex_Inr_True: "(\<exists>x. m' = Inr x \<and> x \<and> P) \<longleftrightarrow> m' = Inr True \<and> P"
  by auto

text \<open>When the creation succeeds, on the trimmed strings of the input, and what it returns.\<close>

lemma create_Inr:
  "createDeskExecutionScope H input options = Inr scope \<longleftrightarrow>
    (field input ''strategy_id'' \<noteq> [] \<and> (\<exists>strat. strategyDefinition (field input ''strategy_id'') = Inr strat \<and> (field input ''session'') \<noteq> []
     \<and> (field input ''mode'') \<noteq> [] \<and> (field input ''trading_date'') \<noteq> [] \<and> (field input ''timezone'') \<noteq> []
     \<and> (field input ''cutoff_paris'') \<noteq> [] \<and> (field input ''cutoff_utc'') \<noteq> []
     \<and> session strat = Str (field input ''session'') \<and> (field input ''mode'') \<in> set DESK_EXECUTION_MODES
     \<and> assertDate H (field input ''trading_date'') ''trading_date'' = Inr ()
     \<and> (field input ''timezone'') = ''Europe/Paris''
     \<and> (\<exists>t t'. parseIso H (field input ''cutoff_paris'') ''cutoff_paris'' = Inr t \<and> parseIso H (field input ''cutoff_utc'') ''cutoff_utc'' = Inr t'
         \<and> t = t' \<and> hasParisOffset H (field input ''cutoff_paris'') t = Inr True
         \<and> (if (field input ''mode'') \<in> {''replay'', ''backtest''}
             then (field input ''backtest_id'') \<noteq> [] \<and> (field input ''pack_id'') \<noteq> [] \<and> (field input ''pack_build_id'') \<noteq> []
             else (field input ''backtest_id'') = [] \<or> fget options ''allowLiveBacktestId'' = Bool True)
         \<and> (fget options ''requirePack'' = Bool True \<longrightarrow> (field input ''pack_id'') \<noteq> [])
         \<and> (fget options ''requirePackBuild'' = Bool True \<longrightarrow> (field input ''pack_build_id'') \<noteq> [])
         \<and> (fget options ''requireRun'' = Bool True \<longrightarrow> (field input ''run_id'') \<noteq> [])
         \<and> (\<exists>cu. to_iso t' = Some cu \<and> scope = sealed H (scope_fields (field input ''strategy_id'') (field input ''session'')
              (field input ''mode'') (field input ''trading_date'') (field input ''timezone'') (field input ''cutoff_paris'') cu
              (field input ''run_id'') (field input ''backtest_id'') (field input ''pack_id'')
              (field input ''pack_build_id''))))))"
    unfolding createDeskExecutionScope_def Let_def scope_fields_def[symmetric] stripUndefined_scope sealed_eq and_then_require_Inr
    by (simp only: and_then_Inr ex_required require_Inr not_paris_Inr ex_Inr_unit ex_Inr_True mode_ids_Inr
        option_required_Inr case_option_Inr optionalString_back optionalString_trimmed ex_simps simp_thms)

lemma scope_fget:
  fixes H sid sess m td tz cp cu run bt pk pb
  defines "scope \<equiv> sealed H (scope_fields sid sess m td tz cp cu run bt pk pb)"
  shows "fget scope ''strategy_id'' = Str sid" "fget scope ''session'' = Str sess"
    "fget scope ''mode'' = Str m" "fget scope ''trading_date'' = Str td" "fget scope ''timezone'' = Str tz"
    "fget scope ''cutoff_paris'' = Str cp" "fget scope ''cutoff_utc'' = Str cu"
    "fget scope ''run_id'' = null_if_empty run" "fget scope ''backtest_id'' = null_if_empty bt"
    "fget scope ''pack_id'' = null_if_empty pk" "fget scope ''pack_build_id'' = null_if_empty pb"
    "fget scope ''resolved_scope'' = Undef" "fget scope ''scope'' = Undef"
    "fget scope ''scope_hash'' = Str (canonicalSha256 H (Obj (scope_fields sid sess m td tz cp cu run bt pk pb)))"
  by (simp_all add: scope_def sealed_def scope_fields_def)

lemma create_shape:
  assumes "createDeskExecutionScope H input options = Inr scope"
  shows "\<exists>sid sess m td cp cu run bt pk pb.
    scope = sealed H (scope_fields sid sess m td ''Europe/Paris'' cp cu run bt pk pb)"
  using assms unfolding create_Inr by metis

definition sample_scope :: jsobj where
  "sample_scope = sealed sample_host (scope_fields ''asia_open'' ''asia_open'' ''replay'' ''2026-01-05''
     ''Europe/Paris'' ''2026-01-05T00:15:00+01:00'' ''2026-01-04T23:15:00.000Z'' [] ''bt1'' ''p1'' ''b1'')"

lemma sample_scope_created: "createDeskExecutionScope sample_host
     [(''strategy_id'', Str '' asia_open''), (''session'', Str ''asia_open''), (''mode'', Str ''replay''),
      (''trading_date'', Str ''2026-01-05''), (''timezone'', Str ''Europe/Paris''),
      (''cutoff_paris'', Str ''2026-01-05T00:15:00+01:00''), (''cutoff_utc'', Str ''2026-01-04T23:15Z''),
      (''backtest_id'', Str ''bt1''), (''pack_id'', Str ''p1''), (''pack_build_id'', Str ''b1'')] []
   = Inr sample_scope"
  by code_simp

text \<open>
  C7. Creating a scope is idempotent: a scope that was created is accepted again, with the same
  options, and comes back unchanged, hash included.
\<close>

theorem createDeskExecutionScope_idempotent:
  assumes "createDeskExecutionScope H input options = Inr scope"
  shows "createDeskExecutionScope H scope options = Inr scope"
proof -
  from assms obtain t cu where t: "parseIso H (field input ''cutoff_paris'') ''cutoff_paris'' = Inr t"
    "to_iso t = Some cu" "scope = sealed H (scope_fields (field input ''strategy_id'')
       (field input ''session'') (field input ''mode'') (field input ''trading_date'')
       (field input ''timezone'') (field input ''cutoff_paris'') cu (field input ''run_id'')
       (field input ''backtest_id'') (field input ''pack_id'') (field input ''pack_build_id''))"
    unfolding create_Inr by metis
  have cu: "parseIso H cu ''cutoff_utc'' = Inr t" "trimmed cu" "cu \<noteq> []"
    using to_iso_ends_with_Z[OF t(2)] by (simp_all add: parseIso_def date_parse_to_iso[OF t(2)])
  show ?thesis
    using assms unfolding create_Inr t(3) scope_fget optionalString_back optionalString_trimmed cu
    by (elim conjE exE) (intro conjI exI; assumption?; simp add: cu t)
qed

theorem createDeskExecutionScope_idempotent_witness:
  "createDeskExecutionScope sample_host sample_scope [] = Inr sample_scope"
  by (rule createDeskExecutionScope_idempotent[OF sample_scope_created])

lemma scopeWithoutHash_sealed:
  "scopeWithoutHash (Obj (sealed H (scope_fields sid sess m td tz cp cu run bt pk pb)))
     = Inr (scope_fields sid sess m td tz cp cu run bt pk pb)"
proof -
  let ?s = "scope_fields sid sess m td tz cp cu run bt pk pb"
  have "own_order (sealed H ?s) = sealed H ?s"
    by (rule own_order_plain) (simp add: sealed_def scope_fields_def is_index_letter is_digit_def)
  moreover have "filter (\<lambda>kv. fst kv \<noteq> ''scope_hash'') (sealed H ?s) = ?s"
    by (simp add: sealed_def scope_fields_def)
  ultimately show ?thesis
    by (simp add: scopeWithoutHash_def scope_fget js_or_def)
qed

lemma scope_fields_get:
  fixes sid sess m td tz cp cu run bt pk pb
  defines "scope \<equiv> scope_fields sid sess m td tz cp cu run bt pk pb"
  shows "fget scope ''strategy_id'' = Str sid" "fget scope ''session'' = Str sess"
    "fget scope ''mode'' = Str m" "fget scope ''trading_date'' = Str td" "fget scope ''timezone'' = Str tz"
    "fget scope ''cutoff_paris'' = Str cp" "fget scope ''cutoff_utc'' = Str cu"
    "fget scope ''run_id'' = null_if_empty run" "fget scope ''backtest_id'' = null_if_empty bt"
    "fget scope ''pack_id'' = null_if_empty pk" "fget scope ''pack_build_id'' = null_if_empty pb"
  by (simp_all add: scope_def scope_fields_def)

text \<open>
  Two created scopes identify the same context exactly when they are the same object: the
  comparison of linked documents passes if and only if the scopes are equal, hash included.
\<close>

theorem assertSameExecutionScope_iff_equal:
  assumes "createDeskExecutionScope H a optionsA = Inr p" and "createDeskExecutionScope H b optionsB = Inr q"
  shows "assertSameExecutionScope (Obj p) (Obj q) None = Inr True \<longleftrightarrow> p = q"
proof -
  obtain sid sess m td cp cu run bt pk pb where p:
      "p = sealed H (scope_fields sid sess m td ''Europe/Paris'' cp cu run bt pk pb)"
    using create_shape[OF assms(1)] by blast
  obtain sid' sess' m' td' cp' cu' run' bt' pk' pb' where q:
      "q = sealed H (scope_fields sid' sess' m' td' ''Europe/Paris'' cp' cu' run' bt' pk' pb')"
    using create_shape[OF assms(2)] by blast
  have eq: "strict_eq (null_if_empty x) (null_if_empty y) \<longleftrightarrow> x = y" for x y
    by (simp add: null_if_empty_def)
  have norm: "normalizeNullable (Str x) = Str x" "normalizeNullable (null_if_empty x) = null_if_empty x" for x
    by (simp_all add: normalizeNullable_def null_if_empty_def)
  have "assertSameExecutionScope (Obj p) (Obj q) None = Inr True \<longleftrightarrow>
      sid = sid' \<and> sess = sess' \<and> m = m' \<and> td = td' \<and> cp = cp' \<and> cu = cu' \<and> run = run'
      \<and> bt = bt' \<and> pk = pk' \<and> pb = pb'"
    by (simp add: assertSameExecutionScope_def scopeWithoutHash_sealed p q DEFAULT_SCOPE_FIELDS_def
        scope_fields_get norm eq)
  also have "\<dots> \<longleftrightarrow> p = q"
    by (auto simp: p q sealed_def scope_fields_def null_if_empty_def split: if_splits)
  finally show ?thesis .
qed

theorem assertSameExecutionScope_iff_equal_witness:
  "assertSameExecutionScope (Obj sample_scope) (Obj sample_scope) None = Inr True \<longleftrightarrow> sample_scope = sample_scope"
  by (rule assertSameExecutionScope_iff_equal[OF sample_scope_created sample_scope_created])

text \<open>
  What a created scope guarantees: a registered strategy with its own session, a known mode,
  the identifiers a replay or backtest needs (and no backtest id in live and paper unless the
  caller allows it), cutoffs in Paris and UTC time that are the same instant, and the hash of the
  other fields.
\<close>

theorem created_scope_sound:
  assumes "createDeskExecutionScope H input options = Inr scope"
  shows "\<exists>sid strat m cp cu t.
     fget scope ''strategy_id'' = Str sid \<and> map_of DESK_STRATEGY_REGISTRY sid = Some strat
   \<and> fget scope ''session'' = session strat
   \<and> fget scope ''mode'' = Str m \<and> m \<in> set DESK_EXECUTION_MODES
   \<and> (if m \<in> {''replay'', ''backtest''}
      then \<forall>k \<in> {''backtest_id'', ''pack_id'', ''pack_build_id''}. \<exists>s. fget scope k = Str s \<and> s \<noteq> []
      else fget scope ''backtest_id'' = Null \<or> fget options ''allowLiveBacktestId'' = Bool True)
   \<and> fget scope ''cutoff_paris'' = Str cp \<and> date_parse H cp = Some t
   \<and> fget scope ''cutoff_utc'' = Str cu \<and> to_iso t = Some cu
   \<and> fget scope ''scope_hash''
       = Str (canonicalSha256 H (Obj (filter (\<lambda>kv. fst kv \<noteq> ''scope_hash'') scope)))"
proof -
  from assms obtain strat t cu where c:
      "strategyDefinition (field input ''strategy_id'') = Inr strat"
      "session strat = Str (field input ''session'')" "field input ''mode'' \<in> set DESK_EXECUTION_MODES"
      "if field input ''mode'' \<in> {''replay'', ''backtest''}
       then field input ''backtest_id'' \<noteq> [] \<and> field input ''pack_id'' \<noteq> [] \<and> field input ''pack_build_id'' \<noteq> []
       else field input ''backtest_id'' = [] \<or> fget options ''allowLiveBacktestId'' = Bool True"
      "parseIso H (field input ''cutoff_paris'') ''cutoff_paris'' = Inr t" "to_iso t = Some cu"
    and scope: "scope = sealed H (scope_fields (field input ''strategy_id'')
       (field input ''session'') (field input ''mode'') (field input ''trading_date'')
       (field input ''timezone'') (field input ''cutoff_paris'') cu (field input ''run_id'')
       (field input ''backtest_id'') (field input ''pack_id'') (field input ''pack_build_id''))"
    unfolding create_Inr by metis
  have reg: "map_of DESK_STRATEGY_REGISTRY (field input ''strategy_id'') = Some strat"
    using c(1,2) by (auto simp: strategyDefinition_def inherited_strategy_def split: option.splits if_splits)
  have "date_parse H (field input ''cutoff_paris'') = Some t"
    using c(5) by (auto simp: parseIso_def split: if_splits option.splits)
  moreover have "filter (\<lambda>kv. fst kv \<noteq> ''scope_hash'') scope = scope_fields (field input ''strategy_id'')
       (field input ''session'') (field input ''mode'') (field input ''trading_date'')
       (field input ''timezone'') (field input ''cutoff_paris'') cu (field input ''run_id'')
       (field input ''backtest_id'') (field input ''pack_id'') (field input ''pack_build_id'')"
    by (simp add: scope sealed_def scope_fields_def)
  ultimately show ?thesis
    using c(2-4,6) reg unfolding scope scope_fget by (auto simp: null_if_empty_def scope_fget)
qed

theorem created_scope_sound_witness:
  "\<exists>sid strat m cp cu t.
     fget sample_scope ''strategy_id'' = Str sid \<and> map_of DESK_STRATEGY_REGISTRY sid = Some strat
   \<and> fget sample_scope ''session'' = session strat
   \<and> fget sample_scope ''mode'' = Str m \<and> m \<in> set DESK_EXECUTION_MODES
   \<and> (if m \<in> {''replay'', ''backtest''}
      then \<forall>k \<in> {''backtest_id'', ''pack_id'', ''pack_build_id''}. \<exists>s. fget sample_scope k = Str s \<and> s \<noteq> []
      else fget sample_scope ''backtest_id'' = Null \<or> fget [] ''allowLiveBacktestId'' = Bool True)
   \<and> fget sample_scope ''cutoff_paris'' = Str cp \<and> date_parse sample_host cp = Some t
   \<and> fget sample_scope ''cutoff_utc'' = Str cu \<and> to_iso t = Some cu
   \<and> fget sample_scope ''scope_hash''
       = Str (canonicalSha256 sample_host (Obj (filter (\<lambda>kv. fst kv \<noteq> ''scope_hash'') sample_scope)))"
  by (rule created_scope_sound[OF sample_scope_created])

text \<open>
  The registry is read without asking whether the name is its own: for a name that objects
  inherit (such as \<open>constructor\<close>), \<open>defaultCutoffParis\<close> does not reject the unknown strategy but
  returns a cutoff that is no timestamp.
\<close>

theorem defaultCutoffParis_inherited_name:
  assumes "sid \<in> set PROTOTYPE_NAMES" and "assertDate H d ''trading_date'' = Inr ()"
    and "date_parse H (d @ ''T12:00:00Z'') = Some t" and "parisOffset H t = Inr off"
  shows "defaultCutoffParis H sid d = Inr (d @ ''Tundefined'' @ off)"
proof -
  have "map_of DESK_STRATEGY_REGISTRY sid = None"
    using assms(1) by (auto simp: PROTOTYPE_NAMES_def DESK_STRATEGY_REGISTRY_def)
  with assms show ?thesis
    by (simp add: defaultCutoffParis_def strategyDefinition_def inherited_strategy_def)
qed

theorem defaultCutoffParis_inherited_name_witness:
  "defaultCutoffParis sample_host ''constructor'' ''2026-01-05'' = Inr (''2026-01-05'' @ ''Tundefined'' @ ''+01:00'')"
proof (rule defaultCutoffParis_inherited_name)
  show "assertDate sample_host ''2026-01-05'' ''trading_date'' = Inr ()" by code_simp
  show "date_parse sample_host (''2026-01-05'' @ ''T12:00:00Z'') = Some 1767614400000" by code_simp
  show "parisOffset sample_host 1767614400000 = Inr ''+01:00''" by code_simp
qed (simp add: PROTOTYPE_NAMES_def)

end
