(* ===== verification/Greedy_Scan.thy ===== *)
theory Greedy_Scan
  imports Main
begin

text \<open>
  Greedy selection under a budget: a scan takes an element if the budget admits it, and takes it
  out of the budget. The contract of a client is a bound that every admitted element keeps
  (\<open>greedy_scan\<close>), and that a larger consumption admits no more (\<open>saturating_scan\<close>).
\<close>

locale greedy_scan =
  fixes well :: "'x \<Rightarrow> bool"
    and admit :: "'b \<Rightarrow> 'x \<Rightarrow> bool"
    and consume :: "'x \<Rightarrow> 'b \<Rightarrow> 'b"
    and within :: "'b \<Rightarrow> bool"
  assumes consume_within: "within b \<Longrightarrow> well x \<Longrightarrow> admit b x \<Longrightarrow> within (consume x b)"
begin

primrec taken :: "'b \<Rightarrow> 'x list \<Rightarrow> 'x list" where
  "taken b [] = []"
| "taken b (x # xs) = (if admit b x then x # taken (consume x b) xs else taken b xs)"

definition spent :: "'b \<Rightarrow> 'x list \<Rightarrow> 'b" where
  "spent b xs = foldl (\<lambda>b x. consume x b) b (taken b xs)"

lemma spent_simps [simp]:
  "spent b [] = b"
  "spent b (x # xs) = (if admit b x then spent (consume x b) xs else spent b xs)"
  by (simp_all add: spent_def)

lemma spent_within: "within b \<Longrightarrow> list_all well xs \<Longrightarrow> within (spent b xs)"
  by (induction xs arbitrary: b) (simp_all add: consume_within)

lemma taken_append: "taken b (xs @ ys) = taken b xs @ taken (spent b xs) ys"
  by (induction xs arbitrary: b) simp_all

lemma spent_append: "spent b (xs @ ys) = spent (spent b xs) ys"
  by (induction xs arbitrary: b) simp_all

lemma taken_subset: "set (taken b xs) \<subseteq> set xs"
  by (induction xs arbitrary: b) auto

text \<open>The budget is not touched before the first element it admits, so that one is taken.\<close>

lemma taken_progress: "x \<in> set xs \<Longrightarrow> admit b x \<Longrightarrow> taken b xs \<noteq> []"
  by (induction xs) auto

end

locale saturating_scan = greedy_scan well admit consume within
  for well :: "'x \<Rightarrow> bool" and admit :: "'b \<Rightarrow> 'x \<Rightarrow> bool" and consume :: "'x \<Rightarrow> 'b \<Rightarrow> 'b"
    and within :: "'b \<Rightarrow> bool" +
  assumes admit_antimono: "within b \<Longrightarrow> well y \<Longrightarrow> well x \<Longrightarrow> admit b y \<Longrightarrow> admit (consume y b) x \<Longrightarrow> admit b x"
begin

lemma admit_spent: "within b \<Longrightarrow> list_all well xs \<Longrightarrow> well x \<Longrightarrow> admit (spent b xs) x \<Longrightarrow> admit b x"
proof (induction xs arbitrary: b)
  case (Cons y xs)
  then show ?case using admit_antimono[of b y x] by (cases "admit b y") (simp_all add: consume_within)
qed simp

text \<open>What was passed over does not fit the rest of the budget either.\<close>

lemma passed_over:
  assumes "within b" and "list_all well (ys @ x # zs)" and "\<not> admit (spent b ys) x"
  shows "\<not> admit (spent b (ys @ x # zs)) x"
proof -
  have "within (spent b ys)" "list_all well (x # zs)" "well x"
    using assms spent_within[of b ys] by auto
  with assms(3) show ?thesis unfolding spent_append by (blast dest: admit_spent)
qed

end

end
