(* ===== verification/Human_Gate.thy ===== *)
theory Human_Gate
  imports Domain_Helpers
begin

text \<open>
  \<open>packages/desk-domain/src/human-execution-gate-v1.js\<close>: the window in which an operator may take back the decision on a
  gate. \<open>toISOString\<close> may throw, so the results are a sum. Shown: what holds whenever an undo is allowed, and
  that a decision whose deadline this file computed can be undone for a minute at most and never after the
  gate itself expires.
\<close>

section \<open>The policy\<close>

definition DEFAULT_HUMAN_GATE_UNDO_WINDOW_SECONDS_V1 :: int where
  "DEFAULT_HUMAN_GATE_UNDO_WINDOW_SECONDS_V1 = 10"

record undo_policy =
  up_enabled :: bool
  up_window :: int

definition requested_window :: "jsval \<Rightarrow> jnum" where
  "requested_window policy = to_num (js_coalesce (get policy ''windowSeconds'')
     (js_coalesce (get policy ''window_seconds'') (Num (Fin (of_int DEFAULT_HUMAN_GATE_UNDO_WINDOW_SECONDS_V1)))))"

definition normalizeHumanGateUndoPolicyV1 :: "jsval \<Rightarrow> undo_policy" where
  "normalizeHumanGateUndoPolicyV1 policy =
     \<lparr>up_enabled = (get policy ''enabled'' = Bool True),
      up_window = (case jround (requested_window policy) of Fin r \<Rightarrow> max 3 (min 60 \<lfloor>r\<rfloor>) | _ \<Rightarrow> DEFAULT_HUMAN_GATE_UNDO_WINDOW_SECONDS_V1)\<rparr>"

definition REVERSIBLE_STATES :: "string list" where
  "REVERSIBLE_STATES = [''CONFIRMED'', ''REJECTED'']"

definition undo_policy_js :: "undo_policy \<Rightarrow> jsval" where
  "undo_policy_js p = Obj [(''schemaVersion'', Str ''human_execution_gate_policy_v1''), (''enabled'', Bool (up_enabled p)),
     (''windowSeconds'', Num (Fin (of_int (up_window p)))), (''reversibleStates'', Arr (List.map Str REVERSIBLE_STATES))]"

section \<open>The deadline\<close>

definition gate_timestamp :: "host \<Rightarrow> jsval \<Rightarrow> int option" where
  "gate_timestamp H value = date_parse H (str_or_empty value)"

text \<open>\<open>new Date(t).toISOString()\<close>\<close>

definition iso_of :: "int \<Rightarrow> js_error + string" where
  "iso_of t = (case to_iso t of Some s \<Rightarrow> Inr s | None \<Rightarrow> Inl (RangeError ''Invalid time value''))"

definition validIso :: "host \<Rightarrow> jsval \<Rightarrow> js_error + string option" where
  "validIso H value = (case gate_timestamp H value of None \<Rightarrow> Inr None | Some t \<Rightarrow> and_then (iso_of t) (\<lambda>s. Inr (Some s)))"

definition humanGateUndoDeadlineV1 :: "host \<Rightarrow> jsval \<Rightarrow> jsval \<Rightarrow> jsval \<Rightarrow> js_error + string option" where
  "humanGateUndoDeadlineV1 H decidedAtUtc gateExpiresAtUtc policy =
     (let normalized = normalizeHumanGateUndoPolicyV1 policy
      in if \<not> up_enabled normalized then Inr None
         else case gate_timestamp H decidedAtUtc of
             None \<Rightarrow> Inr None
           | Some decidedAt \<Rightarrow>
               (let policyDeadline = decidedAt + up_window normalized * 1000
                in and_then (iso_of (case gate_timestamp H gateExpiresAtUtc of None \<Rightarrow> policyDeadline | Some gateDeadline \<Rightarrow> min policyDeadline gateDeadline))
                     (\<lambda>s. Inr (Some s))))"

section \<open>The undo\<close>

record undo_result =
  ur_allowed :: bool
  ur_reason :: "string option"
  ur_state :: string
  ur_next :: "string option"
  ur_revision :: jnum
  ur_expires :: "string option"
  ur_policy :: undo_policy

definition undo_denied :: "string \<Rightarrow> string \<Rightarrow> jnum \<Rightarrow> string option \<Rightarrow> undo_policy \<Rightarrow> undo_result" where
  "undo_denied why st revision expires p =
     \<lparr>ur_allowed = False, ur_reason = Some why, ur_state = st, ur_next = None, ur_revision = revision, ur_expires = expires, ur_policy = p\<rparr>"

definition gate_state :: "jsval \<Rightarrow> string" where
  "gate_state gate = to_upper (trim (str_or_empty (get gate ''status'')))"

definition gate_revision :: "jsval \<Rightarrow> jnum" where
  "gate_revision gate = num_or_zero (get gate ''revision'')"

definition decided_at :: "jsval \<Rightarrow> jsval" where
  "decided_at gate = (if gate_state gate = ''CONFIRMED'' then get gate ''confirmed_at_utc''
     else if gate_state gate = ''REJECTED'' then get gate ''rejected_at_utc'' else Null)"

definition revision_conflict :: "jsval \<Rightarrow> jsval \<Rightarrow> bool" where
  "revision_conflict gate expectedRevision \<longleftrightarrow> present expectedRevision
     \<and> (\<not> is_integer (to_num expectedRevision) \<or> \<not> jnumeq (to_num expectedRevision) (gate_revision gate))"

definition undo_expires_at :: "host \<Rightarrow> jsval \<Rightarrow> undo_policy \<Rightarrow> js_error + string option" where
  "undo_expires_at H gate p = and_then (validIso H (get gate ''undo_expires_at_utc''))
     (\<lambda>stored. case stored of Some s \<Rightarrow> Inr (Some s)
        | None \<Rightarrow> humanGateUndoDeadlineV1 H (decided_at gate) (get gate ''expires_at_utc'') (undo_policy_js p))"

definition undo_not_before :: "int \<Rightarrow> int option \<Rightarrow> bool" where
  "undo_not_before now deadline = (case deadline of None \<Rightarrow> False | Some t \<Rightarrow> t \<le> now)"

definition undo_decision :: "host \<Rightarrow> jsval \<Rightarrow> jsval \<Rightarrow> jsval \<Rightarrow> jsval \<Rightarrow> undo_policy \<Rightarrow> string option \<Rightarrow> undo_result" where
  "undo_decision H gate nowUtc expectedRevision providerCommandCount p expires =
     (let st = gate_state gate; deny = (\<lambda>why. undo_denied why st (gate_revision gate) expires p)
      in if \<not> up_enabled p then undo_denied ''HUMAN_GATE_UNDO_DISABLED'' st (gate_revision gate) None p
         else if st \<notin> set REVERSIBLE_STATES then deny ''HUMAN_GATE_STATE_NOT_REVERSIBLE''
         else case gate_timestamp H nowUtc of None \<Rightarrow> deny ''HUMAN_GATE_UNDO_NOW_INVALID''
         | Some now \<Rightarrow>
           if revision_conflict gate expectedRevision then deny ''HUMAN_GATE_REVISION_CONFLICT''
           else if jlt (Fin 0) (num_or_zero providerCommandCount) then deny ''HUMAN_GATE_PROVIDER_COMMAND_EXISTS''
           else if undo_not_before now (gate_timestamp H (get gate ''expires_at_utc'')) then deny ''HUMAN_GATE_EXPIRED''
           else case gate_timestamp H (js_opt_str expires) of None \<Rightarrow> deny ''HUMAN_GATE_UNDO_WINDOW_EXPIRED''
           | Some undoExpiry \<Rightarrow>
             if undoExpiry \<le> now then deny ''HUMAN_GATE_UNDO_WINDOW_EXPIRED''
             else \<lparr>ur_allowed = True, ur_reason = None, ur_state = st, ur_next = Some ''AWAITING_MANUAL_CONFIRMATION'',
               ur_revision = gate_revision gate, ur_expires = expires, ur_policy = p\<rparr>)"

definition evaluateHumanGateUndoV1 :: "host \<Rightarrow> jsval \<Rightarrow> jsval \<Rightarrow> jsval \<Rightarrow> jsval \<Rightarrow> jsval \<Rightarrow> js_error + undo_result" where
  "evaluateHumanGateUndoV1 H gate nowUtc expectedRevision providerCommandCount policy =
     (let normalized = normalizeHumanGateUndoPolicyV1 policy
      in and_then (undo_expires_at H gate normalized)
           (\<lambda>expires. Inr (undo_decision H gate nowUtc expectedRevision providerCommandCount normalized expires)))"

section \<open>Facts\<close>

lemma undo_window: "3 \<le> up_window (normalizeHumanGateUndoPolicyV1 policy) \<and> up_window (normalizeHumanGateUndoPolicyV1 policy) \<le> 60"
  by (auto simp: normalizeHumanGateUndoPolicyV1_def DEFAULT_HUMAN_GATE_UNDO_WINDOW_SECONDS_V1_def split: jnum.split)

text \<open>Normalising a normalised policy changes nothing, as the second call inside the evaluation needs.\<close>

lemma undo_policy_idempotent:
  "normalizeHumanGateUndoPolicyV1 (undo_policy_js (normalizeHumanGateUndoPolicyV1 policy)) = normalizeHumanGateUndoPolicyV1 policy"
proof -
  let ?p = "normalizeHumanGateUndoPolicyV1 policy"
  have "requested_window (undo_policy_js ?p) = Fin (of_int (up_window ?p))"
    by (simp add: requested_window_def undo_policy_js_def js_coalesce_def)
  moreover have "\<lfloor>of_int n + 1 / 2 :: rat\<rfloor> = n" for n by (rule floor_unique) simp_all
  ultimately have "up_window (normalizeHumanGateUndoPolicyV1 (undo_policy_js ?p)) = up_window ?p"
    using undo_window[of policy] by (simp add: normalizeHumanGateUndoPolicyV1_def[of "undo_policy_js ?p"] jround_def)
  moreover have "up_enabled (normalizeHumanGateUndoPolicyV1 (undo_policy_js ?p)) = up_enabled ?p"
    by (simp add: normalizeHumanGateUndoPolicyV1_def[of "undo_policy_js ?p"]) (simp add: undo_policy_js_def)
  ultimately show ?thesis by simp
qed

lemma iso_of_Inr: "iso_of t = Inr s \<Longrightarrow> gate_timestamp H (Str s) = Some t"
  by (auto simp: iso_of_def gate_timestamp_def date_parse_to_iso split: option.splits)

lemma deadline_bounds:
  assumes "humanGateUndoDeadlineV1 H decided gateExpires policy = Inr (Some s)"
  shows "\<exists>t d. gate_timestamp H (Str s) = Some t \<and> gate_timestamp H decided = Some d \<and> t \<le> d + 60000
    \<and> (case gate_timestamp H gateExpires of None \<Rightarrow> d + 3000 \<le> t | Some g \<Rightarrow> t \<le> g)"
proof -
  obtain d t where d: "gate_timestamp H decided = Some d" and "iso_of t = Inr s"
    and t: "t = (case gate_timestamp H gateExpires of None \<Rightarrow> d + up_window (normalizeHumanGateUndoPolicyV1 policy) * 1000
      | Some g \<Rightarrow> min (d + up_window (normalizeHumanGateUndoPolicyV1 policy) * 1000) g)"
    using assms by (auto simp: humanGateUndoDeadlineV1_def Let_def and_then_Inr split: if_splits option.splits)
  then show ?thesis using undo_window[of policy] iso_of_Inr[of t s H] by (auto split: option.splits)
qed

lemma undo_allowed_decision:
  assumes "ur_allowed (undo_decision H gate nowUtc expectedRevision commands p expires)"
  shows "up_enabled p \<and> gate_state gate \<in> {''CONFIRMED'', ''REJECTED''} \<and> \<not> revision_conflict gate expectedRevision
    \<and> \<not> jlt (Fin 0) (num_or_zero commands)
    \<and> (\<exists>now t. gate_timestamp H nowUtc = Some now \<and> gate_timestamp H (js_opt_str expires) = Some t \<and> now < t
        \<and> \<not> undo_not_before now (gate_timestamp H (get gate ''expires_at_utc'')))"
proof -
  have denied: "\<not> ur_allowed (undo_denied why st revision e p)" for why st revision e p by (simp add: undo_denied_def)
  then show ?thesis
    using assms denied unfolding undo_decision_def Let_def REVERSIBLE_STATES_def
    by (auto split: if_splits option.splits)
qed

lemma undo_allowed_fields:
  "ur_allowed (undo_decision H gate nowUtc expectedRevision commands p expires) \<Longrightarrow>
     ur_next (undo_decision H gate nowUtc expectedRevision commands p expires) = Some ''AWAITING_MANUAL_CONFIRMATION''
   \<and> ur_expires (undo_decision H gate nowUtc expectedRevision commands p expires) = expires"
  unfolding undo_decision_def Let_def undo_denied_def by (auto split: if_splits option.splits)

text \<open>
  Whenever an undo is allowed, it is enabled by the policy, the gate is confirmed or rejected, a given revision is the
  current one, no command has gone to a provider, and the instant is before the deadline and before the expiry of the gate.
\<close>

theorem undo_allowed_is_safe:
  assumes "evaluateHumanGateUndoV1 H gate nowUtc expectedRevision commands policy = Inr u" and "ur_allowed u"
  shows "get policy ''enabled'' = Bool True \<and> gate_state gate \<in> {''CONFIRMED'', ''REJECTED''}
    \<and> ur_next u = Some ''AWAITING_MANUAL_CONFIRMATION''
    \<and> (present expectedRevision \<longrightarrow> jnumeq (to_num expectedRevision) (gate_revision gate))
    \<and> \<not> jlt (Fin 0) (num_or_zero commands)
    \<and> (\<exists>now t. gate_timestamp H nowUtc = Some now \<and> gate_timestamp H (js_opt_str (ur_expires u)) = Some t \<and> now < t
        \<and> \<not> undo_not_before now (gate_timestamp H (get gate ''expires_at_utc'')))"
proof -
  obtain expires where u: "u = undo_decision H gate nowUtc expectedRevision commands (normalizeHumanGateUndoPolicyV1 policy) expires"
    using assms(1) by (auto simp: evaluateHumanGateUndoV1_def Let_def and_then_Inr)
  have allowed: "ur_allowed (undo_decision H gate nowUtc expectedRevision commands (normalizeHumanGateUndoPolicyV1 policy) expires)"
    using assms(2) u by simp
  have "up_enabled (normalizeHumanGateUndoPolicyV1 policy) \<Longrightarrow> get policy ''enabled'' = Bool True"
    by (simp add: normalizeHumanGateUndoPolicyV1_def)
  then show ?thesis
    using undo_allowed_decision[OF allowed] undo_allowed_fields[OF allowed] unfolding u revision_conflict_def by auto
qed

text \<open>
  A decision can be undone for a minute at most: if the gate stores the deadline that was computed when it was decided,
  under whatever policy, an undo allowed later, under whatever policy, comes less than 60 seconds after the decision
  and before the expiry of the gate.
\<close>

theorem undo_within_a_minute:
  assumes "humanGateUndoDeadlineV1 H decided gateExpires policy = Inr (Some deadline)"
    and "get gate ''undo_expires_at_utc'' = Str deadline"
    and "evaluateHumanGateUndoV1 H gate nowUtc expectedRevision commands policy' = Inr u" and "ur_allowed u"
  shows "\<exists>now d. gate_timestamp H nowUtc = Some now \<and> gate_timestamp H decided = Some d \<and> now < d + 60000
    \<and> (case gate_timestamp H gateExpires of None \<Rightarrow> True | Some g \<Rightarrow> now < g)"
proof -
  obtain t d where t: "gate_timestamp H (Str deadline) = Some t" and d: "gate_timestamp H decided = Some d" "t \<le> d + 60000"
    and g: "case gate_timestamp H gateExpires of None \<Rightarrow> d + 3000 \<le> t | Some g \<Rightarrow> t \<le> g"
    using deadline_bounds[OF assms(1)] by blast
  obtain expires where e: "undo_expires_at H gate (normalizeHumanGateUndoPolicyV1 policy') = Inr expires"
    and u: "u = undo_decision H gate nowUtc expectedRevision commands (normalizeHumanGateUndoPolicyV1 policy') expires"
    using assms(3) by (auto simp: evaluateHumanGateUndoV1_def Let_def and_then_Inr)
  obtain s where "expires = Some s" "iso_of t = Inr s"
    using e t assms(2) by (auto simp: undo_expires_at_def validIso_def and_then_Inr)
  then have "gate_timestamp H (js_opt_str expires) = Some t" using iso_of_Inr by simp
  then obtain now where "gate_timestamp H nowUtc = Some now" "now < t"
    using undo_allowed_decision[of H gate nowUtc expectedRevision commands _ expires] assms(4) unfolding u by force
  then show ?thesis using d g by (auto split: option.splits)
qed

text \<open>A confirmed gate, undone after eight seconds\<close>

definition sample_human_gate :: jsval where
  "sample_human_gate = Obj [(''status'', Str ''confirmed''), (''revision'', Num (Fin 3)), (''expires_at_utc'', Str ''2026-08-30T10:00:30.000Z''),
     (''undo_expires_at_utc'', Str ''2026-08-30T10:00:10.000Z'')]"

definition sample_undo_policy :: jsval where
  "sample_undo_policy = Obj [(''enabled'', Bool True), (''window_seconds'', Num (Fin 10))]"

lemma sample_policy_normal: "normalizeHumanGateUndoPolicyV1 sample_undo_policy = \<lparr>up_enabled = True, up_window = 10\<rparr>"
proof -
  have "\<lfloor>10 + 1 / 2 :: rat\<rfloor> = 10" by (rule floor_unique) simp_all
  then show ?thesis
    by (simp add: normalizeHumanGateUndoPolicyV1_def sample_undo_policy_def requested_window_def js_coalesce_def jround_def)
qed

lemma sample_undo:
  "\<exists>u. evaluateHumanGateUndoV1 sample_host sample_human_gate (Str ''2026-08-30T10:00:08Z'') Null Null sample_undo_policy = Inr u \<and> ur_allowed u"
proof -
  have "undo_expires_at sample_host sample_human_gate \<lparr>up_enabled = True, up_window = 10\<rparr> = Inr (Some ''2026-08-30T10:00:10.000Z'')"
    by code_simp
  moreover have "gate_timestamp sample_host (Str ''2026-08-30T10:00:08Z'') = Some 1788084008000"
    "gate_timestamp sample_host (get sample_human_gate ''expires_at_utc'') = Some 1788084030000"
    "gate_timestamp sample_host (Str ''2026-08-30T10:00:10.000Z'') = Some 1788084010000"
    "gate_state sample_human_gate = ''CONFIRMED''"
    by code_simp+
  ultimately show ?thesis
    by (simp add: evaluateHumanGateUndoV1_def sample_policy_normal undo_decision_def REVERSIBLE_STATES_def
        revision_conflict_def present_def undo_not_before_def num_or_zero_def js_or_def)
qed

theorem undo_allowed_is_safe_witness:
  "\<exists>u. evaluateHumanGateUndoV1 sample_host sample_human_gate (Str ''2026-08-30T10:00:08Z'') Null Null sample_undo_policy = Inr u
     \<and> ur_next u = Some ''AWAITING_MANUAL_CONFIRMATION''"
  using sample_undo undo_allowed_is_safe by blast

theorem undo_within_a_minute_witness:
  "\<exists>now d. gate_timestamp sample_host (Str ''2026-08-30T10:00:08Z'') = Some now
     \<and> gate_timestamp sample_host (Str ''2026-08-30T10:00:00Z'') = Some d \<and> now < d + 60000"
proof -
  have "gate_timestamp sample_host (Str ''2026-08-30T10:00:00Z'') = Some 1788084000000"
    "gate_timestamp sample_host (Str ''2026-08-30T10:00:30.000Z'') = Some 1788084030000"
    "to_iso 1788084010000 = Some ''2026-08-30T10:00:10.000Z''"
    by code_simp+
  then have "humanGateUndoDeadlineV1 sample_host (Str ''2026-08-30T10:00:00Z'') (Str ''2026-08-30T10:00:30.000Z'') sample_undo_policy
      = Inr (Some ''2026-08-30T10:00:10.000Z'')"
    by (simp add: humanGateUndoDeadlineV1_def sample_policy_normal iso_of_def)
  moreover have "get sample_human_gate ''undo_expires_at_utc'' = Str ''2026-08-30T10:00:10.000Z''" by (simp add: sample_human_gate_def)
  ultimately show ?thesis using undo_within_a_minute sample_undo by blast
qed

end
