(* ===== verification/Opportunity_Policy.thy ===== *)
theory Opportunity_Policy
  imports Domain_Result Domain_Helpers Lifecycle
begin

text \<open>
  The policy that decides whether a setup may be traded now (\<open>opportunity-policy-v1.js\<close> and
  \<open>opportunity-gate-normalizer-v1.js\<close> in \<open>packages/desk-domain/src\<close>). Every reason against the trade, found in
  the geometry of the setup, its validity, the evaluation of its conditions or the gates it carries, becomes
  an issue with a code of a fixed catalogue. A hard issue blocks from the phase that enforces its code on;
  before that phase it is only deferred. Shown: the catalogue is closed, the failures grow with the phase and
  none is lost, unknown gates block, and what an eligible setup satisfies at each phase.
\<close>

section \<open>opportunity-gate-normalizer-v1.js\<close>

definition HARD_GATE_CODES_V5 :: "string list" where
  "HARD_GATE_CODES_V5 = [''ANTI_LOOKAHEAD_FAILED'', ''SCOPE_CONTRACT_MISMATCH'', ''CANONICAL_TRIGGER_DATA_MISSING'',
     ''GEOMETRY_INVALID'', ''RR_BELOW_MINIMUM'', ''STOP_INVALID'', ''TARGET_INVALID'', ''SETUP_EXPIRED_OR_TERMINAL'',
     ''DETERMINISTIC_VETO_ACTIVE'', ''BROKER_SAFETY_FAILED'', ''MAJOR_EVENT_ENTRY_BLOCK'', ''MANDATORY_INDICATOR_MISSING'']"

definition SOFT_GATE_CODES_V5 :: "string list" where
  "SOFT_GATE_CODES_V5 = [''PACK_DEGRADED'', ''MEGA_CAPS_MISSING_FOR_NQ'', ''PRICE_MID_RANGE'', ''CROSS_ASSET_PARTIAL'',
     ''MACRO_NEUTRAL'', ''NQ_ES_DIVERGENCE'', ''HIGH_VOLATILITY'', ''LEVEL_CONSUMED'', ''CONTEXTUAL_DATA_GAP'',
     ''OPTIONAL_INDICATOR_MISSING'']"

definition CONTEXTUAL_PREFIXES :: "string list" where
  "CONTEXTUAL_PREFIXES = [''CALENDAR_'', ''CL_'', ''DXY_'', ''ES_'', ''GC_'', ''INDICES_'', ''MEGACAPS_'', ''NEWS_'',
     ''NQ_'', ''RATES_'', ''SEMIS_'', ''VIX_'']"

definition ALIASES :: "(string \<times> string) list" where
  "ALIASES =
    [(''BROKER_ACCOUNT_SAFETY_FAILED'', ''BROKER_SAFETY_FAILED''),
     (''BROKER_RECONCILIATION_FAILED'', ''BROKER_SAFETY_FAILED''),
     (''RISK_BUDGET_EXCEEDED'', ''BROKER_SAFETY_FAILED''),
     (''CONTRACT_MISMATCH'', ''SCOPE_CONTRACT_MISMATCH''),
     (''CUTOFF_MISMATCH'', ''SCOPE_CONTRACT_MISMATCH''),
     (''DATA_SCOPE_MISMATCH'', ''SCOPE_CONTRACT_MISMATCH''),
     (''PACK_MISMATCH'', ''SCOPE_CONTRACT_MISMATCH''),
     (''SCOPE_MISMATCH'', ''SCOPE_CONTRACT_MISMATCH''),
     (''INVALID_EVALUATION_TIME'', ''SCOPE_CONTRACT_MISMATCH''),
     (''DIRECTION_INVALID'', ''GEOMETRY_INVALID''),
     (''ENTRY_GEOMETRY_MISSING'', ''GEOMETRY_INVALID''),
     (''EXECUTION_GEOMETRY_INVALID'', ''GEOMETRY_INVALID''),
     (''INVALID_STOP'', ''STOP_INVALID''),
     (''INVALID_TARGET'', ''TARGET_INVALID''),
     (''SETUP_EXPIRED'', ''SETUP_EXPIRED_OR_TERMINAL''),
     (''SETUP_NOT_YET_VALID'', ''SETUP_EXPIRED_OR_TERMINAL''),
     (''SETUP_TERMINAL'', ''SETUP_EXPIRED_OR_TERMINAL''),
     (''HARD_BLOCKER_ACTIVE'', ''DETERMINISTIC_VETO_ACTIVE''),
     (''REQUIRED_STRUCTURAL_DATA_UNAVAILABLE'', ''MANDATORY_INDICATOR_MISSING''),
     (''REQUIRED_STRUCTURAL_CONDITION_FAILED'', ''CANONICAL_TRIGGER_DATA_MISSING''),
     (''REQUIRED_STRUCTURAL_CONDITION_PENDING'', ''CANONICAL_TRIGGER_DATA_MISSING''),
     (''REQUIRED_CONDITION_SEQUENCE_INVALID'', ''CANONICAL_TRIGGER_DATA_MISSING''),
     (''WEIGHTED_CONFIRMATION_BELOW_THRESHOLD'', ''CANONICAL_TRIGGER_DATA_MISSING''),
     (''RED_WINDOW_NO_NEW_ENTRY'', ''MAJOR_EVENT_ENTRY_BLOCK''),
     (''NO_CONTEXTUAL_CONFIRMATION_AVAILABLE'', ''CONTEXTUAL_DATA_GAP''),
     (''CONTEXTUAL_CONDITION_DATA_UNAVAILABLE'', ''CONTEXTUAL_DATA_GAP'')]"

text \<open>
  The code is in upper case, so \<open>ALIASES[code]\<close> finds no property inherited from \<open>Object.prototype\<close>.
\<close>

definition normalizeOpportunityGateCodeV1 :: "jsval \<Rightarrow> string option \<Rightarrow> string" where
  "normalizeOpportunityGateCodeV1 c classification =
     (let normalized = normalizeEnum c
      in if normalized \<in> set HARD_GATE_CODES_V5 \<or> normalized \<in> set SOFT_GATE_CODES_V5 then normalized
         else case map_of ALIASES normalized of Some canonical \<Rightarrow> canonical
         | None \<Rightarrow>
             if list_ex (starts_with normalized) CONTEXTUAL_PREFIXES then ''CONTEXTUAL_DATA_GAP''
             else if str_includes normalized ''OPTIONAL'' \<and> str_includes normalized ''MISSING''
               then ''OPTIONAL_INDICATOR_MISSING''
             else if classification = Some ''soft'' then ''CONTEXTUAL_DATA_GAP'' else ''SCOPE_CONTRACT_MISMATCH'')"

section \<open>The catalogue of opportunity-policy-v1.js\<close>

datatype evaluation_phase = PLAN_COMPILE | SETUP_ARM | ENTRY_TRIGGER | BROKER_SUBMIT

definition OPPORTUNITY_EVALUATION_PHASES_V1 :: "(string \<times> evaluation_phase) list" where
  "OPPORTUNITY_EVALUATION_PHASES_V1 = [(''PLAN_COMPILE'', PLAN_COMPILE), (''SETUP_ARM'', SETUP_ARM),
     (''ENTRY_TRIGGER'', ENTRY_TRIGGER), (''BROKER_SUBMIT'', BROKER_SUBMIT)]"

fun EVALUATION_PHASE_RANK :: "evaluation_phase \<Rightarrow> nat" where
  "EVALUATION_PHASE_RANK PLAN_COMPILE = 0"
| "EVALUATION_PHASE_RANK SETUP_ARM = 1"
| "EVALUATION_PHASE_RANK ENTRY_TRIGGER = 2"
| "EVALUATION_PHASE_RANK BROKER_SUBMIT = 3"

fun phase_name :: "evaluation_phase \<Rightarrow> string" where
  "phase_name PLAN_COMPILE = ''PLAN_COMPILE''"
| "phase_name SETUP_ARM = ''SETUP_ARM''"
| "phase_name ENTRY_TRIGGER = ''ENTRY_TRIGGER''"
| "phase_name BROKER_SUBMIT = ''BROKER_SUBMIT''"

definition HARD_GATE_ENFORCEMENT_PHASES_V5 :: "(string \<times> evaluation_phase) list" where
  "HARD_GATE_ENFORCEMENT_PHASES_V5 =
    [(''ANTI_LOOKAHEAD_FAILED'', PLAN_COMPILE), (''SCOPE_CONTRACT_MISMATCH'', PLAN_COMPILE),
     (''CANONICAL_TRIGGER_DATA_MISSING'', ENTRY_TRIGGER), (''GEOMETRY_INVALID'', SETUP_ARM),
     (''RR_BELOW_MINIMUM'', SETUP_ARM), (''STOP_INVALID'', SETUP_ARM), (''TARGET_INVALID'', SETUP_ARM),
     (''SETUP_EXPIRED_OR_TERMINAL'', ENTRY_TRIGGER), (''DETERMINISTIC_VETO_ACTIVE'', ENTRY_TRIGGER),
     (''BROKER_SAFETY_FAILED'', BROKER_SUBMIT), (''MAJOR_EVENT_ENTRY_BLOCK'', ENTRY_TRIGGER),
     (''MANDATORY_INDICATOR_MISSING'', ENTRY_TRIGGER)]"

definition INTERNAL_HARD_GATE_ALIASES :: "string list" where
  "INTERNAL_HARD_GATE_ALIASES = [''ANTI_LOOKAHEAD_FAILED'', ''BROKER_ACCOUNT_SAFETY_FAILED'',
     ''BROKER_RECONCILIATION_FAILED'', ''CANONICAL_TRIGGER_DATA_MISSING'', ''CONTRACT_MISMATCH'', ''CUTOFF_MISMATCH'',
     ''DATA_SCOPE_MISMATCH'', ''EXECUTION_GEOMETRY_INVALID'', ''HARD_BLOCKER_ACTIVE'', ''INVALID_STOP'',
     ''INVALID_TARGET'', ''PACK_MISMATCH'', ''RISK_BUDGET_EXCEEDED'', ''RR_BELOW_MINIMUM'', ''SCOPE_MISMATCH'',
     ''SETUP_EXPIRED'', ''SETUP_TERMINAL'']"

definition OPPORTUNITY_SEEKING_CONTROLLED :: jsval where
  "OPPORTUNITY_SEEKING_CONTROLLED = Obj
    [(''policy_id'', Str ''OPPORTUNITY_SEEKING_CONTROLLED''), (''policy_version'', Str ''1.2.0''),
     (''weighted_confirmation_threshold'', Num (rnd (55 / 100))), (''max_risk_pct'', Num (rnd (1 / 4))),
     (''min_rr'', Num (Fin 2)), (''optional_advisory_in_score'', Bool False),
     (''unknown_context_is_soft'', Bool True), (''gpt_may_trigger'', Bool False)]"

section \<open>Issues\<close>

record opp_issue =
  i_code :: string
  i_evidence :: jsval

text \<open>\<open>issue(code, evidence = null)\<close>: a code that is not canonical goes to the evidence.\<close>

definition opportunity_issue :: "string \<Rightarrow> jsval \<Rightarrow> opp_issue" where
  "opportunity_issue c ev =
     (let given = (if ev = Undef then Null else ev);
          canonicalCode = normalizeOpportunityGateCodeV1 (Str c) None
      in \<lparr>i_code = canonicalCode,
          i_evidence = (if canonicalCode = c then given
            else Obj [(''internal_gate_code'', Str c), (''evidence'', given)])\<rparr>)"

definition issue_js :: "opp_issue \<Rightarrow> jsval" where
  "issue_js i = Obj [(''code'', Str (i_code i)), (''evidence'', i_evidence i)]"

text \<open>\<open>`${entry.code}:${JSON.stringify(entry.evidence || null)}`\<close>\<close>

definition issue_key :: "opp_issue \<Rightarrow> string" where
  "issue_key i = i_code i @ '':'' @ (case json (js_or (i_evidence i) Null) of Some s \<Rightarrow> s | None \<Rightarrow> ''undefined'')"

fun dedupe_from :: "string set \<Rightarrow> opp_issue list \<Rightarrow> opp_issue list" where
  "dedupe_from seen [] = []"
| "dedupe_from seen (i # is) = (if issue_key i \<in> seen then dedupe_from seen is
     else i # dedupe_from (insert (issue_key i) seen) is)"

definition dedupeIssues :: "opp_issue list \<Rightarrow> opp_issue list" where
  "dedupeIssues issues = dedupe_from {} issues"

section \<open>Gates\<close>

definition FAILED_GATE_STATES :: "string list" where
  "FAILED_GATE_STATES = [''FAIL'', ''FAILED'', ''BLOCK'', ''BLOCKED'', ''REJECTED'', ''RED'', ''UNKNOWN'']"

record opp_gate =
  g_fields :: jsobj
  g_code :: string
  g_failed :: bool
  g_evidence :: jsval

definition normalizeGate :: "jsval \<Rightarrow> string \<Rightarrow> opp_gate" where
  "normalizeGate v fallbackCode =
     (case v of
        Bool b \<Rightarrow> \<lparr>g_fields = [], g_code = normalizeEnum (Str fallbackCode), g_failed = \<not> b, g_evidence = Undef\<rparr>
      | Str s \<Rightarrow> \<lparr>g_fields = [], g_code = normalizeEnum (Str fallbackCode),
            g_failed = normalizeEnum v \<in> set FAILED_GATE_STATES, g_evidence = Undef\<rparr>
      | _ \<Rightarrow>
          (let status = normalizeEnum (js_or (get v ''state'') (js_or (get v ''status'')
                 (js_or (get v ''result'') (get v ''verdict''))))
           in \<lparr>g_fields = obj_or_empty v,
               g_code = normalizeEnum (js_or (get v ''code'') (js_or (get v ''gate_id'') (js_or (get v ''name'') (Str fallbackCode)))),
               g_failed = (get v ''failed'' = Bool True \<or> get v ''passed'' = Bool False \<or> status \<in> set FAILED_GATE_STATES),
               g_evidence = js_or (get v ''evidence'') Null\<rparr>))"

definition normalizeGates :: "jsval \<Rightarrow> opp_gate list" where
  "normalizeGates gates =
     (case gates of
        Arr xs \<Rightarrow> List.map (\<lambda>(i, g). normalizeGate g (''GATE_'' @ nat_str (int i + 1))) (enumerate 0 xs)
      | Obj fs \<Rightarrow> List.map (\<lambda>(name, g). normalizeGate g name) (own_order fs)
      | _ \<Rightarrow> [])"

definition gate_js :: "opp_gate \<Rightarrow> jsval" where
  "gate_js g = Obj (spread (g_fields g) [(''code'', Str (g_code g)), (''failed'', Bool (g_failed g)), (''evidence'', g_evidence g)])"

definition classifyOpportunityGateV1 :: "jsval \<Rightarrow> string" where
  "classifyOpportunityGateV1 g =
     (let c = normalizeEnum (js_or (get g ''code'') (js_or (get g ''gate_id'') (js_or (get g ''name'') (Str ''UNSPECIFIED_GATE''))))
      in if c \<in> set HARD_GATE_CODES_V5 then ''hard''
         else if c \<in> set SOFT_GATE_CODES_V5 then ''soft''
         else if get g ''hard_gate'' = Bool True \<or> get g ''required_for_trigger'' = Bool True
              \<or> get g ''classification'' = Str ''hard'' then ''hard''
         else if c \<in> set INTERNAL_HARD_GATE_ALIASES then ''hard''
         else if list_ex (starts_with c) CONTEXTUAL_PREFIXES then ''soft''
         else if get g ''classification'' = Str ''soft'' \<or> get g ''contextual'' = Bool True then ''soft'' else ''hard'')"

definition canonicalOpportunityGateCodeV1 :: "string \<Rightarrow> string \<Rightarrow> string" where
  "canonicalOpportunityGateCodeV1 c classification = normalizeOpportunityGateCodeV1 (Str c) (Some classification)"

text \<open>The body of the loop over the gates: the issue a failed gate raises, and whether it is hard.\<close>

definition gate_issue :: "opp_gate \<Rightarrow> string \<times> opp_issue" where
  "gate_issue g =
     (let classification = classifyOpportunityGateV1 (gate_js g);
          canonicalCode = canonicalOpportunityGateCodeV1 (g_code g) classification;
          ev = (if g_code g = canonicalCode then g_evidence g
            else Obj [(''internal_gate_code'', Str (g_code g)), (''evidence'', g_evidence g)])
      in (classification, opportunity_issue canonicalCode ev))"

definition gate_issues :: "jsval \<Rightarrow> (string \<times> opp_issue) list" where
  "gate_issues gates = List.map gate_issue (filter g_failed (normalizeGates gates))"

section \<open>Geometry\<close>

definition opp_normalizeDirection :: "jsval \<Rightarrow> string" where
  "opp_normalizeDirection value =
     (let normalized = to_lower (trim (str_or_empty value))
      in if normalized = ''buy'' then ''long'' else if normalized = ''sell'' then ''short'' else normalized)"

definition setup_side :: "jsval \<Rightarrow> string" where
  "setup_side setup = opp_normalizeDirection (js_or (get setup ''direction'') (get setup ''side''))"

definition opp_entryPrice :: "jsval \<Rightarrow> jnum option" where
  "opp_entryPrice setup =
     (case numberOrNull (js_coalesce (get setup ''entry_price'') (get setup ''entry'')) of
        Some direct \<Rightarrow> Some direct
      | None \<Rightarrow>
          (let zone = js_or (get setup ''entry_zone'') (js_or (get setup ''entry_range'') (get setup ''zone''))
           in case (numberOrNull (js_coalesce (get zone ''lower'') (js_coalesce (get zone ''from'') (get zone ''min''))),
                    numberOrNull (js_coalesce (get zone ''upper'') (js_coalesce (get zone ''to'') (get zone ''max'')))) of
             (Some lo, Some up) \<Rightarrow>
               (let low = jmin lo up; high = jmax lo up; d = setup_side setup
                in Some (if d = ''long'' then high else if d = ''short'' then low else jdiv (jadd low high) (Fin 2)))
           | _ \<Rightarrow> None))"

definition opp_targetPrice :: "jsval \<Rightarrow> jnum option" where
  "opp_targetPrice setup =
     (case numberOrNull (js_coalesce (get setup ''take_profit_1'') (js_coalesce (get setup ''tp1'')
         (js_coalesce (get setup ''take_profit'') (get setup ''target'')))) of
        Some direct \<Rightarrow> Some direct
      | None \<Rightarrow>
          (case get setup ''take_profits'' of
             Arr xs \<Rightarrow> (let first = (case xs of x # _ \<Rightarrow> x | [] \<Rightarrow> Undef)
               in numberOrNull (js_coalesce (get first ''target'') (js_coalesce (get first ''price'')
                    (js_coalesce (get first ''level'') first))))
           | Obj fs \<Rightarrow> numberOrNull (js_coalesce (fget fs ''tp1'') (js_coalesce (fget fs ''take_profit_1'') (fget fs ''target'')))
           | _ \<Rightarrow> None))"

definition opp_stopPrice :: "jsval \<Rightarrow> jnum option" where
  "opp_stopPrice setup = numberOrNull (js_coalesce (get setup ''stop_loss'') (js_coalesce (get setup ''stop'') (get setup ''sl'')))"

definition opp_riskPct :: "jsval \<Rightarrow> jnum option" where
  "opp_riskPct setup = numberOrNull (js_coalesce (get setup ''risk_pct'') (get setup ''risk_percent''))"

definition points_between :: "jnum option \<Rightarrow> jnum option \<Rightarrow> jnum option" where
  "points_between a b = (case (a, b) of (Some x, Some y) \<Rightarrow> Some (jabs (jsub x y)) | _ \<Rightarrow> None)"

definition opp_computedRr :: "jsval \<Rightarrow> jnum option" where
  "opp_computedRr setup =
     (case (points_between (opp_entryPrice setup) (opp_stopPrice setup),
            points_between (opp_targetPrice setup) (opp_entryPrice setup)) of
        (Some risk, Some reward) \<Rightarrow> if truthy (Num risk) then Some (round_digits (jdiv reward risk) 4) else None
      | _ \<Rightarrow> None)"

definition opp_effectiveRr :: "jsval \<Rightarrow> jnum option" where
  "opp_effectiveRr setup =
     (case opp_computedRr setup of Some v \<Rightarrow> Some v
      | None \<Rightarrow> numberOrNull (js_coalesce (get setup ''rr_minimum'') (js_coalesce (get setup ''rr'') (get setup ''reward_risk''))))"

definition prices_ordered :: "string \<Rightarrow> jnum \<Rightarrow> jnum \<Rightarrow> jnum \<Rightarrow> bool" where
  "prices_ordered d e s t =
     (if d = ''long'' then jlt s e \<and> jlt e t else if d = ''short'' then jlt t e \<and> jlt e s else False)"

definition rr_below :: "jsval \<Rightarrow> jsval \<Rightarrow> bool" where
  "rr_below setup policy =
     (case opp_effectiveRr setup of None \<Rightarrow> True | Some v \<Rightarrow> jlt v (to_num (get policy ''min_rr'')))"

definition risk_exceeded :: "jsval \<Rightarrow> jsval \<Rightarrow> bool" where
  "risk_exceeded setup policy =
     (case opp_riskPct setup of None \<Rightarrow> True
      | Some r \<Rightarrow> jle r (Fin 0) \<or> jlt (to_num (get policy ''max_risk_pct'')) r)"

text \<open>\<open>if (b) list.push(issue(code, evidence))\<close>\<close>

definition issue_if :: "bool \<Rightarrow> string \<Rightarrow> jsval \<Rightarrow> opp_issue list" where
  "issue_if b c ev = (if b then [opportunity_issue c ev] else [])"

definition geometry_failures :: "jsval \<Rightarrow> jsval \<Rightarrow> opp_issue list" where
  "geometry_failures setup policy =
     (let d = setup_side setup
      in issue_if (d \<notin> {''long'', ''short''}) ''DIRECTION_INVALID'' Undef
       @ issue_if (opp_entryPrice setup = None) ''ENTRY_GEOMETRY_MISSING'' Undef
       @ issue_if (opp_stopPrice setup = None) ''INVALID_STOP'' Undef
       @ issue_if (opp_targetPrice setup = None) ''INVALID_TARGET'' Undef
       @ (case (opp_entryPrice setup, opp_stopPrice setup, opp_targetPrice setup) of
            (Some e, Some s, Some t) \<Rightarrow> issue_if (\<not> prices_ordered d e s t) ''EXECUTION_GEOMETRY_INVALID'' Undef
          | _ \<Rightarrow> [])
       @ issue_if (rr_below setup policy) ''RR_BELOW_MINIMUM''
           (Obj [(''rr'', js_opt_num (opp_effectiveRr setup)), (''minimum'', get policy ''min_rr'')])
       @ issue_if (risk_exceeded setup policy) ''RISK_BUDGET_EXCEEDED''
           (Obj [(''risk_pct'', js_opt_num (opp_riskPct setup)), (''maximum'', get policy ''max_risk_pct'')]))"

definition evaluateCanonicalGeometry :: "jsval \<Rightarrow> jsval \<Rightarrow> jsobj" where
  "evaluateCanonicalGeometry setup policy =
    [(''valid'', Bool (geometry_failures setup policy = [])),
     (''direction'', Str (setup_side setup)),
     (''entry_price'', js_opt_num (opp_entryPrice setup)),
     (''stop_loss'', js_opt_num (opp_stopPrice setup)),
     (''take_profit_1'', js_opt_num (opp_targetPrice setup)),
     (''risk_points'', js_opt_num (points_between (opp_entryPrice setup) (opp_stopPrice setup))),
     (''reward_points'', js_opt_num (points_between (opp_targetPrice setup) (opp_entryPrice setup))),
     (''computed_rr'', js_opt_num (opp_computedRr setup)),
     (''effective_rr'', js_opt_num (opp_effectiveRr setup)),
     (''risk_pct'', js_opt_num (opp_riskPct setup)),
     (''hard_failures'', Arr (List.map issue_js (dedupeIssues (geometry_failures setup policy))))]"

section \<open>Validity of the setup and of its conditions\<close>

definition opp_status :: "jsval \<Rightarrow> string" where
  "opp_status setup = normalizeEnum (js_or (get setup ''status'') (js_or (get setup ''lifecycle_status'') (get setup ''setup_status'')))"

definition status_issues :: "jsval \<Rightarrow> opp_issue list" where
  "status_issues setup =
     issue_if (opp_status setup \<in> {''TRIGGERED'', ''CANCELLED'', ''EXPIRED'', ''INVALIDATED'', ''REPLACED''})
       ''SETUP_TERMINAL'' (Obj [(''status'', Str (opp_status setup))])"

definition opp_valid_from :: "jsval \<Rightarrow> jsval" where
  "opp_valid_from setup = js_or (get setup ''valid_from_paris'') (get setup ''valid_from'')"

definition opp_expires_at :: "jsval \<Rightarrow> jsval" where
  "opp_expires_at setup = js_or (get setup ''expires_at_paris'') (js_or (get setup ''expires_at'')
     (js_or (get setup ''valid_until_paris'') (get setup ''valid_until'')))"

definition time_issues :: "host \<Rightarrow> jsval \<Rightarrow> jsval \<Rightarrow> opp_issue list" where
  "time_issues H setup nowParis =
     (let nowMs = parseTimestamp H nowParis;
          validFromMs = parseTimestamp H (opp_valid_from setup);
          expiresAtMs = parseTimestamp H (opp_expires_at setup)
      in if truthy nowParis \<and> nowMs = None then
           [opportunity_issue ''INVALID_EVALUATION_TIME'' (Obj [(''now_paris'', nowParis)])]
         else if (case (nowMs, validFromMs) of (Some n, Some v) \<Rightarrow> n < v | _ \<Rightarrow> False) then
           [opportunity_issue ''SETUP_NOT_YET_VALID''
              (Obj [(''now_paris'', nowParis), (''valid_from_paris'', opp_valid_from setup)])]
         else if (case (nowMs, expiresAtMs) of (Some n, Some x) \<Rightarrow> x \<le> n | _ \<Rightarrow> False) then
           [opportunity_issue ''SETUP_EXPIRED''
              (Obj [(''now_paris'', nowParis), (''expires_at_paris'', opp_expires_at setup)])]
         else [])"

definition ids_or_empty :: "jsval \<Rightarrow> string \<Rightarrow> jsval" where
  "ids_or_empty ce k = js_or (get ce k) (Arr [])"

definition above_zero :: "jsval \<Rightarrow> string \<Rightarrow> bool" where
  "above_zero ce k = jlt (Fin 0) (num_or_zero (get ce k))"

definition condition_issues :: "jsval \<Rightarrow> opp_issue list" where
  "condition_issues ce =
     issue_if (above_zero ce ''hard_blockers_active'') ''HARD_BLOCKER_ACTIVE''
       (Obj [(''condition_ids'', ids_or_empty ce ''hard_blocker_condition_ids'')])
   @ issue_if (above_zero ce ''hard_blockers_unknown'') ''CANONICAL_TRIGGER_DATA_MISSING''
       (Obj [(''reason'', Str ''HARD_BLOCKER_DATA_UNAVAILABLE''),
             (''condition_ids'', ids_or_empty ce ''hard_blocker_unknown_condition_ids'')])
   @ issue_if (above_zero ce ''required_failed'') ''REQUIRED_STRUCTURAL_CONDITION_FAILED''
       (Obj [(''condition_ids'', ids_or_empty ce ''required_failed_condition_ids'')])
   @ issue_if (above_zero ce ''required_unknown'') ''REQUIRED_STRUCTURAL_DATA_UNAVAILABLE''
       (Obj [(''condition_ids'', ids_or_empty ce ''required_unknown_condition_ids'')])
   @ issue_if (get ce ''sequence_valid'' = Bool False) ''REQUIRED_CONDITION_SEQUENCE_INVALID''
       (Obj [(''condition_ids'', ids_or_empty ce ''sequence_violation_condition_ids'')])"

section \<open>The confirmation score\<close>

definition weighted_score :: "jsval \<Rightarrow> jnum option" where
  "weighted_score ce = numberOrNull (get ce ''weighted_confirmation_score'')"

definition known_score :: "jsval \<Rightarrow> jnum option" where
  "known_score ce = (case numberOrNull (get ce ''weighted_known_confirmation_score'') of
     Some v \<Rightarrow> Some v | None \<Rightarrow> weighted_score ce)"

definition is_zero :: "jsval \<Rightarrow> string \<Rightarrow> bool" where
  "is_zero ce k = jnumeq (num_or_zero (get ce k)) (Fin 0)"

definition primaryCoverageReady :: "jsval \<Rightarrow> bool" where
  "primaryCoverageReady ce \<longleftrightarrow> is_zero ce ''primary_confirmation_total'' \<or> above_zero ce ''primary_confirmation_known''"

definition score_reaches :: "jsval \<Rightarrow> jsval \<Rightarrow> bool" where
  "score_reaches ce policy = (case known_score ce of None \<Rightarrow> False
     | Some v \<Rightarrow> jle (to_num (get policy ''weighted_confirmation_threshold'')) v)"

definition score_below :: "jsval \<Rightarrow> jsval \<Rightarrow> bool" where
  "score_below ce policy = (case known_score ce of None \<Rightarrow> True
     | Some v \<Rightarrow> jlt v (to_num (get policy ''weighted_confirmation_threshold'')))"

definition score_issues :: "jsval \<Rightarrow> jsval \<Rightarrow> opp_issue list" where
  "score_issues ce policy =
     issue_if (above_zero ce ''scored_confirmation_count'' \<and> primaryCoverageReady ce \<and> score_below ce policy)
       ''WEIGHTED_CONFIRMATION_BELOW_THRESHOLD''
       (Obj [(''score'', js_opt_num (known_score ce)), (''threshold'', get policy ''weighted_confirmation_threshold'')])"

definition score_gaps :: "jsval \<Rightarrow> jsval \<Rightarrow> opp_issue list" where
  "score_gaps ce policy =
     issue_if (is_zero ce ''scored_confirmation_count'') ''NO_CONTEXTUAL_CONFIRMATION_AVAILABLE''
       (Obj [(''threshold'', get policy ''weighted_confirmation_threshold'')])
   @ issue_if (\<not> primaryCoverageReady ce) ''CONTEXTUAL_DATA_GAP''
       (Obj [(''reason'', Str ''PRIMARY_CONFIRMATION_NOT_YET_KNOWN''),
             (''primary_total'', Num (num_or_zero (get ce ''primary_confirmation_total'')))])"

definition triggerScoreReady :: "jsval \<Rightarrow> jsval \<Rightarrow> bool" where
  "triggerScoreReady ce policy \<longleftrightarrow>
     is_zero ce ''configured_confirmation_count'' \<or> (primaryCoverageReady ce \<and> score_reaches ce policy)"

definition structuralConditionsReady :: "jsval \<Rightarrow> bool" where
  "structuralConditionsReady ce \<longleftrightarrow> is_zero ce ''required_pending'' \<and> is_zero ce ''required_not_started''"

section \<open>evaluateOpportunitySeekingControlledV1\<close>

definition normalizeEvaluationPhase :: "jsval \<Rightarrow> evaluation_phase" where
  "normalizeEvaluationPhase value =
     (let normalized = normalizeEnum value
      in case map_of OPPORTUNITY_EVALUATION_PHASES_V1 normalized of Some p \<Rightarrow> p
         | None \<Rightarrow> if normalized = ''COMPILE'' then PLAN_COMPILE else ENTRY_TRIGGER)"

definition enforcement_phase :: "string \<Rightarrow> evaluation_phase" where
  "enforcement_phase c = (case map_of HARD_GATE_ENFORCEMENT_PHASES_V5 c of Some p \<Rightarrow> p | None \<Rightarrow> PLAN_COMPILE)"

definition deferred_at :: "evaluation_phase \<Rightarrow> opp_issue \<Rightarrow> bool" where
  "deferred_at p i \<longleftrightarrow> EVALUATION_PHASE_RANK p < EVALUATION_PHASE_RANK (enforcement_phase (i_code i))"

definition partitionHardGatesByPhase :: "opp_issue list \<Rightarrow> evaluation_phase \<Rightarrow> opp_issue list \<times> opp_issue list" where
  "partitionHardGatesByPhase candidates p =
     (filter (\<lambda>i. \<not> deferred_at p i) (dedupeIssues candidates), filter (deferred_at p) (dedupeIssues candidates))"

text \<open>The parameters of the call, with their defaults.\<close>

definition opp_setup :: "jsval \<Rightarrow> jsval" where
  "opp_setup input = (if get input ''setup'' = Undef then Obj [] else get input ''setup'')"

definition opp_conditions :: "jsval \<Rightarrow> jsval" where
  "opp_conditions input = (if get input ''conditionEvaluation'' = Undef then Obj [] else get input ''conditionEvaluation'')"

definition opp_policy :: "jsval \<Rightarrow> jsval" where
  "opp_policy input = (if get input ''policy'' = Undef then OPPORTUNITY_SEEKING_CONTROLLED else get input ''policy'')"

definition opp_now :: "jsval \<Rightarrow> jsval" where
  "opp_now input = (if get input ''nowParis'' = Undef then Null else get input ''nowParis'')"

definition opp_phase :: "jsval \<Rightarrow> evaluation_phase" where
  "opp_phase input = normalizeEvaluationPhase (default_param (get input ''phase'') ''ENTRY_TRIGGER'')"

definition hardGateCandidates :: "host \<Rightarrow> jsval \<Rightarrow> opp_issue list" where
  "hardGateCandidates H input =
     (let setup = opp_setup input; ce = opp_conditions input
      in dedupeIssues (geometry_failures setup (opp_policy input))
       @ status_issues setup
       @ time_issues H setup (opp_now input)
       @ condition_issues ce
       @ score_issues ce (opp_policy input)
       @ List.map snd (filter (\<lambda>ci. fst ci = ''hard'') (gate_issues (get input ''gates''))))"

definition softGaps :: "jsval \<Rightarrow> opp_issue list" where
  "softGaps input =
     (let ce = opp_conditions input
      in score_gaps ce (opp_policy input)
       @ List.map snd (filter (\<lambda>ci. fst ci \<noteq> ''hard'') (gate_issues (get input ''gates'')))
       @ List.map (\<lambda>c. opportunity_issue ''CONTEXTUAL_CONDITION_DATA_UNAVAILABLE'' (Obj [(''condition_id'', c)]))
           (arr_or_empty (get ce ''soft_unknown_condition_ids'')))"

definition hardFailures :: "host \<Rightarrow> jsval \<Rightarrow> opp_issue list" where
  "hardFailures H input = fst (partitionHardGatesByPhase (hardGateCandidates H input) (opp_phase input))"

definition deferredHardGates :: "host \<Rightarrow> jsval \<Rightarrow> opp_issue list" where
  "deferredHardGates H input = snd (partitionHardGatesByPhase (hardGateCandidates H input) (opp_phase input))"

definition evaluateOpportunitySeekingControlledV1 :: "host \<Rightarrow> jsval \<Rightarrow> jsobj" where
  "evaluateOpportunitySeekingControlledV1 H input =
     (let ce = opp_conditions input; policy = opp_policy input; fs = hardFailures H input
      in [(''schema_version'', Str ''opportunity_policy_evaluation_v1_2''),
          (''policy_id'', get policy ''policy_id''),
          (''policy_version'', get policy ''policy_version''),
          (''evaluation_phase'', Str (phase_name (opp_phase input))),
          (''eligible'', Bool (fs = [])),
          (''trigger_eligible'', Bool (fs = [] \<and> triggerScoreReady ce policy \<and> structuralConditionsReady ce)),
          (''decision'', Str (if fs = [] then ''ALLOW_CONDITIONAL_OPPORTUNITY'' else ''BLOCK'')),
          (''weighted_confirmation_score'', js_opt_num (weighted_score ce)),
          (''weighted_known_confirmation_score'', js_opt_num (known_score ce)),
          (''primary_confirmation_coverage_ready'', Bool (primaryCoverageReady ce)),
          (''structural_conditions_ready'', Bool (structuralConditionsReady ce)),
          (''weighted_confirmation_threshold'', get policy ''weighted_confirmation_threshold''),
          (''max_risk_pct'', get policy ''max_risk_pct''),
          (''min_rr'', get policy ''min_rr''),
          (''hard_failures'', Arr (List.map issue_js (dedupeIssues fs))),
          (''deferred_hard_gates'', Arr (List.map issue_js (dedupeIssues (deferredHardGates H input)))),
          (''soft_gaps'', Arr (List.map issue_js (dedupeIssues (softGaps input)))),
          (''geometry'', Obj (evaluateCanonicalGeometry (opp_setup input) policy))])"

section \<open>Facts\<close>

subsection \<open>The catalogue is closed\<close>

definition registered :: "string \<Rightarrow> bool" where
  "registered c \<longleftrightarrow> c \<in> set HARD_GATE_CODES_V5 \<or> c \<in> set SOFT_GATE_CODES_V5"

lemma aliases_registered: "map_of ALIASES c = Some d \<Longrightarrow> registered d"
proof -
  assume "map_of ALIASES c = Some d"
  then have "d \<in> snd ` set ALIASES" by (force dest: map_of_SomeD)
  moreover have "list_all registered (List.map snd ALIASES)" by code_simp
  ultimately show ?thesis by (auto simp: list_all_iff)
qed

lemma registered_samples: "registered ''CONTEXTUAL_DATA_GAP''" "registered ''OPTIONAL_INDICATOR_MISSING''"
  "registered ''SCOPE_CONTRACT_MISMATCH''"
  by code_simp+

lemma normalizeEnum_registered: "registered c \<Longrightarrow> normalizeEnum (Str c) = c"
proof -
  have "list_all (\<lambda>c. normalizeEnum (Str c) = c) (HARD_GATE_CODES_V5 @ SOFT_GATE_CODES_V5)" by code_simp
  then show "registered c \<Longrightarrow> normalizeEnum (Str c) = c" by (auto simp: list_all_iff registered_def)
qed

lemma normalize_registered: "registered (normalizeOpportunityGateCodeV1 v c)"
  unfolding normalizeOpportunityGateCodeV1_def Let_def
  by (auto simp: registered_samples aliases_registered split: option.split) (simp_all add: registered_def)

lemma normalize_fixes: "registered c \<Longrightarrow> normalizeOpportunityGateCodeV1 (Str c) k = c"
  by (simp add: normalizeOpportunityGateCodeV1_def normalizeEnum_registered registered_def)

lemma issue_registered: "registered (i_code (opportunity_issue c ev))"
  by (simp add: opportunity_issue_def normalize_registered Let_def)

lemma issue_code: "i_code (opportunity_issue c ev) = normalizeOpportunityGateCodeV1 (Str c) None"
  by (simp add: opportunity_issue_def Let_def)

subsection \<open>Removing duplicates keeps every key\<close>

lemma dedupe_from_set: "set (dedupe_from seen is) \<subseteq> set is"
  by (induction seen "is" rule: dedupe_from.induct) auto

lemma dedupe_from_keys: "issue_key ` set (dedupe_from seen is) \<union> seen = issue_key ` set is \<union> seen"
proof (induction seen "is" rule: dedupe_from.induct)
  case (2 seen i rest)
  then show ?case by (cases "issue_key i \<in> seen") auto
qed simp

lemma dedupe_from_fresh: "issue_key ` set (dedupe_from seen is) \<inter> seen = {}"
  by (induction seen "is" rule: dedupe_from.induct) auto

lemma dedupe_from_id: "distinct (List.map issue_key is) \<Longrightarrow> issue_key ` set is \<inter> seen = {} \<Longrightarrow> dedupe_from seen is = is"
  by (induction seen "is" rule: dedupe_from.induct) auto

lemma dedupe_from_distinct: "distinct (List.map issue_key (dedupe_from seen is))"
proof (induction seen "is" rule: dedupe_from.induct)
  case (2 seen i rest)
  then show ?case using dedupe_from_fresh[of "insert (issue_key i) seen" rest] by (auto simp: disjoint_iff)
qed simp

lemma dedupeIssues_set: "set (dedupeIssues is) \<subseteq> set is"
  by (simp add: dedupeIssues_def dedupe_from_set)

lemma dedupeIssues_keys: "issue_key ` set (dedupeIssues is) = issue_key ` set is"
  using dedupe_from_keys[of "{}" "is"] by (simp add: dedupeIssues_def)

lemma dedupeIssues_distinct: "distinct (List.map issue_key (dedupeIssues is))"
  by (simp add: dedupeIssues_def dedupe_from_distinct)

lemma dedupeIssues_id: "distinct (List.map issue_key is) \<Longrightarrow> dedupeIssues is = is"
  by (simp add: dedupeIssues_def dedupe_from_id)

lemma dedupeIssues_Nil [simp]: "dedupeIssues is = [] \<longleftrightarrow> is = []"
  using dedupeIssues_keys[of "is"] by (cases "is") (auto simp: dedupeIssues_def)

text \<open>No code of the catalogue has a colon, so the key of an issue determines its code.\<close>

lemma registered_no_colon: "registered c \<Longrightarrow> CHR '':'' \<notin> set c"
proof -
  have "list_all (\<lambda>c. CHR '':'' \<notin> set c) (HARD_GATE_CODES_V5 @ SOFT_GATE_CODES_V5)" by code_simp
  then show "registered c \<Longrightarrow> CHR '':'' \<notin> set c" by (auto simp: list_all_iff registered_def)
qed

lemma key_code: "registered (i_code i) \<Longrightarrow> takeWhile (\<lambda>c. c \<noteq> CHR '':'') (issue_key i) = i_code i"
  using registered_no_colon[of "i_code i"] by (auto simp: issue_key_def takeWhile_append)

lemma dedupeIssues_code:
  assumes "i \<in> set is" and "\<And>j. j \<in> set is \<Longrightarrow> registered (i_code j)"
  shows "\<exists>j \<in> set (dedupeIssues is). i_code j = i_code i"
proof -
  obtain j where j: "j \<in> set (dedupeIssues is)" "issue_key j = issue_key i"
    using assms(1) dedupeIssues_keys[of "is"] by (metis (no_types) imageE imageI)
  moreover have "j \<in> set is" using j(1) dedupeIssues_set by blast
  ultimately show ?thesis using assms key_code[of j] key_code[of i] by metis
qed

subsection \<open>Phases\<close>

definition issues_registered :: "opp_issue list \<Rightarrow> bool" where
  "issues_registered is \<longleftrightarrow> (\<forall>i \<in> set is. registered (i_code i))"

lemma issues_registered_simps [simp]:
  "issues_registered []" "issues_registered (i # is) \<longleftrightarrow> registered (i_code i) \<and> issues_registered is"
  "issues_registered (xs @ ys) \<longleftrightarrow> issues_registered xs \<and> issues_registered ys"
  by (auto simp: issues_registered_def)

lemma issue_if_registered [simp]: "issues_registered (issue_if b c ev)"
  by (simp add: issue_if_def issue_registered)

lemma gate_issue_code: "i_code (snd (gate_issue g)) =
    normalizeOpportunityGateCodeV1 (Str (g_code g)) (Some (fst (gate_issue g)))"
  by (simp add: gate_issue_def Let_def issue_code canonicalOpportunityGateCodeV1_def normalize_fixes normalize_registered)

lemma gate_issues_registered: "issues_registered (List.map snd (filter P (gate_issues gs)))"
  by (auto simp: issues_registered_def gate_issues_def) (metis gate_issue_code normalize_registered snd_conv)

lemma candidates_registered: "issues_registered (hardGateCandidates H input)"
proof -
  have geometry: "issues_registered (geometry_failures s p)" for s p
    by (simp add: geometry_failures_def Let_def split: option.split)
  then have "issues_registered (dedupeIssues (geometry_failures s p))" for s p
    using dedupeIssues_set by (fastforce simp: issues_registered_def)
  moreover have "issues_registered (status_issues s)" "issues_registered (condition_issues ce)"
    "issues_registered (score_issues ce p)" for s ce p
    by (simp_all add: status_issues_def condition_issues_def score_issues_def)
  moreover have "issues_registered (time_issues H s t)" for s t
    by (simp add: time_issues_def Let_def issue_registered)
  ultimately show ?thesis by (simp add: hardGateCandidates_def Let_def gate_issues_registered)
qed

lemma dedupe_registered: "issues_registered is \<Longrightarrow> issues_registered (dedupeIssues is)"
  using dedupeIssues_set[of "is"] by (auto simp: issues_registered_def)

lemma gaps_registered: "issues_registered (softGaps input)"
  by (auto simp: softGaps_def score_gaps_def Let_def gate_issues_registered) (auto simp: issues_registered_def issue_registered)

lemma evaluation_lists:
  "fget (evaluateOpportunitySeekingControlledV1 H input) ''hard_failures'' = Arr (List.map issue_js (dedupeIssues (hardFailures H input)))"
  "fget (evaluateOpportunitySeekingControlledV1 H input) ''deferred_hard_gates'' = Arr (List.map issue_js (dedupeIssues (deferredHardGates H input)))"
  "fget (evaluateOpportunitySeekingControlledV1 H input) ''soft_gaps'' = Arr (List.map issue_js (dedupeIssues (softGaps input)))"
  by (simp_all add: evaluateOpportunitySeekingControlledV1_def Let_def)

lemma listed_codes: "issues_registered is \<Longrightarrow>
    list_all (\<lambda>i. get i ''code'' \<in> Str ` (set HARD_GATE_CODES_V5 \<union> set SOFT_GATE_CODES_V5)) (List.map issue_js is)"
  by (auto simp: issues_registered_def registered_def issue_js_def list_all_iff)

lemma hardFailures_def2: "hardFailures H input = filter (\<lambda>i. \<not> deferred_at (opp_phase input) i) (dedupeIssues (hardGateCandidates H input))"
  and deferredHardGates_def2: "deferredHardGates H input = filter (deferred_at (opp_phase input)) (dedupeIssues (hardGateCandidates H input))"
  by (simp_all add: hardFailures_def deferredHardGates_def partitionHardGatesByPhase_def)

text \<open>An evaluation has no failure when every candidate is of a code that a later phase enforces.\<close>

lemma no_failure_iff:
  "hardFailures H input = [] \<longleftrightarrow> (\<forall>i \<in> set (hardGateCandidates H input). deferred_at (opp_phase input) i)"
proof
  assume none: "hardFailures H input = []"
  show "\<forall>i \<in> set (hardGateCandidates H input). deferred_at (opp_phase input) i"
  proof
    fix i assume "i \<in> set (hardGateCandidates H input)"
    then obtain j where "j \<in> set (dedupeIssues (hardGateCandidates H input))" "i_code j = i_code i"
      using dedupeIssues_code candidates_registered[of H input] unfolding issues_registered_def by blast
    then show "deferred_at (opp_phase input) i"
      using none by (auto simp: hardFailures_def2 filter_empty_conv deferred_at_def)
  qed
next
  assume "\<forall>i \<in> set (hardGateCandidates H input). deferred_at (opp_phase input) i"
  then show "hardFailures H input = []"
    using dedupeIssues_set by (fastforce simp: hardFailures_def2 filter_empty_conv)
qed

lemma hardFailures_distinct: "dedupeIssues (hardFailures H input) = hardFailures H input"
  by (rule dedupeIssues_id) (simp add: hardFailures_def2 distinct_map_filter dedupeIssues_distinct)

lemma eligible_iff [simp]:
  "fget (evaluateOpportunitySeekingControlledV1 H input) ''eligible'' = Bool True \<longleftrightarrow> hardFailures H input = []"
  by (simp add: evaluateOpportunitySeekingControlledV1_def Let_def)

lemma trigger_eligible_iff [simp]:
  "fget (evaluateOpportunitySeekingControlledV1 H input) ''trigger_eligible'' =
     Bool (hardFailures H input = [] \<and> triggerScoreReady (opp_conditions input) (opp_policy input)
       \<and> structuralConditionsReady (opp_conditions input))"
  by (simp add: evaluateOpportunitySeekingControlledV1_def Let_def)

text \<open>The same call at another phase.\<close>

definition at_phase :: "evaluation_phase \<Rightarrow> jsobj \<Rightarrow> jsval" where
  "at_phase p fs = Obj (fset ''phase'' (Str (phase_name p)) fs)"

lemma opp_phase_at [simp]: "opp_phase (at_phase p fs) = p"
proof -
  have "list_all (\<lambda>q. normalizeEvaluationPhase (Str (phase_name q)) = q) [PLAN_COMPILE, SETUP_ARM, ENTRY_TRIGGER, BROKER_SUBMIT]"
    by code_simp
  then have "normalizeEvaluationPhase (Str (phase_name p)) = p" by (cases p) simp_all
  then show ?thesis by (simp add: opp_phase_def at_phase_def)
qed

lemma candidates_at [simp]: "hardGateCandidates H (at_phase p fs) = hardGateCandidates H (Obj fs)"
  by (simp add: hardGateCandidates_def at_phase_def opp_setup_def opp_conditions_def opp_policy_def opp_now_def)

subsection \<open>What an eligible setup satisfies\<close>

lemma hard_candidate_blocks:
  assumes "hardFailures H input = []" and "opportunity_issue c ev \<in> set (hardGateCandidates H input)"
  shows "EVALUATION_PHASE_RANK (opp_phase input)
    < EVALUATION_PHASE_RANK (enforcement_phase (normalizeOpportunityGateCodeV1 (Str c) None))"
proof -
  have "deferred_at (opp_phase input) (opportunity_issue c ev)"
    using assms by (simp only: no_failure_iff)
  then show ?thesis by (simp add: deferred_at_def issue_code)
qed

lemma issue_if_absent: "opportunity_issue c ev \<notin> set (issue_if b c ev) \<Longrightarrow> \<not> b"
  by (auto simp: issue_if_def split: if_splits)

lemma enforced_at_arm:
  "enforcement_phase (normalizeOpportunityGateCodeV1 (Str ''DIRECTION_INVALID'') None) = SETUP_ARM"
  "enforcement_phase (normalizeOpportunityGateCodeV1 (Str ''ENTRY_GEOMETRY_MISSING'') None) = SETUP_ARM"
  "enforcement_phase (normalizeOpportunityGateCodeV1 (Str ''INVALID_STOP'') None) = SETUP_ARM"
  "enforcement_phase (normalizeOpportunityGateCodeV1 (Str ''INVALID_TARGET'') None) = SETUP_ARM"
  "enforcement_phase (normalizeOpportunityGateCodeV1 (Str ''EXECUTION_GEOMETRY_INVALID'') None) = SETUP_ARM"
  "enforcement_phase (normalizeOpportunityGateCodeV1 (Str ''RR_BELOW_MINIMUM'') None) = SETUP_ARM"
  by code_simp+

lemma enforced_at_trigger:
  "enforcement_phase (normalizeOpportunityGateCodeV1 (Str ''SETUP_TERMINAL'') None) = ENTRY_TRIGGER"
  "enforcement_phase (normalizeOpportunityGateCodeV1 (Str ''SETUP_NOT_YET_VALID'') None) = ENTRY_TRIGGER"
  "enforcement_phase (normalizeOpportunityGateCodeV1 (Str ''SETUP_EXPIRED'') None) = ENTRY_TRIGGER"
  "enforcement_phase (normalizeOpportunityGateCodeV1 (Str ''HARD_BLOCKER_ACTIVE'') None) = ENTRY_TRIGGER"
  "enforcement_phase (normalizeOpportunityGateCodeV1 (Str ''CANONICAL_TRIGGER_DATA_MISSING'') None) = ENTRY_TRIGGER"
  "enforcement_phase (normalizeOpportunityGateCodeV1 (Str ''REQUIRED_STRUCTURAL_CONDITION_FAILED'') None) = ENTRY_TRIGGER"
  "enforcement_phase (normalizeOpportunityGateCodeV1 (Str ''REQUIRED_STRUCTURAL_DATA_UNAVAILABLE'') None) = ENTRY_TRIGGER"
  "enforcement_phase (normalizeOpportunityGateCodeV1 (Str ''REQUIRED_CONDITION_SEQUENCE_INVALID'') None) = ENTRY_TRIGGER"
  "enforcement_phase (normalizeOpportunityGateCodeV1 (Str ''WEIGHTED_CONFIRMATION_BELOW_THRESHOLD'') None) = ENTRY_TRIGGER"
  by code_simp+

lemma enforced_elsewhere:
  "enforcement_phase (normalizeOpportunityGateCodeV1 (Str ''RISK_BUDGET_EXCEEDED'') None) = BROKER_SUBMIT"
  "enforcement_phase (normalizeOpportunityGateCodeV1 (Str ''INVALID_EVALUATION_TIME'') None) = PLAN_COMPILE"
  by code_simp+

abbreviation from_phase :: "evaluation_phase \<Rightarrow> jsval \<Rightarrow> bool" where
  "from_phase p input \<equiv> EVALUATION_PHASE_RANK p \<le> EVALUATION_PHASE_RANK (opp_phase input)"

lemma geometry_enforced:
  assumes "hardFailures H input = []"
    and "from_phase (enforcement_phase (normalizeOpportunityGateCodeV1 (Str c) None)) input"
  shows "opportunity_issue c ev \<notin> set (geometry_failures (opp_setup input) (opp_policy input))"
proof
  assume issue: "opportunity_issue c ev \<in> set (geometry_failures (opp_setup input) (opp_policy input))"
  have "registered (i_code j)" if "j \<in> set (geometry_failures s q)" for j s q
    using that by (auto simp: geometry_failures_def Let_def issue_if_def issue_registered split: if_splits option.splits)
  then obtain j where j: "j \<in> set (dedupeIssues (geometry_failures (opp_setup input) (opp_policy input)))"
    "i_code j = i_code (opportunity_issue c ev)"
    using dedupeIssues_code[OF issue] by blast
  then have "j \<in> set (hardGateCandidates H input)" by (simp add: hardGateCandidates_def Let_def)
  then have "deferred_at (opp_phase input) j" using assms(1) by (simp only: no_failure_iff)
  with j(2) assms(2) show False by (simp add: deferred_at_def issue_code)
qed

lemma candidate_enforced:
  assumes "hardFailures H input = []"
    and "from_phase (enforcement_phase (normalizeOpportunityGateCodeV1 (Str c) None)) input"
  shows "opportunity_issue c ev \<notin> set (hardGateCandidates H input)"
  using hard_candidate_blocks[OF assms(1)] assms(2) by fastforce

text \<open>Prices in the order of the direction, and a reward/risk that is not below the minimum.\<close>

definition sound_geometry :: "jsval \<Rightarrow> jsval \<Rightarrow> bool" where
  "sound_geometry setup policy \<longleftrightarrow>
     (\<exists>e s t. opp_entryPrice setup = Some e \<and> opp_stopPrice setup = Some s \<and> opp_targetPrice setup = Some t
        \<and> (setup_side setup = ''long'' \<and> jlt s e \<and> jlt e t \<or> setup_side setup = ''short'' \<and> jlt t e \<and> jlt e s))
     \<and> (\<exists>v. opp_effectiveRr setup = Some v \<and> \<not> jlt v (to_num (get policy ''min_rr'')))"

lemma eligible_geometry:
  assumes "hardFailures H input = []" and "from_phase SETUP_ARM input"
  shows "sound_geometry (opp_setup input) (opp_policy input)"
proof -
  let ?s = "opp_setup input" and ?p = "opp_policy input"
  note absent = geometry_enforced[OF assms(1), simplified geometry_failures_def Let_def]
  have e: "opp_entryPrice ?s \<noteq> None" and s: "opp_stopPrice ?s \<noteq> None" and t: "opp_targetPrice ?s \<noteq> None"
    using absent[of "''ENTRY_GEOMETRY_MISSING''" Undef] absent[of "''INVALID_STOP''" Undef]
      absent[of "''INVALID_TARGET''" Undef] assms(2) by (auto simp: enforced_at_arm issue_if_def)
  then obtain en st tg where p: "opp_entryPrice ?s = Some en" "opp_stopPrice ?s = Some st" "opp_targetPrice ?s = Some tg"
    by auto
  have "prices_ordered (setup_side ?s) en st tg"
    using absent[of "''EXECUTION_GEOMETRY_INVALID''" Undef] assms(2) by (auto simp: enforced_at_arm issue_if_def p)
  moreover have "\<not> rr_below ?s ?p"
    using absent[of "''RR_BELOW_MINIMUM''" "Obj [(''rr'', js_opt_num (opp_effectiveRr ?s)), (''minimum'', get ?p ''min_rr'')]"]
      assms(2) by (auto simp: enforced_at_arm issue_if_def)
  ultimately show ?thesis
    by (auto simp: sound_geometry_def p prices_ordered_def rr_below_def split: if_splits option.splits)
qed

lemma eligible_risk:
  assumes "hardFailures H input = []" and "opp_phase input = BROKER_SUBMIT"
  shows "\<exists>r. opp_riskPct (opp_setup input) = Some r \<and> jlt (Fin 0) r \<and> \<not> jlt (to_num (get (opp_policy input) ''max_risk_pct'')) r"
proof -
  let ?s = "opp_setup input" and ?p = "opp_policy input"
  have "\<not> risk_exceeded ?s ?p"
    using geometry_enforced[OF assms(1), of "''RISK_BUDGET_EXCEEDED''"
        "Obj [(''risk_pct'', js_opt_num (opp_riskPct ?s)), (''maximum'', get ?p ''max_risk_pct'')]"] assms(2)
    by (auto simp: enforced_elsewhere geometry_failures_def Let_def issue_if_def)
  then obtain r where r: "opp_riskPct ?s = Some r" "\<not> jle r (Fin 0)" "\<not> jlt (to_num (get ?p ''max_risk_pct'')) r"
    by (auto simp: risk_exceeded_def split: option.splits)
  moreover have "is_finite r" using r(1) numberOrNull_finite by (simp add: opp_riskPct_def)
  ultimately show ?thesis by (cases r) (auto simp: is_finite_def)
qed

text \<open>The setup is live at \<open>nowParis\<close> and no condition speaks against the entry.\<close>

definition live_at :: "host \<Rightarrow> jsval \<Rightarrow> jsval \<Rightarrow> bool" where
  "live_at H setup now \<longleftrightarrow>
     opp_status setup \<notin> {''TRIGGERED'', ''CANCELLED'', ''EXPIRED'', ''INVALIDATED'', ''REPLACED''}
   \<and> (truthy now \<longrightarrow> parseTimestamp H now \<noteq> None)
   \<and> (\<forall>n v. parseTimestamp H now = Some n \<and> parseTimestamp H (opp_valid_from setup) = Some v \<longrightarrow> v \<le> n)
   \<and> (\<forall>n x. parseTimestamp H now = Some n \<and> parseTimestamp H (opp_expires_at setup) = Some x \<longrightarrow> n < x)"

definition conditions_clear :: "jsval \<Rightarrow> bool" where
  "conditions_clear ce \<longleftrightarrow>
     (\<forall>k \<in> {''hard_blockers_active'', ''hard_blockers_unknown'', ''required_failed'', ''required_unknown''}. \<not> above_zero ce k)
   \<and> get ce ''sequence_valid'' \<noteq> Bool False"

lemma candidate_clear:
  assumes "hardFailures H input = []" and "set (issue_if b c ev) \<subseteq> set (hardGateCandidates H input)"
    and "from_phase (enforcement_phase (normalizeOpportunityGateCodeV1 (Str c) None)) input"
  shows "\<not> b"
  using candidate_enforced[OF assms(1,3), of ev] assms(2) by (auto simp: issue_if_def split: if_splits)

lemma condition_issues_parts:
  "set (issue_if (above_zero ce ''hard_blockers_active'') ''HARD_BLOCKER_ACTIVE''
       (Obj [(''condition_ids'', ids_or_empty ce ''hard_blocker_condition_ids'')])) \<subseteq> set (condition_issues ce)"
  "set (issue_if (above_zero ce ''hard_blockers_unknown'') ''CANONICAL_TRIGGER_DATA_MISSING''
       (Obj [(''reason'', Str ''HARD_BLOCKER_DATA_UNAVAILABLE''),
             (''condition_ids'', ids_or_empty ce ''hard_blocker_unknown_condition_ids'')])) \<subseteq> set (condition_issues ce)"
  "set (issue_if (above_zero ce ''required_failed'') ''REQUIRED_STRUCTURAL_CONDITION_FAILED''
       (Obj [(''condition_ids'', ids_or_empty ce ''required_failed_condition_ids'')])) \<subseteq> set (condition_issues ce)"
  "set (issue_if (above_zero ce ''required_unknown'') ''REQUIRED_STRUCTURAL_DATA_UNAVAILABLE''
       (Obj [(''condition_ids'', ids_or_empty ce ''required_unknown_condition_ids'')])) \<subseteq> set (condition_issues ce)"
  "set (issue_if (get ce ''sequence_valid'' = Bool False) ''REQUIRED_CONDITION_SEQUENCE_INVALID''
       (Obj [(''condition_ids'', ids_or_empty ce ''sequence_violation_condition_ids'')])) \<subseteq> set (condition_issues ce)"
  unfolding condition_issues_def by auto

lemma candidates_parts:
  "set (condition_issues (opp_conditions input)) \<subseteq> set (hardGateCandidates H input)"
  "set (status_issues (opp_setup input)) \<subseteq> set (hardGateCandidates H input)"
  "set (time_issues H (opp_setup input) (opp_now input)) \<subseteq> set (hardGateCandidates H input)"
  "set (score_issues (opp_conditions input) (opp_policy input)) \<subseteq> set (hardGateCandidates H input)"
  by (auto simp: hardGateCandidates_def Let_def)

lemma eligible_conditions:
  assumes "hardFailures H input = []" and "from_phase ENTRY_TRIGGER input"
  shows "conditions_clear (opp_conditions input)"
proof -
  note clear = candidate_clear[OF assms(1) subset_trans[OF _ candidates_parts(1)]]
  show ?thesis
    using clear[OF condition_issues_parts(1)] clear[OF condition_issues_parts(2)] clear[OF condition_issues_parts(3)]
      clear[OF condition_issues_parts(4)] clear[OF condition_issues_parts(5)] assms(2)
    by (simp add: conditions_clear_def enforced_at_trigger)
qed

lemma eligible_live:
  assumes "hardFailures H input = []" and "from_phase ENTRY_TRIGGER input"
  shows "live_at H (opp_setup input) (opp_now input)"
proof -
  let ?s = "opp_setup input" and ?n = "opp_now input"
  have "opp_status ?s \<notin> {''TRIGGERED'', ''CANCELLED'', ''EXPIRED'', ''INVALIDATED'', ''REPLACED''}"
    using candidate_clear[OF assms(1) candidates_parts(2)[unfolded status_issues_def]] assms(2)
    by (simp add: enforced_at_trigger)
  moreover have "time_issues H ?s ?n = []"
  proof (rule ccontr)
    assume "time_issues H ?s ?n \<noteq> []"
    then obtain c ev where c: "opportunity_issue c ev \<in> set (time_issues H ?s ?n)"
      "c \<in> {''INVALID_EVALUATION_TIME'', ''SETUP_NOT_YET_VALID'', ''SETUP_EXPIRED''}"
      by (simp add: time_issues_def Let_def split: if_splits)
    then show False
      using candidate_enforced[OF assms(1), of c ev] candidates_parts(3)[of H input] assms(2)
      by (auto simp: enforced_at_trigger enforced_elsewhere)
  qed
  ultimately show ?thesis
    by (auto simp: live_at_def time_issues_def Let_def split: if_splits option.splits)
qed

lemma gate_hard_blocks:
  assumes "g \<in> set (normalizeGates (get input ''gates''))" and "g_failed g"
    and "fst (gate_issue g) = ''hard''"
    and "from_phase (enforcement_phase (normalizeOpportunityGateCodeV1 (Str (g_code g)) (Some ''hard''))) input"
  shows "hardFailures H input \<noteq> []"
proof
  assume "hardFailures H input = []"
  moreover have "snd (gate_issue g) \<in> set (hardGateCandidates H input)"
    using assms(1-3) by (simp add: hardGateCandidates_def Let_def gate_issues_def)
  ultimately have "deferred_at (opp_phase input) (snd (gate_issue g))" by (simp only: no_failure_iff)
  then show False using assms(3,4) by (simp add: deferred_at_def gate_issue_code)
qed

text \<open>No failed hard gate is of a code that is enforced by now.\<close>

definition gates_clear :: "jsval \<Rightarrow> bool" where
  "gates_clear input \<longleftrightarrow> (\<forall>g \<in> set (normalizeGates (get input ''gates'')). g_failed g \<and> fst (gate_issue g) = ''hard'' \<longrightarrow>
     \<not> from_phase (enforcement_phase (normalizeOpportunityGateCodeV1 (Str (g_code g)) (Some ''hard''))) input)"

definition score_clear :: "jsval \<Rightarrow> jsval \<Rightarrow> bool" where
  "score_clear ce policy \<longleftrightarrow>
     \<not> (above_zero ce ''scored_confirmation_count'' \<and> primaryCoverageReady ce \<and> score_below ce policy)"

lemma issue_if_False [simp]: "issue_if False c ev = []"
  by (simp add: issue_if_def)

lemma sound_geometry_failures:
  assumes "sound_geometry setup policy"
  shows "geometry_failures setup policy = issue_if (risk_exceeded setup policy) ''RISK_BUDGET_EXCEEDED''
    (Obj [(''risk_pct'', js_opt_num (opp_riskPct setup)), (''maximum'', get policy ''max_risk_pct'')])"
  using assms by (auto simp: geometry_failures_def sound_geometry_def prices_ordered_def rr_below_def Let_def)

lemma cleared_issues:
  "conditions_clear ce \<Longrightarrow> condition_issues ce = []"
  "live_at H setup now \<Longrightarrow> status_issues setup = [] \<and> time_issues H setup now = []"
  "score_clear ce policy \<Longrightarrow> score_issues ce policy = []"
  by (simp add: conditions_clear_def condition_issues_def)
    (auto simp: live_at_def status_issues_def time_issues_def Let_def split: option.splits,
     simp add: score_clear_def score_issues_def issue_if_def)

lemma eligible_at_trigger_iff:
  assumes "opp_phase input = ENTRY_TRIGGER"
  shows "hardFailures H input = [] \<longleftrightarrow>
    sound_geometry (opp_setup input) (opp_policy input) \<and> live_at H (opp_setup input) (opp_now input)
    \<and> conditions_clear (opp_conditions input) \<and> score_clear (opp_conditions input) (opp_policy input) \<and> gates_clear input"
    (is "?none \<longleftrightarrow> ?good")
proof
  assume none: ?none
  have now: "from_phase ENTRY_TRIGGER input" "from_phase SETUP_ARM input" using assms by simp_all
  have "score_clear (opp_conditions input) (opp_policy input)"
    using candidate_clear[OF none candidates_parts(4)[unfolded score_issues_def]] now(1)
    by (simp add: enforced_at_trigger score_clear_def)
  moreover have "gates_clear input"
    using gate_hard_blocks none by (auto simp: gates_clear_def)
  ultimately show ?good
    using eligible_geometry[OF none now(2)] eligible_live[OF none now(1)] eligible_conditions[OF none now(1)] by simp
next
  assume good: ?good
  have "deferred_at (opp_phase input) i" if "i \<in> set (hardGateCandidates H input)" for i
  proof -
    have "i \<in> set (geometry_failures (opp_setup input) (opp_policy input))
      \<or> i \<in> snd ` {ci \<in> set (gate_issues (get input ''gates'')). fst ci = ''hard''}"
      using that good dedupeIssues_set[of "geometry_failures (opp_setup input) (opp_policy input)"]
      by (auto simp: hardGateCandidates_def Let_def cleared_issues)
    then show ?thesis
    proof
      assume "i \<in> set (geometry_failures (opp_setup input) (opp_policy input))"
      then show ?thesis
        using good assms by (auto simp: sound_geometry_failures issue_if_def deferred_at_def issue_code enforced_elsewhere split: if_splits)
    next
      assume "i \<in> snd ` {ci \<in> set (gate_issues (get input ''gates'')). fst ci = ''hard''}"
      then obtain g where "g \<in> set (normalizeGates (get input ''gates''))" "g_failed g" "fst (gate_issue g) = ''hard''"
        "i = snd (gate_issue g)"
        by (auto simp: gate_issues_def)
      then show ?thesis
        using good by (auto simp: gates_clear_def deferred_at_def gate_issue_code not_le)
    qed
  qed
  then show ?none by (simp add: no_failure_iff)
qed

subsection \<open>A sample\<close>

definition sample_opportunity :: "rat \<Rightarrow> jsobj" where
  "sample_opportunity risk =
    [(''setup'', Obj [(''direction'', Str ''long''), (''entry'', Num (Fin 100)), (''stop'', Num (Fin 99)),
       (''target'', Num (Fin 103)), (''risk_pct'', Num (Fin risk)), (''status'', Str ''ARMED'')]),
     (''conditionEvaluation'', Obj []), (''gates'', Arr []),
     (''policy'', Obj [(''min_rr'', Num (Fin 2)), (''max_risk_pct'', Num (Fin (1 / 4))),
        (''weighted_confirmation_threshold'', Num (Fin (1 / 2)))])]"

lemma sample_prices:
  "opp_entryPrice (opp_setup (at_phase p (sample_opportunity r))) = Some (Fin 100)"
  "opp_stopPrice (opp_setup (at_phase p (sample_opportunity r))) = Some (Fin 99)"
  "opp_targetPrice (opp_setup (at_phase p (sample_opportunity r))) = Some (Fin 103)"
  "opp_riskPct (opp_setup (at_phase p (sample_opportunity r))) = Some (Fin r)"
  "setup_side (opp_setup (at_phase p (sample_opportunity r))) = ''long''"
  by (simp_all add: at_phase_def sample_opportunity_def opp_setup_def opp_entryPrice_def opp_stopPrice_def opp_targetPrice_def
      opp_riskPct_def js_coalesce_def numberOrNull_def is_finite_def)
    (code_simp)

lemma sample_rr: "opp_effectiveRr (opp_setup (at_phase p (sample_opportunity r))) = Some (Fin 3)"
proof -
  have "\<lfloor>60001 / 2 :: rat\<rfloor> = 30000" by (rule floor_unique) simp_all
  then have "round_digits (Fin 3) 4 = Fin 3" by (simp add: round_digits_def jpow_def jround_def Let_def)
  then show ?thesis
    by (simp add: opp_effectiveRr_def opp_computedRr_def points_between_def sample_prices jsub_def)
qed

lemma sample_parts:
  "opp_conditions (at_phase p (sample_opportunity r)) = Obj []"
  "opp_now (at_phase p (sample_opportunity r)) = Null"
  "get (at_phase p (sample_opportunity r)) ''gates'' = Arr []"
  "get (opp_policy (at_phase p (sample_opportunity r))) ''min_rr'' = Num (Fin 2)"
  "get (opp_policy (at_phase p (sample_opportunity r))) ''max_risk_pct'' = Num (Fin (1 / 4))"
  by (simp_all add: at_phase_def sample_opportunity_def opp_conditions_def opp_now_def opp_policy_def)

lemma sample_status: "opp_status (opp_setup (at_phase p (sample_opportunity r))) = ''ARMED''"
  by (simp add: opp_status_def at_phase_def sample_opportunity_def opp_setup_def) code_simp

lemma sample_sound:
  "sound_geometry (opp_setup (at_phase p (sample_opportunity r))) (opp_policy (at_phase p (sample_opportunity r)))"
  by (simp add: sound_geometry_def sample_prices sample_rr sample_parts)

lemma sample_trigger: "hardFailures H (at_phase ENTRY_TRIGGER (sample_opportunity r)) = []"
proof -
  have "live_at H (opp_setup (at_phase ENTRY_TRIGGER (sample_opportunity r))) Null"
    by (simp add: live_at_def sample_status parseTimestamp_def)
  moreover have "conditions_clear (Obj [])" "score_clear (Obj []) q" for q
    by (simp_all add: conditions_clear_def score_clear_def above_zero_def num_or_zero_def js_or_def)
  ultimately show ?thesis
    by (simp add: eligible_at_trigger_iff sample_sound sample_parts gates_clear_def normalizeGates_def)
qed

section \<open>What is shown\<close>

text \<open>
  C9. The catalogue of gates is closed: whatever code a gate carries, its normal form is one of the twelve
  hard or ten soft codes, normalising again changes nothing, and every entry of the three lists of an evaluation, the hard
  failures, the deferred hard gates and the soft gaps, has such a code.
\<close>

theorem gate_codes_registered:
  "normalizeOpportunityGateCodeV1 v k \<in> set HARD_GATE_CODES_V5 \<union> set SOFT_GATE_CODES_V5
   \<and> normalizeOpportunityGateCodeV1 (Str (normalizeOpportunityGateCodeV1 v k)) k' = normalizeOpportunityGateCodeV1 v k
   \<and> list_all (\<lambda>part. list_all (\<lambda>i. get i ''code'' \<in> Str ` (set HARD_GATE_CODES_V5 \<union> set SOFT_GATE_CODES_V5))
        (arr_or_empty (fget (evaluateOpportunitySeekingControlledV1 H input) part))) [''hard_failures'', ''deferred_hard_gates'', ''soft_gaps'']"
proof -
  have "issues_registered (hardFailures H input)" "issues_registered (deferredHardGates H input)"
    using dedupe_registered[OF candidates_registered[of H input]]
    by (auto simp: issues_registered_def hardFailures_def2 deferredHardGates_def2)
  then show ?thesis
    using normalize_registered[of v k] listed_codes[OF dedupe_registered] gaps_registered[of input]
    by (simp add: normalize_fixes evaluation_lists) (simp add: registered_def)
qed

text \<open>
  The phases are cumulative: a failure at one phase is a failure at every later one, what is eligible later
  is eligible earlier, no issue is lost at any phase (each is a failure or is deferred), and at the last phase
  nothing is deferred any more.
\<close>

theorem failures_grow_with_phase:
  assumes "EVALUATION_PHASE_RANK p \<le> EVALUATION_PHASE_RANK q"
  shows "set (hardFailures H (at_phase p fs)) \<subseteq> set (hardFailures H (at_phase q fs))
    \<and> set (deferredHardGates H (at_phase q fs)) \<subseteq> set (deferredHardGates H (at_phase p fs))
    \<and> set (hardFailures H (at_phase p fs)) \<union> set (deferredHardGates H (at_phase p fs))
        = set (hardFailures H (at_phase q fs)) \<union> set (deferredHardGates H (at_phase q fs))
    \<and> set (deferredHardGates H (at_phase BROKER_SUBMIT fs)) = {}
    \<and> (fget (evaluateOpportunitySeekingControlledV1 H (at_phase q fs)) ''eligible'' = Bool True
        \<longrightarrow> fget (evaluateOpportunitySeekingControlledV1 H (at_phase p fs)) ''eligible'' = Bool True)"
proof -
  have last: "EVALUATION_PHASE_RANK r \<le> 3" for r by (cases r) simp_all
  then have "set (deferredHardGates H (at_phase BROKER_SUBMIT fs)) = {}"
    by (auto simp: deferredHardGates_def2 deferred_at_def not_less)
  moreover have "set (hardFailures H (at_phase p fs)) \<subseteq> set (hardFailures H (at_phase q fs))"
    using assms by (auto simp: hardFailures_def2 deferred_at_def)
  moreover from this have "hardFailures H (at_phase q fs) = [] \<longrightarrow> hardFailures H (at_phase p fs) = []" by auto
  ultimately show ?thesis
    using assms by (auto simp: hardFailures_def2 deferredHardGates_def2 deferred_at_def)
qed

theorem failures_grow_with_phase_witness:
  "set (hardFailures sample_host (at_phase SETUP_ARM (sample_opportunity 5)))
     \<subseteq> set (hardFailures sample_host (at_phase ENTRY_TRIGGER (sample_opportunity 5)))
   \<and> set (deferredHardGates sample_host (at_phase BROKER_SUBMIT (sample_opportunity 5))) = {}"
  using failures_grow_with_phase[of SETUP_ARM ENTRY_TRIGGER sample_host "sample_opportunity 5"] by simp

text \<open>
  C16. What an eligible setup satisfies: from \<open>SETUP_ARM\<close> on its prices are ordered for its direction and its
  reward/risk is not below the minimum of the policy; from \<open>ENTRY_TRIGGER\<close> on it is neither closed nor expired nor
  early, no blocker is active or unknown, no required condition failed or is unknown; at \<open>BROKER_SUBMIT\<close> its risk
  is positive and within the maximum.
\<close>

theorem eligible_setup_sound:
  assumes "fget (evaluateOpportunitySeekingControlledV1 H input) ''eligible'' = Bool True"
  shows "(opp_phase input \<noteq> PLAN_COMPILE \<longrightarrow> sound_geometry (opp_setup input) (opp_policy input))
    \<and> (opp_phase input \<in> {ENTRY_TRIGGER, BROKER_SUBMIT} \<longrightarrow>
        live_at H (opp_setup input) (opp_now input) \<and> conditions_clear (opp_conditions input))
    \<and> (opp_phase input = BROKER_SUBMIT \<longrightarrow>
        (\<exists>r. opp_riskPct (opp_setup input) = Some r \<and> jlt (Fin 0) r
          \<and> \<not> jlt (to_num (get (opp_policy input) ''max_risk_pct'')) r))"
proof -
  have none: "hardFailures H input = []" using assms by simp
  have "opp_phase input \<noteq> PLAN_COMPILE \<Longrightarrow> from_phase SETUP_ARM input" by (cases "opp_phase input") simp_all
  moreover have "opp_phase input \<in> {ENTRY_TRIGGER, BROKER_SUBMIT} \<Longrightarrow> from_phase ENTRY_TRIGGER input" by auto
  ultimately show ?thesis
    using eligible_geometry[OF none] eligible_live[OF none] eligible_conditions[OF none] eligible_risk[OF none] by blast
qed

theorem eligible_setup_sound_witness:
  "sound_geometry (opp_setup (at_phase ENTRY_TRIGGER (sample_opportunity 5))) (opp_policy (at_phase ENTRY_TRIGGER (sample_opportunity 5)))
   \<and> conditions_clear (opp_conditions (at_phase ENTRY_TRIGGER (sample_opportunity 5)))"
  using eligible_setup_sound[of sample_host "at_phase ENTRY_TRIGGER (sample_opportunity 5)"]
  by (simp add: sample_trigger)

text \<open>
  Exactly when a setup may trigger: at \<open>ENTRY_TRIGGER\<close> an evaluation is eligible if and only if the geometry is
  sound, the setup is live, no condition speaks against it, the known score is not below the threshold and no
  failed hard gate is enforced by then. It may trigger if also the score is reached and nothing required is open.
\<close>

theorem trigger_eligible_exactly:
  assumes "opp_phase input = ENTRY_TRIGGER"
  shows "fget (evaluateOpportunitySeekingControlledV1 H input) ''trigger_eligible'' =
    Bool (sound_geometry (opp_setup input) (opp_policy input) \<and> live_at H (opp_setup input) (opp_now input)
      \<and> conditions_clear (opp_conditions input) \<and> score_clear (opp_conditions input) (opp_policy input) \<and> gates_clear input
      \<and> triggerScoreReady (opp_conditions input) (opp_policy input) \<and> structuralConditionsReady (opp_conditions input))"
  by (simp add: eligible_at_trigger_iff[OF assms])

theorem trigger_eligible_exactly_witness:
  "fget (evaluateOpportunitySeekingControlledV1 sample_host (at_phase ENTRY_TRIGGER (sample_opportunity 5))) ''trigger_eligible'' = Bool True"
  using trigger_eligible_exactly[of "at_phase ENTRY_TRIGGER (sample_opportunity 5)" sample_host]
    sample_trigger[of sample_host 5]
  by (simp add: eligible_at_trigger_iff sample_parts triggerScoreReady_def structuralConditionsReady_def is_zero_def
      num_or_zero_def js_or_def)

text \<open>
  Gates fail closed: a failed gate that is hard (every gate of an unknown name is) blocks from the phase that
  enforces its code on, and at every phase if the catalogue gives its code none.
\<close>

theorem failed_hard_gate_blocks:
  assumes "g \<in> set (normalizeGates (get input ''gates''))" and "g_failed g" and "classifyOpportunityGateV1 (gate_js g) = ''hard''"
    and "EVALUATION_PHASE_RANK (enforcement_phase (canonicalOpportunityGateCodeV1 (g_code g) ''hard''))
       \<le> EVALUATION_PHASE_RANK (opp_phase input)"
  shows "fget (evaluateOpportunitySeekingControlledV1 H input) ''eligible'' = Bool False"
proof -
  have "hardFailures H input \<noteq> []"
    using gate_hard_blocks[OF assms(1,2)] assms(3,4) by (simp add: gate_issue_def Let_def canonicalOpportunityGateCodeV1_def)
  then show ?thesis by (simp add: evaluateOpportunitySeekingControlledV1_def Let_def)
qed

lemma sample_gate: "normalizeGates (Obj [(''my own check'', Bool False)]) =
    [\<lparr>g_fields = [], g_code = ''MY_OWN_CHECK'', g_failed = True, g_evidence = Undef\<rparr>]"
  "classifyOpportunityGateV1 (gate_js \<lparr>g_fields = [], g_code = ''MY_OWN_CHECK'', g_failed = True, g_evidence = Undef\<rparr>) = ''hard''"
  "enforcement_phase (canonicalOpportunityGateCodeV1 ''MY_OWN_CHECK'' ''hard'') = PLAN_COMPILE"
  by code_simp+

theorem failed_hard_gate_blocks_witness:
  "fget (evaluateOpportunitySeekingControlledV1 sample_host
     (Obj [(''gates'', Obj [(''my own check'', Bool False)])])) ''eligible'' = Bool False"
  by (rule failed_hard_gate_blocks[of "\<lparr>g_fields = [], g_code = ''MY_OWN_CHECK'', g_failed = True, g_evidence = Undef\<rparr>"])
    (simp_all add: sample_gate)

text \<open>
  The risk budget is not enforced when a position is entered: the excess is filed under
  \<open>BROKER_SAFETY_FAILED\<close>, which only \<open>BROKER_SUBMIT\<close> enforces, so at \<open>ENTRY_TRIGGER\<close>, the phase the replay asks for, a
  setup that risks any percentage may trigger under a policy whose maximum is a quarter of a percent.
\<close>

theorem risk_budget_not_enforced_at_entry:
  "fget (evaluateOpportunitySeekingControlledV1 H (at_phase ENTRY_TRIGGER (sample_opportunity r))) ''trigger_eligible'' = Bool True
   \<and> get (opp_policy (at_phase ENTRY_TRIGGER (sample_opportunity r))) ''max_risk_pct'' = Num (Fin (1 / 4))
   \<and> opp_riskPct (opp_setup (at_phase ENTRY_TRIGGER (sample_opportunity r))) = Some (Fin r)"
  by (simp add: sample_trigger sample_parts sample_prices triggerScoreReady_def structuralConditionsReady_def is_zero_def
      num_or_zero_def js_or_def)

end
