(* ===== verification/Native_Validator.thy ===== *)
theory Native_Validator
  imports Entry_Order Opportunity_Policy
begin

text \<open>
  \<open>packages/desk-domain/src/native-cross-field-validator-v1.js\<close>: the cross-field checks on a master analysis with its
  execution plan, and on a monitor with its command, before either is compiled. Issues are those of
  \<open>Opportunity_Policy\<close> (a code and its evidence, removed as duplicates by the same code); every check returns the
  issues it adds. The search for a cycle of conditions is a loop that is shown to end.
\<close>

section \<open>Helpers\<close>

definition native_issue :: "string \<Rightarrow> jsval \<Rightarrow> opp_issue" where
  "native_issue c ev = \<lparr>i_code = c, i_evidence = ev\<rparr>"

definition native_enumValue :: "jsval \<Rightarrow> string" where
  "native_enumValue value =
     replace_char (CHR '' '') (CHR ''_'') (replace_char (CHR ''-'') (CHR ''_'') (to_upper (js_text value)))"

text \<open>\<open>text || null\<close>\<close>

definition text_or_null :: "string \<Rightarrow> jsval" where
  "text_or_null s = (if s = [] then Null else Str s)"

fun unique_from :: "string set \<Rightarrow> string \<Rightarrow> jsobj \<Rightarrow> jsval list \<Rightarrow> opp_issue list" where
  "unique_from seen label base [] = []"
| "unique_from seen label base (v # vs) =
     (if v = Undef \<or> v = Null \<or> v = Str [] then native_issue (label @ ''_MISSING'') (Obj base) # unique_from seen label base vs
      else (if to_str v \<in> seen then [native_issue (label @ ''_DUPLICATE'') (Obj (spread base [(''value'', v)]))] else [])
        @ unique_from (insert (to_str v) seen) label base vs)"

definition validateUniqueValues :: "jsval list \<Rightarrow> string \<Rightarrow> jsobj \<Rightarrow> opp_issue list" where
  "validateUniqueValues vs label base = unique_from {} label base vs"

definition validateExactLink :: "string \<Rightarrow> string \<Rightarrow> jsval \<Rightarrow> jsval \<Rightarrow> opp_issue list" where
  "validateExactLink c field_name leftValue rightValue =
     (let left = js_text leftValue; right = js_text rightValue
      in if left = [] \<or> right = [] \<or> left = right then []
         else [native_issue c (Obj [(''field'', Str field_name), (''left_value'', Str left), (''right_value'', Str right)])])"

definition validateMasterSourceCoherence :: "jsval \<Rightarrow> jsval \<Rightarrow> opp_issue list" where
  "validateMasterSourceCoherence masterSource planSource =
     (let m = fget (obj_or_empty masterSource); p = fget (obj_or_empty planSource)
      in validateExactLink ''MASTER_PLAN_SOURCE_MISMATCH'' ''master_analysis_id''
           (js_or (m ''analysis_id'') (m ''master_analysis_id'')) (p ''master_analysis_id'')
       @ concat (List.map (\<lambda>k. validateExactLink ''MASTER_PLAN_SOURCE_MISMATCH'' k (m k) (p k)) [''bundle_id'', ''pack_id'', ''pack_build_id'']))"

definition SCOPE_FIELDS :: "string list" where
  "SCOPE_FIELDS = [''mode'', ''trading_date'', ''session'', ''run_id'', ''cutoff_paris'', ''timezone'']"

definition scope_mismatches :: "jsobj \<Rightarrow> jsobj \<Rightarrow> string list" where
  "scope_mismatches outer inner = filter (\<lambda>k. fget outer k \<noteq> Undef \<and> fget inner k \<noteq> Undef
     \<and> to_str (fget outer k) \<noteq> to_str (fget inner k)) SCOPE_FIELDS"

definition validateMonitorScopeCoherence :: "jsval \<Rightarrow> jsval \<Rightarrow> opp_issue list" where
  "validateMonitorScopeCoherence monitorScope commandScope =
     (let m = obj_or_empty monitorScope; c = obj_or_empty commandScope
      in List.map (\<lambda>k. native_issue ''MONITOR_SCOPE_MISMATCH''
           (Obj [(''field'', Str k), (''monitor_value'', fget m k), (''command_value'', fget c k)])) (scope_mismatches m c))"

definition validateScopeCoherence :: "jsval \<Rightarrow> jsval \<Rightarrow> opp_issue list" where
  "validateScopeCoherence outerScope planScope =
     (let m = obj_or_empty outerScope; c = obj_or_empty planScope
      in List.map (\<lambda>k. native_issue ''PLAN_SCOPE_MISMATCH''
           (Obj [(''field'', Str k), (''outer_value'', fget m k), (''plan_value'', fget c k)])) (scope_mismatches m c))"

definition window_ordered :: "host \<Rightarrow> jsobj \<Rightarrow> bool" where
  "window_ordered H w = (case (date_parse H (str_or_empty (fget w ''valid_from_paris'')), date_parse H (str_or_empty (fget w ''expires_at_paris''))) of
     (Some validFrom, Some expiresAt) \<Rightarrow> validFrom < expiresAt | _ \<Rightarrow> False)"

definition validateWindow :: "host \<Rightarrow> jsval \<Rightarrow> string \<Rightarrow> jsval \<Rightarrow> opp_issue list" where
  "validateWindow H value dmn setupId =
     (let w = obj_or_empty value
      in if window_ordered H w then []
         else [native_issue (dmn @ ''_VALIDITY_WINDOW_INVALID'') (Obj [(''setup_id'', setupId),
           (''valid_from_paris'', js_or (fget w ''valid_from_paris'') Null), (''expires_at_paris'', js_or (fget w ''expires_at_paris'') Null)])])"

section \<open>Cycles of conditions\<close>

text \<open>
  \<open>hasCycle\<close>: a \<open>while\<close> loop along the references of conditions; \<open>None\<close> would be a loop that does not end.
\<close>

partial_function (option) cycle_loop :: "(string \<times> string) list \<Rightarrow> string list \<Rightarrow> string \<Rightarrow> bool option" where
  "cycle_loop dependency visited current =
     (case map_of dependency current of
        None \<Rightarrow> Some False
      | Some next \<Rightarrow> if current \<in> set visited then Some True else cycle_loop dependency (current # visited) next)"

declare cycle_loop.simps [code]

definition hasCycle :: "string \<Rightarrow> (string \<times> string) list \<Rightarrow> bool option" where
  "hasCycle start_id dependency = cycle_loop dependency [] start_id"

section \<open>Setups\<close>

definition activates :: "jsval \<Rightarrow> bool" where
  "activates condition \<longleftrightarrow> native_enumValue (get condition ''role'') = ''ACTIVATION''
     \<or> native_enumValue (get condition ''importance'') = ''MANDATORY'' \<or> get condition ''required_for_trigger'' = Bool True"

definition condition_id_of :: "jsval \<Rightarrow> string" where
  "condition_id_of condition = js_text (get condition ''condition_id'')"

definition break_reference :: "jsval \<Rightarrow> string" where
  "break_reference condition = js_text (js_or (get condition ''break_condition_id'') (get (get condition ''parameters'') ''break_condition_id''))"

definition retest_conditions :: "jsval list \<Rightarrow> jsval list" where
  "retest_conditions conditions = filter (\<lambda>c. native_enumValue (get c ''predicate_type'') = ''BREAK_RETEST_SEQUENCE'') conditions"

text \<open>The keys of \<open>byId\<close>, and whether a reference is found among them.\<close>

definition known_ids :: "jsval list \<Rightarrow> string set" where
  "known_ids conditions = set (List.map condition_id_of conditions) - {[]}"

definition reference_found :: "jsval list \<Rightarrow> jsval \<Rightarrow> bool" where
  "reference_found conditions condition \<longleftrightarrow> break_reference condition \<noteq> [] \<and> break_reference condition \<in> known_ids conditions"

definition dependencies :: "jsval list \<Rightarrow> (string \<times> string) list" where
  "dependencies conditions = foldl (\<lambda>acc c. put_field (condition_id_of c) (break_reference c) acc) []
     (filter (reference_found conditions) (retest_conditions conditions))"

definition reference_issues :: "jsval \<Rightarrow> jsval list \<Rightarrow> opp_issue list" where
  "reference_issues setupId conditions = List.map (\<lambda>c. native_issue ''BREAK_CONDITION_REFERENCE_NOT_FOUND''
       (Obj [(''setup_id'', setupId), (''condition_id'', Str (condition_id_of c)), (''break_condition_id'', text_or_null (break_reference c))]))
     (filter (\<lambda>c. \<not> reference_found conditions c) (retest_conditions conditions))"

definition cycle_issues :: "jsval \<Rightarrow> (string \<times> string) list \<Rightarrow> opp_issue list" where
  "cycle_issues setupId dependency = List.map (\<lambda>k. native_issue ''CONDITION_DEPENDENCY_CYCLE''
       (Obj [(''setup_id'', setupId), (''condition_id'', Str k)]))
     (filter (\<lambda>k. hasCycle k dependency = Some True) (List.map fst dependency))"

definition setup_entry_order :: "jsobj \<Rightarrow> entry_order" where
  "setup_entry_order setup = (let entry_fields = fget (obj_or_empty (fget setup ''entry''))
     in validateEntryOrderSemanticsV1 (fget setup ''entry_mode'') (fget setup ''order_type'')
          (entry_fields ''limit_price'') (entry_fields ''stop_price'') False)"

definition validateNativeSetup :: "host \<Rightarrow> jsval \<Rightarrow> opp_issue list" where
  "validateNativeSetup H rawSetup =
     (let setup = obj_or_empty rawSetup;
          setupId = text_or_null (js_text (fget setup ''setup_id''));
          conditions = arr_or_empty (fget setup ''conditions'')
      in validateWindow H (fget setup ''validity'') ''SETUP'' setupId
       @ List.map (\<lambda>e. native_issue (to_str (fget e ''code'')) (Obj (spread [(''setup_id'', setupId)] e))) (eo_errors (setup_entry_order setup))
       @ (if filter activates conditions = []
          then [native_issue ''STRUCTURED_ACTIVATION_CONDITION_MISSING'' (Obj [(''setup_id'', setupId)])] else [])
       @ validateUniqueValues (List.map (\<lambda>c. Str (condition_id_of c)) conditions) ''CONDITION_ID'' [(''setup_id'', setupId)]
       @ reference_issues setupId conditions
       @ cycle_issues setupId (dependencies conditions))"

section \<open>Versions of the contracts\<close>

definition ACTIVE_NATIVE_CONTRACT_VERSIONS :: "(string \<times> string) list" where
  "ACTIVE_NATIVE_CONTRACT_VERSIONS =
     [(''master'', ''5.4.0''), (''execution_plan'', ''1.4.0''), (''monitor'', ''2.4.0''), (''monitor_command'', ''1.4.0'')]"

definition HISTORICAL_NATIVE_CONTRACT_VERSIONS :: "(string \<times> string list) list" where
  "HISTORICAL_NATIVE_CONTRACT_VERSIONS =
     [(''master'', [''5.0.0'', ''5.1.0'', ''5.2.0'', ''5.3.0'']),
      (''execution_plan'', [''1.0.0'', ''1.1.0'', ''1.2.0'', ''1.3.0'']),
      (''monitor'', [''2.0.0'', ''2.1.0'', ''2.2.0'', ''2.3.0'']),
      (''monitor_command'', [''1.0.0'', ''1.1.0'', ''1.2.0'', ''1.3.0''])]"

record native_component =
  nc_component :: string
  nc_recognized :: bool
  nc_received :: jsval

definition active_version :: "string \<Rightarrow> jsval" where
  "active_version c = (case map_of ACTIVE_NATIVE_CONTRACT_VERSIONS c of Some v \<Rightarrow> Str v | None \<Rightarrow> Undef)"

definition historical_version :: "native_component \<Rightarrow> bool" where
  "historical_version c \<longleftrightarrow> (case map_of HISTORICAL_NATIVE_CONTRACT_VERSIONS (nc_component c) of
     Some versions \<Rightarrow> str_or_empty (nc_received c) \<in> set versions | None \<Rightarrow> False)"

definition unsupported_version :: "native_component \<Rightarrow> bool" where
  "unsupported_version c \<longleftrightarrow> active_version (nc_component c) \<noteq> Str (str_or_empty (nc_received c))"

definition version_issue :: "string \<Rightarrow> string \<Rightarrow> native_component list \<Rightarrow> native_component list \<Rightarrow> opp_issue" where
  "version_issue c list_name recognized bad = native_issue c (Obj
     [(''received'', Obj (List.map (\<lambda>x. (nc_component x, js_or (nc_received x) Null)) recognized)),
      (''expected'', Obj (List.map (\<lambda>x. (nc_component x, active_version (nc_component x))) recognized)),
      (list_name, Arr (List.map (\<lambda>x. Str (nc_component x)) bad))])"

definition validateNativeRuntimeVersion :: "native_component list \<Rightarrow> opp_issue option" where
  "validateNativeRuntimeVersion components =
     (let recognized = filter nc_recognized components;
          historical = filter historical_version recognized;
          unsupported = filter unsupported_version recognized
      in if recognized = [] then None
         else if historical \<noteq> [] then Some (version_issue ''HISTORICAL_NATIVE_CONTRACT_READ_ONLY'' ''historical_components'' recognized historical)
         else if unsupported \<noteq> [] then Some (version_issue ''NATIVE_CONTRACT_VERSION_UNSUPPORTED'' ''unsupported_components'' recognized unsupported)
         else None)"

definition native_component_of :: "string \<Rightarrow> string \<Rightarrow> jsobj \<Rightarrow> native_component" where
  "native_component_of c contract_name document =
     \<lparr>nc_component = c, nc_recognized = (get (fget document ''contract'') ''name'' = Str contract_name),
      nc_received = get (fget document ''contract'') ''version''\<rparr>"

definition validateNativeMasterRuntimeVersion :: "jsobj \<Rightarrow> jsobj \<Rightarrow> opp_issue option" where
  "validateNativeMasterRuntimeVersion master plan = validateNativeRuntimeVersion
     [native_component_of ''master'' ''DeskMasterAnalysisContract'' master,
      native_component_of ''execution_plan'' ''DeskExecutionPlanContract'' plan]"

definition validateNativeMonitorRuntimeVersion :: "jsobj \<Rightarrow> jsobj \<Rightarrow> opp_issue option" where
  "validateNativeMonitorRuntimeVersion monitor_doc cmd = validateNativeRuntimeVersion
     [native_component_of ''monitor'' ''DeskHourlyThesisMonitorContract'' monitor_doc,
      native_component_of ''monitor_command'' ''DeskMonitorCommandContract'' cmd]"

definition isNativeMaster :: "jsobj \<Rightarrow> jsobj \<Rightarrow> bool" where
  "isNativeMaster master plan \<longleftrightarrow>
     get (fget master ''contract'') ''name'' = Str ''DeskMasterAnalysisContract'' \<and> get (fget master ''contract'') ''version'' = active_version ''master''
   \<or> get (fget plan ''contract'') ''name'' = Str ''DeskExecutionPlanContract'' \<and> get (fget plan ''contract'') ''version'' = active_version ''execution_plan''"

section \<open>The master analysis\<close>

definition plan_id_issues :: "string \<Rightarrow> string \<Rightarrow> opp_issue list" where
  "plan_id_issues planPlanId thesisPlanId =
     (if planPlanId = [] \<or> thesisPlanId = [] \<or> planPlanId \<noteq> thesisPlanId
      then [native_issue (if planPlanId = [] \<or> thesisPlanId = [] then ''PLAN_ID_MISSING'' else ''PLAN_ID_MISMATCH'')
        (Obj [(''execution_plan_plan_id'', text_or_null planPlanId), (''active_thesis_plan_id'', text_or_null thesisPlanId)])]
      else [])"

definition hypothesis_issues :: "jsobj \<Rightarrow> jsobj \<Rightarrow> opp_issue list" where
  "hypothesis_issues master activeThesis =
     (let selected = js_text (fget (obj_or_empty (fget master ''selected_hypothesis'')) ''hypothesis_id'');
          thesisId = js_text (fget activeThesis ''selected_hypothesis_id'');
          ids = filter (\<lambda>i. i \<noteq> []) (List.map (\<lambda>h. js_text (get h ''hypothesis_id'')) (arr_or_empty (fget master ''hypotheses'')))
      in (if selected \<noteq> [] \<and> selected \<notin> set ids
          then [native_issue ''SELECTED_HYPOTHESIS_NOT_FOUND'' (Obj [(''selected_hypothesis_id'', Str selected)])] else [])
       @ (if selected \<noteq> [] \<and> thesisId \<noteq> [] \<and> selected \<noteq> thesisId
          then [native_issue ''SELECTED_HYPOTHESIS_LINK_MISMATCH''
            (Obj [(''selected_hypothesis_id'', Str selected), (''active_thesis_selected_hypothesis_id'', Str thesisId)])] else []))"

definition setup_id_of :: "jsval \<Rightarrow> string" where
  "setup_id_of setup = js_text (get setup ''setup_id'')"

definition primary_issues :: "jsobj \<Rightarrow> jsobj \<Rightarrow> jsval list \<Rightarrow> opp_issue list" where
  "primary_issues plan activeThesis setups =
     (let primary = js_text (fget plan ''primary_setup_id''); thesisPrimary = js_text (fget activeThesis ''primary_setup_id'')
      in (if primary \<noteq> [] \<and> primary \<notin> set (filter (\<lambda>i. i \<noteq> []) (List.map setup_id_of setups))
          then [native_issue ''PRIMARY_SETUP_ID_NOT_FOUND'' (Obj [(''primary_setup_id'', Str primary)])] else [])
       @ (if ''primary_setup_id'' \<in> set (List.map fst plan) \<and> ''primary_setup_id'' \<in> set (List.map fst activeThesis) \<and> primary \<noteq> thesisPrimary
          then [native_issue ''PRIMARY_SETUP_LINK_MISMATCH'' (Obj [(''plan_primary_setup_id'', text_or_null primary),
            (''thesis_primary_setup_id'', text_or_null thesisPrimary)])] else []))"

definition disposition_issues :: "jsobj \<Rightarrow> jsval \<Rightarrow> opp_issue list" where
  "disposition_issues plan compiledPlan =
     (if truthy (get compiledPlan ''disposition'') \<and> truthy (fget plan ''disposition'')
        \<and> native_enumValue (get compiledPlan ''disposition'') \<noteq> native_enumValue (fget plan ''disposition'')
      then [native_issue ''PLAN_DISPOSITION_MISMATCH'' (Obj [(''source_disposition'', fget plan ''disposition''),
        (''compiled_disposition'', get compiledPlan ''disposition'')])] else [])"

text \<open>The issues of the primary setup, of every setup when the primary one is not among them.\<close>

definition checked_setups :: "string \<Rightarrow> jsval list \<Rightarrow> jsval list" where
  "checked_setups primary setups =
     (if primary \<in> set (List.map setup_id_of setups) then filter (\<lambda>s. setup_id_of s = primary) setups else setups)"

definition compile_issues :: "string \<Rightarrow> jsval \<Rightarrow> opp_issue list" where
  "compile_issues primary compiledPlan = List.map (\<lambda>s. native_issue ''NATIVE_SETUP_NOT_COMPILED''
       (Obj [(''setup_id'', js_or (get s ''setup_id'') Null),
         (''geometry_errors'', js_or (get (get s ''geometry_evaluation'') ''hard_failures'') (Arr [])),
         (''compilation_errors'', js_or (get (get s ''compilation_diagnostics'') ''errors'') (Arr []))]))
     (filter (\<lambda>s. get s ''compile_status'' \<noteq> Str ''COMPILED'' \<and> setup_id_of s = primary) (arr_or_empty (get compiledPlan ''ranked_setups'')))"

definition master_issues :: "host \<Rightarrow> jsobj \<Rightarrow> jsobj \<Rightarrow> jsval \<Rightarrow> opp_issue list" where
  "master_issues H master plan compiledPlan =
     (let activeThesis = obj_or_empty (fget master ''active_thesis'');
          setups = arr_or_empty (fget plan ''setups'');
          primary = js_text (fget plan ''primary_setup_id'')
      in plan_id_issues (js_text (fget plan ''plan_id'')) (js_text (fget activeThesis ''plan_id''))
       @ hypothesis_issues master activeThesis
       @ validateUniqueValues (List.map (\<lambda>s. Str (setup_id_of s)) setups) ''SETUP_ID'' []
       @ validateUniqueValues (List.map (\<lambda>s. get s ''rank'') setups) ''SETUP_RANK'' []
       @ primary_issues plan activeThesis setups
       @ validateMasterSourceCoherence (fget master ''source'') (fget plan ''source'')
       @ validateScopeCoherence (fget master ''scope'') (fget plan ''scope'')
       @ validateWindow H (fget plan ''validity'') ''PLAN'' Null
       @ disposition_issues plan compiledPlan
       @ concat (List.map (validateNativeSetup H) (checked_setups primary setups))
       @ compile_issues primary compiledPlan)"

definition validateNativeMasterCrossFieldsV1 :: "host \<Rightarrow> jsval \<Rightarrow> jsval \<Rightarrow> opp_issue list" where
  "validateNativeMasterCrossFieldsV1 H rawMaster compiledPlan =
     (let master = obj_or_empty rawMaster; plan = obj_or_empty (fget master ''execution_plan'')
      in case validateNativeMasterRuntimeVersion master plan of
           Some runtimeIssue \<Rightarrow> [runtimeIssue]
         | None \<Rightarrow> if isNativeMaster master plan then dedupeIssues (master_issues H master plan compiledPlan) else [])"

section \<open>The monitor and its command\<close>

definition SETUP_COMMANDS_REQUIRING_PAYLOAD :: "string list" where
  "SETUP_COMMANDS_REQUIRING_PAYLOAD = [''UPSERT_CANDIDATE'', ''PRE_ARM'', ''ARM'', ''REPLACE'']"

definition THESIS_TARGETS :: "(string \<times> string) list" where
  "THESIS_TARGETS =
     [(''CREATE_WAIT'', ''WAIT_MONITORED''), (''MAKE_CONDITIONAL'', ''CONDITIONAL''), (''ACTIVATE'', ''ACTIVE''),
      (''WEAKEN'', ''WEAKENED''), (''MARK_AT_RISK'', ''AT_RISK''), (''MARK_POST_EVENT'', ''POST_EVENT''),
      (''INVALIDATE'', ''INVALIDATED''), (''EXPIRE'', ''EXPIRED''), (''REQUIRE_REPLAN'', ''REPLAN_REQUIRED''), (''SUPERSEDE'', ''SUPERSEDED'')]"

definition link_issues :: "jsobj \<Rightarrow> jsobj \<Rightarrow> jsval \<Rightarrow> opp_issue list" where
  "link_issues monitor_doc cmd currentState =
     (let source = fget (obj_or_empty (fget monitor_doc ''source'')); links = fget (obj_or_empty (fget monitor_doc ''links''));
          currentThesis = fget (obj_or_empty (get currentState ''thesis''))
      in validateExactLink ''MONITOR_PLAN_LINK_MISMATCH'' ''plan_id'' (links ''plan_id'') (fget cmd ''plan_id'')
       @ validateMonitorScopeCoherence (fget monitor_doc ''scope'') (fget cmd ''scope'')
       @ validateExactLink ''MONITOR_ID_LINK_MISMATCH'' ''monitor_id'' (source ''monitor_id'') (fget cmd ''monitor_id'')
       @ validateExactLink ''MONITOR_THESIS_LINK_MISMATCH'' ''active_thesis_id'' (links ''active_thesis_id'')
           (get (fget monitor_doc ''active_thesis_update'') ''thesis_id'')
       @ (if truthy (currentThesis ''plan_id'') then validateExactLink ''MONITOR_ACTIVE_PLAN_MISMATCH'' ''plan_id'' (links ''plan_id'') (currentThesis ''plan_id'') else [])
       @ (if truthy (currentThesis ''thesis_id'')
          then validateExactLink ''MONITOR_ACTIVE_THESIS_MISMATCH'' ''active_thesis_id'' (links ''active_thesis_id'') (currentThesis ''thesis_id'') else []))"

definition payload_count :: "jsobj \<Rightarrow> nat" where
  "payload_count cmd = length (filter (\<lambda>k. \<not> nullish (fget cmd k)) [''setup_transition'', ''transformation'', ''replan_request'', ''management_request''])"

definition action_issues :: "jsobj \<Rightarrow> opp_issue list" where
  "action_issues cmd =
     (let requestedAction = native_enumValue (fget cmd ''requested_action'')
      in (if requestedAction = ''NO_ACTION'' \<and> 0 < payload_count cmd then [native_issue ''NO_ACTION_HAS_COMMAND_PAYLOAD'' Null] else [])
       @ (if requestedAction = ''APPLY_ORTHOGONAL_COMMANDS'' \<and> payload_count cmd = 0 then [native_issue ''ORTHOGONAL_COMMAND_PAYLOAD_MISSING'' Null] else []))"

definition replace_issues :: "jsobj \<Rightarrow> jsval \<Rightarrow> opp_issue list" where
  "replace_issues asked currentState =
     (let nested = obj_or_empty (fget asked ''setup'');
          outerId = js_text (fget asked ''setup_id'');
          oldId = js_text (fget asked ''replaces_setup_id'');
          currentId = js_text (get (get currentState ''setup'') ''setup_id'')
      in (if oldId = [] then [native_issue ''REPLACE_OLD_SETUP_ID_MISSING'' Null]
          else if oldId = outerId then [native_issue ''REPLACE_SETUP_IDS_MUST_DIFFER'' (Obj [(''setup_id'', Str outerId)])] else [])
       @ (if truthy (fget nested ''replaces_setup_id'') \<and> js_text (fget nested ''replaces_setup_id'') \<noteq> oldId
          then [native_issue ''REPLACE_LINK_MISMATCH'' (Obj [(''transition_replaces_setup_id'', Str oldId),
            (''nested_replaces_setup_id'', fget nested ''replaces_setup_id'')])] else [])
       @ (if currentId \<noteq> [] \<and> oldId \<noteq> [] \<and> currentId \<noteq> oldId
          then [native_issue ''REPLACE_CURRENT_SETUP_MISMATCH'' (Obj [(''current_setup_id'', Str currentId), (''replaces_setup_id'', Str oldId)])] else []))"

definition setup_transition_issues :: "jsobj \<Rightarrow> jsval \<Rightarrow> opp_issue list" where
  "setup_transition_issues asked currentState =
     (if asked = [] then []
      else let setupCommand = native_enumValue (fget asked ''command'');
          nested = obj_or_empty (fget asked ''setup'');
          outerId = js_text (fget asked ''setup_id''); nestedId = js_text (fget nested ''setup_id'')
      in (if outerId \<noteq> [] \<and> nestedId \<noteq> [] \<and> outerId \<noteq> nestedId
          then [native_issue ''MONITOR_SETUP_ID_MISMATCH'' (Obj [(''outer_setup_id'', Str outerId), (''nested_setup_id'', Str nestedId)])] else [])
       @ (if setupCommand \<in> set SETUP_COMMANDS_REQUIRING_PAYLOAD \<and> nested = []
          then [native_issue ''MONITOR_SETUP_PAYLOAD_REQUIRED'' (Obj [(''command'', Str setupCommand)])] else [])
       @ (if setupCommand \<notin> set SETUP_COMMANDS_REQUIRING_PAYLOAD \<and> nested \<noteq> []
          then [native_issue ''MONITOR_SETUP_PAYLOAD_FORBIDDEN'' (Obj [(''command'', Str setupCommand)])] else [])
       @ (if setupCommand = ''REPLACE'' then replace_issues asked currentState else []))"

definition transformation_issues :: "jsobj \<Rightarrow> opp_issue list" where
  "transformation_issues transformation =
     (if transformation = [] then []
      else let thesisCommand = native_enumValue (fget transformation ''command'');
          targetState = native_enumValue (fget transformation ''target_state'')
      in case map_of THESIS_TARGETS thesisCommand of
           Some expected \<Rightarrow> if targetState = expected then []
             else [native_issue ''THESIS_COMMAND_TARGET_MISMATCH'' (Obj [(''command'', Str thesisCommand),
               (''expected_target_state'', Str expected), (''target_state'', Str targetState)])]
         | None \<Rightarrow> [])"

definition monitor_issues :: "jsobj \<Rightarrow> jsobj \<Rightarrow> jsval \<Rightarrow> opp_issue list" where
  "monitor_issues monitor_doc cmd currentState =
     link_issues monitor_doc cmd currentState
     @ action_issues cmd
     @ setup_transition_issues (obj_or_empty (fget cmd ''setup_transition'')) currentState
     @ transformation_issues (obj_or_empty (fget cmd ''transformation''))"

definition validateNativeMonitorCrossFieldsV1 :: "jsval \<Rightarrow> jsval \<Rightarrow> opp_issue list" where
  "validateNativeMonitorCrossFieldsV1 rawMonitor currentState =
     (let monitor_doc = obj_or_empty rawMonitor; cmd = obj_or_empty (fget monitor_doc ''command'')
      in case validateNativeMonitorRuntimeVersion monitor_doc cmd of
           Some runtimeIssue \<Rightarrow> [runtimeIssue]
         | None \<Rightarrow> if cmd = [] then [] else dedupeIssues (monitor_issues monitor_doc cmd currentState))"

section \<open>The search for a cycle ends\<close>

text \<open>The condition reached after \<open>n\<close> references, \<open>None\<close> when one leads nowhere before.\<close>

fun follow :: "(string \<times> string) list \<Rightarrow> nat \<Rightarrow> string \<Rightarrow> string option" where
  "follow dependency 0 c = Some c"
| "follow dependency (Suc n) c = (case map_of dependency c of None \<Rightarrow> None | Some d \<Rightarrow> follow dependency n d)"

lemma follow_add: "follow d (m + n) c = (case follow d m c of None \<Rightarrow> None | Some c' \<Rightarrow> follow d n c')"
  by (induction m arbitrary: c) (auto split: option.split)

lemma follow_period:
  assumes "follow d m c = Some c" and "0 < m"
  shows "follow d n c \<noteq> None"
proof -
  have "follow d (k * m) c = Some c" for k
    by (induction k) (simp_all add: follow_add assms(1))
  from this[of n] have "follow d (n + (n * m - n)) c = Some c" using assms(2) by simp
  then show ?thesis unfolding follow_add by (auto split: option.splits)
qed

lemma cycle_loop_decides:
  assumes "list_all (\<lambda>v. \<exists>m. 0 < m \<and> follow d m v = Some c) visited"
  shows "cycle_loop d visited c = Some (\<forall>n. follow d n c \<noteq> None)"
  using assms
proof (induction "card (dom (map_of d) - set visited)" arbitrary: visited c rule: less_induct)
  case less
  show ?case
  proof (cases "map_of d c")
    case None
    then have "follow d 1 c = None" by simp
    then show ?thesis using None by (subst cycle_loop.simps) (auto intro!: exI[of _ 1])
  next
    case (Some c')
    show ?thesis
    proof (cases "c \<in> set visited")
      case True
      then obtain m where "0 < m" "follow d m c = Some c" using less.prems by (auto simp: list_all_iff)
      then show ?thesis using Some True follow_period by (subst cycle_loop.simps) simp
    next
      case False
      have "finite (dom (map_of d))" by (rule finite_dom_map_of)
      then have "card (dom (map_of d) - set (c # visited)) < card (dom (map_of d) - set visited)"
        using Some False by (intro psubset_card_mono) auto
      moreover have "list_all (\<lambda>v. \<exists>m. 0 < m \<and> follow d m v = Some c') (c # visited)"
      proof -
        have "\<exists>m. 0 < m \<and> follow d m v = Some c'" if "0 < m" "follow d m v = Some c" for v m
          using that Some by (intro exI[of _ "m + 1"]) (simp only: follow_add, simp)
        moreover have "follow d 1 c = Some c'" using Some by simp
        ultimately show ?thesis using less.prems unfolding list_all_iff by (metis list.set_intros set_ConsD zero_less_one)
      qed
      ultimately have "cycle_loop d (c # visited) c' = Some (\<forall>n. follow d n c' \<noteq> None)" by (rule less.hyps)
      moreover have "(\<forall>n. follow d n c' \<noteq> None) \<longleftrightarrow> (\<forall>n. follow d n c \<noteq> None)"
        using Some by (metis follow.simps not0_implies_Suc option.simps(3,5))
      ultimately show ?thesis using Some False by (subst cycle_loop.simps) simp
    qed
  qed
qed

text \<open>
  C36. The search for a cycle ends for every table of references, and it answers the question: it says \<open>true\<close> exactly
  when following the references from the condition never comes to one that has none.
\<close>

theorem hasCycle_decides: "hasCycle c dependency = Some (\<forall>n. follow dependency n c \<noteq> None)"
  by (simp add: hasCycle_def cycle_loop_decides)

section \<open>What is left without an issue\<close>

lemma unique_from_Nil:
  "unique_from seen label base vs = [] \<longleftrightarrow> list_all present vs \<and> distinct (List.map to_str vs) \<and> to_str ` set vs \<inter> seen = {}"
  by (induction vs arbitrary: seen) (auto simp: present_def)

lemma validateUniqueValues_Nil:
  "validateUniqueValues vs label base = [] \<longleftrightarrow> list_all present vs \<and> distinct (List.map to_str vs)"
  by (simp add: validateUniqueValues_def unique_from_Nil)

lemma unique_texts_Nil: "validateUniqueValues (List.map (\<lambda>x. Str (f x)) xs) label base = [] \<longleftrightarrow> distinct (List.map f xs) \<and> [] \<notin> f ` set xs"
  by (auto simp: validateUniqueValues_Nil present_def list_all_iff comp_def image_iff)

lemma validateWindow_Nil: "validateWindow H v dmn i = [] \<longleftrightarrow> window_ordered H (obj_or_empty v)"
  by (simp add: validateWindow_def Let_def)

lemma validateExactLink_Nil: "validateExactLink c k l r = [] \<longleftrightarrow> js_text l = [] \<or> js_text r = [] \<or> js_text l = js_text r"
  by (auto simp: validateExactLink_def Let_def)

text \<open>The references between the conditions of a setup\<close>

definition depends :: "jsval list \<Rightarrow> (string \<times> string) set" where
  "depends conditions = {(condition_id_of c, break_reference c) |c. c \<in> set (retest_conditions conditions)}"

lemma map_of_put_all:
  assumes "distinct (List.map f xs)" and "x \<in> set xs"
  shows "map_of (foldl (\<lambda>acc y. put_field (f y) (g y) acc) acc xs) (f x) = Some (g x)"
  using assms
proof (induction xs rule: rev_induct)
  case (snoc y ys)
  then show ?case by (cases "x = y") (auto simp: image_iff)
qed simp

lemma keys_put_all: "fst ` set (foldl (\<lambda>acc y. put_field (f y) (g y) acc) acc xs) = fst ` set acc \<union> f ` set xs"
  by (induction xs arbitrary: acc) (auto simp: keys_put_field)

lemma depends_followed:
  assumes distinct: "distinct (List.map condition_id_of conditions)" and found: "list_all (reference_found conditions) (retest_conditions conditions)"
    and "(x, y) \<in> (depends conditions)\<^sup>+"
  shows "\<exists>n. follow (dependencies conditions) (Suc n) x = Some y"
  using assms(3)
proof (induction rule: trancl_induct)
  have all: "filter (reference_found conditions) (retest_conditions conditions) = retest_conditions conditions"
    using found by (simp add: list_all_iff filter_id_conv)
  have "distinct (List.map condition_id_of (retest_conditions conditions))"
    using distinct by (auto simp: retest_conditions_def distinct_map intro: inj_on_subset)
  then have one: "(a, b) \<in> depends conditions \<Longrightarrow> map_of (dependencies conditions) a = Some b" for a b
    by (auto simp: depends_def dependencies_def all map_of_put_all)
  {
    case (base y)
    then show ?case using one by (intro exI[of _ 0]) simp
  next
    case (step y z)
    then obtain n where "follow (dependencies conditions) (Suc n) x = Some y" by blast
    moreover have "follow (dependencies conditions) 1 y = Some z" using one[OF step.hyps(2)] by simp
    ultimately have "follow (dependencies conditions) (Suc n + 1) x = Some z" by (simp only: follow_add option.case)
    then show ?case by (intro exI[of _ "n + 1"]) simp
  }
qed

lemma acyclic_depends:
  assumes "distinct (List.map condition_id_of conditions)" and "list_all (reference_found conditions) (retest_conditions conditions)"
    and "cycle_issues i (dependencies conditions) = []"
  shows "acyclic (depends conditions)"
  unfolding acyclic_def
proof
  fix x show "(x, x) \<notin> (depends conditions)\<^sup>+"
  proof
    assume xx: "(x, x) \<in> (depends conditions)\<^sup>+"
    then obtain n where "follow (dependencies conditions) (Suc n) x = Some x" using depends_followed[OF assms(1,2)] by blast
    then have "hasCycle x (dependencies conditions) = Some True" using follow_period[of _ "Suc n" x] by (auto simp: hasCycle_def cycle_loop_decides)
    moreover have "x \<in> fst ` set (dependencies conditions)"
    proof -
      have "x \<in> Domain (depends conditions)" using xx by (metis Domain.DomainI trancl_domain)
      then show ?thesis using assms(2) by (auto simp: depends_def dependencies_def keys_put_all list_all_iff)
    qed
    ultimately show False using assms(3) by (auto simp: cycle_issues_def filter_empty_conv)
  qed
qed

text \<open>An entry order that fits its mode: the mode and the order type are known ones, the mode takes orders of the type, and a
  stop-limit order has both of its prices\<close>

definition order_fits_mode :: "jsobj \<Rightarrow> bool" where
  "order_fits_mode setup \<longleftrightarrow>
     (case (normalizeEntryModeV1 (fget setup ''entry_mode''), normalizeContractOrderTypeV1 (fget setup ''order_type'')) of
        (Some mode, Some type) \<Rightarrow> list_ex (\<lambda>(m, types). m = mode \<and> type \<in> set types) ORDER_TYPES_BY_ENTRY_MODE_V1
          \<and> (type = ''STOP_LIMIT'' \<longrightarrow> entry_finite (get (fget setup ''entry'') ''limit_price'') \<noteq> None
               \<and> entry_finite (get (fget setup ''entry'') ''stop_price'') \<noteq> None)
      | _ \<Rightarrow> False)"

lemma fitting_types: "type \<in> set (compatible_types (Some mode)) \<Longrightarrow> list_ex (\<lambda>(m, types). m = mode \<and> type \<in> set types) ORDER_TYPES_BY_ENTRY_MODE_V1"
  by (cases "map_of ORDER_TYPES_BY_ENTRY_MODE_V1 mode") (fastforce simp: compatible_types_def list_ex_iff dest: map_of_SomeD)+

lemma valid_order_fits: "eo_valid (setup_entry_order setup) \<Longrightarrow> order_fits_mode setup"
proof -
  have fields: "fget (obj_or_empty v) k = get v k" for v k by (cases v) simp_all
  assume "eo_valid (setup_entry_order setup)"
  then show ?thesis
    unfolding setup_entry_order_def Let_def entry_order_valid_exactly order_fits_mode_def fields using fitting_types by (auto simp: prices_given_def)
qed

text \<open>A setup that can be compiled and watched\<close>

definition sound_native_setup :: "host \<Rightarrow> jsval \<Rightarrow> bool" where
  "sound_native_setup H s \<longleftrightarrow>
     (let setup = obj_or_empty s; conditions = arr_or_empty (fget setup ''conditions'')
      in window_ordered H (obj_or_empty (fget setup ''validity'')) \<and> order_fits_mode setup
       \<and> list_ex activates conditions
       \<and> distinct (List.map condition_id_of conditions) \<and> [] \<notin> condition_id_of ` set conditions
       \<and> list_all (reference_found conditions) (retest_conditions conditions) \<and> acyclic (depends conditions))"

lemma validateNativeSetup_Nil: "validateNativeSetup H s = [] \<Longrightarrow> sound_native_setup H s"
  unfolding validateNativeSetup_def sound_native_setup_def Let_def append_is_Nil_conv unique_texts_Nil
  using acyclic_depends valid_order_fits[of "obj_or_empty s"]
  by (auto simp: validateWindow_Nil setup_entry_order_def entry_order_valid reference_issues_def filter_empty_conv list_all_iff list_ex_iff Let_def split: if_splits)

lemma clean_master_issues:
  assumes "validateNativeMasterCrossFieldsV1 H (Obj master) compiledPlan = []"
    and "fget master ''execution_plan'' = Obj plan" and "isNativeMaster master plan"
  shows "master_issues H master plan compiledPlan = []"
  using assms by (auto simp: validateNativeMasterCrossFieldsV1_def Let_def dedupeIssues_Nil split: option.splits)

text \<open>
  C35. A native master without an issue, whose plan names a primary setup, is consistent: the plan and the thesis carry the
  same plan id, the setups have distinct ids and ranks, the plan has a window of validity, and its primary setup is one of
  the setups, has a window, an entry order that fits its mode, an activation condition and conditions with distinct ids whose
  references exist and are acyclic. Where the compiled plan ranks the primary setup, it says that it was compiled; a
  compiled plan that does not rank it raises no issue.
\<close>

theorem clean_master_is_consistent:
  assumes "validateNativeMasterCrossFieldsV1 H (Obj master) compiledPlan = []"
    and "fget master ''execution_plan'' = Obj plan" and "isNativeMaster master plan"
    and "js_text (fget plan ''primary_setup_id'') \<noteq> []"
  shows "js_text (fget plan ''plan_id'') \<noteq> [] \<and> js_text (fget plan ''plan_id'') = js_text (get (fget master ''active_thesis'') ''plan_id'')
    \<and> distinct (List.map setup_id_of (arr_or_empty (fget plan ''setups'')))
    \<and> distinct (List.map (\<lambda>s. to_str (get s ''rank'')) (arr_or_empty (fget plan ''setups'')))
    \<and> window_ordered H (obj_or_empty (fget plan ''validity''))
    \<and> list_ex (\<lambda>s. setup_id_of s = js_text (fget plan ''primary_setup_id'') \<and> sound_native_setup H s) (arr_or_empty (fget plan ''setups''))
    \<and> list_all (\<lambda>s. setup_id_of s = js_text (fget plan ''primary_setup_id'') \<longrightarrow> get s ''compile_status'' = Str ''COMPILED'')
        (arr_or_empty (get compiledPlan ''ranked_setups''))"
proof -
  let ?setups = "arr_or_empty (fget plan ''setups'')" and ?p = "js_text (fget plan ''primary_setup_id'')"
  have thesis_get: "fget (obj_or_empty v) k = get v k" for v k by (cases v) simp_all
  have none: "master_issues H master plan compiledPlan = []" by (rule clean_master_issues[OF assms(1,2,3)])
  then have "?p \<in> setup_id_of ` set ?setups"
    using assms(4) by (auto simp: master_issues_def primary_issues_def Let_def split: if_splits)
  moreover from none have "list_all (\<lambda>s. validateNativeSetup H s = []) (checked_setups ?p ?setups)"
    by (simp add: master_issues_def Let_def list_all_iff)
  ultimately have primary: "list_ex (\<lambda>s. setup_id_of s = ?p \<and> sound_native_setup H s) ?setups"
    using validateNativeSetup_Nil by (auto simp: checked_setups_def list_ex_iff list_all_iff split: if_splits)
  from none show ?thesis
    using primary unfolding master_issues_def Let_def append_is_Nil_conv unique_texts_Nil validateUniqueValues_Nil validateWindow_Nil thesis_get
    by (auto simp: plan_id_issues_def compile_issues_def filter_empty_conv list_all_iff comp_def split: if_splits)
qed

text \<open>A master, its plan and the compiled plan, without an issue\<close>

definition sample_native_setup :: jsval where
  "sample_native_setup = Obj [(''setup_id'', Str ''S1''), (''rank'', Str ''1''), (''entry_mode'', Str ''stop-cross''), (''order_type'', Str ''STOP''),
     (''validity'', Obj [(''valid_from_paris'', Str ''2026-06-11T10:00:00Z''), (''expires_at_paris'', Str ''2026-06-11T12:00:00Z'')]),
     (''conditions'', Arr [Obj [(''condition_id'', Str ''B''), (''role'', Str ''activation'')],
        Obj [(''condition_id'', Str ''R''), (''predicate_type'', Str ''BREAK_RETEST_SEQUENCE''), (''break_condition_id'', Str ''B'')]])]"

definition sample_native_plan :: jsobj where
  "sample_native_plan = [(''plan_id'', Str ''P1''), (''primary_setup_id'', Str ''S1''), (''setups'', Arr [sample_native_setup]),
     (''validity'', Obj [(''valid_from_paris'', Str ''2026-06-11T09:00:00Z''), (''expires_at_paris'', Str ''2026-06-11T18:00:00Z'')])]"

definition sample_native_master :: jsobj where
  "sample_native_master = [(''contract'', Obj [(''name'', Str ''DeskMasterAnalysisContract''), (''version'', Str ''5.4.0'')]),
     (''execution_plan'', Obj sample_native_plan), (''active_thesis'', Obj [(''plan_id'', Str ''P1'')])]"

theorem clean_master_is_consistent_witness:
  "js_text (Str ''P1'') \<noteq> [] \<and> list_ex (\<lambda>s. setup_id_of s = ''S1'' \<and> sound_native_setup sample_host s) [sample_native_setup]"
proof -
  let ?compiled = "Obj [(''ranked_setups'', Arr [Obj [(''setup_id'', Str ''S1''), (''compile_status'', Str ''COMPILED'')]])]"
  have "validateNativeMasterCrossFieldsV1 sample_host (Obj sample_native_master) ?compiled = []" by code_simp
  moreover have "isNativeMaster sample_native_master sample_native_plan" by code_simp
  moreover have "fget sample_native_master ''execution_plan'' = Obj sample_native_plan" by (simp add: sample_native_master_def)
  moreover have "js_text (fget sample_native_plan ''primary_setup_id'') = ''S1''" "arr_or_empty (fget sample_native_plan ''setups'') = [sample_native_setup]"
    "js_text (Str ''P1'') \<noteq> []"
    by code_simp+
  ultimately show ?thesis using clean_master_is_consistent[of sample_host sample_native_master ?compiled sample_native_plan] by simp
qed

text \<open>
  The version of a contract is compared once as a string and once strictly: a master whose version is the array of the
  active version passes the check of the version and is then not taken for a native one, so nothing of it is checked.
\<close>

lemma array_version_skips_validation:
  "validateNativeMasterCrossFieldsV1 sample_host (Obj [(''contract'', Obj [(''name'', Str ''DeskMasterAnalysisContract''), (''version'', Arr [Str ''5.4.0''])])]) (Obj []) = []"
  "validateNativeMasterCrossFieldsV1 sample_host (Obj [(''contract'', Obj [(''name'', Str ''DeskMasterAnalysisContract''), (''version'', Str ''5.4.0'')])]) (Obj []) \<noteq> []"
  by code_simp+

text \<open>A contract of a version that is only kept for reading gets no other issue.\<close>

lemma historical_read_only:
  assumes "c \<in> set components" and "nc_recognized c" and "historical_version c"
  shows "\<exists>ev. validateNativeRuntimeVersion components = Some (native_issue ''HISTORICAL_NATIVE_CONTRACT_READ_ONLY'' ev)"
proof -
  have "filter nc_recognized components \<noteq> []" "filter historical_version (filter nc_recognized components) \<noteq> []"
    using assms by (auto simp: filter_empty_conv)
  then show ?thesis by (simp add: validateNativeRuntimeVersion_def version_issue_def Let_def) blast
qed

lemma historical_master_read_only:
  assumes "fget master ''execution_plan'' = Obj plan"
    and "c = native_component_of ''master'' ''DeskMasterAnalysisContract'' master
       \<or> c = native_component_of ''execution_plan'' ''DeskExecutionPlanContract'' plan"
    and "nc_recognized c" and "historical_version c"
  shows "\<exists>ev. validateNativeMasterCrossFieldsV1 H (Obj master) compiledPlan = [native_issue ''HISTORICAL_NATIVE_CONTRACT_READ_ONLY'' ev]"
proof -
  have "\<exists>ev. validateNativeMasterRuntimeVersion master plan = Some (native_issue ''HISTORICAL_NATIVE_CONTRACT_READ_ONLY'' ev)"
    unfolding validateNativeMasterRuntimeVersion_def using assms(2) by (intro historical_read_only[OF _ assms(3,4)]) auto
  then show ?thesis using assms(1) by (auto simp: validateNativeMasterCrossFieldsV1_def)
qed

lemma setup_transition_Nil:
  assumes "setup_transition_issues asked currentState = []" and "asked \<noteq> []"
  shows "native_enumValue (fget asked ''command'') \<in> set SETUP_COMMANDS_REQUIRING_PAYLOAD \<longleftrightarrow> obj_or_empty (fget asked ''setup'') \<noteq> []"
    and "native_enumValue (fget asked ''command'') = ''REPLACE'' \<Longrightarrow> replace_issues asked currentState = []"
    and "js_text (fget asked ''setup_id'') = [] \<or> js_text (get (fget asked ''setup'') ''setup_id'') = []
       \<or> js_text (fget asked ''setup_id'') = js_text (get (fget asked ''setup'') ''setup_id'')"
proof -
  have nested: "fget (obj_or_empty v) k = get v k" for v k by (cases v) simp_all
  show "native_enumValue (fget asked ''command'') \<in> set SETUP_COMMANDS_REQUIRING_PAYLOAD \<longleftrightarrow> obj_or_empty (fget asked ''setup'') \<noteq> []"
    using assms unfolding setup_transition_issues_def Let_def by (simp split: if_splits) blast+
  show "native_enumValue (fget asked ''command'') = ''REPLACE'' \<Longrightarrow> replace_issues asked currentState = []"
    using assms unfolding setup_transition_issues_def Let_def by (simp split: if_splits)
  show "js_text (fget asked ''setup_id'') = [] \<or> js_text (get (fget asked ''setup'') ''setup_id'') = []
       \<or> js_text (fget asked ''setup_id'') = js_text (get (fget asked ''setup'') ''setup_id'')"
    using assms unfolding setup_transition_issues_def Let_def nested by (simp split: if_splits)
qed

lemma replace_Nil:
  "replace_issues asked currentState = [] \<Longrightarrow>
     js_text (fget asked ''replaces_setup_id'') \<noteq> [] \<and> js_text (fget asked ''replaces_setup_id'') \<noteq> js_text (fget asked ''setup_id'')
   \<and> (js_text (get (get currentState ''setup'') ''setup_id'') = []
      \<or> js_text (get (get currentState ''setup'') ''setup_id'') = js_text (fget asked ''replaces_setup_id''))"
  by (simp add: replace_issues_def Let_def split: if_splits)

text \<open>
  A monitor whose command has no issue is coherent: it speaks of the plan of its links, a command without action carries
  nothing, a setup is sent exactly with the commands that need one, and a replacement names the setup it replaces, which is
  the current one and not the new one.
\<close>

theorem clean_monitor_is_coherent:
  assumes "validateNativeMonitorCrossFieldsV1 (Obj monitor_doc) currentState = []"
    and "fget monitor_doc ''command'' = Obj cmd" and "cmd \<noteq> []" and "fget cmd ''setup_transition'' = Obj asked" and "asked \<noteq> []"
    and "js_text (get (fget monitor_doc ''links'') ''plan_id'') \<noteq> []" and "js_text (fget cmd ''plan_id'') \<noteq> []"
  shows "js_text (get (fget monitor_doc ''links'') ''plan_id'') = js_text (fget cmd ''plan_id'')
    \<and> native_enumValue (fget cmd ''requested_action'') \<noteq> ''NO_ACTION''
    \<and> (native_enumValue (fget asked ''command'') \<in> set SETUP_COMMANDS_REQUIRING_PAYLOAD \<longleftrightarrow> obj_or_empty (fget asked ''setup'') \<noteq> [])
    \<and> (native_enumValue (fget asked ''command'') = ''REPLACE'' \<longrightarrow>
        js_text (fget asked ''replaces_setup_id'') \<noteq> [] \<and> js_text (fget asked ''replaces_setup_id'') \<noteq> js_text (fget asked ''setup_id'')
        \<and> (js_text (get (get currentState ''setup'') ''setup_id'') = []
           \<or> js_text (get (get currentState ''setup'') ''setup_id'') = js_text (fget asked ''replaces_setup_id'')))"
proof -
  have links: "fget (obj_or_empty v) k = get v k" for v k by (cases v) simp_all
  have none: "monitor_issues monitor_doc cmd currentState = []"
    using assms(1,2,3) by (auto simp: validateNativeMonitorCrossFieldsV1_def Let_def dedupeIssues_Nil split: option.splits)
  then have "setup_transition_issues asked currentState = []" using assms(4) by (simp add: monitor_issues_def)
  note asked = setup_transition_Nil[OF this assms(5)]
  have "0 < payload_count cmd" using assms(4) by (simp add: payload_count_def)
  then have "native_enumValue (fget cmd ''requested_action'') \<noteq> ''NO_ACTION''"
    using none by (simp add: monitor_issues_def action_issues_def Let_def split: if_splits)
  moreover have "js_text (get (fget monitor_doc ''links'') ''plan_id'') = js_text (fget cmd ''plan_id'')"
    using none assms(6,7) by (simp add: monitor_issues_def link_issues_def Let_def links validateExactLink_Nil)
  ultimately show ?thesis using asked(1) asked(2)[THEN replace_Nil] by blast
qed

definition sample_native_monitor :: jsobj where
  "sample_native_monitor = [(''contract'', Obj [(''name'', Str ''DeskHourlyThesisMonitorContract''), (''version'', Str ''2.4.0'')]),
     (''links'', Obj [(''plan_id'', Str ''P1'')]),
     (''command'', Obj [(''plan_id'', Str ''P1''), (''requested_action'', Str ''apply orthogonal commands''),
        (''setup_transition'', Obj [(''command'', Str ''REPLACE''), (''setup_id'', Str ''S2''), (''replaces_setup_id'', Str ''S1''),
           (''setup'', Obj [(''setup_id'', Str ''S2'')])])])]"

theorem clean_monitor_is_coherent_witness: "js_text (Str ''S1'') \<noteq> js_text (Str ''S2'')"
proof -
  define asked where "asked = obj_or_empty (get (fget sample_native_monitor ''command'') ''setup_transition'')"
  define cmd where "cmd = obj_or_empty (fget sample_native_monitor ''command'')"
  have "validateNativeMonitorCrossFieldsV1 (Obj sample_native_monitor) (Obj []) = []" by code_simp
  moreover have "native_enumValue (Str ''REPLACE'') = ''REPLACE''" "js_text (Str ''P1'') \<noteq> []" by code_simp+
  ultimately show ?thesis
    using clean_monitor_is_coherent[of sample_native_monitor "Obj []" cmd asked] by (simp add: sample_native_monitor_def asked_def cmd_def)
qed

end
