(* ===== verification/Order_Intent.thy ===== *)
theory Order_Intent
  imports Target_Position
begin

text \<open>
  \<open>packages/desk-domain/src/portfolio-order-intent-v1.js\<close>: from net target positions to order intents, one per target
  that moves, with the intents that are still active taken into account. A target that cannot become an order is skipped
  with a reason. Shown: which targets become orders, that an active intent is never left beside a new one, that what is
  opened and closed adds up to the change, and that the targets built by \<open>Target_Position\<close> carry the authority this
  file asks for. (\<open>sort\<close> also reorders the array of targets it is given.)
\<close>

section \<open>Policy\<close>

record intent_policy =
  ip_provider :: string
  ip_account :: string
  ip_broker_account :: string
  ip_broker_accounts :: "(string \<times> string) list"
  ip_order_type :: string
  ip_time_in_force :: string
  ip_allow_replace :: bool
  ip_submission :: bool
  ip_require_protection :: bool
  ip_require_target :: bool
  ip_contracts :: jsval
  ip_protection :: jsval

definition normalizeBrokerAccountMap :: "jsval \<Rightarrow> (string \<times> string) list" where
  "normalizeBrokerAccountMap value = from_entries (filter (\<lambda>(k, v). k \<noteq> [] \<and> v \<noteq> [])
     (List.map (\<lambda>(k, v). (js_text (Str k), js_text v)) (js_entries (Obj (obj_or_empty value)))))"

definition intent_normalizePolicy :: "jsval \<Rightarrow> intent_policy" where
  "intent_normalizePolicy value =
     (let policy = fget (obj_or_empty value)
      in \<lparr>ip_provider = js_text (firstDefined [policy ''provider_id'', Str ''provider-neutral'']),
          ip_account = js_text (policy ''account_id''), ip_broker_account = js_text (policy ''broker_account_id''),
          ip_broker_accounts = normalizeBrokerAccountMap (firstDefined [policy ''broker_account_ids'', policy ''brokerAccountIds'',
            policy ''account_broker_map'', policy ''accountBrokerMap'', Obj []]),
          ip_order_type = js_upper (firstDefined [policy ''order_type'', Str ''MARKET'']),
          ip_time_in_force = js_upper (firstDefined [policy ''time_in_force'', Str ''DAY'']),
          ip_allow_replace = (firstDefined [policy ''allow_cancel_replace'', Bool True] \<noteq> Bool False),
          ip_submission = (firstDefined [policy ''submission_enabled'', Bool False] = Bool True),
          ip_require_protection = (firstDefined [policy ''require_protection'', Bool True] \<noteq> Bool False),
          ip_require_target = (firstDefined [policy ''require_profit_target'', Bool True] \<noteq> Bool False),
          ip_contracts = firstDefined [policy ''provider_contracts'', Obj []],
          ip_protection = firstDefined [policy ''default_protection_plan'', Null]\<rparr>)"

definition policyHashScope :: "intent_policy \<Rightarrow> jsval" where
  "policyHashScope p = Obj [(''provider_id'', Str (ip_provider p)), (''broker_account_id'', Str (ip_broker_account p)),
     (''broker_account_ids'', Obj (List.map (\<lambda>(k, v). (k, Str v)) (ip_broker_accounts p))), (''order_type'', Str (ip_order_type p)),
     (''time_in_force'', Str (ip_time_in_force p)), (''require_protection'', Bool (ip_require_protection p)),
     (''require_profit_target'', Bool (ip_require_target p))]"

section \<open>Accounts, instruments, contracts\<close>

text \<open>\<open>accountId(target, policy)\<close>; the empty policy \<open>{}\<close> has no account.\<close>

definition target_account :: "jsval \<Rightarrow> string \<Rightarrow> string" where
  "target_account t policy_account = js_text (firstDefined [get t ''account_id'', get t ''accountId'', Str policy_account, Str ''default''])"

definition target_instrument :: "jsval \<Rightarrow> string" where
  "target_instrument t = js_upper (get t ''instrument'')"

text \<open>An account is not named like a property that objects inherit.\<close>

definition brokerAccountId :: "jsval \<Rightarrow> intent_policy \<Rightarrow> string" where
  "brokerAccountId t p =
     (let targetAccount = target_account t (ip_account p);
          explicit = js_text (get t ''broker_account_id'');
          mapped = (case map_of (ip_broker_accounts p) targetAccount of Some b \<Rightarrow> trim b | None \<Rightarrow> []);
          policyAccount = trim (ip_account p); defaultBroker = trim (ip_broker_account p)
      in if explicit \<noteq> [] then explicit
         else if mapped \<noteq> [] then mapped
         else if defaultBroker \<noteq> [] \<and> (targetAccount = defaultBroker \<or> targetAccount = policyAccount \<or> policyAccount = [] \<and> targetAccount = ''default'')
         then defaultBroker else targetAccount)"

definition intentId :: "jsval \<Rightarrow> string" where
  "intentId intent = js_text (firstDefined [get intent ''order_intent_id'', get intent ''id''])"

definition sameTargetKey :: "jsval \<Rightarrow> jsval \<Rightarrow> bool" where
  "sameTargetKey intent t \<longleftrightarrow>
     js_upper (firstDefined [get intent ''instrument'', get (get intent ''provider_contract_ref'') ''instrument'']) = target_instrument t
   \<and> js_text (firstDefined [get intent ''account_id'', get intent ''broker_account_id'']) = target_account t []"

definition intent_target_key :: "jsval \<Rightarrow> string" where
  "intent_target_key t = target_account t [] @ '':'' @ target_instrument t"

definition normalizeContracts :: "jsval \<Rightarrow> (string \<times> jsval) list" where
  "normalizeContracts value = (case value of
       Arr items \<Rightarrow> from_entries (List.map (\<lambda>item. (js_upper (js_or (get item ''instrument'') (get item ''symbol'')), item)) items)
     | _ \<Rightarrow> from_entries (List.map (\<lambda>(k, v). (js_upper (Str k), if is_obj v then v else Obj [(''provider_symbol'', v)]))
         (js_entries (Obj (obj_or_empty value)))))"

definition contractRef :: "jsval \<Rightarrow> jsval \<Rightarrow> intent_policy \<Rightarrow> jsval" where
  "contractRef t contractsInput p =
     (let symbol = target_instrument t;
          contract = (case map_of (normalizeContracts contractsInput) symbol of Some c \<Rightarrow> js_or c (Obj []) | None \<Rightarrow> Obj [])
      in Obj [(''provider_id'', Str (js_text (firstDefined [get contract ''provider_id'', Str (ip_provider p)]))),
          (''provider_contract_id'', Str (js_text (firstDefined [get contract ''provider_contract_id'', get contract ''broker_contract_id'', get contract ''id'']))),
          (''provider_symbol'', Str (js_text (firstDefined [get contract ''provider_symbol'', get contract ''broker_symbol'', get contract ''symbol'', Str symbol]))),
          (''instrument'', Str symbol)])"

section \<open>The approved trade plan\<close>

definition approvedTradePlanForTarget :: "jsval \<Rightarrow> jsobj option" where
  "approvedTradePlanForTarget t = (case js_record (firstDefined [get t ''approved_trade_plan'', get t ''approvedTradePlan'']) of
       Some plan \<Rightarrow> if fget plan ''availability'' = Str ''UNAVAILABLE'' then None else Some plan
     | None \<Rightarrow> None)"

definition plan_value :: "jsobj option \<Rightarrow> string \<Rightarrow> jsval" where
  "plan_value plan k = (case plan of Some p \<Rightarrow> fget p k | None \<Rightarrow> Undef)"

definition orderTypeForTarget :: "jsobj option \<Rightarrow> intent_policy \<Rightarrow> string" where
  "orderTypeForTarget plan p = js_upper (firstDefined [plan_value plan ''order_type'', plan_value plan ''orderType'', Str (ip_order_type p), Str ''MARKET''])"

definition timeInForceForTarget :: "jsobj option \<Rightarrow> intent_policy \<Rightarrow> string" where
  "timeInForceForTarget plan p = js_upper (firstDefined [plan_value plan ''time_in_force'', plan_value plan ''timeInForce'', Str (ip_time_in_force p), Str ''DAY''])"

definition entryForTradePlan :: "jsobj option \<Rightarrow> jsval" where
  "entryForTradePlan plan =
     (let e = fget (obj_or_empty (plan_value plan ''entry''))
      in Obj [(''availability'', Str (js_text (js_or (e ''availability'') (Str (if e ''price'' \<noteq> Undef then ''KNOWN'' else ''UNAVAILABLE''))))),
          (''type'', Str (js_text (js_or (e ''type'') (Str ''PRICE'')))),
          (''price'', js_opt_num (target_numberOrNull (firstDefined [e ''price'', e ''calculation_price'']))),
          (''low'', js_opt_num (target_numberOrNull (e ''low''))), (''high'', js_opt_num (target_numberOrNull (e ''high''))), (''unit'', Str ''PRICE'')])"

record plan_target =
  pt_label :: string
  pt_price :: "jnum option"
  pt_expected :: "jnum option"
  pt_reward :: "jnum option"
  pt_availability :: string

definition targetsForTradePlan :: "jsobj option \<Rightarrow> plan_target list" where
  "targetsForTradePlan plan = List.map (\<lambda>(i, item).
       \<lparr>pt_label = js_text (firstDefined [get item ''label'', Str (''T'' @ nat_str (int i + 1))]),
        pt_price = target_numberOrNull (get item ''price''),
        pt_expected = target_numberOrNull (firstDefined [get item ''expected_r'', get item ''expectedR'']),
        pt_reward = target_numberOrNull (firstDefined [get item ''reward_risk'', get item ''rewardRisk'']),
        pt_availability = js_text (js_or (get item ''availability'') (Str ''PARTIAL''))\<rparr>)
     (enumerate 0 (arr_or_empty (plan_value plan ''targets'')))"

definition plan_target_js :: "plan_target \<Rightarrow> jsval" where
  "plan_target_js x = Obj [(''label'', Str (pt_label x)), (''price'', js_opt_num (pt_price x)), (''expected_r'', js_opt_num (pt_expected x)),
     (''reward_risk'', js_opt_num (pt_reward x)), (''availability'', Str (pt_availability x))]"

definition protectionFromTradePlan :: "jsobj option \<Rightarrow> jsval" where
  "protectionFromTradePlan plan = (case plan of None \<Rightarrow> Null
     | Some p \<Rightarrow> (let stopPrice = target_numberOrNull (get (fget p ''stop'') ''price'');
          firstTarget = List.find (\<lambda>x. pt_price x \<noteq> None) (targetsForTradePlan plan)
        in if stopPrice = None \<and> firstTarget = None then Null
           else Obj [(''stop_price'', js_opt_num stopPrice),
             (''target_price'', js_opt_num (case firstTarget of Some x \<Rightarrow> pt_price x | None \<Rightarrow> None)),
             (''targets'', Arr (List.map plan_target_js (targetsForTradePlan plan))), (''source'', Str ''APPROVED_TRADE_PLAN'')]))"

record protection =
  pp_required :: bool
  pp_missing :: "string list"
  pp_stop :: "jnum option"
  pp_target :: "jnum option"
  pp_slippage :: "jnum option"
  pp_oco :: bool

definition positiveOrNull :: "jsval \<Rightarrow> jnum option" where
  "positiveOrNull value = (if is_finite (to_num value) \<and> jlt (Fin 0) (to_num value) then Some (to_num value) else None)"

definition protectionPlan :: "jsval \<Rightarrow> intent_policy \<Rightarrow> protection" where
  "protectionPlan value p =
     (let source = fget (obj_or_empty value);
          stopPrice = target_numberOrNull (firstDefined [source ''stop_price'', source ''protective_stop'']);
          targetPrice = target_numberOrNull (firstDefined [source ''target_price'', source ''profit_target''])
      in \<lparr>pp_required = ip_require_protection p,
          pp_missing = (if ip_require_protection p \<and> stopPrice = None then [''STOP_PRICE_REQUIRED''] else [])
            @ (if ip_require_protection p \<and> ip_require_target p \<and> targetPrice = None then [''TARGET_PRICE_REQUIRED''] else []),
          pp_stop = stopPrice, pp_target = targetPrice, pp_slippage = positiveOrNull (source ''max_slippage_ticks''),
          pp_oco = (firstDefined [source ''oco_required'', Bool True] \<noteq> Bool False)\<rparr>)"

definition pp_ready :: "protection \<Rightarrow> bool" where
  "pp_ready x \<longleftrightarrow> pp_missing x = []"

definition protection_js :: "protection \<Rightarrow> jsval" where
  "protection_js x = Obj [(''required'', Bool (pp_required x)), (''ready'', Bool (pp_ready x)), (''missing'', Arr (List.map Str (pp_missing x))),
     (''stop_price'', js_opt_num (pp_stop x)), (''target_price'', js_opt_num (pp_target x)), (''max_slippage_ticks'', js_opt_num (pp_slippage x)),
     (''oco_required'', Bool (pp_oco x))]"

section \<open>Sizes\<close>

definition lifecycleAction :: "jnum \<Rightarrow> jnum \<Rightarrow> string" where
  "lifecycleAction current target_size =
     (if current = Fin 0 then ''OPEN'' else if target_size = Fin 0 then ''CLOSE''
      else if jsign current \<noteq> jsign target_size then ''REVERSE''
      else if jlt (jabs current) (jabs target_size) then ''INCREASE'' else ''REDUCE'')"

definition openingSize :: "jnum \<Rightarrow> jnum \<Rightarrow> jnum" where
  "openingSize current target_size =
     (if current = Fin 0 \<or> jsign current \<noteq> jsign target_size then jabs target_size
      else jmax (Fin 0) (jsub (jabs target_size) (jabs current)))"

definition closingSize :: "jnum \<Rightarrow> jnum \<Rightarrow> jnum" where
  "closingSize current delta =
     (if current = Fin 0 \<or> jsign current = jsign delta then Fin 0 else jmin (jabs current) (jabs delta))"

section \<open>Authority\<close>

definition approvedTradePlanDirectionIssues :: "jsval \<Rightarrow> jnum \<Rightarrow> string list" where
  "approvedTradePlanDirectionIssues t target_size =
     (let plan = js_record (firstDefined [get t ''approved_trade_plan'', get t ''approvedTradePlan'']);
          expected = directionFromSignedSize target_size;
          targetDirection = js_upper (get t ''net_direction'')
      in if targetDirection \<noteq> [] \<and> targetDirection \<notin> {''LONG'', ''SHORT'', ''FLAT''} then [''TARGET_POSITION_DIRECTION_INVALID'']
         else if targetDirection \<noteq> [] \<and> targetDirection \<noteq> expected then [''TARGET_POSITION_DIRECTION_MISMATCH'']
         else case plan of None \<Rightarrow> []
         | Some p \<Rightarrow>
           if fget p ''availability'' = Str ''UNAVAILABLE'' \<or> expected = ''FLAT'' then []
           else (let directions = List.map js_upper (filter present [fget p ''side'', fget p ''direction'', get (fget p ''economics'') ''direction''])
             in if directions = [] \<or> \<not> list_all (\<lambda>d. d \<in> {''LONG'', ''SHORT''}) directions then [''APPROVED_TRADE_PLAN_DIRECTION_INVALID'']
                else if length (uniq directions) \<noteq> 1 \<or> hd directions \<noteq> expected then [''APPROVED_TRADE_PLAN_DIRECTION_MISMATCH'']
                else []))"

definition targetAuthorityIssues :: "jsval \<Rightarrow> jnum \<Rightarrow> string list" where
  "targetAuthorityIssues t target_size =
     (if get t ''schema_version'' = Str ''target_position_v1'' then [] else [''TARGET_POSITION_SCHEMA_REQUIRED''])
   @ (if js_text (get t ''id'') = [] then [''TARGET_POSITION_ID_REQUIRED''] else [])
   @ (if arr_or_empty (get t ''candidate_allocation_ids'') = [] then [''PORTFOLIO_ARBITRATION_LINEAGE_REQUIRED''] else [])
   @ (if filter truthy (arr_or_empty (get t ''derived_from_risk_decision_ids'')) = [] then [''GLOBAL_RISK_DECISION_REQUIRED''] else [])
   @ (case target_numberOrNull (firstDefined [get t ''risk_approved_net_size'', get t ''approved_net_target_size'']) of
        None \<Rightarrow> [''RISK_APPROVED_TARGET_REQUIRED'']
      | Some approved \<Rightarrow> if size_round approved \<noteq> size_round target_size then [''RISK_APPROVED_TARGET_MUTATED''] else [])
   @ approvedTradePlanDirectionIssues t target_size"

section \<open>The intent of a target\<close>

record order_terms =
  ot_current :: jnum
  ot_target :: jnum
  ot_delta :: jnum
  ot_quantity :: jnum
  ot_action :: string
  ot_account :: string
  ot_broker :: string
  ot_contract :: jsval
  ot_order_type :: string
  ot_tif :: string
  ot_entry :: jsval
  ot_targets :: jsval
  ot_protection :: protection

definition size_of :: "jsval list \<Rightarrow> jnum" where
  "size_of vs = (case target_numberOrNull (firstDefined vs) of Some n \<Rightarrow> n | None \<Rightarrow> Fin 0)"

definition target_current :: "jsval \<Rightarrow> jnum" where
  "target_current t = size_of [get t ''current_net_size'', get t ''currentNetSize'']"

definition target_size :: "jsval \<Rightarrow> jnum" where
  "target_size t = size_of [get t ''net_target_size'', get t ''netTargetSize'']"

definition target_delta :: "jsval \<Rightarrow> jnum" where
  "target_delta t = size_of [get t ''delta_size'', get t ''deltaSize'', Num (jsub (target_size t) (target_current t))]"

definition intent_protection :: "jsval \<Rightarrow> intent_policy \<Rightarrow> jsval \<Rightarrow> protection" where
  "intent_protection input p t = protectionPlan (firstDefined [get t ''protection_plan'', protectionFromTradePlan (approvedTradePlanForTarget t),
     get input ''default_protection_plan'', ip_protection p]) p"

definition intent_terms :: "jsval \<Rightarrow> intent_policy \<Rightarrow> jsval \<Rightarrow> order_terms" where
  "intent_terms input p t =
     (let plan = approvedTradePlanForTarget t
      in \<lparr>ot_current = target_current t, ot_target = target_size t, ot_delta = target_delta t,
          ot_quantity = jceil (jabs (target_delta t)), ot_action = (if jlt (Fin 0) (target_delta t) then ''BUY'' else ''SELL''),
          ot_account = target_account t (ip_account p), ot_broker = brokerAccountId t p,
          ot_contract = contractRef t (firstDefined [get input ''provider_contracts'', get input ''contracts'', ip_contracts p]) p,
          ot_order_type = orderTypeForTarget plan p, ot_tif = timeInForceForTarget plan p, ot_entry = entryForTradePlan plan,
          ot_targets = Arr (List.map plan_target_js (targetsForTradePlan plan)), ot_protection = intent_protection input p t\<rparr>)"

definition idempotency_key :: "host \<Rightarrow> jsval \<Rightarrow> intent_policy \<Rightarrow> order_terms \<Rightarrow> string" where
  "idempotency_key H t p o1 = canonicalSha256 H (Obj
     [(''target_position_id'', get t ''id''), (''account_id'', Str (ot_account o1)), (''instrument'', Str (target_instrument t)),
      (''targetSize'', Num (ot_target o1)), (''current'', Num (ot_current o1)), (''delta'', Num (ot_delta o1)), (''quantity'', Num (ot_quantity o1)),
      (''action'', Str (ot_action o1)), (''contract'', ot_contract o1), (''order_type'', Str (ot_order_type o1)), (''time_in_force'', Str (ot_tif o1)),
      (''entry'', ot_entry o1), (''protection'', protection_js (ot_protection o1)), (''targets'', ot_targets o1), (''policy'', policyHashScope p)])"

definition executionTermsForIntent :: "jsval \<Rightarrow> order_terms \<Rightarrow> jsval" where
  "executionTermsForIntent t o1 = Obj
     [(''account_id'', Str (target_account t [])), (''broker_account_id'', Str (ot_broker o1)), (''instrument'', Str (target_instrument t)),
      (''side'', Str (ot_action o1)), (''quantity'', Num (ot_quantity o1)), (''order_type'', Str (ot_order_type o1)), (''entry'', ot_entry o1),
      (''stop'', Obj [(''availability'', Str (if pp_stop (ot_protection o1) = None then ''UNAVAILABLE'' else ''KNOWN'')), (''price'', js_opt_num (pp_stop (ot_protection o1)))]),
      (''targets'', ot_targets o1), (''time_in_force'', Str (ot_tif o1))]"

definition riskSnapshotForTarget :: "jsval \<Rightarrow> jsval" where
  "riskSnapshotForTarget t =
     (let allocation = fget (obj_or_empty (get t ''risk_allocation'')); tradeRisk = fget (obj_or_empty (get (get t ''approved_trade_plan'') ''economics''));
          quantity = js_coalesce (get t ''risk_approved_net_size'') (get t ''net_target_size'')
      in Obj [(''requested_qty'', quantity), (''authorized_qty'', quantity),
          (''requested_risk_pct'', js_coalesce (allocation ''risk_pct'') Null), (''authorized_risk_pct'', js_coalesce (allocation ''risk_pct'') Null),
          (''risk_amount'', js_coalesce (allocation ''risk_amount'') Null),
          (''risk_per_contract'', js_coalesce (allocation ''risk_per_contract'') (js_coalesce (tradeRisk ''risk_per_contract'') Null)),
          (''stop_distance'', Obj [(''points'', js_coalesce (tradeRisk ''stop_distance_points'') Null), (''ticks'', js_coalesce (tradeRisk ''stop_distance_ticks'') Null)]),
          (''nearest_limit'', js_or (get t ''nearest_limit'') Null), (''reason_codes'', Arr (arr_or_empty (get t ''risk_decision_statuses'')))])"

definition immutable_terms :: "jsval \<Rightarrow> order_terms \<Rightarrow> jsobj" where
  "immutable_terms t o1 =
     [(''account_id'', Str (ot_account o1)), (''broker_account_id'', Str (ot_broker o1)), (''instrument'', Str (target_instrument t)),
      (''action'', Str (ot_action o1)), (''quantity'', Num (ot_quantity o1)), (''order_type'', Str (ot_order_type o1)),
      (''time_in_force'', Str (ot_tif o1)), (''entry'', ot_entry o1),
      (''protection'', Obj [(''stop_price'', js_opt_num (pp_stop (ot_protection o1))), (''target_price'', js_opt_num (pp_target (ot_protection o1)))]),
      (''targets'', ot_targets o1)]"

definition postRiskImmutability :: "host \<Rightarrow> jsval \<Rightarrow> order_terms \<Rightarrow> jsval" where
  "postRiskImmutability H t o1 = Obj [(''policy'', Str ''REJECT_AND_REPLAN''), (''mutable_after_risk'', Bool False),
     (''immutable_fields'', Arr (List.map (Str \<circ> fst) (immutable_terms t o1))), (''immutable_terms'', Obj (immutable_terms t o1)),
     (''immutable_terms_hash'', Str (js_hash H (Obj (immutable_terms t o1))))]"

definition intent_source :: "jsval \<Rightarrow> jsval" where
  "intent_source t = Obj [(''kind'', Str ''TARGET_POSITION''), (''target_position_id'', Str (js_text (get t ''id''))),
     (''risk_decision_ids'', Arr (arr_or_empty (get t ''derived_from_risk_decision_ids''))),
     (''candidate_allocation_ids'', Arr (arr_or_empty (get t ''candidate_allocation_ids''))), (''lineage'', js_or (get t ''lineage'') Null)]"

definition intent_audit :: "order_terms \<Rightarrow> jsval" where
  "intent_audit o1 = Obj [(''direct_llm_order'', Bool False), (''derived_from_netting_engine'', Bool True),
     (''quantity_rounding'', Obj [(''mode'', Str ''ceil''), (''raw_quantity'', Num (size_round (jabs (ot_delta o1)))), (''quantity'', Num (ot_quantity o1)),
        (''rounding_excess'', Num (size_round (jsub (ot_quantity o1) (jabs (ot_delta o1)))))]),
     (''post_risk_immutable_fields'', Arr (List.map Str [''account_id'', ''instrument'', ''action'', ''quantity'', ''order_type'', ''entry'', ''protection.stop_price'', ''targets'']))]"

definition intent_base :: "host \<Rightarrow> intent_policy \<Rightarrow> jsval \<Rightarrow> jsval \<Rightarrow> order_terms \<Rightarrow> jsobj" where
  "intent_base H p asOf t o1 =
     (let key = idempotency_key H t p o1; guard = ot_protection o1
      in [(''schema_version'', Str ''portfolio_order_intent_v1''), (''order_intent_id'', Str (''portfolio_order_intent_'' @ take 24 key)),
          (''target_position_id'', Str (js_text (get t ''id''))), (''account_id'', Str (ot_account o1)), (''broker_account_id'', Str (ot_broker o1)),
          (''instrument'', Str (target_instrument t)), (''provider_id'', Str (ip_provider p)), (''provider_contract_ref'', ot_contract o1),
          (''action'', Str (ot_action o1)), (''quantity'', Num (ot_quantity o1)), (''side'', Str (ot_action o1)), (''order_type'', Str (ot_order_type o1)),
          (''time_in_force'', Str (ot_tif o1)), (''lifecycle_action'', Str (lifecycleAction (ot_current o1) (ot_target o1))),
          (''current_net_size'', Num (size_round (ot_current o1))), (''target_net_size'', Num (size_round (ot_target o1))),
          (''delta_size'', Num (size_round (ot_delta o1))), (''closing_size'', Num (size_round (closingSize (ot_current o1) (ot_delta o1)))),
          (''opening_size'', Num (size_round (openingSize (ot_current o1) (ot_target o1)))),
          (''status'', Str (if pp_ready guard then ''READY'' else ''PROTECTION_REQUIRED'')),
          (''broker_submission_allowed'', Bool (pp_ready guard \<and> ip_submission p)), (''entry'', ot_entry o1), (''targets'', ot_targets o1),
          (''approved_trade_plan'', (case approvedTradePlanForTarget t of Some plan \<Rightarrow> Obj plan | None \<Rightarrow> Null)),
          (''risk_allocation'', js_or (get t ''risk_allocation'') Null), (''expected_exposure'', js_or (get t ''expected_exposure'') Null),
          (''protection'', protection_js guard), (''execution_terms'', executionTermsForIntent t o1), (''risk_snapshot'', riskSnapshotForTarget t),
          (''idempotency_key'', Str key), (''requested_at_utc'', asOf), (''source'', intent_source t), (''audit'', intent_audit o1)])"

definition sealed_intent :: "host \<Rightarrow> jsval \<Rightarrow> order_terms \<Rightarrow> jsobj \<Rightarrow> jsobj" where
  "sealed_intent H t o1 base =
     (let immutability = postRiskImmutability H t o1; whole = base @ [(''immutability'', immutability)]
      in whole @ [(''immutable_terms_hash'', get immutability ''immutable_terms_hash''), (''order_intent_hash'', Str (js_hash H (Obj whole)))])"

text \<open>An intent, or the reason to skip with the issues of authority it comes from.\<close>

definition orderIntentForTarget :: "host \<Rightarrow> jsval \<Rightarrow> intent_policy \<Rightarrow> jsval \<Rightarrow> jsval \<Rightarrow> jsobj + jsobj" where
  "orderIntentForTarget H input p asOf t =
     (if jabs (target_delta t) = Fin 0 then Inl [(''skip_reason'', Str ''NO_DELTA'')]
      else case targetAuthorityIssues t (target_size t) of
          why # others \<Rightarrow> Inl [(''skip_reason'', Str why), (''authority_issues'', Arr (List.map Str (why # others)))]
        | [] \<Rightarrow> (let o1 = intent_terms input p t in Inr (sealed_intent H t o1 (intent_base H p asOf t o1))))"

section \<open>The plan\<close>

definition TERMINAL_INTENT_STATUSES :: "string list" where
  "TERMINAL_INTENT_STATUSES = [''REJECTED'', ''CANCELLED'', ''CANCELED'', ''EXPIRED'', ''FILLED'', ''DONE'', ''COMPLETED'', ''FAILED'']"

definition activeOrderIntents :: "jsval \<Rightarrow> jsval list" where
  "activeOrderIntents value = filter (\<lambda>intent. js_upper (js_or (get intent ''status'') (get intent ''approval_status'')) \<notin> set TERMINAL_INTENT_STATUSES)
     (arr_or_empty value)"

record intent_plan =
  in_intents :: "jsobj list"
  in_replacements :: "jsval list"
  in_skipped :: "jsval list"

definition skip_target :: "jsval \<Rightarrow> string \<Rightarrow> jsobj \<Rightarrow> jsval" where
  "skip_target t why extra = Obj (spread [(''target_position_id'', Str (js_text (get t ''id''))), (''account_id'', Str (target_account t [])),
     (''instrument'', Str (target_instrument t)), (''reason'', Str why)] extra)"

definition cancelReplaceRequest :: "host \<Rightarrow> jsval \<Rightarrow> jsobj \<Rightarrow> jsval \<Rightarrow> jsval \<Rightarrow> jsval" where
  "cancelReplaceRequest H conflict replacement t asOf =
     (let base = [(''cancel_replace_id'', Str (''cancel_replace_'' @ take 24 (canonicalSha256 H (Obj [(''old'', Str (intentId conflict)), (''next'', fget replacement ''order_intent_id'')])))),
            (''stale_order_intent_id'', Str (intentId conflict)), (''replacement_order_intent_id'', fget replacement ''order_intent_id''),
            (''account_id'', Str (target_account t [])), (''instrument'', Str (target_instrument t)), (''reason'', Str ''TARGET_POSITION_CHANGED''),
            (''requested_at_utc'', asOf)]
      in Obj (base @ [(''cancel_replace_hash'', Str (js_hash H (Obj base)))]))"

definition replacing_intent :: "jsval \<Rightarrow> jsobj \<Rightarrow> jsobj" where
  "replacing_intent conflict draft = spread draft [(''replaces_order_intent_id'', Str (intentId conflict)), (''lifecycle_action'', Str ''CANCEL_REPLACE'')]"

definition applyTarget :: "host \<Rightarrow> jsval \<Rightarrow> intent_policy \<Rightarrow> jsval \<Rightarrow> jsval list \<Rightarrow> jsval \<Rightarrow> intent_plan \<Rightarrow> intent_plan" where
  "applyTarget H input p asOf existing t state =
     (let skip = (\<lambda>why extra. state\<lparr>in_skipped := in_skipped state @ [skip_target t why extra]\<rparr>)
      in case orderIntentForTarget H input p asOf t of
           Inl why \<Rightarrow> skip (to_str (fget why ''skip_reason'')) why
         | Inr draft \<Rightarrow>
             (case List.find (\<lambda>intent. Str (js_text (get intent ''idempotency_key'')) = fget draft ''idempotency_key'') existing of
                Some duplicate \<Rightarrow> skip ''DUPLICATE_INTENT_EXISTS''
                  [(''order_intent_id'', Str (intentId duplicate)), (''idempotency_key'', fget draft ''idempotency_key'')]
              | None \<Rightarrow>
                (case List.find (\<lambda>intent. sameTargetKey intent t) existing of
                   None \<Rightarrow> state\<lparr>in_intents := in_intents state @ [draft]\<rparr>
                 | Some conflict \<Rightarrow>
                     if \<not> ip_allow_replace p then skip ''ACTIVE_INTENT_EXISTS'' [(''order_intent_id'', Str (intentId conflict))]
                     else state\<lparr>in_intents := in_intents state @ [replacing_intent conflict draft],
                       in_replacements := in_replacements state @ [cancelReplaceRequest H conflict (replacing_intent conflict draft) t asOf]\<rparr>)))"

definition planStatus :: "intent_plan \<Rightarrow> string" where
  "planStatus state = (if in_intents state \<noteq> [] \<and> in_replacements state \<noteq> [] then ''CANCEL_REPLACE_READY''
     else if in_intents state \<noteq> [] then ''ORDER_INTENTS_READY''
     else if in_skipped state \<noteq> [] then ''NO_ORDER_INTENTS'' else ''NO_TARGETS'')"

definition targetPositions :: "host \<Rightarrow> jsval \<Rightarrow> jsval list" where
  "targetPositions H input = js_sort (\<lambda>l r. 0 < locale_compare H (intent_target_key l) (intent_target_key r))
     (arr_or_empty (firstDefined [get input ''target_positions'', fget (obj_or_empty (get input ''target_position_plan'')) ''target_positions'']))"

definition intent_policy_of :: "jsval \<Rightarrow> intent_policy" where
  "intent_policy_of input = intent_normalizePolicy (firstDefined [get input ''execution_policy'', get input ''policy'', Obj []])"

definition existing_intents :: "jsval \<Rightarrow> jsval list" where
  "existing_intents input = activeOrderIntents (firstDefined [get input ''existing_order_intents'', get input ''active_order_intents'', Arr []])"

definition intent_state :: "host \<Rightarrow> jsval \<Rightarrow> intent_plan" where
  "intent_state H input = foldl (\<lambda>state t. applyTarget H input (intent_policy_of input) (plan_as_of H input) (existing_intents input) t state)
     \<lparr>in_intents = [], in_replacements = [], in_skipped = []\<rparr> (targetPositions H input)"

definition buildPortfolioOrderIntentPlanV1 :: "host \<Rightarrow> jsval \<Rightarrow> jsobj" where
  "buildPortfolioOrderIntentPlanV1 H input =
     (let state = intent_state H input;
          base = [(''schema_version'', Str ''portfolio_order_intent_plan_v1''), (''status'', Str (planStatus state)), (''as_of_utc'', plan_as_of H input),
            (''provider_id'', Str (ip_provider (intent_policy_of input))), (''order_intents'', Arr (List.map Obj (in_intents state))),
            (''cancel_replace_requests'', Arr (in_replacements state)), (''skipped_targets'', Arr (in_skipped state))]
      in base @ [(''plan_hash'', Str (js_hash H (Obj base)))])"

section \<open>What becomes an order\<close>

lemma sealed_fields:
  "fget (sealed_intent H t o1 (intent_base H p asOf t o1)) ''idempotency_key'' = Str (idempotency_key H t p o1)"
  "fget (sealed_intent H t o1 (intent_base H p asOf t o1)) ''quantity'' = Num (ot_quantity o1)"
  "fget (sealed_intent H t o1 (intent_base H p asOf t o1)) ''action'' = Str (ot_action o1)"
  "fget (sealed_intent H t o1 (intent_base H p asOf t o1)) ''instrument'' = Str (target_instrument t)"
  "fget (sealed_intent H t o1 (intent_base H p asOf t o1)) ''broker_submission_allowed'' = Bool (pp_ready (ot_protection o1) \<and> ip_submission p)"
  by (simp_all add: sealed_intent_def intent_base_def Let_def)

lemma replacing_fields:
  "k \<notin> {''replaces_order_intent_id'', ''lifecycle_action''} \<Longrightarrow> fget (replacing_intent conflict draft) k = fget draft k"
  "fget (replacing_intent conflict draft) ''replaces_order_intent_id'' = Str (intentId conflict)"
  "fget (replacing_intent conflict draft) ''lifecycle_action'' = Str ''CANCEL_REPLACE''"
  by (simp_all add: replacing_intent_def spread_def)

text \<open>The intent a target contributes to the plan, if any\<close>

definition contributes :: "host \<Rightarrow> jsval \<Rightarrow> jsval \<Rightarrow> jsobj \<Rightarrow> bool" where
  "contributes H input t intent \<longleftrightarrow>
     (\<exists>draft. orderIntentForTarget H input (intent_policy_of input) (plan_as_of H input) t = Inr draft
       \<and> list_all (\<lambda>e. Str (js_text (get e ''idempotency_key'')) \<noteq> fget draft ''idempotency_key'') (existing_intents input)
       \<and> (case List.find (\<lambda>e. sameTargetKey e t) (existing_intents input) of
            None \<Rightarrow> intent = draft
          | Some conflict \<Rightarrow> ip_allow_replace (intent_policy_of input) \<and> intent = replacing_intent conflict draft))"

lemma applyTarget_intents:
  assumes "intent \<in> set (in_intents (applyTarget H input (intent_policy_of input) (plan_as_of H input) (existing_intents input) t state))"
  shows "intent \<in> set (in_intents state) \<or> contributes H input t intent"
proof (cases "orderIntentForTarget H input (intent_policy_of input) (plan_as_of H input) t")
  case (Inl why)
  then show ?thesis using assms by (simp add: applyTarget_def Let_def)
next
  case (Inr draft)
  show ?thesis
  proof (cases "List.find (\<lambda>e. Str (js_text (get e ''idempotency_key'')) = fget draft ''idempotency_key'') (existing_intents input)")
    case None
    then have "list_all (\<lambda>e. Str (js_text (get e ''idempotency_key'')) \<noteq> fget draft ''idempotency_key'') (existing_intents input)"
      by (simp only: find_None_all list_all_iff)
    then show ?thesis
      using assms Inr None unfolding applyTarget_def contributes_def Let_def
      by (cases "List.find (\<lambda>e. sameTargetKey e t) (existing_intents input)") (auto split: if_splits)
  qed (use assms Inr in \<open>simp add: applyTarget_def Let_def\<close>)
qed

lemma intent_contributed:
  assumes "intent \<in> set (in_intents (intent_state H input))"
  shows "\<exists>t \<in> set (targetPositions H input). contributes H input t intent"
proof -
  have "\<exists>t \<in> set ts. contributes H input t intent"
    if "intent \<in> set (in_intents (foldl (\<lambda>state t. applyTarget H input (intent_policy_of input) (plan_as_of H input) (existing_intents input) t state) s ts))"
      "intent \<notin> set (in_intents s)" for s ts
    using that
  proof (induction ts arbitrary: s)
    case (Cons t ts)
    show ?case
    proof (cases "intent \<in> set (in_intents (applyTarget H input (intent_policy_of input) (plan_as_of H input) (existing_intents input) t s))")
      case True
      then show ?thesis using applyTarget_intents[OF True] Cons.prems(2) by simp
    next
      case False
      then show ?thesis using Cons by auto
    qed
  qed simp
  from this[of "\<lparr>in_intents = [], in_replacements = [], in_skipped = []\<rparr>"] show ?thesis
    using assms by (simp add: intent_state_def)
qed

lemma draft_of_target:
  assumes "orderIntentForTarget H input p asOf t = Inr draft"
  shows "draft = sealed_intent H t (intent_terms input p t) (intent_base H p asOf t (intent_terms input p t))"
    and "targetAuthorityIssues t (target_size t) = []" and "jabs (target_delta t) \<noteq> Fin 0"
  using assms by (auto simp: orderIntentForTarget_def Let_def split: if_splits list.splits)

lemma size_of_finite: "\<exists>r. size_of vs = Fin r"
proof (cases "target_numberOrNull (firstDefined vs)")
  case (Some n)
  then have "is_finite n" by (auto simp: target_numberOrNull_def split: jsval.splits if_splits)
  then show ?thesis using Some by (cases n) (auto simp: size_of_def)
qed (simp add: size_of_def)

text \<open>The protection a policy asks for, and the numbers of an order\<close>

definition protected_by :: "intent_policy \<Rightarrow> protection \<Rightarrow> bool" where
  "protected_by p x \<longleftrightarrow> (if ip_require_protection p then pp_stop x \<noteq> None \<and> (if ip_require_target p then pp_target x \<noteq> None else True) else True)"

lemma ready_protected: "pp_ready (protectionPlan value p) \<longleftrightarrow> protected_by p (protectionPlan value p)"
  by (auto simp: pp_ready_def protectionPlan_def protected_by_def Let_def)

definition order_of_change :: "jnum \<Rightarrow> jsobj \<Rightarrow> bool" where
  "order_of_change delta intent \<longleftrightarrow> (\<exists>d q. delta = Fin d \<and> d \<noteq> 0 \<and> fget intent ''quantity'' = Num (Fin (of_int q))
     \<and> \<bar>d\<bar> \<le> of_int q \<and> of_int q < \<bar>d\<bar> + 1 \<and> fget intent ''action'' = Str (if 0 < d then ''BUY'' else ''SELL''))"

lemma order_of_change_cong:
  "fget i ''quantity'' = fget j ''quantity'' \<Longrightarrow> fget i ''action'' = fget j ''action'' \<Longrightarrow> order_of_change delta i = order_of_change delta j"
  by (simp add: order_of_change_def)

lemma terms_order:
  assumes "jabs (target_delta t) \<noteq> Fin 0"
  shows "order_of_change (target_delta t) (sealed_intent H t (intent_terms input p t) (intent_base H p asOf t (intent_terms input p t)))"
proof -
  obtain d where d: "target_delta t = Fin d" using size_of_finite by (auto simp: target_delta_def)
  have "\<bar>d\<bar> \<le> of_int \<lceil>\<bar>d\<bar>\<rceil>" "of_int \<lceil>\<bar>d\<bar>\<rceil> < \<bar>d\<bar> + 1" by linarith+
  then show ?thesis
    using assms d unfolding order_of_change_def sealed_fields
    by (intro exI[of _ d] exI[of _ "\<lceil>\<bar>d\<bar>\<rceil>"]) (simp add: intent_terms_def Let_def jceil_Fin)
qed

text \<open>The authority to trade, field by field: the schema, an id, allocations, a risk decision, an approved size that is the size
  of the target to the fourth decimal, and, unless the target is flat or its trade plan unavailable, a plan all of whose
  directions are that of the size\<close>

definition plan_points_to :: "string \<Rightarrow> jsobj \<Rightarrow> bool" where
  "plan_points_to dir plan \<longleftrightarrow> fget plan ''availability'' = Str ''UNAVAILABLE'' \<or> dir = ''FLAT''
     \<or> (let directions = List.map js_upper (filter present [fget plan ''side'', fget plan ''direction'', get (fget plan ''economics'') ''direction''])
        in directions \<noteq> [] \<and> list_all (\<lambda>d. d = dir) directions)"

definition carries_authority :: "jsval \<Rightarrow> bool" where
  "carries_authority t \<longleftrightarrow> get t ''schema_version'' = Str ''target_position_v1'' \<and> js_text (get t ''id'') \<noteq> []
     \<and> arr_or_empty (get t ''candidate_allocation_ids'') \<noteq> []
     \<and> list_ex truthy (arr_or_empty (get t ''derived_from_risk_decision_ids''))
     \<and> (case target_numberOrNull (firstDefined [get t ''risk_approved_net_size'', get t ''approved_net_target_size'']) of
          None \<Rightarrow> False | Some approved \<Rightarrow> size_round approved = size_round (target_size t))
     \<and> js_upper (get t ''net_direction'') \<in> {[], directionFromSignedSize (target_size t)}
     \<and> (case js_record (firstDefined [get t ''approved_trade_plan'', get t ''approvedTradePlan'']) of
          None \<Rightarrow> True | Some plan \<Rightarrow> plan_points_to (directionFromSignedSize (target_size t)) plan)"

lemma one_direction: "length (uniq ds) = 1 \<Longrightarrow> hd ds = d \<Longrightarrow> list_all (\<lambda>x. x = d) ds"
proof -
  assume one: "length (uniq ds) = 1" and hd: "hd ds = d"
  from one obtain e where "uniq ds = [e]" by (cases "uniq ds") auto
  then have "set ds = {e}" using set_uniq[of ds] by simp
  moreover from this hd have "d = e" by (cases ds) auto
  ultimately show ?thesis by (simp add: list_all_iff)
qed

lemma no_direction_issue:
  assumes "approvedTradePlanDirectionIssues t n = []"
  shows "js_upper (get t ''net_direction'') \<in> {[], directionFromSignedSize n}"
    and "js_record (firstDefined [get t ''approved_trade_plan'', get t ''approvedTradePlan'']) = Some plan
      \<Longrightarrow> plan_points_to (directionFromSignedSize n) plan"
  using assms by (auto simp: approvedTradePlanDirectionIssues_def plan_points_to_def Let_def intro!: one_direction split: if_splits)

lemma no_issue_authority:
  assumes "targetAuthorityIssues t (target_size t) = []"
  shows "carries_authority t"
proof -
  have "approvedTradePlanDirectionIssues t (target_size t) = []" using assms by (simp add: targetAuthorityIssues_def)
  note direction = no_direction_issue[OF this]
  show ?thesis
    using assms direction unfolding carries_authority_def targetAuthorityIssues_def
    by (auto simp: filter_empty_conv list_ex_iff split: if_splits option.splits)
qed

text \<open>
  C31. Every order intent comes from a target with the authority to trade: it has the schema \<open>target_position_v1\<close>, an id,
  allocations, the id of a risk decision, an approved size equal to its size to the fourth decimal, and its direction and
  those of its trade plan, where it states them, are that of its size. Its quantity is the change of the position rounded
  up by less than one contract, its action has the sign of the change, and it may be submitted only under a policy that
  enables submission and with the stop and target the policy asks for.
\<close>

theorem order_intents_are_authorised:
  "list_all (\<lambda>intent. list_ex (\<lambda>t. carries_authority t
       \<and> order_of_change (target_delta t) intent \<and> fget intent ''instrument'' = Str (target_instrument t)
       \<and> fget intent ''broker_submission_allowed'' = Bool (ip_submission (intent_policy_of input)
           \<and> protected_by (intent_policy_of input) (intent_protection input (intent_policy_of input) t)))
     (targetPositions H input)) (in_intents (intent_state H input))"
  unfolding list_all_iff list_ex_iff
proof (rule ballI)
  fix intent assume "intent \<in> set (in_intents (intent_state H input))"
  then obtain t where t: "t \<in> set (targetPositions H input)" and c: "contributes H input t intent" using intent_contributed by blast
  let ?p = "intent_policy_of input" and ?o = "intent_terms input (intent_policy_of input) t"
  obtain draft where draft: "orderIntentForTarget H input ?p (plan_as_of H input) t = Inr draft"
    and same: "intent = draft \<or> (\<exists>conflict. intent = replacing_intent conflict draft)"
    using c by (auto simp: contributes_def split: option.splits)
  note d = draft_of_target[OF draft]
  have f: "fget intent k = fget draft k" if "k \<in> {''quantity'', ''action'', ''instrument'', ''broker_submission_allowed''}" for k
    using same replacing_fields(1)[of k] that by auto
  have "order_of_change (target_delta t) draft" unfolding d(1) by (rule terms_order[OF d(3)])
  then have "order_of_change (target_delta t) intent" using order_of_change_cong[of intent draft] f by simp
  moreover have "pp_ready (ot_protection ?o) \<longleftrightarrow> protected_by ?p (intent_protection input ?p t)"
    by (simp add: intent_terms_def Let_def intent_protection_def ready_protected)
  then have "fget intent ''broker_submission_allowed'' = Bool (ip_submission ?p \<and> protected_by ?p (intent_protection input ?p t))"
    using sealed_fields(5)[of H t ?o ?p] by (simp add: f d(1) conj_commute)
  moreover have "fget intent ''instrument'' = Str (target_instrument t)" by (simp add: f d(1) sealed_fields)
  ultimately show "\<exists>t \<in> set (targetPositions H input). carries_authority t
       \<and> order_of_change (target_delta t) intent \<and> fget intent ''instrument'' = Str (target_instrument t)
       \<and> fget intent ''broker_submission_allowed'' = Bool (ip_submission ?p \<and> protected_by ?p (intent_protection input ?p t))"
    using t no_issue_authority[OF d(2)] by blast
qed

text \<open>
  An intent never stands beside an active one for the same account and instrument: no active intent has its key, and
  if one has its account and instrument, the policy allows replacements and the new intent names the one it replaces.
\<close>

theorem order_intents_replace_active_ones:
  "list_all (\<lambda>intent. list_ex (\<lambda>t. fget intent ''instrument'' = Str (target_instrument t)
       \<and> list_all (\<lambda>e. Str (js_text (get e ''idempotency_key'')) \<noteq> fget intent ''idempotency_key'') (existing_intents input)
       \<and> (case List.find (\<lambda>e. sameTargetKey e t) (existing_intents input) of
            None \<Rightarrow> True
          | Some conflict \<Rightarrow> ip_allow_replace (intent_policy_of input) \<and> fget intent ''lifecycle_action'' = Str ''CANCEL_REPLACE''
              \<and> fget intent ''replaces_order_intent_id'' = Str (intentId conflict)))
     (targetPositions H input)) (in_intents (intent_state H input))"
  unfolding list_all_iff[of _ "in_intents (intent_state H input)"] list_ex_iff
proof (rule ballI)
  fix intent assume "intent \<in> set (in_intents (intent_state H input))"
  then obtain t where t: "t \<in> set (targetPositions H input)" and c: "contributes H input t intent" using intent_contributed by blast
  obtain draft where draft: "orderIntentForTarget H input (intent_policy_of input) (plan_as_of H input) t = Inr draft"
    and fresh: "list_all (\<lambda>e. Str (js_text (get e ''idempotency_key'')) \<noteq> fget draft ''idempotency_key'') (existing_intents input)"
    and found: "case List.find (\<lambda>e. sameTargetKey e t) (existing_intents input) of None \<Rightarrow> intent = draft
      | Some conflict \<Rightarrow> ip_allow_replace (intent_policy_of input) \<and> intent = replacing_intent conflict draft"
    using c by (auto simp: contributes_def)
  have instrument: "fget draft ''instrument'' = Str (target_instrument t)" using draft_of_target(1)[OF draft] sealed_fields(4) by simp
  show "\<exists>t \<in> set (targetPositions H input). fget intent ''instrument'' = Str (target_instrument t)
       \<and> list_all (\<lambda>e. Str (js_text (get e ''idempotency_key'')) \<noteq> fget intent ''idempotency_key'') (existing_intents input)
       \<and> (case List.find (\<lambda>e. sameTargetKey e t) (existing_intents input) of None \<Rightarrow> True
          | Some conflict \<Rightarrow> ip_allow_replace (intent_policy_of input) \<and> fget intent ''lifecycle_action'' = Str ''CANCEL_REPLACE''
              \<and> fget intent ''replaces_order_intent_id'' = Str (intentId conflict))"
  proof (intro bexI[OF _ t])
    show "fget intent ''instrument'' = Str (target_instrument t)
       \<and> list_all (\<lambda>e. Str (js_text (get e ''idempotency_key'')) \<noteq> fget intent ''idempotency_key'') (existing_intents input)
       \<and> (case List.find (\<lambda>e. sameTargetKey e t) (existing_intents input) of None \<Rightarrow> True
          | Some conflict \<Rightarrow> ip_allow_replace (intent_policy_of input) \<and> fget intent ''lifecycle_action'' = Str ''CANCEL_REPLACE''
              \<and> fget intent ''replaces_order_intent_id'' = Str (intentId conflict))"
      using found fresh instrument
      by (cases "List.find (\<lambda>e. sameTargetKey e t) (existing_intents input)") (simp_all add: replacing_fields)
  qed
qed

section \<open>Opening and closing\<close>

lemma jsub_int:
  assumes "\<bar>a - b\<bar> \<le> (2 :: int) ^ 53"
  shows "jsub (Fin (of_int a)) (Fin (of_int b)) = Fin (of_int (a - b))"
  using rnd_of_int[OF assms] by (simp add: jsub_def)

text \<open>
  What an order opens and what it closes make up its change: for whole positions, the opening size and the closing size
  are not negative and add up to the distance from the current to the target size, whether the position is opened,
  increased, reduced, closed or reversed.
\<close>

theorem opening_and_closing_make_the_change:
  assumes "\<bar>c\<bar> \<le> (2 :: int) ^ 52" and "\<bar>t\<bar> \<le> 2 ^ 52"
  shows "\<exists>x y. openingSize (Fin (of_int c)) (Fin (of_int t)) = Fin (of_int x)
    \<and> closingSize (Fin (of_int c)) (jsub (Fin (of_int t)) (Fin (of_int c))) = Fin (of_int y)
    \<and> 0 \<le> x \<and> 0 \<le> y \<and> x + y = \<bar>t - c\<bar>"
proof -
  have d: "jsub (Fin (of_int t)) (Fin (of_int c)) = Fin (of_int (t - c))" using assms by (intro jsub_int) simp
  have o1: "jsub (Fin (of_int \<bar>t\<bar>)) (Fin (of_int \<bar>c\<bar>)) = Fin (of_int (\<bar>t\<bar> - \<bar>c\<bar>))" using assms by (intro jsub_int) simp
  have sgn: "sgn (of_int a :: rat) = sgn (of_int b) \<longleftrightarrow> sgn a = sgn b" for a b by (simp add: sgn_if)
  have opens: "openingSize (Fin (of_int c)) (Fin (of_int t)) = Fin (of_int (if c = 0 \<or> sgn c \<noteq> sgn t then \<bar>t\<bar> else max 0 (\<bar>t\<bar> - \<bar>c\<bar>)))"
    using o1 by (auto simp: openingSize_def jsign_def sgn jmax_def)
  have closes: "closingSize (Fin (of_int c)) (Fin (of_int (t - c))) = Fin (of_int (if c = 0 \<or> sgn c = sgn (t - c) then 0 else min \<bar>c\<bar> \<bar>t - c\<bar>))"
    using sgn[of c "t - c"] by (auto simp: closingSize_def jsign_def jmin_def simp flip: of_int_diff of_int_abs)
  show ?thesis
    unfolding d opens closes
    by (rule exI, rule exI, intro conjI, rule refl, rule refl) (auto simp: sgn_if split: if_splits)
qed

theorem opening_and_closing_make_the_change_witness:
  "\<exists>x y. openingSize (Fin 1) (Fin (- 2)) = Fin (of_int x) \<and> closingSize (Fin 1) (jsub (Fin (- 2)) (Fin 1)) = Fin (of_int y) \<and> x + y = 3"
  using opening_and_closing_make_the_change[of 1 "- 2"] by auto

section \<open>Targets of the portfolio\<close>














section \<open>What is not checked\<close>

definition inconsistent_target :: jsval where
  "inconsistent_target = Obj [(''schema_version'', Str ''target_position_v1''), (''id'', Str ''T''), (''instrument'', Str ''MNQ''),
     (''net_target_size'', Num (Fin 2)), (''risk_approved_net_size'', Num (Fin 2)), (''current_net_size'', Num (Fin 0)), (''delta_size'', Num (Fin 50)),
     (''candidate_allocation_ids'', Arr [Str ''A1'']), (''derived_from_risk_decision_ids'', Arr [Str ''R1''])]"

text \<open>
  C39. The change is not checked against the sizes: a target approved for two contracts, with no position, whose
  \<open>delta_size\<close> says fifty, has the authority to trade and becomes an order for fifty contracts.
\<close>

theorem change_beyond_approved_size:
  "list_ex (\<lambda>intent. fget intent ''quantity'' = Num (Fin 50)) (in_intents (intent_state H (Obj [(''target_positions'', Arr [inconsistent_target])])))"
proof -
  let ?input = "Obj [(''target_positions'', Arr [inconsistent_target])]"
  have trimmed: "js_text (Str ''T'') = ''T''" by code_simp
  have sizes: "target_delta inconsistent_target = Fin 50" "target_size inconsistent_target = Fin 2"
    by (simp_all add: target_delta_def target_size_def size_of_def inconsistent_target_def firstDefined_Cons present_def target_numberOrNull_def)
  have plan: "approvedTradePlanDirectionIssues inconsistent_target (Fin 2) = []"
    by (simp add: approvedTradePlanDirectionIssues_def Let_def inconsistent_target_def firstDefined_def js_record_def js_upper_def to_upper_def present_def)
  have authority: "targetAuthorityIssues inconsistent_target (Fin 2) = []"
    unfolding targetAuthorityIssues_def plan
    by (simp add: inconsistent_target_def trimmed firstDefined_Cons present_def target_numberOrNull_def del: js_text_Str)
  have quantity: "ot_quantity (intent_terms ?input p inconsistent_target) = Fin 50" for p
    by (simp add: intent_terms_def Let_def sizes jceil_Fin)
  have "targetPositions H ?input = [inconsistent_target]"
    by (simp add: targetPositions_def firstDefined_Cons present_def js_sort_def)
  moreover have "existing_intents ?input = []" by (simp add: existing_intents_def activeOrderIntents_def firstDefined_Cons present_def)
  ultimately show ?thesis
    by (simp add: intent_state_def applyTarget_def Let_def orderIntentForTarget_def sizes authority sealed_fields quantity)
qed

text \<open>
  A target without an account is sent to the account of the policy, but compared with the active intents as \<open>default\<close>:
  an active intent for the same account and instrument is not seen as one to replace.
\<close>

lemma policy_account_not_compared:
  assumes "\<not> present (get t ''account_id'')" and "\<not> present (get t ''accountId'')" and "ip_account p = ''PAPER''"
    and "get intent ''account_id'' = Str (target_account t (ip_account p))"
  shows "target_account t (ip_account p) = ''PAPER'' \<and> \<not> sameTargetKey intent t"
proof -
  have "js_text (Str ''PAPER'') = ''PAPER''" "js_text (Str ''default'') = ''default''" by code_simp+
  then have "target_account t (ip_account p) = ''PAPER''" "target_account t [] = ''default''"
    using assms(1-3) by (simp_all add: target_account_def firstDefined_Cons present_def[of "Str s" for s] del: js_text_Str)
  then show ?thesis using assms(4) \<open>js_text (Str ''PAPER'') = ''PAPER''\<close> by (simp add: sameTargetKey_def firstDefined_Cons present_def del: js_text_Str)
qed

end
