(* ===== verification/Order_Simulator.thy ===== *)
theory Order_Simulator
  imports Domain_Result
begin

text \<open>
  \<open>packages/desk-replay-engine/src/order-simulator-v1.js\<close>, with the helpers it takes from
  \<open>canonical-simulation-result-v1.js\<close>: how an entry order (market, limit, stop, stop-limit) and the
  exit orders of a position are filled on one candle, under a policy for gaps, costs, latency,
  partial fills and candles that touch both stop and target. A price that is not available is
  \<open>None\<close> (\<open>null\<close> in the code).
\<close>

section \<open>canonical-simulation-result-v1.js\<close>

definition parseTime :: "host \<Rightarrow> jsval \<Rightarrow> int option" where
  "parseTime H value = date_parse H (str_or_empty value)"

definition sim_text :: "jsval \<Rightarrow> string option" where
  "sim_text value = (case value of Str s \<Rightarrow> if trim s \<noteq> [] then Some (trim s) else None | _ \<Rightarrow> None)"

definition firstText :: "jsval list \<Rightarrow> string option" where
  "firstText values = (case List.find (\<lambda>v. sim_text v \<noteq> None) values of Some v \<Rightarrow> sim_text v | None \<Rightarrow> None)"

text \<open>\<open>number\<close>: \<open>Number(value)\<close> where finite; \<open>Number(null)\<close> is 0.\<close>

definition sim_number :: "jsval \<Rightarrow> jnum option" where
  "sim_number value = (if is_finite (to_num value) then Some (to_num value) else None)"

definition sim_round :: "jnum \<Rightarrow> jnum" where
  "sim_round value = round_digits (if value = NaN then Fin 0 else value) 4"

section \<open>The policy\<close>

record order_policy =
  spread_points :: jnum
  slippage_points :: jnum
  commission_r_per_contract :: jnum
  entry_latency_rows :: jnum
  exit_latency_rows :: jnum
  gap_policy :: string
  ambiguous_intrabar_policy :: string
  partial_fill_enabled :: bool
  partial_fill_ratio :: jnum
  minimum_fill_quantity :: jnum

definition firstNumber :: "jsval list \<Rightarrow> jnum option" where
  "firstNumber values =
     (case List.find (\<lambda>v. present v \<and> sim_number v \<noteq> None) values of Some v \<Rightarrow> sim_number v | None \<Rightarrow> None)"

definition nonNegative :: "jnum option \<Rightarrow> jnum \<Rightarrow> jnum" where
  "nonNegative value fallback = (case value of None \<Rightarrow> fallback | Some n \<Rightarrow> jmax (Fin 0) n)"

definition nonNegativeInteger :: "jnum option \<Rightarrow> jnum \<Rightarrow> jnum" where
  "nonNegativeInteger value fallback = jtrunc (nonNegative value fallback)"

definition positiveInteger :: "jnum option \<Rightarrow> jnum \<Rightarrow> jnum" where
  "positiveInteger value fallback = jmax (Fin 1) (jtrunc (nonNegative value fallback))"

definition ratio :: "jnum option \<Rightarrow> jnum \<Rightarrow> jnum" where
  "ratio value fallback = (case value of None \<Rightarrow> fallback | Some n \<Rightarrow> jmax (Fin 0) (jmin (Fin 1) n))"

definition enumOr :: "jsval \<Rightarrow> string list \<Rightarrow> string \<Rightarrow> string" where
  "enumOr value allowed fallback =
     (let normalized = to_upper (str_or_empty value) in if normalized \<in> set allowed then normalized else fallback)"

definition ORDER_TYPES :: "string list" where
  "ORDER_TYPES = [''MARKET'', ''LIMIT'', ''STOP'', ''STOP_LIMIT'']"

definition GAP_POLICIES :: "string list" where
  "GAP_POLICIES = [''FILL_AT_OPEN_IF_THROUGH_PRICE'', ''FILL_AT_TRIGGER_PRICE'']"

definition AMBIGUOUS_POLICIES :: "string list" where
  "AMBIGUOUS_POLICIES = [''REVIEW_REQUIRED'', ''CONSERVATIVE_STOP'', ''FAVORABLE_TARGET'', ''OHLC_DISTANCE'']"

text \<open>
  \<open>nonNegative\<close>, \<open>positiveInteger\<close> and \<open>ratio\<close> apply \<open>number\<close> to what \<open>firstNumber\<close> returned. On \<open>null\<close>
  this gives 0, not \<open>null\<close>, so their fallback is never used: a missing ratio is 0, not 1.
\<close>

definition number_of_first :: "jnum option \<Rightarrow> jnum option" where
  "number_of_first value = sim_number (js_opt_num value)"

definition normalizeOrderSimulationPolicyV1 :: "jsval \<Rightarrow> order_policy" where
  "normalizeOrderSimulationPolicyV1 input =
     (let source = Obj (obj_or_empty input); pricing = Obj (obj_or_empty (get source ''pricing''));
          latency = Obj (obj_or_empty (get source ''latency'')); partial = Obj (obj_or_empty (get source ''partial_fill''));
          first = (\<lambda>vs. number_of_first (firstNumber vs))
      in \<lparr>spread_points = nonNegative (first [get source ''spread_points'', get pricing ''spread_points'']) (Fin 0),
          slippage_points = nonNegative (first [get source ''slippage_points'', get pricing ''slippage_points'']) (Fin 0),
          commission_r_per_contract = nonNegative (first [get source ''commission_r_per_contract'',
             get pricing ''commission_r_per_contract'']) (Fin 0),
          entry_latency_rows = nonNegativeInteger (first [get source ''entry_latency_rows'', get latency ''entry_rows'']) (Fin 0),
          exit_latency_rows = nonNegativeInteger (first [get source ''exit_latency_rows'', get latency ''exit_rows'']) (Fin 0),
          gap_policy = enumOr (get source ''gap_policy'') GAP_POLICIES ''FILL_AT_TRIGGER_PRICE'',
          ambiguous_intrabar_policy = enumOr (get source ''ambiguous_intrabar_policy'') AMBIGUOUS_POLICIES ''REVIEW_REQUIRED'',
          partial_fill_enabled = (get source ''partial_fill_enabled'' = Bool True \<or> get partial ''enabled'' = Bool True),
          partial_fill_ratio = ratio (first [get source ''partial_fill_ratio'', get partial ''fill_ratio'']) (Fin 1),
          minimum_fill_quantity = positiveInteger (first [get source ''minimum_fill_quantity'',
             get partial ''minimum_quantity'']) (Fin 1)\<rparr>)"

section \<open>Orders\<close>

text \<open>\<open>o_cancel_reason\<close> is empty and \<open>o_replaced_at\<close> is \<open>None\<close> where the property is absent.\<close>

record sim_order =
  o_order_id :: string
  o_phase :: string
  o_setup_id :: "string option"
  o_instrument :: "string option"
  o_direction :: string
  o_side :: string
  o_type :: string
  o_quantity :: jnum
  o_limit_price :: "jnum option"
  o_stop_price :: "jnum option"
  o_status :: string
  o_cancel_reason :: string
  o_replaced_at :: "string option"

text \<open>\<open>replace(/[^A-Z]+/g, "_")\<close>; \<open>inside\<close> says that the character before was replaced.\<close>

fun squeeze_letters :: "bool \<Rightarrow> string \<Rightarrow> string" where
  "squeeze_letters inside [] = []"
| "squeeze_letters inside (c # s) =
     (if is_upper_letter c then c # squeeze_letters False s
      else if inside then squeeze_letters True s else CHR ''_'' # squeeze_letters True s)"

definition normalizeOrderType :: "jsval \<Rightarrow> string" where
  "normalizeOrderType value =
     (let normalized = squeeze_letters False (to_upper (to_str (js_or value (Str ''LIMIT''))))
      in if normalized \<in> set ORDER_TYPES then normalized else ''LIMIT'')"

definition sim_direction :: "jsval \<Rightarrow> string" where
  "sim_direction value = (if to_lower (str_or_empty value) = ''short'' then ''short'' else ''long'')"

definition entrySide :: "jsval \<Rightarrow> string" where
  "entrySide dir = (if sim_direction dir = ''short'' then ''SELL'' else ''BUY'')"

definition entryLimitPrice :: "string \<Rightarrow> jsval \<Rightarrow> jnum option \<Rightarrow> jnum option" where
  "entryLimitPrice orderType setup entryPrice =
     (if orderType = ''LIMIT'' then entryPrice
      else if orderType \<noteq> ''STOP_LIMIT'' then None
      else firstNumber [get setup ''stop_limit_price'', get setup ''limit_price'', get setup ''order_limit_price'',
        js_opt_num entryPrice])"

definition entryStopPrice :: "string \<Rightarrow> jsval \<Rightarrow> jnum option \<Rightarrow> jnum option" where
  "entryStopPrice orderType setup entryPrice =
     (if orderType \<noteq> ''STOP'' \<and> orderType \<noteq> ''STOP_LIMIT'' then None
      else firstNumber [get setup ''stop_trigger_price'', get setup ''trigger_price'', get setup ''order_stop_price'',
        js_opt_num entryPrice])"

definition opt_or :: "string option \<Rightarrow> string \<Rightarrow> string" where
  "opt_or v d = (case v of Some s \<Rightarrow> s | None \<Rightarrow> d)"

definition buildEntryOrderV1 :: "jsval \<Rightarrow> jsval \<Rightarrow> sim_order" where
  "buildEntryOrderV1 setup entry_price =
     (let orderType = normalizeOrderType (js_opt_str (firstText
            [get setup ''order_type'', get setup ''entry_order_type'', get setup ''entry_mode'']));
          entryPrice = firstNumber [entry_price, get setup ''entry_price'', get setup ''order_limit_price'',
            get setup ''order_stop_price'']
      in \<lparr>o_order_id = opt_or (sim_text (get setup ''entry_order_id''))
            (''simord_'' @ opt_or (sim_text (get setup ''setup_id'')) ''setup'' @ ''_entry''),
          o_phase = ''ENTRY'', o_setup_id = sim_text (get setup ''setup_id''),
          o_instrument = sim_text (get setup ''instrument''),
          o_direction = sim_direction (get setup ''direction''), o_side = entrySide (get setup ''direction''),
          o_type = orderType,
          o_quantity = positiveInteger (number_of_first (firstNumber
             [get setup ''quantity'', get setup ''contracts'', get setup ''lots''])) (Fin 1),
          o_limit_price = entryLimitPrice orderType setup entryPrice,
          o_stop_price = entryStopPrice orderType setup entryPrice,
          o_status = ''WORKING'', o_cancel_reason = [], o_replaced_at = None\<rparr>)"

definition replacementTime :: "host \<Rightarrow> jsval \<Rightarrow> int option" where
  "replacementTime H replacement = parseTime H (js_opt_str (firstText
     [get replacement ''at_paris'', get replacement ''at_utc'', get replacement ''time'']))"

text \<open>The last by time of those due at the row's time; the sort is stable.\<close>

definition replacement_key :: "host \<Rightarrow> jsval \<Rightarrow> int" where
  "replacement_key H r = (case replacementTime H r of Some t \<Rightarrow> t | None \<Rightarrow> 0)"

definition due_replacement :: "host \<Rightarrow> int \<Rightarrow> jsval \<Rightarrow> bool" where
  "due_replacement H now r = (case replacementTime H r of Some t \<Rightarrow> t \<le> now | None \<Rightarrow> False)"

definition latestReplacement :: "host \<Rightarrow> jsval \<Rightarrow> jsval \<Rightarrow> jsval option" where
  "latestReplacement H replacements row =
     (case parseTime H (get row ''time'') of None \<Rightarrow> None
      | Some now \<Rightarrow>
          (let due = sort_key (replacement_key H) (filter (due_replacement H now) (arr_or_empty replacements))
           in if due = [] then None else Some (last due)))"

definition applyOrderReplacementsV1 :: "host \<Rightarrow> sim_order \<Rightarrow> jsval \<Rightarrow> jsval \<Rightarrow> sim_order" where
  "applyOrderReplacementsV1 H order replacements row =
     (case latestReplacement H replacements row of
        None \<Rightarrow> order
      | Some r \<Rightarrow>
          if to_upper (str_or_empty (get r ''action'')) = ''CANCEL''
          then order\<lparr>o_status := ''CANCELLED'', o_cancel_reason := opt_or (sim_text (get r ''reason'')) ''ORDER_CANCELLED''\<rparr>
          else order\<lparr>o_type := normalizeOrderType (js_opt_str (firstText [get r ''order_type'', Str (o_type order)])),
                 o_limit_price := firstNumber [get r ''limit_price'', js_opt_num (o_limit_price order)],
                 o_stop_price := firstNumber [get r ''stop_price'', js_opt_num (o_stop_price order)],
                 o_replaced_at := firstText [get r ''at_paris'', get r ''at_utc'', get r ''time'']\<rparr>)"

section \<open>Fills\<close>

text \<open>\<open>fl_resolution\<close> (\<open>ambiguous_resolution\<close>) is empty where the property is absent.\<close>

record sim_fill =
  fl_status :: string
  fl_reason :: string
  fl_price :: "jnum option"
  fl_raw_price :: "jnum option"
  fl_quantity :: jnum
  fl_requested :: jnum
  fl_commission_r :: jnum
  fl_resolution :: string

record sim_outcome =
  so_phase :: string
  so_status :: string
  so_order :: "sim_order option"
  so_fill :: sim_fill
  so_review_required :: bool
  so_reason :: string
  so_policy :: order_policy

definition executionPrice :: "jnum \<Rightarrow> string \<Rightarrow> order_policy \<Rightarrow> jnum" where
  "executionPrice price side settings =
     (let cost = jadd (slippage_points settings) (jdiv (spread_points settings) (Fin 2))
      in sim_round (if side = ''BUY'' then jadd price cost else jsub price cost))"

definition simulatedQuantity :: "jnum \<Rightarrow> order_policy \<Rightarrow> jnum" where
  "simulatedQuantity quantity settings =
     (if \<not> partial_fill_enabled settings then quantity
      else jmax (Fin 0) (jmin quantity
        (jmax (minimum_fill_quantity settings) (jfloor (jmul quantity (partial_fill_ratio settings))))))"

definition noFill :: "string \<Rightarrow> sim_order option \<Rightarrow> sim_fill" where
  "noFill why order = \<lparr>fl_status = ''PENDING'', fl_reason = why, fl_price = None, fl_raw_price = None,
     fl_quantity = Fin 0, fl_requested = (case order of Some o1 \<Rightarrow> o_quantity o1 | None \<Rightarrow> Fin 0),
     fl_commission_r = Fin 0, fl_resolution = []\<rparr>"

definition fill :: "sim_order \<Rightarrow> string \<Rightarrow> jnum option \<Rightarrow> order_policy \<Rightarrow> sim_fill" where
  "fill order why rawPrice settings =
     (case rawPrice of None \<Rightarrow> noFill ''PRICE_NOT_AVAILABLE'' (Some order)
      | Some raw \<Rightarrow>
          (let quantity = simulatedQuantity (o_quantity order) settings
           in \<lparr>fl_status = (if jlt quantity (o_quantity order) then ''PARTIALLY_FILLED'' else ''FILLED''),
               fl_reason = why, fl_price = Some (executionPrice raw (o_side order) settings), fl_raw_price = Some raw,
               fl_quantity = quantity, fl_requested = o_quantity order,
               fl_commission_r = sim_round (jmul quantity (commission_r_per_contract settings)), fl_resolution = []\<rparr>))"

definition sim_outcome_of :: "string \<Rightarrow> sim_order option \<Rightarrow> sim_fill \<Rightarrow> order_policy \<Rightarrow> sim_outcome" where
  "sim_outcome_of phase order fillResult settings =
     \<lparr>so_phase = phase, so_status = fl_status fillResult, so_order = order, so_fill = fillResult,
      so_review_required = False, so_reason = fl_reason fillResult, so_policy = settings\<rparr>"

definition validTouchInputs :: "jsval \<Rightarrow> jnum option \<Rightarrow> bool" where
  "validTouchInputs row price \<longleftrightarrow> price \<noteq> None \<and> sim_number (get row ''high'') \<noteq> None \<and> sim_number (get row ''low'') \<noteq> None"

definition limitTouched :: "string \<Rightarrow> jsval \<Rightarrow> jnum option \<Rightarrow> bool" where
  "limitTouched side row price =
     (validTouchInputs row price \<and>
      (case (price, sim_number (get row ''high''), sim_number (get row ''low'')) of
        (Some p, Some hi, Some lo) \<Rightarrow> if side = ''BUY'' then jle lo p else jle p hi
      | _ \<Rightarrow> False))"

definition stopTouched :: "string \<Rightarrow> jsval \<Rightarrow> jnum option \<Rightarrow> bool" where
  "stopTouched side row price =
     (validTouchInputs row price \<and>
      (case (price, sim_number (get row ''high''), sim_number (get row ''low'')) of
        (Some p, Some hi, Some lo) \<Rightarrow> if side = ''BUY'' then jle p hi else jle lo p
      | _ \<Rightarrow> False))"

definition limitFillRawPrice :: "string \<Rightarrow> jsval \<Rightarrow> jnum option \<Rightarrow> order_policy \<Rightarrow> jnum option" where
  "limitFillRawPrice side row price settings =
     (if gap_policy settings = ''FILL_AT_TRIGGER_PRICE'' then price
      else case (sim_number (get row ''open''), price) of
        (Some opn, Some p) \<Rightarrow>
          if side = ''BUY'' \<and> jlt opn p then Some opn
          else if side = ''SELL'' \<and> jlt p opn then Some opn
          else price
      | _ \<Rightarrow> price)"

definition stopFillRawPrice :: "string \<Rightarrow> jsval \<Rightarrow> jnum option \<Rightarrow> order_policy \<Rightarrow> jnum option" where
  "stopFillRawPrice side row price settings =
     (if gap_policy settings = ''FILL_AT_TRIGGER_PRICE'' then price
      else case (sim_number (get row ''open''), price) of
        (Some opn, Some p) \<Rightarrow>
          if side = ''BUY'' \<and> jlt p opn then Some opn
          else if side = ''SELL'' \<and> jlt opn p then Some opn
          else price
      | _ \<Rightarrow> price)"

section \<open>Entries\<close>

definition limitEntryFill :: "sim_order \<Rightarrow> jsval \<Rightarrow> order_policy \<Rightarrow> sim_fill" where
  "limitEntryFill order row settings =
     (if \<not> limitTouched (o_side order) row (o_limit_price order) then noFill ''LIMIT_NOT_TOUCHED'' None
      else fill order ''LIMIT_TOUCHED'' (limitFillRawPrice (o_side order) row (o_limit_price order) settings) settings)"

definition stopEntryFill :: "sim_order \<Rightarrow> jsval \<Rightarrow> order_policy \<Rightarrow> sim_fill" where
  "stopEntryFill order row settings =
     (if \<not> stopTouched (o_side order) row (o_stop_price order) then noFill ''STOP_NOT_TOUCHED'' None
      else fill order ''STOP_TOUCHED'' (stopFillRawPrice (o_side order) row (o_stop_price order) settings) settings)"

definition stopLimitEntryFill :: "sim_order \<Rightarrow> jsval \<Rightarrow> order_policy \<Rightarrow> sim_fill" where
  "stopLimitEntryFill order row settings =
     (if \<not> stopTouched (o_side order) row (o_stop_price order) then noFill ''STOP_LIMIT_NOT_ACTIVATED'' None
      else if \<not> limitTouched (o_side order) row (o_limit_price order) then noFill ''STOP_LIMIT_ACTIVATED_NOT_FILLED'' None
      else fill order ''STOP_LIMIT_FILLED'' (limitFillRawPrice (o_side order) row (o_limit_price order) settings) settings)"

definition entryFill :: "sim_order \<Rightarrow> jsval \<Rightarrow> order_policy \<Rightarrow> sim_fill" where
  "entryFill order row settings =
     (if o_type order = ''MARKET'' then fill order ''MARKET'' (sim_number (get row ''open'')) settings
      else if o_type order = ''LIMIT'' then limitEntryFill order row settings
      else if o_type order = ''STOP'' then stopEntryFill order row settings
      else if o_type order = ''STOP_LIMIT'' then stopLimitEntryFill order row settings
      else noFill ''ORDER_TYPE_UNSUPPORTED'' None)"

definition latencyPending :: "jnum \<Rightarrow> jnum \<Rightarrow> jnum \<Rightarrow> bool" where
  "latencyPending index submittedIndex latencyRows \<longleftrightarrow> jlt (jsub index submittedIndex) latencyRows"

definition simulateEntryOrderV1 ::
  "host \<Rightarrow> jsval \<Rightarrow> jsval \<Rightarrow> jnum \<Rightarrow> jnum \<Rightarrow> jsval \<Rightarrow> jsval \<Rightarrow> sim_outcome" where
  "simulateEntryOrderV1 H setup row index submittedIndex policy entry_price =
     (let settings = normalizeOrderSimulationPolicyV1 policy;
          order = applyOrderReplacementsV1 H (buildEntryOrderV1 setup entry_price) (get setup ''order_replacements'') row
      in if o_status order = ''CANCELLED'' then sim_outcome_of ''ENTRY'' (Some order) (noFill (o_cancel_reason order) None) settings
         else if latencyPending index submittedIndex (entry_latency_rows settings)
           then sim_outcome_of ''ENTRY'' (Some order) (noFill ''ENTRY_LATENCY_PENDING'' None) settings
         else sim_outcome_of ''ENTRY'' (Some order) (entryFill order row settings) settings)"

section \<open>Exits\<close>

definition exitOrder :: "jsval \<Rightarrow> string \<Rightarrow> sim_order" where
  "exitOrder position why =
     \<lparr>o_order_id = ''simord_'' @ opt_or (sim_text (get position ''position_id'')) ''position'' @ ''_'' @ to_lower why,
      o_phase = ''EXIT'', o_setup_id = sim_text (get position ''setup_id''),
      o_instrument = sim_text (get position ''instrument''), o_direction = sim_direction (get position ''direction''),
      o_side = (if sim_direction (get position ''direction'') = ''long'' then ''SELL'' else ''BUY''),
      o_type = (if why = ''STOP_LOSS'' then ''STOP'' else ''LIMIT''),
      o_quantity = positiveInteger (number_of_first (firstNumber [get position ''quantity''])) (Fin 1),
      o_limit_price = (if why = ''TAKE_PROFIT_1'' then sim_number (get position ''take_profit_1'') else None),
      o_stop_price = (if why = ''STOP_LOSS'' then sim_number (get position ''stop_loss'') else None),
      o_status = ''WORKING'', o_cancel_reason = [], o_replaced_at = None\<rparr>"

definition exitStopFill :: "jsval \<Rightarrow> jsval \<Rightarrow> order_policy \<Rightarrow> sim_fill" where
  "exitStopFill position row settings =
     (let order = exitOrder position ''STOP_LOSS''
      in if \<not> stopTouched (o_side order) row (o_stop_price order) then noFill ''STOP_NOT_TOUCHED'' (Some order)
         else fill order ''STOP_LOSS'' (stopFillRawPrice (o_side order) row (o_stop_price order) settings) settings)"

definition exitTargetFill :: "jsval \<Rightarrow> jsval \<Rightarrow> order_policy \<Rightarrow> sim_fill" where
  "exitTargetFill position row settings =
     (let order = exitOrder position ''TAKE_PROFIT_1''
      in if \<not> limitTouched (o_side order) row (o_limit_price order) then noFill ''TARGET_NOT_TOUCHED'' (Some order)
         else fill order ''TAKE_PROFIT_1'' (limitFillRawPrice (o_side order) row (o_limit_price order) settings) settings)"

definition firstTouchByOpenDistance :: "jsval \<Rightarrow> jsval \<Rightarrow> string" where
  "firstTouchByOpenDistance position row =
     (case (sim_number (get row ''open''), sim_number (get position ''stop_loss''), sim_number (get position ''take_profit_1'')) of
        (Some opn, Some stp, Some tgt) \<Rightarrow>
          (let stopDistance = jabs (jsub opn stp); targetDistance = jabs (jsub opn tgt)
           in if jnumeq stopDistance targetDistance then ''REVIEW''
              else if jlt targetDistance stopDistance then ''TARGET'' else ''STOP'')
      | _ \<Rightarrow> ''REVIEW'')"

text \<open>
  The fill of an exit has no property \<open>order\<close>, so the \<open>stop.order\<close> and \<open>target.order\<close> passed to
  \<open>outcome\<close> are \<open>undefined\<close> (\<open>None\<close>); only an exit that was not touched carries its order.
\<close>

definition review_outcome :: "string \<Rightarrow> order_policy \<Rightarrow> sim_outcome" where
  "review_outcome why settings = (sim_outcome_of ''EXIT'' None (noFill why None) settings)\<lparr>so_review_required := True\<rparr>"

definition resolveDistanceAmbiguity :: "jsval \<Rightarrow> jsval \<Rightarrow> sim_fill \<Rightarrow> sim_fill \<Rightarrow> order_policy \<Rightarrow> sim_outcome" where
  "resolveDistanceAmbiguity position row stp tgt settings =
     (let first = firstTouchByOpenDistance position row
      in if first = ''REVIEW'' then review_outcome ''AMBIGUOUS_INTRABAR_EQUAL_DISTANCE'' settings
         else if first = ''TARGET'' then sim_outcome_of ''EXIT'' None (tgt\<lparr>fl_resolution := ''OHLC_DISTANCE''\<rparr>) settings
         else sim_outcome_of ''EXIT'' None (stp\<lparr>fl_resolution := ''OHLC_DISTANCE''\<rparr>) settings)"

definition resolveAmbiguousExit :: "jsval \<Rightarrow> jsval \<Rightarrow> sim_fill \<Rightarrow> sim_fill \<Rightarrow> order_policy \<Rightarrow> sim_outcome" where
  "resolveAmbiguousExit position row stp tgt settings =
     (let policy = ambiguous_intrabar_policy settings
      in if policy = ''REVIEW_REQUIRED'' then review_outcome ''AMBIGUOUS_INTRABAR_STOP_AND_TARGET'' settings
         else if policy = ''FAVORABLE_TARGET'' then sim_outcome_of ''EXIT'' None (tgt\<lparr>fl_resolution := policy\<rparr>) settings
         else if policy = ''OHLC_DISTANCE'' then resolveDistanceAmbiguity position row stp tgt settings
         else sim_outcome_of ''EXIT'' None (stp\<lparr>fl_resolution := policy\<rparr>) settings)"

definition simulateExitOrderV1 :: "jsval \<Rightarrow> jsval \<Rightarrow> jsval \<Rightarrow> sim_outcome" where
  "simulateExitOrderV1 position row policy =
     (let settings = normalizeOrderSimulationPolicyV1 policy;
          stp = exitStopFill position row settings; tgt = exitTargetFill position row settings
      in if fl_status stp = ''FILLED'' \<and> fl_status tgt = ''FILLED'' then resolveAmbiguousExit position row stp tgt settings
         else if fl_status stp = ''FILLED'' then sim_outcome_of ''EXIT'' None stp settings
         else if fl_status tgt = ''FILLED'' then sim_outcome_of ''EXIT'' None tgt settings
         else sim_outcome_of ''EXIT'' (Some (exitOrder position ''NO_EXIT'')) (noFill ''NO_EXIT_TOUCHED'' None) settings)"

section \<open>The normal form of a policy\<close>

definition order_policy_js :: "order_policy \<Rightarrow> jsval" where
  "order_policy_js s = Obj
     [(''schema_version'', Str ''order_simulation_policy_v1''), (''simulator_version'', Str ''1.0.0''),
      (''spread_points'', Num (spread_points s)), (''slippage_points'', Num (slippage_points s)),
      (''commission_r_per_contract'', Num (commission_r_per_contract s)),
      (''entry_latency_rows'', Num (entry_latency_rows s)), (''exit_latency_rows'', Num (exit_latency_rows s)),
      (''gap_policy'', Str (gap_policy s)), (''ambiguous_intrabar_policy'', Str (ambiguous_intrabar_policy s)),
      (''partial_fill_enabled'', Bool (partial_fill_enabled s)), (''partial_fill_ratio'', Num (partial_fill_ratio s)),
      (''minimum_fill_quantity'', Num (minimum_fill_quantity s))]"

definition nonneg_num :: "jnum \<Rightarrow> bool" where
  "nonneg_num n \<longleftrightarrow> (\<exists>r. n = Fin r \<and> 0 \<le> r)"

definition count_num :: "int \<Rightarrow> jnum \<Rightarrow> bool" where
  "count_num least n \<longleftrightarrow> (\<exists>i. n = Fin (of_int i) \<and> least \<le> i)"

text \<open>The values the policy can take; every normalised policy is of this kind.\<close>

definition wf_policy :: "order_policy \<Rightarrow> bool" where
  "wf_policy s \<longleftrightarrow> nonneg_num (spread_points s) \<and> nonneg_num (slippage_points s)
     \<and> nonneg_num (commission_r_per_contract s) \<and> count_num 0 (entry_latency_rows s) \<and> count_num 0 (exit_latency_rows s)
     \<and> gap_policy s \<in> set GAP_POLICIES \<and> ambiguous_intrabar_policy s \<in> set AMBIGUOUS_POLICIES
     \<and> (\<exists>r. partial_fill_ratio s = Fin r \<and> 0 \<le> r \<and> r \<le> 1) \<and> count_num 1 (minimum_fill_quantity s)"

lemma sim_number_Num [simp]: "sim_number (Num (Fin r)) = Some (Fin r)" "sim_number Null = Some (Fin 0)"
  by (simp_all add: sim_number_def)

lemma sim_number_Fin: "sim_number v = Some n \<Longrightarrow> \<exists>r. n = Fin r"
  by (auto simp: sim_number_def is_finite_def split: if_splits jnum.splits)

lemma number_of_first_Fin: "number_of_first v = Some n \<Longrightarrow> \<exists>r. n = Fin r"
  by (auto simp: number_of_first_def dest: sim_number_Fin)

lemma number_of_first_not_None: "number_of_first (firstNumber vs) \<noteq> None"
proof (cases "firstNumber vs")
  case (Some n)
  then obtain r where "n = Fin r"
    by (auto simp: firstNumber_def dest: sim_number_Fin find_SomeD split: option.splits)
  with Some show ?thesis by (simp add: number_of_first_def sim_number_def)
qed (simp add: number_of_first_def sim_number_def)

lemma first_Fin: "\<exists>r. number_of_first (firstNumber vs) = Some (Fin r)"
  using number_of_first_not_None[of vs] number_of_first_Fin[of "firstNumber vs"] by fastforce

lemma nonNegative_first: "nonneg_num (nonNegative (number_of_first (firstNumber vs)) d)"
  using first_Fin[of vs] by (auto simp: nonneg_num_def nonNegative_def jmax_def)

lemma nonNegativeInteger_first: "count_num 0 (nonNegativeInteger (number_of_first (firstNumber vs)) d)"
  using first_Fin[of vs]
  by (auto simp: count_num_def nonNegativeInteger_def nonNegative_def jmax_def jtrunc_def)

lemma positiveInteger_first: "count_num 1 (positiveInteger (number_of_first (firstNumber vs)) d)"
proof -
  obtain r where r: "number_of_first (firstNumber vs) = Some (Fin r)" using first_Fin by blast
  obtain i where i: "jtrunc (nonNegative (Some (Fin r)) d) = Fin (of_int i)"
    by (cases "0 < r") (auto simp: nonNegative_def jmax_def jtrunc_def)
  have "jmax (Fin 1) (Fin (of_int i)) = Fin (of_int (max 1 i))" by (auto simp: jmax_def max_def)
  then show ?thesis unfolding positiveInteger_def r i by (auto simp: count_num_def)
qed

lemma ratio_first: "\<exists>r. ratio (number_of_first (firstNumber vs)) d = Fin r \<and> 0 \<le> r \<and> r \<le> 1"
  using first_Fin[of vs] by (auto simp: ratio_def jmax_def jmin_def)

lemma enumOr_in: "d \<in> set allowed \<Longrightarrow> enumOr v allowed d \<in> set allowed"
  by (simp add: enumOr_def Let_def)

lemma normalize_wf: "wf_policy (normalizeOrderSimulationPolicyV1 input)"
  unfolding wf_policy_def normalizeOrderSimulationPolicyV1_def Let_def
  by (simp add: nonNegative_first nonNegativeInteger_first positiveInteger_first ratio_first)
     (intro conjI enumOr_in; simp add: GAP_POLICIES_def AMBIGUOUS_POLICIES_def)

lemma firstNumber_Num: "firstNumber (Num (Fin r) # vs) = Some (Fin r)"
  by (simp add: firstNumber_def present_def sim_number_def)

lemma enumOr_upper: "v \<in> set allowed \<Longrightarrow> to_upper v = v \<Longrightarrow> enumOr (Str v) allowed d = v"
  by (simp add: enumOr_def)

lemma policy_names_upper:
  "v \<in> set GAP_POLICIES \<Longrightarrow> to_upper v = v" "v \<in> set AMBIGUOUS_POLICIES \<Longrightarrow> to_upper v = v"
  unfolding GAP_POLICIES_def AMBIGUOUS_POLICIES_def by (auto; code_simp)+

lemma jtrunc_int: "jtrunc (Fin (of_int i)) = Fin (of_int i)" "jtrunc (Fin 0) = Fin 0" "jtrunc (Fin 1) = Fin 1"
  by (simp_all add: jtrunc_def)

lemma normalize_js:
  assumes "wf_policy s"
  shows "normalizeOrderSimulationPolicyV1 (order_policy_js s) = s"
proof -
  have num: "number_of_first (Some (Fin r)) = Some (Fin r)" for r
    by (simp add: number_of_first_def sim_number_def)
  have nn: "nonNegative (number_of_first (firstNumber (Num n # vs))) d = n" if "nonneg_num n" for n vs d
    using that by (auto simp: nonneg_num_def firstNumber_Num num nonNegative_def jmax_def)
  have ni: "nonNegativeInteger (number_of_first (firstNumber (Num n # vs))) d = n" if "count_num 0 n" for n vs d
    using that by (auto simp: count_num_def firstNumber_Num num nonNegativeInteger_def nonNegative_def jmax_def jtrunc_int)
  have pos: "positiveInteger (number_of_first (firstNumber (Num n # vs))) d = n" if "count_num 1 n" for n vs d
    using that by (auto simp: count_num_def firstNumber_Num num positiveInteger_def nonNegative_def jmax_def jtrunc_int)
  have rat: "ratio (number_of_first (firstNumber (Num n # vs))) d = n" if "\<exists>r. n = Fin r \<and> 0 \<le> r \<and> r \<le> 1" for n vs d
    using that by (auto simp: firstNumber_Num num ratio_def jmax_def jmin_def)
  show ?thesis using assms
    by (simp add: wf_policy_def normalizeOrderSimulationPolicyV1_def order_policy_js_def Let_def nn ni pos rat
        enumOr_upper policy_names_upper)
qed

section \<open>Quantities and prices\<close>

lemma simulatedQuantity_bounds:
  assumes "wf_policy s" and "count_num 1 q"
  shows "jle (Fin 0) (simulatedQuantity q s) \<and> jle (simulatedQuantity q s) q
    \<and> (\<not> partial_fill_enabled s \<longrightarrow> simulatedQuantity q s = q)"
proof -
  from assms obtain i r m where i: "q = Fin (of_int i)" "1 \<le> i" and r: "partial_fill_ratio s = Fin r" "0 \<le> r"
    and m: "minimum_fill_quantity s = Fin (of_int m)" "1 \<le> m"
    by (auto simp: wf_policy_def count_num_def)
  have "jle (Fin 0) (jmax (Fin 0) (jmin (Fin a) b)) \<and> jle (jmax (Fin 0) (jmin (Fin a) b)) (Fin a)"
    if "b \<noteq> NaN" "0 \<le> a" for a b
    using that by (cases b) (auto simp: jmax_def jmin_def)
  moreover have "jmax (Fin (of_int m)) (jfloor (jmul (Fin (of_int i)) (Fin r))) \<noteq> NaN"
    using rnd_not_NaN[of "of_int i * r"]
    by (cases "rnd (of_int i * r)") (auto simp: jmax_def jfloor_def)
  ultimately show ?thesis using i by (auto simp: simulatedQuantity_def m r(1) simp del: jmul.simps)
qed

lemma sim_round_nonneg: "jle (Fin 0) n \<Longrightarrow> jle (Fin 0) (sim_round n)"
proof -
  assume n: "jle (Fin 0) n"
  then have "sim_round n = round_digits n 4" by (auto simp: sim_round_def)
  then show ?thesis using round_digits_mono[OF n] by (simp add: round_digits_0)
qed

lemma sim_round_mono: "jle a b \<Longrightarrow> jle (sim_round a) (sim_round b)"
  by (auto simp: sim_round_def intro: round_digits_mono)

lemma jmul_nonneg: "jle (Fin 0) a \<Longrightarrow> nonneg_num b \<Longrightarrow> jle (Fin 0) (jmul a b) \<or> jmul a b = NaN"
  by (cases a) (auto simp: nonneg_num_def jinf_def rnd_nonneg)

text \<open>What every fill satisfies, and what it says when no price was available.\<close>

definition sound_fill :: "order_policy \<Rightarrow> sim_fill \<Rightarrow> bool" where
  "sound_fill s f \<longleftrightarrow> jle (Fin 0) (fl_quantity f) \<and> jle (fl_quantity f) (fl_requested f) \<and> jle (Fin 0) (fl_commission_r f)
    \<and> (fl_status f = (if fl_raw_price f = None then ''PENDING''
          else if jlt (fl_quantity f) (fl_requested f) then ''PARTIALLY_FILLED'' else ''FILLED''))
    \<and> (jlt (fl_quantity f) (fl_requested f) \<and> fl_raw_price f \<noteq> None \<longrightarrow> partial_fill_enabled s)"

lemma noFill_sound [simp]: "sound_fill s (noFill why None)"
  "fl_status (noFill why x) = ''PENDING''" "fl_raw_price (noFill why x) = None" "fl_reason (noFill why x) = why"
  by (simp_all add: noFill_def sound_fill_def)

lemma fill_raw [simp]: "fl_raw_price (fill ord why raw s) = raw"
  by (simp add: fill_def Let_def split: option.splits)

lemma commission_nonneg:
  "jle (Fin 0) a \<Longrightarrow> nonneg_num b \<Longrightarrow> jle (Fin 0) (sim_round (jmul a b))"
  using jmul_nonneg[of a b] sim_round_nonneg[of "jmul a b"] sim_round_nonneg[of "Fin 0"]
  by (auto simp: sim_round_def)

lemma fill_sound:
  assumes "wf_policy s" and "count_num 1 (o_quantity ord)"
  shows "sound_fill s (fill ord why raw s)"
proof (cases raw)
  case None
  then show ?thesis using assms(2) by (auto simp: fill_def noFill_def count_num_def sound_fill_def)
next
  case (Some p)
  have comm: "nonneg_num (commission_r_per_contract s)" using assms(1) by (simp add: wf_policy_def)
  note q = simulatedQuantity_bounds[OF assms]
  have "\<not> jlt (o_quantity ord) (o_quantity ord)" using assms(2) by (auto simp: count_num_def)
  with Some q commission_nonneg[OF _ comm] show ?thesis
    by (auto simp: sound_fill_def fill_def Let_def)
qed

lemma entryFill_sound:
  assumes "wf_policy s" and "count_num 1 (o_quantity ord)"
  shows "sound_fill s (entryFill ord row s)"
  by (simp add: entryFill_def limitEntryFill_def stopEntryFill_def stopLimitEntryFill_def fill_sound[OF assms])

lemma apply_keeps [simp]:
  "o_quantity (applyOrderReplacementsV1 H ord rs row) = o_quantity ord"
  "o_side (applyOrderReplacementsV1 H ord rs row) = o_side ord"
  by (auto simp: applyOrderReplacementsV1_def split: option.splits)

lemma build_quantity: "count_num 1 (o_quantity (buildEntryOrderV1 setup p))"
  by (simp add: buildEntryOrderV1_def Let_def positiveInteger_first)

lemma build_side: "o_side (buildEntryOrderV1 setup p) \<in> {''BUY'', ''SELL''}"
  by (simp add: buildEntryOrderV1_def Let_def entrySide_def)

lemma limitFillRawPrice_limit:
  assumes "limitTouched side row price" and "side \<in> {''BUY'', ''SELL''}"
  shows "\<exists>p raw. price = Some p \<and> limitFillRawPrice side row price s = Some raw
    \<and> (if side = ''BUY'' then jle raw p else jle p raw)"
  using assms
  by (auto simp: limitTouched_def validTouchInputs_def limitFillRawPrice_def jle_def split: option.splits)
     (auto simp: jnumeq_def)


lemma stopFillRawPrice_stop:
  assumes "stopTouched side row price" and "side \<in> {''BUY'', ''SELL''}"
  shows "\<exists>p raw. price = Some p \<and> stopFillRawPrice side row price s = Some raw
    \<and> (if side = ''BUY'' then jle p raw else jle raw p)"
  using assms
  by (auto simp: stopTouched_def validTouchInputs_def stopFillRawPrice_def jle_def split: option.splits)
     (auto simp: jnumeq_def)

text \<open>The four verdicts on an open position, and the rule that decides between them.\<close>

datatype exit_verdict = Hold | Needs_Review | Stopped | Target_Hit

definition exit_spec :: "bool \<Rightarrow> bool \<Rightarrow> string \<Rightarrow> string \<Rightarrow> exit_verdict" where
  "exit_spec stopHit targetHit policy nearest =
     (if stopHit \<and> targetHit then
        (if policy = ''REVIEW_REQUIRED'' then Needs_Review
         else if policy = ''FAVORABLE_TARGET'' then Target_Hit
         else if policy = ''OHLC_DISTANCE'' then
           (if nearest = ''REVIEW'' then Needs_Review else if nearest = ''TARGET'' then Target_Hit else Stopped)
         else Stopped)
      else if stopHit then Stopped else if targetHit then Target_Hit else Hold)"

definition verdict_of :: "sim_outcome \<Rightarrow> exit_verdict" where
  "verdict_of out =
     (if so_review_required out then Needs_Review
      else if so_status out = ''PENDING'' then Hold
      else if so_reason out = ''STOP_LOSS'' then Stopped else Target_Hit)"

definition exit_side :: "jsval \<Rightarrow> string" where
  "exit_side position = (if sim_direction (get position ''direction'') = ''long'' then ''SELL'' else ''BUY'')"

definition stop_hit :: "jsval \<Rightarrow> jsval \<Rightarrow> bool" where
  "stop_hit position row \<longleftrightarrow> stopTouched (exit_side position) row (sim_number (get position ''stop_loss''))"

definition target_hit :: "jsval \<Rightarrow> jsval \<Rightarrow> bool" where
  "target_hit position row \<longleftrightarrow> limitTouched (exit_side position) row (sim_number (get position ''take_profit_1''))"

definition position_quantity :: "jsval \<Rightarrow> jnum" where
  "position_quantity position = positiveInteger (number_of_first (firstNumber [get position ''quantity''])) (Fin 1)"

lemma exitOrder_simps [simp]:
  "o_side (exitOrder position why) = exit_side position"
  "o_stop_price (exitOrder position ''STOP_LOSS'') = sim_number (get position ''stop_loss'')"
  "o_limit_price (exitOrder position ''TAKE_PROFIT_1'') = sim_number (get position ''take_profit_1'')"
  "o_quantity (exitOrder position why) = position_quantity position"
  by (simp_all add: exitOrder_def exit_side_def position_quantity_def)

lemma exit_quantity: "count_num 1 (position_quantity position)"
  by (simp add: position_quantity_def positiveInteger_first)

lemma exit_side_values: "exit_side position \<in> {''BUY'', ''SELL''}"
  by (simp add: exit_side_def)

lemma fill_reason: "raw = Some x \<Longrightarrow> fl_reason (fill ord why raw s) = why"
  by (simp add: fill_def Let_def)

lemma fill_status:
  assumes "raw = Some x"
  shows "fl_status (fill ord why raw s)
    = (if jlt (simulatedQuantity (o_quantity ord) s) (o_quantity ord) then ''PARTIALLY_FILLED'' else ''FILLED'')"
  using assms by (simp add: fill_def Let_def)

lemma exitStopFill_status:
  "fl_status (exitStopFill position row s) =
     (if \<not> stop_hit position row then ''PENDING''
      else if jlt (simulatedQuantity (position_quantity position) s) (position_quantity position)
      then ''PARTIALLY_FILLED'' else ''FILLED'')"
  and exitStopFill_reason: "stop_hit position row \<Longrightarrow> fl_reason (exitStopFill position row s) = ''STOP_LOSS''"
  using stopFillRawPrice_stop[OF _ exit_side_values, of position row "sim_number (get position ''stop_loss'')" s]
  by (auto simp: exitStopFill_def Let_def stop_hit_def fill_reason fill_status)

lemma exitTargetFill_status:
  "fl_status (exitTargetFill position row s) =
     (if \<not> target_hit position row then ''PENDING''
      else if jlt (simulatedQuantity (position_quantity position) s) (position_quantity position)
      then ''PARTIALLY_FILLED'' else ''FILLED'')"
  and exitTargetFill_reason: "target_hit position row \<Longrightarrow> fl_reason (exitTargetFill position row s) = ''TAKE_PROFIT_1''"
  using limitFillRawPrice_limit[OF _ exit_side_values, of position row "sim_number (get position ''take_profit_1'')" s]
  by (auto simp: exitTargetFill_def Let_def target_hit_def fill_reason fill_status)

lemma outcome_simps [simp]:
  "so_status (sim_outcome_of ph ord f s) = fl_status f" "so_reason (sim_outcome_of ph ord f s) = fl_reason f"
  "so_order (sim_outcome_of ph ord f s) = ord" "so_fill (sim_outcome_of ph ord f s) = f"
  "\<not> so_review_required (sim_outcome_of ph ord f s)" "so_policy (sim_outcome_of ph ord f s) = s"
  by (simp_all add: sim_outcome_of_def)

lemma whole_quantity:
  assumes "\<not> partial_fill_enabled (normalizeOrderSimulationPolicyV1 policy)"
  shows "\<not> jlt (simulatedQuantity (position_quantity position) (normalizeOrderSimulationPolicyV1 policy))
    (position_quantity position)"
  using assms exit_quantity[of position] by (auto simp: simulatedQuantity_def count_num_def)

subsection \<open>A candle, a setup and a position for the witnesses\<close>

definition wide_candle :: jsval where
  "wide_candle = Obj [(''time'', Str ''2026-06-11T10:06:00Z''), (''open'', Num (Fin 100)), (''high'', Num (Fin 111)),
     (''low'', Num (Fin 94)), (''close'', Num (Fin 100))]"

definition limit_setup :: jsval where
  "limit_setup = Obj [(''setup_id'', Str ''s1''), (''instrument'', Str ''MNQ''), (''direction'', Str ''long''),
     (''order_type'', Str ''LIMIT''), (''order_limit_price'', Num (Fin 99)), (''quantity'', Num (Fin 2))]"

definition limit_order :: sim_order where
  "limit_order = \<lparr>o_order_id = ''simord_s1_entry'', o_phase = ''ENTRY'', o_setup_id = Some ''s1'', o_instrument = Some ''MNQ'',
     o_direction = ''long'', o_side = ''BUY'', o_type = ''LIMIT'', o_quantity = Fin 2, o_limit_price = Some (Fin 99),
     o_stop_price = None, o_status = ''WORKING'', o_cancel_reason = [], o_replaced_at = None\<rparr>"

definition long_position :: "jsval \<Rightarrow> jsval" where
  "long_position tp = Obj [(''position_id'', Str ''p1''), (''direction'', Str ''long''), (''quantity'', Num (Fin 2)),
     (''stop_loss'', Num (Fin 90)), (''take_profit_1'', tp)]"

definition default_settings :: order_policy where
  "default_settings = \<lparr>spread_points = Fin 0, slippage_points = Fin 0, commission_r_per_contract = Fin 0,
     entry_latency_rows = Fin 0, exit_latency_rows = Fin 0, gap_policy = ''FILL_AT_TRIGGER_PRICE'',
     ambiguous_intrabar_policy = ''REVIEW_REQUIRED'', partial_fill_enabled = False, partial_fill_ratio = Fin 0,
     minimum_fill_quantity = Fin 1\<rparr>"

lemma default_settings: "normalizeOrderSimulationPolicyV1 (Obj []) = default_settings"
  and partial_settings: "normalizeOrderSimulationPolicyV1 (Obj [(''partial_fill_enabled'', Bool True)])
    = default_settings\<lparr>partial_fill_enabled := True\<rparr>"
  by code_simp+

lemma limit_order: "buildEntryOrderV1 limit_setup Null = limit_order"
  by code_simp

lemma wide_candle_simps [simp]:
  "sim_number (get wide_candle ''high'') = Some (Fin 111)" "sim_number (get wide_candle ''low'') = Some (Fin 94)"
  "sim_number (get wide_candle ''open'') = Some (Fin 100)"
  by (simp_all add: wide_candle_def sim_number_def)

lemma long_position_simps [simp]:
  "position_quantity (long_position v) = Fin 2" "exit_side (long_position v) = ''SELL''"
  "get (long_position v) ''stop_loss'' = Num (Fin 90)" "get (long_position v) ''take_profit_1'' = v"
  "sim_direction (get (long_position v) ''direction'') = ''long''"
proof -
  have "get (long_position v) ''quantity'' = Num (Fin 2)" "get (long_position v) ''direction'' = Str ''long''"
    by (simp_all add: long_position_def)
  moreover have "positiveInteger (number_of_first (firstNumber [Num (Fin 2)])) (Fin 1) = Fin 2"
    "sim_direction (Str ''long'') = ''long''" by code_simp+
  ultimately show "position_quantity (long_position v) = Fin 2" "exit_side (long_position v) = ''SELL''"
    "sim_direction (get (long_position v) ''direction'') = ''long''"
    by (simp_all add: position_quantity_def exit_side_def)
qed (simp_all add: long_position_def)

lemma stop_not_hit: "\<not> stop_hit (long_position v) wide_candle"
  by (simp add: stop_hit_def stopTouched_def)

section \<open>Properties\<close>

text \<open>
  Normalising a policy twice is normalising it once: the settings recorded with an outcome, given
  back as a policy, are read as themselves (the replay engine passes normalised settings to a
  simulator that normalises again).
\<close>

theorem order_policy_normalisation_idempotent:
  "normalizeOrderSimulationPolicyV1 (order_policy_js (normalizeOrderSimulationPolicyV1 input))
     = normalizeOrderSimulationPolicyV1 input"
  by (rule normalize_js[OF normalize_wf])

text \<open>
  An entry fill is bounded: whatever the setup, candle and policy, the quantity filled lies
  between zero and the quantity requested, the commission is not negative, a fill has a price
  exactly when it is not pending, and it is partial exactly when less than requested was filled,
  which needs a policy that allows partial fills.
\<close>

theorem entry_fill_sound:
  "sound_fill (so_policy (simulateEntryOrderV1 H setup row i j policy p))
     (so_fill (simulateEntryOrderV1 H setup row i j policy p))"
proof -
  let ?s = "normalizeOrderSimulationPolicyV1 policy"
  let ?o = "applyOrderReplacementsV1 H (buildEntryOrderV1 setup p) (get setup ''order_replacements'') row"
  have "sound_fill ?s (entryFill ?o row ?s)"
    by (rule entryFill_sound[OF normalize_wf]) (simp add: build_quantity)
  then show ?thesis by (simp add: simulateEntryOrderV1_def Let_def sim_outcome_of_def)
qed


text \<open>The prices an order carries are finite, so the price a fill starts from is.\<close>

lemma firstNumber_Fin: "firstNumber vs = Some n \<Longrightarrow> \<exists>r. n = Fin r"
  by (auto simp: firstNumber_def dest: sim_number_Fin find_SomeD split: option.splits)

lemma entry_order_prices:
  "o_limit_price (applyOrderReplacementsV1 H (buildEntryOrderV1 setup p) rs row) = Some l \<Longrightarrow> \<exists>r. l = Fin r"
  "o_stop_price (applyOrderReplacementsV1 H (buildEntryOrderV1 setup p) rs row) = Some t \<Longrightarrow> \<exists>r. t = Fin r"
  by (auto simp: applyOrderReplacementsV1_def buildEntryOrderV1_def entryLimitPrice_def entryStopPrice_def Let_def
      dest: firstNumber_Fin split: option.splits if_splits)

lemma fill_raw_prices:
  "limitFillRawPrice side row (Some (Fin l)) s = Some raw \<Longrightarrow> \<exists>r. raw = Fin r"
  "stopFillRawPrice side row (Some (Fin l)) s = Some raw \<Longrightarrow> \<exists>r. raw = Fin r"
  by (auto simp: limitFillRawPrice_def stopFillRawPrice_def dest: sim_number_Fin split: if_splits option.splits)

text \<open>The spread and the slippage only work against the order: no fill is better than the same fill without them.\<close>

abbreviation free_of_cost :: "order_policy \<Rightarrow> order_policy" where
  "free_of_cost s \<equiv> s\<lparr>spread_points := Fin 0, slippage_points := Fin 0\<rparr>"

definition no_better :: "string \<Rightarrow> jnum \<Rightarrow> jnum \<Rightarrow> bool" where
  "no_better side price best \<longleftrightarrow> (if side = ''BUY'' then jle best price else jle price best)"

lemma executionPrice_no_better:
  assumes "wf_policy s"
  shows "no_better side (executionPrice (Fin r) side s) (executionPrice (Fin r) side (free_of_cost s))"
proof -
  obtain sp sl where c: "spread_points s = Fin sp" "0 \<le> sp" "slippage_points s = Fin sl" "0 \<le> sl"
    using assms by (auto simp: wf_policy_def nonneg_num_def)
  have half: "jle (Fin 0) (rnd (sp / 2))" using c(2) by (intro rnd_nonneg) simp
  then have "jle (Fin 0) (jadd (Fin sl) (rnd (sp / 2)))"
    using c(4) by (cases "rnd (sp / 2)") (auto intro!: rnd_nonneg)
  then obtain cost where cost: "jadd (Fin sl) (rnd (sp / 2)) = cost" "cost = PInf \<or> (\<exists>k. cost = Fin k \<and> 0 \<le> k)"
    by (cases "jadd (Fin sl) (rnd (sp / 2))") auto
  have "jle (rnd (r + 0)) (jadd (Fin r) cost)" "jle (jsub (Fin r) cost) (rnd (r - 0))"
    using cost(2) by (auto simp: jsub_def intro!: rnd_mono jle_PInf jle_NInf)
  note this[THEN sim_round_mono]
  then show ?thesis by (simp add: no_better_def executionPrice_def c cost jsub_def)
qed

text \<open>
  C18. Entries are filled where the candle allows and never better: an entry is filled only after its latency. The price the fill
  starts from is the open for a market order; for a limit order its limit or better, on a candle that touches it; for a stop
  order its trigger or worse, on a candle that touches it; for a stop-limit order its limit or better, on a candle that
  touches both its trigger and its limit. The price of the fill is that price with half the spread and the slippage against
  the order, rounded: never better than without them, so a limit order may be filled worse than its limit by them.
\<close>

theorem entry_fill_price_conservative:
  assumes "so_order (simulateEntryOrderV1 H setup row i j policy p) = Some ord"
    and "so_status (simulateEntryOrderV1 H setup row i j policy p) \<noteq> ''PENDING''"
  shows "\<not> latencyPending i j (entry_latency_rows (normalizeOrderSimulationPolicyV1 policy))
    \<and> (\<exists>raw. fl_raw_price (so_fill (simulateEntryOrderV1 H setup row i j policy p)) = Some raw
    \<and> fl_price (so_fill (simulateEntryOrderV1 H setup row i j policy p))
        = Some (executionPrice raw (o_side ord) (normalizeOrderSimulationPolicyV1 policy))
    \<and> no_better (o_side ord) (executionPrice raw (o_side ord) (normalizeOrderSimulationPolicyV1 policy))
        (executionPrice raw (o_side ord) (free_of_cost (normalizeOrderSimulationPolicyV1 policy)))
    \<and> (if o_type ord = ''MARKET'' then sim_number (get row ''open'') = Some raw
       else if o_type ord = ''STOP''
       then \<exists>t. o_stop_price ord = Some t \<and> stopTouched (o_side ord) row (Some t)
              \<and> (if o_side ord = ''BUY'' then jle t raw else jle raw t)
       else (o_type ord = ''LIMIT'' \<or> o_type ord = ''STOP_LIMIT'' \<and> stopTouched (o_side ord) row (o_stop_price ord))
            \<and> (\<exists>l. o_limit_price ord = Some l \<and> limitTouched (o_side ord) row (Some l)
              \<and> (if o_side ord = ''BUY'' then jle raw l else jle l raw))))"
proof -
  let ?s = "normalizeOrderSimulationPolicyV1 policy"
  let ?o = "applyOrderReplacementsV1 H (buildEntryOrderV1 setup p) (get setup ''order_replacements'') row"
  have f: "ord = ?o" "fl_status (entryFill ord row ?s) \<noteq> ''PENDING''" "\<not> latencyPending i j (entry_latency_rows ?s)"
      "so_fill (simulateEntryOrderV1 H setup row i j policy p) = entryFill ord row ?s"
    using assms by (auto simp: simulateEntryOrderV1_def Let_def split: if_splits)
  have side: "o_side ord \<in> {''BUY'', ''SELL''}" using build_side by (simp add: f(1))
  have pending: "fl_status (fill ord why None ?s) = ''PENDING''" for why by (simp add: fill_def)
  note limit = limitFillRawPrice_limit[OF _ side, of row "o_limit_price ord" ?s]
  note trigger = stopFillRawPrice_stop[OF _ side, of row "o_stop_price ord" ?s]
  note prices = entry_order_prices[of H "setup" p "get setup ''order_replacements''" row, folded f(1)]
  have filled: ?thesis if "entryFill ord row ?s = fill ord why (Some (Fin r)) ?s"
      "if o_type ord = ''MARKET'' then sim_number (get row ''open'') = Some (Fin r)
       else if o_type ord = ''STOP''
       then \<exists>t. o_stop_price ord = Some t \<and> stopTouched (o_side ord) row (Some t) \<and> (if o_side ord = ''BUY'' then jle t (Fin r) else jle (Fin r) t)
       else (o_type ord = ''LIMIT'' \<or> o_type ord = ''STOP_LIMIT'' \<and> stopTouched (o_side ord) row (o_stop_price ord))
            \<and> (\<exists>l. o_limit_price ord = Some l \<and> limitTouched (o_side ord) row (Some l)
              \<and> (if o_side ord = ''BUY'' then jle (Fin r) l else jle l (Fin r)))" for why r
    unfolding f(4) that(1) using f(3) that(2) executionPrice_no_better[OF normalize_wf] by (simp add: fill_def Let_def)
  consider "o_type ord = ''MARKET''" | "o_type ord = ''STOP''" | "o_type ord = ''LIMIT''" | "o_type ord = ''STOP_LIMIT''"
    using f(2) by (auto simp: entryFill_def split: if_splits)
  then show ?thesis
  proof cases
    case 1
    then obtain a where a: "sim_number (get row ''open'') = Some a"
      using f(2) pending by (cases "sim_number (get row ''open'')") (auto simp: entryFill_def)
    obtain r where "a = Fin r" using sim_number_Fin[OF a] by blast
    with a have "sim_number (get row ''open'') = Some (Fin r)" by simp
    with 1 show ?thesis by (intro filled) (simp_all add: entryFill_def)
  next
    case 2
    then have touched: "stopTouched (o_side ord) row (o_stop_price ord)"
      using f(2) by (auto simp: entryFill_def stopEntryFill_def split: if_splits)
    from trigger[OF this] obtain t raw where t: "o_stop_price ord = Some t" "stopFillRawPrice (o_side ord) row (Some t) ?s = Some raw"
      "if o_side ord = ''BUY'' then jle t raw else jle raw t" by auto
    moreover obtain r where "raw = Fin r" using t prices(2) fill_raw_prices(2) by blast
    ultimately show ?thesis using 2 touched by (intro filled) (simp_all add: entryFill_def stopEntryFill_def split: if_split_asm)
  next
    case 3
    then have touched: "limitTouched (o_side ord) row (o_limit_price ord)"
      using f(2) by (auto simp: entryFill_def limitEntryFill_def split: if_splits)
    from limit[OF this] obtain l raw where l: "o_limit_price ord = Some l" "limitFillRawPrice (o_side ord) row (Some l) ?s = Some raw"
      "if o_side ord = ''BUY'' then jle raw l else jle l raw" by auto
    moreover obtain r where "raw = Fin r" using l prices(1) fill_raw_prices(1) by blast
    ultimately show ?thesis using 3 touched by (intro filled) (simp_all add: entryFill_def limitEntryFill_def split: if_split_asm)
  next
    case 4
    then have touched: "stopTouched (o_side ord) row (o_stop_price ord)" "limitTouched (o_side ord) row (o_limit_price ord)"
      using f(2) by (auto simp: entryFill_def stopLimitEntryFill_def split: if_splits)
    from limit[OF this(2)] obtain l raw where l: "o_limit_price ord = Some l" "limitFillRawPrice (o_side ord) row (Some l) ?s = Some raw"
      "if o_side ord = ''BUY'' then jle raw l else jle l raw" by auto
    moreover obtain r where "raw = Fin r" using l prices(1) fill_raw_prices(1) by blast
    ultimately show ?thesis using 4 touched by (intro filled) (simp_all add: entryFill_def stopLimitEntryFill_def split: if_split_asm)
  qed
qed

lemma limit_entry:
  "simulateEntryOrderV1 sample_host limit_setup wide_candle (Fin 0) (Fin 0) (Obj []) Null
     = sim_outcome_of ''ENTRY'' (Some limit_order) (entryFill limit_order wide_candle default_settings) default_settings"
proof -
  have "get limit_setup ''order_replacements'' = Undef" by (simp add: limit_setup_def)
  then have "applyOrderReplacementsV1 sample_host limit_order (get limit_setup ''order_replacements'') wide_candle = limit_order"
    by (simp add: applyOrderReplacementsV1_def latestReplacement_def split: option.splits)
  then show ?thesis
    by (simp add: simulateEntryOrderV1_def Let_def default_settings limit_order latencyPending_def jsub_def)
       (simp add: limit_order_def default_settings_def)
qed

theorem entry_fill_price_conservative_witness:
  "\<exists>raw. fl_raw_price (entryFill limit_order wide_candle default_settings) = Some raw \<and> jle raw (Fin 99)
     \<and> fl_price (entryFill limit_order wide_candle default_settings) = Some (executionPrice raw ''BUY'' default_settings)"
proof -
  have "so_status (simulateEntryOrderV1 sample_host limit_setup wide_candle (Fin 0) (Fin 0) (Obj []) Null) \<noteq> ''PENDING''"
    unfolding limit_entry
    by (simp add: entryFill_def limitEntryFill_def limit_order_def limitTouched_def validTouchInputs_def
        limitFillRawPrice_def default_settings_def fill_def Let_def)
  from entry_fill_price_conservative[OF _ this, of limit_order] show ?thesis
    unfolding limit_entry by (auto simp: limit_order_def default_settings)
qed

text \<open>
  C17. The exit of a position that is filled whole follows one rule: stopped when only the stop is
  touched, taken when only the target is, and when a candle touches both, what the ambiguity
  policy says; with the default policy, a review and no exit.
\<close>

theorem exit_refines_rule:
  assumes "\<not> partial_fill_enabled (normalizeOrderSimulationPolicyV1 policy)"
  shows "verdict_of (simulateExitOrderV1 position row policy)
    = exit_spec (stop_hit position row) (target_hit position row)
        (ambiguous_intrabar_policy (normalizeOrderSimulationPolicyV1 policy)) (firstTouchByOpenDistance position row)"
  using whole_quantity[OF assms, of position]
  by (simp add: simulateExitOrderV1_def Let_def exitStopFill_status exitTargetFill_status verdict_of_def exit_spec_def
      resolveAmbiguousExit_def resolveDistanceAmbiguity_def review_outcome_def exitStopFill_reason exitTargetFill_reason)

theorem exit_refines_rule_witness:
  "verdict_of (simulateExitOrderV1 (long_position (Num (Fin 110))) wide_candle (Obj [])) = Target_Hit"
proof -
  have "target_hit (long_position (Num (Fin 110))) wide_candle"
    by (simp add: target_hit_def limitTouched_def validTouchInputs_def)
  moreover have "\<not> partial_fill_enabled (normalizeOrderSimulationPolicyV1 (Obj []))"
    by (simp add: default_settings default_settings_def)
  from exit_refines_rule[OF this] show ?thesis
    using calculation stop_not_hit by (simp add: exit_spec_def)
qed

text \<open>
  A stop that is filled in part is not an exit: when the policy fills less than the whole
  position, the statuses are \<open>PARTIALLY_FILLED\<close>, which the exit does not look for, and a touched
  stop or target is reported as \<open>NO_EXIT_TOUCHED\<close>.
\<close>

theorem exit_partial_fill_dropped:
  assumes "jlt (simulatedQuantity (position_quantity position) (normalizeOrderSimulationPolicyV1 policy))
    (position_quantity position)"
  shows "so_status (simulateExitOrderV1 position row policy) = ''PENDING''
    \<and> so_reason (simulateExitOrderV1 position row policy) = ''NO_EXIT_TOUCHED''"
  using assms by (simp add: simulateExitOrderV1_def Let_def exitStopFill_status exitTargetFill_status)

theorem exit_partial_fill_dropped_witness:
  "so_status (simulateExitOrderV1 (long_position (Num (Fin 110))) wide_candle (Obj [(''partial_fill_enabled'', Bool True)]))
      = ''PENDING''
   \<and> so_reason (simulateExitOrderV1 (long_position (Num (Fin 110))) wide_candle (Obj [(''partial_fill_enabled'', Bool True)]))
      = ''NO_EXIT_TOUCHED''"
  by (rule exit_partial_fill_dropped)
     (simp add: partial_settings default_settings_def simulatedQuantity_def jmin_def jmax_def jfloor_def)

text \<open>
  A position without a target is sold at price zero: \<open>Number(null)\<close> is 0, so for a long position whose
  \<open>take_profit_1\<close> is \<open>null\<close> every candle with a non-negative high touches the target, and with the
  default gap policy the exit is filled at 0.
\<close>

theorem exit_without_target:
  assumes "get position ''take_profit_1'' = Null" and "sim_direction (get position ''direction'') = ''long''"
    and "sim_number (get row ''high'') = Some h" and "sim_number (get row ''low'') = Some l" and "jle (Fin 0) h"
    and "\<not> stop_hit position row"
    and "\<not> partial_fill_enabled (normalizeOrderSimulationPolicyV1 policy)"
    and "gap_policy (normalizeOrderSimulationPolicyV1 policy) = ''FILL_AT_TRIGGER_PRICE''"
  shows "so_status (simulateExitOrderV1 position row policy) = ''FILLED''
    \<and> so_reason (simulateExitOrderV1 position row policy) = ''TAKE_PROFIT_1''
    \<and> fl_raw_price (so_fill (simulateExitOrderV1 position row policy)) = Some (Fin 0)"
proof -
  have side: "exit_side position = ''SELL''" using assms(2) by (simp add: exit_side_def)
  have n: "sim_number (get position ''take_profit_1'') = Some (Fin 0)" using assms(1) by (simp add: sim_number_def)
  have "target_hit position row"
    using assms(3-5) by (simp add: target_hit_def limitTouched_def validTouchInputs_def side n)
  moreover have "fl_raw_price (exitTargetFill position row (normalizeOrderSimulationPolicyV1 policy)) = Some (Fin 0)"
    using calculation assms(8) by (simp add: exitTargetFill_def target_hit_def limitFillRawPrice_def n Let_def)
  ultimately show ?thesis
    using assms(6) whole_quantity[OF assms(7), of position]
    by (simp add: simulateExitOrderV1_def Let_def exitStopFill_status exitTargetFill_status exitTargetFill_reason)
qed

theorem exit_without_target_witness:
  "so_status (simulateExitOrderV1 (long_position Null) wide_candle (Obj [])) = ''FILLED''
    \<and> so_reason (simulateExitOrderV1 (long_position Null) wide_candle (Obj [])) = ''TAKE_PROFIT_1''
    \<and> fl_raw_price (so_fill (simulateExitOrderV1 (long_position Null) wide_candle (Obj []))) = Some (Fin 0)"
  by (rule exit_without_target[where h = "Fin 111" and l = "Fin 94"])
     (simp_all add: stop_not_hit default_settings, simp_all add: default_settings_def)

text \<open>
  The fallback of a missing ratio is never used: \<open>number(null)\<close> is 0, so a policy without a
  \<open>partial_fill_ratio\<close> is given the ratio 0, where \<open>DEFAULT_ORDER_SIMULATION_POLICY_V1\<close> says 1; if it
  enables partial fills, an order is filled at its minimum quantity only.
\<close>

theorem missing_fill_ratio_is_zero:
  assumes "\<not> present (get input ''partial_fill_ratio'')" and "\<not> present (get (get input ''partial_fill'') ''fill_ratio'')"
  shows "partial_fill_ratio (normalizeOrderSimulationPolicyV1 input) = Fin 0"
proof -
  have "fget (obj_or_empty v) k = get v k" for v k by (cases v) simp_all
  with assms have "ratio (number_of_first (firstNumber [get (Obj (obj_or_empty input)) ''partial_fill_ratio'',
      get (Obj (obj_or_empty (get (Obj (obj_or_empty input)) ''partial_fill''))) ''fill_ratio''])) (Fin 1) = Fin 0"
    by (simp add: firstNumber_def number_of_first_def ratio_def jmin_def jmax_def)
  then show ?thesis by (simp add: normalizeOrderSimulationPolicyV1_def Let_def)
qed

theorem missing_fill_ratio_is_zero_witness:
  "partial_fill_ratio (normalizeOrderSimulationPolicyV1 (Obj [(''partial_fill_enabled'', Bool True)])) = Fin 0"
  by (rule missing_fill_ratio_is_zero) (simp_all add: present_def)

end
