(* ===== verification/Position_V1.thy ===== *)
theory Position_V1
  imports Lifecycle
begin

text \<open>
  \<open>packages/desk-domain/src/position-state-machine-v1.js\<close>: the life of a position. Confirmations
  (fills, protection, closes) may come from the engine only; review and recovery from anyone.
  The commands of this machine are events. \<open>position_apply\<close> is what a store does with a sequence
  of calls, each an event with the authority that sent it.
\<close>

datatype position_state =
    NONE | PENDING_SUBMISSION | OPEN | PROTECTED | PARTIAL_TAKEN | CLOSED | STOPPED |
    CANCELLED | REVIEW_REQUIRED

datatype position_command =
    NOOP | SUBMISSION_ACCEPTED | FILL_CONFIRMED | PROTECTION_CONFIRMED |
    PARTIAL_FILL_CONFIRMED | CLOSE_CONFIRMED | STOP_FILL_CONFIRMED | CANCEL_CONFIRMED |
    MARK_REVIEW_REQUIRED | RECONCILIATION_RECOVERED

definition POSITION_STATES_V1 :: "(string \<times> position_state) list" where
  "POSITION_STATES_V1 =
     [(''NONE'', NONE), (''PENDING_SUBMISSION'', PENDING_SUBMISSION), (''OPEN'', OPEN),
     (''PROTECTED'', PROTECTED), (''PARTIAL_TAKEN'', PARTIAL_TAKEN), (''CLOSED'', CLOSED),
     (''STOPPED'', STOPPED), (''CANCELLED'', CANCELLED),
     (''REVIEW_REQUIRED'', REVIEW_REQUIRED)]"

definition POSITION_EVENTS_V1 :: "(string \<times> position_command) list" where
  "POSITION_EVENTS_V1 =
     [(''NOOP'', NOOP), (''SUBMISSION_ACCEPTED'', SUBMISSION_ACCEPTED),
     (''FILL_CONFIRMED'', FILL_CONFIRMED), (''PROTECTION_CONFIRMED'', PROTECTION_CONFIRMED),
     (''PARTIAL_FILL_CONFIRMED'', PARTIAL_FILL_CONFIRMED),
     (''CLOSE_CONFIRMED'', CLOSE_CONFIRMED), (''STOP_FILL_CONFIRMED'', STOP_FILL_CONFIRMED),
     (''CANCEL_CONFIRMED'', CANCEL_CONFIRMED),
     (''MARK_REVIEW_REQUIRED'', MARK_REVIEW_REQUIRED),
     (''RECONCILIATION_RECOVERED'', RECONCILIATION_RECOVERED)]"

fun position_name :: "position_state \<Rightarrow> string" where
  "position_name NONE = ''NONE''"
| "position_name PENDING_SUBMISSION = ''PENDING_SUBMISSION''"
| "position_name OPEN = ''OPEN''"
| "position_name PROTECTED = ''PROTECTED''"
| "position_name PARTIAL_TAKEN = ''PARTIAL_TAKEN''"
| "position_name CLOSED = ''CLOSED''"
| "position_name STOPPED = ''STOPPED''"
| "position_name CANCELLED = ''CANCELLED''"
| "position_name REVIEW_REQUIRED = ''REVIEW_REQUIRED''"

fun position_TRANSITIONS :: "position_state \<Rightarrow> position_command \<Rightarrow> position_state option" where
  "position_TRANSITIONS NONE c = (case c of
      NOOP \<Rightarrow> Some NONE | SUBMISSION_ACCEPTED \<Rightarrow> Some PENDING_SUBMISSION |
      MARK_REVIEW_REQUIRED \<Rightarrow> Some REVIEW_REQUIRED | _ \<Rightarrow> None)"
| "position_TRANSITIONS PENDING_SUBMISSION c = (case c of
      NOOP \<Rightarrow> Some PENDING_SUBMISSION | FILL_CONFIRMED \<Rightarrow> Some OPEN |
      CANCEL_CONFIRMED \<Rightarrow> Some CANCELLED | MARK_REVIEW_REQUIRED \<Rightarrow> Some REVIEW_REQUIRED |
      _ \<Rightarrow> None)"
| "position_TRANSITIONS OPEN c = (case c of
      NOOP \<Rightarrow> Some OPEN | PROTECTION_CONFIRMED \<Rightarrow> Some PROTECTED |
      PARTIAL_FILL_CONFIRMED \<Rightarrow> Some PARTIAL_TAKEN | CLOSE_CONFIRMED \<Rightarrow> Some CLOSED |
      STOP_FILL_CONFIRMED \<Rightarrow> Some STOPPED | MARK_REVIEW_REQUIRED \<Rightarrow> Some REVIEW_REQUIRED |
      _ \<Rightarrow> None)"
| "position_TRANSITIONS PROTECTED c = (case c of
      NOOP \<Rightarrow> Some PROTECTED | PROTECTION_CONFIRMED \<Rightarrow> Some PROTECTED |
      PARTIAL_FILL_CONFIRMED \<Rightarrow> Some PARTIAL_TAKEN | CLOSE_CONFIRMED \<Rightarrow> Some CLOSED |
      STOP_FILL_CONFIRMED \<Rightarrow> Some STOPPED | MARK_REVIEW_REQUIRED \<Rightarrow> Some REVIEW_REQUIRED |
      _ \<Rightarrow> None)"
| "position_TRANSITIONS PARTIAL_TAKEN c = (case c of
      NOOP \<Rightarrow> Some PARTIAL_TAKEN | PROTECTION_CONFIRMED \<Rightarrow> Some PARTIAL_TAKEN |
      PARTIAL_FILL_CONFIRMED \<Rightarrow> Some PARTIAL_TAKEN | CLOSE_CONFIRMED \<Rightarrow> Some CLOSED |
      STOP_FILL_CONFIRMED \<Rightarrow> Some STOPPED | MARK_REVIEW_REQUIRED \<Rightarrow> Some REVIEW_REQUIRED |
      _ \<Rightarrow> None)"
| "position_TRANSITIONS CLOSED c = (case c of
      NOOP \<Rightarrow> Some CLOSED | _ \<Rightarrow> None)"
| "position_TRANSITIONS STOPPED c = (case c of
      NOOP \<Rightarrow> Some STOPPED | _ \<Rightarrow> None)"
| "position_TRANSITIONS CANCELLED c = (case c of
      NOOP \<Rightarrow> Some CANCELLED | _ \<Rightarrow> None)"
| "position_TRANSITIONS REVIEW_REQUIRED c = (case c of
      NOOP \<Rightarrow> Some REVIEW_REQUIRED | RECONCILIATION_RECOVERED \<Rightarrow> Some OPEN |
      CLOSE_CONFIRMED \<Rightarrow> Some CLOSED | STOP_FILL_CONFIRMED \<Rightarrow> Some STOPPED |
      CANCEL_CONFIRMED \<Rightarrow> Some CANCELLED | _ \<Rightarrow> None)"

definition position_terminal :: "position_state \<Rightarrow> bool" where
  "position_terminal s \<longleftrightarrow> s \<in> {CLOSED, STOPPED, CANCELLED}"

definition ENGINE_ONLY_EVENTS :: "position_command list" where
  "ENGINE_ONLY_EVENTS = [SUBMISSION_ACCEPTED, FILL_CONFIRMED, PROTECTION_CONFIRMED,
     PARTIAL_FILL_CONFIRMED, CLOSE_CONFIRMED, STOP_FILL_CONFIRMED, CANCEL_CONFIRMED]"

definition position_result ::
  "bool \<Rightarrow> string \<Rightarrow> position_state option \<Rightarrow> string \<Rightarrow> string \<Rightarrow> position_state transition" where
  "position_result = transitionResult ''position_transition_v1'' ''position'' position_terminal"

definition transitionPositionStateV1 :: "jsval \<Rightarrow> jsval \<Rightarrow> jsval \<Rightarrow> position_state transition" where
  "transitionPositionStateV1 currentState event authority =
     (let previousState = normalizeEnum (default_param currentState ''NONE'');
          normalizedEvent = normalizeEnum (default_param event ''NOOP'');
          refuse = position_result False previousState None normalizedEvent in
      case map_of POSITION_STATES_V1 previousState of
        None \<Rightarrow> refuse ''UNKNOWN_POSITION_STATE''
      | Some s \<Rightarrow> (case map_of POSITION_EVENTS_V1 normalizedEvent of
          None \<Rightarrow> refuse ''UNKNOWN_POSITION_EVENT''
        | Some e \<Rightarrow>
            if e \<in> set ENGINE_ONLY_EVENTS \<and> normalizeEnum (default_param authority ''ENGINE'') \<noteq> ''ENGINE''
            then refuse ''ENGINE_AUTHORITY_REQUIRED''
            else if position_terminal s \<and> e \<noteq> NOOP then refuse ''TERMINAL_POSITION_IMMUTABLE''
            else (case position_TRANSITIONS s e of
                None \<Rightarrow> refuse ''INVALID_POSITION_TRANSITION''
              | Some t \<Rightarrow> position_result True previousState (Some t) normalizedEvent ''APPLIED'')))"

section \<open>The machine behind the calls\<close>

interpretation po: frozen_machine "map_of POSITION_STATES_V1" position_name position_TRANSITIONS NOOP
  position_terminal
proof
  fix s c t n
  show "map_of POSITION_STATES_V1 (position_name s) = Some s"
    by (cases s) (simp_all add: POSITION_STATES_V1_def)
  show "map_of POSITION_STATES_V1 n = Some s \<Longrightarrow> position_name s = n"
    by (auto simp: POSITION_STATES_V1_def split: if_splits)
  show "position_TRANSITIONS s NOOP = Some s" by (cases s) simp_all
  show "position_terminal s \<Longrightarrow> position_TRANSITIONS s c = Some t \<Longrightarrow> t = s"
    by (auto simp: position_terminal_def split: position_command.splits)
qed

lemma normalizeEnum_position_name [simp]: "normalizeEnum (Str (position_name s)) = position_name s"
  by (cases s) (simp_all, code_simp+)

definition from_engine :: "jsval \<Rightarrow> bool" where
  "from_engine authority \<longleftrightarrow> normalizeEnum (default_param authority ''ENGINE'') = ''ENGINE''"

text \<open>The event a call carries: \<open>NOOP\<close> where it is unknown or lacks the authority.\<close>

definition position_event :: "jsval \<times> jsval \<Rightarrow> position_command" where
  "position_event call = (case map_of POSITION_EVENTS_V1 (normalizeEnum (default_param (fst call) ''NOOP'')) of
     Some e \<Rightarrow> if e \<in> set ENGINE_ONLY_EVENTS \<and> \<not> from_engine (snd call) then NOOP else e
   | None \<Rightarrow> NOOP)"

definition position_after :: "position_state \<Rightarrow> jsval \<times> jsval \<Rightarrow> position_state" where
  "position_after s call =
     (case next_state (transitionPositionStateV1 (Str (position_name s)) (fst call) (snd call)) of
        Some t \<Rightarrow> t | None \<Rightarrow> s)"

definition position_apply :: "position_state \<Rightarrow> (jsval \<times> jsval) list \<Rightarrow> position_state" where
  "position_apply s calls = foldl position_after s calls"

lemma position_after_step: "position_after s call = po.step s (position_event call)"
  using po.final_frozen[of s]
  by (auto simp: position_after_def transitionPositionStateV1_def Let_def po.parse_name position_event_def
      position_result_def po.step_def po.table_noop from_engine_def split: option.split)

lemma position_apply_run: "position_apply s calls = po.run s (List.map position_event calls)"
  by (induction calls arbitrary: s) (simp_all add: position_apply_def position_after_step)

lemma position_event_engine_only:
  "position_event call \<in> set ENGINE_ONLY_EVENTS \<Longrightarrow> from_engine (snd call)"
  by (auto simp: position_event_def ENGINE_ONLY_EVENTS_def split: option.splits if_splits)

lemma position_event_name:
  "position_event call = e \<Longrightarrow> e \<noteq> NOOP \<Longrightarrow>
     map_of POSITION_EVENTS_V1 (normalizeEnum (default_param (fst call) ''NOOP'')) = Some e"
  by (auto simp: position_event_def split: option.splits if_splits)

definition exposed :: "position_state \<Rightarrow> bool" where
  "exposed s \<longleftrightarrow> s = OPEN \<or> s = PROTECTED \<or> s = PARTIAL_TAKEN"

lemma position_becomes_exposed:
  "\<not> exposed s \<Longrightarrow> position_TRANSITIONS s e = Some t \<Longrightarrow> exposed t \<Longrightarrow>
     e = RECONCILIATION_RECOVERED \<or> (s = PENDING_SUBMISSION \<and> e = FILL_CONFIRMED)"
  by (cases s) (auto simp: exposed_def split: position_command.splits)

text \<open>
  C3. Market exposure needs a fill confirmed by the engine: if calls that never report a
  reconciliation bring a flat position to \<open>OPEN\<close>, \<open>PROTECTED\<close> or \<open>PARTIAL_TAKEN\<close>, one of them
  is a \<open>FILL_CONFIRMED\<close> sent under the engine's authority while the submission was pending.
\<close>

theorem position_exposure_needs_engine_fill:
  assumes "\<not> exposed s" and "exposed (position_apply s calls)"
    and "\<forall>call \<in> set calls. position_event call \<noteq> RECONCILIATION_RECOVERED"
  shows "\<exists>before event authority after. calls = before @ (event, authority) # after
           \<and> position_apply s before = PENDING_SUBMISSION
           \<and> normalizeEnum event = ''FILL_CONFIRMED'' \<and> from_engine authority"
proof -
  obtain ds e es where run: "List.map position_event calls = ds @ e # es" "\<not> exposed (po.run s ds)"
      "position_TRANSITIONS (po.run s ds) e = Some (po.run s (ds @ [e]))" "exposed (po.run s (ds @ [e]))"
    using po.run_enters[of exposed s "List.map position_event calls"] assms(1,2)
    by (auto simp: position_apply_run)
  from run(1) obtain before call after where calls: "calls = before @ call # after"
      "List.map position_event before = ds" "position_event call = e"
    by (auto simp: map_eq_append_conv map_eq_Cons_conv)
  with position_becomes_exposed[OF run(2-4)] assms(3)
  have fill: "po.run s ds = PENDING_SUBMISSION" "e = FILL_CONFIRMED" by auto
  have "map_of POSITION_EVENTS_V1 (normalizeEnum (default_param (fst call) ''NOOP'')) = Some FILL_CONFIRMED"
    using position_event_name[OF calls(3)] fill by simp
  then have "normalizeEnum (fst call) = ''FILL_CONFIRMED''"
    by (auto simp: POSITION_EVENTS_V1_def default_param_def split: if_splits) (code_simp+)?
  moreover have "from_engine (snd call)"
    using position_event_engine_only[of call] calls(3) fill by (simp add: ENGINE_ONLY_EVENTS_def)
  ultimately show ?thesis using calls fill
    by (intro exI[of _ before] exI[of _ "fst call"] exI[of _ "snd call"] exI[of _ after])
       (simp add: position_apply_run)
qed

theorem position_exposure_needs_engine_fill_witness:
  "\<exists>before event authority after.
     [(Str ''SUBMISSION_ACCEPTED'', Str ''ENGINE''), (Str ''FILL_CONFIRMED'', Str ''GPT''),
      (Str ''FILL_CONFIRMED'', Str ''ENGINE'')] = before @ (event, authority) # after
     \<and> position_apply NONE before = PENDING_SUBMISSION
     \<and> normalizeEnum event = ''FILL_CONFIRMED'' \<and> from_engine authority"
  by (rule position_exposure_needs_engine_fill) (simp add: exposed_def, code_simp, code_simp)

text \<open>
  What a caller without the engine's authority can do: its calls leave the position where it
  was, in review, or in \<open>OPEN\<close>; in particular it can never protect, close, stop or cancel one.
\<close>

theorem position_without_engine:
  assumes "\<forall>call \<in> set calls. \<not> from_engine (snd call)"
  shows "position_apply s calls \<in> {s, REVIEW_REQUIRED, OPEN}"
proof -
  have "position_event call \<notin> set ENGINE_ONLY_EVENTS" if "call \<in> set calls" for call
    using position_event_engine_only assms that by blast
  then have "set (List.map position_event calls) \<inter> set ENGINE_ONLY_EVENTS = {}" by auto
  moreover have "po.run u es \<in> {u, REVIEW_REQUIRED, OPEN}"
    if "set es \<inter> set ENGINE_ONLY_EVENTS = {}" for u es
    using that
  proof (induction es arbitrary: u)
    case (Cons e es)
    then have "po.step u e \<in> {u, REVIEW_REQUIRED, OPEN}"
      by (cases u; cases e) (simp_all add: po.step_def ENGINE_ONLY_EVENTS_def)
    with Cons show ?case by fastforce
  qed simp
  ultimately show ?thesis by (simp add: position_apply_run)
qed

theorem position_without_engine_witness:
  "position_apply PROTECTED [(Str ''CLOSE_CONFIRMED'', Str ''GPT''), (Str ''MARK_REVIEW_REQUIRED'', Str ''GPT'')]
     \<in> {PROTECTED, REVIEW_REQUIRED, OPEN}"
  by (rule position_without_engine) (simp add: from_engine_def, code_simp)

lemma position_events_eval:
  "map_of POSITION_EVENTS_V1 (normalizeEnum (Str ''MARK_REVIEW_REQUIRED'')) = Some MARK_REVIEW_REQUIRED"
  "map_of POSITION_EVENTS_V1 (normalizeEnum (Str ''RECONCILIATION_RECOVERED'')) = Some RECONCILIATION_RECOVERED"
  by code_simp+

text \<open>
  Yet \<open>OPEN\<close> is within reach of any caller: the events \<open>MARK_REVIEW_REQUIRED\<close> and
  \<open>RECONCILIATION_RECOVERED\<close> are not reserved to the engine, so two calls under any authority
  open a position that was never submitted or filled, and take the protection off a protected one.
\<close>

theorem position_opened_by_anyone:
  assumes "\<not> position_terminal s" and "s \<noteq> REVIEW_REQUIRED"
  shows "position_apply s [(Str ''MARK_REVIEW_REQUIRED'', a), (Str ''RECONCILIATION_RECOVERED'', b)] = OPEN"
proof -
  have "position_event (Str ''MARK_REVIEW_REQUIRED'', a) = MARK_REVIEW_REQUIRED"
       "position_event (Str ''RECONCILIATION_RECOVERED'', b) = RECONCILIATION_RECOVERED"
    by (simp_all add: position_event_def position_events_eval ENGINE_ONLY_EVENTS_def)
  then show ?thesis
    using assms by (cases s) (simp_all add: position_apply_run po.step_def position_terminal_def)
qed

theorem position_opened_by_anyone_witness:
  "position_apply NONE [(Str ''MARK_REVIEW_REQUIRED'', Str ''GPT''),
                        (Str ''RECONCILIATION_RECOVERED'', Str ''GPT'')] = OPEN"
  by (rule position_opened_by_anyone) (simp_all add: position_terminal_def)

end
