(* ===== verification/Predicate_Registry.thy ===== *)
theory Predicate_Registry
  imports Break_Retest
begin

text \<open>
  The entry points of \<open>packages/desk-domain/src/deterministic-predicate-registry-v1.js\<close>: the evaluation of one
  condition, with its validity, its scope and what is remembered of earlier evaluations, and of a set of
  conditions, with the counts and the score the opportunity policy reads.
\<close>

section \<open>One condition\<close>

definition PREDICATE_TYPES_V1 :: "string list" where
  "PREDICATE_TYPES_V1 = [''PRICE_RELATION'', ''PRICE_CROSS'', ''ZONE_TOUCH'', ''BREAKOUT_CLOSE'', ''BREAK_RETEST_SEQUENCE'',
     ''REJECTION_PATTERN'', ''VWAP_RELATION'', ''RSI_THRESHOLD'', ''TIME_WINDOW'', ''INTERMARKET_CONFIRMATION'', ''EVENT_BLACKOUT'']"

definition predicate_evaluator :: "host \<Rightarrow> string \<Rightarrow> jsval \<Rightarrow> jsval list \<Rightarrow> jsval \<Rightarrow> js_error + jsobj" where
  "predicate_evaluator H type condition rows previous =
     (if type = ''PRICE_RELATION'' then Inr (evaluatePriceRelation condition rows)
      else if type = ''PRICE_CROSS'' then Inr (evaluatePriceCross condition rows)
      else if type = ''ZONE_TOUCH'' then Inr (evaluateZoneTouch condition rows)
      else if type = ''BREAKOUT_CLOSE'' then Inr (evaluateBreakoutClose condition rows)
      else if type = ''BREAK_RETEST_SEQUENCE'' then Inr (evaluateBreakRetestSequence H condition rows previous)
      else if type = ''REJECTION_PATTERN'' then Inr (evaluateRejectionPattern condition rows)
      else if type = ''VWAP_RELATION'' then Inr (evaluateVwapRelation condition rows)
      else if type = ''RSI_THRESHOLD'' then Inr (evaluateRsiThreshold condition rows)
      else if type = ''TIME_WINDOW'' then evaluateTimeWindow H condition rows
      else if type = ''INTERMARKET_CONFIRMATION'' then Inr (evaluateIntermarketConfirmation condition rows)
      else Inr (evaluateEventBlackout H condition rows))"

definition predicateResult :: "jsval \<Rightarrow> string \<Rightarrow> jsobj \<Rightarrow> jsobj" where
  "predicateResult condition st details =
     (let of_condition = (\<lambda>k. (k, get condition k)); or_null = (\<lambda>k. (k, js_or (fget details k) Null))
      in [(''schema_version'', Str ''predicate_evaluation_v1''), of_condition ''condition_id'', of_condition ''predicate_type'',
          of_condition ''role'', of_condition ''effect'', of_condition ''importance'', of_condition ''required_for_trigger'',
          of_condition ''memory_policy'', of_condition ''weight'', of_condition ''sequence'',
          (''atomic_component'', Bool (get condition ''atomic_component'' = Bool True)),
          (''subsumed_by_condition_id'', js_or (get condition ''subsumed_by_condition_id'') Null),
          of_condition ''instrument'', of_condition ''timeframe'', (''state'', Str st),
          (''predicate_true'', Bool (fget details ''predicate_true'' = Bool True \<or> fget details ''matched'' = Bool True)),
          or_null ''observed_at_paris'', (''observed_value'', js_coalesce (fget details ''observed_value'') Null),
          or_null ''last_evaluated_at_paris'', or_null ''reason'', or_null ''machine_state'', or_null ''break_at_paris'',
          or_null ''retest_at_paris'', (''bars_since_break'', js_coalesce (fget details ''bars_since_break'') Null),
          (''evidence'', js_or (fget details ''evidence'') (Obj []))])"

definition row_in_scope :: "host \<Rightarrow> jsval \<Rightarrow> int option \<Rightarrow> jsval \<Rightarrow> bool" where
  "row_in_scope H condition validFromMs row \<longleftrightarrow>
     (let rowInstrument = normalizeEnum (js_or (get row ''instrument'') (js_or (get row ''symbol'') (get row ''contract'')));
          rowTimeframe = normalizeEnum (js_or (get row ''timeframe'') (get row ''interval''))
      in \<not> (cd_text condition ''instrument'' \<noteq> [] \<and> rowInstrument \<noteq> [] \<and> rowInstrument \<noteq> cd_text condition ''instrument'')
       \<and> \<not> (cd_text condition ''timeframe'' \<noteq> [] \<and> rowTimeframe \<noteq> [] \<and> rowTimeframe \<noteq> cd_text condition ''timeframe'')
       \<and> (if cd_text condition ''predicate_type'' = ''EVENT_BLACKOUT'' then isReservedMacroEventRow row
          else case validFromMs of None \<Rightarrow> True
            | Some v \<Rightarrow> (case row_ms H row of Some t \<Rightarrow> v \<le> t | None \<Rightarrow> False)))"

fun object_like :: "jsval \<Rightarrow> bool" where
  "object_like (Obj _) = True"
| "object_like (Arr _) = True"
| "object_like _ = False"

definition predicate_rows :: "host \<Rightarrow> jsval list \<Rightarrow> jsval \<Rightarrow> int option \<Rightarrow> jsval list" where
  "predicate_rows H rows condition validFromMs =
     js_sort (\<lambda>l r. ms_of_row H r < ms_of_row H l) (filter (row_in_scope H condition validFromMs) (filter object_like rows))"

text \<open>The loop of \<open>predicateLastEvaluatedAt\<close>: the latest complete closed row, if later than the value so far.\<close>

fun latest_evaluated :: "host \<Rightarrow> jsval list \<Rightarrow> jsval \<Rightarrow> jsval" where
  "latest_evaluated H [] latestValue = latestValue"
| "latest_evaluated H (row # rows) latestValue =
     latest_evaluated H rows
       (if complete_row row \<and> (case (row_ms H row, parseTimestamp H latestValue) of
            (None, _) \<Rightarrow> False | (Some t, Some l) \<Rightarrow> l < t | (Some t, None) \<Rightarrow> True)
        then rowTimestamp row else latestValue)"

definition predicateLastEvaluatedAt :: "host \<Rightarrow> string \<Rightarrow> jsval list \<Rightarrow> jsval \<Rightarrow> jsval \<Rightarrow> jsval" where
  "predicateLastEvaluatedAt H type rows previousState nowParis =
     (if type \<noteq> ''BREAK_RETEST_SEQUENCE'' then js_or (rowTimestamp (last_row rows)) nowParis
      else latest_evaluated H rows (js_or (get previousState ''last_evaluated_at_paris'') Null))"

definition evaluated_state :: "jsval \<Rightarrow> jsobj \<Rightarrow> string" where
  "evaluated_state condition raw =
     (let predicateTrue = (fget raw ''matched'' = Bool True);
          terminalBlocker = (predicateTrue \<and> get condition ''effect'' = Str ''BLOCK_IF_TRUE''
            \<and> get condition ''memory_policy'' = Str ''INVALIDATE_TERMINAL'')
      in if truthy (fget raw ''state'') then to_str (fget raw ''state'')
         else if terminalBlocker then ''INVALIDATED'' else if predicateTrue then ''SATISFIED'' else ''PENDING'')"

text \<open>
  What follows once the rows are chosen: \<open>condition\<close> is normalized, \<open>rows\<close> are in scope and in order, \<open>previous\<close> is an
  object.
\<close>

definition evaluate_on_rows :: "host \<Rightarrow> jsval \<Rightarrow> jsval list \<Rightarrow> jsval \<Rightarrow> jsval \<Rightarrow> js_error + jsobj" where
  "evaluate_on_rows H condition rows previous nowParis =
     (let type = cd_text condition ''predicate_type'';
          scope = (\<lambda>n. [(''instrument'', get condition ''instrument''), (''timeframe'', get condition ''timeframe''),
            (''source_row_count'', Num (Fin (of_nat n)))])
      in if rows = [] then Inr (predicateResult condition ''UNKNOWN'' [(''reason'', Str ''CONDITION_DATA_UNAVAILABLE''),
              (''last_evaluated_at_paris'', nowParis), (''evidence'', Obj (scope 0))])
         else and_then (predicate_evaluator H type condition rows previous) (\<lambda>raw.
           Inr (predicateResult condition (evaluated_state condition raw) (spread raw [(''predicate_true'', Bool (fget raw ''matched'' = Bool True)),
                (''last_evaluated_at_paris'', predicateLastEvaluatedAt H type rows previous nowParis),
                (''evidence'', Obj (spread (scope (length rows)) (obj_or_empty (fget raw ''evidence''))))]))))"

definition latched :: "jsval \<Rightarrow> jsval \<Rightarrow> string \<Rightarrow> string \<Rightarrow> jsobj" where
  "latched previous condition st why = spread (obj_or_empty previous)
     [(''condition_id'', get condition ''condition_id''), (''predicate_type'', get condition ''predicate_type''),
      (''state'', Str st), (''reason'', Str why)]"

definition evaluateDeterministicPredicateV1 ::
  "host \<Rightarrow> jsval \<Rightarrow> jsval list \<Rightarrow> jsval \<Rightarrow> jsval \<Rightarrow> jsval \<Rightarrow> js_error + jsobj" where
  "evaluateDeterministicPredicateV1 H given rows previousState validFromParis nowParis =
     (let condition = normalizeCondition given 0;
          previous = (if object_like previousState then previousState else Obj []);
          nowMs = parseTimestamp H nowParis;
          validFromMs = parseTimestamp H (js_or validFromParis (get condition ''valid_from_paris''));
          expiresAtMs = parseTimestamp H (get condition ''expires_at_paris'')
      in if cd_text condition ''predicate_type'' \<notin> set PREDICATE_TYPES_V1
         then Inr (predicateResult condition ''UNKNOWN'' [(''reason'', Str ''PREDICATE_TYPE_UNSUPPORTED'')])
         else if get previous ''state'' = Str ''INVALIDATED'' \<and> get condition ''memory_policy'' = Str ''INVALIDATE_TERMINAL''
         then Inr (latched previous condition ''INVALIDATED'' ''TERMINAL_INVALIDATION_LATCHED'')
         else if get previous ''state'' = Str ''SATISFIED'' \<and> get condition ''memory_policy'' = Str ''LATCH_UNTIL_TRIGGER''
         then Inr (latched previous condition ''SATISFIED'' ''SATISFACTION_LATCHED'')
         else if (case (nowMs, expiresAtMs) of (Some n, Some e) \<Rightarrow> e \<le> n | _ \<Rightarrow> False)
         then Inr (predicateResult condition ''EXPIRED'' [(''reason'', Str ''CONDITION_EXPIRED''), (''last_evaluated_at_paris'', nowParis)])
         else if (case (nowMs, validFromMs) of (Some n, Some v) \<Rightarrow> n < v | _ \<Rightarrow> False)
         then Inr (predicateResult condition ''NOT_STARTED'' [(''reason'', Str ''CONDITION_NOT_STARTED''), (''last_evaluated_at_paris'', nowParis)])
         else evaluate_on_rows H condition (predicate_rows H rows condition validFromMs) previous nowParis)"

section \<open>A set of conditions\<close>

definition isBlockingCondition :: "jsval \<Rightarrow> bool" where
  "isBlockingCondition r \<longleftrightarrow> get r ''effect'' = Str ''BLOCK_IF_TRUE'' \<or> named (get r ''role'') [''VETO'', ''INVALIDATION'']
     \<or> get r ''importance'' = Str ''HARD_BLOCKER''"

definition isRequiredStructuralCondition :: "jsval \<Rightarrow> bool" where
  "isRequiredStructuralCondition r \<longleftrightarrow> \<not> isBlockingCondition r
     \<and> (get r ''required_for_trigger'' = Bool True \<or> get r ''role'' = Str ''ACTIVATION'' \<or> get r ''importance'' = Str ''MANDATORY'')"

definition rowsForCondition :: "jsval \<Rightarrow> jsval \<Rightarrow> jsval \<Rightarrow> string \<Rightarrow> jsval" where
  "rowsForCondition condition rows rowsByInstrument setup_instrument =
     (let own = cd_text condition ''instrument''; instrument = (if own \<noteq> [] then own else setup_instrument)
      in if object_like rowsByInstrument
         then js_or (get rowsByInstrument instrument) (js_or (get rowsByInstrument (to_lower instrument)) (Arr []))
         else if own = [] \<or> own = setup_instrument then rows else Arr [])"

text \<open>\<open>left.sequence - right.sequence || left.condition_id.localeCompare(right.condition_id)\<close> is positive.\<close>

definition sequence_after :: "host \<Rightarrow> jsval \<Rightarrow> jsval \<Rightarrow> bool" where
  "sequence_after H l r =
     (let d = jsub (to_num (get l ''sequence'')) (to_num (get r ''sequence''))
      in if truthy (Num d) then jlt (Fin 0) d else 0 < locale_compare H (to_str (get l ''condition_id'')) (to_str (get r ''condition_id'')))"

definition has_sequence :: "jsval \<Rightarrow> bool" where
  "has_sequence r \<longleftrightarrow> (case get r ''sequence'' of Num n \<Rightarrow> is_integer n \<and> jlt (Fin 0) n | _ \<Rightarrow> False)"

text \<open>The loop: what violates the order, given whether all before were satisfied and when the last of them was observed.\<close>

fun sequence_violations :: "host \<Rightarrow> bool \<Rightarrow> int option \<Rightarrow> jsval list \<Rightarrow> jsval list" where
  "sequence_violations H priorSatisfied previousObservedAt [] = []"
| "sequence_violations H priorSatisfied previousObservedAt (r # rs) =
     (if get r ''state'' \<noteq> Str ''SATISFIED'' then sequence_violations H False previousObservedAt rs
      else case parseTimestamp H (get r ''observed_at_paris'') of
          None \<Rightarrow> get r ''condition_id'' # sequence_violations H priorSatisfied previousObservedAt rs
        | Some observedAt \<Rightarrow>
            if \<not> priorSatisfied \<or> (case previousObservedAt of Some p \<Rightarrow> observedAt \<le> p | None \<Rightarrow> False)
            then get r ''condition_id'' # sequence_violations H priorSatisfied previousObservedAt rs
            else sequence_violations H priorSatisfied (Some observedAt) rs)"

definition evaluateExplicitSequence :: "host \<Rightarrow> jsval list \<Rightarrow> jsval list" where
  "evaluateExplicitSequence H results =
     (let sequenced = js_sort (sequence_after H) (filter has_sequence results)
      in if length sequenced < 2 then [] else sequence_violations H True None sequenced)"

definition ids_of :: "jsval list \<Rightarrow> jsval" where
  "ids_of rs = Arr (List.map (\<lambda>r. get r ''condition_id'') rs)"

text \<open>\<open>a + b\<close>: strings, and what becomes a string, are put together; the rest is added. A weight read back from a previous
  result need not be a number.\<close>

definition string_like :: "jsval \<Rightarrow> bool" where
  "string_like v \<longleftrightarrow> (case v of Str _ \<Rightarrow> True | Arr _ \<Rightarrow> True | Obj _ \<Rightarrow> True | _ \<Rightarrow> False)"

definition js_plus :: "jsval \<Rightarrow> jsval \<Rightarrow> jsval" where
  "js_plus a b = (if string_like a \<or> string_like b then Str (to_str a @ to_str b) else Num (jadd (to_num a) (to_num b)))"

definition weight_sum :: "jsval list \<Rightarrow> jsval" where
  "weight_sum rs = foldl (\<lambda>acc r. js_plus acc (get r ''weight'')) (Num (Fin 0)) rs"

definition score_ratio :: "jsval \<Rightarrow> jsval \<Rightarrow> jsval" where
  "score_ratio part whole = (if jlt (Fin 0) (to_num whole) then Num (round_digits (jdiv (to_num part) (to_num whole)) 4) else Null)"

definition in_state :: "string list \<Rightarrow> jsval \<Rightarrow> bool" where
  "in_state names r = named (get r ''state'') names"

definition scoreable :: "jsval \<Rightarrow> bool" where
  "scoreable r \<longleftrightarrow> named (get r ''importance'') [''PRIMARY'', ''SECONDARY''] \<and> jlt (Fin 0) (num_or_zero (get r ''weight''))"

definition observed_times :: "host \<Rightarrow> jsval list \<Rightarrow> int list" where
  "observed_times H results = List.map_filter (\<lambda>r. parseTimestamp H (get r ''observed_at_paris''))
     (filter (\<lambda>r. isRequiredStructuralCondition r \<or> named (get r ''importance'') [''PRIMARY'', ''SECONDARY''])
       (filter (in_state [''SATISFIED'']) results))"

definition confirmation_complete_at :: "host \<Rightarrow> jsval list \<Rightarrow> js_error + jsval" where
  "confirmation_complete_at H results =
     (case observed_times H results of [] \<Rightarrow> Inr Null
      | t # ts \<Rightarrow> (case to_iso (foldl max t ts) of Some s \<Rightarrow> Inr (Str s) | None \<Rightarrow> Inl (RangeError ''Invalid time value'')))"

definition condition_set_summary :: "host \<Rightarrow> jsval list \<Rightarrow> jsval \<Rightarrow> jsobj" where
  "condition_set_summary H results completeAt =
     (let blockers = filter isBlockingCondition results;
          active = filter (in_state [''SATISFIED'', ''INVALIDATED'']) blockers;
          unknownBlockers = filter (in_state [''UNKNOWN'']) blockers;
          required = filter isRequiredStructuralCondition results;
          failed = filter (in_state [''FAILED'', ''INVALIDATED'', ''EXPIRED'']) required;
          unknown_required = filter (in_state [''UNKNOWN'']) required;
          notStarted = filter (in_state [''NOT_STARTED'']) required;
          pending = filter (in_state [''PENDING'']) required;
          scored = filter scoreable results;
          known = filter (\<lambda>r. \<not> in_state [''UNKNOWN''] r) scored;
          configuredWeight = weight_sum scored; knownWeight = weight_sum known;
          satisfiedWeight = weight_sum (filter (in_state [''SATISFIED'']) known);
          primary = filter (\<lambda>r. get r ''importance'' = Str ''PRIMARY'') scored;
          primaryKnown = filter (\<lambda>r. \<not> in_state [''UNKNOWN''] r) primary;
          violations = evaluateExplicitSequence H results
      in [(''schema_version'', Str ''condition_set_evaluation_v1''), (''results'', Arr results),
          (''hard_blockers_active'', js_count active), (''hard_blocker_condition_ids'', ids_of active),
          (''hard_blockers_unknown'', js_count unknownBlockers), (''hard_blocker_unknown_condition_ids'', ids_of unknownBlockers),
          (''required_total'', js_count required), (''required_satisfied'', js_count (filter (in_state [''SATISFIED'']) required)),
          (''required_failed'', js_count failed), (''required_failed_condition_ids'', ids_of failed),
          (''required_unknown'', js_count unknown_required), (''required_unknown_condition_ids'', ids_of unknown_required),
          (''required_not_started'', js_count notStarted), (''required_not_started_condition_ids'', ids_of notStarted),
          (''required_pending'', js_count pending), (''required_pending_condition_ids'', ids_of pending),
          (''scored_confirmation_count'', js_count known), (''configured_confirmation_count'', js_count scored),
          (''weighted_confirmation_score'', score_ratio satisfiedWeight configuredWeight),
          (''weighted_known_confirmation_score'', score_ratio satisfiedWeight knownWeight),
          (''known_confirmation_coverage_ratio'', score_ratio knownWeight configuredWeight),
          (''score_weight_satisfied'', satisfiedWeight), (''score_weight_known'', knownWeight),
          (''score_weight_total'', configuredWeight),
          (''primary_confirmation_total'', js_count primary), (''primary_confirmation_known'', js_count primaryKnown),
          (''primary_confirmation_satisfied'', js_count (filter (in_state [''SATISFIED'']) primaryKnown)),
          (''soft_unknown_condition_ids'', ids_of (filter (in_state [''UNKNOWN'']) scored)),
          (''sequence_valid'', Bool (violations = [])), (''sequence_violation_condition_ids'', Arr violations),
          (''confirmation_complete_at_paris'', completeAt)])"

text \<open>The parameters of the call, with their defaults.\<close>

definition set_conditions :: "jsval \<Rightarrow> jsval list" where
  "set_conditions input = List.map (\<lambda>(index, c). normalizeCondition c index) (enumerate 0 (arr_or_empty (get input ''conditions'')))"

definition evaluate_condition :: "host \<Rightarrow> jsval \<Rightarrow> jsval \<Rightarrow> js_error + jsval" where
  "evaluate_condition H input condition =
     (let setup = get input ''setup'';
          rows = rowsForCondition condition (get input ''rows'') (get input ''rowsByInstrument'') (normalizeEnum (get setup ''instrument''))
      in and_then (evaluateDeterministicPredicateV1 H condition (arr_or_empty rows)
             (js_or (get (get input ''previousStates'') (cd_text condition ''condition_id'')) Null)
             (js_or (get setup ''valid_from_paris'') (js_or (get setup ''valid_from'') Null)) (get input ''nowParis''))
           (\<lambda>r. Inr (Obj r)))"

definition evaluateDeterministicConditionSetV1 :: "host \<Rightarrow> jsval \<Rightarrow> js_error + jsobj" where
  "evaluateDeterministicConditionSetV1 H input =
     and_then (map_throwing (evaluate_condition H input) (set_conditions input)) (\<lambda>results.
       and_then (confirmation_complete_at H results) (\<lambda>completeAt. Inr (condition_set_summary H results completeAt)))"

section \<open>Evaluating as the rows come in\<close>

lemma predicateResult_fields:
  "fget (predicateResult c st d) ''state'' = Str st"
  "fget (predicateResult c st d) ''machine_state'' = js_or (fget d ''machine_state'') Null"
  "fget (predicateResult c st d) ''break_at_paris'' = js_or (fget d ''break_at_paris'') Null"
  "fget (predicateResult c st d) ''retest_at_paris'' = js_or (fget d ''retest_at_paris'') Null"
  "fget (predicateResult c st d) ''observed_at_paris'' = js_or (fget d ''observed_at_paris'') Null"
  "fget (predicateResult c st d) ''last_evaluated_at_paris'' = js_or (fget d ''last_evaluated_at_paris'') Null"
  "fget (predicateResult c st d) ''bars_since_break'' = js_coalesce (fget d ''bars_since_break'') Null"
  "fget (predicateResult c st d) ''break_row_index'' = Undef"
  by (simp_all add: predicateResult_def Let_def)

text \<open>
  A watched sequence: the condition is a break/retest sequence that latches, valid at \<open>nowParis\<close>, and \<open>rows\<close>, not
  none, are all in its scope and in order.
\<close>

definition watching :: "host \<Rightarrow> jsval \<Rightarrow> jsval \<Rightarrow> jsval list \<Rightarrow> jsval \<Rightarrow> bool" where
  "watching H given validFromParis rows nowParis \<longleftrightarrow>
     (let condition = normalizeCondition given 0;
          nowMs = parseTimestamp H nowParis;
          validFromMs = parseTimestamp H (js_or validFromParis (get condition ''valid_from_paris''));
          expiresAtMs = parseTimestamp H (get condition ''expires_at_paris'')
      in cd_text condition ''predicate_type'' = ''BREAK_RETEST_SEQUENCE''
       \<and> get condition ''memory_policy'' = Str ''LATCH_UNTIL_TRIGGER''
       \<and> (case (nowMs, expiresAtMs) of (Some n, Some e) \<Rightarrow> n < e | _ \<Rightarrow> True)
       \<and> (case (nowMs, validFromMs) of (Some n, Some v) \<Rightarrow> v \<le> n | _ \<Rightarrow> True)
       \<and> predicate_rows H rows condition validFromMs = rows \<and> rows \<noteq> [])"

lemma watching_evaluation:
  assumes "watching H given validFromParis rows nowParis"
  shows "evaluateDeterministicPredicateV1 H given rows previousState validFromParis nowParis =
    (let previous = (if object_like previousState then previousState else Obj []) in
     if get previous ''state'' = Str ''SATISFIED''
     then Inr (latched previous (normalizeCondition given 0) ''SATISFIED'' ''SATISFACTION_LATCHED'')
     else evaluate_on_rows H (normalizeCondition given 0) rows previous nowParis)"
proof -
  have "''BREAK_RETEST_SEQUENCE'' \<in> set PREDICATE_TYPES_V1" by (simp add: PREDICATE_TYPES_V1_def)
  then show ?thesis
    using assms unfolding evaluateDeterministicPredicateV1_def watching_def Let_def
    by (simp add: not_le[symmetric] split: option.splits)
qed

lemma sequence_on_rows:
  assumes "cd_text c ''predicate_type'' = ''BREAK_RETEST_SEQUENCE''" and "rows \<noteq> []"
    and "truthy (fget (evaluateBreakRetestSequence H c rows previous) ''state'')"
  shows "evaluate_on_rows H c rows previous nowParis =
    (let raw = evaluateBreakRetestSequence H c rows previous in
     Inr (predicateResult c (to_str (fget raw ''state'')) (spread raw
       [(''predicate_true'', Bool (fget raw ''matched'' = Bool True)),
        (''last_evaluated_at_paris'', latest_evaluated H rows (js_or (get previous ''last_evaluated_at_paris'') Null)),
        (''evidence'', Obj (spread [(''instrument'', get c ''instrument''), (''timeframe'', get c ''timeframe''),
            (''source_row_count'', Num (Fin (of_nat (length rows))))] (obj_or_empty (fget raw ''evidence''))))])))"
  using assms by (simp add: evaluate_on_rows_def predicate_evaluator_def predicateLastEvaluatedAt_def evaluated_state_def Let_def)

lemma latest_evaluated_last:
  assumes "bars_in_order H rows" and "rows \<noteq> []"
    and "\<And>t row. parseTimestamp H v = Some t \<Longrightarrow> row \<in> set rows \<Longrightarrow> t < ms_of_row H row"
  shows "latest_evaluated H rows v = rowTimestamp (last rows)"
  using assms
proof (induction rows arbitrary: v)
  case (Cons row rows)
  have t: "row_ms H row = Some (ms_of_row H row)" using Cons.prems(1) bars_in_order_ms[of H "row # rows" row] by simp
  then have new: "latest_evaluated H (row # rows) v = latest_evaluated H rows (rowTimestamp row)"
    using Cons.prems(1) Cons.prems(3)[of _ row] by (auto split: option.splits)
  show ?case
  proof (cases "rows = []")
    case True
    then show ?thesis using new by simp
  next
    case False
    have "latest_evaluated H rows (rowTimestamp row) = rowTimestamp (last rows)"
      using Cons.prems(1) t by (intro Cons.IH False) (auto simp: row_ms_def)
    then show ?thesis using new False by simp
  qed
qed simp

text \<open>
  The result \<open>r\<close> tells how far the machine has come on \<open>rows\<close>: in progress, with its state and the last row; failed; or
  satisfied, with the row that confirms.
\<close>

definition represents :: "host \<Rightarrow> seq_params \<Rightarrow> jsval list \<Rightarrow> jsobj \<Rightarrow> bool" where
  "represents H P rows r \<longleftrightarrow>
     (case seq_run H P 0 rows fresh_state of
        (st, None) \<Rightarrow> fget r ''state'' = Str ''PENDING'' \<and> fget r ''machine_state'' = Str (sq_machine st)
          \<and> fget r ''break_at_paris'' = sq_break_at st \<and> fget r ''retest_at_paris'' = sq_retest_at st
          \<and> fget r ''bars_since_break'' = Num (sq_bars st) \<and> fget r ''last_evaluated_at_paris'' = rowTimestamp (last rows)
          \<and> fget r ''break_row_index'' = Undef
      | (st, Some (e, row)) \<Rightarrow>
          fget r ''state'' = Str (if confirmed_exit e then ''SATISFIED'' else ''FAILED'')
          \<and> fget r ''machine_state'' = Str (if confirmed_exit e then ''SATISFIED'' else ''FAILED_MAX_BARS'')
          \<and> fget r ''break_at_paris'' = sq_break_at st \<and> fget r ''bars_since_break'' = Num (sq_bars st)
          \<and> (confirmed_exit e \<longrightarrow> fget r ''retest_at_paris'' = sq_retest_at st \<and> fget r ''observed_at_paris'' = rowTimestamp row))"

lemma fget_spread [simp]:
  "fget (spread fs []) k = fget fs k"
  "fget (spread fs ((k', v) # gs)) k = fget (spread (fset k' v fs) gs) k"
  by (simp_all add: spread_def)

text \<open>What the machine says on new rows, from a state that differs at most in the index of the break.\<close>

definition sequence_verdict :: "seq_params \<Rightarrow> seq_state \<times> (seq_exit \<times> jsval) option \<Rightarrow> jsobj" where
  "sequence_verdict P v = (case v of (st, Some (e, row)) \<Rightarrow> exit_result P st e row | (st, None) \<Rightarrow> pending_result P st)"

lemma sequence_verdict_state:
  "fget (sequence_verdict P v) ''state'' \<in> {Str ''PENDING'', Str ''SATISFIED'', Str ''FAILED''}"
  by (auto simp: sequence_verdict_def exit_result_fields pending_result_fields split: prod.split option.split)

lemma fget_break_index_unsaved: "fget (predicateResult c st d) ''break_row_index'' = Undef"
  by (rule predicateResult_fields)

lemma represents_verdict:
  assumes "seq_run H P 0 rows fresh_state = (st1, v)" and "forget st1 = forget st"
    and "v = None \<Longrightarrow> fget d ''last_evaluated_at_paris'' = rowTimestamp (last rows) \<and> sq_machine st1 \<noteq> []"
    and "\<And>k. k \<notin> {''predicate_true'', ''last_evaluated_at_paris'', ''evidence''} \<Longrightarrow> fget d k = fget (sequence_verdict P (st, v)) k"
  shows "represents H P rows (predicateResult c (to_str (fget (sequence_verdict P (st, v)) ''state'')) d)"
proof -
  have same: "sq_machine st = sq_machine st1" "sq_break_at st = sq_break_at st1" "sq_bars st = sq_bars st1" "sq_retest_at st = sq_retest_at st1"
    using assms(2) by (cases st; cases st1; simp add: forget_def)+
  have "savable st1" using seq_run_savable[OF fresh_savable, of H P 0 rows] assms(1) by simp
  then have sav: "js_or (sq_break_at st1) Null = sq_break_at st1" "js_or (sq_retest_at st1) Null = sq_retest_at st1"
    by (simp_all add: savable_def)
  have fields: "fget d k = fget (sequence_verdict P (st, v)) k"
    if "k \<in> {''machine_state'', ''break_at_paris'', ''retest_at_paris'', ''bars_since_break'', ''observed_at_paris''}" for k
    using that by (intro assms(4)) auto
  show ?thesis
  proof (cases v)
    case None
    then show ?thesis
      using assms(3) same sav
      by (simp add: represents_def assms(1) predicateResult_fields fields sequence_verdict_def pending_result_fields
          rowTimestamp_savable js_coalesce_def)
  next
    case (Some er)
    then show ?thesis
      using same sav
      by (cases er) (simp add: represents_def assms(1) predicateResult_fields fields sequence_verdict_def exit_result_fields
          rowTimestamp_savable js_coalesce_def)
  qed
qed

text \<open>
  One evaluation of a watched sequence: \<open>xs\<close> are the rows already seen, \<open>st1\<close> where the machine stood after them, and
  the previous result carries that state over, up to the index of the break.
\<close>

lemma watched_evaluation:
  assumes "watching H given validFromParis ys nowParis" and "seq_params_of (normalizeCondition given 0) = Inr P"
    and "bars_in_order H (xs @ ys)" and "length (xs @ ys) \<le> 2 ^ 53"
    and "seq_run H P 0 xs fresh_state = (st1, None)"
    and "seq_state_of previous = forget st0" and "forget st0 = forget st1"
    and "object_like previous" and "named (get previous ''state'') [''SATISFIED'', ''FAILED''] = False"
    and "\<And>c y. causalCursorMs H previous (forget st0) = Some c \<Longrightarrow> y \<in> set ys \<Longrightarrow> c < ms_of_row H y"
    and "\<And>t y. parseTimestamp H (js_or (get previous ''last_evaluated_at_paris'') Null) = Some t \<Longrightarrow> y \<in> set ys \<Longrightarrow> t < ms_of_row H y"
  shows "\<exists>r. evaluateDeterministicPredicateV1 H given ys previous validFromParis nowParis = Inr r \<and> represents H P (xs @ ys) r"
proof -
  let ?c = "normalizeCondition given 0"
  have ys: "ys \<noteq> []" and type: "cd_text ?c ''predicate_type'' = ''BREAK_RETEST_SEQUENCE''"
    using assms(1) by (simp_all add: watching_def Let_def)
  have order: "bars_in_order H ys" using assms(3) by (simp add: bars_in_order_append)
  obtain st v where run: "seq_run H P 0 ys (forget st0) = (st, v)" by fastforce
  obtain st2 v2 where all: "seq_run H P 0 (xs @ ys) fresh_state = (st2, v2)" by fastforce
  have "map_prod forget id (seq_run H P 0 ys (forget st0)) = map_prod forget id (seq_run H P (length xs) ys st1)"
    by (rule seq_run_forget) (use assms(7) in simp)
  then have same: "forget st2 = forget st" "v2 = v"
    using all run by (auto simp: seq_run_append assms(5))
  have "causal_rows H (causalCursorMs H previous (forget st0)) {} ys = ys"
    by (rule causal_rows_all[OF order]) (use assms(10) in auto)
  then have raw: "evaluateBreakRetestSequence H ?c ys previous = sequence_verdict P (st, v)"
    using assms(9) run by (auto simp: evaluateBreakRetestSequence_def assms(2,6) sequence_verdict_def named_simps split: option.split)
  have t: "truthy (fget (sequence_verdict P (st, v)) ''state'')"
    using sequence_verdict_state[of P "(st, v)"] by auto
  have last: "latest_evaluated H ys (js_or (get previous ''last_evaluated_at_paris'') Null) = rowTimestamp (last (xs @ ys))"
    using latest_evaluated_last[OF order ys assms(11)] ys by simp
  have moved: "sq_machine st2 \<noteq> []" if "v2 = None"
    using run_fresh_inv[OF assms(2-4)] seq_at_machine all that by fastforce
  define d where "d = spread (sequence_verdict P (st, v))
       [(''predicate_true'', Bool (fget (sequence_verdict P (st, v)) ''matched'' = Bool True)),
        (''last_evaluated_at_paris'', rowTimestamp (last (xs @ ys))),
        (''evidence'', Obj (spread [(''instrument'', get ?c ''instrument''), (''timeframe'', get ?c ''timeframe''),
            (''source_row_count'', Num (Fin (of_nat (length ys))))] (obj_or_empty (fget (sequence_verdict P (st, v)) ''evidence''))))]"
  have "get previous ''state'' \<noteq> Str ''SATISFIED''" using assms(9) by (auto simp: named_simps)
  then have "evaluateDeterministicPredicateV1 H given ys previous validFromParis nowParis =
      Inr (predicateResult ?c (to_str (fget (sequence_verdict P (st, v)) ''state'')) d)"
    using assms(8) sequence_on_rows[OF type ys, of H previous nowParis] t
    by (simp add: watching_evaluation[OF assms(1)] raw last d_def Let_def)
  moreover have "represents H P (xs @ ys) (predicateResult ?c (to_str (fget (sequence_verdict P (st, v)) ''state'')) d)"
    by (rule represents_verdict[of H P "xs @ ys" st2 v st]) (use all same moved in \<open>auto simp: d_def\<close>)
  ultimately show ?thesis by blast
qed

lemma represents_first:
  assumes "watching H given validFromParis rows nowParis" and "seq_params_of (normalizeCondition given 0) = Inr P"
    and "bars_in_order H rows" and "length rows \<le> 2 ^ 53"
  shows "\<exists>r. evaluateDeterministicPredicateV1 H given rows Null validFromParis nowParis = Inr r \<and> represents H P rows r"
proof -
  have none: "causalCursorMs H (Obj []) fresh_state = None"
    by (simp add: causalCursorMs_def fresh_state_eq parseTimestamp_def)
  have forget: "fresh_state = forget fresh_state" by (simp add: fresh_state_eq forget_def)
  have "\<exists>r. evaluateDeterministicPredicateV1 H given rows (Obj []) validFromParis nowParis = Inr r \<and> represents H P ([] @ rows) r"
    using watched_evaluation[of H given validFromParis rows nowParis P "[]" fresh_state "Obj []" fresh_state, OF assms(1,2)]
      assms(3,4) none forget by (simp add: fresh_state_def[symmetric] parseTimestamp_def)
  then show ?thesis by (simp add: watching_evaluation[OF assms(1)])
qed

lemma represents_next:
  assumes "watching H given validFromParis ys nowParis" and "seq_params_of (normalizeCondition given 0) = Inr P"
    and "bars_in_order H (xs @ ys)" and "length (xs @ ys) \<le> 2 ^ 53" and "xs \<noteq> []" and "represents H P xs r"
  shows "\<exists>r'. evaluateDeterministicPredicateV1 H given ys (Obj r) validFromParis nowParis = Inr r' \<and> represents H P (xs @ ys) r'"
proof -
  obtain st1 v where run: "seq_run H P 0 xs fresh_state = (st1, v)" by fastforce
  have order: "bars_in_order H xs" "length xs \<le> 2 ^ 53" using assms(3,4) by (simp_all add: bars_in_order_append)
  have sav: "savable st1" using seq_run_savable[OF fresh_savable, of H P 0 xs] run by simp
  show ?thesis
  proof (cases v)
    case None
    have at: "seq_at P xs (length xs) st1" using run_fresh_inv[OF assms(2) order] run None by simp
    have r: "fget r ''state'' = Str ''PENDING''" "fget r ''machine_state'' = Str (sq_machine st1)" "fget r ''break_at_paris'' = sq_break_at st1"
      "fget r ''retest_at_paris'' = sq_retest_at st1" "fget r ''bars_since_break'' = Num (sq_bars st1)"
      "fget r ''last_evaluated_at_paris'' = rowTimestamp (last xs)" "fget r ''break_row_index'' = Undef"
      using assms(6) by (simp_all add: represents_def run None)
    have restored: "seq_state_of (Obj r) = forget st1"
      using seq_at_machine[OF at] r by (intro read_back[OF sav]) simp_all
    show ?thesis
    proof (rule watched_evaluation[OF assms(1-4), of st1 "Obj r" st1])
      show "seq_run H P 0 xs fresh_state = (st1, None)" using run None by simp
      show "c < ms_of_row H y" if "causalCursorMs H (Obj r) (forget st1) = Some c" "y \<in> set ys" for c y
        by (rule cursor_before[OF assms(3) at assms(5) _ that]) (simp add: r)
      show "t < ms_of_row H y"
        if "parseTimestamp H (js_or (get (Obj r) ''last_evaluated_at_paris'') Null) = Some t" "y \<in> set ys" for t y
        using that r(6) assms(3,5) bars_in_order_ms[OF order(1), of "last xs"]
        by (simp add: rowTimestamp_savable row_ms_def bars_in_order_append)
    qed (simp_all add: restored r)
  next
    case (Some er)
    then obtain e row where er: "v = Some (e, row)" by (cases er) auto
    have all: "seq_run H P 0 (xs @ ys) fresh_state = (st1, Some (e, row))" using run er by (simp add: seq_run_append)
    have r: "fget r ''state'' = Str (if confirmed_exit e then ''SATISFIED'' else ''FAILED'')"
      "fget r ''machine_state'' = Str (if confirmed_exit e then ''SATISFIED'' else ''FAILED_MAX_BARS'')"
      "fget r ''break_at_paris'' = sq_break_at st1" "fget r ''bars_since_break'' = Num (sq_bars st1)"
      using assms(6) by (simp_all add: represents_def run er split: if_splits)
    show ?thesis
    proof (cases "confirmed_exit e")
      case True
      then show ?thesis
        using r assms(6) by (simp add: watching_evaluation[OF assms(1)] latched_def represents_def run all er)
    next
      case False
      let ?c = "normalizeCondition given 0" and ?st = "seq_state_of (Obj r)"
      have st: "sq_machine ?st = ''FAILED_MAX_BARS''" "sq_break_at ?st = sq_break_at st1" "sq_bars ?st = sq_bars st1"
        using r False sav by (simp_all add: seq_state_of_def machine_names savable_def num_or_zero_Num)
      have raw: "evaluateBreakRetestSequence H ?c ys (Obj r) = latched_failure P (Obj r) ?st"
        using r False st(1) by (simp add: evaluateBreakRetestSequence_def assms(2) Let_def)
      have fields: "fget (latched_failure P (Obj r) ?st) ''state'' = Str ''FAILED''"
        "fget (latched_failure P (Obj r) ?st) ''machine_state'' = Str ''FAILED_MAX_BARS''"
        "fget (latched_failure P (Obj r) ?st) ''break_at_paris'' = sq_break_at st1"
        "fget (latched_failure P (Obj r) ?st) ''bars_since_break'' = Num (sq_bars st1)"
        by (simp_all add: latched_failure_def st)
      have ys: "ys \<noteq> []" and type: "cd_text ?c ''predicate_type'' = ''BREAK_RETEST_SEQUENCE''"
        using assms(1) by (simp_all add: watching_def Let_def)
      show ?thesis
        using r(1) False fields sequence_on_rows[OF type ys, of H "Obj r" nowParis] sav
        by (simp add: watching_evaluation[OF assms(1)] raw represents_def all predicateResult_fields savable_def js_coalesce_def Let_def)
    qed
  qed
qed

text \<open>The replay's way: the rows come in chunks, each evaluation gets the chunk and the result before.\<close>

fun feed :: "host \<Rightarrow> jsval \<Rightarrow> jsval \<Rightarrow> (jsval list \<times> jsval) list \<Rightarrow> jsval \<Rightarrow> js_error + jsval" where
  "feed H given validFromParis [] previous = Inr previous"
| "feed H given validFromParis ((rows, nowParis) # chunks) previous =
     and_then (evaluateDeterministicPredicateV1 H given rows previous validFromParis nowParis)
       (\<lambda>r. feed H given validFromParis chunks (Obj r))"

lemma feed_represents:
  assumes "seq_params_of (normalizeCondition given 0) = Inr P" and "xs \<noteq> []" and "represents H P xs r"
    and "list_all (\<lambda>(rows, now). watching H given validFromParis rows now) chunks"
    and "bars_in_order H (xs @ concat (List.map fst chunks))" and "length (xs @ concat (List.map fst chunks)) \<le> 2 ^ 53"
  shows "\<exists>r'. feed H given validFromParis chunks (Obj r) = Inr (Obj r') \<and> represents H P (xs @ concat (List.map fst chunks)) r'"
  using assms(2-)
proof (induction chunks arbitrary: xs r)
  case (Cons chunk chunks)
  obtain ys now where chunk: "chunk = (ys, now)" by fastforce
  obtain r1 where r1: "evaluateDeterministicPredicateV1 H given ys (Obj r) validFromParis now = Inr r1" "represents H P (xs @ ys) r1"
    using represents_next[OF _ assms(1), of H validFromParis ys now xs r] Cons.prems by (auto simp: chunk bars_in_order_append)
  obtain r' where "feed H given validFromParis chunks (Obj r1) = Inr (Obj r')"
    "represents H P ((xs @ ys) @ concat (List.map fst chunks)) r'"
    using Cons.IH[of "xs @ ys" r1] Cons.prems r1(2) by (auto simp: chunk)
  then show ?case using r1(1) by (simp add: chunk)
qed simp

text \<open>What two results have to agree on.\<close>

definition same_verdict :: "jsobj \<Rightarrow> jsobj \<Rightarrow> bool" where
  "same_verdict r r' \<longleftrightarrow>
     fget r ''state'' = fget r' ''state'' \<and> fget r ''machine_state'' = fget r' ''machine_state''
   \<and> fget r ''break_at_paris'' = fget r' ''break_at_paris'' \<and> fget r ''bars_since_break'' = fget r' ''bars_since_break''
   \<and> (fget r ''state'' = Str ''FAILED'' \<or> fget r ''retest_at_paris'' = fget r' ''retest_at_paris'')
   \<and> (if fget r ''state'' = Str ''SATISFIED'' then fget r ''observed_at_paris'' = fget r' ''observed_at_paris'' else True)"

lemma represents_same: "represents H P rows r \<Longrightarrow> represents H P rows r' \<Longrightarrow> same_verdict r r'"
  by (auto simp: represents_def same_verdict_def split: prod.splits option.splits if_splits)

text \<open>
  C14. Evaluating as the rows come in gives what one evaluation of all rows gives: for a break/retest sequence that
  latches, with closed rows in order, handing each new chunk of rows to \<open>evaluateDeterministicPredicateV1\<close> together
  with the result before it ends in the same state, machine state, break, retest, confirmation and bar count as
  evaluating all the rows at once with no past. The replay relies on it when it evaluates a setup incrementally.
\<close>

theorem incremental_evaluation_is_batch:
  assumes "seq_params_of (normalizeCondition given 0) = Inr P"
    and "list_all (\<lambda>(rows, now). watching H given validFromParis rows now) chunks" and "chunks \<noteq> []"
    and "watching H given validFromParis (concat (List.map fst chunks)) nowParis"
    and "bars_in_order H (concat (List.map fst chunks))" and "length (concat (List.map fst chunks)) \<le> 2 ^ 53"
  shows "\<exists>r r'. feed H given validFromParis chunks Null = Inr (Obj r)
    \<and> evaluateDeterministicPredicateV1 H given (concat (List.map fst chunks)) Null validFromParis nowParis = Inr r'
    \<and> same_verdict r r'"
proof -
  obtain ys now rest where chunks: "chunks = (ys, now) # rest" using assms(3) by (cases chunks) auto
  have "watching H given validFromParis ys now" "ys \<noteq> []"
    using assms(2) by (auto simp: chunks watching_def Let_def)
  moreover from this obtain r1 where "evaluateDeterministicPredicateV1 H given ys Null validFromParis now = Inr r1" "represents H P ys r1"
    using represents_first[OF _ assms(1), of H validFromParis ys now] assms(5,6) by (auto simp: chunks bars_in_order_append)
  ultimately obtain r where "feed H given validFromParis chunks Null = Inr (Obj r)" "represents H P (concat (List.map fst chunks)) r"
    using feed_represents[OF assms(1), of ys H r1 validFromParis rest] assms(2,5,6) by (auto simp: chunks)
  then show ?thesis
    using represents_first[OF assms(4,1,5,6)] represents_same by blast
qed

text \<open>The sample's first bar, then the two others, valid from the first on.\<close>

definition sample_chunks :: "(jsval list \<times> jsval) list" where
  "sample_chunks = [(take 1 sample_bars, Str ''2026-08-10T10:05:00.000Z''), (drop 1 sample_bars, Str ''2026-08-10T10:15:00.000Z'')]"

lemma sample_watching:
  "list_all (\<lambda>(rows, now). watching sample_host sample_sequence Null rows now) sample_chunks"
  "watching sample_host sample_sequence Null sample_bars (Str ''2026-08-10T10:15:00.000Z'')"
  by code_simp+

theorem incremental_evaluation_is_batch_witness:
  "\<exists>r r'. feed sample_host sample_sequence Null sample_chunks Null = Inr (Obj r)
    \<and> evaluateDeterministicPredicateV1 sample_host sample_sequence sample_bars Null Null (Str ''2026-08-10T10:15:00.000Z'') = Inr r'
    \<and> same_verdict r r'"
proof -
  have all: "concat (List.map fst sample_chunks) = sample_bars" by (simp add: sample_chunks_def)
  show ?thesis
    using incremental_evaluation_is_batch[OF sample_params sample_watching(1), of "Str ''2026-08-10T10:15:00.000Z''", unfolded all]
      sample_watching(2) sample_in_order by (simp add: sample_chunks_def sample_bars_def)
qed

section \<open>The states of the results\<close>

definition PREDICATE_STATES_V1 :: "string list" where
  "PREDICATE_STATES_V1 = [''NOT_STARTED'', ''PENDING'', ''SATISFIED'', ''FAILED'', ''EXPIRED'', ''INVALIDATED'', ''UNKNOWN'']"

text \<open>What an evaluator may say of the state: nothing, or one of four.\<close>

definition raw_state_ok :: "jsobj \<Rightarrow> bool" where
  "raw_state_ok raw \<longleftrightarrow> fget raw ''state'' = Undef \<or> named (fget raw ''state'') [''UNKNOWN'', ''PENDING'', ''SATISFIED'', ''FAILED'']"

lemma raw_state_simps [simp]:
  "raw_state_ok (unknown why)" "raw_state_ok noMatch" "raw_state_ok (match_row row v fs)"
  "raw_state_ok (spread raw [(''evidence'', e)]) \<longleftrightarrow> raw_state_ok raw"
  by (simp_all add: raw_state_ok_def unknown_def noMatch_def match_row_def)

lemma raw_state_temporal [simp]: "raw_state_ok (evaluateRowsByTemporalRule condition rows p)"
  by (simp add: evaluateRowsByTemporalRule_def Let_def split: option.split)

lemma raw_state_cross [simp]: "raw_state_ok (first_cross k crosses rows)"
  by (induction k crosses rows rule: first_cross.induct) (simp_all split: option.split)

lemma raw_state_sequence [simp]: "raw_state_ok (evaluateBreakRetestSequence H condition rows previous)"
proof (cases "seq_params_of condition")
  case (Inl missing)
  then have "raw_state_ok missing" by (auto simp: seq_params_of_def split: option.splits if_splits)
  then show ?thesis using Inl by (simp add: evaluateBreakRetestSequence_def)
next
  case (Inr P)
  then show ?thesis
    by (simp add: evaluateBreakRetestSequence_def raw_state_ok_def exit_result_fields pending_result_fields latched_failure_def Let_def
        split: prod.split option.split)
qed

lemma raw_state_price [simp]:
  "raw_state_ok (evaluatePriceRelation condition rows)" "raw_state_ok (evaluatePriceCross condition rows)"
  "raw_state_ok (evaluateZoneTouch condition rows)" "raw_state_ok (evaluateBreakoutClose condition rows)"
  "raw_state_ok (evaluateRejectionPattern condition rows)"
  by (simp_all add: evaluatePriceRelation_def evaluatePriceCross_def evaluateZoneTouch_def evaluateBreakoutClose_def
      evaluateRejectionPattern_def Let_def split: option.split)

lemma raw_state_indicator [simp]:
  "raw_state_ok (evaluateVwapRelation condition rows)" "raw_state_ok (evaluateRsiThreshold condition rows)"
  "raw_state_ok (evaluateIntermarketConfirmation condition rows)" "raw_state_ok (evaluateEventBlackout H condition rows)"
  by (simp_all add: evaluateVwapRelation_def evaluateRsiThreshold_def evaluateIntermarketConfirmation_def evaluateEventBlackout_def
      Let_def split: option.split)

lemma raw_state_window: "evaluateTimeWindow H condition rows = Inr raw \<Longrightarrow> raw_state_ok raw"
  by (auto simp: evaluateTimeWindow_def and_then_Inr Let_def split: option.splits)

lemma raw_state_evaluator: "case predicate_evaluator H type condition rows previous of Inr raw \<Rightarrow> raw_state_ok raw | Inl _ \<Rightarrow> True"
  by (simp add: predicate_evaluator_def raw_state_window split: sum.split)

lemma result_state:
  assumes "evaluateDeterministicPredicateV1 H given rows previousState validFromParis nowParis = Inr r"
  shows "named (fget r ''state'') PREDICATE_STATES_V1"
proof -
  let ?c = "normalizeCondition given 0"
  have rows: "named (fget r ''state'') PREDICATE_STATES_V1" if ev: "evaluate_on_rows H ?c rows' previous nowParis = Inr r" for rows' previous
  proof (cases "rows' = []")
    case True
    then show ?thesis using ev by (auto simp: evaluate_on_rows_def predicateResult_fields PREDICATE_STATES_V1_def Let_def)
  next
    case False
    then obtain raw where raw: "predicate_evaluator H (cd_text ?c ''predicate_type'') ?c rows' previous = Inr raw"
      and st: "fget r ''state'' = Str (evaluated_state ?c raw)"
      using ev by (auto simp: evaluate_on_rows_def and_then_Inr predicateResult_fields Let_def)
    have "raw_state_ok raw" using raw_state_evaluator[of H "cd_text ?c ''predicate_type''" ?c rows' previous] raw by simp
    then show ?thesis unfolding st by (auto simp: evaluated_state_def raw_state_ok_def PREDICATE_STATES_V1_def Let_def)
  qed
  show ?thesis
    using assms rows unfolding evaluateDeterministicPredicateV1_def Let_def
    by (auto simp: predicateResult_fields latched_def PREDICATE_STATES_V1_def split: if_splits)
qed

lemma map_throwing_set:
  "map_throwing f xs = Inr ys \<Longrightarrow> y \<in> set ys \<Longrightarrow> \<exists>x \<in> set xs. f x = Inr y"
  by (induction xs arbitrary: ys) (auto simp: and_then_Inr)

lemma set_result_states:
  assumes "map_throwing (evaluate_condition H input) conditions = Inr results" and "r \<in> set results"
  shows "named (get r ''state'') PREDICATE_STATES_V1"
proof -
  obtain c where "evaluate_condition H input c = Inr r" using map_throwing_set[OF assms] by blast
  then show ?thesis unfolding evaluate_condition_def Let_def and_then_Inr using result_state by fastforce
qed

lemma length_filters:
  assumes "\<And>x. x \<in> set xs \<Longrightarrow> length (filter (\<lambda>p. p x) ps) = 1"
  shows "sum_list (List.map (\<lambda>p. length (filter p xs)) ps) = length xs"
  using assms
proof (induction xs)
  case (Cons x xs)
  have "sum_list (List.map (\<lambda>p. length (filter p (x # xs))) ps)
      = sum_list (List.map (\<lambda>p. length (filter p xs)) ps) + length (filter (\<lambda>p. p x) ps)"
    by (induction ps) simp_all
  then show ?case using Cons by simp
qed simp

text \<open>A field of a long object, one entry at a time.\<close>

lemma fget_hit: "fget ((k, v) # fs) k = v"
  and fget_skip: "k' \<noteq> k \<Longrightarrow> fget fs k = w \<Longrightarrow> fget ((k', v) # fs) k = w"
  by simp_all

lemma summary_counts:
  "fget (condition_set_summary H rs v) ''required_total'' = js_count (filter isRequiredStructuralCondition rs)"
  "fget (condition_set_summary H rs v) ''required_satisfied'' = js_count (filter (in_state [''SATISFIED'']) (filter isRequiredStructuralCondition rs))"
  "fget (condition_set_summary H rs v) ''required_failed'' =
     js_count (filter (in_state [''FAILED'', ''INVALIDATED'', ''EXPIRED'']) (filter isRequiredStructuralCondition rs))"
  "fget (condition_set_summary H rs v) ''required_unknown'' = js_count (filter (in_state [''UNKNOWN'']) (filter isRequiredStructuralCondition rs))"
  "fget (condition_set_summary H rs v) ''required_not_started'' = js_count (filter (in_state [''NOT_STARTED'']) (filter isRequiredStructuralCondition rs))"
  "fget (condition_set_summary H rs v) ''required_pending'' = js_count (filter (in_state [''PENDING'']) (filter isRequiredStructuralCondition rs))"
  unfolding condition_set_summary_def Let_def by (rule fget_hit | (rule fget_skip, simp))+

text \<open>
  The count of the required conditions adds up: in every summary, the satisfied, the failed, the unknown, the
  not started and the pending ones are all the required ones, since a result is in one of the seven states.
\<close>

theorem required_counts_add_up:
  assumes "evaluateDeterministicConditionSetV1 H input = Inr summary"
  shows "\<exists>satisfied failed unk not_started pending.
     fget summary ''required_satisfied'' = Num (Fin (of_nat satisfied)) \<and> fget summary ''required_failed'' = Num (Fin (of_nat failed))
     \<and> fget summary ''required_unknown'' = Num (Fin (of_nat unk)) \<and> fget summary ''required_not_started'' = Num (Fin (of_nat not_started))
     \<and> fget summary ''required_pending'' = Num (Fin (of_nat pending))
     \<and> fget summary ''required_total'' = Num (Fin (of_nat (satisfied + failed + unk + not_started + pending)))"
proof -
  obtain results completeAt where results: "map_throwing (evaluate_condition H input) (set_conditions input) = Inr results"
    and summary: "summary = condition_set_summary H results completeAt"
    using assms by (auto simp: evaluateDeterministicConditionSetV1_def and_then_Inr)
  let ?required = "filter isRequiredStructuralCondition results"
  let ?classes = "[in_state [''SATISFIED''], in_state [''FAILED'', ''INVALIDATED'', ''EXPIRED''], in_state [''UNKNOWN''],
      in_state [''NOT_STARTED''], in_state [''PENDING'']]"
  have one: "length (filter (\<lambda>p. p r) ?classes) = 1" if "r \<in> set ?required" for r
  proof -
    have "named (get r ''state'') PREDICATE_STATES_V1" using set_result_states[OF results, of r] that by simp
    then show ?thesis by (auto simp: in_state_def PREDICATE_STATES_V1_def)
  qed
  have "sum_list (List.map (\<lambda>p. length (filter p ?required)) ?classes) = length ?required"
    by (rule length_filters) (rule one)
  then have "length ?required = length (filter (in_state [''SATISFIED'']) ?required)
      + length (filter (in_state [''FAILED'', ''INVALIDATED'', ''EXPIRED'']) ?required)
      + length (filter (in_state [''UNKNOWN'']) ?required) + length (filter (in_state [''NOT_STARTED'']) ?required)
      + length (filter (in_state [''PENDING'']) ?required)" by simp
  then show ?thesis
    unfolding summary summary_counts js_count_def
    by (intro exI conjI) (rule refl | simp only:)+
qed

section \<open>The score\<close>

text \<open>The rounded sum of the weights of a part is at most the rounded sum of all.\<close>

lemma weight_sum_from_mono:
  assumes "\<And>r. r \<in> set rs \<Longrightarrow> amount (to_num (get r ''weight''))" and "amount a" and "amount b" and "jle a b"
  shows "amount (foldl (\<lambda>acc r. jadd acc (to_num (get r ''weight''))) a (filter p rs))
    \<and> jle (foldl (\<lambda>acc r. jadd acc (to_num (get r ''weight''))) a (filter p rs))
          (foldl (\<lambda>acc r. jadd acc (to_num (get r ''weight''))) b rs)"
  using assms
proof (induction rs arbitrary: a b)
  case (Cons r rs)
  let ?w = "to_num (get r ''weight'')"
  have w: "amount ?w" and rest: "\<And>x. x \<in> set rs \<Longrightarrow> amount (to_num (get x ''weight''))" using Cons.prems(1) by auto
  show ?case
  proof (cases "p r")
    case True
    then show ?thesis
      using Cons.IH[OF rest, of "jadd a ?w" "jadd b ?w"] amount_jadd(1)[OF _ w] jadd_amount_mono[OF Cons.prems(4,2,3) w] Cons.prems(2,3)
      by simp
  next
    case False
    have "jle a (jadd b ?w)" using Cons.prems(3,4) amount_jadd(2)[OF _ w, of b] jle_trans by blast
    then show ?thesis
      using False Cons.IH[OF rest, of a "jadd b ?w"] amount_jadd(1)[OF _ w, of b] Cons.prems(2,3) by simp
  qed
qed simp

definition number_sum :: "jsval list \<Rightarrow> jnum" where
  "number_sum rs = foldl (\<lambda>acc r. jadd acc (to_num (get r ''weight''))) (Fin 0) rs"

lemma number_sum_part:
  assumes "\<And>r. r \<in> set rs \<Longrightarrow> amount (to_num (get r ''weight''))"
  shows "amount (number_sum (filter p rs))" "jle (number_sum (filter p rs)) (number_sum rs)"
proof -
  have "amount (Fin 0)" using amount_int[of 0] by simp
  then show "amount (number_sum (filter p rs))" "jle (number_sum (filter p rs)) (number_sum rs)"
    using weight_sum_from_mono[of rs "Fin 0" "Fin 0" p, OF assms] by (simp_all add: number_sum_def)
qed

text \<open>A sum that is a number has only added numbers.\<close>

lemma string_sum: "string_like acc \<Longrightarrow> string_like (foldl (\<lambda>acc r. js_plus acc (get r ''weight'')) acc rs)"
  by (induction rs arbitrary: acc) (simp_all add: js_plus_def string_like_def)

lemma weight_sum_from_numbers:
  "list_all (\<lambda>r. \<not> string_like (get r ''weight'')) rs \<Longrightarrow>
     foldl (\<lambda>acc r. js_plus acc (get r ''weight'')) (Num a) rs = Num (foldl (\<lambda>acc r. jadd acc (to_num (get r ''weight''))) a rs)"
proof (induction rs arbitrary: a)
  case (Cons r rs)
  have "\<not> string_like (Num a)" by (simp add: string_like_def)
  with Cons show ?case by (simp add: js_plus_def)
qed simp

lemma weight_sum_numbers: "list_all (\<lambda>r. \<not> string_like (get r ''weight'')) rs \<Longrightarrow> weight_sum rs = Num (number_sum rs)"
  by (simp add: weight_sum_def number_sum_def weight_sum_from_numbers)

lemma number_weights:
  assumes "foldl (\<lambda>acc r. js_plus acc (get r ''weight'')) (Num a) rs = Num n"
  shows "list_all (\<lambda>r. \<not> string_like (get r ''weight'')) rs"
  using assms
proof (induction rs arbitrary: a)
  case (Cons r rs)
  have plain: "\<not> string_like (Num x)" for x by (simp add: string_like_def)
  show ?case
  proof (cases "string_like (get r ''weight'')")
    case True
    then have "string_like (js_plus (Num a) (get r ''weight''))" by (simp add: js_plus_def) (simp add: string_like_def)
    from string_sum[OF this, of rs] Cons.prems plain show ?thesis by simp
  next
    case False
    with plain have "js_plus (Num a) (get r ''weight'') = Num (jadd a (to_num (get r ''weight'')))" by (simp add: js_plus_def)
    with Cons False show ?thesis by simp
  qed
qed simp

lemma score_ratio_unit:
  assumes "amount part" and "jle part (Fin w)"
  shows "score_ratio (Num part) (Num (Fin w)) = Null \<or> (\<exists>s. score_ratio (Num part) (Num (Fin w)) = Num (Fin s) \<and> 0 \<le> s \<and> s \<le> 1)"
proof (cases "0 < w")
  case True
  then obtain a where a: "part = Fin a" "0 \<le> a" "a \<le> w" using assms by (cases part) (auto simp: amount_def)
  then obtain q where "rnd (a / w) = Fin q" "0 \<le> q" "q \<le> 1" using rnd_unit[of "a / w" 1] True by auto
  then show ?thesis using round_4_unit[of q] True a by (auto simp: score_ratio_def)
qed (simp add: score_ratio_def)

lemma summary_scores:
  "fget (condition_set_summary H rs v) ''results'' = Arr rs"
  "fget (condition_set_summary H rs v) ''score_weight_total'' = weight_sum (filter scoreable rs)"
  "fget (condition_set_summary H rs v) ''weighted_confirmation_score'' =
     score_ratio (weight_sum (filter (in_state [''SATISFIED'']) (filter (\<lambda>r. \<not> in_state [''UNKNOWN''] r) (filter scoreable rs))))
       (weight_sum (filter scoreable rs))"
  "fget (condition_set_summary H rs v) ''weighted_known_confirmation_score'' =
     score_ratio (weight_sum (filter (in_state [''SATISFIED'']) (filter (\<lambda>r. \<not> in_state [''UNKNOWN''] r) (filter scoreable rs))))
       (weight_sum (filter (\<lambda>r. \<not> in_state [''UNKNOWN''] r) (filter scoreable rs)))"
  "fget (condition_set_summary H rs v) ''known_confirmation_coverage_ratio'' =
     score_ratio (weight_sum (filter (\<lambda>r. \<not> in_state [''UNKNOWN''] r) (filter scoreable rs))) (weight_sum (filter scoreable rs))"
  unfolding condition_set_summary_def Let_def by (rule fget_hit | (rule fget_skip, simp))+

text \<open>A ratio: absent, or a number from 0 to 1.\<close>

definition unit_ratio :: "jsval \<Rightarrow> bool" where
  "unit_ratio v \<longleftrightarrow> (case v of Null \<Rightarrow> True | Num (Fin q) \<Rightarrow> 0 \<le> q \<and> q \<le> 1 | _ \<Rightarrow> False)"

lemma score_ratio_in_unit: "amount part \<Longrightarrow> jle part (Fin w) \<Longrightarrow> unit_ratio (score_ratio (Num part) (Num (Fin w)))"
  using score_ratio_unit[of part w] by (auto simp: unit_ratio_def)

text \<open>
  C8. The scores of a condition set are ratios: when the weights of the results are non-negative doubles whose sum does
  not overflow, the weighted score, the score over the known confirmations and the coverage are each absent or between
  0 and 1, although every sum, quotient and rounding is done in floating point.
\<close>

theorem confirmation_scores_are_ratios:
  assumes "evaluateDeterministicConditionSetV1 H input = Inr summary" and "fget summary ''results'' = Arr results"
    and "\<And>r. r \<in> set results \<Longrightarrow> amount (to_num (get r ''weight''))" and "fget summary ''score_weight_total'' = Num (Fin w)"
  shows "unit_ratio (fget summary ''weighted_confirmation_score'')
    \<and> unit_ratio (fget summary ''weighted_known_confirmation_score'')
    \<and> unit_ratio (fget summary ''known_confirmation_coverage_ratio'')"
proof -
  obtain v where summary: "summary = condition_set_summary H results v"
    using assms(1,2) by (auto simp: evaluateDeterministicConditionSetV1_def and_then_Inr summary_scores)
  let ?scored = "filter scoreable results"
  let ?known = "filter (\<lambda>r. \<not> in_state [''UNKNOWN''] r) ?scored"
  let ?satisfied = "filter (in_state [''SATISFIED'']) ?known"
  have amounts: "\<And>r. r \<in> set ?scored \<Longrightarrow> amount (to_num (get r ''weight''))" "\<And>r. r \<in> set ?known \<Longrightarrow> amount (to_num (get r ''weight''))"
    using assms(3) by auto
  have "weight_sum ?scored = Num (Fin w)" using assms(4) by (simp add: summary summary_scores)
  then have plain: "list_all (\<lambda>r. \<not> string_like (get r ''weight'')) ?scored" unfolding weight_sum_def by (rule number_weights)
  then have sums: "weight_sum ?scored = Num (number_sum ?scored)" "weight_sum ?known = Num (number_sum ?known)"
    "weight_sum ?satisfied = Num (number_sum ?satisfied)"
    by (intro weight_sum_numbers; simp add: list_all_iff)+
  then have total: "number_sum ?scored = Fin w" using \<open>weight_sum ?scored = Num (Fin w)\<close> by simp
  note known = number_sum_part[of ?scored "\<lambda>r. \<not> in_state [''UNKNOWN''] r", OF amounts(1)]
  note satisfied = number_sum_part[of ?known "in_state [''SATISFIED'']", OF amounts(2)]
  obtain k where k: "number_sum ?known = Fin k"
    using known total by (cases "number_sum ?known") (auto simp: amount_def)
  show ?thesis
    unfolding summary summary_scores sums
    using score_ratio_in_unit[OF satisfied(1) jle_trans[OF satisfied(2) known(2)[unfolded total]]]
      score_ratio_in_unit[OF satisfied(1) satisfied(2)[unfolded k]] score_ratio_in_unit[OF known(1) known(2)[unfolded total]]
    unfolding total k by blast
qed

subsection \<open>A sample set\<close>

text \<open>A window of time that is satisfied and an indicator that is not known, on the sample's bars.\<close>

definition sample_set :: jsval where
  "sample_set = Obj [(''conditions'', Arr [
       Obj [(''condition_id'', Str ''window''), (''predicate_type'', Str ''TIME_WINDOW''), (''importance'', Str ''PRIMARY''),
         (''required_for_trigger'', Bool True), (''window'', Obj [(''start_paris'', Str ''10:00''), (''end_paris'', Str ''12:00'')])],
       Obj [(''condition_id'', Str ''rsi''), (''predicate_type'', Str ''RSI_THRESHOLD''), (''importance'', Str ''SECONDARY''),
         (''required_for_trigger'', Bool True), (''threshold'', Num (Fin 30))]]),
     (''rows'', Arr sample_bars), (''nowParis'', Str ''2026-08-10T10:15:00.000Z'')]"

definition sample_results :: "jsval list" where
  "sample_results = (case map_throwing (evaluate_condition sample_host sample_set) (set_conditions sample_set) of
     Inr results \<Rightarrow> results | Inl _ \<Rightarrow> [])"

lemma sample_set_runs:
  "case map_throwing (evaluate_condition sample_host sample_set) (set_conditions sample_set) of
     Inr results \<Rightarrow> confirmation_complete_at sample_host results = Inr (Str ''2026-08-10T10:10:00.000Z'')
       \<and> List.map (\<lambda>r. (get r ''state'', get r ''weight'', get r ''importance'')) results =
          [(Str ''SATISFIED'', Num (Fin 2), Str ''PRIMARY''), (Str ''UNKNOWN'', Num (Fin 1), Str ''SECONDARY'')]
   | Inl _ \<Rightarrow> False"
  by code_simp

lemma sample_results:
  "evaluateDeterministicConditionSetV1 sample_host sample_set =
     Inr (condition_set_summary sample_host sample_results (Str ''2026-08-10T10:10:00.000Z''))"
  "List.map (\<lambda>r. (get r ''state'', get r ''weight'', get r ''importance'')) sample_results =
     [(Str ''SATISFIED'', Num (Fin 2), Str ''PRIMARY''), (Str ''UNKNOWN'', Num (Fin 1), Str ''SECONDARY'')]"
  using sample_set_runs by (auto simp: evaluateDeterministicConditionSetV1_def sample_results_def split: sum.splits)

theorem required_counts_add_up_witness:
  "\<exists>summary satisfied failed unk not_started pending.
     evaluateDeterministicConditionSetV1 sample_host sample_set = Inr summary
     \<and> fget summary ''required_satisfied'' = Num (Fin (of_nat satisfied)) \<and> fget summary ''required_failed'' = Num (Fin (of_nat failed))
     \<and> fget summary ''required_unknown'' = Num (Fin (of_nat unk)) \<and> fget summary ''required_not_started'' = Num (Fin (of_nat not_started))
     \<and> fget summary ''required_pending'' = Num (Fin (of_nat pending))
     \<and> fget summary ''required_total'' = Num (Fin (of_nat (satisfied + failed + unk + not_started + pending)))"
  using required_counts_add_up[OF sample_results(1)] sample_results(1) by blast

theorem confirmation_scores_are_ratios_witness:
  "\<exists>summary. evaluateDeterministicConditionSetV1 sample_host sample_set = Inr summary
     \<and> unit_ratio (fget summary ''weighted_confirmation_score'') \<and> unit_ratio (fget summary ''known_confirmation_coverage_ratio'')"
proof -
  obtain a b where rs: "sample_results = [a, b]" and a: "get a ''weight'' = Num (Fin 2)" "get a ''importance'' = Str ''PRIMARY''"
    and b: "get b ''weight'' = Num (Fin 1)" "get b ''importance'' = Str ''SECONDARY''"
    using sample_results(2) by (auto simp: map_eq_Cons_conv)
  have "amount (to_num (get r ''weight''))" if "r \<in> set sample_results" for r
    using that a b amount_int[of 1] amount_int[of 2] by (auto simp: rs)
  moreover have "weight_sum (filter scoreable sample_results) = Num (Fin 3)"
    using a b by (simp add: rs weight_sum_def js_plus_def string_like_def scoreable_def num_or_zero_def rnd_numeral)
  ultimately show ?thesis
    using confirmation_scores_are_ratios[OF sample_results(1), of sample_results 3] sample_results(1) by (auto simp: summary_scores)
qed

end
