(* ===== verification/Replan_V1.thy ===== *)
theory Replan_V1
  imports Lifecycle
begin

text \<open>
  \<open>packages/desk-domain/src/replan-state-machine-v1.js\<close>: the life of a replan request. Its terminal
  states are not frozen: they may be reset, and requested again. The commands are events.
\<close>

datatype replan_state =
    IDLE | REQUESTED | QUEUED | IN_PROGRESS | COMPLETED | FAILED | CANCELLED

datatype replan_command =
    NOOP | REQUEST | QUEUE | START | COMPLETE | FAIL | RETRY | CANCEL | RESET

definition REPLAN_STATES_V1 :: "(string \<times> replan_state) list" where
  "REPLAN_STATES_V1 =
     [(''IDLE'', IDLE), (''REQUESTED'', REQUESTED), (''QUEUED'', QUEUED),
     (''IN_PROGRESS'', IN_PROGRESS), (''COMPLETED'', COMPLETED), (''FAILED'', FAILED),
     (''CANCELLED'', CANCELLED)]"

definition REPLAN_EVENTS_V1 :: "(string \<times> replan_command) list" where
  "REPLAN_EVENTS_V1 =
     [(''NOOP'', NOOP), (''REQUEST'', REQUEST), (''QUEUE'', QUEUE), (''START'', START),
     (''COMPLETE'', COMPLETE), (''FAIL'', FAIL), (''RETRY'', RETRY), (''CANCEL'', CANCEL),
     (''RESET'', RESET)]"

fun replan_name :: "replan_state \<Rightarrow> string" where
  "replan_name IDLE = ''IDLE''"
| "replan_name REQUESTED = ''REQUESTED''"
| "replan_name QUEUED = ''QUEUED''"
| "replan_name IN_PROGRESS = ''IN_PROGRESS''"
| "replan_name COMPLETED = ''COMPLETED''"
| "replan_name FAILED = ''FAILED''"
| "replan_name CANCELLED = ''CANCELLED''"

fun replan_TRANSITIONS :: "replan_state \<Rightarrow> replan_command \<Rightarrow> replan_state option" where
  "replan_TRANSITIONS IDLE c = (case c of
      NOOP \<Rightarrow> Some IDLE | REQUEST \<Rightarrow> Some REQUESTED | _ \<Rightarrow> None)"
| "replan_TRANSITIONS REQUESTED c = (case c of
      NOOP \<Rightarrow> Some REQUESTED | REQUEST \<Rightarrow> Some REQUESTED | QUEUE \<Rightarrow> Some QUEUED |
      START \<Rightarrow> Some IN_PROGRESS | CANCEL \<Rightarrow> Some CANCELLED | _ \<Rightarrow> None)"
| "replan_TRANSITIONS QUEUED c = (case c of
      NOOP \<Rightarrow> Some QUEUED | REQUEST \<Rightarrow> Some QUEUED | START \<Rightarrow> Some IN_PROGRESS |
      FAIL \<Rightarrow> Some FAILED | CANCEL \<Rightarrow> Some CANCELLED | _ \<Rightarrow> None)"
| "replan_TRANSITIONS IN_PROGRESS c = (case c of
      NOOP \<Rightarrow> Some IN_PROGRESS | COMPLETE \<Rightarrow> Some COMPLETED | FAIL \<Rightarrow> Some FAILED |
      CANCEL \<Rightarrow> Some CANCELLED | _ \<Rightarrow> None)"
| "replan_TRANSITIONS COMPLETED c = (case c of
      NOOP \<Rightarrow> Some COMPLETED | RESET \<Rightarrow> Some IDLE | REQUEST \<Rightarrow> Some REQUESTED | _ \<Rightarrow> None)"
| "replan_TRANSITIONS FAILED c = (case c of
      NOOP \<Rightarrow> Some FAILED | REQUEST \<Rightarrow> Some REQUESTED | RETRY \<Rightarrow> Some QUEUED |
      CANCEL \<Rightarrow> Some CANCELLED | _ \<Rightarrow> None)"
| "replan_TRANSITIONS CANCELLED c = (case c of
      NOOP \<Rightarrow> Some CANCELLED | RESET \<Rightarrow> Some IDLE | REQUEST \<Rightarrow> Some REQUESTED | _ \<Rightarrow> None)"

definition replan_terminal :: "replan_state \<Rightarrow> bool" where
  "replan_terminal s \<longleftrightarrow> s \<in> {COMPLETED, CANCELLED}"

definition replan_result ::
  "bool \<Rightarrow> string \<Rightarrow> replan_state option \<Rightarrow> string \<Rightarrow> string \<Rightarrow> replan_state transition" where
  "replan_result = transitionResult ''replan_transition_v1'' ''replan'' replan_terminal"

definition transitionReplanStateV1 :: "jsval \<Rightarrow> jsval \<Rightarrow> replan_state transition" where
  "transitionReplanStateV1 currentState event =
     (let previousState = normalizeEnum (default_param currentState ''IDLE'');
          normalizedEvent = normalizeEnum (default_param event ''NOOP'');
          refuse = replan_result False previousState None normalizedEvent in
      case map_of REPLAN_STATES_V1 previousState of
        None \<Rightarrow> refuse ''UNKNOWN_REPLAN_STATE''
      | Some s \<Rightarrow> (case map_of REPLAN_EVENTS_V1 normalizedEvent of
          None \<Rightarrow> refuse ''UNKNOWN_REPLAN_EVENT''
        | Some e \<Rightarrow> (case replan_TRANSITIONS s e of
            None \<Rightarrow> refuse ''INVALID_REPLAN_TRANSITION''
          | Some t \<Rightarrow> replan_result True previousState (Some t) normalizedEvent ''APPLIED'')))"

section \<open>The machine behind the calls\<close>

interpretation re: machine "map_of REPLAN_STATES_V1" replan_name replan_TRANSITIONS NOOP
proof
  fix s n
  show "map_of REPLAN_STATES_V1 (replan_name s) = Some s"
    by (cases s) (simp_all add: REPLAN_STATES_V1_def)
  show "map_of REPLAN_STATES_V1 n = Some s \<Longrightarrow> replan_name s = n"
    by (auto simp: REPLAN_STATES_V1_def split: if_splits)
  show "replan_TRANSITIONS s NOOP = Some s" by (cases s) simp_all
qed

lemma normalizeEnum_replan_name [simp]: "normalizeEnum (Str (replan_name s)) = replan_name s"
  by (cases s) (simp_all, code_simp+)

definition replan_event :: "jsval \<Rightarrow> replan_command" where
  "replan_event v = (case map_of REPLAN_EVENTS_V1 (normalizeEnum (default_param v ''NOOP'')) of
     Some e \<Rightarrow> e | None \<Rightarrow> NOOP)"

definition replan_after :: "replan_state \<Rightarrow> jsval \<Rightarrow> replan_state" where
  "replan_after s v = (case next_state (transitionReplanStateV1 (Str (replan_name s)) v) of
     Some t \<Rightarrow> t | None \<Rightarrow> s)"

definition replan_apply :: "replan_state \<Rightarrow> jsval list \<Rightarrow> replan_state" where
  "replan_apply s events = foldl replan_after s events"

lemma replan_after_step: "replan_after s v = re.step s (replan_event v)"
  by (simp add: replan_after_def transitionReplanStateV1_def Let_def re.parse_name replan_event_def
      replan_result_def re.step_def re.table_noop split: option.split)

lemma replan_apply_run: "replan_apply s events = re.run s (List.map replan_event events)"
  by (induction events arbitrary: s) (simp_all add: replan_apply_def replan_after_step)

text \<open>
  A replan completes only after it was started: whatever events take one to \<open>COMPLETED\<close> from another
  state, one of them is a \<open>COMPLETE\<close> received while it was \<open>IN_PROGRESS\<close>.
\<close>

theorem replan_completes_from_progress:
  assumes "s \<noteq> COMPLETED" and "replan_apply s events = COMPLETED"
  shows "\<exists>before event after. events = before @ event # after
           \<and> replan_apply s before = IN_PROGRESS \<and> replan_event event = COMPLETE"
proof -
  obtain ds e es where run: "List.map replan_event events = ds @ e # es" "re.run s ds \<noteq> COMPLETED"
      "replan_TRANSITIONS (re.run s ds) e = Some COMPLETED"
    using re.run_enters[of "\<lambda>t. t = COMPLETED" s "List.map replan_event events"] assms
    by (auto simp: replan_apply_run)
  from run(1) obtain before event after where events: "events = before @ event # after"
      "List.map replan_event before = ds" "replan_event event = e"
    by (auto simp: map_eq_append_conv map_eq_Cons_conv)
  have "re.run s ds = IN_PROGRESS \<and> e = COMPLETE"
    using run(2,3) by (cases "re.run s ds") (auto split: replan_command.splits)
  with events show ?thesis
    by (intro exI[of _ before] exI[of _ event] exI[of _ after]) (simp add: replan_apply_run)
qed

theorem replan_completes_from_progress_witness:
  "\<exists>before event after. [Str ''request'', Str ''start'', Str ''complete''] = before @ event # after
     \<and> replan_apply IDLE before = IN_PROGRESS \<and> replan_event event = COMPLETE"
  by (rule replan_completes_from_progress) (simp, code_simp)

end
