(* ===== verification/Replay_Conditions.thy ===== *)
theory Replay_Conditions
  imports Order_Simulator
begin

text \<open>
  The part of \<open>packages/desk-replay-engine/src/canonical-simulation-engine-v1.js\<close> that evaluates one
  setup on one row: which rows it sees, how the evaluation of its conditions is made causal (an
  invalidation counts only once the breakout sequence has started) and when it is eligible,
  invalidated or expired. The two rules it asks, \<open>evaluateDeterministicConditionSetV1\<close> and
  \<open>evaluateOpportunitySeekingControlledV1\<close> of the domain, the metrics of a run
  and the default policy are arguments (\<open>engine_rules\<close>), functions of the object they are given: what
  is shown holds for any of them. The rows by instrument are a plain object: the branch of
  \<open>boundRowsByInstrument\<close> for a JavaScript \<open>Map\<close> cuts the rows of each entry in the same way and is not modelled.
\<close>

record engine_rules =
  condition_set :: "jsval \<Rightarrow> jsval"
  opportunity_gate :: "jsval \<Rightarrow> jsval"
  build_metrics :: "jsval list \<Rightarrow> jsval \<Rightarrow> jsval"
  default_policy :: jsval

section \<open>Counting again what the conditions say\<close>

definition condition_ids :: "jsval list \<Rightarrow> jsval" where
  "condition_ids rs = Arr (List.map (\<lambda>r. get r ''condition_id'') rs)"

definition sum_weights :: "jsval list \<Rightarrow> jnum" where
  "sum_weights rs = foldl (\<lambda>sum r. jadd sum (num_or_zero (get r ''weight''))) (Fin 0) rs"

definition ratio_js :: "jnum \<Rightarrow> jnum \<Rightarrow> jsval" where
  "ratio_js part whole = (if jlt (Fin 0) whole then Num (sim_round (jdiv part whole)) else Null)"

definition recomputeConditionEvaluation :: "jsval \<Rightarrow> jsval list \<Rightarrow> jsval" where
  "recomputeConditionEvaluation evaluation results =
     (let isState = (\<lambda>names r. named (get r ''state'') names);
          blockers = filter (\<lambda>r. get r ''effect'' = Str ''BLOCK_IF_TRUE'' \<or> named (get r ''role'') [''VETO'', ''INVALIDATION'']
            \<or> get r ''importance'' = Str ''HARD_BLOCKER'') results;
          required = filter (\<lambda>r. get r ''effect'' \<noteq> Str ''BLOCK_IF_TRUE''
            \<and> (get r ''required_for_trigger'' = Bool True \<or> get r ''role'' = Str ''ACTIVATION''
               \<or> get r ''importance'' = Str ''MANDATORY'')) results;
          scoreable = filter (\<lambda>r. named (get r ''importance'') [''PRIMARY'', ''SECONDARY'']
            \<and> jlt (Fin 0) (num_or_zero (get r ''weight''))) results;
          scoreableKnown = filter (\<lambda>r. \<not> isState [''UNKNOWN''] r) scoreable;
          configuredWeight = sum_weights scoreable;
          knownWeight = sum_weights scoreableKnown;
          satisfiedWeight = sum_weights (filter (isState [''SATISFIED'']) scoreableKnown);
          primary = filter (\<lambda>r. get r ''importance'' = Str ''PRIMARY'') scoreable;
          primaryKnown = filter (\<lambda>r. \<not> isState [''UNKNOWN''] r) primary;
          activeBlockers = filter (isState [''SATISFIED'', ''INVALIDATED'']) blockers;
          unknownBlockers = filter (isState [''UNKNOWN'']) blockers;
          failed = filter (isState [''FAILED'', ''INVALIDATED'', ''EXPIRED'']) required;
          unknown = filter (isState [''UNKNOWN'']) required;
          notStarted = filter (isState [''NOT_STARTED'']) required;
          pending = filter (isState [''PENDING'']) required
      in Obj (spread (obj_or_empty evaluation)
        [(''results'', Arr results),
         (''hard_blockers_active'', js_count activeBlockers),
         (''hard_blocker_condition_ids'', condition_ids activeBlockers),
         (''hard_blockers_unknown'', js_count unknownBlockers),
         (''hard_blocker_unknown_condition_ids'', condition_ids unknownBlockers),
         (''required_total'', js_count required),
         (''required_satisfied'', js_count (filter (isState [''SATISFIED'']) required)),
         (''required_failed'', js_count failed), (''required_failed_condition_ids'', condition_ids failed),
         (''required_unknown'', js_count unknown), (''required_unknown_condition_ids'', condition_ids unknown),
         (''required_not_started'', js_count notStarted),
         (''required_not_started_condition_ids'', condition_ids notStarted),
         (''required_pending'', js_count pending), (''required_pending_condition_ids'', condition_ids pending),
         (''scored_confirmation_count'', js_count scoreableKnown),
         (''configured_confirmation_count'', js_count scoreable),
         (''weighted_confirmation_score'', ratio_js satisfiedWeight configuredWeight),
         (''weighted_known_confirmation_score'', ratio_js satisfiedWeight knownWeight),
         (''known_confirmation_coverage_ratio'', ratio_js knownWeight configuredWeight),
         (''score_weight_satisfied'', Num satisfiedWeight), (''score_weight_known'', Num knownWeight),
         (''score_weight_total'', Num configuredWeight),
         (''primary_confirmation_total'', js_count primary),
         (''primary_confirmation_known'', js_count primaryKnown),
         (''primary_confirmation_satisfied'', js_count (filter (isState [''SATISFIED'']) primaryKnown)),
         (''soft_unknown_condition_ids'', condition_ids (filter (isState [''UNKNOWN'']) scoreable))]))"

section \<open>Causal evaluation\<close>

text \<open>\<open>Object.fromEntries(results.map((result) => [result.condition_id, result]))\<close>\<close>

definition results_by_id :: "jsval list \<Rightarrow> jsobj" where
  "results_by_id rs = foldl (\<lambda>acc r. fset (to_str (get r ''condition_id'')) r acc) [] rs"

definition activationSequenceStarted :: "jsobj \<Rightarrow> bool" where
  "activationSequenceStarted predicateStates =
     (let activationStates = filter (\<lambda>r. get r ''predicate_type'' = Str ''BREAK_RETEST_SEQUENCE'')
            (List.map snd predicateStates)
      in activationStates = [] \<or> list_ex (\<lambda>r. get r ''state'' = Str ''SATISFIED''
           \<or> named (get r ''machine_state'') [''WAITING_RETEST'', ''RETEST_TOUCHED'']
           \<or> truthy (get r ''break_at_paris'')) activationStates)"

text \<open>\<open>byId.get(id)\<close>: the last result with this id.\<close>

definition by_id :: "jsval list \<Rightarrow> jsval \<Rightarrow> jsval" where
  "by_id rs cid = (case List.find (\<lambda>r. get r ''condition_id'' = cid) (rev rs) of Some r \<Rightarrow> r | None \<Rightarrow> Undef)"

definition normalizeAtomicSequenceEvaluation :: "jsval \<Rightarrow> jsval" where
  "normalizeAtomicSequenceEvaluation evaluation =
     (if get evaluation ''sequence_valid'' \<noteq> Bool False then evaluation
      else let results = arr_or_empty (get evaluation ''results'');
               violations = arr_or_empty (get evaluation ''sequence_violation_condition_ids'');
               atomicOnly = violations \<noteq> [] \<and> list_all (\<lambda>cid.
                 let result = by_id results cid; parent = by_id results (get result ''subsumed_by_condition_id'')
                 in get result ''atomic_component'' = Bool True \<and> get parent ''state'' = Str ''SATISFIED'') violations
           in if \<not> atomicOnly then evaluation
              else Obj (spread (obj_or_empty evaluation)
                [(''sequence_valid'', Bool True), (''sequence_violation_condition_ids'', Arr []),
                 (''atomic_sequence_normalized'', Bool True)]))"

definition terminal_invalidation_rule :: "jsval \<Rightarrow> bool" where
  "terminal_invalidation_rule r \<longleftrightarrow>
     get r ''effect'' = Str ''BLOCK_IF_TRUE'' \<and> get r ''memory_policy'' = Str ''INVALIDATE_TERMINAL''"

definition disarm :: "jsval \<Rightarrow> jsval" where
  "disarm r = (if \<not> terminal_invalidation_rule r \<or> \<not> named (get r ''state'') [''SATISFIED'', ''INVALIDATED''] then r
     else Obj (spread (obj_or_empty r) [(''state'', Str ''PENDING''), (''predicate_true'', Bool False),
       (''reason'', Str ''INVALIDATION_ARMED_AFTER_BREAKOUT_SEQUENCE'')]))"

definition causalConditionEvaluation :: "jsval \<Rightarrow> jsval" where
  "causalConditionEvaluation evaluation =
     (let results = arr_or_empty (get evaluation ''results'')
      in if activationSequenceStarted (results_by_id results) then evaluation
         else recomputeConditionEvaluation evaluation (List.map disarm results))"

section \<open>A setup on a row\<close>

text \<open>
  The state the replay keeps per setup. \<open>confirmationMs\<close> is the time of the row on which the setup
  became eligible and \<open>confirmationIndex\<close> the index of that row.
\<close>

record setup_state =
  st_setup :: jsval
  st_predicates :: jsobj
  st_confirmationMs :: "int option"
  st_confirmationIndex :: "nat option"
  st_terminal :: bool

definition createSetupState :: "jsval \<Rightarrow> setup_state" where
  "createSetupState setup_obj = \<lparr>st_setup = setup_obj, st_predicates = [], st_confirmationMs = None,
     st_confirmationIndex = None, st_terminal = False\<rparr>"

record setup_outcome =
  oc_condition_evaluation :: jsval
  oc_opportunity :: jsval
  oc_terminal_invalidation :: "jsval option"
  oc_expired :: bool
  oc_predicates :: jsobj
  oc_reason :: jsval

definition first_elem :: "jsval \<Rightarrow> jsval" where
  "first_elem v = (case v of Arr (x # _) \<Rightarrow> x | _ \<Rightarrow> Undef)"

definition blockingReason :: "jsval \<Rightarrow> jsval" where
  "blockingReason opportunity =
     (let first = first_elem (get opportunity ''hard_failures'')
      in js_or (get (get first ''evidence'') ''internal_gate_code'')
           (js_or (get first ''code'') (Str ''CONDITIONS_PENDING'')))"

definition trigger_eligible :: "setup_outcome \<Rightarrow> bool" where
  "trigger_eligible oc = truthy (get (oc_opportunity oc) ''trigger_eligible'')"

definition evaluateSetupAtRow ::
  "host \<Rightarrow> engine_rules \<Rightarrow> setup_state \<Rightarrow> jsval \<Rightarrow> jsval list \<Rightarrow> jsobj \<Rightarrow> jsval \<Rightarrow> setup_outcome" where
  "evaluateSetupAtRow H R st row rows rowsByInstrument policy =
     (let setup_obj = st_setup st;
          nowMs = parseTime H (get row ''time'');
          expiresMs = parseTime H (js_or (get setup_obj ''expires_at_paris'') (js_or (get setup_obj ''expires_at'')
            (js_or (get setup_obj ''valid_until_paris'') (get setup_obj ''valid_until''))));
          raw = normalizeAtomicSequenceEvaluation (condition_set R (Obj
            [(''conditions'', js_or (get setup_obj ''conditions'') (Arr [])), (''rows'', Arr rows),
             (''rowsByInstrument'', Obj rowsByInstrument), (''previousStates'', Obj (st_predicates st)),
             (''setup'', setup_obj), (''nowParis'', get row ''time'')]));
          evaluation = causalConditionEvaluation raw;
          opportunity = opportunity_gate R (Obj
            [(''setup'', setup_obj), (''conditionEvaluation'', evaluation),
             (''gates'', js_or (get setup_obj ''gates'') (js_or (get setup_obj ''decision_gates'') (Arr []))),
             (''nowParis'', get row ''time''), (''policy'', policy), (''phase'', Str ''ENTRY_TRIGGER'')]);
          results = arr_or_empty (get evaluation ''results'');
          eligible = truthy (get opportunity ''trigger_eligible'')
      in \<lparr>oc_condition_evaluation = evaluation, oc_opportunity = opportunity,
          oc_terminal_invalidation = List.find (\<lambda>r. get r ''state'' = Str ''INVALIDATED''
            \<or> (terminal_invalidation_rule r \<and> get r ''state'' = Str ''SATISFIED'')) results,
          oc_expired = (case (expiresMs, nowMs) of (Some e, Some n) \<Rightarrow> e \<le> n \<and> \<not> eligible | _ \<Rightarrow> False),
          oc_predicates = results_by_id results,
          oc_reason = (if eligible then Str ''TRIGGER_ELIGIBLE'' else blockingReason opportunity)\<rparr>)"

definition incrementallySupportedPredicate :: "jsval \<Rightarrow> bool" where
  "incrementallySupportedPredicate condition =
     (let norm = (\<lambda>k. to_upper (trim (str_or_empty (get condition k)))); predicateType = norm ''predicate_type''
      in if predicateType = ''BREAK_RETEST_SEQUENCE'' then True
         else if predicateType \<in> {''ZONE_TOUCH'', ''REJECTION_PATTERN''} then
           (get condition ''atomic_component'' = Bool True \<or> truthy (get condition ''subsumed_by_condition_id'')
            \<or> (get condition ''required_for_trigger'' \<noteq> Bool True \<and> norm ''importance'' \<notin> {''PRIMARY'', ''MANDATORY''}))
         else predicateType = ''PRICE_RELATION'' \<and> (norm ''role'' = ''INVALIDATION'' \<or> norm ''effect'' = ''BLOCK_IF_TRUE''))"

definition canEvaluateSetupIncrementally :: "jsval \<Rightarrow> bool" where
  "canEvaluateSetupIncrementally setup_obj = list_all incrementallySupportedPredicate (arr_or_empty (get setup_obj ''conditions''))"

definition setupIsNotYetValidAtRow :: "host \<Rightarrow> jsval \<Rightarrow> jsval \<Rightarrow> bool" where
  "setupIsNotYetValidAtRow H setup_obj row =
     (case (parseTime H (js_or (get setup_obj ''valid_from_paris'') (get setup_obj ''valid_from'')), parseTime H (get row ''time'')) of
        (Some v, Some r) \<Rightarrow> r < v | _ \<Rightarrow> False)"

text \<open>\<open>parseTime(row.time || row.timestamp_paris || row.timestamp) <= cutoffMs\<close>; \<open>null\<close> compares as 0.\<close>

definition ms_or_zero :: "int option \<Rightarrow> int" where
  "ms_or_zero t = (case t of Some n \<Rightarrow> n | None \<Rightarrow> 0)"

definition boundRowsByInstrument :: "host \<Rightarrow> jsval \<Rightarrow> jsval \<Rightarrow> jsobj" where
  "boundRowsByInstrument H rowsByInstrument cutoff =
     List.map (\<lambda>(key, items). (key, Arr (filter (\<lambda>row.
       ms_or_zero (parseTime H (js_or (get row ''time'') (js_or (get row ''timestamp_paris'') (get row ''timestamp''))))
         \<le> ms_or_zero (parseTime H cutoff)) (arr_or_empty items)))) (js_entries rowsByInstrument)"

definition evaluationContextForRow ::
  "host \<Rightarrow> setup_state \<Rightarrow> jsval \<Rightarrow> nat \<Rightarrow> jsval list \<Rightarrow> jsval \<Rightarrow> jsval list \<times> jsobj" where
  "evaluationContextForRow H st row index usableRows rowsByInstrumentInput =
     (if canEvaluateSetupIncrementally (st_setup st)
      then ([row], [(to_str (js_or (get row ''instrument'') (Str ''UNKNOWN'')), Arr [row])])
      else (take (index + 1) usableRows, boundRowsByInstrument H rowsByInstrumentInput (get row ''time'')))"

section \<open>Facts\<close>

lemma disarm_not_terminal:
  "terminal_invalidation_rule (disarm r) \<Longrightarrow> \<not> named (get (disarm r) ''state'') [''SATISFIED'', ''INVALIDATED'']"
  by (cases r) (auto simp: disarm_def terminal_invalidation_rule_def spread_def split: if_splits)

end
