(* ===== verification/Replay_Engine.thy ===== *)
theory Replay_Engine
  imports Replay_Conditions Domain_Helpers Lifecycle
begin

text \<open>
  The rest of \<open>packages/desk-replay-engine/src/canonical-simulation-engine-v1.js\<close>: the loop that
  replays a plan over the closed candles before the cutoff. With no position open, the setups
  are evaluated in the order of their ranks; a setup is first marked eligible and its entry
  order is tried on later rows only; an open position is only watched for its exit. The state
  is \<open>simulation\<close> and the list of setup states; every step returns both.
\<close>

section \<open>Events\<close>

record sim_event =
  ev_id :: string
  ev_type :: string
  ev_payload :: jsval

definition event :: "host \<Rightarrow> string \<Rightarrow> jsobj \<Rightarrow> sim_event" where
  "event H type payload = \<lparr>ev_id = ''evt_'' @ to_lower type @ ''_'' @ take 12 (canonicalSha256 H (Obj payload)),
     ev_type = type, ev_payload = Obj payload\<rparr>"

definition positionEventProjection :: "jsval \<Rightarrow> jsval" where
  "positionEventProjection position = Obj
     [(''position_id'', get position ''position_id''), (''setup_id'', get position ''setup_id''),
      (''instrument'', get position ''instrument''), (''direction'', get position ''direction''),
      (''status'', get position ''status''), (''entry_price'', get position ''entry_price''),
      (''exit_price'', js_coalesce (get position ''exit_price'') Null),
      (''r_result'', js_coalesce (get position ''r_result'') Null),
      (''unrealized_r'', js_coalesce (get position ''unrealized_r'') Null)]"

definition sim_order_js :: "sim_order \<Rightarrow> jsval" where
  "sim_order_js ord = Obj ([(''order_id'', Str (o_order_id ord)), (''phase'', Str (o_phase ord)),
     (''setup_id'', js_opt_str (o_setup_id ord)), (''instrument'', js_opt_str (o_instrument ord)),
     (''direction'', Str (o_direction ord)), (''side'', Str (o_side ord)), (''order_type'', Str (o_type ord)),
     (''quantity'', Num (o_quantity ord)), (''limit_price'', js_opt_num (o_limit_price ord)),
     (''stop_price'', js_opt_num (o_stop_price ord)), (''status'', Str (o_status ord))]
     @ (if o_cancel_reason ord = [] then [] else [(''cancel_reason'', Str (o_cancel_reason ord))])
     @ (case o_replaced_at ord of Some t \<Rightarrow> [(''replaced_at'', Str t)] | None \<Rightarrow> []))"

definition sim_fill_js :: "sim_fill \<Rightarrow> jsval" where
  "sim_fill_js f = Obj ([(''status'', Str (fl_status f)), (''reason'', Str (fl_reason f)),
     (''price'', js_opt_num (fl_price f)), (''raw_price'', js_opt_num (fl_raw_price f)),
     (''quantity'', Num (fl_quantity f)), (''requested_quantity'', Num (fl_requested f)),
     (''commission_r'', Num (fl_commission_r f))]
     @ (if fl_resolution f = [] then [] else [(''ambiguous_resolution'', Str (fl_resolution f))]))"

definition order_or_undef :: "sim_order option \<Rightarrow> jsval" where
  "order_or_undef ord = (case ord of Some x \<Rightarrow> sim_order_js x | None \<Rightarrow> Undef)"

section \<open>Geometry of a setup and of a position\<close>

text \<open>\<open>firstSetupNumber\<close> is the same function as \<open>firstNumber\<close> of the order simulator.\<close>

definition entryZoneBounds :: "jsval \<Rightarrow> jnum option \<times> jnum option" where
  "entryZoneBounds setup_obj = (let zone = Obj (obj_or_empty (get setup_obj ''entry_zone'')) in
     (firstNumber [get zone ''lower'', get zone ''from'', get zone ''min''],
      firstNumber [get zone ''upper'', get zone ''to'', get zone ''max'']))"

definition canonicalEntryPrice :: "jsval \<Rightarrow> jnum option" where
  "canonicalEntryPrice setup_obj =
     (case entryZoneBounds setup_obj of
        (Some lower, Some upper) \<Rightarrow> Some (if to_lower (to_str (get setup_obj ''direction'')) = ''short'' then lower else upper)
      | _ \<Rightarrow> firstNumber [get setup_obj ''entry_price'', get setup_obj ''entry'', get setup_obj ''order_limit_price''])"

definition firstTargetPrice :: "jsval \<Rightarrow> jnum option" where
  "firstTargetPrice setup_obj =
     (let first = first_elem (get setup_obj ''targets'')
      in sim_number (js_coalesce (get setup_obj ''take_profit_1'') (js_coalesce (get first ''price'')
           (js_coalesce (get first ''target'') (get setup_obj ''tp1'')))))"

definition setup_stop_number :: "jsval \<Rightarrow> jnum option" where
  "setup_stop_number setup_obj = sim_number (js_coalesce (get setup_obj ''stop_loss'') (get setup_obj ''stop''))"

definition entryStopGeometryIsValid :: "string \<Rightarrow> jnum \<Rightarrow> jnum \<Rightarrow> bool" where
  "entryStopGeometryIsValid dir ent stp = (if dir = ''short'' then jlt ent stp else jlt stp ent)"

definition entryTargetGeometryIsValid :: "string \<Rightarrow> jnum \<Rightarrow> jnum \<Rightarrow> bool" where
  "entryTargetGeometryIsValid dir ent tgt = (if dir = ''short'' then jlt tgt ent else jlt ent tgt)"

definition filled_geometry_issue :: "jsval \<Rightarrow> jnum option \<Rightarrow> string option" where
  "filled_geometry_issue setup_obj entryPrice =
     (let dir = sim_direction (get setup_obj ''direction'') in
      case sim_number (js_opt_num entryPrice) of None \<Rightarrow> Some ''ENTRY_PRICE_REQUIRED''
      | Some ent \<Rightarrow> (case setup_stop_number setup_obj of None \<Rightarrow> Some ''STOP_LOSS_REQUIRED''
        | Some stp \<Rightarrow>
            if \<not> entryStopGeometryIsValid dir ent stp then Some ''ENTRY_STOP_GEOMETRY_INVALID''
            else (case firstTargetPrice setup_obj of
                Some tgt \<Rightarrow> if \<not> entryTargetGeometryIsValid dir ent tgt then Some ''ENTRY_TARGET_GEOMETRY_INVALID'' else None
              | None \<Rightarrow> None)))"

definition validateFilledEntryGeometry :: "jsval \<Rightarrow> jnum option \<Rightarrow> jsval" where
  "validateFilledEntryGeometry setup_obj entryPrice =
     (let g = [(''direction'', Str (sim_direction (get setup_obj ''direction''))),
            (''entry'', js_opt_num (sim_number (js_opt_num entryPrice))), (''stop'', js_opt_num (setup_stop_number setup_obj)),
            (''target'', js_opt_num (firstTargetPrice setup_obj))]
      in case filled_geometry_issue setup_obj entryPrice of
           None \<Rightarrow> Obj ((''valid'', Bool True) # g)
         | Some why \<Rightarrow> Obj ((''valid'', Bool False) # (''reason'', Str why) # g))"

definition signedRiskPoints :: "jsval \<Rightarrow> jnum option \<Rightarrow> jnum option \<Rightarrow> jnum option" where
  "signedRiskPoints directionValue entryPrice stopPrice =
     (let dir = sim_direction directionValue in
      case (sim_number (js_opt_num entryPrice), sim_number (js_opt_num stopPrice)) of
        (Some ent, Some stp) \<Rightarrow>
          if \<not> entryStopGeometryIsValid dir ent stp then None
          else Some (sim_round (if dir = ''short'' then jsub stp ent else jsub ent stp))
      | _ \<Rightarrow> None)"

definition positionRiskGeometryIsValid :: "jsval \<Rightarrow> bool" where
  "positionRiskGeometryIsValid position =
     (case (sim_number (get position ''entry_price''), sim_number (get position ''stop_loss'')) of
        (Some ent, Some stp) \<Rightarrow> entryStopGeometryIsValid (sim_direction (get position ''direction'')) ent stp
      | _ \<Rightarrow> False)"

definition priceToR :: "jsval \<Rightarrow> jnum option \<Rightarrow> jnum option" where
  "priceToR position price =
     (case price of None \<Rightarrow> None
      | Some p \<Rightarrow>
          if get position ''entry_price'' = Null \<or> \<not> truthy (get position ''risk_points'') then None
          else if \<not> positionRiskGeometryIsValid position then None
          else let ent = to_num (get position ''entry_price'');
                   pnl = (if to_lower (to_str (get position ''direction'')) = ''short'' then jsub ent p else jsub p ent)
               in Some (sim_round (jdiv pnl (to_num (get position ''risk_points'')))))"

section \<open>Entry and exit of a position\<close>

record sim_entry =
  en_triggered :: bool
  en_rejected :: bool
  en_price :: "jnum option"
  en_mode :: jsval
  en_outcome :: sim_outcome
  en_reason :: string
  en_geometry :: jsval

definition evaluateEntry :: "host \<Rightarrow> jsval \<Rightarrow> jsval \<Rightarrow> nat \<Rightarrow> nat option \<Rightarrow> order_policy \<Rightarrow> sim_entry" where
  "evaluateEntry H setup_obj row index submittedIndex policy =
     (let entryPrice = js_coalesce (get (get setup_obj ''geometry_evaluation'') ''entry_price'')
            (js_opt_num (canonicalEntryPrice setup_obj));
          out = simulateEntryOrderV1 H setup_obj row (Fin (of_nat index))
            (Fin (of_nat (case submittedIndex of Some i \<Rightarrow> i | None \<Rightarrow> 0))) (order_policy_js policy) entryPrice;
          triggered = so_status out \<in> {''FILLED'', ''PARTIALLY_FILLED''};
          price = (if triggered then fl_price (so_fill out) else None);
          issue = (if triggered then filled_geometry_issue setup_obj price else None);
          geometry = (if triggered then validateFilledEntryGeometry setup_obj price else Obj [(''valid'', Bool True)]);
          mode = js_or (get setup_obj ''entry_mode'') (js_or (get setup_obj ''order_type'') (Str ''UNKNOWN''))
      in case issue of
           Some why \<Rightarrow> \<lparr>en_triggered = False, en_rejected = True, en_price = price, en_mode = mode,
             en_outcome = out, en_reason = why, en_geometry = geometry\<rparr>
         | None \<Rightarrow> \<lparr>en_triggered = triggered, en_rejected = False, en_price = price, en_mode = mode,
             en_outcome = out, en_reason = so_reason out, en_geometry = geometry\<rparr>)"

definition sim_entry_js :: "sim_entry \<Rightarrow> jsval" where
  "sim_entry_js en = (let out = en_outcome en in Obj
     [(''triggered'', Bool (en_triggered en)), (''rejected'', Bool (en_rejected en)), (''price'', js_opt_num (en_price en)),
      (''mode'', en_mode en), (''schema_version'', Str ''order_simulation_outcome_v1''),
      (''simulator_version'', Str ''1.0.0''), (''phase'', Str (so_phase out)), (''status'', Str (so_status out)),
      (''order'', order_or_undef (so_order out)), (''fill'', sim_fill_js (so_fill out)),
      (''review_required'', Bool (so_review_required out)), (''reason'', Str (en_reason en)),
      (''policy_snapshot'', order_policy_js (so_policy out)), (''geometry'', en_geometry en)])"

definition openSimulatedPosition :: "jsval \<Rightarrow> sim_entry \<Rightarrow> jsval \<Rightarrow> nat \<Rightarrow> jsval option" where
  "openSimulatedPosition setup_obj en row index =
     (let stp = setup_stop_number setup_obj; f = so_fill (en_outcome en) in
      case signedRiskPoints (get setup_obj ''direction'') (en_price en) stp of None \<Rightarrow> None
      | Some risk \<Rightarrow> Some (Obj
         [(''position_id'', Str (''simpos_'' @ to_str (get setup_obj ''setup_id'') @ ''_'' @ nat_str (int index))),
          (''setup_id'', get setup_obj ''setup_id''), (''instrument'', get setup_obj ''instrument''),
          (''direction'', get setup_obj ''direction''), (''status'', Str ''OPEN''),
          (''entry_price'', js_opt_num (en_price en)),
          (''entry_raw_price'', js_coalesce (js_opt_num (fl_raw_price f)) (js_opt_num (en_price en))),
          (''entry_time'', get row ''time''), (''entry_row'', row),
          (''entry_order'', order_or_undef (so_order (en_outcome en))), (''entry_fill'', sim_fill_js f),
          (''entry_commission_r'', js_or (Num (fl_commission_r f)) (Num (Fin 0))),
          (''quantity'', js_or (Num (fl_quantity f)) (Num (Fin 1))),
          (''stop_loss'', js_opt_num stp), (''take_profit_1'', js_opt_num (firstTargetPrice setup_obj)),
          (''risk_points'', Num risk)]))"

record sim_exit =
  ex_closed :: bool
  ex_review :: bool
  ex_reason :: string
  ex_price :: "jnum option"
  ex_raw_price :: "jnum option"
  ex_order :: jsval
  ex_fill :: jsval

definition evaluatePositionExit :: "jsval \<Rightarrow> jsval \<Rightarrow> order_policy \<Rightarrow> sim_exit" where
  "evaluatePositionExit position row policy =
     (let out = simulateExitOrderV1 position row (order_policy_js policy); f = so_fill out;
          closed = (\<not> so_review_required out \<and> so_status out \<in> {''FILLED'', ''PARTIALLY_FILLED''})
      in \<lparr>ex_closed = closed, ex_review = so_review_required out, ex_reason = so_reason out,
          ex_price = (if closed then fl_price f else None), ex_raw_price = (if closed then fl_raw_price f else None),
          ex_order = order_or_undef (so_order out), ex_fill = sim_fill_js f\<rparr>)"

definition cutoffMarkToMarketExit :: "jsval \<Rightarrow> jsval \<Rightarrow> sim_exit" where
  "cutoffMarkToMarketExit position row =
     (let price = sim_number (get row ''close'');
          quantity = (case sim_number (get position ''quantity'') of Some q \<Rightarrow> q | None \<Rightarrow> Fin 1);
          dir = sim_direction (get position ''direction'')
      in \<lparr>ex_closed = True, ex_review = False, ex_reason = ''CUTOFF_MARK_TO_MARKET'', ex_price = price, ex_raw_price = price,
          ex_order = Obj
            [(''order_id'', Str (''simord_'' @ opt_or (sim_text (get position ''position_id'')) ''position'' @ ''_cutoff_mark_to_market'')),
             (''phase'', Str ''EXIT''), (''setup_id'', js_opt_str (sim_text (get position ''setup_id''))),
             (''instrument'', js_opt_str (sim_text (get position ''instrument''))), (''direction'', Str dir),
             (''side'', Str (if dir = ''short'' then ''BUY'' else ''SELL'')), (''order_type'', Str ''MARKET''),
             (''quantity'', Num quantity), (''limit_price'', Null), (''stop_price'', Null), (''status'', Str ''FILLED'')],
          ex_fill = Obj
            [(''status'', Str (if price = None then ''PENDING'' else ''FILLED'')), (''reason'', Str ''CUTOFF_MARK_TO_MARKET''),
             (''price'', js_opt_num price), (''raw_price'', js_opt_num price),
             (''quantity'', Num (if price = None then Fin 0 else quantity)), (''requested_quantity'', Num quantity),
             (''commission_r'', Num (Fin 0))]\<rparr>)"

definition closePosition :: "jsval \<Rightarrow> sim_exit \<Rightarrow> jsval \<Rightarrow> jsval" where
  "closePosition position ex row =
     (let grossR = priceToR position (ex_price ex);
          cost = sim_round (jadd (num_or_zero (get position ''entry_commission_r'')) (num_or_zero (get (ex_fill ex) ''commission_r'')))
      in Obj (spread (obj_or_empty position)
        [(''status'', Str ''CLOSED''), (''exit_time'', get row ''time''), (''exit_price'', js_opt_num (ex_price ex)),
         (''exit_raw_price'', js_coalesce (js_opt_num (ex_raw_price ex)) (js_opt_num (ex_price ex))),
         (''exit_reason'', Str (ex_reason ex)), (''exit_order'', ex_order ex), (''exit_fill'', ex_fill ex),
         (''gross_r'', js_opt_num grossR), (''execution_cost_r'', Num cost),
         (''r_result'', case grossR of None \<Rightarrow> Null | Some g \<Rightarrow> Num (sim_round (jsub g cost)))]))"

definition markOpenPosition :: "jsval \<Rightarrow> jsval \<Rightarrow> jsval" where
  "markOpenPosition position row = Obj (spread (obj_or_empty position)
     [(''status'', Str ''OPEN''), (''mark_time'', get row ''time''), (''mark_price'', js_opt_num (sim_number (get row ''close''))),
      (''unrealized_r'', js_opt_num (priceToR position (sim_number (get row ''close''))))])"


section \<open>The replay\<close>

record simulation =
  sim_events :: "sim_event list"
  sim_positions :: "jsval list"
  sim_open :: "jsval option"
  sim_status :: string

definition push_event :: "host \<Rightarrow> string \<Rightarrow> jsobj \<Rightarrow> simulation \<Rightarrow> simulation" where
  "push_event H type payload s = s\<lparr>sim_events := sim_events s @ [event H type payload]\<rparr>"

definition advanceOpenPosition :: "host \<Rightarrow> jsval \<Rightarrow> jsval \<Rightarrow> order_policy \<Rightarrow> simulation \<Rightarrow> simulation" where
  "advanceOpenPosition H position row policy s =
     (let ex = evaluatePositionExit position row policy in
      if ex_review ex then
        (push_event H ''POSITION_REVIEW_REQUIRED''
           [(''row'', row), (''position_id'', get position ''position_id''), (''reason'', Str (ex_reason ex))] s)
          \<lparr>sim_status := ''REVIEW_REQUIRED'',
           sim_open := Some (Obj (fset ''review_required'' (Bool True) (obj_or_empty position)))\<rparr>
      else if \<not> ex_closed ex then s
      else let closed = closePosition position ex row in
        (push_event H ''POSITION_CLOSED'' [(''row'', row), (''position'', positionEventProjection closed)]
          (push_event H ''ORDER_FILLED'' [(''row'', row), (''order'', ex_order ex), (''fill'', ex_fill ex)] s))
          \<lparr>sim_positions := sim_positions s @ [closed], sim_open := None\<rparr>)"

definition recordConditionEvaluation :: "host \<Rightarrow> jsval \<Rightarrow> setup_state \<Rightarrow> setup_outcome \<Rightarrow> simulation \<Rightarrow> simulation" where
  "recordConditionEvaluation H row st oc s = push_event H ''CONDITIONS_EVALUATED''
     [(''row_time'', get row ''time''), (''setup_id'', get (st_setup st) ''setup_id''),
      (''trigger_eligible'', get (oc_opportunity oc) ''trigger_eligible''), (''reason'', oc_reason oc),
      (''required_satisfied'', get (oc_condition_evaluation oc) ''required_satisfied''),
      (''required_total'', get (oc_condition_evaluation oc) ''required_total''),
      (''hard_blockers_active'', get (oc_condition_evaluation oc) ''hard_blockers_active'')] s"

definition end_setup :: "string \<Rightarrow> setup_state \<Rightarrow> setup_state" where
  "end_setup newStatus st = st\<lparr>st_terminal := True,
     st_setup := Obj (fset ''status'' (Str newStatus) (obj_or_empty (st_setup st)))\<rparr>"

text \<open>
  \<open>openPositionIfEntryTouched\<close> and \<open>applySetupOutcome\<close> return the setup state, the simulation with
  the events pushed, and the position opened, if any.
\<close>

definition openPositionIfEntryTouched ::
  "host \<Rightarrow> setup_state \<Rightarrow> jsval \<Rightarrow> nat \<Rightarrow> order_policy \<Rightarrow> simulation \<Rightarrow> setup_state \<times> simulation \<times> jsval option" where
  "openPositionIfEntryTouched H st row index policy s =
     (let en = evaluateEntry H (st_setup st) row index (st_confirmationIndex st) policy;
          sid = (''setup_id'', get (st_setup st) ''setup_id'');
          ord = (''order'', order_or_undef (so_order (en_outcome en))); f = (''fill'', sim_fill_js (so_fill (en_outcome en)))
      in if so_review_required (en_outcome en) then
           (st, push_event H ''ORDER_REVIEW_REQUIRED'' [(''row'', row), sid, (''reason'', Str (en_reason en)), ord] s, None)
         else if en_rejected en then
           (end_setup ''REJECTED'' st,
            push_event H ''ORDER_REJECTED'' [(''row'', row), sid, (''reason'', Str (en_reason en)), ord, f,
              (''geometry'', en_geometry en)] s, None)
         else if \<not> en_triggered en then (st, s, None)
         else let st' = end_setup ''TRIGGERED'' st in
           (case openSimulatedPosition (st_setup st') en row index of
              None \<Rightarrow> (st', push_event H ''ORDER_REJECTED''
                [(''row'', row), sid, (''reason'', Str ''ENTRY_RISK_GEOMETRY_INVALID''), ord, f] s, None)
            | Some position \<Rightarrow>
                (st', push_event H ''POSITION_OPENED'' [(''row'', row), (''position'', positionEventProjection position)]
                   (push_event H ''SETUP_TRIGGERED'' [(''row'', row), sid, (''entry'', sim_entry_js en)]
                     (push_event H ''ORDER_FILLED'' [(''row'', row), ord, f] s)), Some position)))"

definition applySetupOutcome ::
  "host \<Rightarrow> setup_state \<Rightarrow> setup_outcome \<Rightarrow> jsval \<Rightarrow> nat \<Rightarrow> order_policy \<Rightarrow> simulation
     \<Rightarrow> setup_state \<times> simulation \<times> jsval option" where
  "applySetupOutcome H st oc row index policy s =
     (case (oc_terminal_invalidation oc, activationSequenceStarted (st_predicates st)) of
        (Some inval, True) \<Rightarrow>
          (end_setup ''INVALIDATED'' st, push_event H ''SETUP_INVALIDATED'' [(''row'', row),
             (''setup_id'', get (st_setup st) ''setup_id''), (''condition_id'', get inval ''condition_id'')] s, None)
      | _ \<Rightarrow>
        if oc_expired oc then
          (end_setup ''EXPIRED'' st, push_event H ''SETUP_EXPIRED'' [(''row'', row),
             (''setup_id'', get (st_setup st) ''setup_id'')] s, None)
        else if \<not> trigger_eligible oc then (st\<lparr>st_confirmationMs := None\<rparr>, s, None)
        else (case st_confirmationMs st of
            None \<Rightarrow> (st\<lparr>st_confirmationMs := parseTime H (get row ''time''), st_confirmationIndex := Some index\<rparr>,
              push_event H ''SETUP_TRIGGER_ELIGIBLE'' [(''row'', row), (''setup_id'', get (st_setup st) ''setup_id'')] s, None)
          | Some confirmed \<Rightarrow>
              if ms_or_zero (parseTime H (get row ''time'')) \<le> confirmed then (st, s, None)
              else openPositionIfEntryTouched H st row index policy s))"

text \<open>
  The setups are visited in the order of their ranks. The code sorts the values of its \<open>Map\<close> on
  every row and updates them in place; ranks never change and the sort is stable, so keeping the
  list sorted is the same. The visit stops at the first setup that opens a position.
\<close>

definition setup_rank :: "setup_state \<Rightarrow> jnum" where
  "setup_rank st = to_num (get (st_setup st) ''rank'')"

definition orderedSetupStates :: "setup_state list \<Rightarrow> setup_state list" where
  "orderedSetupStates sts = js_sort (\<lambda>l r. jlt (Fin 0) (jsub (setup_rank l) (setup_rank r))) sts"

fun evaluate_states ::
  "(setup_state \<Rightarrow> setup_outcome) \<Rightarrow> (setup_state \<Rightarrow> bool) \<Rightarrow> host \<Rightarrow> bool \<Rightarrow> jsval \<Rightarrow> nat \<Rightarrow> order_policy
     \<Rightarrow> setup_state list \<Rightarrow> simulation \<Rightarrow> setup_state list \<times> simulation" where
  "evaluate_states evaluate skip H record_it row index policy [] s = ([], s)"
| "evaluate_states evaluate skip H record_it row index policy (st # rest) s =
     (if st_terminal st \<or> skip st then
        (let (rest', s') = evaluate_states evaluate skip H record_it row index policy rest s in (st # rest', s'))
      else
        (let oc = evaluate st; st1 = st\<lparr>st_predicates := oc_predicates oc\<rparr>;
             s1 = (if record_it then recordConditionEvaluation H row st1 oc s else s);
             (st2, s2, opened) = applySetupOutcome H st1 oc row index policy s1
         in case opened of
              Some position \<Rightarrow> (st2 # rest, s2\<lparr>sim_open := Some position\<rparr>)
            | None \<Rightarrow> (let (rest', s') = evaluate_states evaluate skip H record_it row index policy rest s2
                       in (st2 # rest', s'))))"

text \<open>What a run does not change: rules, opportunity policy, order policy, telemetry, rows by instrument.\<close>

record replay_setting =
  rs_rules :: engine_rules
  rs_policy :: jsval
  rs_orders :: order_policy
  rs_record :: bool
  rs_by_instrument :: jsval

definition evaluateSetupStatesForRow ::
  "host \<Rightarrow> replay_setting \<Rightarrow> jsval list \<Rightarrow> jsval \<Rightarrow> nat \<Rightarrow> setup_state list \<Rightarrow> simulation \<Rightarrow> setup_state list \<times> simulation" where
  "evaluateSetupStatesForRow H G usableRows row index sts s =
     evaluate_states
       (\<lambda>st. let (rows, byInstrument) = evaluationContextForRow H st row index usableRows (rs_by_instrument G)
              in evaluateSetupAtRow H (rs_rules G) st row rows byInstrument (rs_policy G))
       (\<lambda>st. setupIsNotYetValidAtRow H (st_setup st) row) H (rs_record G) row index (rs_orders G)
       (orderedSetupStates sts) s"

definition advanceSimulationRow ::
  "host \<Rightarrow> replay_setting \<Rightarrow> jsval list \<Rightarrow> nat \<Rightarrow> setup_state list \<times> simulation \<Rightarrow> setup_state list \<times> simulation" where
  "advanceSimulationRow H G usableRows index ss =
     (case sim_open (snd ss) of
        Some position \<Rightarrow> (fst ss, advanceOpenPosition H position (usableRows ! index) (rs_orders G) (snd ss))
      | None \<Rightarrow> evaluateSetupStatesForRow H G usableRows (usableRows ! index) index (fst ss) (snd ss))"

text \<open>
  The loop over the rows, from \<open>index\<close> on, \<open>n\<close> rows at most; it leaves early when a review is
  required. \<open>replayPreparedRows\<close> runs it over all rows.
\<close>

fun replay_rows ::
  "host \<Rightarrow> replay_setting \<Rightarrow> jsval list \<Rightarrow> nat \<Rightarrow> nat \<Rightarrow> setup_state list \<times> simulation \<Rightarrow> setup_state list \<times> simulation" where
  "replay_rows H G usableRows index 0 ss = ss"
| "replay_rows H G usableRows index (Suc n) ss =
     (let ss' = advanceSimulationRow H G usableRows index ss in
      if sim_status (snd ss') = ''REVIEW_REQUIRED'' then ss' else replay_rows H G usableRows (Suc index) n ss')"

text \<open>\<open>new Map(setups.map((setup) => [setup.setup_id, createSetupState(setup)]))\<close>: a repeated id keeps its place.\<close>

definition initial_states :: "jsval list \<Rightarrow> setup_state list" where
  "initial_states setups = List.map snd (foldl (\<lambda>acc x. put_field (get x ''setup_id'') (createSetupState x) acc) [] setups)"

definition createReplayState :: "host \<Rightarrow> string \<Rightarrow> nat \<Rightarrow> nat \<Rightarrow> nat \<Rightarrow> order_policy \<Rightarrow> simulation" where
  "createReplayState H startedAt setupCount rowCount ignoredRows policy =
     \<lparr>sim_events = [event H ''SIMULATION_STARTED'' [(''at'', Str startedAt), (''setup_count'', Num (Fin (of_nat setupCount))),
        (''row_count'', Num (Fin (of_nat rowCount))), (''ignored_post_cutoff_rows'', Num (Fin (of_nat ignoredRows))),
        (''order_simulator_version'', Str ''1.0.0''), (''order_simulation_policy'', order_policy_js policy)]],
      sim_positions = [], sim_open = None, sim_status = ''COMPLETED''\<rparr>"

definition replayPreparedRows :: "host \<Rightarrow> replay_setting \<Rightarrow> string \<Rightarrow> jsval list \<Rightarrow> nat \<Rightarrow> jsval list \<Rightarrow> simulation" where
  "replayPreparedRows H G startedAt setups ignoredRows usableRows =
     snd (replay_rows H G usableRows 0 (length usableRows)
       (initial_states setups, createReplayState H startedAt (length setups) (length usableRows) ignoredRows (rs_orders G)))"

definition closeOpenPositionAtCutoff :: "host \<Rightarrow> bool \<Rightarrow> jsval list \<Rightarrow> simulation \<Rightarrow> simulation" where
  "closeOpenPositionAtCutoff H markToMarket usableRows s =
     (case sim_open s of None \<Rightarrow> s
      | Some position \<Rightarrow>
          (let lastRow = (if usableRows = [] then get position ''entry_row'' else last usableRows) in
           if markToMarket then
             (let ex = cutoffMarkToMarketExit position lastRow; closed = closePosition position ex lastRow;
                  payload = [(''row'', lastRow), (''position'', positionEventProjection closed)]
              in (push_event H ''POSITION_CLOSED'' payload (push_event H ''POSITION_CLOSED_AT_CUTOFF'' payload
                   (push_event H ''ORDER_FILLED'' [(''row'', lastRow), (''order'', ex_order ex), (''fill'', ex_fill ex)] s)))
                   \<lparr>sim_positions := sim_positions s @ [closed], sim_open := None\<rparr>)
           else
             (let marked = markOpenPosition position lastRow
              in (push_event H ''POSITION_MARKED_OPEN'' [(''row'', lastRow), (''position'', positionEventProjection marked)] s)
                   \<lparr>sim_positions := sim_positions s @ [marked]\<rparr>)))"


section \<open>Preparing and running a simulation\<close>

definition first_object :: "jsval list \<Rightarrow> jsval" where
  "first_object values = (case List.find is_obj values of Some v \<Rightarrow> v | None \<Rightarrow> Obj [])"

definition selectPlan :: "jsval \<Rightarrow> jsval \<Rightarrow> jsval" where
  "selectPlan plan artifact =
     (if is_obj plan then plan
      else if is_obj artifact \<and> is_obj (get artifact ''deterministic_execution_plan'')
      then get artifact ''deterministic_execution_plan'' else Null)"

definition selectDatasetRows :: "jsval \<Rightarrow> jsval \<Rightarrow> jsval list" where
  "selectDatasetRows rows dataset =
     (case (rows, get dataset ''rows'', get dataset ''candles'') of
        (Arr xs, _, _) \<Rightarrow> xs | (_, Arr xs, _) \<Rightarrow> xs | (_, _, Arr xs) \<Rightarrow> xs | _ \<Rightarrow> [])"

definition selectCutoff :: "jsval \<Rightarrow> jsval \<Rightarrow> jsval \<Rightarrow> jsval \<Rightarrow> string option" where
  "selectCutoff scope dataset cutoffParis cutoffUtc =
     (let timeRange = Obj (obj_or_empty (get dataset ''time_range'')) in
      firstText [cutoffParis, cutoffUtc, get scope ''cutoff_paris'', get scope ''cutoff_utc'',
        get dataset ''cutoff_paris'', get dataset ''cutoff_utc'', get timeRange ''to_paris'', get timeRange ''to_utc''])"

definition selectOrderSimulationPolicy :: "jsval \<Rightarrow> jsval \<Rightarrow> jsval \<Rightarrow> order_policy" where
  "selectOrderSimulationPolicy parameters dataset plan = normalizeOrderSimulationPolicyV1 (first_object
     [get parameters ''order_simulation_policy'', get parameters ''order_simulation'',
      get dataset ''order_simulation_policy'', get plan ''order_simulation_policy''])"

definition normalizePositionAtCutoffPolicy :: "string option \<Rightarrow> string" where
  "normalizePositionAtCutoffPolicy value =
     (if to_upper (case value of Some v \<Rightarrow> v | None \<Rightarrow> []) \<in>
          {''MARK_TO_MARKET_CLOSE'', ''CLOSE_MARK_TO_MARKET'', ''CLOSE_AT_LAST_CLOSE''}
      then ''MARK_TO_MARKET_CLOSE'' else ''MARK_OPEN'')"

definition selectSimulationPolicy :: "jsval \<Rightarrow> jsval \<Rightarrow> jsval \<Rightarrow> jsval" where
  "selectSimulationPolicy parameters dataset plan =
     (let source = first_object [get parameters ''simulation_policy'', get parameters ''simulation'',
            get dataset ''simulation_policy'', get plan ''simulation_policy'']
      in Obj [(''schema_version'', Str ''canonical_simulation_policy_v1''),
              (''position_at_cutoff'', Str (normalizePositionAtCutoffPolicy (firstText
                 [get source ''position_at_cutoff'', get source ''open_position_at_cutoff'',
                  get (Obj (obj_or_empty parameters)) ''position_at_cutoff''])))])"

definition selectSimulationTelemetryPolicy :: "jsval \<Rightarrow> bool" where
  "selectSimulationTelemetryPolicy parameters =
     (get (first_object [get parameters ''simulation_telemetry'', get parameters ''telemetry'', get parameters ''event_policy''])
        ''record_condition_evaluations'' \<noteq> Bool False)"

definition datasetContentHash :: "jsval \<Rightarrow> string option" where
  "datasetContentHash dataset = (if \<not> is_obj dataset then None
     else firstText [get dataset ''dataset_hash'', get dataset ''provenance_hash'', get dataset ''content_hash''])"

definition fallbackSimulationRunId :: "host \<Rightarrow> string option \<Rightarrow> string option \<Rightarrow> jsval \<Rightarrow> jsval \<Rightarrow> string" where
  "fallbackSimulationRunId H strategyVersionId datasetId parameters seed = ''sim_'' @ take 16 (canonicalSha256 H (Obj
     [(''strategy_version_id'', js_opt_str strategyVersionId), (''dataset_id'', js_opt_str datasetId),
      (''parameters'', parameters), (''reproducibility_seed'', seed)]))"

definition default_of :: "jsval \<Rightarrow> jsval \<Rightarrow> jsval" where
  "default_of v d = (if v = Undef then d else v)"

definition run_started_at :: "jsval \<Rightarrow> jsval \<Rightarrow> string option \<Rightarrow> string" where
  "run_started_at input dataset cutoff = opt_or (firstText
     [get input ''run_started_at_utc'', get dataset ''sealed_at_utc'', get dataset ''created_at'', js_opt_str cutoff])
     ''1970-01-01T00:00:00.000Z''"

definition buildResultBase :: "host \<Rightarrow> jsval \<Rightarrow> jsval \<Rightarrow> jsval \<Rightarrow> string option \<Rightarrow> jsobj" where
  "buildResultBase H input dataset plan cutoff =
     (let parameters = default_of (get input ''parameters'') (Obj []);
          seed = default_of (get input ''reproducibility_seed'') (Str ''default-seed-v1'');
          strategyVersionId = firstText [get input ''strategy_version_id'',
            get (get input ''compiled_artifact'') ''strategy_version_id'', get plan ''strategy_version_id''];
          datasetId = firstText [get dataset ''dataset_id'', get dataset ''id'']
      in [(''schema_version'', Str ''canonical_simulation_result_v1''), (''simulation_engine'', Str ''desk-replay-engine''),
          (''simulation_engine_version'', Str ''1.0.0''),
          (''run_id'', Str (opt_or (sim_text (get input ''run_id''))
             (fallbackSimulationRunId H strategyVersionId datasetId parameters seed))),
          (''strategy_version_id'', js_opt_str strategyVersionId), (''dataset_id'', js_opt_str datasetId),
          (''dataset_hash'', js_opt_str (datasetContentHash dataset)),
          (''parameters_hash'', Str (js_hash H (js_or parameters (Obj [])))),
          (''reproducibility_seed'', seed), (''cutoff'', js_opt_str cutoff),
          (''run_started_at_utc'', Str (run_started_at input dataset cutoff))])"

definition candleIsClosed :: "jsval \<Rightarrow> bool" where
  "candleIsClosed row \<longleftrightarrow> get row ''closed'' \<noteq> Bool False \<and> get row ''is_closed'' \<noteq> Bool False
     \<and> to_upper (to_str (js_or (get row ''status'') (Str ''CLOSED''))) \<noteq> ''OPEN''"

definition normalizeRow :: "jsval \<Rightarrow> jsval" where
  "normalizeRow row =
     (let source = Obj (obj_or_empty row); num = (\<lambda>k. js_opt_num (sim_number (get source k)))
      in Obj (spread (obj_or_empty row)
        [(''instrument'', js_opt_str (firstText [get source ''instrument'', get source ''symbol'', get source ''contract''])),
         (''timeframe'', js_opt_str (firstText [get source ''timeframe'', get source ''interval'', Str ''M1''])),
         (''time'', js_opt_str (firstText [get source ''timestamp_paris'', get source ''close_time_paris'',
            get source ''time_paris'', get source ''timestamp'', get source ''time'', get source ''candle_close_utc'',
            get source ''close_timestamp_utc''])),
         (''open'', num ''open''), (''high'', num ''high''), (''low'', num ''low''), (''close'', num ''close''),
         (''closed'', Bool (candleIsClosed source))]))"

definition isUsableClosedRow :: "host \<Rightarrow> jsval \<Rightarrow> bool" where
  "isUsableClosedRow H row \<longleftrightarrow> truthy (get row ''closed'') \<and> parseTime H (get row ''time'') \<noteq> None
     \<and> list_all (\<lambda>k. get row k \<noteq> Null) [''open'', ''high'', ''low'', ''close'']"

text \<open>\<open>parseTime(left.time) - parseTime(right.time) || String(left.instrument).localeCompare(...)\<close> is positive.\<close>

definition row_after :: "host \<Rightarrow> jsval \<Rightarrow> jsval \<Rightarrow> bool" where
  "row_after H l r =
     (let d = ms_or_zero (parseTime H (get l ''time'')) - ms_or_zero (parseTime H (get r ''time''))
      in if d \<noteq> 0 then 0 < d else 0 < locale_compare H (to_str (get l ''instrument'')) (to_str (get r ''instrument'')))"

definition normalizeRows :: "host \<Rightarrow> jsval list \<Rightarrow> jsval list" where
  "normalizeRows H rows = js_sort (row_after H) (filter (isUsableClosedRow H) (List.map normalizeRow rows))"

definition normalizeSetups :: "host \<Rightarrow> jsval list \<Rightarrow> jsval list" where
  "normalizeSetups H setups = js_sort (\<lambda>l r.
       let d = jsub (to_num (get l ''rank'')) (to_num (get r ''rank''))
       in if truthy (Num d) then jlt (Fin 0) d
          else 0 < locale_compare H (to_str (get l ''setup_id'')) (to_str (get r ''setup_id'')))
     (List.map (\<lambda>(index, x). Obj (spread (obj_or_empty x)
         [(''rank'', case get x ''rank'' of Num n \<Rightarrow> if is_integer n then Num n else Num (Fin (of_nat (index + 1)))
              | _ \<Rightarrow> Num (Fin (of_nat (index + 1)))),
          (''backend_can_trigger'', Bool (get (get x ''trigger_policy'') ''backend_can_trigger'' \<noteq> Bool False))]))
       (enumerate 0 (filter (\<lambda>x. get x ''compile_status'' = Str ''COMPILED'') setups)))"

definition groupRowsByInstrument :: "jsval list \<Rightarrow> jsval" where
  "groupRowsByInstrument rows = Obj (foldl (\<lambda>grouped row.
     let key = to_str (js_or (get row ''instrument'') (Str ''UNKNOWN''))
     in fset key (Arr (arr_or_empty (fget grouped key) @ [row])) grouped) [] rows)"

definition hasPlanSetupArray :: "jsval \<Rightarrow> bool" where
  "hasPlanSetupArray plan =
     (case (get plan ''ranked_setups'', get plan ''setups'') of (Arr _, _) \<Rightarrow> True | (_, Arr _) \<Rightarrow> True | _ \<Rightarrow> False)"

definition selectPlanSetups :: "jsval \<Rightarrow> jsval list" where
  "selectPlanSetups plan =
     (case (get plan ''ranked_setups'', get plan ''setups'') of (Arr xs, _) \<Rightarrow> xs | (_, Arr xs) \<Rightarrow> xs | _ \<Rightarrow> [])"

definition planValidationIssue :: "jsval \<Rightarrow> string option" where
  "planValidationIssue plan =
     (if \<not> is_obj plan then Some ''DETERMINISTIC_PLAN_REQUIRED''
      else if get plan ''valid'' \<noteq> Bool True then Some ''DETERMINISTIC_PLAN_NOT_COMPILABLE''
      else if \<not> hasPlanSetupArray plan then Some ''DETERMINISTIC_PLAN_NOT_COMPILABLE'' else None)"

definition datasetIsSealed :: "jsval \<Rightarrow> bool" where
  "datasetIsSealed dataset \<longleftrightarrow> get dataset ''sealed'' = Bool True \<or> to_upper (str_or_empty (get dataset ''status'')) = ''READY''"

definition validateSimulationInput :: "host \<Rightarrow> jsval \<Rightarrow> jsval \<Rightarrow> jsval list \<Rightarrow> string option \<Rightarrow> string list" where
  "validateSimulationInput H plan dataset normalizedRows cutoff = uniq
     ((case planValidationIssue plan of Some i \<Rightarrow> [i] | None \<Rightarrow> []) @
      (if \<not> is_obj dataset then [''SEALED_DATASET_REQUIRED''] else []) @
      (if is_obj dataset \<and> \<not> datasetIsSealed dataset then [''DATASET_NOT_SEALED''] else []) @
      (if datasetContentHash dataset = None then [''DATASET_HASH_REQUIRED''] else []) @
      (if normalizedRows = [] then [''DATASET_ROWS_REQUIRED''] else []) @
      (if parseTime H (js_opt_str cutoff) = None then [''CUTOFF_REQUIRED''] else []))"

definition sim_event_js :: "sim_event \<Rightarrow> jsval" where
  "sim_event_js e = Obj [(''event_id'', Str (ev_id e)), (''type'', Str (ev_type e)), (''payload'', ev_payload e)]"

definition emptyMetrics :: jsval where
  "emptyMetrics = Obj ([(''schema_version'', Str ''canonical_simulation_metrics_v1''), (''metric_version'', Str ''1.0.0'')]
     @ List.map (\<lambda>k. (k, Num (Fin 0))) [''trade_count'', ''open_position_count'', ''total_r'', ''win_count'',
         ''loss_count'', ''win_rate'', ''max_drawdown_r'', ''final_equity_r''])"

definition finalizeResult :: "host \<Rightarrow> jsobj \<Rightarrow> jsobj" where
  "finalizeResult H result =
     (let withoutHashes = fset ''metrics_hash'' (Str (js_hash H (js_or (fget result ''metrics'') (Obj [])))) result
      in fset ''content_hash'' (Str (js_hash H (Obj withoutHashes))) withoutHashes)"

definition usable_rows :: "host \<Rightarrow> string option \<Rightarrow> jsval list \<Rightarrow> jsval list" where
  "usable_rows H cutoff normalizedRows = filter (\<lambda>row.
     ms_or_zero (parseTime H (get row ''time'')) \<le> ms_or_zero (parseTime H (js_opt_str cutoff))) normalizedRows"

definition runCanonicalSimulationV1 :: "host \<Rightarrow> engine_rules \<Rightarrow> jsval \<Rightarrow> jsobj" where
  "runCanonicalSimulationV1 H R input =
     (let dataset = Obj (obj_or_empty (get input ''dataset''));
          plan = selectPlan (get input ''deterministic_execution_plan'') (get input ''compiled_artifact'');
          parameters = get input ''parameters'';
          normalizedRows = normalizeRows H (selectDatasetRows (get input ''rows'') dataset);
          cutoff = selectCutoff (get input ''scope'') dataset (get input ''cutoff_paris'') (get input ''cutoff_utc'');
          orders = selectOrderSimulationPolicy parameters dataset plan;
          simulationPolicy = selectSimulationPolicy parameters dataset plan;
          base = buildResultBase H input dataset plan cutoff;
          issues = validateSimulationInput H plan dataset normalizedRows cutoff
      in if issues \<noteq> [] then finalizeResult H (spread base
           [(''status'', Str ''REJECTED''), (''reasons'', Arr (List.map Str issues)), (''events'', Arr []),
            (''positions'', Arr []), (''metrics'', emptyMetrics)])
         else
           (let usableRows = usable_rows H cutoff normalizedRows;
                ignored = length normalizedRows - length usableRows;
                setting = \<lparr>rs_rules = R, rs_policy = default_of (get input ''policy'') (default_policy R), rs_orders = orders,
                  rs_record = selectSimulationTelemetryPolicy parameters,
                  rs_by_instrument = js_or (get input ''rowsByInstrument'') (groupRowsByInstrument usableRows)\<rparr>;
                replay = replayPreparedRows H setting (run_started_at input dataset cutoff)
                  (normalizeSetups H (selectPlanSetups plan)) ignored usableRows;
                final = closeOpenPositionAtCutoff H
                  (get simulationPolicy ''position_at_cutoff'' = Str ''MARK_TO_MARKET_CLOSE'') usableRows replay
            in finalizeResult H (spread base
              [(''status'', Str (sim_status replay)),
               (''data_quality'', Obj [(''input_rows'', js_count normalizedRows), (''consumed_rows'', js_count usableRows),
                  (''ignored_post_cutoff_rows'', Num (Fin (of_nat ignored))), (''cutoff_enforced'', Bool True)]),
               (''order_simulator_version'', Str ''1.0.0''), (''order_simulation_policy'', order_policy_js orders),
               (''simulation_policy'', simulationPolicy), (''events'', Arr (List.map sim_event_js (sim_events final))),
               (''positions'', Arr (sim_positions final)),
               (''metrics'', build_metrics R (sim_positions final) (Obj [(''rows'', Arr usableRows)]))])))"

section \<open>At most one open position\<close>

text \<open>
  The abstract desk: flat or in one position. \<open>trace_open b types\<close> runs a sequence of event types
  from \<open>b\<close>; opening while in a position and closing while flat are errors (\<open>None\<close>).
\<close>

fun trace_open :: "bool \<Rightarrow> string list \<Rightarrow> bool option" where
  "trace_open b [] = Some b"
| "trace_open b (t # ts) =
     (if t = ''POSITION_OPENED'' then (if b then None else trace_open True ts)
      else if t = ''POSITION_CLOSED'' then (if b then trace_open False ts else None)
      else trace_open b ts)"

lemma trace_open_append: "trace_open b (ts @ us) = Option.bind (trace_open b ts) (\<lambda>b'. trace_open b' us)"
  by (induction b ts rule: trace_open.induct) auto

definition event_types :: "simulation \<Rightarrow> string list" where
  "event_types s = List.map ev_type (sim_events s)"

text \<open>The simulation \<open>s\<close> implements the abstract desk in state \<open>b\<close>; closed positions are the closing events.\<close>

definition implements :: "bool \<Rightarrow> simulation \<Rightarrow> bool" where
  "implements b s \<longleftrightarrow> trace_open False (event_types s) = Some b
     \<and> count_list (event_types s) ''POSITION_CLOSED'' = length (sim_positions s)
     \<and> list_all (\<lambda>p. get p ''status'' = Str ''CLOSED'') (sim_positions s)"

definition consistent :: "setup_state list \<times> simulation \<Rightarrow> bool" where
  "consistent ss \<longleftrightarrow> implements (sim_open (snd ss) \<noteq> None) (snd ss)"

lemma push_event_simps [simp]:
  "sim_open (push_event H t pl s) = sim_open s" "sim_positions (push_event H t pl s) = sim_positions s"
  "sim_status (push_event H t pl s) = sim_status s" "event_types (push_event H t pl s) = event_types s @ [t]"
  by (simp_all add: push_event_def event_types_def event_def)

lemma event_types_update [simp]:
  "event_types (s\<lparr>sim_open := op\<rparr>) = event_types s" "event_types (s\<lparr>sim_status := st\<rparr>) = event_types s"
  "event_types (s\<lparr>sim_positions := ps\<rparr>) = event_types s"
  by (simp_all add: event_types_def)

lemma implements_simps [simp]:
  "implements b (s\<lparr>sim_open := op\<rparr>) = implements b s" "implements b (s\<lparr>sim_status := st\<rparr>) = implements b s"
  by (simp_all add: implements_def)

lemma implements_push [simp]:
  "t \<noteq> ''POSITION_OPENED'' \<Longrightarrow> t \<noteq> ''POSITION_CLOSED'' \<Longrightarrow> implements b (push_event H t pl s) = implements b s"
  "implements b (push_event H ''POSITION_OPENED'' pl s) \<longleftrightarrow> b \<and> implements False s"
  by (auto simp: implements_def trace_open_append bind_eq_Some_conv)

lemma implements_closed:
  "implements True s \<Longrightarrow> get p ''status'' = Str ''CLOSED'' \<Longrightarrow>
     implements False ((push_event H ''POSITION_CLOSED'' pl s)\<lparr>sim_positions := sim_positions s @ [p], sim_open := op\<rparr>)"
  by (simp add: implements_def trace_open_append)

lemma closePosition_status: "get (closePosition position ex row) ''status'' = Str ''CLOSED''"
  by (simp add: closePosition_def Let_def spread_def)

lemma advanceOpenPosition_consistent:
  assumes "implements True s" and "sim_open s = Some position"
  shows "consistent (sts, advanceOpenPosition H position row policy s)"
  using assms
  by (auto simp: advanceOpenPosition_def Let_def consistent_def closePosition_status)
     (rule implements_closed[of "push_event H ''ORDER_FILLED'' _ s", simplified]; simp add: closePosition_status)

lemma openPosition_implements:
  assumes "implements False s" and "openPositionIfEntryTouched H st row index policy s = (st', s', opened)"
  shows "implements (opened \<noteq> None) s' \<and> sim_open s' = sim_open s"
proof -
  let ?en = "evaluateEntry H (st_setup st) row index (st_confirmationIndex st) policy"
  show ?thesis
  proof (cases "openSimulatedPosition (st_setup (end_setup ''TRIGGERED'' st)) ?en row index")
    case None
    with assms show ?thesis
      by (auto simp: openPositionIfEntryTouched_def Let_def split: if_splits)
  next
    case (Some p)
    with assms show ?thesis
      by (auto simp: openPositionIfEntryTouched_def Let_def split: if_splits) (metis option.distinct(1) option.exhaust)
  qed
qed

lemma applySetupOutcome_implements:
  assumes "implements False s" and "applySetupOutcome H st oc row index policy s = (st', s', opened)"
  shows "implements (opened \<noteq> None) s' \<and> sim_open s' = sim_open s"
  using assms openPosition_implements[OF assms(1)]
  by (auto simp: applySetupOutcome_def split: if_splits option.splits bool.splits)

lemma evaluate_states_consistent:
  assumes "implements False s" and "sim_open s = None"
  shows "consistent (evaluate_states evaluate skip H record_it row index policy sts s)"
  using assms
proof (induction sts arbitrary: s)
  case Nil
  then show ?case by (simp add: consistent_def)
next
  case (Cons st rest)
  let ?oc = "evaluate st"
  let ?st1 = "st\<lparr>st_predicates := oc_predicates ?oc\<rparr>"
  let ?s1 = "if record_it then recordConditionEvaluation H row ?st1 ?oc s else s"
  obtain st2 s2 opened where ap: "applySetupOutcome H ?st1 ?oc row index policy ?s1 = (st2, s2, opened)"
    by (cases "applySetupOutcome H ?st1 ?oc row index policy ?s1") auto
  have s1: "implements False ?s1" "sim_open ?s1 = None"
    using Cons.prems by (auto simp: recordConditionEvaluation_def)
  note im = applySetupOutcome_implements[OF s1(1) ap]
  show ?case
  proof (cases "st_terminal st \<or> skip st")
    case True
    with Cons.IH[OF Cons.prems] show ?thesis by (auto simp: consistent_def split: prod.splits)
  next
    case False
    then show ?thesis using Cons.IH[of s2] im s1(2) ap
      by (cases opened) (auto simp: Let_def consistent_def split: prod.splits)
  qed
qed

text \<open>The loop is a system with this invariant.\<close>

interpretation replay: invariant_system "\<lambda>ss index. advanceSimulationRow H G usableRows index ss" consistent
  for H G usableRows
proof
  fix ss :: "setup_state list \<times> simulation" and index
  assume "consistent ss"
  then show "consistent (advanceSimulationRow H G usableRows index ss)"
    by (auto simp: advanceSimulationRow_def evaluateSetupStatesForRow_def consistent_def[of ss]
        intro!: advanceOpenPosition_consistent evaluate_states_consistent split: option.splits)
qed

lemma replay_rows_iterate:
  "\<exists>k \<le> n. replay_rows H G rows i n ss = replay.iterate H G rows ss [i..<i + k]"
proof (induction n arbitrary: i ss)
  case 0
  then show ?case by (simp add: replay.iterate_def)
next
  case (Suc n)
  let ?ss = "advanceSimulationRow H G rows i ss"
  have one: "replay.iterate H G rows ss (i # is) = replay.iterate H G rows ?ss is" for "is"
    by (simp add: replay.iterate_def)
  show ?case
  proof (cases "sim_status (snd ?ss) = ''REVIEW_REQUIRED''")
    case True
    then show ?thesis by (intro exI[of _ 1]) (simp add: Let_def replay.iterate_def)
  next
    case False
    obtain k where k: "k \<le> n" "replay_rows H G rows (Suc i) n ?ss = replay.iterate H G rows ?ss [Suc i..<Suc i + k]"
      using Suc by blast
    moreover have "[i..<i + Suc k] = i # [Suc i..<Suc i + k]" by (simp add: upt_conv_Cons del: upt_Suc)
    ultimately show ?thesis using False one by (intro exI[of _ "Suc k"]) (simp only: Let_def replay_rows.simps if_False, simp)
  qed
qed

lemma replay_rows_consistent: "consistent ss \<Longrightarrow> consistent (replay_rows H G rows i n ss)"
  using replay_rows_iterate[of n H G rows i ss] replay.inv_iterate by metis

lemma initial_consistent: "consistent (sts, createReplayState H at1 n m k policy)"
  by (simp add: consistent_def createReplayState_def implements_def event_types_def event_def)

section \<open>No look-ahead\<close>

definition extends :: "simulation \<Rightarrow> simulation \<Rightarrow> bool" where
  "extends s s' \<longleftrightarrow> (\<exists>more. sim_events s' = sim_events s @ more)"

lemma extends_refl [simp]: "extends s s"
  by (simp add: extends_def)

lemma extends_trans: "extends s s' \<Longrightarrow> extends s' s'' \<Longrightarrow> extends s s''"
  by (auto simp: extends_def)

lemma extends_push [simp]: "extends s (push_event H t pl s)"
  by (simp add: extends_def push_event_def)

lemma extends_push2: "extends s s' \<Longrightarrow> extends s (push_event H t pl s')"
  using extends_trans extends_push by blast

lemma extends_update [simp]:
  "extends s (s'\<lparr>sim_open := op\<rparr>) = extends s s'" "extends s (s'\<lparr>sim_status := st\<rparr>) = extends s s'"
  "extends s (s'\<lparr>sim_positions := ps\<rparr>) = extends s s'"
  by (simp_all add: extends_def)

lemma advanceOpenPosition_extends: "extends s (advanceOpenPosition H position row policy s)"
  by (simp add: advanceOpenPosition_def Let_def extends_push2)

lemma applySetupOutcome_extends: "extends s (fst (snd (applySetupOutcome H st oc row index policy s)))"
  by (simp add: applySetupOutcome_def openPositionIfEntryTouched_def Let_def extends_push2
      split: option.split bool.split)

lemma evaluate_states_extends:
  "extends s (snd (evaluate_states evaluate skip H record_it row index policy sts s))"
proof (induction sts arbitrary: s)
  case (Cons st rest)
  let ?oc = "evaluate st"
  let ?st1 = "st\<lparr>st_predicates := oc_predicates ?oc\<rparr>"
  let ?s1 = "if record_it then recordConditionEvaluation H row ?st1 ?oc s else s"
  obtain st2 s2 opened where ap: "applySetupOutcome H ?st1 ?oc row index policy ?s1 = (st2, s2, opened)"
    by (cases "applySetupOutcome H ?st1 ?oc row index policy ?s1") auto
  have "extends s ?s1" by (simp add: recordConditionEvaluation_def)
  with applySetupOutcome_extends[of ?s1 H ?st1 ?oc row index policy] ap have s2: "extends s s2"
    by (auto intro: extends_trans)
  with Cons.IH[of s] Cons.IH[of s2] ap show ?case
    by (auto simp: Let_def split: prod.splits option.splits intro: extends_trans)
qed simp

lemma advance_extends: "extends (snd ss) (snd (advanceSimulationRow H G rows i ss))"
  by (auto simp: advanceSimulationRow_def evaluateSetupStatesForRow_def
      intro: advanceOpenPosition_extends evaluate_states_extends split: option.split)

lemma replay_rows_extends: "extends (snd ss) (snd (replay_rows H G rows i n ss))"
proof (induction n arbitrary: i ss)
  case (Suc n)
  then show ?case
    using advance_extends[of ss H G rows i] extends_trans[OF advance_extends Suc] by (simp add: Let_def)
qed simp

lemma replay_rows_longer: "extends (snd (replay_rows H G rows i n ss)) (snd (replay_rows H G rows i (n + m) ss))"
  by (induction n arbitrary: i ss) (auto simp: Let_def intro: replay_rows_extends)

text \<open>One row, with what comes after it changed.\<close>

text \<open>
  What a later state of the market adds to the rows of an instrument: rows dated after \<open>t\<close>, wherever they stand; a row without
  a date counts as dated at 0. A later dataset names the same instruments and only adds such rows to each.
\<close>

abbreviation row_ms :: "host \<Rightarrow> jsval \<Rightarrow> int" where
  "row_ms H row \<equiv> ms_or_zero (parseTime H (js_or (get row ''time'') (js_or (get row ''timestamp_paris'') (get row ''timestamp''))))"

inductive adds_later :: "host \<Rightarrow> int \<Rightarrow> jsval list \<Rightarrow> jsval list \<Rightarrow> bool" for H t where
  adds_nothing: "adds_later H t [] []"
| adds_kept: "adds_later H t xs ys \<Longrightarrow> adds_later H t (x # xs) (x # ys)"
| adds_new: "t < row_ms H y \<Longrightarrow> adds_later H t xs ys \<Longrightarrow> adds_later H t xs (y # ys)"

definition later_dataset :: "host \<Rightarrow> int \<Rightarrow> jsval \<Rightarrow> jsval \<Rightarrow> bool" where
  "later_dataset H t a b \<longleftrightarrow> list_all2 (\<lambda>old new. fst old = fst new \<and> adds_later H t (arr_or_empty (snd old)) (arr_or_empty (snd new)))
     (js_entries a) (js_entries b)"

lemma adds_later_bounded:
  assumes "adds_later H t xs ys" and "m \<le> t"
  shows "filter (\<lambda>row. row_ms H row \<le> m) ys = filter (\<lambda>row. row_ms H row \<le> m) xs"
  using assms(1) by induction (use assms(2) in auto)

lemma later_dataset_bounded:
  assumes "later_dataset H t a b" and "ms_or_zero (parseTime H cutoff) \<le> t"
  shows "boundRowsByInstrument H b cutoff = boundRowsByInstrument H a cutoff"
proof -
  let ?bound = "\<lambda>(key, items). (key, Arr (filter (\<lambda>row. row_ms H row \<le> ms_or_zero (parseTime H cutoff)) (arr_or_empty items)))"
  have "List.map ?bound ys = List.map ?bound xs"
    if "list_all2 (\<lambda>old new. fst old = fst new \<and> adds_later H t (arr_or_empty (snd old)) (arr_or_empty (snd new))) xs ys" for xs ys
    using that by (induction rule: list_all2_induct) (auto simp: adds_later_bounded[OF _ assms(2)] split: prod.split)
  then show ?thesis using assms(1) by (simp add: boundRowsByInstrument_def later_dataset_def)
qed

text \<open>The replay never changes a field of a setup other than its status.\<close>

lemma get_obj_or_empty [simp]: "fget (obj_or_empty v) k = get v k"
  by (cases v) simp_all

lemma get_end_setup [simp]: "k \<noteq> ''status'' \<Longrightarrow> get (st_setup (end_setup n st)) k = get (st_setup st) k"
  by (simp add: end_setup_def)

lemma end_setup_incremental [simp]: "canEvaluateSetupIncrementally (st_setup (end_setup n st)) = canEvaluateSetupIncrementally (st_setup st)"
  by (simp add: canEvaluateSetupIncrementally_def)

lemma applySetupOutcome_incremental:
  "applySetupOutcome H st oc row index policy s = (st', s', opened) \<Longrightarrow>
     canEvaluateSetupIncrementally (st_setup st') = canEvaluateSetupIncrementally (st_setup st)"
  by (auto simp: applySetupOutcome_def openPositionIfEntryTouched_def Let_def split: if_splits option.splits bool.splits)

lemma evaluate_states_incremental:
  assumes "list_all (\<lambda>st. canEvaluateSetupIncrementally (st_setup st)) sts"
  shows "list_all (\<lambda>st. canEvaluateSetupIncrementally (st_setup st)) (fst (evaluate_states evaluate skip H record_it row index policy sts s))"
  using assms
proof (induction sts arbitrary: s)
  case (Cons st rest)
  then show ?case using applySetupOutcome_incremental
    by (auto simp: Let_def split: prod.split option.split) (metis fst_conv setup_state.simps)+
qed simp

lemma advance_incremental:
  assumes "list_all (\<lambda>st. canEvaluateSetupIncrementally (st_setup st)) (fst ss)"
  shows "list_all (\<lambda>st. canEvaluateSetupIncrementally (st_setup st)) (fst (advanceSimulationRow H G rows i ss))"
proof -
  have "list_all (\<lambda>st. canEvaluateSetupIncrementally (st_setup st)) (orderedSetupStates (fst ss))"
    using assms by (simp add: orderedSetupStates_def list_all_iff)
  then show ?thesis
    using assms evaluate_states_incremental by (simp add: advanceSimulationRow_def evaluateSetupStatesForRow_def split: option.split)
qed

lemma evaluate_states_cong:
  assumes "\<And>st. st \<in> set sts \<Longrightarrow> evaluate st = evaluate' st"
  shows "evaluate_states evaluate skip H record_it row index policy sts s = evaluate_states evaluate' skip H record_it row index policy sts s"
  using assms by (induction sts arbitrary: s) (auto simp: Let_def split: prod.split option.split)

text \<open>What a row of the replay reads: the rows up to it, and of the dataset only what is bounded by it.\<close>

definition blind_to :: "host \<Rightarrow> int \<Rightarrow> jsval \<Rightarrow> jsval \<Rightarrow> setup_state list \<Rightarrow> bool" where
  "blind_to H t a b sts \<longleftrightarrow> list_all (\<lambda>st. canEvaluateSetupIncrementally (st_setup st)) sts \<or> later_dataset H t a b"

lemma advance_past:
  assumes "i < length rows" and "ms_or_zero (parseTime H (get (rows ! i) ''time'')) \<le> t"
    and "blind_to H t (rs_by_instrument G) later (fst ss)"
  shows "advanceSimulationRow H (G\<lparr>rs_by_instrument := later\<rparr>) (rows @ future) i ss = advanceSimulationRow H G rows i ss"
proof -
  have row: "(rows @ future) ! i = rows ! i" and pre: "take (i + 1) (rows @ future) = take (i + 1) rows"
    using assms(1) by (simp_all add: nth_append)
  have same: "evaluationContextForRow H st (rows ! i) i (rows @ future) later
      = evaluationContextForRow H st (rows ! i) i rows (rs_by_instrument G)" if "st \<in> set (orderedSetupStates (fst ss))" for st
    using that assms(3) later_dataset_bounded[OF _ assms(2)]
    by (auto simp: evaluationContextForRow_def pre[simplified] assms(1) blind_to_def list_all_iff orderedSetupStates_def)
  have settings: "rs_by_instrument (G\<lparr>rs_by_instrument := later\<rparr>) = later" "rs_rules (G\<lparr>rs_by_instrument := later\<rparr>) = rs_rules G"
    "rs_policy (G\<lparr>rs_by_instrument := later\<rparr>) = rs_policy G" "rs_record (G\<lparr>rs_by_instrument := later\<rparr>) = rs_record G"
    "rs_orders (G\<lparr>rs_by_instrument := later\<rparr>) = rs_orders G" by simp_all
  have "evaluateSetupStatesForRow H (G\<lparr>rs_by_instrument := later\<rparr>) (rows @ future) (rows ! i) i (fst ss) (snd ss)
      = evaluateSetupStatesForRow H G rows (rows ! i) i (fst ss) (snd ss)"
    unfolding evaluateSetupStatesForRow_def settings by (rule evaluate_states_cong) (simp only: same)
  then show ?thesis by (simp add: advanceSimulationRow_def row split: option.split)
qed

lemma replay_rows_past:
  assumes "list_all (\<lambda>row. ms_or_zero (parseTime H (get row ''time'')) \<le> t) rows"
    and "blind_to H t (rs_by_instrument G) later (fst ss)" and "i + n \<le> length rows"
  shows "replay_rows H (G\<lparr>rs_by_instrument := later\<rparr>) (rows @ future) i n ss = replay_rows H G rows i n ss"
  using assms(2,3)
proof (induction n arbitrary: i ss)
  case (Suc n)
  have "advanceSimulationRow H (G\<lparr>rs_by_instrument := later\<rparr>) (rows @ future) i ss = advanceSimulationRow H G rows i ss"
    using assms(1) Suc.prems by (intro advance_past) (auto simp: list_all_length)
  moreover have "blind_to H t (rs_by_instrument G) later (fst (advanceSimulationRow H G rows i ss))"
    using Suc.prems(1) advance_incremental[of ss H G rows i] unfolding blind_to_def by blast
  ultimately show ?case using Suc by (simp add: Let_def)
qed simp

section \<open>What an opened position satisfies\<close>

lemma end_setup_geometry [simp]:
  "setup_stop_number (st_setup (end_setup n st)) = setup_stop_number (st_setup st)"
  "firstTargetPrice (st_setup (end_setup n st)) = firstTargetPrice (st_setup st)"
  by (simp_all add: setup_stop_number_def firstTargetPrice_def)

lemma openSimulatedPosition_fields:
  assumes "openSimulatedPosition setup_obj en row index = Some position"
  shows "get position ''entry_price'' = js_opt_num (en_price en)"
    and "get position ''stop_loss'' = js_opt_num (setup_stop_number setup_obj)"
    and "get position ''direction'' = get setup_obj ''direction''"
    and "get position ''take_profit_1'' = js_opt_num (firstTargetPrice setup_obj)"
  using assms by (auto simp: openSimulatedPosition_def Let_def split: option.splits)

lemma fill_price: "fl_price (fill ord why raw s) = None \<longleftrightarrow> fl_status (fill ord why raw s) = ''PENDING''"
  by (cases raw) (simp_all add: fill_def noFill_def Let_def)

lemma entryFill_price: "fl_price (entryFill ord row s) = None \<longleftrightarrow> fl_status (entryFill ord row s) = ''PENDING''"
proof -
  have "fl_price (noFill why x) = None" for why x by (simp add: noFill_def)
  then show ?thesis
    by (simp add: entryFill_def limitEntryFill_def stopEntryFill_def stopLimitEntryFill_def fill_price)
qed

lemma simulateEntry_price:
  "fl_price (so_fill (simulateEntryOrderV1 H x row i j policy p)) = None \<longleftrightarrow>
     so_status (simulateEntryOrderV1 H x row i j policy p) = ''PENDING''"
proof -
  have "fl_price (noFill why x) = None" for why x by (simp add: noFill_def)
  then show ?thesis by (simp add: simulateEntryOrderV1_def Let_def entryFill_price)
qed

lemma evaluateEntry_triggered:
  assumes "en_triggered (evaluateEntry H x row i j policy)"
  shows "\<exists>price. en_price (evaluateEntry H x row i j policy) = Some price \<and> filled_geometry_issue x (Some price) = None"
proof -
  define out where "out = simulateEntryOrderV1 H x row (Fin (of_nat i)) (Fin (of_nat (case j of Some i \<Rightarrow> i | None \<Rightarrow> 0)))
    (order_policy_js policy) (js_coalesce (get (get x ''geometry_evaluation'') ''entry_price'') (js_opt_num (canonicalEntryPrice x)))"
  let ?price = "fl_price (so_fill out)"
  have status: "so_status out \<in> {''FILLED'', ''PARTIALLY_FILLED''}" and issue: "filled_geometry_issue x ?price = None"
    using assms unfolding evaluateEntry_def Let_def out_def[symmetric]
    by (cases "so_status out \<in> {''FILLED'', ''PARTIALLY_FILLED''}"; cases "filled_geometry_issue x ?price"; simp)+
  have "en_price (evaluateEntry H x row i j policy) = ?price"
    unfolding evaluateEntry_def Let_def out_def[symmetric] using status issue by simp
  moreover from status have "so_status out \<noteq> ''PENDING''" by auto
  then obtain price where "?price = Some price" using simulateEntry_price unfolding out_def by blast
  ultimately show ?thesis using issue by simp
qed

lemma filled_geometry_ok:
  assumes "filled_geometry_issue setup_obj (Some price) = None"
  shows "\<exists>e stp. price = Fin e \<and> setup_stop_number setup_obj = Some (Fin stp)
    \<and> entryStopGeometryIsValid (sim_direction (get setup_obj ''direction'')) (Fin e) (Fin stp)
    \<and> (\<forall>tgt. firstTargetPrice setup_obj = Some tgt \<longrightarrow>
         entryTargetGeometryIsValid (sim_direction (get setup_obj ''direction'')) (Fin e) tgt)"
proof -
  obtain e where e: "price = Fin e"
    using assms by (cases price) (auto simp: filled_geometry_issue_def sim_number_def Let_def)
  moreover obtain stp where "setup_stop_number setup_obj = Some (Fin stp)"
    using assms sim_number_Fin by (auto simp: filled_geometry_issue_def setup_stop_number_def Let_def split: option.splits)
  ultimately show ?thesis
    using assms by (auto simp: filled_geometry_issue_def Let_def split: if_splits option.splits)
qed

lemma openPosition_Some:
  assumes "openPositionIfEntryTouched H st row index policy s = (st', s', Some position)"
  shows "\<exists>en e stp. st' = end_setup ''TRIGGERED'' st \<and> openSimulatedPosition (st_setup st') en row index = Some position
    \<and> en_price en = Some (Fin e) \<and> setup_stop_number (st_setup st) = Some (Fin stp)
    \<and> entryStopGeometryIsValid (sim_direction (get (st_setup st) ''direction'')) (Fin e) (Fin stp)
    \<and> (\<forall>tgt. firstTargetPrice (st_setup st) = Some tgt \<longrightarrow>
         entryTargetGeometryIsValid (sim_direction (get (st_setup st) ''direction'')) (Fin e) tgt)"
proof -
  let ?en = "evaluateEntry H (st_setup st) row index (st_confirmationIndex st) policy"
  have en: "st' = end_setup ''TRIGGERED'' st" "openSimulatedPosition (st_setup st') ?en row index = Some position"
      "en_triggered ?en"
    using assms by (auto simp: openPositionIfEntryTouched_def Let_def split: if_splits option.splits)
  from evaluateEntry_triggered[OF en(3)] obtain price where
    "en_price ?en = Some price" "filled_geometry_issue (st_setup st) (Some price) = None" by blast
  with filled_geometry_ok en show ?thesis by blast
qed

section \<open>Properties\<close>

text \<open>
  C10. A replay holds at most one position: read as opening and closing steps of a desk that is flat
  or in one position, its events never open twice or close when flat, they end in the state of
  \<open>openPosition\<close>, and the recorded positions are the closed ones, one per closing event.
\<close>

theorem replay_one_position_at_a_time:
  "trace_open False (event_types (replayPreparedRows H G startedAt setups ignored rows))
      = Some (sim_open (replayPreparedRows H G startedAt setups ignored rows) \<noteq> None)
   \<and> count_list (event_types (replayPreparedRows H G startedAt setups ignored rows)) ''POSITION_CLOSED''
      = length (sim_positions (replayPreparedRows H G startedAt setups ignored rows))
   \<and> list_all (\<lambda>p. get p ''status'' = Str ''CLOSED'') (sim_positions (replayPreparedRows H G startedAt setups ignored rows))"
  using replay_rows_consistent[OF initial_consistent]
  by (simp add: replayPreparedRows_def consistent_def implements_def)

text \<open>
  C11. A replay does not look ahead: take rows dated up to \<open>t\<close>, let any rows follow them and any number of those be replayed, and
  let the dataset by instrument be a later one, which for the same instruments adds rows dated after \<open>t\<close>; or let it be any other
  dataset at all, when every condition of the setups can be evaluated incrementally. The events of the first rows stay as
  they were and the others only follow them.
\<close>

theorem replay_no_lookahead:
  assumes "list_all (\<lambda>row. ms_or_zero (parseTime H (get row ''time'')) \<le> t) rows"
    and "list_all (\<lambda>st. canEvaluateSetupIncrementally (st_setup st)) (fst ss) \<or> later_dataset H t (rs_by_instrument G) later"
  shows "\<exists>more. sim_events (snd (replay_rows H (G\<lparr>rs_by_instrument := later\<rparr>) (rows @ future) 0 (length rows + n) ss))
    = sim_events (snd (replay_rows H G rows 0 (length rows) ss)) @ more"
  using replay_rows_longer[of H "G\<lparr>rs_by_instrument := later\<rparr>" "rows @ future" 0 "length rows" ss n]
    replay_rows_past[OF assms(1) assms(2)[folded blind_to_def], of 0 "length rows" future]
  by (simp add: extends_def)

definition later_candle :: jsval where
  "later_candle = Obj [(''time'', Str ''2026-06-11T10:07:00Z''), (''open'', Num (Fin 100)), (''high'', Num (Fin 101)),
     (''low'', Num (Fin 99)), (''close'', Num (Fin 100))]"

definition sample_setting :: replay_setting where
  "sample_setting = \<lparr>rs_rules = \<lparr>condition_set = (\<lambda>_. Obj []), opportunity_gate = (\<lambda>_. Obj [(''trigger_eligible'', Bool True)]),
       build_metrics = (\<lambda>_ _. Obj []), default_policy = Obj []\<rparr>,
     rs_policy = Obj [], rs_orders = default_settings, rs_record = True,
     rs_by_instrument = Obj [(''MNQ'', Arr [wide_candle])]\<rparr>"

theorem replay_no_lookahead_witness:
  "\<exists>more. sim_events (snd (replay_rows sample_host
      (sample_setting\<lparr>rs_by_instrument := Obj [(''MNQ'', Arr [wide_candle, later_candle])]\<rparr>)
      ([wide_candle] @ [later_candle]) 0 (length [wide_candle] + 1) ([createSetupState limit_setup],
        createReplayState sample_host ''2026-06-11'' 1 1 0 default_settings)))
    = sim_events (snd (replay_rows sample_host sample_setting [wide_candle] 0 (length [wide_candle])
        ([createSetupState limit_setup], createReplayState sample_host ''2026-06-11'' 1 1 0 default_settings))) @ more"
proof (rule replay_no_lookahead[where t = 1781172360000])
  have dates: "ms_or_zero (parseTime sample_host (get wide_candle ''time'')) \<le> 1781172360000" "1781172360000 < row_ms sample_host later_candle"
    by code_simp+
  then show "list_all (\<lambda>row. ms_or_zero (parseTime sample_host (get row ''time'')) \<le> 1781172360000) [wide_candle]" by simp
  have "adds_later sample_host 1781172360000 [wide_candle] [wide_candle, later_candle]"
    by (intro adds_kept adds_new adds_nothing dates)
  moreover have "\<not> is_index ''MNQ''" by code_simp
  ultimately have "later_dataset sample_host 1781172360000 (rs_by_instrument sample_setting) (Obj [(''MNQ'', Arr [wide_candle, later_candle])])"
    by (simp add: later_dataset_def sample_setting_def own_order_def)
  then show "list_all (\<lambda>st. canEvaluateSetupIncrementally (st_setup st))
        (fst ([createSetupState limit_setup], createReplayState sample_host ''2026-06-11'' 1 1 0 default_settings))
      \<or> later_dataset sample_host 1781172360000 (rs_by_instrument sample_setting) (Obj [(''MNQ'', Arr [wide_candle, later_candle])])" ..
qed

text \<open>
  C12. A position is opened only after its confirmation, and with a sound geometry: the setup became
  eligible on an earlier row and still is, it has not expired, it triggers for the last time, and
  the position has a stop on the losing side of its entry and a target, where it has one, on the
  winning side.
\<close>

theorem position_opens_after_confirmation:
  assumes "applySetupOutcome H st oc row index policy s = (st', s', Some position)"
  shows "(\<exists>confirmed. st_confirmationMs st = Some confirmed \<and> confirmed < ms_or_zero (parseTime H (get row ''time'')))
    \<and> trigger_eligible oc \<and> \<not> oc_expired oc \<and> st_terminal st'
    \<and> positionRiskGeometryIsValid position
    \<and> (case get position ''take_profit_1'' of
          Num tgt \<Rightarrow> \<exists>e. get position ''entry_price'' = Num e
            \<and> entryTargetGeometryIsValid (sim_direction (get position ''direction'')) e tgt
        | p \<Rightarrow> p = Null)"
proof -
  from assms obtain c where c: "st_confirmationMs st = Some c" "c < ms_or_zero (parseTime H (get row ''time''))"
      "trigger_eligible oc" "\<not> oc_expired oc" and op: "openPositionIfEntryTouched H st row index policy s = (st', s', Some position)"
    by (auto simp: applySetupOutcome_def split: if_splits option.splits bool.splits)
  from openPosition_Some[OF op] obtain en e stp where en: "st' = end_setup ''TRIGGERED'' st"
      "openSimulatedPosition (st_setup st') en row index = Some position" "en_price en = Some (Fin e)"
      "setup_stop_number (st_setup st) = Some (Fin stp)"
      "entryStopGeometryIsValid (sim_direction (get (st_setup st) ''direction'')) (Fin e) (Fin stp)"
      "\<forall>tgt. firstTargetPrice (st_setup st) = Some tgt \<longrightarrow>
         entryTargetGeometryIsValid (sim_direction (get (st_setup st) ''direction'')) (Fin e) tgt"
    by blast
  from openSimulatedPosition_fields[OF en(2)] en(1,3,4) have pos:
      "get position ''entry_price'' = Num (Fin e)" "get position ''stop_loss'' = Num (Fin stp)"
      "get position ''direction'' = get (st_setup st) ''direction''"
      "get position ''take_profit_1'' = js_opt_num (firstTargetPrice (st_setup st))"
    by simp_all
  have "positionRiskGeometryIsValid position" using en(5) by (simp add: positionRiskGeometryIsValid_def pos)
  moreover have "case get position ''take_profit_1'' of
      Num tgt \<Rightarrow> \<exists>e. get position ''entry_price'' = Num e
            \<and> entryTargetGeometryIsValid (sim_direction (get position ''direction'')) e tgt
    | p \<Rightarrow> p = Null"
    using en(6) by (cases "firstTargetPrice (st_setup st)") (simp_all add: pos)
  ultimately show ?thesis using c en(1) by (simp add: end_setup_def)
qed

definition trade_setup :: jsval where
  "trade_setup = Obj [(''setup_id'', Str ''s1''), (''instrument'', Str ''MNQ''), (''direction'', Str ''long''),
     (''order_type'', Str ''LIMIT''), (''order_limit_price'', Num (Fin 99)), (''quantity'', Num (Fin 2)),
     (''stop_loss'', Num (Fin 90)), (''take_profit_1'', Num (Fin 117)), (''entry'', Num (Fin 99))]"

definition eligible_outcome :: setup_outcome where
  "eligible_outcome = \<lparr>oc_condition_evaluation = Obj [], oc_opportunity = Obj [(''trigger_eligible'', Bool True)],
     oc_terminal_invalidation = None, oc_expired = False, oc_predicates = [], oc_reason = Str ''TRIGGER_ELIGIBLE''\<rparr>"

definition confirmed_state :: setup_state where
  "confirmed_state = (createSetupState trade_setup)\<lparr>st_confirmationMs := Some 0, st_confirmationIndex := Some 0\<rparr>"

definition flat_simulation :: simulation where
  "flat_simulation = createReplayState sample_host ''2026-06-11'' 1 1 0 default_settings"

lemma wf_default_settings: "wf_policy default_settings"
  using normalize_wf[of "Obj []"] by (simp only: default_settings)

lemma trade_setup_facts:
  "get trade_setup ''order_replacements'' = Undef" "canonicalEntryPrice trade_setup = Some (Fin 99)"
  "get (get trade_setup ''geometry_evaluation'') ''entry_price'' = Undef"
  "setup_stop_number trade_setup = Some (Fin 90)" "firstTargetPrice trade_setup = Some (Fin 117)"
  "sim_direction (get trade_setup ''direction'') = ''long''"
  "buildEntryOrderV1 trade_setup (Num (Fin 99)) = limit_order"
  by code_simp+

lemma small_round: "sim_round (Fin 99) = Fin 99" "sim_round (Fin 0) = Fin 0" "sim_round (Fin 9) = Fin 9"
proof -
  have f: "\<lfloor>990000 + 1 / 2 :: rat\<rfloor> = 990000" "\<lfloor>1 / 2 :: rat\<rfloor> = 0" "\<lfloor>90000 + 1 / 2 :: rat\<rfloor> = 90000"
    by (rule floor_unique; simp)+
  show "sim_round (Fin 99) = Fin 99" "sim_round (Fin 0) = Fin 0" "sim_round (Fin 9) = Fin 9"
    using f by (simp_all add: sim_round_def round_digits_def jpow_def jround_def)
qed

lemma sample_fill:
  "entryFill limit_order wide_candle default_settings = \<lparr>fl_status = ''FILLED'', fl_reason = ''LIMIT_TOUCHED'',
     fl_price = Some (Fin 99), fl_raw_price = Some (Fin 99), fl_quantity = Fin 2, fl_requested = Fin 2,
     fl_commission_r = Fin 0, fl_resolution = []\<rparr>"
  by (simp add: entryFill_def limitEntryFill_def limit_order_def limitTouched_def validTouchInputs_def
      limitFillRawPrice_def default_settings_def fill_def Let_def simulatedQuantity_def executionPrice_def small_round)

lemma sample_entry:
  "evaluateEntry sample_host trade_setup wide_candle 5 (Some 0) default_settings
     = \<lparr>en_triggered = True, en_rejected = False, en_price = Some (Fin 99), en_mode = Str ''LIMIT'',
        en_outcome = sim_outcome_of ''ENTRY'' (Some limit_order) (entryFill limit_order wide_candle default_settings) default_settings,
        en_reason = ''LIMIT_TOUCHED'', en_geometry = validateFilledEntryGeometry trade_setup (Some (Fin 99))\<rparr>"
proof -
  have order: "applyOrderReplacementsV1 sample_host limit_order Undef wide_candle = limit_order"
    by (simp add: applyOrderReplacementsV1_def latestReplacement_def split: option.splits)
  have out: "simulateEntryOrderV1 sample_host trade_setup wide_candle (Fin 5) (Fin 0) (order_policy_js default_settings) (Num (Fin 99))
      = sim_outcome_of ''ENTRY'' (Some limit_order) (entryFill limit_order wide_candle default_settings) default_settings"
    by (simp add: simulateEntryOrderV1_def Let_def normalize_js wf_default_settings trade_setup_facts order latencyPending_def jsub_def)
       (simp add: limit_order_def default_settings_def)
  have "filled_geometry_issue trade_setup (Some (Fin 99)) = None"
    by (simp add: filled_geometry_issue_def Let_def trade_setup_facts entryStopGeometryIsValid_def entryTargetGeometryIsValid_def)
  moreover have "js_or (get trade_setup ''entry_mode'') (js_or (get trade_setup ''order_type'') (Str ''UNKNOWN'')) = Str ''LIMIT''"
    by code_simp
  ultimately show ?thesis
    by (simp add: evaluateEntry_def Let_def trade_setup_facts js_coalesce_def out sample_fill)
qed

lemma sample_opened:
  assumes "trigger_eligible oc" and "oc_terminal_invalidation oc = None" and "\<not> oc_expired oc"
  shows "\<exists>st' s' position. applySetupOutcome sample_host confirmed_state oc wide_candle 5 default_settings s = (st', s', Some position)
    \<and> sim_open s' = sim_open s"
proof -
  have "parseTime sample_host (get wide_candle ''time'') = Some 1781172360000" by code_simp
  moreover have "st_setup confirmed_state = trade_setup" "st_confirmationMs confirmed_state = Some 0"
      "st_confirmationIndex confirmed_state = Some 0"
    by (simp_all add: confirmed_state_def createSetupState_def)
  moreover have "openSimulatedPosition (st_setup (end_setup ''TRIGGERED'' confirmed_state))
      (evaluateEntry sample_host trade_setup wide_candle 5 (Some 0) default_settings) wide_candle 5 \<noteq> None"
    by (simp add: openSimulatedPosition_def Let_def sample_entry signedRiskPoints_def calculation trade_setup_facts
        entryStopGeometryIsValid_def)
  ultimately show ?thesis
    using assms by (auto simp: applySetupOutcome_def ms_or_zero_def openPositionIfEntryTouched_def Let_def sample_entry
        split: option.splits)
qed

theorem position_opens_after_confirmation_witness:
  "\<exists>position. positionRiskGeometryIsValid position
    \<and> (\<exists>confirmed. st_confirmationMs confirmed_state = Some confirmed
         \<and> confirmed < ms_or_zero (parseTime sample_host (get wide_candle ''time'')))"
proof -
  obtain st' s' position where opened: "applySetupOutcome sample_host confirmed_state eligible_outcome wide_candle 5
      default_settings flat_simulation = (st', s', Some position)"
    using sample_opened[of eligible_outcome flat_simulation] by (auto simp: eligible_outcome_def trigger_eligible_def)
  from position_opens_after_confirmation[OF opened] show ?thesis by blast
qed


end
