(* ===== verification/Simulation_Metrics.thy ===== *)
theory Simulation_Metrics
  imports Order_Simulator Domain_Helpers
begin

text \<open>
  \<open>packages/desk-replay-engine/src/simulation-metrics-v1.js\<close>: what a replay reports of its positions. The results in
  units of risk are summed, averaged and accumulated into an equity curve, all rounded to four digits; the closed
  positions are summarised again by instrument, direction, session, date and reason of exit. Positions and rows are
  objects. Shown: the drawdown is the worst fall between two points of the curve, the counts of every segmentation
  add up to the count of trades, and the ratios and excursions have their ranges.
\<close>

section \<open>Numbers\<close>

definition metric_number :: "jsval \<Rightarrow> jnum option" where
  "metric_number value = (if nullish value \<or> value = Str [] then None
     else if is_finite (to_num value) then Some (to_num value) else None)"

text \<open>\<open>Number(value || 0)\<close> of a number\<close>

definition metric_sum :: "jnum list \<Rightarrow> jnum" where
  "metric_sum values = foldl (\<lambda>total v. jadd total (num_or_zero (Num v))) (Fin 0) values"

definition metric_average :: "jnum list \<Rightarrow> jnum option" where
  "metric_average values = (if values = [] then None
     else Some (sim_round (jdiv (metric_sum values) (Fin (of_nat (length values))))))"

definition metric_ratio :: "jnum \<Rightarrow> nat \<Rightarrow> jnum" where
  "metric_ratio value n = (if n = 0 then Fin 0 else sim_round (jdiv value (Fin (of_nat n))))"

definition count_num_of :: "jnum list \<Rightarrow> jnum" where
  "count_num_of values = Fin (of_nat (length values))"

text \<open>
  \<open>Math.sqrt\<close>, the square root rounded to the nearest double: 600 binary digits after the point leave at least 54
  significant ones for every positive double, and a last digit says whether the root is exact.
\<close>

fun isqrt :: "nat \<Rightarrow> nat" where
  "isqrt n = (if n = 0 then 0 else let r = 2 * isqrt (n div 4) in if (r + 1) ^ 2 \<le> n then r + 1 else r)"

declare isqrt.simps [simp del]

lemma isqrt_correct: "isqrt n ^ 2 \<le> n \<and> n < (isqrt n + 1) ^ 2"
proof (induction n rule: isqrt.induct)
  case (1 n)
  show ?case
  proof (cases "n = 0")
    case False
    then have ih: "isqrt (n div 4) ^ 2 \<le> n div 4" "n div 4 < (isqrt (n div 4) + 1) ^ 2" using 1 by auto
    define s where "s = isqrt (n div 4)"
    have "4 * s ^ 2 \<le> n" "n < 4 * (s + 1) ^ 2" using ih unfolding s_def[symmetric] by linarith+
    then have "(2 * s) ^ 2 \<le> n" "n < (2 * s + 2) ^ 2" by (simp_all add: power2_eq_square algebra_simps)
    moreover have "isqrt n = (if (2 * s + 1) ^ 2 \<le> n then 2 * s + 1 else 2 * s)"
      using False isqrt.simps[of n] by (simp add: s_def Let_def)
    ultimately show ?thesis by (auto simp: not_le)
  qed (simp add: isqrt.simps)
qed

definition root_digits :: "rat \<Rightarrow> nat \<times> bool" where
  "root_digits r = (let n = isqrt (nat \<lfloor>r * 4 ^ 600\<rfloor>) in (n, of_nat (n ^ 2) = r * 4 ^ 600))"

definition jsqrt :: "jnum \<Rightarrow> jnum" where
  "jsqrt a = (case a of
       Fin r \<Rightarrow> if r < 0 then NaN
         else (case root_digits r of (n, exact) \<Rightarrow> rnd (of_nat (2 * n + (if exact then 0 else 1)) / 2 ^ 601))
     | PInf \<Rightarrow> PInf | _ \<Rightarrow> NaN)"

section \<open>The equity curve\<close>

fun cumulative_from :: "jnum \<Rightarrow> jnum list \<Rightarrow> jnum list" where
  "cumulative_from cursor [] = []"
| "cumulative_from cursor (v # vs) = (let next = sim_round (jadd cursor v) in next # cumulative_from next vs)"

definition cumulative :: "jnum list \<Rightarrow> jnum list" where
  "cumulative values = cumulative_from (Fin 0) values"

fun drawdown_from :: "jnum \<Rightarrow> jnum \<Rightarrow> jnum list \<Rightarrow> jnum" where
  "drawdown_from peak drawdown [] = drawdown"
| "drawdown_from peak drawdown (v # vs) =
     (let peak' = jmax peak v in drawdown_from peak' (jmin drawdown (sim_round (jsub v peak'))) vs)"

definition maxDrawdown :: "jnum list \<Rightarrow> jnum" where
  "maxDrawdown values = drawdown_from (Fin 0) (Fin 0) values"

definition gains :: "jnum list \<Rightarrow> jnum list" where
  "gains values = filter (jlt (Fin 0)) values"

definition falls :: "jnum list \<Rightarrow> jnum list" where
  "falls values = filter (\<lambda>v. jlt v (Fin 0)) values"

definition profitFactor :: "jnum list \<Rightarrow> jnum option" where
  "profitFactor values =
     (let wins = metric_sum (gains values); losses = jabs (metric_sum (falls values))
      in if losses = Fin 0 then (if jlt (Fin 0) wins then None else Some (Fin 0)) else Some (sim_round (jdiv wins losses)))"

definition standardDeviation :: "jnum list \<Rightarrow> jnum" where
  "standardDeviation values =
     (if length values < 2 then Fin 0
      else let avg = (case metric_average values of Some a \<Rightarrow> a | None \<Rightarrow> Fin 0)
        in jsqrt (jdiv (metric_sum (List.map (\<lambda>v. jpow (jsub v avg) (Fin 2)) values)) (Fin (of_nat (length values - 1)))))"

definition risk_adjusted :: "jnum list \<Rightarrow> jnum \<Rightarrow> jnum option" where
  "risk_adjusted values deviation =
     (if length values < 2 \<or> deviation = Fin 0 then None
      else Some (sim_round (jmul (jdiv (case metric_average values of Some a \<Rightarrow> a | None \<Rightarrow> Fin 0) deviation)
        (jsqrt (Fin (of_nat (length values)))))))"

definition sharpe :: "jnum list \<Rightarrow> jnum option" where
  "sharpe values = risk_adjusted values (standardDeviation values)"

definition sortino :: "jnum list \<Rightarrow> jnum option" where
  "sortino values = risk_adjusted values (standardDeviation (falls values))"

definition calmar :: "jnum \<Rightarrow> jnum \<Rightarrow> jnum option" where
  "calmar totalR drawdownR = (if jle (Fin 0) drawdownR then None else Some (sim_round (jdiv totalR (jabs drawdownR))))"

section \<open>Positions and rows\<close>

definition metric_rows :: "jsval \<Rightarrow> jsval list" where
  "metric_rows rows = List.map (\<lambda>row. Obj (spread (obj_or_empty row)
     [(''time'', js_or (get row ''time'') (js_or (get row ''timestamp_paris'') (get row ''timestamp'')))])) (arr_or_empty rows)"

definition metric_positions :: "jsval \<Rightarrow> jsval list" where
  "metric_positions positions = List.map (\<lambda>position. Obj (spread (obj_or_empty position)
     [(''status'', Str (to_upper (to_str (js_or (get position ''status'') (Str ''UNKNOWN'')))))])) (arr_or_empty positions)"

definition sameInstrument :: "jsval \<Rightarrow> jsval \<Rightarrow> bool" where
  "sameInstrument row position \<longleftrightarrow> \<not> truthy (get position ''instrument'') \<or> \<not> truthy (get row ''instrument'')
     \<or> strict_eq (get row ''instrument'') (get position ''instrument'')"

definition inRange :: "int option \<Rightarrow> int option \<Rightarrow> int option \<Rightarrow> bool" where
  "inRange value from until = (case (value, from) of
     (Some v, Some f) \<Rightarrow> f \<le> v \<and> (case until of None \<Rightarrow> True | Some t \<Rightarrow> v \<le> t) | _ \<Rightarrow> False)"

definition positionRows :: "host \<Rightarrow> jsval \<Rightarrow> jsval list \<Rightarrow> jsval list" where
  "positionRows H position rows =
     (let from = parseTime H (get position ''entry_time'');
          until = parseTime H (js_or (get position ''exit_time'') (get position ''mark_time''))
      in filter (\<lambda>row. sameInstrument row position \<and> inRange (parseTime H (get row ''time'')) from until) rows)"

text \<open>In a subtraction a missing price is \<open>null\<close>, and \<open>null\<close> counts as zero.\<close>

definition price_operand :: "jsval \<Rightarrow> string \<Rightarrow> jnum" where
  "price_operand row k = (case metric_number (get row k) of Some n \<Rightarrow> n | None \<Rightarrow> Fin 0)"

definition favorable :: "bool \<Rightarrow> jnum \<Rightarrow> jsval \<Rightarrow> jnum" where
  "favorable short at_price row =
     (if short then jsub at_price (price_operand row ''low'') else jsub (price_operand row ''high'') at_price)"

definition adverse :: "bool \<Rightarrow> jnum \<Rightarrow> jsval \<Rightarrow> jnum" where
  "adverse short at_price row =
     (if short then jsub (price_operand row ''high'') at_price else jsub at_price (price_operand row ''low''))"

record excursion =
  ex_mae :: "jnum option"
  ex_mfe :: "jnum option"
  ex_bars :: nat

definition largest :: "jnum list \<Rightarrow> jnum" where
  "largest values = foldl jmax (Fin 0) (filter is_finite values)"

definition computeExcursion :: "host \<Rightarrow> jsval \<Rightarrow> jsval list \<Rightarrow> excursion" where
  "computeExcursion H position rows =
     (let scoped = positionRows H position rows;
          short = (to_lower (to_str (js_or (get position ''direction'') (Str ''long''))) = ''short'')
      in case (metric_number (get position ''entry_price''), metric_number (get position ''risk_points'')) of
           (Some at_price, Some risk) \<Rightarrow>
             if risk = Fin 0 \<or> scoped = [] then \<lparr>ex_mae = None, ex_mfe = None, ex_bars = length scoped\<rparr>
             else \<lparr>ex_mae = Some (sim_round (jdiv (jneg (largest (List.map (adverse short at_price) scoped))) risk)),
                   ex_mfe = Some (sim_round (jdiv (largest (List.map (favorable short at_price) scoped)) risk)),
                   ex_bars = length scoped\<rparr>
         | _ \<Rightarrow> \<lparr>ex_mae = None, ex_mfe = None, ex_bars = length scoped\<rparr>)"

definition enrichPositionExcursions :: "host \<Rightarrow> jsval list \<Rightarrow> jsval \<Rightarrow> jsval" where
  "enrichPositionExcursions H rows position =
     (let x = computeExcursion H position rows
      in Obj (spread (obj_or_empty position)
        [(''mae_r'', js_opt_num (case metric_number (get position ''mae_r'') of Some n \<Rightarrow> Some n | None \<Rightarrow> ex_mae x)),
         (''mfe_r'', js_opt_num (case metric_number (get position ''mfe_r'') of Some n \<Rightarrow> Some n | None \<Rightarrow> ex_mfe x)),
         (''exposure_bars'', Num (case metric_number (get position ''exposure_bars'') of Some n \<Rightarrow> n | None \<Rightarrow> Fin (of_nat (ex_bars x))))]))"

definition numbers_of :: "string \<Rightarrow> jsval list \<Rightarrow> jnum list" where
  "numbers_of k positions = List.map_filter (\<lambda>p. metric_number (get p k)) positions"

definition with_status :: "string \<Rightarrow> jsval list \<Rightarrow> jsval list" where
  "with_status st positions = filter (\<lambda>p. get p ''status'' = Str st) positions"

section \<open>Segments\<close>

definition metricSegmentSummaryV1 :: "jsval \<Rightarrow> jsval" where
  "metricSegmentSummaryV1 positions =
     (let closed = with_status ''CLOSED'' (metric_positions positions); results = numbers_of ''r_result'' closed
      in Obj [(''trade_count'', js_count closed), (''total_r'', Num (sim_round (metric_sum results))),
          (''win_rate'', Num (metric_ratio (count_num_of (gains results)) (length closed))),
          (''profit_factor'', js_opt_num (profitFactor results)),
          (''max_drawdown_r'', Num (maxDrawdown (cumulative results))),
          (''expectancy_r'', js_opt_num (metric_average results))])"

definition segment_key :: "(jsval \<Rightarrow> jsval) \<Rightarrow> jsval \<Rightarrow> string" where
  "segment_key selector position = to_str (js_or (selector position) (Str ''UNKNOWN''))"

definition buckets :: "(jsval \<Rightarrow> jsval) \<Rightarrow> jsval list \<Rightarrow> (string \<times> jsval list) list" where
  "buckets selector positions = foldl (\<lambda>bs p. add_to_bucket (segment_key selector p) p bs) [] positions"

definition mapSegments :: "host \<Rightarrow> jsval list \<Rightarrow> (jsval \<Rightarrow> jsval) \<Rightarrow> jsobj" where
  "mapSegments H positions selector = List.map (\<lambda>(key, items). (key, metricSegmentSummaryV1 (Arr items)))
     (js_sort (\<lambda>l r. 0 < locale_compare H (fst l) (fst r)) (buckets selector positions))"

text \<open>\<open>new Date(value)\<close>: the milliseconds of a number, anything else as a string.\<close>

fun date_value :: "host \<Rightarrow> jsval \<Rightarrow> int option" where
  "date_value H (Num n) = (case jtrunc n of Fin r \<Rightarrow> if \<bar>r\<bar> \<le> 8640000000000000 then Some \<lfloor>r\<rfloor> else None | _ \<Rightarrow> None)"
| "date_value H (Bool b) = Some (if b then 1 else 0)"
| "date_value H v = date_parse H (to_str v)"

definition inferSession :: "host \<Rightarrow> jsval \<Rightarrow> jsval" where
  "inferSession H value =
     (case date_value H (js_or value (Str [])) of
        None \<Rightarrow> Str ''unknown''
      | Some t \<Rightarrow> (let minutes = (t div 60000) mod 1440
          in if 810 \<le> minutes \<and> minutes \<le> 1200 then Str ''ny_open''
             else if 420 \<le> minutes \<and> minutes < 810 then Str ''asia_open'' else Str ''off_session''))"

definition datePart :: "jsval \<Rightarrow> jsval" where
  "datePart value = (let s = take 10 (to_str (js_or value (Str ''unknown''))) in Str (if s = [] then ''unknown'' else s))"

definition SEGMENT_SELECTORS :: "host \<Rightarrow> (string \<times> (jsval \<Rightarrow> jsval)) list" where
  "SEGMENT_SELECTORS H =
     [(''by_instrument'', \<lambda>p. js_or (get p ''instrument'') (Str ''UNKNOWN'')),
      (''by_direction'', \<lambda>p. js_or (get p ''direction'') (Str ''unknown'')),
      (''by_session'', \<lambda>p. js_or (get p ''session'') (inferSession H (get p ''entry_time''))),
      (''by_date'', \<lambda>p. datePart (get p ''entry_time'')),
      (''by_exit_reason'', \<lambda>p. js_or (get p ''exit_reason'') (js_or (get p ''status'') (Str ''UNKNOWN'')))]"

definition buildSegmentations :: "host \<Rightarrow> jsval list \<Rightarrow> jsval" where
  "buildSegmentations H positions =
     Obj (List.map (\<lambda>(name, selector). (name, Obj (mapSegments H positions selector))) (SEGMENT_SELECTORS H))"

section \<open>The metrics of a run\<close>

definition excursionMetric :: "jsval list \<Rightarrow> string \<Rightarrow> string \<Rightarrow> jnum option" where
  "excursionMetric positions field_name mode =
     (case numbers_of field_name positions of [] \<Rightarrow> None
      | v # vs \<Rightarrow> if mode = ''min'' then Some (sim_round (foldl jmin v vs))
          else if mode = ''max'' then Some (sim_round (foldl jmax v vs)) else metric_average (v # vs))"

definition exposure :: "jsval list \<Rightarrow> jsval list \<Rightarrow> jsval" where
  "exposure positions rows = (let bars = metric_sum (numbers_of ''exposure_bars'' positions)
     in Obj [(''bars'', Num bars), (''ratio'', Num (metric_ratio bars (length rows)))])"

definition enriched_positions :: "host \<Rightarrow> jsval \<Rightarrow> jsval \<Rightarrow> jsval list" where
  "enriched_positions H positions context_value =
     List.map (enrichPositionExcursions H (metric_rows (get context_value ''rows''))) (metric_positions positions)"

definition buildVersionedSimulationMetricsV1 :: "host \<Rightarrow> jsval \<Rightarrow> jsval \<Rightarrow> jsobj" where
  "buildVersionedSimulationMetricsV1 H positions context_value =
     (let rows = metric_rows (get context_value ''rows'');
          enriched = enriched_positions H positions context_value;
          closed = with_status ''CLOSED'' enriched;
          results = numbers_of ''r_result'' closed;
          equity = cumulative results
      in [(''schema_version'', Str ''canonical_simulation_metrics_v1''),
          (''metric_definition_id'', Str ''desk_simulation_metrics_core_v2''), (''metric_version'', Str ''2.0.0''),
          (''trade_count'', js_count closed), (''open_position_count'', js_count (with_status ''OPEN'' enriched)),
          (''total_r'', Num (sim_round (metric_sum results))),
          (''gross_r'', Num (sim_round (metric_sum (numbers_of ''gross_r'' closed)))),
          (''execution_cost_r'', Num (sim_round (metric_sum (numbers_of ''execution_cost_r'' closed)))),
          (''win_count'', js_count (gains results)), (''loss_count'', js_count (falls results)),
          (''win_rate'', Num (metric_ratio (count_num_of (gains results)) (length closed))),
          (''profit_factor'', js_opt_num (profitFactor results)), (''expectancy_r'', js_opt_num (metric_average results)),
          (''average_win_r'', js_opt_num (metric_average (gains results))),
          (''average_loss_r'', js_opt_num (metric_average (falls results))),
          (''max_drawdown_r'', Num (maxDrawdown equity)),
          (''sharpe_r'', js_opt_num (sharpe results)), (''sortino_r'', js_opt_num (sortino results)),
          (''calmar_r'', js_opt_num (calmar (metric_sum results) (maxDrawdown equity))),
          (''mae_r'', js_opt_num (excursionMetric enriched ''mae_r'' ''average'')),
          (''mfe_r'', js_opt_num (excursionMetric enriched ''mfe_r'' ''average'')),
          (''max_adverse_excursion_r'', js_opt_num (excursionMetric enriched ''mae_r'' ''min'')),
          (''max_favorable_excursion_r'', js_opt_num (excursionMetric enriched ''mfe_r'' ''max'')),
          (''exposure'', exposure enriched rows), (''segmentations'', buildSegmentations H closed),
          (''final_equity_r'', Num (sim_round (metric_sum results)))])"

section \<open>The drawdown\<close>

text \<open>The falls of a curve, from any point to any later one, rounded; the curve starts at zero.\<close>

definition pair_falls :: "jnum list \<Rightarrow> jnum set" where
  "pair_falls curve = {sim_round (jsub (curve ! j) (curve ! i)) |i j. i \<le> j \<and> j < length curve}"

definition worst_fall :: "jnum list \<Rightarrow> jnum \<Rightarrow> bool" where
  "worst_fall curve d \<longleftrightarrow> d \<in> pair_falls curve \<and> (\<forall>x \<in> pair_falls curve. jle d x)"

lemma pair_falls_snoc: "pair_falls (curve @ [v]) = pair_falls curve \<union> (\<lambda>x. sim_round (jsub v x)) ` set (curve @ [v])"
proof (intro set_eqI iffI)
  fix y assume "y \<in> pair_falls (curve @ [v])"
  then obtain i j where y: "y = sim_round (jsub ((curve @ [v]) ! j) ((curve @ [v]) ! i))" "i \<le> j" "j < Suc (length curve)"
    by (auto simp: pair_falls_def)
  show "y \<in> pair_falls curve \<union> (\<lambda>x. sim_round (jsub v x)) ` set (curve @ [v])"
  proof (cases "j = length curve")
    case True
    then have "(curve @ [v]) ! i \<in> set (curve @ [v])" using y(2) by (intro nth_mem) simp
    moreover have "y = sim_round (jsub v ((curve @ [v]) ! i))" using y(1) True by simp
    ultimately show ?thesis by blast
  next
    case False
    then have "j < length curve" using y(3) by simp
    then have "y \<in> pair_falls curve"
      unfolding pair_falls_def using y(1,2) by (intro CollectI exI[of _ i] exI[of _ j]) (simp add: nth_append)
    then show ?thesis by blast
  qed
next
  fix y assume "y \<in> pair_falls curve \<union> (\<lambda>x. sim_round (jsub v x)) ` set (curve @ [v])"
  then consider (old) i j where "y = sim_round (jsub (curve ! j) (curve ! i))" "i \<le> j" "j < length curve"
    | (new) i where "y = sim_round (jsub v ((curve @ [v]) ! i))" "i < Suc (length curve)"
    by (auto simp: pair_falls_def in_set_conv_nth simp del: set_append)
  then show "y \<in> pair_falls (curve @ [v])"
  proof cases
    case old
    then show ?thesis unfolding pair_falls_def by (intro CollectI exI[of _ i] exI[of _ j]) (simp add: nth_append)
  next
    case new
    then show ?thesis unfolding pair_falls_def by (intro CollectI exI[of _ i] exI[of _ "length curve"]) simp
  qed
qed

lemma jsub_antimono: "is_finite a \<Longrightarrow> is_finite b \<Longrightarrow> is_finite c \<Longrightarrow> jle b c \<Longrightarrow> jle (jsub a c) (jsub a b)"
  by (cases a; cases b; cases c) (auto simp: jsub_def intro: rnd_mono)

lemma jmax_finite: "is_finite a \<Longrightarrow> is_finite b \<Longrightarrow> jmax a b \<in> {a, b} \<and> jle a (jmax a b) \<and> jle b (jmax a b)"
  by (cases a; cases b) (auto simp: jmax_def)

lemma jmin_pick: "a \<noteq> NaN \<Longrightarrow> b \<noteq> NaN \<Longrightarrow> jmin a b \<in> {a, b} \<and> jle (jmin a b) a \<and> jle (jmin a b) b"
  using jmin_le[of a b] by (auto simp: jmin_def)

lemma sim_round_not_NaN: "a \<noteq> NaN \<Longrightarrow> sim_round a \<noteq> NaN"
  using sim_round_mono[of a a] jle_refl[of a] by (cases "sim_round a") (auto simp: jle_def)

lemma jsub_finite_not_NaN: "is_finite a \<Longrightarrow> is_finite b \<Longrightarrow> jsub a b \<noteq> NaN"
  by (cases a; cases b) (auto simp: jsub_def)

lemma drawdown_from_worst:
  assumes "list_all is_finite (curve @ vs)" and "worst_fall curve d" and "d \<noteq> NaN"
    and "peak \<in> set curve" and "\<And>x. x \<in> set curve \<Longrightarrow> jle x peak"
  shows "worst_fall (curve @ vs) (drawdown_from peak d vs)"
  using assms
proof (induction vs arbitrary: curve peak d)
  case (Cons v vs)
  have fin: "is_finite v" "is_finite peak" "\<And>x. x \<in> set curve \<Longrightarrow> is_finite x"
    using Cons.prems(1,4) by (auto simp: list_all_iff)
  define peak' where "peak' = jmax peak v"
  define d' where "d' = jmin d (sim_round (jsub v peak'))"
  have peak': "peak' \<in> {peak, v}" "jle peak peak'" "jle v peak'" using jmax_finite[OF fin(2,1)] by (auto simp: peak'_def)
  have fin': "is_finite peak'" using peak'(1) fin by auto
  have above: "jle x peak'" if "x \<in> set (curve @ [v])" for x
    using that Cons.prems(5)[of x] peak'(2,3) jle_trans by auto
  have nn: "sim_round (jsub v peak') \<noteq> NaN" by (rule sim_round_not_NaN[OF jsub_finite_not_NaN[OF fin(1) fin']])
  have d': "d' \<in> {d, sim_round (jsub v peak')}" "jle d' d" "jle d' (sim_round (jsub v peak'))"
    using jmin_pick[OF Cons.prems(3) nn] by (auto simp: d'_def)
  have worst: "worst_fall (curve @ [v]) d'"
    unfolding worst_fall_def
  proof (intro conjI ballI)
    have "peak' \<in> set (curve @ [v])" using peak'(1) Cons.prems(4) by auto
    then show "d' \<in> pair_falls (curve @ [v])"
      using d'(1) Cons.prems(2) by (auto simp: pair_falls_snoc worst_fall_def)
    fix x assume "x \<in> pair_falls (curve @ [v])"
    then consider "x \<in> pair_falls curve" | y where "x = sim_round (jsub v y)" "y \<in> set (curve @ [v])"
      by (auto simp: pair_falls_snoc)
    then show "jle d' x"
    proof cases
      case 1
      then show ?thesis using Cons.prems(2) d'(2) jle_trans by (auto simp: worst_fall_def)
    next
      case 2
      have "jle (sim_round (jsub v peak')) x"
        unfolding 2(1) using 2(2) fin by (intro sim_round_mono jsub_antimono fin(1) fin' above) auto
      then show ?thesis using d'(3) jle_trans by blast
    qed
  qed
  have "worst_fall ((curve @ [v]) @ vs) (drawdown_from peak' d' vs)"
    by (rule Cons.IH[OF _ worst]) (use Cons.prems d'(1) nn peak'(1) above in auto)
  then show ?case by (simp add: peak'_def d'_def Let_def)
qed simp

text \<open>
  The maximum drawdown is what its name says: the single pass over the equity curve returns the worst fall,
  rounded, from any point of the curve to any later one, the start at zero included.
\<close>

theorem maxDrawdown_worst_fall:
  assumes "list_all is_finite values"
  shows "worst_fall (Fin 0 # values) (maxDrawdown values)"
proof -
  have "sim_round (Fin 0) = Fin 0" by (simp add: sim_round_def round_digits_0)
  then have "worst_fall [Fin 0] (Fin 0)" by (auto simp: worst_fall_def pair_falls_def jsub_def)
  then show ?thesis
    using drawdown_from_worst[of "[Fin 0]" "values" "Fin 0" "Fin 0"] assms by (simp add: maxDrawdown_def)
qed

lemma sim_round_int: "\<bar>i * 10000\<bar> \<le> (2 :: int) ^ 53 \<Longrightarrow> sim_round (Fin (of_int i)) = Fin (of_int i)"
  by (simp add: sim_round_def round_digits_int)

theorem maxDrawdown_worst_fall_witness:
  "worst_fall [Fin 0, Fin 1, Fin (- 1), Fin 0] (maxDrawdown [Fin 1, Fin (- 1), Fin 0]) \<and> maxDrawdown [Fin 1, Fin (- 1), Fin 0] = Fin (- 2)"
proof -
  have r: "sim_round (Fin 0) = Fin 0" "sim_round (Fin (- 1)) = Fin (- 1)" "sim_round (Fin (- 2)) = Fin (- 2)"
    using sim_round_int[of 0] sim_round_int[of "- 1"] sim_round_int[of "- 2"] by simp_all
  have "maxDrawdown [Fin 1, Fin (- 1), Fin 0] = Fin (- 2)"
    by (simp add: maxDrawdown_def jmax_def jsub_def Let_def r) (simp add: jmin_def r)
  then show ?thesis using maxDrawdown_worst_fall[of "[Fin 1, Fin (- 1), Fin 0]"] by simp
qed

section \<open>Segmentations\<close>

lemma buckets_snoc: "buckets selector (ps @ [p]) = add_to_bucket (segment_key selector p) p (buckets selector ps)"
  by (simp add: buckets_def)

lemma buckets_own: "(k, xs) \<in> set (buckets selector ps) \<Longrightarrow> set xs \<subseteq> {y \<in> set ps. segment_key selector y = k}"
proof (induction ps arbitrary: k xs rule: rev_induct)
  case (snoc p ps)
  then show ?case using add_to_bucket_items[of k xs "segment_key selector p" p "buckets selector ps"]
    by (fastforce simp: buckets_snoc)
qed (simp add: buckets_def)

lemma buckets_facts:
  "sum_list (List.map (length \<circ> snd) (buckets selector ps)) = length ps \<and> distinct (List.map fst (buckets selector ps))"
proof (induction ps rule: rev_induct)
  case (snoc p ps)
  then show ?case by (simp only: buckets_snoc add_to_bucket_length add_to_bucket_distinct length_append) simp
qed (simp add: buckets_def)

lemma sum_list_js_sort: "sum_list (List.map f (js_sort after xs)) = sum_list (List.map f xs)" for f :: "'a \<Rightarrow> nat"
  by (metis mset_js_sort mset_map sum_mset_sum_list)

text \<open>A closed position is still one when its status is written in upper case.\<close>

definition closed_object :: "jsval \<Rightarrow> bool" where
  "closed_object p \<longleftrightarrow> is_obj p \<and> get p ''status'' = Str ''CLOSED''"

lemma upper_status: "to_upper ''CLOSED'' = ''CLOSED''" "to_upper ''OPEN'' = ''OPEN''"
  by code_simp+

lemma metric_positions_simps:
  "get (Obj (spread (obj_or_empty p) [(''status'', Str s)])) ''status'' = Str s"
  by (simp add: spread_def)

lemma summary_trade_count:
  assumes "list_all closed_object ps"
  shows "get (metricSegmentSummaryV1 (Arr ps)) ''trade_count'' = js_count ps"
proof -
  have "with_status ''CLOSED'' (metric_positions (Arr ps)) = metric_positions (Arr ps)"
    using assms by (auto simp: with_status_def metric_positions_def closed_object_def list_all_iff filter_id_conv spread_def upper_status)
  moreover have "length (metric_positions (Arr ps)) = length ps" by (simp add: metric_positions_def)
  ultimately show ?thesis by (simp add: metricSegmentSummaryV1_def Let_def js_count_def)
qed

lemma segments_add_up:
  assumes "list_all closed_object ps"
  shows "\<exists>ns. List.map (\<lambda>(k, segment). get segment ''trade_count'') (mapSegments H ps selector) = List.map (\<lambda>n. Num (Fin (of_nat n))) ns
    \<and> sum_list ns = length ps \<and> distinct (List.map fst (mapSegments H ps selector))"
proof -
  define bs where "bs = js_sort (\<lambda>l r. 0 < locale_compare H (fst l) (fst r)) (buckets selector ps)"
  have set_bs: "set bs = set (buckets selector ps)" by (simp add: bs_def set_js_sort)
  have closed: "list_all closed_object xs" if "(k, xs) \<in> set bs" for k xs
    using buckets_own[of k xs selector ps] that assms by (auto simp: set_bs list_all_iff)
  have "mset (List.map fst bs) = mset (List.map fst (buckets selector ps))" by (simp add: bs_def mset_js_sort)
  then have "distinct (List.map fst bs)" using buckets_facts[of selector ps] mset_eq_imp_distinct_iff by blast
  moreover have "sum_list (List.map (length \<circ> snd) bs) = length ps"
    using buckets_facts[of selector ps] by (simp add: bs_def sum_list_js_sort)
  ultimately show ?thesis
    using closed
    by (intro exI[of _ "List.map (length \<circ> snd) bs"])
      (auto simp: mapSegments_def bs_def[symmetric] summary_trade_count js_count_def comp_def case_prod_unfold)
qed

section \<open>What the metrics satisfy\<close>

lemma enriched_closed: "list_all closed_object (with_status ''CLOSED'' (enriched_positions H positions ctx))"
  by (auto simp: list_all_iff with_status_def enriched_positions_def enrichPositionExcursions_def closed_object_def Let_def)

lemma metrics_fields:
  "fget (buildVersionedSimulationMetricsV1 H positions ctx) ''trade_count'' = js_count (with_status ''CLOSED'' (enriched_positions H positions ctx))"
  "fget (buildVersionedSimulationMetricsV1 H positions ctx) ''segmentations''
     = buildSegmentations H (with_status ''CLOSED'' (enriched_positions H positions ctx))"
  by (simp_all add: buildVersionedSimulationMetricsV1_def Let_def)

lemma segmentation_field:
  "list_all (\<lambda>(name, selector). get (buildSegmentations H ps) name = Obj (mapSegments H ps selector)) (SEGMENT_SELECTORS H)"
  by (simp add: buildSegmentations_def SEGMENT_SELECTORS_def)

text \<open>
  Nothing is lost or counted twice by a segmentation: by instrument, direction, session, date and reason of exit,
  the keys are distinct and the counts of trades of the segments add up to the count of trades of the run.
\<close>

theorem segment_counts_add_up:
  "list_all (\<lambda>(name, selector). \<exists>segments ns.
       get (fget (buildVersionedSimulationMetricsV1 H positions ctx) ''segmentations'') name = Obj segments
       \<and> distinct (List.map fst segments)
       \<and> List.map (\<lambda>(key, segment). get segment ''trade_count'') segments = List.map (\<lambda>n. Num (Fin (of_nat n))) ns
       \<and> fget (buildVersionedSimulationMetricsV1 H positions ctx) ''trade_count'' = Num (Fin (of_nat (sum_list ns))))
     (SEGMENT_SELECTORS H)"
  unfolding list_all_iff
proof (intro ballI, clarify)
  let ?closed = "with_status ''CLOSED'' (enriched_positions H positions ctx)"
  fix name selector assume "(name, selector) \<in> set (SEGMENT_SELECTORS H)"
  then have "get (buildSegmentations H ?closed) name = Obj (mapSegments H ?closed selector)"
    using segmentation_field[of H ?closed] by (auto simp: list_all_iff)
  moreover obtain ns where "List.map (\<lambda>(key, segment). get segment ''trade_count'') (mapSegments H ?closed selector) = List.map (\<lambda>n. Num (Fin (of_nat n))) ns"
    "sum_list ns = length ?closed" "distinct (List.map fst (mapSegments H ?closed selector))"
    using segments_add_up[OF enriched_closed] by blast
  ultimately show "\<exists>segments ns.
       get (fget (buildVersionedSimulationMetricsV1 H positions ctx) ''segmentations'') name = Obj segments
       \<and> distinct (List.map fst segments)
       \<and> List.map (\<lambda>(key, segment). get segment ''trade_count'') segments = List.map (\<lambda>n. Num (Fin (of_nat n))) ns
       \<and> fget (buildVersionedSimulationMetricsV1 H positions ctx) ''trade_count'' = Num (Fin (of_nat (sum_list ns)))"
    unfolding metrics_fields js_count_def by metis
qed

lemma metric_ratio_unit:
  assumes "k \<le> n"
  shows "\<exists>q. metric_ratio (Fin (of_nat k)) n = Fin q \<and> 0 \<le> q \<and> q \<le> 1"
proof (cases "n = 0")
  case False
  then obtain q where "rnd (of_nat k / of_nat n) = Fin q" "0 \<le> q" "q \<le> 1"
    using rnd_unit[of "of_nat k / of_nat n" 1] assms by auto
  then show ?thesis using False round_4_unit[of q] by (simp add: metric_ratio_def sim_round_def)
qed (simp add: metric_ratio_def)

lemma numbers_of_length: "length (numbers_of k ps) \<le> length ps"
  by (induction ps) (auto simp: numbers_of_def map_filter_simps split: option.split)

text \<open>
  Wins and losses are trades: their counts together are at most the count of trades (a result of zero is neither), and
  the win rate lies between 0 and 1.
\<close>

theorem wins_and_losses_are_trades:
  "\<exists>w l n q. fget (buildVersionedSimulationMetricsV1 H positions ctx) ''win_count'' = Num (Fin (of_nat w))
     \<and> fget (buildVersionedSimulationMetricsV1 H positions ctx) ''loss_count'' = Num (Fin (of_nat l))
     \<and> fget (buildVersionedSimulationMetricsV1 H positions ctx) ''trade_count'' = Num (Fin (of_nat n)) \<and> w + l \<le> n
     \<and> fget (buildVersionedSimulationMetricsV1 H positions ctx) ''win_rate'' = Num (Fin q) \<and> 0 \<le> q \<and> q \<le> 1"
proof -
  define closed where "closed = with_status ''CLOSED'' (enriched_positions H positions ctx)"
  define results where "results = numbers_of ''r_result'' closed"
  have "length (gains xs) + length (falls xs) \<le> length xs" for xs
    by (induction xs) (auto simp: gains_def falls_def jlt_asym)
  then have le: "length (gains results) + length (falls results) \<le> length closed"
    using numbers_of_length[of "''r_result''" closed] by (metis le_trans results_def)
  then obtain q where "metric_ratio (Fin (of_nat (length (gains results)))) (length closed) = Fin q" "0 \<le> q" "q \<le> 1"
    using metric_ratio_unit[of "length (gains results)" "length closed"] by auto
  then show ?thesis
    using le unfolding buildVersionedSimulationMetricsV1_def Let_def closed_def[symmetric] results_def[symmetric] js_count_def count_num_of_def
    by (intro exI[of _ "length (gains results)"] exI[of _ "length (falls results)"] exI[of _ "length closed"] exI[of _ q]) simp
qed

lemma largest_nonneg: "is_finite (largest xs) \<and> jle (Fin 0) (largest xs)"
proof -
  have "is_finite (foldl jmax a (filter is_finite xs)) \<and> jle (Fin 0) (foldl jmax a (filter is_finite xs))"
    if "is_finite a" "jle (Fin 0) a" for a
    using that
  proof (induction xs arbitrary: a)
    case (Cons x xs)
    show ?case
    proof (cases "is_finite x")
      case True
      then have "is_finite (jmax a x)" "jle (Fin 0) (jmax a x)"
        using jmax_finite[OF Cons.prems(1) True] Cons.prems jle_trans by auto
      then show ?thesis using True Cons.IH by simp
    qed (use Cons in simp)
  qed simp
  then show ?thesis by (simp add: largest_def)
qed

text \<open>With a positive risk the adverse excursion is not positive and the favourable one not negative.\<close>

lemma excursion_signs:
  assumes "metric_number (get position ''risk_points'') = Some (Fin r)" and "0 < r"
    and "ex_mae (computeExcursion H position rows) = Some a"
  shows "\<exists>b. ex_mfe (computeExcursion H position rows) = Some b \<and> jle a (Fin 0) \<and> jle (Fin 0) b"
proof -
  have neg: "jle (sim_round (jdiv (jneg (largest xs)) (Fin r))) (Fin 0)" and pos: "jle (Fin 0) (sim_round (jdiv (largest xs) (Fin r)))" for xs
  proof -
    obtain m where m: "largest xs = Fin m" "0 \<le> m" using largest_nonneg[of xs] by (cases "largest xs") auto
    have "jle (sim_round (rnd (- m / r))) (sim_round (Fin 0))"
      using m(2) assms(2) by (intro sim_round_mono jle_rnd_double2) (simp_all add: is_double_of_int[of 0, simplified])
    then show "jle (sim_round (jdiv (jneg (largest xs)) (Fin r))) (Fin 0)"
      using m assms(2) by (simp add: sim_round_def round_digits_0)
    show "jle (Fin 0) (sim_round (jdiv (largest xs) (Fin r)))"
      using m assms(2) by (intro sim_round_nonneg) (simp add: rnd_nonneg)
  qed
  then show ?thesis
    using assms(1,3) unfolding computeExcursion_def Let_def by (auto split: option.splits if_splits)
qed

text \<open>
  A missing price counts as zero: for a long position entered at 20000 with a risk of 20 points, one bar without a low
  (an absent \<open>low\<close> becomes \<open>null\<close>, which passes the test for finite numbers as zero) gives an adverse excursion of
  1000 times the risk.
\<close>

definition bar_without_low :: jsval where
  "bar_without_low = Obj [(''time'', Str ''2026-06-11T10:06:00Z''), (''high'', Num (Fin 20010))]"

definition long_from_20000 :: jsval where
  "long_from_20000 = Obj [(''direction'', Str ''long''), (''entry_price'', Num (Fin 20000)), (''risk_points'', Num (Fin 20)),
     (''entry_time'', Str ''2026-06-11T10:05:00Z'')]"

theorem missing_low_is_a_loss_of_the_entry:
  "ex_mae (computeExcursion sample_host long_from_20000 [bar_without_low]) = Some (Fin (- 1000))"
proof -
  have rows: "positionRows sample_host long_from_20000 [bar_without_low] = [bar_without_low]" by code_simp
  have "\<not> to_lower ''long'' = ''short''" by code_simp
  moreover have "\<lfloor>- 19999999 / 2 :: rat\<rfloor> = - 10000000" by (rule floor_unique) simp_all
  ultimately show ?thesis
    unfolding computeExcursion_def rows Let_def
    by (simp add: long_from_20000_def bar_without_low_def metric_number_def adverse_def price_operand_def largest_def
        jmax_def jsub_def sim_round_def round_digits_def jpow_def jround_def)
qed

end
