(* ===== verification/Replay_Metrics.thy ===== *)
theory Replay_Metrics
  imports Replay_Engine Simulation_Metrics
begin

text \<open>
  The replay with its own metrics: \<open>buildMetrics\<close> of \<open>canonical-simulation-result-v1.js\<close> in the place of the argument
  \<open>build_metrics\<close>. The count of trades a run reports is the number of its closing events.
\<close>

definition desk_metrics :: "host \<Rightarrow> jsval list \<Rightarrow> jsval \<Rightarrow> jsval" where
  "desk_metrics H positions ctx = Obj (buildVersionedSimulationMetricsV1 H (Arr positions) ctx)"

definition closing_event :: "jsval \<Rightarrow> bool" where
  "closing_event e \<longleftrightarrow> get e ''type'' = Str ''POSITION_CLOSED''"

lemma closing_events:
  "length (filter closing_event (List.map sim_event_js (sim_events s))) = count_list (event_types s) ''POSITION_CLOSED''"
proof -
  have "length (filter closing_event (List.map sim_event_js es)) = count_list (List.map ev_type es) ''POSITION_CLOSED''" for es
    by (induction es) (simp_all add: closing_event_def sim_event_js_def)
  then show ?thesis by (simp add: event_types_def)
qed

text \<open>The positions that count as closed for the metrics are those with the status \<open>CLOSED\<close>.\<close>

definition settled :: "jsval \<Rightarrow> bool" where
  "settled p \<longleftrightarrow> get p ''status'' = Str ''CLOSED'' \<or> get p ''status'' = Str ''OPEN''"

lemma enriched_status: "get (enrichPositionExcursions H rows (Obj fs)) ''status'' = fget fs ''status''"
  by (simp add: enrichPositionExcursions_def Let_def spread_def)

lemma metrics_closed_length:
  assumes "list_all settled ps"
  shows "length (with_status ''CLOSED'' (enriched_positions H (Arr ps) ctx)) = length (filter (\<lambda>p. get p ''status'' = Str ''CLOSED'') ps)"
  using assms
proof (induction ps)
  case (Cons p ps)
  have "to_upper ''CLOSED'' = ''CLOSED''" "to_upper ''OPEN'' = ''OPEN''" by (rule upper_status)+
  then show ?case
    using Cons by (auto simp: with_status_def enriched_positions_def metric_positions_def enriched_status settled_def spread_def)
qed (simp add: with_status_def enriched_positions_def metric_positions_def)

text \<open>After the cutoff: one closing event per closed position, and at most one that is marked as open.\<close>

definition accounted :: "simulation \<Rightarrow> bool" where
  "accounted s \<longleftrightarrow> list_all settled (sim_positions s)
     \<and> count_list (event_types s) ''POSITION_CLOSED'' = length (filter (\<lambda>p. get p ''status'' = Str ''CLOSED'') (sim_positions s))"

lemma implements_accounted: "implements b s \<Longrightarrow> accounted s"
  by (auto simp: implements_def accounted_def settled_def list_all_iff filter_id_conv[THEN iffD2])

lemma marked_status: "get (markOpenPosition position row) ''status'' = Str ''OPEN''"
  by (simp add: markOpenPosition_def spread_def)

lemma cutoff_accounted:
  assumes "implements b s"
  shows "accounted (closeOpenPositionAtCutoff H markToMarket rows s)"
  using implements_accounted[OF assms]
  by (auto simp: closeOpenPositionAtCutoff_def Let_def accounted_def settled_def closePosition_status marked_status split: option.split)

lemma accounted_trades:
  "accounted s \<Longrightarrow> get (desk_metrics H (sim_positions s) ctx) ''trade_count''
     = Num (Fin (of_nat (length (filter closing_event (List.map sim_event_js (sim_events s))))))"
  unfolding closing_events by (simp add: desk_metrics_def metrics_fields js_count_def accounted_def metrics_closed_length)

lemma finalize_fields:
  "fget (finalizeResult H result) ''events'' = fget result ''events''" "fget (finalizeResult H result) ''metrics'' = fget result ''metrics''"
  by (simp_all add: finalizeResult_def Let_def)

text \<open>
  A run reports as many trades as its trace closes positions: whatever the plan, the dataset, the rules and the policies,
  rejected runs and positions marked or closed at the cutoff included, \<open>metrics.trade_count\<close> is the number of
  \<open>POSITION_CLOSED\<close> events of the result.
\<close>

theorem replay_reports_its_trades:
  "\<exists>events. fget (runCanonicalSimulationV1 H (R\<lparr>build_metrics := desk_metrics H\<rparr>) input) ''events'' = Arr events
     \<and> get (fget (runCanonicalSimulationV1 H (R\<lparr>build_metrics := desk_metrics H\<rparr>) input) ''metrics'') ''trade_count''
         = Num (Fin (of_nat (length (filter closing_event events))))"
proof -
  have consistent: "implements (sim_open (replayPreparedRows H G startedAt setups ignored rows) \<noteq> None)
      (replayPreparedRows H G startedAt setups ignored rows)" for G startedAt setups ignored rows
    using replay_rows_consistent[OF initial_consistent] by (simp add: replayPreparedRows_def consistent_def)
  have empty: "get emptyMetrics ''trade_count'' = Num (Fin 0)" by (simp add: emptyMetrics_def)
  show ?thesis
    unfolding runCanonicalSimulationV1_def Let_def
    by (simp add: finalize_fields spread_def empty accounted_trades[OF cutoff_accounted[OF consistent]])
qed

end
