(* ===== verification/Replay_Policy.thy ===== *)
theory Replay_Policy
  imports Replay_Engine Opportunity_Policy
begin

text \<open>
  The replay engine with the opportunity policy of the domain as its rule (the import of
  \<open>evaluateOpportunitySeekingControlledV1\<close> at the head of \<open>canonical-simulation-engine-v1.js\<close>): what the two
  guarantee together about the setups the replay trades. The evaluation of conditions stays an argument.
\<close>

text \<open>The opportunity rule of the engine and its default policy are those of the domain.\<close>

definition desk_rules :: "host \<Rightarrow> engine_rules \<Rightarrow> bool" where
  "desk_rules H R \<longleftrightarrow> opportunity_gate R = (\<lambda>input. Obj (evaluateOpportunitySeekingControlledV1 H input))
     \<and> default_policy R = OPPORTUNITY_SEEKING_CONTROLLED"

lemma default_param_phase: "opp_phase (Obj (fs @ [(''phase'', Str ''ENTRY_TRIGGER'')])) = ENTRY_TRIGGER"
  if "map_of fs ''phase'' = None"
proof -
  have "normalizeEvaluationPhase (Str ''ENTRY_TRIGGER'') = ENTRY_TRIGGER" by code_simp
  moreover have "fget (fs @ [(''phase'', Str ''ENTRY_TRIGGER'')]) ''phase'' = Str ''ENTRY_TRIGGER''"
    using that by (simp add: fget_def map_add_def)
  ultimately show ?thesis by (simp add: opp_phase_def)
qed

text \<open>A setup that triggers on a row passed the policy on that row.\<close>

lemma triggered_passes_policy:
  assumes "desk_rules H R" and "trigger_eligible (evaluateSetupAtRow H R st row rows byInstrument policy)"
    and "is_obj (st_setup st)" and "is_obj policy"
  shows "sound_geometry (st_setup st) policy \<and> live_at H (st_setup st) (get row ''time'')
    \<and> conditions_clear (oc_condition_evaluation (evaluateSetupAtRow H R st row rows byInstrument policy))"
proof -
  define evaluation where "evaluation = oc_condition_evaluation (evaluateSetupAtRow H R st row rows byInstrument policy)"
  define input where "input = Obj ([(''setup'', st_setup st), (''conditionEvaluation'', evaluation),
     (''gates'', js_or (get (st_setup st) ''gates'') (js_or (get (st_setup st) ''decision_gates'') (Arr []))),
     (''nowParis'', get row ''time''), (''policy'', policy)] @ [(''phase'', Str ''ENTRY_TRIGGER'')])"
  have "oc_opportunity (evaluateSetupAtRow H R st row rows byInstrument policy) = Obj (evaluateOpportunitySeekingControlledV1 H input)"
    using assms(1) by (simp add: evaluateSetupAtRow_def Let_def desk_rules_def evaluation_def input_def)
  then have none: "hardFailures H input = []"
    using assms(2) by (simp add: trigger_eligible_def)
  have phase: "opp_phase input = ENTRY_TRIGGER" unfolding input_def by (rule default_param_phase) simp
  have parts: "opp_setup input = st_setup st" "opp_policy input = policy"
    using assms(3,4) by (auto simp: opp_setup_def opp_policy_def input_def)
  have now: "opp_now input = (if get row ''time'' = Undef then Null else get row ''time'')"
    by (simp add: opp_now_def input_def)
  have conds: "opp_conditions input = (if evaluation = Undef then Obj [] else evaluation)"
    by (simp add: opp_conditions_def input_def)
  have "live_at H (st_setup st) (get row ''time'')"
    using none phase eligible_at_trigger_iff[OF phase] parts(1) now
    by (auto simp: live_at_def parseTimestamp_def split: if_splits)
  moreover have "conditions_clear evaluation"
    using none phase eligible_at_trigger_iff[OF phase] conds
    by (auto simp: conditions_clear_def above_zero_def split: if_splits)
  ultimately show ?thesis
    using none eligible_at_trigger_iff[OF phase] parts by (simp add: evaluation_def)
qed

text \<open>The visit of the setups opens a position only through the outcome of a setup that triggers.\<close>

lemma applySetupOutcome_opens:
  assumes "applySetupOutcome H st oc row index policy s = (st', s', Some position)"
  shows "trigger_eligible oc" and "\<exists>c. st_confirmationMs st = Some c \<and> c < ms_or_zero (parseTime H (get row ''time''))"
    and "openPositionIfEntryTouched H st row index policy s = (st', s', Some position)"
  using assms by (auto simp: applySetupOutcome_def split: if_splits option.splits bool.splits)

lemma applySetupOutcome_flat:
  "applySetupOutcome H st oc row index policy s = (st', s', opened) \<Longrightarrow> sim_open s' = sim_open s"
  by (auto simp: applySetupOutcome_def openPositionIfEntryTouched_def Let_def split: if_splits option.splits bool.splits)

lemma evaluate_states_opens:
  assumes "sim_open s = None"
    and "evaluate_states evaluate skip H record_it row index policy sts s = (sts', s')" and "sim_open s' = Some position"
  shows "\<exists>st \<in> set sts. \<not> st_terminal st \<and> \<not> skip st
    \<and> (\<exists>before st' s2. applySetupOutcome H (st\<lparr>st_predicates := oc_predicates (evaluate st)\<rparr>) (evaluate st) row index policy before
         = (st', s2, Some position) \<and> st' \<in> set sts')"
  using assms
proof (induction sts arbitrary: s sts')
  case (Cons st rest)
  let ?oc = "evaluate st"
  let ?st1 = "st\<lparr>st_predicates := oc_predicates ?oc\<rparr>"
  let ?s1 = "if record_it then recordConditionEvaluation H row ?st1 ?oc s else s"
  obtain st2 s2 opened where ap: "applySetupOutcome H ?st1 ?oc row index policy ?s1 = (st2, s2, opened)"
    by (cases "applySetupOutcome H ?st1 ?oc row index policy ?s1") auto
  show ?case
  proof (cases "st_terminal st \<or> skip st")
    case True
    then obtain rest' where run: "evaluate_states evaluate skip H record_it row index policy rest s = (rest', s')" "sts' = st # rest'"
      using Cons.prems(2) by (auto simp: split: prod.splits)
    from Cons.IH[OF Cons.prems(1) run(1) Cons.prems(3)] show ?thesis unfolding run(2) by (meson list.set_intros(2))
  next
    case visited: False
    show ?thesis
    proof (cases opened)
      case (Some p)
      then have "p = position" "st2 \<in> set sts'" using Cons.prems visited ap by (auto simp: Let_def)
      then show ?thesis using visited ap[unfolded Some] by auto
    next
      case None
      have "sim_open ?s1 = None" using Cons.prems(1) by (simp add: recordConditionEvaluation_def)
      then have flat: "sim_open s2 = None" using applySetupOutcome_flat[OF ap] by simp
      obtain rest' where run: "evaluate_states evaluate skip H record_it row index policy rest s2 = (rest', s')" "sts' = st2 # rest'"
        using Cons.prems(2) visited None ap by (auto simp: Let_def split: prod.splits)
      from Cons.IH[OF flat run(1) Cons.prems(3)] show ?thesis unfolding run(2) by (meson list.set_intros(2))
    qed
  qed
qed simp

text \<open>A position that is opened carries the setup it was opened for, which is finished from then on.\<close>

definition opened_for :: "jsval \<Rightarrow> jsval \<Rightarrow> jsval \<Rightarrow> bool" where
  "opened_for setup_obj row position \<longleftrightarrow> get position ''setup_id'' = get setup_obj ''setup_id''
     \<and> get position ''instrument'' = get setup_obj ''instrument'' \<and> get position ''direction'' = get setup_obj ''direction''
     \<and> get position ''stop_loss'' = js_opt_num (setup_stop_number setup_obj)
     \<and> get position ''take_profit_1'' = js_opt_num (firstTargetPrice setup_obj) \<and> get position ''entry_time'' = get row ''time''"

lemma openPosition_for:
  assumes "openPositionIfEntryTouched H st row index policy s = (st', s', Some position)"
  shows "opened_for (st_setup st) row position \<and> st' = end_setup ''TRIGGERED'' st"
proof -
  from openPosition_Some[OF assms] obtain en where en: "st' = end_setup ''TRIGGERED'' st" "openSimulatedPosition (st_setup st') en row index = Some position"
    by blast
  have "opened_for (st_setup st') row position"
    using en(2) by (auto simp: openSimulatedPosition_def opened_for_def Let_def split: option.splits)
  with en(1) show ?thesis by (simp add: opened_for_def)
qed

text \<open>
  C13. The replay and the policy together: whatever rule evaluates the conditions, a position that a row opens is opened for one of
  its setups, whose id, instrument, direction, stop and target it carries: a setup that was not finished and was confirmed on
  an earlier row, whose prices are ordered and whose reward/risk is not below the minimum of the policy, that is neither closed,
  early nor expired at the time of the row, and that is triggered and finished from then on.
\<close>

theorem replay_trades_only_sound_setups:
  assumes "desk_rules H (rs_rules G)" and "is_obj (rs_policy G)" and "\<And>st. st \<in> set sts \<Longrightarrow> is_obj (st_setup st)"
    and "sim_open s = None" and "advanceSimulationRow H G rows index (sts, s) = (sts', s')" and "sim_open s' = Some position"
  shows "\<exists>st \<in> set sts. opened_for (st_setup st) (rows ! index) position
    \<and> \<not> st_terminal st \<and> (\<exists>c. st_confirmationMs st = Some c \<and> c < ms_or_zero (parseTime H (get (rows ! index) ''time'')))
    \<and> sound_geometry (st_setup st) (rs_policy G) \<and> live_at H (st_setup st) (get (rows ! index) ''time'')
    \<and> (\<exists>st' \<in> set sts'. st_terminal st' \<and> get (st_setup st') ''status'' = Str ''TRIGGERED''
         \<and> get (st_setup st') ''setup_id'' = get (st_setup st) ''setup_id'')"
proof -
  let ?row = "rows ! index"
  let ?evaluate = "\<lambda>st. case evaluationContextForRow H st ?row index rows (rs_by_instrument G) of (rs, byInstrument) \<Rightarrow>
    evaluateSetupAtRow H (rs_rules G) st ?row rs byInstrument (rs_policy G)"
  have "evaluate_states ?evaluate (\<lambda>st. setupIsNotYetValidAtRow H (st_setup st) ?row) H (rs_record G) ?row index
      (rs_orders G) (orderedSetupStates sts) s = (sts', s')"
    using assms(4,5) by (simp add: advanceSimulationRow_def evaluateSetupStatesForRow_def)
  from evaluate_states_opens[OF assms(4) this assms(6)] obtain st before st' s2 where st: "st \<in> set sts" "\<not> st_terminal st" "st' \<in> set sts'"
    and ap: "applySetupOutcome H (st\<lparr>st_predicates := oc_predicates (?evaluate st)\<rparr>) (?evaluate st) ?row index (rs_orders G) before
      = (st', s2, Some position)"
    by (auto simp: orderedSetupStates_def)
  note op = openPosition_for[OF applySetupOutcome_opens(3)[OF ap]]
  note ap = applySetupOutcome_opens[OF ap]
  obtain rs byInstrument where ctx: "evaluationContextForRow H st ?row index rows (rs_by_instrument G) = (rs, byInstrument)"
    by fastforce
  have "sound_geometry (st_setup st) (rs_policy G) \<and> live_at H (st_setup st) (get ?row ''time'')"
    using triggered_passes_policy[OF assms(1) _ assms(3)[OF st(1)] assms(2)] ap(1) ctx by simp
  moreover have "st_terminal st'" "get (st_setup st') ''status'' = Str ''TRIGGERED''" "get (st_setup st') ''setup_id'' = get (st_setup st) ''setup_id''"
    using op by (simp_all add: end_setup_def)
  moreover have "opened_for (st_setup st) ?row position" "\<exists>c. st_confirmationMs st = Some c \<and> c < ms_or_zero (parseTime H (get ?row ''time''))"
    using op ap(2) by simp_all
  ultimately show ?thesis using st by blast
qed

subsection \<open>A sample\<close>

definition sample_rules :: engine_rules where
  "sample_rules = \<lparr>condition_set = (\<lambda>_. Obj []),
     opportunity_gate = (\<lambda>input. Obj (evaluateOpportunitySeekingControlledV1 sample_host input)),
     build_metrics = (\<lambda>_ _. Null), default_policy = OPPORTUNITY_SEEKING_CONTROLLED\<rparr>"

definition desk_setting :: replay_setting where
  "desk_setting = \<lparr>rs_rules = sample_rules, rs_policy = OPPORTUNITY_SEEKING_CONTROLLED, rs_orders = default_settings,
     rs_record = False, rs_by_instrument = Obj []\<rparr>"

lemma desk_sample: "desk_rules sample_host sample_rules" "is_obj OPPORTUNITY_SEEKING_CONTROLLED"
  by (simp_all add: desk_rules_def sample_rules_def OPPORTUNITY_SEEKING_CONTROLLED_def)

lemma trade_setup_policy:
  "opp_entryPrice trade_setup = Some (Fin 99)" "opp_stopPrice trade_setup = Some (Fin 90)"
  "opp_targetPrice trade_setup = Some (Fin 117)" "setup_side trade_setup = ''long''"
  "opp_status trade_setup = []" "opp_valid_from trade_setup = Undef" "opp_expires_at trade_setup = Undef"
  by code_simp+

lemma trade_setup_sound: "sound_geometry trade_setup OPPORTUNITY_SEEKING_CONTROLLED"
proof -
  have "\<lfloor>40001 / 2 :: rat\<rfloor> = 20000" by (rule floor_unique) simp_all
  then have "round_digits (Fin 2) 4 = Fin 2" by (simp add: round_digits_def jpow_def jround_def Let_def)
  then have "opp_effectiveRr trade_setup = Some (Fin 2)"
    by (simp add: opp_effectiveRr_def opp_computedRr_def points_between_def trade_setup_policy jsub_def)
  then show ?thesis
    by (simp add: sound_geometry_def trade_setup_policy OPPORTUNITY_SEEKING_CONTROLLED_def)
qed

lemma no_conditions: "causalConditionEvaluation (normalizeAtomicSequenceEvaluation (Obj [])) = Obj []"
  by (simp add: normalizeAtomicSequenceEvaluation_def causalConditionEvaluation_def results_by_id_def
      activationSequenceStarted_def Let_def)

lemma sample_row_time: "get wide_candle ''time'' = Str ''2026-06-11T10:06:00Z''"
  "date_parse sample_host ''2026-06-11T10:06:00Z'' = Some 1781172360000"
  by (simp add: wide_candle_def) code_simp

lemma sample_row_triggers:
  "trigger_eligible (evaluateSetupAtRow sample_host sample_rules confirmed_state wide_candle rows byInstrument
     OPPORTUNITY_SEEKING_CONTROLLED)"
  "oc_terminal_invalidation (evaluateSetupAtRow sample_host sample_rules confirmed_state wide_candle rows byInstrument
     OPPORTUNITY_SEEKING_CONTROLLED) = None"
  "\<not> oc_expired (evaluateSetupAtRow sample_host sample_rules confirmed_state wide_candle rows byInstrument
     OPPORTUNITY_SEEKING_CONTROLLED)"
  "oc_predicates (evaluateSetupAtRow sample_host sample_rules confirmed_state wide_candle rows byInstrument
     OPPORTUNITY_SEEKING_CONTROLLED) = []"
proof -
  define input where "input = Obj ([(''setup'', trade_setup), (''conditionEvaluation'', Obj []),
     (''gates'', Arr []), (''nowParis'', get wide_candle ''time''), (''policy'', OPPORTUNITY_SEEKING_CONTROLLED)]
     @ [(''phase'', Str ''ENTRY_TRIGGER'')])"
  have phase: "opp_phase input = ENTRY_TRIGGER" unfolding input_def by (rule default_param_phase) simp
  have parts: "opp_setup input = trade_setup" "opp_policy input = OPPORTUNITY_SEEKING_CONTROLLED" "opp_conditions input = Obj []"
    "opp_now input = Str ''2026-06-11T10:06:00Z''" "get input ''gates'' = Arr []"
    by (simp_all add: input_def opp_setup_def opp_policy_def opp_conditions_def opp_now_def trade_setup_def
        OPPORTUNITY_SEEKING_CONTROLLED_def sample_row_time)
  have "live_at sample_host trade_setup (Str ''2026-06-11T10:06:00Z'')"
    by (simp add: live_at_def trade_setup_policy parseTimestamp_def sample_row_time)
  moreover have "conditions_clear (Obj [])" "score_clear (Obj []) q" for q
    by (simp_all add: conditions_clear_def score_clear_def above_zero_def num_or_zero_def js_or_def)
  ultimately have none: "hardFailures sample_host input = []"
    by (simp add: eligible_at_trigger_iff[OF phase] parts trade_setup_sound gates_clear_def normalizeGates_def)
  have ready: "triggerScoreReady (Obj []) q" "structuralConditionsReady (Obj [])" for q
    by (simp_all add: triggerScoreReady_def structuralConditionsReady_def is_zero_def num_or_zero_def js_or_def)
  let ?oc = "evaluateSetupAtRow sample_host sample_rules confirmed_state wide_candle rows byInstrument OPPORTUNITY_SEEKING_CONTROLLED"
  have st: "st_setup confirmed_state = trade_setup" "st_predicates confirmed_state = []"
    by (simp_all add: confirmed_state_def createSetupState_def)
  have gates: "js_or (get trade_setup ''gates'') (js_or (get trade_setup ''decision_gates'') (Arr [])) = Arr []"
    by code_simp
  have oc: "oc_opportunity ?oc = Obj (evaluateOpportunitySeekingControlledV1 sample_host input)"
    by (simp add: evaluateSetupAtRow_def Let_def sample_rules_def no_conditions st gates input_def)
  then show trigger: "trigger_eligible ?oc"
    by (simp add: trigger_eligible_def none parts ready)
  show "oc_terminal_invalidation ?oc = None" "oc_predicates ?oc = []"
    by (simp_all add: evaluateSetupAtRow_def Let_def sample_rules_def no_conditions results_by_id_def)
  have "truthy (get (oc_opportunity ?oc) ''trigger_eligible'')" using trigger by (simp add: trigger_eligible_def)
  then show "\<not> oc_expired ?oc"
    by (simp add: evaluateSetupAtRow_def Let_def split: option.splits)
qed

lemma sample_advance:
  "\<exists>sts' s' position. advanceSimulationRow sample_host desk_setting (replicate 6 wide_candle) 5 ([confirmed_state], flat_simulation)
     = (sts', s') \<and> sim_open s' = Some position"
proof -
  obtain rows byInstrument where context_rows:
    "evaluationContextForRow sample_host confirmed_state wide_candle 5 (replicate 6 wide_candle) (Obj []) = (rows, byInstrument)"
    by fastforce
  let ?oc = "evaluateSetupAtRow sample_host sample_rules confirmed_state wide_candle rows byInstrument OPPORTUNITY_SEEKING_CONTROLLED"
  have same: "confirmed_state\<lparr>st_predicates := []\<rparr> = confirmed_state" by (simp add: confirmed_state_def createSetupState_def)
  obtain st' s' position where ap: "applySetupOutcome sample_host confirmed_state ?oc wide_candle 5 default_settings flat_simulation
      = (st', s', Some position)"
    using sample_opened[OF sample_row_triggers(1-3)] by blast
  have "date_parse sample_host [] = None" by code_simp
  then have skip: "\<not> setupIsNotYetValidAtRow sample_host trade_setup wide_candle"
    by (simp add: setupIsNotYetValidAtRow_def trade_setup_def parseTime_def split: option.splits)
  have row: "replicate 6 wide_candle ! 5 = wide_candle" by simp
  have st: "\<not> st_terminal confirmed_state" "st_setup confirmed_state = trade_setup"
    by (simp_all add: confirmed_state_def createSetupState_def)
  have flat: "sim_open flat_simulation = None" by (simp add: flat_simulation_def createReplayState_def)
  have "evaluateSetupStatesForRow sample_host desk_setting (replicate 6 wide_candle) wide_candle 5 [confirmed_state] flat_simulation
      = ([st'], s'\<lparr>sim_open := Some position\<rparr>)"
    by (simp add: evaluateSetupStatesForRow_def desk_setting_def orderedSetupStates_def js_sort_def context_rows st skip
        sample_row_triggers(4) same ap Let_def)
  then show ?thesis by (simp add: advanceSimulationRow_def flat row)
qed

theorem replay_trades_only_sound_setups_witness:
  "\<exists>sts' s' position. advanceSimulationRow sample_host desk_setting (replicate 6 wide_candle) 5 ([confirmed_state], flat_simulation) = (sts', s')
   \<and> sim_open s' = Some position \<and> opened_for trade_setup (replicate 6 wide_candle ! 5) position
   \<and> sound_geometry trade_setup OPPORTUNITY_SEEKING_CONTROLLED
   \<and> live_at sample_host trade_setup (get (replicate 6 wide_candle ! 5) ''time'')"
proof -
  obtain sts' s' position where run: "advanceSimulationRow sample_host desk_setting (replicate 6 wide_candle) 5
      ([confirmed_state], flat_simulation) = (sts', s')" "sim_open s' = Some position"
    using sample_advance by blast
  have st: "st_setup confirmed_state = trade_setup" by (simp add: confirmed_state_def createSetupState_def)
  have rules: "desk_rules sample_host (rs_rules desk_setting)" "is_obj (rs_policy desk_setting)"
    and policy: "rs_policy desk_setting = OPPORTUNITY_SEEKING_CONTROLLED" by (simp_all add: desk_setting_def desk_sample)
  have obj: "is_obj (st_setup st)" if "st \<in> set [confirmed_state]" for st using that by (simp add: st trade_setup_def)
  have flat: "sim_open flat_simulation = None" by (simp add: flat_simulation_def createReplayState_def)
  note replay_trades_only_sound_setups[OF rules obj flat run]
  then have "opened_for (st_setup confirmed_state) (replicate 6 wide_candle ! 5) position
      \<and> sound_geometry (st_setup confirmed_state) (rs_policy desk_setting)
      \<and> live_at sample_host (st_setup confirmed_state) (get (replicate 6 wide_candle ! 5) ''time'')"
    unfolding list.set by blast
  then show ?thesis unfolding st policy using run by blast
qed

end
