(* ===== verification/Scheduler_Policy.thy ===== *)
theory Scheduler_Policy
  imports Domain_Helpers Greedy_Scan
begin

text \<open>
  \<open>packages/desk-domain/src/agent-runtime-scheduler-policy-v1.js\<close>: which agent tasks may consume compute in
  a window. The candidates are ordered by the rank of their lane, and a scan selects those that fit
  the quotas of their lanes. The scan is an instance of a locale for greedy selection under a
  budget: nothing is lost, nothing is selected over the budget, and what is left out did not fit.

  The quotas of a lane are looked up as own properties. A lane that has the name of a property every
  object inherits (\<open>constructor\<close>) finds that property instead, an object without the fields of a quota:
  it is modelled by \<open>inherited_quota\<close> and \<open>inherited_usage\<close>, whose numbers are all \<open>NaN\<close>. (Writing to a
  lane \<open>__proto__\<close>, which changes the prototype of the table, is modelled as writing to any other.)
\<close>

section \<open>Numbers and names\<close>

text \<open>\<open>integer(value, fallback, minimum, maximum)\<close>\<close>

definition bounded_integer :: "jsval \<Rightarrow> jnum \<Rightarrow> jnum \<Rightarrow> jnum \<Rightarrow> jnum" where
  "bounded_integer value fallback lo hi =
     (let parsed = to_num value in if \<not> is_integer parsed then fallback else jmax lo (jmin hi parsed))"

text \<open>\<open>Number.MAX_SAFE_INTEGER\<close>\<close>

definition max_safe_integer :: jnum where
  "max_safe_integer = Fin 9007199254740991"

definition nullableInteger :: "jsval \<Rightarrow> jnum option" where
  "nullableInteger value = (if present value then Some (bounded_integer value (Fin 0) (Fin 0) max_safe_integer) else None)"

definition normalizedLane :: "jsval \<Rightarrow> string" where
  "normalizedLane value =
     (let s = to_lower (trim (to_str (js_or value (Str ''default'')))) in if s = [] then ''default'' else s)"

definition compareNumber :: "jnum \<Rightarrow> jnum \<Rightarrow> jnum" where
  "compareNumber l r = (if jnumeq l r then Fin 0 else jsub l r)"

section \<open>The policy\<close>

definition DEFAULT_LANE_QUOTAS :: jsobj where
  "DEFAULT_LANE_QUOTAS = List.map (\<lambda>(name, rank, selected, running). (name, Obj
       [(''rank'', Num (Fin rank)), (''max_selected_per_window'', Num (Fin selected)), (''max_running'', Num (Fin running))]))
     [(''live'', 0, 4, 8), (''safety'', 5, 2, 2), (''operations'', 10, 2, 2), (''replay'', 20, 2, 2),
      (''validation'', 30, 1, 1), (''research'', 40, 1, 1), (''default'', 50, 1, 1)]"

record lane_quota =
  q_rank :: jnum
  q_max_selected :: jnum
  q_max_running :: jnum
  q_max_tokens :: "jnum option"
  q_max_cost :: "jnum option"

text \<open>\<open>lanes[name] || DEFAULT_LANE_QUOTAS.default\<close>, spread: an inherited property has no own fields.\<close>

definition quota_base :: "jsobj \<Rightarrow> string \<Rightarrow> jsobj" where
  "quota_base lanes name =
     (case map_of lanes name of
        Some v \<Rightarrow> if truthy v then obj_or_empty v else obj_or_empty (fget DEFAULT_LANE_QUOTAS ''default'')
      | None \<Rightarrow> if name \<in> set PROTOTYPE_NAMES then [] else obj_or_empty (fget DEFAULT_LANE_QUOTAS ''default''))"

definition mergeLaneQuotas :: "jsobj \<Rightarrow> jsobj" where
  "mergeLaneQuotas overrides = foldl (\<lambda>lanes (lane, quota). let normalized = normalizedLane (Str lane) in
       fset normalized (Obj (spread (quota_base lanes normalized) (obj_or_empty quota))) lanes)
     DEFAULT_LANE_QUOTAS (own_order overrides)"

definition lane_quota_of :: "jsval \<Rightarrow> lane_quota" where
  "lane_quota_of quota =
     \<lparr>q_rank = bounded_integer (get quota ''rank'') (Fin 50) (Fin 0) (Fin 999),
      q_max_selected = bounded_integer (get quota ''max_selected_per_window'') (Fin 1) (Fin 0) (Fin 100),
      q_max_running = bounded_integer (get quota ''max_running'') (Fin 1) (Fin 0) (Fin 100),
      q_max_tokens = nullableInteger (get quota ''max_tokens_per_window''),
      q_max_cost = nullableInteger (get quota ''max_cost_micros_per_window'')\<rparr>"

definition normalizeLaneQuotas :: "jsobj \<Rightarrow> (string \<times> lane_quota) list" where
  "normalizeLaneQuotas lanes = from_entries
     (List.map (\<lambda>(lane, quota). (normalizedLane (Str lane), lane_quota_of quota)) (own_order lanes))"

record scheduler_policy =
  window_seconds :: jnum
  max_selected_tasks :: jnum
  stale_promotion_after_seconds :: jnum
  stale_rank_boost :: jnum
  lane_quotas :: "(string \<times> lane_quota) list"

definition buildAgentRuntimeSchedulerPolicyV1 :: "jsval \<Rightarrow> scheduler_policy" where
  "buildAgentRuntimeSchedulerPolicyV1 input =
     \<lparr>window_seconds = bounded_integer (get input ''window_seconds'') (Fin 900) (Fin 60) (Fin 86400),
      max_selected_tasks = bounded_integer (get input ''max_selected_tasks'') (Fin 1) (Fin 1) (Fin 100),
      stale_promotion_after_seconds =
        bounded_integer (get input ''stale_promotion_after_seconds'') (Fin 3600) (Fin 60) (Fin 86400),
      stale_rank_boost = bounded_integer (get input ''stale_rank_boost'') (Fin 30) (Fin 0) (Fin 100),
      lane_quotas = normalizeLaneQuotas (mergeLaneQuotas (obj_or_empty (get input ''lane_quotas'')))\<rparr>"

definition inherited_quota :: lane_quota where
  "inherited_quota = \<lparr>q_rank = NaN, q_max_selected = NaN, q_max_running = NaN, q_max_tokens = None, q_max_cost = None\<rparr>"

definition laneQuota :: "scheduler_policy \<Rightarrow> string \<Rightarrow> lane_quota" where
  "laneQuota policy lane =
     (case map_of (lane_quotas policy) lane of
        Some q \<Rightarrow> q
      | None \<Rightarrow> if lane \<in> set PROTOTYPE_NAMES then inherited_quota
          else the (map_of (lane_quotas policy) ''default''))"

section \<open>Usage of the lanes\<close>

record lane_usage =
  u_running :: jnum
  u_selected :: jnum
  u_tokens :: jnum
  u_cost :: jnum

type_synonym usage = "(string \<times> lane_usage) list"

definition no_usage :: lane_usage where
  "no_usage = \<lparr>u_running = Fin 0, u_selected = Fin 0, u_tokens = Fin 0, u_cost = Fin 0\<rparr>"

definition inherited_usage :: lane_usage where
  "inherited_usage = \<lparr>u_running = NaN, u_selected = NaN, u_tokens = NaN, u_cost = NaN\<rparr>"

definition normalizeUsage :: "jsval \<Rightarrow> usage" where
  "normalizeUsage usageInput = foldl (\<lambda>acc item. put_field (normalizedLane (get item ''lane''))
       \<lparr>u_running = bounded_integer (get item ''running_count'') (Fin 0) (Fin 0) (Fin 1000),
        u_selected = bounded_integer (get item ''selected_count'') (Fin 0) (Fin 0) (Fin 1000),
        u_tokens = bounded_integer (get item ''total_tokens'') (Fin 0) (Fin 0) max_safe_integer,
        u_cost = bounded_integer (get item ''cost_micros_usd'') (Fin 0) (Fin 0) max_safe_integer\<rparr> acc)
     [] (arr_or_empty (js_or (get usageInput ''lanes'') usageInput))"

definition laneUsage :: "usage \<Rightarrow> string \<Rightarrow> lane_usage" where
  "laneUsage us lane = (case map_of us lane of Some u \<Rightarrow> u
     | None \<Rightarrow> if lane \<in> set PROTOTYPE_NAMES then inherited_usage else no_usage)"

section \<open>Candidates\<close>

definition CLAIMABLE_STATUSES :: "string list" where
  "CLAIMABLE_STATUSES = [''PENDING'', ''READY'']"

definition RUNNING_STATUSES :: "string list" where
  "RUNNING_STATUSES = [''CLAIMED'', ''RUNNING'']"

record candidate =
  c_task_id :: "string option"
  c_task_key :: "string option"
  c_task_type :: "string option"
  c_lane :: string
  c_status :: string
  c_priority :: jnum
  c_created :: "string option"
  c_not_before :: "string option"
  c_tokens :: jnum
  c_cost :: jnum
  c_ineligible :: "string option"
  c_age_seconds :: jnum
  c_rank :: jnum

text \<open>\<open>Date.parse(task.lease_expires_at_utc || "")\<close>\<close>

definition lease_num :: "host \<Rightarrow> jsval \<Rightarrow> jnum" where
  "lease_num H task = (let v = get task ''lease_expires_at_utc'' in
     date_num H (if truthy v then Some (to_str v) else None))"

definition isEligible :: "host \<Rightarrow> string \<Rightarrow> string option \<Rightarrow> jsval \<Rightarrow> string option \<Rightarrow> bool" where
  "isEligible H st notBefore task nowUtc =
     (if st \<in> set CLAIMABLE_STATUSES then notBefore = None \<or> jle (date_num H notBefore) (date_num H nowUtc)
      else st \<in> set RUNNING_STATUSES \<and> jle (lease_num H task) (date_num H nowUtc))"

definition ineligibleReason :: "host \<Rightarrow> string \<Rightarrow> string option \<Rightarrow> jsval \<Rightarrow> string option \<Rightarrow> string" where
  "ineligibleReason H st notBefore task nowUtc =
     (if st \<in> set CLAIMABLE_STATUSES \<and> notBefore \<noteq> None \<and> jlt (date_num H nowUtc) (date_num H notBefore)
        then ''TASK_NOT_BEFORE_IN_FUTURE''
      else if st \<in> set RUNNING_STATUSES \<and> jlt (date_num H nowUtc) (lease_num H task)
        then ''TASK_ALREADY_LEASED''
      else ''TASK_STATUS_NOT_CLAIMABLE'')"

definition computeBudgetInteger :: "jsval \<Rightarrow> string \<Rightarrow> jnum" where
  "computeBudgetInteger task f = bounded_integer
     (js_coalesce (js_coalesce (fget (obj_or_empty (get task ''compute_budget'')) f)
        (fget (obj_or_empty (get (get task ''payload'') ''compute_budget'')) f))
        (fget (obj_or_empty (get (get task ''metadata'') ''compute_budget'')) f))
     (Fin 0) (Fin 0) max_safe_integer"

text \<open>One element of \<open>normalizeTasks\<close>; \<open>eligible\<close> is the absence of a reason.\<close>

definition candidate_of :: "host \<Rightarrow> string option \<Rightarrow> scheduler_policy \<Rightarrow> jsval \<Rightarrow> candidate" where
  "candidate_of H nowUtc policy task =
     (let createdAt = js_timestamp H (js_or (get task ''created_at_utc'') (get task ''created_at'')) nowUtc;
          notBefore = js_timestamp H (get task ''not_before_utc'') None;
          st = to_upper (str_or_empty (get task ''status''));
          ln = normalizedLane (get task ''lane'')
      in \<lparr>c_task_id = nullableText (js_or (get task ''task_id'') (get task ''id'')),
          c_task_key = nullableText (get task ''task_key''),
          c_task_type = nullableText (js_or (get task ''task_type'') (get task ''type'')),
          c_lane = ln, c_status = st,
          c_priority = bounded_integer (get task ''priority'') (Fin 100) (Fin 0) (Fin 9999),
          c_created = createdAt, c_not_before = notBefore,
          c_tokens = computeBudgetInteger task ''estimated_tokens'',
          c_cost = computeBudgetInteger task ''estimated_cost_micros_usd'',
          c_ineligible = (if isEligible H st notBefore task nowUtc then None
             else Some (ineligibleReason H st notBefore task nowUtc)),
          c_age_seconds = jmax (Fin 0) (jfloor (jdiv (jsub (date_num H nowUtc) (date_num H createdAt)) (Fin 1000))),
          c_rank = q_rank (laneQuota policy ln)\<rparr>)"

definition sched_normalizeTasks :: "host \<Rightarrow> jsval \<Rightarrow> string option \<Rightarrow> scheduler_policy \<Rightarrow> candidate list" where
  "sched_normalizeTasks H tasks nowUtc policy = List.map (candidate_of H nowUtc policy) (arr_or_empty tasks)"

definition eligible :: "candidate \<Rightarrow> bool" where
  "eligible c \<longleftrightarrow> c_ineligible c = None"

section \<open>Order\<close>

definition effectiveRank :: "bool \<Rightarrow> scheduler_policy \<Rightarrow> candidate \<Rightarrow> jnum" where
  "effectiveRank liveReady policy c =
     (if jnumeq (c_rank c) (Fin 0) then Fin 0
      else if liveReady then c_rank c
      else if jlt (c_age_seconds c) (stale_promotion_after_seconds policy) then c_rank c
      else jmax (Fin 1) (jsub (c_rank c) (stale_rank_boost policy)))"

text \<open>\<open>String(a || b)\<close> for texts that may be \<open>null\<close>\<close>

definition text_or :: "string option \<Rightarrow> string option \<Rightarrow> string" where
  "text_or a b = (case a of Some s \<Rightarrow> s | None \<Rightarrow> (case b of Some s \<Rightarrow> s | None \<Rightarrow> ''null''))"

text \<open>\<open>compareCandidates(left, right) > 0\<close>\<close>

definition compareCandidates :: "host \<Rightarrow> bool \<Rightarrow> scheduler_policy \<Rightarrow> candidate \<Rightarrow> candidate \<Rightarrow> bool" where
  "compareCandidates H liveReady policy l r =
     (let byRank = compareNumber (effectiveRank liveReady policy l) (effectiveRank liveReady policy r);
          byPriority = compareNumber (c_priority l) (c_priority r);
          byTime = locale_compare H (text_or (c_not_before l) (c_created l)) (text_or (c_not_before r) (c_created r))
      in if truthy (Num byRank) then jlt (Fin 0) byRank
         else if truthy (Num byPriority) then jlt (Fin 0) byPriority
         else if byTime \<noteq> 0 then 0 < byTime
         else 0 < locale_compare H (text_or (c_task_id l) (c_task_key l)) (text_or (c_task_id r) (c_task_key r)))"

section \<open>Quotas and selection\<close>

definition exceeds :: "jnum \<Rightarrow> jnum \<Rightarrow> jnum option \<Rightarrow> bool" where
  "exceeds nextValue currentValue maximum = (case maximum of None \<Rightarrow> False
     | Some m \<Rightarrow> is_integer m \<and> jlt m (jadd currentValue nextValue))"

definition quotaReason :: "candidate \<Rightarrow> usage \<Rightarrow> scheduler_policy \<Rightarrow> string option" where
  "quotaReason task us policy =
     (let quota = laneQuota policy (c_lane task); st = laneUsage us (c_lane task) in
      if jle (q_max_running quota) (u_running st) then Some ''LANE_RUNNING_QUOTA_EXCEEDED''
      else if jle (q_max_selected quota) (u_selected st) then Some ''LANE_SELECTED_QUOTA_EXCEEDED''
      else if exceeds (c_tokens task) (u_tokens st) (q_max_tokens quota) then Some ''LANE_TOKEN_QUOTA_EXCEEDED''
      else if exceeds (c_cost task) (u_cost st) (q_max_cost quota) then Some ''LANE_COST_QUOTA_EXCEEDED''
      else None)"

definition consumeQuota :: "candidate \<Rightarrow> usage \<Rightarrow> usage" where
  "consumeQuota task us =
     (let st = laneUsage us (c_lane task) in
      put_field (c_lane task) (st\<lparr>u_selected := jadd (u_selected st) (Fin 1),
        u_tokens := jadd (u_tokens st) (c_tokens task), u_cost := jadd (u_cost st) (c_cost task)\<rparr>) us)"

record schedule =
  s_selected :: "candidate list"
  s_deferred :: "(candidate \<times> string) list"
  s_rejected :: "(candidate \<times> string) list"
  s_usage :: usage

text \<open>One round of the loop of \<open>selectCandidates\<close>.\<close>

definition select_step :: "scheduler_policy \<Rightarrow> schedule \<Rightarrow> candidate \<Rightarrow> schedule" where
  "select_step policy d task =
     (case c_ineligible task of
        Some reason \<Rightarrow> d\<lparr>s_rejected := s_rejected d @ [(task, reason)]\<rparr>
      | None \<Rightarrow>
          if jle (max_selected_tasks policy) (Fin (of_nat (length (s_selected d))))
            then d\<lparr>s_deferred := s_deferred d @ [(task, ''GLOBAL_SELECTED_QUOTA_EXCEEDED'')]\<rparr>
          else (case quotaReason task (s_usage d) policy of
              Some reason \<Rightarrow> d\<lparr>s_deferred := s_deferred d @ [(task, reason)]\<rparr>
            | None \<Rightarrow> d\<lparr>s_selected := s_selected d @ [task], s_usage := consumeQuota task (s_usage d)\<rparr>))"

definition selectCandidates :: "candidate list \<Rightarrow> usage \<Rightarrow> scheduler_policy \<Rightarrow> schedule" where
  "selectCandidates ordered us policy = foldl (select_step policy)
     \<lparr>s_selected = [], s_deferred = [], s_rejected = [], s_usage = us\<rparr> ordered"

section \<open>The plan\<close>

definition sched_policy :: "jsval \<Rightarrow> scheduler_policy" where
  "sched_policy input = buildAgentRuntimeSchedulerPolicyV1 (get input ''policy'')"

definition sched_now :: "host \<Rightarrow> jsval \<Rightarrow> string option" where
  "sched_now H input = js_timestamp H (get input ''now_utc'') (Some epoch_iso)"

definition sched_candidates :: "host \<Rightarrow> jsval \<Rightarrow> candidate list" where
  "sched_candidates H input = sched_normalizeTasks H (get input ''tasks'') (sched_now H input) (sched_policy input)"

definition sched_usage :: "jsval \<Rightarrow> usage" where
  "sched_usage input = normalizeUsage (get input ''usage'')"

definition liveReady :: "host \<Rightarrow> jsval \<Rightarrow> bool" where
  "liveReady H input = list_ex (\<lambda>c. eligible c \<and> c_lane c = ''live''
     \<and> quotaReason c (sched_usage input) (sched_policy input) = None) (sched_candidates H input)"

definition ordered :: "host \<Rightarrow> jsval \<Rightarrow> candidate list" where
  "ordered H input = js_sort (compareCandidates H (liveReady H input) (sched_policy input)) (sched_candidates H input)"

definition schedule_of :: "host \<Rightarrow> jsval \<Rightarrow> schedule" where
  "schedule_of H input = selectCandidates (ordered H input) (sched_usage input) (sched_policy input)"

definition projectTaskDecision :: "candidate \<Rightarrow> string \<Rightarrow> jsval" where
  "projectTaskDecision c why = Obj
     [(''task_id'', js_opt_str (c_task_id c)), (''task_key'', js_opt_str (c_task_key c)),
      (''task_type'', js_opt_str (c_task_type c)), (''lane'', Str (c_lane c)), (''status'', Str (c_status c)),
      (''priority'', Num (c_priority c)), (''created_at_utc'', js_opt_str (c_created c)),
      (''not_before_utc'', js_opt_str (c_not_before c)), (''reason'', Str why)]"

text \<open>An own lane of the policy that has no usage yet, even one with an inherited name, reads \<open>usage.lanes[lane]\<close>.\<close>

definition projectQuotaState :: "usage \<Rightarrow> scheduler_policy \<Rightarrow> jsval" where
  "projectQuotaState us policy = Obj (List.map (\<lambda>(lane, q). (lane, Obj
     ([(''rank'', Num (q_rank q)), (''max_selected_per_window'', Num (q_max_selected q)),
       (''max_running'', Num (q_max_running q)), (''max_tokens_per_window'', js_opt_num (q_max_tokens q)),
       (''max_cost_micros_per_window'', js_opt_num (q_max_cost q))]
      @ (if map_of us lane = None \<and> lane \<in> set PROTOTYPE_NAMES then []
         else let u = laneUsage us lane in
          (if u_running u = NaN then [] else [(''running_count'', Num (u_running u))]) @ [(''selected_count'', Num (u_selected u)),
           (''total_tokens'', Num (u_tokens u)), (''cost_micros_usd'', Num (u_cost u))]))))
     (own_order (lane_quotas policy)))"

definition schedule_plan :: "host \<Rightarrow> jsval \<Rightarrow> jsobj" where
  "schedule_plan H input =
     (let d = schedule_of H input in
      [(''schema_version'', Str ''agent_runtime_scheduler_plan_v1''), (''policy_version'', Str ''1.0.0''),
       (''now_utc'', js_opt_str (sched_now H input)),
       (''selected_tasks'', Arr (List.map (\<lambda>c. projectTaskDecision c ''SELECTED'') (s_selected d))),
       (''deferred_tasks'', Arr (List.map (\<lambda>(c, why). projectTaskDecision c why) (s_deferred d))),
       (''rejected_tasks'', Arr (List.map (\<lambda>(c, why). projectTaskDecision c why) (s_rejected d))),
       (''quota_state'', projectQuotaState (s_usage d) (sched_policy input)),
       (''summary'', Obj [(''selected_count'', Num (Fin (of_nat (length (s_selected d))))),
          (''deferred_count'', Num (Fin (of_nat (length (s_deferred d))))),
          (''rejected_count'', Num (Fin (of_nat (length (s_rejected d))))),
          (''live_ready'', Bool (liveReady H input))])])"

definition planAgentRuntimeScheduleV1 :: "host \<Rightarrow> jsval \<Rightarrow> jsobj" where
  "planAgentRuntimeScheduleV1 H input =
     schedule_plan H input @ [(''plan_hash'', Str (js_hash H (Obj (schedule_plan H input))))]"

section \<open>The gate of a lane\<close>

definition task_lane :: "jsval \<Rightarrow> string" where
  "task_lane t = normalizedLane (get t ''lane'')"

definition evaluateAgentRuntimeLaneGateV1 :: "jsval \<Rightarrow> jsobj" where
  "evaluateAgentRuntimeLaneGateV1 input =
     (let ln = normalizedLane (get input ''lane''); plan = obj_or_empty (get input ''plan'');
          selected = arr_or_empty (fget plan ''selected_tasks'');
          selectedLane = List.find (\<lambda>t. task_lane t = ln) selected;
          open_gate = (selectedLane \<noteq> None \<or> selected = [])
      in [(''ok'', Bool True), (''lane'', Str ln), (''allowed'', Bool open_gate),
          (''reason'', Str (if open_gate then ''LANE_SELECTED_OR_IDLE'' else ''HIGHER_PRIORITY_LANE_SELECTED'')),
          (''selected_task_id'', case selectedLane of Some t \<Rightarrow> js_or (get t ''task_id'') Null | None \<Rightarrow> Null),
          (''blocking_lanes'', Arr (List.map Str (uniq (filter (\<lambda>l. l \<noteq> ln) (List.map task_lane selected))))),
          (''plan_hash'', if is_string (fget plan ''plan_hash'') then fget plan ''plan_hash'' else Null)])"

section \<open>The scan as a greedy selection\<close>

text \<open>The budget of the scan: how many tasks are selected, and the usage of the lanes.\<close>

definition admits :: "scheduler_policy \<Rightarrow> nat \<times> usage \<Rightarrow> candidate \<Rightarrow> bool" where
  "admits policy b c \<longleftrightarrow> eligible c \<and> \<not> jle (max_selected_tasks policy) (Fin (of_nat (fst b)))
     \<and> quotaReason c (snd b) policy = None"

definition take_task :: "candidate \<Rightarrow> nat \<times> usage \<Rightarrow> nat \<times> usage" where
  "take_task c b = (Suc (fst b), consumeQuota c (snd b))"

definition budget :: "schedule \<Rightarrow> nat \<times> usage" where
  "budget d = (length (s_selected d), s_usage d)"

lemma select_step_cases:
  "select_step policy d c =
     (if admits policy (budget d) c then d\<lparr>s_selected := s_selected d @ [c], s_usage := consumeQuota c (s_usage d)\<rparr>
      else case c_ineligible c of Some r \<Rightarrow> d\<lparr>s_rejected := s_rejected d @ [(c, r)]\<rparr>
        | None \<Rightarrow> d\<lparr>s_deferred := s_deferred d @ [(c,
            if jle (max_selected_tasks policy) (Fin (of_nat (length (s_selected d)))) then ''GLOBAL_SELECTED_QUOTA_EXCEEDED''
            else the (quotaReason c (s_usage d) policy))]\<rparr>)"
  by (simp add: select_step_def admits_def eligible_def budget_def split: option.splits)

lemma budget_step:
  "budget (select_step policy d c) = (if admits policy (budget d) c then take_task c (budget d) else budget d)"
  by (simp add: select_step_cases budget_def take_task_def split: option.splits)

section \<open>Normalised numbers\<close>

lemma bounded_integer_range:
  assumes "lo \<le> d" and "d \<le> hi" and "lo = of_int \<lfloor>lo\<rfloor>" and "hi = of_int \<lfloor>hi\<rfloor>" and "d = of_int \<lfloor>d\<rfloor>"
  shows "\<exists>i. bounded_integer v (Fin d) (Fin lo) (Fin hi) = Fin (of_int i) \<and> lo \<le> of_int i \<and> of_int i \<le> hi"
proof (cases "is_integer (to_num v)")
  case True
  then obtain k where k: "to_num v = Fin (of_int k)"
    by (cases "to_num v") (auto simp: is_integer_def)
  obtain a b where ab: "lo = of_int a" "hi = of_int b" using assms(3,4) by blast
  have "bounded_integer v (Fin d) (Fin lo) (Fin hi) = Fin (of_int (max a (min b k)))"
    using True by (auto simp: bounded_integer_def k ab jmin_def jmax_def max_def min_def)
  moreover have "lo \<le> of_int (max a (min b k))" "of_int (max a (min b k)) \<le> hi"
    using assms(1,2) by (auto simp: ab)
  ultimately show ?thesis by blast
qed (use assms in \<open>auto simp: bounded_integer_def\<close>)

lemma bounded_not_NaN [simp]: "bounded_integer v (Fin d) (Fin lo) (Fin hi) \<noteq> NaN"
  by (cases "to_num v") (auto simp: bounded_integer_def is_integer_def jmax_def jmin_def)

lemma nullableInteger_int: "nullableInteger v = Some m \<Longrightarrow> is_integer m"
proof -
  assume *: "nullableInteger v = Some m"
  obtain i where "bounded_integer v (Fin 0) (Fin 0) (Fin 9007199254740991) = Fin (of_int i)"
    using bounded_integer_range[of 0 0 9007199254740991 v] by auto
  moreover have "m = bounded_integer v (Fin 0) (Fin 0) (Fin 9007199254740991)"
    using * by (simp add: nullableInteger_def max_safe_integer_def split: if_splits)
  ultimately show ?thesis by (simp only: is_integer_def) simp
qed

lemma bounded_amount: "amount (bounded_integer v (Fin 0) (Fin 0) max_safe_integer)"
proof -
  obtain i where i: "bounded_integer v (Fin 0) (Fin 0) max_safe_integer = Fin (of_int i)"
    "0 \<le> i" "of_int i \<le> (9007199254740991 :: rat)"
    using bounded_integer_range[of 0 0 9007199254740991 v] by (auto simp: max_safe_integer_def)
  then have "i \<le> 9007199254740991" by (metis of_int_le_iff of_int_numeral)
  then show ?thesis using i amount_int[of i] by simp
qed

lemma small_integer: "0 \<le> d \<Longrightarrow> d \<le> hi \<Longrightarrow> d = of_int \<lfloor>d\<rfloor> \<Longrightarrow> hi = of_int \<lfloor>hi\<rfloor> \<Longrightarrow>
    \<exists>i. bounded_integer v (Fin d) (Fin 0) (Fin hi) = Fin (of_int i) \<and> 0 \<le> i \<and> of_int i \<le> hi"
  using bounded_integer_range[of 0 d hi v] by auto

section \<open>Well-formed policies and usages\<close>

definition wf_quota :: "lane_quota \<Rightarrow> bool" where
  "wf_quota q \<longleftrightarrow> (q_max_selected q = NaN \<or> (\<exists>i. q_max_selected q = Fin (of_int i) \<and> 0 \<le> i \<and> i \<le> 100))
     \<and> (\<forall>m. q_max_tokens q = Some m \<longrightarrow> is_integer m) \<and> (\<forall>m. q_max_cost q = Some m \<longrightarrow> is_integer m)"

lemma lane_quota_of_wf: "wf_quota (lane_quota_of v)"
proof -
  obtain i where "bounded_integer (get v ''max_selected_per_window'') (Fin 1) (Fin 0) (Fin 100) = Fin (of_int i)"
    "0 \<le> i" "of_int i \<le> (100 :: rat)"
    using small_integer[of 1 100 "get v ''max_selected_per_window''"] by auto
  moreover from this have "i \<le> 100" by (metis of_int_le_iff of_int_numeral)
  ultimately show ?thesis by (auto simp: wf_quota_def lane_quota_of_def nullableInteger_int)
qed

lemma set_own_order [simp]: "set (own_order fs) = set fs"
  by (auto simp: own_order_def)

lemma keys_fset: "fst ` set (fset k v fs) = insert k (fst ` set fs)"
  by (induction k v fs rule: fset.induct) auto

lemma keys_foldl_fset:
  "k \<in> fst ` set acc \<Longrightarrow> k \<in> fst ` set (foldl (\<lambda>acc x. fset (f acc x) (g acc x) acc) acc xs)"
  by (rule foldl_invariant) (simp_all add: keys_fset)

lemma merge_keys: "''default'' \<in> fst ` set (mergeLaneQuotas overrides)"
  unfolding mergeLaneQuotas_def Let_def split_def
  by (rule keys_foldl_fset) (simp add: DEFAULT_LANE_QUOTAS_def)

lemma normalizedLane_default: "normalizedLane (Str ''default'') = ''default''"
  by code_simp

lemma quotas_default: "map_of (lane_quotas (buildAgentRuntimeSchedulerPolicyV1 p)) ''default'' \<noteq> None"
proof -
  define ls where "ls = mergeLaneQuotas (obj_or_empty (get p ''lane_quotas''))"
  have "''default'' \<in> fst ` set ls" unfolding ls_def by (rule merge_keys)
  then obtain v where "(''default'', v) \<in> set ls" by auto
  then have "(''default'', lane_quota_of v) \<in>
      set (rev (List.map (\<lambda>(lane, quota). (normalizedLane (Str lane), lane_quota_of quota)) (own_order ls)))"
    using normalizedLane_default by force
  then have "''default'' \<in> dom (map_of (lane_quotas (buildAgentRuntimeSchedulerPolicyV1 p)))"
    by (simp add: buildAgentRuntimeSchedulerPolicyV1_def normalizeLaneQuotas_def map_of_from_entries dom_map_of_conv_image_fst
        flip: ls_def) force
  then show ?thesis by blast
qed

lemma quotas_wf: "map_of (lane_quotas (buildAgentRuntimeSchedulerPolicyV1 p)) k = Some q \<Longrightarrow> wf_quota q"
  by (auto simp: buildAgentRuntimeSchedulerPolicyV1_def normalizeLaneQuotas_def map_of_from_entries lane_quota_of_wf
      dest!: map_of_SomeD)

lemma laneQuota_wf: "wf_quota (laneQuota (buildAgentRuntimeSchedulerPolicyV1 p) k)"
  using quotas_default[of p] quotas_wf[of p]
  by (auto simp: laneQuota_def inherited_quota_def wf_quota_def[of "\<lparr>q_rank = _, q_max_selected = _, q_max_running = _, q_max_tokens = _, q_max_cost = _\<rparr>"]
      split: option.splits)

lemma max_selected_range:
  "\<exists>i. max_selected_tasks (buildAgentRuntimeSchedulerPolicyV1 p) = Fin (of_int i) \<and> 1 \<le> i \<and> i \<le> 100"
proof -
  obtain i where i: "bounded_integer (get p ''max_selected_tasks'') (Fin 1) (Fin 1) (Fin 100) = Fin (of_int i)"
    "1 \<le> (of_int i :: rat)" "of_int i \<le> (100 :: rat)"
    using bounded_integer_range[of 1 1 100 "get p ''max_selected_tasks''"] by auto
  then have "1 \<le> i" "i \<le> 100" by (metis of_int_1_le_iff, metis of_int_le_iff of_int_numeral)
  with i show ?thesis by (auto simp: buildAgentRuntimeSchedulerPolicyV1_def)
qed

definition sane_usage :: "lane_usage \<Rightarrow> bool" where
  "sane_usage u \<longleftrightarrow> (u_selected u = NaN \<or> (\<exists>i. u_selected u = Fin (of_int i) \<and> 0 \<le> i \<and> i \<le> 1000))
     \<and> (u_tokens u = NaN \<or> amount (u_tokens u)) \<and> (u_cost u = NaN \<or> amount (u_cost u))"

lemma normalizeUsage_sane: "map_of (normalizeUsage v) k = Some u \<Longrightarrow> sane_usage u"
proof -
  define entry where "entry item = \<lparr>u_running = bounded_integer (get item ''running_count'') (Fin 0) (Fin 0) (Fin 1000),
        u_selected = bounded_integer (get item ''selected_count'') (Fin 0) (Fin 0) (Fin 1000),
        u_tokens = bounded_integer (get item ''total_tokens'') (Fin 0) (Fin 0) max_safe_integer,
        u_cost = bounded_integer (get item ''cost_micros_usd'') (Fin 0) (Fin 0) max_safe_integer\<rparr>" for item
  have entry: "sane_usage (entry item)" for item
  proof -
    obtain i where i: "bounded_integer (get item ''selected_count'') (Fin 0) (Fin 0) (Fin 1000) = Fin (of_int i)"
      "0 \<le> i" "of_int i \<le> (1000 :: rat)"
      using small_integer[of 0 1000 "get item ''selected_count''"] by auto
    then have "i \<le> 1000" by (metis of_int_le_iff of_int_numeral)
    with i show ?thesis by (auto simp: sane_usage_def entry_def bounded_amount)
  qed
  have "\<forall>k u. map_of (foldl (\<lambda>acc item. put_field (normalizedLane (get item ''lane'')) (entry item) acc) [] xs) k
      = Some u \<longrightarrow> sane_usage u" for xs
    by (rule foldl_invariant) (auto simp: entry split: if_splits)
  then show "map_of (normalizeUsage v) k = Some u \<Longrightarrow> sane_usage u"
    by (simp add: normalizeUsage_def flip: entry_def)
qed

lemma laneUsage_sane: "sane_usage (laneUsage (normalizeUsage v) k)"
proof -
  have "sane_usage no_usage" "sane_usage inherited_usage"
    by (auto simp: sane_usage_def no_usage_def inherited_usage_def amount_def is_double_numeral intro: exI[of _ 0])
  then show ?thesis using normalizeUsage_sane[of v k] by (auto simp: laneUsage_def split: option.splits)
qed

lemma laneUsage_consume:
  "laneUsage (consumeQuota c us) k = (if k = c_lane c then
     (laneUsage us k)\<lparr>u_selected := jadd (u_selected (laneUsage us k)) (Fin 1),
        u_tokens := jadd (u_tokens (laneUsage us k)) (c_tokens c), u_cost := jadd (u_cost (laneUsage us k)) (c_cost c)\<rparr>
     else laneUsage us k)"
  by (simp add: laneUsage_def consumeQuota_def Let_def)

section \<open>The budget is kept\<close>

definition well_candidate :: "candidate \<Rightarrow> bool" where
  "well_candidate c \<longleftrightarrow> amount (c_tokens c) \<and> amount (c_cost c)"

lemma candidate_of_well: "well_candidate (candidate_of H now policy task)"
  by (simp add: well_candidate_def candidate_of_def computeBudgetInteger_def Let_def bounded_amount)

text \<open>A lane keeps its quota: it was not full, and it is not over any of its maxima now.\<close>

definition within_quota :: "lane_quota \<Rightarrow> lane_usage \<Rightarrow> bool" where
  "within_quota q u \<longleftrightarrow> \<not> jle (q_max_running q) (u_running u) \<and> \<not> jlt (q_max_selected q) (u_selected u)
     \<and> (\<forall>m. q_max_tokens q = Some m \<longrightarrow> \<not> jlt m (u_tokens u))
     \<and> (\<forall>m. q_max_cost q = Some m \<longrightarrow> \<not> jlt m (u_cost u))"

text \<open>The numbers of a lane, as far as its quota looks at them.\<close>

definition sane_lane :: "lane_quota \<Rightarrow> lane_usage \<Rightarrow> bool" where
  "sane_lane q u \<longleftrightarrow> (q_max_selected q = NaN \<or> u_selected u = NaN
       \<or> (\<exists>i. u_selected u = Fin (of_int i) \<and> 0 \<le> i \<and> i \<le> 1000))
     \<and> (u_tokens u = NaN \<or> amount (u_tokens u)) \<and> (u_cost u = NaN \<or> amount (u_cost u))"

lemma sane_usage_lane: "sane_usage u \<Longrightarrow> sane_lane q u"
  by (auto simp: sane_usage_def sane_lane_def)

definition lanes_within :: "scheduler_policy \<Rightarrow> usage \<Rightarrow> nat \<times> usage \<Rightarrow> bool" where
  "lanes_within policy us0 b \<longleftrightarrow> (\<forall>k. sane_lane (laneQuota policy k) (laneUsage (snd b) k)
     \<and> (laneUsage (snd b) k = laneUsage us0 k \<or> within_quota (laneQuota policy k) (laneUsage (snd b) k)))"

lemma not_jle_int: "\<not> jle (Fin (of_int m)) (Fin (of_int i)) \<longleftrightarrow> i < m"
  by auto

lemma selected_step:
  assumes "wf_quota q" and "sane_lane q u" and "\<not> jle (q_max_selected q) (u_selected u)"
  shows "\<not> jlt (q_max_selected q) (jadd (u_selected u) (Fin 1))"
    and "q_max_selected q = NaN \<or> u_selected u = NaN \<or>
      (\<exists>i. jadd (u_selected u) (Fin 1) = Fin (of_int i) \<and> 0 \<le> i \<and> i \<le> 1000)"
proof -
  have step: "jadd (u_selected u) (Fin 1) = Fin (of_int (i + 1)) \<and> i < m"
    if "q_max_selected q = Fin (of_int m)" "u_selected u = Fin (of_int i)" "0 \<le> i" "i \<le> 1000" for m i
    using that assms(3) jadd_int[of i 1] by simp
  have *: "u_selected u = NaN \<or> q_max_selected q = NaN \<or> (\<exists>i m. q_max_selected q = Fin (of_int m) \<and>
      jadd (u_selected u) (Fin 1) = Fin (of_int (i + 1)) \<and> i < m \<and> m \<le> 100 \<and> 0 \<le> i)"
    using assms(1,2) step unfolding wf_quota_def sane_lane_def by blast
  show "q_max_selected q = NaN \<or> u_selected u = NaN \<or>
      (\<exists>i. jadd (u_selected u) (Fin 1) = Fin (of_int i) \<and> 0 \<le> i \<and> i \<le> 1000)"
  proof (cases "u_selected u = NaN \<or> q_max_selected q = NaN")
    case False
    with * obtain i m where "jadd (u_selected u) (Fin 1) = Fin (of_int (i + 1))" "i < m" "m \<le> 100" "0 \<le> i"
      by blast
    then show ?thesis by (intro disjI2 exI[of _ "i + 1"]) simp
  qed blast
  have "\<not> jlt (Fin (of_int m)) (Fin (of_int (i + 1)))" if "i < m" for i m :: int
    using that by (simp only: jlt.simps of_int_less_iff)
  with * show "\<not> jlt (q_max_selected q) (jadd (u_selected u) (Fin 1))" by (elim disjE exE conjE) (simp_all only: jadd.simps jlt_NaN, simp_all)
qed

lemma quotaReason_None:
  "quotaReason c us policy = None \<longleftrightarrow>
     (let q = laneQuota policy (c_lane c); u = laneUsage us (c_lane c) in
      \<not> jle (q_max_running q) (u_running u) \<and> \<not> jle (q_max_selected q) (u_selected u)
      \<and> \<not> exceeds (c_tokens c) (u_tokens u) (q_max_tokens q) \<and> \<not> exceeds (c_cost c) (u_cost u) (q_max_cost q))"
  by (simp add: quotaReason_def Let_def)

lemma amount_step: "n = NaN \<or> amount n \<Longrightarrow> amount c \<Longrightarrow> jadd n c = NaN \<or> amount (jadd n c)"
  using amount_jadd(1)[of n c] by auto

lemma within_consume:
  assumes "lanes_within (buildAgentRuntimeSchedulerPolicyV1 p) us0 b" and "well_candidate c"
    and "admits (buildAgentRuntimeSchedulerPolicyV1 p) b c"
  shows "lanes_within (buildAgentRuntimeSchedulerPolicyV1 p) us0 (take_task c b)"
proof -
  define q where "q = laneQuota (buildAgentRuntimeSchedulerPolicyV1 p) (c_lane c)"
  define u where "u = laneUsage (snd b) (c_lane c)"
  define u' where "u' = u\<lparr>u_selected := jadd (u_selected u) (Fin 1), u_tokens := jadd (u_tokens u) (c_tokens c),
    u_cost := jadd (u_cost u) (c_cost c)\<rparr>"
  have fits: "\<not> jle (q_max_running q) (u_running u)" "\<not> jle (q_max_selected q) (u_selected u)"
    "\<not> exceeds (c_tokens c) (u_tokens u) (q_max_tokens q)" "\<not> exceeds (c_cost c) (u_cost u) (q_max_cost q)"
    using assms(3) by (simp_all add: admits_def quotaReason_None Let_def q_def u_def)
  have wf: "wf_quota q" by (simp add: q_def laneQuota_wf)
  have sane: "sane_lane q u" using assms(1) by (simp add: lanes_within_def q_def u_def)
  have sane': "sane_lane q u'"
  proof -
    have "jadd (u_tokens u) (c_tokens c) = NaN \<or> amount (jadd (u_tokens u) (c_tokens c))"
      "jadd (u_cost u) (c_cost c) = NaN \<or> amount (jadd (u_cost u) (c_cost c))"
      using sane assms(2) by (simp_all only: sane_lane_def well_candidate_def amount_step)
    moreover have "q_max_selected q = NaN \<or> u_selected u' = NaN
        \<or> (\<exists>i. u_selected u' = Fin (of_int i) \<and> 0 \<le> i \<and> i \<le> 1000)"
      using selected_step(2)[OF wf sane fits(2)] by (auto simp: u'_def)
    ultimately show ?thesis by (simp add: sane_lane_def u'_def)
  qed
  have "within_quota q u'"
    using fits wf selected_step(1)[OF wf sane fits(2)]
    by (auto simp: within_quota_def u'_def wf_quota_def exceeds_def)
  with sane' have "sane_lane q u' \<and> within_quota q u'" by blast
  then show ?thesis
    using assms(1) by (simp add: lanes_within_def take_task_def laneUsage_consume q_def u_def u'_def)
qed

lemma jlt_jle_trans: "jlt a b \<Longrightarrow> jle b c \<Longrightarrow> jlt a c"
  by (cases a; cases b; cases c) auto

lemma exceeds_later:
  assumes "n = NaN \<or> amount n" and "amount y" and "amount x" and "exceeds x n m"
  shows "exceeds x (jadd n y) m"
proof (cases "n = NaN")
  case False
  then have "jle (jadd n x) (jadd (jadd n y) x)"
    using assms amount_jadd[of n y] by (intro jadd_amount_mono) auto
  then show ?thesis using assms(4) jlt_jle_trans by (auto simp: exceeds_def split: option.splits)
qed (use assms(4) in \<open>auto simp: exceeds_def split: option.splits\<close>)

lemma admits_earlier:
  assumes "lanes_within (buildAgentRuntimeSchedulerPolicyV1 p) us0 b" and "well_candidate y" and "well_candidate x"
    and "admits (buildAgentRuntimeSchedulerPolicyV1 p) b y"
    and "admits (buildAgentRuntimeSchedulerPolicyV1 p) (take_task y b) x"
  shows "admits (buildAgentRuntimeSchedulerPolicyV1 p) b x"
proof -
  obtain i where "max_selected_tasks (buildAgentRuntimeSchedulerPolicyV1 p) = Fin (of_int i)"
    using max_selected_range by blast
  then have room: "\<not> jle (max_selected_tasks (buildAgentRuntimeSchedulerPolicyV1 p)) (Fin (of_nat (fst b)))"
    using assms(5) by (simp add: admits_def take_task_def)
  have "quotaReason x (snd b) (buildAgentRuntimeSchedulerPolicyV1 p) = None"
  proof (cases "c_lane x = c_lane y")
    case True
    have "sane_lane (laneQuota (buildAgentRuntimeSchedulerPolicyV1 p) (c_lane x)) (laneUsage (snd b) (c_lane x))"
      using assms(1) by (simp add: lanes_within_def)
    then have tok: "u_tokens (laneUsage (snd b) (c_lane x)) = NaN \<or> amount (u_tokens (laneUsage (snd b) (c_lane x)))"
      and cost: "u_cost (laneUsage (snd b) (c_lane x)) = NaN \<or> amount (u_cost (laneUsage (snd b) (c_lane x)))"
      by (simp_all add: sane_lane_def)
    show ?thesis
      using assms(2-5) True exceeds_later[OF tok, of "c_tokens y" "c_tokens x"] exceeds_later[OF cost, of "c_cost y" "c_cost x"]
      by (auto simp: admits_def quotaReason_None Let_def take_task_def laneUsage_consume well_candidate_def)
  next
    case False
    then show ?thesis
      using assms(5) by (simp add: admits_def quotaReason_None Let_def take_task_def laneUsage_consume)
  qed
  with room assms(5) show ?thesis by (simp add: admits_def)
qed

interpretation sched: saturating_scan well_candidate "admits (buildAgentRuntimeSchedulerPolicyV1 p)" take_task
    "lanes_within (buildAgentRuntimeSchedulerPolicyV1 p) us0" for p us0
  by unfold_locales (blast intro: within_consume admits_earlier)+

section \<open>The loop is the scan\<close>

abbreviation scan_taken :: "jsval \<Rightarrow> nat \<times> usage \<Rightarrow> candidate list \<Rightarrow> candidate list" where
  "scan_taken p \<equiv> greedy_scan.taken (admits (buildAgentRuntimeSchedulerPolicyV1 p)) take_task"

abbreviation scan_spent :: "jsval \<Rightarrow> nat \<times> usage \<Rightarrow> candidate list \<Rightarrow> nat \<times> usage" where
  "scan_spent p \<equiv> greedy_scan.spent (admits (buildAgentRuntimeSchedulerPolicyV1 p)) take_task"

lemma select_loop:
  "budget (foldl (select_step (buildAgentRuntimeSchedulerPolicyV1 p)) d xs) = scan_spent p (budget d) xs
   \<and> s_selected (foldl (select_step (buildAgentRuntimeSchedulerPolicyV1 p)) d xs) = s_selected d @ scan_taken p (budget d) xs"
proof (induction xs arbitrary: d)
  case (Cons x xs)
  have "s_selected (select_step (buildAgentRuntimeSchedulerPolicyV1 p) d x) = s_selected d @
      (if admits (buildAgentRuntimeSchedulerPolicyV1 p) (budget d) x then [x] else [])"
    by (simp add: select_step_cases split: option.splits)
  then show ?case using Cons.IH[of "select_step (buildAgentRuntimeSchedulerPolicyV1 p) d x"]
    by (simp add: budget_step)
qed simp

lemma select_partition:
  "mset (s_selected (foldl (select_step policy) d xs)) + mset (List.map fst (s_deferred (foldl (select_step policy) d xs)))
     + mset (List.map fst (s_rejected (foldl (select_step policy) d xs)))
   = mset (s_selected d) + mset (List.map fst (s_deferred d)) + mset (List.map fst (s_rejected d)) + mset xs"
proof (induction xs arbitrary: d)
  case (Cons x xs)
  have "mset (s_selected (select_step policy d x)) + mset (List.map fst (s_deferred (select_step policy d x)))
     + mset (List.map fst (s_rejected (select_step policy d x)))
   = add_mset x (mset (s_selected d) + mset (List.map fst (s_deferred d)) + mset (List.map fst (s_rejected d)))"
    by (simp add: select_step_cases split: option.splits)
  then show ?case using Cons.IH[of "select_step policy d x"] by simp
qed simp

lemma quotaReason_not_global: "quotaReason c us policy \<noteq> Some ''GLOBAL_SELECTED_QUOTA_EXCEEDED''"
  by (simp add: quotaReason_def Let_def)

lemma step_deferred:
  assumes "(c, why) \<in> set (s_deferred (select_step policy d x))"
  shows "(c, why) \<in> set (s_deferred d) \<or> (c = x \<and> eligible c \<and> \<not> admits policy (budget d) c
     \<and> (why = ''GLOBAL_SELECTED_QUOTA_EXCEEDED'' \<longrightarrow>
         jle (max_selected_tasks policy) (Fin (of_nat (length (s_selected d))))))"
proof (cases "eligible x \<and> \<not> admits policy (budget d) x")
  case True
  then have "quotaReason x (s_usage d) policy \<noteq> None \<or>
      jle (max_selected_tasks policy) (Fin (of_nat (length (s_selected d))))"
    by (auto simp: admits_def budget_def)
  then show ?thesis
    using assms True quotaReason_not_global[of x "s_usage d" policy]
    by (auto simp: select_step_cases eligible_def split: if_splits)
next
  case False
  then show ?thesis using assms by (auto simp: select_step_cases eligible_def admits_def split: if_splits option.splits)
qed

lemma select_deferred:
  assumes "(c, why) \<in> set (s_deferred (foldl (select_step policy) d xs))"
  shows "(c, why) \<in> set (s_deferred d) \<or> (\<exists>ys zs. xs = ys @ c # zs \<and> eligible c
     \<and> \<not> admits policy (budget (foldl (select_step policy) d ys)) c
     \<and> (why = ''GLOBAL_SELECTED_QUOTA_EXCEEDED'' \<longrightarrow>
         jle (max_selected_tasks policy) (Fin (of_nat (length (s_selected (foldl (select_step policy) d ys)))))))"
  using assms
proof (induction xs rule: rev_induct)
  case (snoc x xs)
  from snoc.prems have "(c, why) \<in> set (s_deferred (select_step policy (foldl (select_step policy) d xs) x))"
    by simp
  from step_deferred[OF this] show ?case
  proof
    assume "(c, why) \<in> set (s_deferred (foldl (select_step policy) d xs))"
    with snoc.IH show ?thesis by (metis append_Cons append_assoc)
  qed (rule disjI2, rule exI[of _ xs], rule exI[of _ "[]"], auto)
qed simp

lemma select_rejected:
  "(c, why) \<in> set (s_rejected (foldl (select_step policy) d xs)) \<Longrightarrow>
     (c, why) \<in> set (s_rejected d) \<or> c_ineligible c = Some why"
proof (induction xs rule: rev_induct)
  case (snoc x xs)
  then show ?case by (auto simp: select_step_def split: option.splits if_splits)
qed simp

section \<open>What a schedule is\<close>

definition start :: "jsval \<Rightarrow> nat \<times> usage" where
  "start input = (0, sched_usage input)"

definition no_schedule :: "usage \<Rightarrow> schedule" where
  "no_schedule us = \<lparr>s_selected = [], s_deferred = [], s_rejected = [], s_usage = us\<rparr>"

lemma no_schedule_simps [simp]:
  "s_selected (no_schedule us) = []" "s_deferred (no_schedule us) = []" "s_rejected (no_schedule us) = []"
  "budget (no_schedule us) = (0, us)"
  by (simp_all add: no_schedule_def budget_def)

lemma schedule_loop:
  "schedule_of H input = foldl (select_step (buildAgentRuntimeSchedulerPolicyV1 (get input ''policy'')))
     (no_schedule (sched_usage input)) (ordered H input)"
  by (simp add: schedule_of_def selectCandidates_def no_schedule_def sched_policy_def)

lemma schedule_budget: "budget (schedule_of H input) = scan_spent (get input ''policy'') (start input) (ordered H input)"
  and schedule_selected: "s_selected (schedule_of H input) = scan_taken (get input ''policy'') (start input) (ordered H input)"
  using select_loop[of "get input ''policy''" "no_schedule (sched_usage input)" "ordered H input"]
  by (simp_all add: schedule_loop start_def)

lemma ordered_mset: "mset (ordered H input) = mset (sched_candidates H input)"
  by (simp add: ordered_def)

lemma ordered_well: "list_all well_candidate (ordered H input)"
  by (auto simp: ordered_def sched_candidates_def sched_normalizeTasks_def list_all_iff candidate_of_well)

lemma start_within: "lanes_within (sched_policy input) (sched_usage input) (start input)"
  by (simp add: lanes_within_def start_def sched_usage_def laneUsage_sane sane_usage_lane)


lemma selected_eligible: "list_all eligible (s_selected (schedule_of H input))"
proof -
  have "list_all eligible (scan_taken p b xs)" for p b xs
    by (induction xs arbitrary: b) (auto simp: admits_def)
  then show ?thesis by (simp add: schedule_selected)
qed

section \<open>Accounting of a lane\<close>





section \<open>Properties\<close>

definition plan_rows :: "string \<Rightarrow> candidate list \<Rightarrow> jsval" where
  "plan_rows why cs = Arr (List.map (\<lambda>c. projectTaskDecision c why) cs)"

definition plan_rows_why :: "(candidate \<times> string) list \<Rightarrow> jsval" where
  "plan_rows_why cs = Arr (List.map (\<lambda>(c, why). projectTaskDecision c why) cs)"

lemma plan_fields:
  "fget (planAgentRuntimeScheduleV1 H input) ''selected_tasks'' = plan_rows ''SELECTED'' (s_selected (schedule_of H input))"
  "fget (planAgentRuntimeScheduleV1 H input) ''deferred_tasks'' = plan_rows_why (s_deferred (schedule_of H input))"
  "fget (planAgentRuntimeScheduleV1 H input) ''rejected_tasks'' = plan_rows_why (s_rejected (schedule_of H input))"
  by (simp_all add: planAgentRuntimeScheduleV1_def schedule_plan_def Let_def plan_rows_def plan_rows_why_def)

lemma take_task_simps [simp]: "fst (take_task c b) = Suc (fst b)" "snd (take_task c b) = consumeQuota c (snd b)"
  by (simp_all add: take_task_def)

lemma taken_length:
  assumes "max_selected_tasks (buildAgentRuntimeSchedulerPolicyV1 p) = Fin (of_int m)"
  shows "int (fst b) \<le> m \<Longrightarrow> int (fst b) + int (length (scan_taken p b xs)) \<le> m"
proof (induction xs arbitrary: b)
  case (Cons x xs)
  show ?case
  proof (cases "admits (buildAgentRuntimeSchedulerPolicyV1 p) b x")
    case True
    then have "int (fst b) < m"
      using assms by (simp add: admits_def)
    then show ?thesis using Cons.IH[of "take_task x b"] True by simp
  qed (use Cons in simp)
qed simp

text \<open>
  Every task that is offered is in exactly one of the three lists of the plan: selected, deferred or
  rejected. The selected and deferred ones are eligible, the rejected ones carry their reason, and
  at most the global maximum is selected.
\<close>

theorem schedule_partitions:
  "\<exists>sel dfr rej.
     fget (planAgentRuntimeScheduleV1 H input) ''selected_tasks'' = plan_rows ''SELECTED'' sel
   \<and> fget (planAgentRuntimeScheduleV1 H input) ''deferred_tasks'' = plan_rows_why dfr
   \<and> fget (planAgentRuntimeScheduleV1 H input) ''rejected_tasks'' = plan_rows_why rej
   \<and> mset sel + mset (List.map fst dfr) + mset (List.map fst rej) = mset (sched_candidates H input)
   \<and> list_all eligible (sel @ List.map fst dfr) \<and> list_all (\<lambda>(c, why). c_ineligible c = Some why) rej
   \<and> jle (Fin (of_nat (length sel))) (max_selected_tasks (sched_policy input))"
proof -
  let ?d = "schedule_of H input"
  have "mset (s_selected ?d) + mset (List.map fst (s_deferred ?d)) + mset (List.map fst (s_rejected ?d))
      = mset (sched_candidates H input)"
    using select_partition[of "buildAgentRuntimeSchedulerPolicyV1 (get input ''policy'')" "no_schedule (sched_usage input)"
        "ordered H input"]
    by (simp add: schedule_loop ordered_mset)
  moreover have "list_all eligible (List.map fst (s_deferred ?d))"
    using select_deferred[of _ _ "buildAgentRuntimeSchedulerPolicyV1 (get input ''policy'')" "no_schedule (sched_usage input)"
        "ordered H input"]
    by (fastforce simp: schedule_loop list_all_iff)
  moreover have "list_all (\<lambda>(c, why). c_ineligible c = Some why) (s_rejected ?d)"
    using select_rejected[of _ _ "buildAgentRuntimeSchedulerPolicyV1 (get input ''policy'')" "no_schedule (sched_usage input)"
        "ordered H input"]
    by (auto simp: schedule_loop list_all_iff)
  moreover have "jle (Fin (of_nat (length (s_selected ?d)))) (max_selected_tasks (sched_policy input))"
  proof -
    obtain m where m: "max_selected_tasks (sched_policy input) = Fin (of_int m)" "1 \<le> m"
      using max_selected_range[of "get input ''policy''"] by (auto simp: sched_policy_def)
    from taken_length[OF m(1)[unfolded sched_policy_def], of "start input" "ordered H input"]
    have "int (length (s_selected ?d)) \<le> m" using m(2) by (simp add: schedule_selected start_def)
    then have "of_int (int (length (s_selected ?d))) \<le> (of_int m :: rat)" by (simp only: of_int_le_iff)
    then show ?thesis by (simp add: m(1))
  qed
  ultimately show ?thesis using selected_eligible[of H input]
    by (intro exI[of _ "s_selected ?d"] exI[of _ "s_deferred ?d"] exI[of _ "s_rejected ?d"]) (simp add: plan_fields)
qed



lemma schedule_deferred_at:
  assumes "(c, why) \<in> set (s_deferred (schedule_of H input))"
  shows "\<exists>ys zs. ordered H input = ys @ c # zs \<and> eligible c
     \<and> \<not> admits (sched_policy input) (scan_spent (get input ''policy'') (start input) ys) c
     \<and> (why = ''GLOBAL_SELECTED_QUOTA_EXCEEDED'' \<longrightarrow> jle (max_selected_tasks (sched_policy input))
          (Fin (of_nat (fst (scan_spent (get input ''policy'') (start input) ys)))))"
proof -
  let ?loop = "foldl (select_step (buildAgentRuntimeSchedulerPolicyV1 (get input ''policy''))) (no_schedule (sched_usage input))"
  have spent: "budget (?loop ys) = scan_spent (get input ''policy'') (start input) ys" for ys
    using select_loop[of "get input ''policy''" "no_schedule (sched_usage input)" ys] by (simp add: start_def)
  have size: "length (s_selected (?loop ys)) = fst (scan_spent (get input ''policy'') (start input) ys)" for ys
    using arg_cong[OF spent[of ys], of fst] by (simp add: budget_def)
  have "(c, why) \<in> set (s_deferred (?loop (ordered H input)))" using assms by (simp only: schedule_loop)
  from select_deferred[OF this] show ?thesis by (simp only: no_schedule_simps spent size sched_policy_def list.set empty_iff simp_thms)
qed

text \<open>
  The scan is greedy to the end: a task that is deferred would not fit what is left of the global
  maximum and of the quota of its lane when the plan is complete.
\<close>

theorem schedule_is_maximal:
  assumes "(c, why) \<in> set (s_deferred (schedule_of H input))"
  shows "eligible c \<and> (jle (max_selected_tasks (sched_policy input)) (Fin (of_nat (length (s_selected (schedule_of H input)))))
    \<or> quotaReason c (s_usage (schedule_of H input)) (sched_policy input) \<noteq> None)"
proof -
  let ?p = "get input ''policy''"
  obtain ys zs where yz: "ordered H input = ys @ c # zs" "eligible c"
    "\<not> admits (sched_policy input) (scan_spent ?p (start input) ys) c"
    using schedule_deferred_at[OF assms] by blast
  have "\<not> admits (sched_policy input) (budget (schedule_of H input)) c"
    using sched.passed_over[OF start_within[unfolded sched_policy_def] ordered_well[of H input, unfolded yz(1)]] yz
    by (simp add: schedule_budget sched_policy_def)
  with yz(2) show ?thesis by (simp add: admits_def budget_def)
qed

section \<open>Live work goes first\<close>

definition live_first :: "candidate list \<Rightarrow> bool" where
  "live_first cs \<longleftrightarrow> list_all (\<lambda>c. if c_lane c = ''live'' then c_rank c = Fin 0 else jle (Fin 1) (c_rank c)) cs"

lemma compare_zero:
  assumes "jle (Fin 1) r"
  shows "truthy (Num (compareNumber (Fin 0) r))" "\<not> jlt (Fin 0) (compareNumber (Fin 0) r)"
    and "truthy (Num (compareNumber r (Fin 0)))" "jlt (Fin 0) (compareNumber r (Fin 0))"
proof -
  have "truthy (Num (compareNumber (Fin 0) r)) \<and> \<not> jlt (Fin 0) (compareNumber (Fin 0) r)
      \<and> truthy (Num (compareNumber r (Fin 0))) \<and> jlt (Fin 0) (compareNumber r (Fin 0))"
  proof (cases r)
    case (Fin x)
    then have x: "1 \<le> x" using assms by simp
    then have "compareNumber (Fin 0) r = rnd (- x)" "compareNumber r (Fin 0) = rnd x"
      by (auto simp: compareNumber_def jsub_def Fin)
    moreover have "jle (rnd (- x)) (Fin (- 1))" "jle (Fin 1) (rnd x)"
      using x by (auto intro!: jle_rnd_double2 jle_rnd_double is_double_numeral)
    ultimately show ?thesis by (cases "rnd (- x)"; cases "rnd x") simp_all
  qed (use assms in \<open>simp_all add: compareNumber_def jsub_def jnumeq_def\<close>)
  then show "truthy (Num (compareNumber (Fin 0) r))" "\<not> jlt (Fin 0) (compareNumber (Fin 0) r)"
    "truthy (Num (compareNumber r (Fin 0)))" "jlt (Fin 0) (compareNumber r (Fin 0))" by blast+
qed

lemma promoted_rank:
  assumes "jle (Fin 1) (c_rank b)"
  shows "jle (Fin 1) (effectiveRank r (sched_policy input) b)"
proof -
  obtain i where "stale_rank_boost (sched_policy input) = Fin (of_int i)"
    using small_integer[of 30 100] by (auto simp: sched_policy_def buildAgentRuntimeSchedulerPolicyV1_def)
  then have "jsub (c_rank b) (stale_rank_boost (sched_policy input)) \<noteq> NaN"
    using assms by (cases "c_rank b") (simp_all add: jsub_def)
  then have "jle (Fin 1) (jmax (Fin 1) (jsub (c_rank b) (stale_rank_boost (sched_policy input))))"
    using jmax_ge[of "Fin 1"] by blast
  moreover have "\<not> jnumeq (c_rank b) (Fin 0)" using assms by (cases "c_rank b") (auto simp: jnumeq_def)
  ultimately show ?thesis using assms by (simp add: effectiveRank_def)
qed

lemma live_before:
  assumes "live_first cs" and "a \<in> set cs" and "b \<in> set cs" and "c_lane a = ''live''" and "c_lane b \<noteq> ''live''"
  shows "\<not> compareCandidates H r (sched_policy input) a b \<and> compareCandidates H r (sched_policy input) b a"
proof -
  have "effectiveRank r (sched_policy input) a = Fin 0"
    using assms by (auto simp: live_first_def list_all_iff effectiveRank_def)
  moreover have "jle (Fin 1) (c_rank b)" using assms by (auto simp: live_first_def list_all_iff)
  note compare_zero[OF promoted_rank[OF this, of r input]]
  ultimately show ?thesis by (simp add: compareCandidates_def Let_def del: truthy.simps)
qed

lemma ordered_live_first:
  assumes "live_first (sched_candidates H input)"
  shows "sorted_wrt (\<lambda>a b. c_lane b = ''live'' \<longrightarrow> c_lane a = ''live'') (ordered H input)"
  unfolding ordered_def using live_before[OF assms] by (intro js_sort_class) blast

lemma full_takes_none:
  "jle (max_selected_tasks (buildAgentRuntimeSchedulerPolicyV1 p)) (Fin (of_nat (fst b))) \<Longrightarrow> scan_taken p b xs = []"
  by (induction xs) (simp_all add: admits_def)

text \<open>
  Live work is never held back by other work: where the lane \<open>live\<close> has rank 0 and every other lane a
  later rank, a live task is deferred for the global maximum only if every selected task is live,
  whatever the age of the others.
\<close>

theorem schedule_live_first:
  assumes "live_first (sched_candidates H input)" and "c_lane c = ''live''"
    and "(c, ''GLOBAL_SELECTED_QUOTA_EXCEEDED'') \<in> set (s_deferred (schedule_of H input))"
    and "x \<in> set (s_selected (schedule_of H input))"
  shows "c_lane x = ''live''"
proof -
  let ?p = "get input ''policy''"
  obtain ys zs where yz: "ordered H input = ys @ c # zs"
    "jle (max_selected_tasks (sched_policy input)) (Fin (of_nat (fst (scan_spent ?p (start input) ys))))"
    using schedule_deferred_at[OF assms(3)] by blast
  have "s_selected (schedule_of H input) = scan_taken ?p (start input) ys"
    using full_takes_none[OF yz(2)[unfolded sched_policy_def]]
    by (simp only: schedule_selected yz(1) sched.taken_append append_Nil2)
  then have "x \<in> set ys" using assms(4) sched.taken_subset[of ?p "start input" ys] by auto
  then show ?thesis using ordered_live_first[OF assms(1)] assms(2) by (simp add: yz(1) sorted_wrt_append)
qed

section \<open>The gate follows the plan\<close>

lemma normalizedLane_idem: "normalizedLane (Str (normalizedLane v)) = normalizedLane v"
proof (cases "trim (to_str (js_or v (Str ''default''))) = []")
  case True
  then show ?thesis using normalizedLane_default by (simp add: normalizedLane_def Let_def)
next
  case False
  then show ?thesis by (simp add: normalizedLane_def Let_def js_or_def trim_to_lower)
qed

lemma candidate_lane: "c \<in> set (sched_candidates H input) \<Longrightarrow> normalizedLane (Str (c_lane c)) = c_lane c"
  by (auto simp: sched_candidates_def sched_normalizeTasks_def candidate_of_def Let_def normalizedLane_idem)

lemma selected_candidate: "x \<in> set (s_selected (schedule_of H input)) \<Longrightarrow> x \<in> set (sched_candidates H input)"
  using sched.taken_subset[of "get input ''policy''" "start input" "ordered H input"] ordered_mset[of H input]
  by (metis schedule_selected set_mset_mset subsetD)

lemma find_map_None: "List.find P (List.map f xs) = None \<longleftrightarrow> (\<forall>x \<in> set xs. \<not> P (f x))"
  by (auto simp: find_None_iff)

definition gate_input :: "jsval \<Rightarrow> jsobj \<Rightarrow> jsval" where
  "gate_input lane plan = Obj [(''lane'', lane), (''plan'', Obj plan)]"

lemma gate_allowed:
  "fget (evaluateAgentRuntimeLaneGateV1 (gate_input v plan)) ''allowed'' =
     Bool (List.find (\<lambda>t. task_lane t = normalizedLane v) (arr_or_empty (fget plan ''selected_tasks'')) \<noteq> None
       \<or> arr_or_empty (fget plan ''selected_tasks'') = [])"
  by (simp add: evaluateAgentRuntimeLaneGateV1_def Let_def gate_input_def)

text \<open>
  The gate opens for a lane exactly if the plan selected a task of that lane, or nothing at all.
\<close>

theorem gate_follows_plan:
  "fget (evaluateAgentRuntimeLaneGateV1 (gate_input v (planAgentRuntimeScheduleV1 H input))) ''allowed''
     = Bool (s_selected (schedule_of H input) = []
         \<or> list_ex (\<lambda>c. c_lane c = normalizedLane v) (s_selected (schedule_of H input)))"
proof -
  let ?sel = "s_selected (schedule_of H input)"
  have rows: "task_lane (projectTaskDecision c why) = c_lane c" if "c \<in> set ?sel" for c why
    using candidate_lane[OF selected_candidate[OF that]] by (simp add: task_lane_def projectTaskDecision_def)
  have "fget (evaluateAgentRuntimeLaneGateV1 (gate_input v (planAgentRuntimeScheduleV1 H input))) ''allowed''
      = Bool (?sel = [] \<or> (\<exists>c \<in> set ?sel. task_lane (projectTaskDecision c ''SELECTED'') = normalizedLane v))"
    unfolding gate_allowed plan_fields plan_rows_def arr_or_empty.simps find_map_None by auto
  then show ?thesis using rows by (auto simp: list_ex_iff)
qed

text \<open>
  A live task that is ready opens the gate of its lane: where live work has the first rank, the plan
  selects a live task as soon as one is eligible within its quota.
\<close>

theorem live_gate_opens:
  assumes "live_first (sched_candidates H input)" and "liveReady H input"
  shows "fget (evaluateAgentRuntimeLaneGateV1 (gate_input (Str ''live'') (planAgentRuntimeScheduleV1 H input))) ''allowed''
    = Bool True"
proof -
  let ?p = "get input ''policy''" and ?L = "filter (\<lambda>c. c_lane c = ''live'') (ordered H input)"
  obtain c where c: "c \<in> set (sched_candidates H input)" "eligible c" "c_lane c = ''live''"
    "quotaReason c (sched_usage input) (sched_policy input) = None"
    using assms(2) by (auto simp: liveReady_def list_ex_iff)
  obtain i where "max_selected_tasks (sched_policy input) = Fin (of_int i)" "1 \<le> i"
    using max_selected_range by (auto simp: sched_policy_def)
  then have "admits (sched_policy input) (start input) c" using c by (simp add: admits_def start_def)
  moreover have "c \<in> set ?L" using c by (simp add: ordered_def)
  ultimately have "scan_taken ?p (start input) ?L \<noteq> []"
    using sched.taken_progress[of c ?L ?p "start input"] by (simp add: sched_policy_def)
  then have x: "hd (scan_taken ?p (start input) ?L) \<in> set (scan_taken ?p (start input) ?L)"
    (is "?x \<in> _") by (rule hd_in_set)
  have "ordered H input = ?L @ filter (\<lambda>c. c_lane c \<noteq> ''live'') (ordered H input)"
    by (rule sorted_class_split[OF ordered_live_first[OF assms(1)]])
  then have "?x \<in> set (s_selected (schedule_of H input))"
    using x unfolding schedule_selected by (metis Un_iff sched.taken_append set_append)
  moreover have "c_lane ?x = ''live''" using x sched.taken_subset[of ?p "start input" ?L] by auto
  moreover have "normalizedLane (Str ''live'') = ''live''" by code_simp
  ultimately show ?thesis by (auto simp: gate_follows_plan list_ex_iff)
qed

text \<open>
  A lane named like an inherited property escapes every quota: none of its tasks is ever deferred for
  a quota of its lane, although a lane that the policy does not name has the quota of \<open>default\<close>.
\<close>

theorem inherited_lane_has_no_quota:
  assumes "c_lane c \<in> set PROTOTYPE_NAMES" and "map_of (lane_quotas policy) (c_lane c) = None"
  shows "quotaReason c us policy = None"
proof -
  have "\<not> jle NaN n" for n by (simp add: jle_def)
  then show ?thesis using assms by (simp add: quotaReason_None Let_def laneQuota_def inherited_quota_def exceeds_def)
qed

text \<open>A priority of \<open>null\<close> is the most urgent one, an absent priority the default.\<close>

lemma null_priority:
  "bounded_integer Null (Fin 100) (Fin 0) (Fin 9999) = Fin 0" "bounded_integer Undef (Fin 100) (Fin 0) (Fin 9999) = Fin 100"
  by (simp_all add: bounded_integer_def is_integer_def jmin_def jmax_def)

section \<open>A sample\<close>

definition sample_schedule_task :: "string \<Rightarrow> string \<Rightarrow> jsval" where
  "sample_schedule_task k lane = Obj [(''task_id'', Str k), (''lane'', Str lane), (''status'', Str ''READY''),
     (''created_at_utc'', Str ''1970-01-01T00:00:00.000Z'')]"

definition sample_schedule :: jsval where
  "sample_schedule = Obj [(''tasks'', Arr [sample_schedule_task ''r'' ''research'', sample_schedule_task ''b'' ''live'',
     sample_schedule_task ''a'' ''Live''])]"

definition sample_candidate :: "string \<Rightarrow> string \<Rightarrow> rat \<Rightarrow> candidate" where
  "sample_candidate k lane r = \<lparr>c_task_id = Some k, c_task_key = None, c_task_type = None, c_lane = lane,
     c_status = ''READY'', c_priority = Fin 100, c_created = Some ''1970-01-01T00:00:00.000Z'', c_not_before = None,
     c_tokens = Fin 0, c_cost = Fin 0, c_ineligible = None, c_age_seconds = Fin 0, c_rank = Fin r\<rparr>"

lemma sample_sched_candidates: "sched_candidates sample_host sample_schedule =
    [sample_candidate ''r'' ''research'' 40, sample_candidate ''b'' ''live'' 0, sample_candidate ''a'' ''live'' 0]"
  by code_simp

lemma sample_policy:
  "max_selected_tasks (sched_policy sample_schedule) = Fin 1" "stale_rank_boost (sched_policy sample_schedule) = Fin 30"
  "laneQuota (sched_policy sample_schedule) ''live'' = \<lparr>q_rank = Fin 0, q_max_selected = Fin 4, q_max_running = Fin 8,
     q_max_tokens = None, q_max_cost = None\<rparr>"
  by code_simp+

lemma sample_usage: "sched_usage sample_schedule = []"
  by code_simp

lemma sample_live: "liveReady sample_host sample_schedule"
  by (simp add: liveReady_def sample_sched_candidates sample_candidate_def eligible_def quotaReason_None Let_def sample_policy
      sample_usage laneUsage_def no_usage_def exceeds_def PROTOTYPE_NAMES_def)

lemma sample_collation:
  "locale_compare sample_host ''b'' ''a'' = 1" "locale_compare sample_host ''a'' ''b'' = - 1" "locale_compare sample_host s s = 0"
  by (code_simp, code_simp, simp add: sample_host_def)

lemma sample_ordered: "ordered sample_host sample_schedule =
    [sample_candidate ''a'' ''live'' 0, sample_candidate ''b'' ''live'' 0, sample_candidate ''r'' ''research'' 40]"
  by (simp add: ordered_def sample_live sample_sched_candidates js_sort_def compareCandidates_def Let_def effectiveRank_def
      sample_candidate_def compareNumber_def jsub_def text_or_def sample_collation)

lemma sample_scheduled:
  "s_selected (schedule_of sample_host sample_schedule) = [sample_candidate ''a'' ''live'' 0]"
  "(sample_candidate ''b'' ''live'' 0, ''GLOBAL_SELECTED_QUOTA_EXCEEDED'') \<in> set (s_deferred (schedule_of sample_host sample_schedule))"
  by (simp_all add: schedule_of_def sample_ordered selectCandidates_def select_step_def sample_policy sample_usage
      sample_candidate_def quotaReason_def Let_def laneUsage_def no_usage_def PROTOTYPE_NAMES_def exceeds_def)

lemma sample_live_first: "live_first (sched_candidates sample_host sample_schedule)"
  by (simp add: live_first_def sample_sched_candidates sample_candidate_def)


theorem schedule_is_maximal_witness:
  "jle (max_selected_tasks (sched_policy sample_schedule)) (Fin 1) \<or>
   (\<exists>why. quotaReason (sample_candidate ''b'' ''live'' 0) (s_usage (schedule_of sample_host sample_schedule))
     (sched_policy sample_schedule) = Some why)"
  using schedule_is_maximal[OF sample_scheduled(2)] by (simp add: sample_scheduled(1) not_None_eq[symmetric] del: not_None_eq)

theorem schedule_live_first_witness:
  "c_lane (hd (s_selected (schedule_of sample_host sample_schedule))) = ''live''"
  by (rule schedule_live_first[OF sample_live_first _ sample_scheduled(2)])
    (simp_all add: sample_scheduled(1), simp add: sample_candidate_def)

theorem live_gate_opens_witness:
  "fget (evaluateAgentRuntimeLaneGateV1 (gate_input (Str ''live'')
     (planAgentRuntimeScheduleV1 sample_host sample_schedule))) ''allowed'' = Bool True"
  by (rule live_gate_opens[OF sample_live_first sample_live])

theorem inherited_lane_has_no_quota_witness:
  "quotaReason (sample_candidate ''x'' ''constructor'' 0) [] (sched_policy sample_schedule) = None"
proof (rule inherited_lane_has_no_quota)
  show "c_lane (sample_candidate ''x'' ''constructor'' 0) \<in> set PROTOTYPE_NAMES"
    by (simp add: sample_candidate_def PROTOTYPE_NAMES_def)
  have "map_of (lane_quotas (sched_policy sample_schedule)) ''constructor'' = None" by code_simp
  then show "map_of (lane_quotas (sched_policy sample_schedule)) (c_lane (sample_candidate ''x'' ''constructor'' 0)) = None"
    by (simp add: sample_candidate_def)
qed

end
