(* ===== verification/Setup_V1.thy ===== *)
theory Setup_V1
  imports Lifecycle
begin

text \<open>
  \<open>packages/desk-domain/src/setup-state-machine-v1.js\<close>: the life of a trade setup. Only the
  execution engine may trigger it, and a terminal setup never changes. \<open>setup_apply\<close> is what a
  store does with a sequence of calls, each a command with the authority that gave it.
\<close>

datatype setup_state =
    NONE | SETUP_CANDIDATE | PRE_ARMED | ARMED_CONDITIONAL | TRIGGERED | CANCELLED |
    EXPIRED | INVALIDATED | REPLACED

datatype setup_command =
    NOOP | UPSERT_CANDIDATE | PRE_ARM | ARM | CANCEL | EXPIRE | INVALIDATE | REPLACE |
    ENGINE_TRIGGER

definition SETUP_STATES_V1 :: "(string \<times> setup_state) list" where
  "SETUP_STATES_V1 =
     [(''NONE'', NONE), (''SETUP_CANDIDATE'', SETUP_CANDIDATE), (''PRE_ARMED'', PRE_ARMED),
     (''ARMED_CONDITIONAL'', ARMED_CONDITIONAL), (''TRIGGERED'', TRIGGERED),
     (''CANCELLED'', CANCELLED), (''EXPIRED'', EXPIRED), (''INVALIDATED'', INVALIDATED),
     (''REPLACED'', REPLACED)]"

definition SETUP_COMMANDS_V1 :: "(string \<times> setup_command) list" where
  "SETUP_COMMANDS_V1 =
     [(''NOOP'', NOOP), (''UPSERT_CANDIDATE'', UPSERT_CANDIDATE), (''PRE_ARM'', PRE_ARM),
     (''ARM'', ARM), (''CANCEL'', CANCEL), (''EXPIRE'', EXPIRE),
     (''INVALIDATE'', INVALIDATE), (''REPLACE'', REPLACE),
     (''ENGINE_TRIGGER'', ENGINE_TRIGGER)]"

fun setup_name :: "setup_state \<Rightarrow> string" where
  "setup_name NONE = ''NONE''"
| "setup_name SETUP_CANDIDATE = ''SETUP_CANDIDATE''"
| "setup_name PRE_ARMED = ''PRE_ARMED''"
| "setup_name ARMED_CONDITIONAL = ''ARMED_CONDITIONAL''"
| "setup_name TRIGGERED = ''TRIGGERED''"
| "setup_name CANCELLED = ''CANCELLED''"
| "setup_name EXPIRED = ''EXPIRED''"
| "setup_name INVALIDATED = ''INVALIDATED''"
| "setup_name REPLACED = ''REPLACED''"

fun setup_TRANSITIONS :: "setup_state \<Rightarrow> setup_command \<Rightarrow> setup_state option" where
  "setup_TRANSITIONS NONE c = (case c of
      NOOP \<Rightarrow> Some NONE | UPSERT_CANDIDATE \<Rightarrow> Some SETUP_CANDIDATE |
      PRE_ARM \<Rightarrow> Some PRE_ARMED | ARM \<Rightarrow> Some ARMED_CONDITIONAL | _ \<Rightarrow> None)"
| "setup_TRANSITIONS SETUP_CANDIDATE c = (case c of
      NOOP \<Rightarrow> Some SETUP_CANDIDATE | UPSERT_CANDIDATE \<Rightarrow> Some SETUP_CANDIDATE |
      PRE_ARM \<Rightarrow> Some PRE_ARMED | ARM \<Rightarrow> Some ARMED_CONDITIONAL | CANCEL \<Rightarrow> Some CANCELLED |
      EXPIRE \<Rightarrow> Some EXPIRED | INVALIDATE \<Rightarrow> Some INVALIDATED | REPLACE \<Rightarrow> Some REPLACED |
      _ \<Rightarrow> None)"
| "setup_TRANSITIONS PRE_ARMED c = (case c of
      NOOP \<Rightarrow> Some PRE_ARMED | UPSERT_CANDIDATE \<Rightarrow> Some PRE_ARMED |
      PRE_ARM \<Rightarrow> Some PRE_ARMED | ARM \<Rightarrow> Some ARMED_CONDITIONAL | CANCEL \<Rightarrow> Some CANCELLED |
      EXPIRE \<Rightarrow> Some EXPIRED | INVALIDATE \<Rightarrow> Some INVALIDATED | REPLACE \<Rightarrow> Some REPLACED |
      _ \<Rightarrow> None)"
| "setup_TRANSITIONS ARMED_CONDITIONAL c = (case c of
      NOOP \<Rightarrow> Some ARMED_CONDITIONAL | ARM \<Rightarrow> Some ARMED_CONDITIONAL |
      CANCEL \<Rightarrow> Some CANCELLED | EXPIRE \<Rightarrow> Some EXPIRED | INVALIDATE \<Rightarrow> Some INVALIDATED |
      REPLACE \<Rightarrow> Some REPLACED | ENGINE_TRIGGER \<Rightarrow> Some TRIGGERED | _ \<Rightarrow> None)"
| "setup_TRANSITIONS TRIGGERED c = (case c of
      NOOP \<Rightarrow> Some TRIGGERED | _ \<Rightarrow> None)"
| "setup_TRANSITIONS CANCELLED c = (case c of
      NOOP \<Rightarrow> Some CANCELLED | _ \<Rightarrow> None)"
| "setup_TRANSITIONS EXPIRED c = (case c of
      NOOP \<Rightarrow> Some EXPIRED | _ \<Rightarrow> None)"
| "setup_TRANSITIONS INVALIDATED c = (case c of
      NOOP \<Rightarrow> Some INVALIDATED | _ \<Rightarrow> None)"
| "setup_TRANSITIONS REPLACED c = (case c of
      NOOP \<Rightarrow> Some REPLACED | _ \<Rightarrow> None)"

definition setup_terminal :: "setup_state \<Rightarrow> bool" where
  "setup_terminal s \<longleftrightarrow> s \<in> {TRIGGERED, CANCELLED, EXPIRED, INVALIDATED, REPLACED}"

definition setup_result ::
  "bool \<Rightarrow> string \<Rightarrow> setup_state option \<Rightarrow> string \<Rightarrow> string \<Rightarrow> setup_state transition" where
  "setup_result = transitionResult ''setup_transition_v1'' ''setup'' setup_terminal"

definition transitionSetupStateV1 :: "jsval \<Rightarrow> jsval \<Rightarrow> jsval \<Rightarrow> setup_state transition" where
  "transitionSetupStateV1 currentState cmd authority =
     (let previousState = normalizeEnum (default_param currentState ''NONE'');
          normalizedCommand = normalizeEnum (default_param cmd ''NOOP'');
          refuse = setup_result False previousState None normalizedCommand in
      case map_of SETUP_STATES_V1 previousState of
        None \<Rightarrow> refuse ''UNKNOWN_SETUP_STATE''
      | Some s \<Rightarrow> (case map_of SETUP_COMMANDS_V1 normalizedCommand of
          None \<Rightarrow> refuse ''UNKNOWN_SETUP_COMMAND''
        | Some c \<Rightarrow>
            if c = ENGINE_TRIGGER \<and> normalizeEnum (default_param authority ''GPT'') \<noteq> ''ENGINE''
            then refuse ''ENGINE_AUTHORITY_REQUIRED''
            else if setup_terminal s \<and> c \<noteq> NOOP then refuse ''TERMINAL_SETUP_IMMUTABLE''
            else (case setup_TRANSITIONS s c of
                None \<Rightarrow> refuse ''INVALID_SETUP_TRANSITION''
              | Some t \<Rightarrow> setup_result True previousState (Some t) normalizedCommand ''APPLIED'')))"

section \<open>The machine behind the calls\<close>

interpretation su: frozen_machine "map_of SETUP_STATES_V1" setup_name setup_TRANSITIONS NOOP setup_terminal
proof
  fix s c t n
  show "map_of SETUP_STATES_V1 (setup_name s) = Some s"
    by (cases s) (simp_all add: SETUP_STATES_V1_def)
  show "map_of SETUP_STATES_V1 n = Some s \<Longrightarrow> setup_name s = n"
    by (auto simp: SETUP_STATES_V1_def split: if_splits)
  show "setup_TRANSITIONS s NOOP = Some s" by (cases s) simp_all
  show "setup_terminal s \<Longrightarrow> setup_TRANSITIONS s c = Some t \<Longrightarrow> t = s"
    by (auto simp: setup_terminal_def split: setup_command.splits)
qed

lemma normalizeEnum_setup_name [simp]: "normalizeEnum (Str (setup_name s)) = setup_name s"
  by (cases s) (simp_all, code_simp+)

text \<open>The command a call carries: \<open>NOOP\<close> where it is unknown or lacks the authority.\<close>

definition setup_cmd :: "jsval \<times> jsval \<Rightarrow> setup_command" where
  "setup_cmd call = (case map_of SETUP_COMMANDS_V1 (normalizeEnum (default_param (fst call) ''NOOP'')) of
     Some c \<Rightarrow> if c = ENGINE_TRIGGER \<and> normalizeEnum (default_param (snd call) ''GPT'') \<noteq> ''ENGINE''
       then NOOP else c
   | None \<Rightarrow> NOOP)"

definition setup_after :: "setup_state \<Rightarrow> jsval \<times> jsval \<Rightarrow> setup_state" where
  "setup_after s call = (case next_state (transitionSetupStateV1 (Str (setup_name s)) (fst call) (snd call)) of
     Some t \<Rightarrow> t | None \<Rightarrow> s)"

definition setup_apply :: "setup_state \<Rightarrow> (jsval \<times> jsval) list \<Rightarrow> setup_state" where
  "setup_apply s calls = foldl setup_after s calls"

lemma setup_after_step: "setup_after s call = su.step s (setup_cmd call)"
  using su.final_frozen[of s]
  by (auto simp: setup_after_def transitionSetupStateV1_def Let_def su.parse_name setup_cmd_def
      setup_result_def su.step_def su.table_noop split: option.split)

lemma setup_apply_run: "setup_apply s calls = su.run s (List.map setup_cmd calls)"
  by (induction calls arbitrary: s) (simp_all add: setup_apply_def setup_after_step)

lemma setup_cmd_ENGINE_TRIGGER:
  "setup_cmd call = ENGINE_TRIGGER \<Longrightarrow> normalizeEnum (fst call) = ''ENGINE_TRIGGER''
     \<and> normalizeEnum (snd call) = ''ENGINE''"
  by (auto simp: setup_cmd_def SETUP_COMMANDS_V1_def default_param_def split: option.splits if_splits)
     (code_simp+)?

lemma setup_enters_TRIGGERED:
  "s \<noteq> TRIGGERED \<Longrightarrow> setup_TRANSITIONS s c = Some TRIGGERED \<Longrightarrow> s = ARMED_CONDITIONAL \<and> c = ENGINE_TRIGGER"
  by (cases s) (auto split: setup_command.splits)

text \<open>
  A setup becomes \<open>TRIGGERED\<close> only when it is armed and the engine says so: whatever calls
  were made, if they took a setup that was not triggered to \<open>TRIGGERED\<close>, one of them is an
  \<open>ENGINE_TRIGGER\<close> under the authority \<open>ENGINE\<close>, made when the setup was \<open>ARMED_CONDITIONAL\<close>.
\<close>

theorem setup_triggered_by_engine:
  assumes "s \<noteq> TRIGGERED" and "setup_apply s calls = TRIGGERED"
  shows "\<exists>before cmd authority after. calls = before @ (cmd, authority) # after
           \<and> setup_apply s before = ARMED_CONDITIONAL
           \<and> normalizeEnum cmd = ''ENGINE_TRIGGER'' \<and> normalizeEnum authority = ''ENGINE''"
proof -
  obtain ds c es where run: "List.map setup_cmd calls = ds @ c # es" "su.run s ds \<noteq> TRIGGERED"
      "setup_TRANSITIONS (su.run s ds) c = Some TRIGGERED"
    using su.run_enters[of "\<lambda>t. t = TRIGGERED" s "List.map setup_cmd calls"] assms
    by (auto simp: setup_apply_run)
  from run(1) obtain before call after where calls: "calls = before @ call # after"
      "List.map setup_cmd before = ds" "setup_cmd call = c"
    by (auto simp: map_eq_append_conv map_eq_Cons_conv)
  with setup_enters_TRIGGERED[OF run(2,3)] show ?thesis
    by (intro exI[of _ before] exI[of _ "fst call"] exI[of _ "snd call"] exI[of _ after])
       (simp add: setup_apply_run setup_cmd_ENGINE_TRIGGER)
qed

theorem setup_triggered_by_engine_witness:
  "\<exists>before cmd authority after.
     [(Str ''arm'', Undef), (Str ''engine-trigger'', Str ''GPT''), (Str ''engine-trigger'', Str ''engine'')]
       = before @ (cmd, authority) # after
     \<and> setup_apply NONE before = ARMED_CONDITIONAL
     \<and> normalizeEnum cmd = ''ENGINE_TRIGGER'' \<and> normalizeEnum authority = ''ENGINE''"
  by (rule setup_triggered_by_engine) (simp, code_simp)

text \<open>
  A terminal setup is immutable: no sequence of calls changes it, and a call made in a
  terminal state is accepted exactly when it is a \<open>NOOP\<close>.
\<close>

theorem setup_terminal_immutable:
  assumes "setup_terminal s"
  shows "setup_apply s calls = s \<and>
    (tr_accepted (transitionSetupStateV1 (Str (setup_name s)) cmd authority)
       \<longleftrightarrow> normalizeEnum (default_param cmd ''NOOP'') = ''NOOP'')"
proof
  show "setup_apply s calls = s" by (simp add: setup_apply_run su.run_final assms)
  show "tr_accepted (transitionSetupStateV1 (Str (setup_name s)) cmd authority)
       \<longleftrightarrow> normalizeEnum (default_param cmd ''NOOP'') = ''NOOP''"
    using assms by (auto simp: transitionSetupStateV1_def Let_def setup_result_def su.parse_name
        su.table_noop SETUP_COMMANDS_V1_def split: if_splits)
qed

theorem setup_terminal_immutable_witness:
  "setup_apply CANCELLED [(Str ''ARM'', Str ''ENGINE'')] = CANCELLED \<and>
    (tr_accepted (transitionSetupStateV1 (Str (setup_name CANCELLED)) (Str ''ARM'') Undef)
       \<longleftrightarrow> normalizeEnum (default_param (Str ''ARM'') ''NOOP'') = ''NOOP'')"
  by (rule setup_terminal_immutable) (simp add: setup_terminal_def)

end
