(* ===== verification/Thesis_Legacy.thy ===== *)
theory Thesis_Legacy
  imports Domain_Result
begin

text \<open>
  The older thesis machine, \<open>packages/desk-domain/src/thesis-state-machine.js\<close>, whose caller names the
  next state itself, and \<open>thesis-position-split.js\<close>, which separates a position that was stored as
  a thesis status into its own record.
\<close>

section \<open>thesis-position-split.js\<close>

definition POSITION_THESIS_STATUSES :: "string list" where
  "POSITION_THESIS_STATUSES = [''POSITION_ACTIVE'', ''POSITION_PROTECTED'']"

definition legacy_text :: "jsval \<Rightarrow> string" where
  "legacy_text value = to_upper (trim (str_or_empty value))"

definition isPositionThesisStatus :: "jsval \<Rightarrow> bool" where
  "isPositionThesisStatus st \<longleftrightarrow> legacy_text st \<in> set POSITION_THESIS_STATUSES"

definition is_alnum :: "char \<Rightarrow> bool" where
  "is_alnum c \<longleftrightarrow> is_digit c \<or> is_upper_letter c \<or> is_lower_letter c"

text \<open>\<open>replace(/[^A-Za-z0-9]+/g, "_")\<close>; \<open>inside\<close> says that the character before was replaced.\<close>

fun squeeze :: "bool \<Rightarrow> string \<Rightarrow> string" where
  "squeeze inside [] = []"
| "squeeze inside (c # s) =
     (if is_alnum c then c # squeeze False s else if inside then squeeze True s else CHR ''_'' # squeeze True s)"

definition strip_underscores :: "string \<Rightarrow> string" where
  "strip_underscores s = rev (dropWhile (\<lambda>c. c = CHR ''_'') (rev (dropWhile (\<lambda>c. c = CHR ''_'') s)))"

fun join_underscore :: "string list \<Rightarrow> string" where
  "join_underscore [] = []"
| "join_underscore [s] = s"
| "join_underscore (s # t # ss) = s @ ''_'' @ join_underscore (t # ss)"

definition deterministicSplitId :: "string \<Rightarrow> jsval list \<Rightarrow> string" where
  "deterministicSplitId prefix parts = join_underscore (prefix # List.map (\<lambda>part.
     let cleaned = take 64 (strip_underscores (squeeze False (str_or_empty part)))
     in if cleaned = [] then ''item'' else cleaned) parts)"

text \<open>\<open>a || b || ... || null\<close> and \<open>a ?? b ?? ... ?? null\<close>\<close>

definition first_truthy :: "jsval list \<Rightarrow> jsval" where
  "first_truthy vs = foldr js_or vs Null"

definition first_given :: "jsval list \<Rightarrow> jsval" where
  "first_given vs = foldr js_coalesce vs Null"

record split_plan =
  split_result :: domain_result
  migration_required :: bool
  thesis_patch :: "jsobj option"
  position_record :: "jsobj option"

definition planThesisSetupPositionSplit :: "jsval \<Rightarrow> jsval \<Rightarrow> split_plan" where
  "planThesisSetupPositionSplit thesis options =
     (let legacyStatus = legacy_text (get thesis ''status'');
          migrationRequired = isPositionThesisStatus (Str legacyStatus);
          tick = js_or (get options ''tick'') (Obj []);
          trig = get thesis ''triggered_setup'';
          splitAtUtc = first_truthy [get options ''split_at_utc'', get tick ''utc'',
             get thesis ''updated_at_utc'', get thesis ''created_at_utc''];
          splitAtParis = first_truthy [get options ''split_at_paris'', get tick ''paris'',
             get thesis ''updated_at_paris'', get thesis ''created_at_paris''];
          thesisId = first_truthy [get thesis ''thesis_id'', get thesis ''linked_thesis_id''];
          setupId = first_truthy [get thesis ''linked_setup_id'', get thesis ''setup_id'',
             get trig ''setup_record_id'', get trig ''setup_id''];
          positionId = js_or (get options ''position_id'') (js_or (get thesis ''position_id'')
             (Str (deterministicSplitId ''position''
                [js_or thesisId (js_or (get thesis ''linked_master_analysis_id'') (Str ''thesis'')),
                 js_or setupId (js_or (get thesis ''instrument'') (Str ''instrument''))])));
          nextThesisStatus = js_or (get options ''next_thesis_status'') (Str ''SETUP_TRIGGERED'');
          positionStatus = (if legacyStatus = ''POSITION_PROTECTED'' then ''protected'' else ''active'');
          ev = [(''migration_required'', Bool migrationRequired),
                (''legacy_status'', if legacyStatus = [] then Null else Str legacyStatus),
                (''thesis_id'', thesisId), (''setup_id'', setupId), (''position_id'', positionId),
                (''target_collections'', Arr [Str ''desk_active_theses'', Str ''desk_setups'', Str ''desk_positions''])]
      in if \<not> migrationRequired then
           \<lparr>split_result = resultFromIssues [] [] [] ev, migration_required = False,
            thesis_patch = None, position_record = None\<rparr>
         else
           \<lparr>split_result = resultFromIssues [] [] []
              (ev @ [(''next_thesis_status'', nextThesisStatus), (''position_status'', Str positionStatus)]),
            migration_required = True,
            thesis_patch = Some
              [(''thesis_id'', thesisId), (''status'', nextThesisStatus), (''linked_position_id'', positionId),
               (''linked_setup_id'', setupId), (''legacy_position_status'', Str legacyStatus),
               (''split_storage_version'', Str ''thesis_setup_position_split_v1''),
               (''updated_at_utc'', splitAtUtc), (''updated_at_paris'', splitAtParis)],
            position_record = Some
              [(''position_id'', positionId), (''linked_thesis_id'', thesisId), (''linked_setup_id'', setupId),
               (''linked_decision_id'', first_truthy [get thesis ''linked_decision_id'', get thesis ''decision_id'',
                  get (get thesis ''decision_audit'') ''decision_id'']),
               (''instrument'', first_truthy [get thesis ''instrument'']),
               (''direction'', if get thesis ''direction'' \<in> {Str ''wait'', Str ''neutral''} then Null
                  else first_truthy [get thesis ''direction'']),
               (''status'', Str positionStatus), (''source_collection'', Str ''desk_active_theses''),
               (''source_status'', Str legacyStatus),
               (''split_storage_version'', Str ''thesis_setup_position_split_v1''),
               (''entry_price'', first_given [get thesis ''entry_price'', get trig ''entry_price'', get trig ''entry'']),
               (''stop_loss'', first_given [get thesis ''stop_loss'', get trig ''stop_loss'']),
               (''take_profits'', js_or (get thesis ''take_profits'') (js_or (get trig ''take_profits'') (Arr []))),
               (''risk_pct'', first_given [get thesis ''risk_pct'', get trig ''risk_pct'']),
               (''created_at_utc'', js_or (get thesis ''created_at_utc'') splitAtUtc),
               (''created_at_paris'', js_or (get thesis ''created_at_paris'') splitAtParis),
               (''updated_at_utc'', splitAtUtc), (''updated_at_paris'', splitAtParis)]\<rparr>)"

section \<open>thesis-state-machine.js\<close>

definition THESIS_STATES :: "string list" where
  "THESIS_STATES = [''NO_ACTIVE_THESIS'', ''THESIS_ACTIVE'', ''THESIS_CONDITIONAL'', ''WAIT_MONITORED'',
     ''SETUP_ARMED'', ''SETUP_TRIGGERED'', ''REPLAN_REQUIRED'', ''EXPIRED'', ''INVALIDATED'']"

definition allowedThesisTransitions :: "(string \<times> string list) list" where
  "allowedThesisTransitions =
     [(''NO_ACTIVE_THESIS'', [''WAIT_MONITORED'', ''THESIS_ACTIVE'', ''THESIS_CONDITIONAL'']),
      (''THESIS_ACTIVE'', [''WAIT_MONITORED'', ''SETUP_ARMED'', ''REPLAN_REQUIRED'', ''INVALIDATED'', ''EXPIRED'']),
      (''THESIS_CONDITIONAL'', [''WAIT_MONITORED'', ''REPLAN_REQUIRED'', ''EXPIRED'']),
      (''WAIT_MONITORED'', [''SETUP_ARMED'', ''REPLAN_REQUIRED'', ''INVALIDATED'', ''EXPIRED'']),
      (''SETUP_ARMED'', [''SETUP_TRIGGERED'', ''EXPIRED'', ''INVALIDATED'', ''REPLAN_REQUIRED'']),
      (''SETUP_TRIGGERED'', [''SETUP_ARMED'', ''REPLAN_REQUIRED'', ''INVALIDATED'', ''EXPIRED'']),
      (''REPLAN_REQUIRED'', [''THESIS_ACTIVE'', ''THESIS_CONDITIONAL'', ''NO_ACTIVE_THESIS'']),
      (''EXPIRED'', [''NO_ACTIVE_THESIS'', ''REPLAN_REQUIRED'']),
      (''INVALIDATED'', [''REPLAN_REQUIRED'', ''NO_ACTIVE_THESIS''])]"

definition normalizeState :: "jsval \<Rightarrow> string" where
  "normalizeState value = (if legacy_text value \<in> set THESIS_STATES then legacy_text value else [])"

definition hasAuditEvidence :: "jsval \<Rightarrow> bool" where
  "hasAuditEvidence context \<longleftrightarrow> list_ex (\<lambda>k. truthy (get context k))
     [''decisionAudit'', ''decision_audit'', ''transitionAudit'', ''transition_audit'', ''auditRef'', ''audit_ref'']"

definition transitionThesisState :: "jsval \<Rightarrow> jsval \<Rightarrow> jsval \<Rightarrow> domain_result" where
  "transitionThesisState currentState nextState context =
     (let rawCurrent = legacy_text currentState; rawNext = legacy_text nextState;
          current = normalizeState currentState; next = normalizeState nextState;
          either = (\<lambda>a b. if a = [] then b else a);
          ev = [(''current_state'', Str (either current rawCurrent)), (''next_state'', Str (either next rawNext))];
          activating = (next \<in> {''THESIS_ACTIVE'', ''THESIS_CONDITIONAL''})
      in if isPositionThesisStatus (Str rawCurrent) \<or> isPositionThesisStatus (Str rawNext) then
           resultFromIssues [''position_state_requires_position_store''] [] [''STATE_POSITION_SPLIT_REQUIRED'']
             (ev @ [(''required_collections'', Arr [Str ''desk_active_theses'', Str ''desk_setups'', Str ''desk_positions''])])
         else if current = [] \<or> next = [] \<or> map_of allowedThesisTransitions current = None then
           resultFromIssues [''invalid_transition''] [] [''STATE_INVALID_TRANSITION''] ev
         else if current = next then
           resultFromIssues [] [] [''STATE_UNCHANGED''] (ev @ [(''accepted_state'', Str next), (''state_unchanged'', Bool True)])
         else if current = ''INVALIDATED'' \<and> activating then
           resultFromIssues [''replan_required''] [] [''STATE_REPLAN_REQUIRED''] ev
         else if next \<notin> set (case map_of allowedThesisTransitions current of Some ts \<Rightarrow> ts | None \<Rightarrow> []) then
           resultFromIssues [''invalid_transition''] [] [''STATE_INVALID_TRANSITION''] ev
         else
           (let missing = activating \<and> current = ''REPLAN_REQUIRED'' \<and> \<not> hasAuditEvidence context
            in resultFromIssues (if missing then [''transition_audit_missing''] else []) []
                 (if missing then [''STATE_TRANSITION_AUDIT_MISSING''] else [])
                 (ev @ [(''accepted_state'', if missing then Null else Str next)])))"

section \<open>Properties\<close>

lemma upper_char_idem [simp]: "upper_char (upper_char c) = upper_char c"
  by (auto simp: upper_char_def)

lemma is_space_upper [simp]: "is_space (upper_char c) = is_space c"
  by (auto simp: upper_char_def is_space_def)

lemma trim_to_upper: "trim (to_upper s) = to_upper (trim s)"
  by (simp add: trim_def to_upper_def rev_map dropWhile_map comp_def)

lemma legacy_text_idem [simp]: "legacy_text (Str (legacy_text v)) = legacy_text v"
  by (simp add: legacy_text_def trim_to_upper) (simp add: to_upper_def)

lemma map_of_allowed_Some:
  "map_of allowedThesisTransitions s = Some ts \<Longrightarrow> s \<in> set THESIS_STATES"
  by (auto simp: allowedThesisTransitions_def THESIS_STATES_def split: if_splits)

lemma activating_sources:
  "map_of allowedThesisTransitions s = Some ts \<Longrightarrow> t \<in> set ts \<Longrightarrow> t \<in> {''THESIS_ACTIVE'', ''THESIS_CONDITIONAL''} \<Longrightarrow>
     s = ''NO_ACTIVE_THESIS'' \<or> s = ''REPLAN_REQUIRED''"
  by (auto simp: allowedThesisTransitions_def split: if_splits)

text \<open>
  A thesis becomes active or conditional only from no thesis at all, or from
  \<open>REPLAN_REQUIRED\<close> with audit evidence in the context; an accepted transition never involves a
  status that belongs to a position.
\<close>

theorem thesis_activation_audited:
  assumes "ok (transitionThesisState currentState nextState context)"
  shows "\<not> isPositionThesisStatus currentState \<and> \<not> isPositionThesisStatus nextState
    \<and> (normalizeState nextState \<in> {''THESIS_ACTIVE'', ''THESIS_CONDITIONAL''} \<longrightarrow>
         normalizeState currentState = normalizeState nextState
         \<or> normalizeState currentState = ''NO_ACTIVE_THESIS''
         \<or> normalizeState currentState = ''REPLAN_REQUIRED'' \<and> hasAuditEvidence context)"
proof -
  have raw: "isPositionThesisStatus (Str (legacy_text v)) = isPositionThesisStatus v" for v
    by (auto simp: isPositionThesisStatus_def legacy_text_idem)
  show ?thesis
    using assms activating_sources[of "normalizeState currentState" _ "normalizeState nextState"]
    by (auto simp: transitionThesisState_def Let_def raw split: if_splits)
qed

theorem thesis_activation_audited_witness:
  "normalizeState (Str ''replan_required'') = ''NO_ACTIVE_THESIS''
    \<or> normalizeState (Str ''replan_required'') = ''REPLAN_REQUIRED'' \<and> hasAuditEvidence (Obj [(''audit_ref'', Str ''a1'')])"
proof -
  have "ok (transitionThesisState (Str ''replan_required'') (Str ''THESIS_ACTIVE'') (Obj [(''audit_ref'', Str ''a1'')]))"
    by code_simp
  from thesis_activation_audited[OF this] show ?thesis by code_simp
qed

text \<open>
  A split is complete: exactly the legacy position statuses are migrated, and then the patch
  of the thesis and the new position carry the same position, setup and thesis ids.
\<close>

theorem split_links_agree:
  "(migration_required (planThesisSetupPositionSplit thesis options)
      \<longleftrightarrow> isPositionThesisStatus (get thesis ''status''))
   \<and> (case (thesis_patch (planThesisSetupPositionSplit thesis options),
            position_record (planThesisSetupPositionSplit thesis options)) of
        (Some patch, Some rec) \<Rightarrow> isPositionThesisStatus (get thesis ''status'')
          \<and> fget patch ''linked_position_id'' = fget rec ''position_id''
          \<and> fget patch ''linked_setup_id'' = fget rec ''linked_setup_id''
          \<and> fget patch ''thesis_id'' = fget rec ''linked_thesis_id''
          \<and> fget patch ''legacy_position_status'' = fget rec ''source_status''
      | (None, None) \<Rightarrow> \<not> isPositionThesisStatus (get thesis ''status'')
      | _ \<Rightarrow> False)"
  by (simp add: planThesisSetupPositionSplit_def Let_def isPositionThesisStatus_def legacy_text_idem)

end
