(* ===== verification/Thesis_V1.thy ===== *)
theory Thesis_V1
  imports Lifecycle
begin

text \<open>
  \<open>packages/desk-domain/src/thesis-state-machine-v1.js\<close>: the life of a market thesis. States and
  commands are the source's enums, \<open>thesis_TRANSITIONS\<close> its table. \<open>thesis_apply\<close> is what a store
  does with a result: keep the state unless the call was accepted.
\<close>

datatype thesis_state =
    NO_ACTIVE | WAIT_MONITORED | CONDITIONAL | ACTIVE | WEAKENED | AT_RISK | POST_EVENT |
    INVALIDATED | EXPIRED | REPLAN_REQUIRED | SUPERSEDED

datatype thesis_command =
    NOOP | CREATE_WAIT | MAKE_CONDITIONAL | ACTIVATE | MAINTAIN | WEAKEN | MARK_AT_RISK |
    MARK_POST_EVENT | INVALIDATE | EXPIRE | REQUIRE_REPLAN | SUPERSEDE

definition THESIS_STATES_V1 :: "(string \<times> thesis_state) list" where
  "THESIS_STATES_V1 =
     [(''NO_ACTIVE'', NO_ACTIVE), (''WAIT_MONITORED'', WAIT_MONITORED),
     (''CONDITIONAL'', CONDITIONAL), (''ACTIVE'', ACTIVE), (''WEAKENED'', WEAKENED),
     (''AT_RISK'', AT_RISK), (''POST_EVENT'', POST_EVENT), (''INVALIDATED'', INVALIDATED),
     (''EXPIRED'', EXPIRED), (''REPLAN_REQUIRED'', REPLAN_REQUIRED),
     (''SUPERSEDED'', SUPERSEDED)]"

definition THESIS_COMMANDS_V1 :: "(string \<times> thesis_command) list" where
  "THESIS_COMMANDS_V1 =
     [(''NOOP'', NOOP), (''CREATE_WAIT'', CREATE_WAIT),
     (''MAKE_CONDITIONAL'', MAKE_CONDITIONAL), (''ACTIVATE'', ACTIVATE),
     (''MAINTAIN'', MAINTAIN), (''WEAKEN'', WEAKEN), (''MARK_AT_RISK'', MARK_AT_RISK),
     (''MARK_POST_EVENT'', MARK_POST_EVENT), (''INVALIDATE'', INVALIDATE),
     (''EXPIRE'', EXPIRE), (''REQUIRE_REPLAN'', REQUIRE_REPLAN),
     (''SUPERSEDE'', SUPERSEDE)]"

fun thesis_name :: "thesis_state \<Rightarrow> string" where
  "thesis_name NO_ACTIVE = ''NO_ACTIVE''"
| "thesis_name WAIT_MONITORED = ''WAIT_MONITORED''"
| "thesis_name CONDITIONAL = ''CONDITIONAL''"
| "thesis_name ACTIVE = ''ACTIVE''"
| "thesis_name WEAKENED = ''WEAKENED''"
| "thesis_name AT_RISK = ''AT_RISK''"
| "thesis_name POST_EVENT = ''POST_EVENT''"
| "thesis_name INVALIDATED = ''INVALIDATED''"
| "thesis_name EXPIRED = ''EXPIRED''"
| "thesis_name REPLAN_REQUIRED = ''REPLAN_REQUIRED''"
| "thesis_name SUPERSEDED = ''SUPERSEDED''"

fun thesis_TRANSITIONS :: "thesis_state \<Rightarrow> thesis_command \<Rightarrow> thesis_state option" where
  "thesis_TRANSITIONS NO_ACTIVE c = (case c of
      NOOP \<Rightarrow> Some NO_ACTIVE | CREATE_WAIT \<Rightarrow> Some WAIT_MONITORED |
      MAKE_CONDITIONAL \<Rightarrow> Some CONDITIONAL | ACTIVATE \<Rightarrow> Some ACTIVE |
      REQUIRE_REPLAN \<Rightarrow> Some REPLAN_REQUIRED | _ \<Rightarrow> None)"
| "thesis_TRANSITIONS WAIT_MONITORED c = (case c of
      NOOP \<Rightarrow> Some WAIT_MONITORED | CREATE_WAIT \<Rightarrow> Some WAIT_MONITORED |
      MAKE_CONDITIONAL \<Rightarrow> Some CONDITIONAL | ACTIVATE \<Rightarrow> Some ACTIVE |
      MAINTAIN \<Rightarrow> Some WAIT_MONITORED | WEAKEN \<Rightarrow> Some WEAKENED |
      MARK_AT_RISK \<Rightarrow> Some AT_RISK | MARK_POST_EVENT \<Rightarrow> Some POST_EVENT |
      INVALIDATE \<Rightarrow> Some INVALIDATED | EXPIRE \<Rightarrow> Some EXPIRED |
      REQUIRE_REPLAN \<Rightarrow> Some REPLAN_REQUIRED | SUPERSEDE \<Rightarrow> Some SUPERSEDED)"
| "thesis_TRANSITIONS CONDITIONAL c = (case c of
      NOOP \<Rightarrow> Some CONDITIONAL | MAKE_CONDITIONAL \<Rightarrow> Some CONDITIONAL |
      ACTIVATE \<Rightarrow> Some ACTIVE | MAINTAIN \<Rightarrow> Some CONDITIONAL | WEAKEN \<Rightarrow> Some WEAKENED |
      MARK_AT_RISK \<Rightarrow> Some AT_RISK | MARK_POST_EVENT \<Rightarrow> Some POST_EVENT |
      INVALIDATE \<Rightarrow> Some INVALIDATED | EXPIRE \<Rightarrow> Some EXPIRED |
      REQUIRE_REPLAN \<Rightarrow> Some REPLAN_REQUIRED | SUPERSEDE \<Rightarrow> Some SUPERSEDED | _ \<Rightarrow> None)"
| "thesis_TRANSITIONS ACTIVE c = (case c of
      NOOP \<Rightarrow> Some ACTIVE | MAKE_CONDITIONAL \<Rightarrow> Some CONDITIONAL | ACTIVATE \<Rightarrow> Some ACTIVE |
      MAINTAIN \<Rightarrow> Some ACTIVE | WEAKEN \<Rightarrow> Some WEAKENED | MARK_AT_RISK \<Rightarrow> Some AT_RISK |
      MARK_POST_EVENT \<Rightarrow> Some POST_EVENT | INVALIDATE \<Rightarrow> Some INVALIDATED |
      EXPIRE \<Rightarrow> Some EXPIRED | REQUIRE_REPLAN \<Rightarrow> Some REPLAN_REQUIRED |
      SUPERSEDE \<Rightarrow> Some SUPERSEDED | _ \<Rightarrow> None)"
| "thesis_TRANSITIONS WEAKENED c = (case c of
      NOOP \<Rightarrow> Some WEAKENED | MAKE_CONDITIONAL \<Rightarrow> Some CONDITIONAL |
      ACTIVATE \<Rightarrow> Some ACTIVE | MAINTAIN \<Rightarrow> Some WEAKENED | WEAKEN \<Rightarrow> Some WEAKENED |
      MARK_AT_RISK \<Rightarrow> Some AT_RISK | INVALIDATE \<Rightarrow> Some INVALIDATED |
      EXPIRE \<Rightarrow> Some EXPIRED | REQUIRE_REPLAN \<Rightarrow> Some REPLAN_REQUIRED |
      SUPERSEDE \<Rightarrow> Some SUPERSEDED | _ \<Rightarrow> None)"
| "thesis_TRANSITIONS AT_RISK c = (case c of
      NOOP \<Rightarrow> Some AT_RISK | MAKE_CONDITIONAL \<Rightarrow> Some CONDITIONAL |
      ACTIVATE \<Rightarrow> Some ACTIVE | MAINTAIN \<Rightarrow> Some AT_RISK | WEAKEN \<Rightarrow> Some WEAKENED |
      MARK_AT_RISK \<Rightarrow> Some AT_RISK | INVALIDATE \<Rightarrow> Some INVALIDATED |
      EXPIRE \<Rightarrow> Some EXPIRED | REQUIRE_REPLAN \<Rightarrow> Some REPLAN_REQUIRED |
      SUPERSEDE \<Rightarrow> Some SUPERSEDED | _ \<Rightarrow> None)"
| "thesis_TRANSITIONS POST_EVENT c = (case c of
      NOOP \<Rightarrow> Some POST_EVENT | MAKE_CONDITIONAL \<Rightarrow> Some CONDITIONAL |
      ACTIVATE \<Rightarrow> Some ACTIVE | MAINTAIN \<Rightarrow> Some POST_EVENT |
      INVALIDATE \<Rightarrow> Some INVALIDATED | EXPIRE \<Rightarrow> Some EXPIRED |
      REQUIRE_REPLAN \<Rightarrow> Some REPLAN_REQUIRED | SUPERSEDE \<Rightarrow> Some SUPERSEDED | _ \<Rightarrow> None)"
| "thesis_TRANSITIONS INVALIDATED c = (case c of
      NOOP \<Rightarrow> Some INVALIDATED | REQUIRE_REPLAN \<Rightarrow> Some REPLAN_REQUIRED | _ \<Rightarrow> None)"
| "thesis_TRANSITIONS EXPIRED c = (case c of
      NOOP \<Rightarrow> Some EXPIRED | REQUIRE_REPLAN \<Rightarrow> Some REPLAN_REQUIRED | _ \<Rightarrow> None)"
| "thesis_TRANSITIONS REPLAN_REQUIRED c = (case c of
      NOOP \<Rightarrow> Some REPLAN_REQUIRED | CREATE_WAIT \<Rightarrow> Some WAIT_MONITORED |
      MAKE_CONDITIONAL \<Rightarrow> Some CONDITIONAL | ACTIVATE \<Rightarrow> Some ACTIVE |
      REQUIRE_REPLAN \<Rightarrow> Some REPLAN_REQUIRED | INVALIDATE \<Rightarrow> Some INVALIDATED |
      EXPIRE \<Rightarrow> Some EXPIRED | SUPERSEDE \<Rightarrow> Some SUPERSEDED | _ \<Rightarrow> None)"
| "thesis_TRANSITIONS SUPERSEDED c = (case c of
      NOOP \<Rightarrow> Some SUPERSEDED | _ \<Rightarrow> None)"

definition thesis_terminal :: "thesis_state \<Rightarrow> bool" where
  "thesis_terminal s \<longleftrightarrow> s \<in> {INVALIDATED, EXPIRED, SUPERSEDED}"

definition STATE_ALIASES :: "(string \<times> string) list" where
  "STATE_ALIASES =
     [(''NO_ACTIVE_THESIS'', ''NO_ACTIVE''), (''THESIS_ACTIVE'', ''ACTIVE''),
      (''THESIS_CONDITIONAL'', ''CONDITIONAL''), (''THESIS_WEAKENED'', ''WEAKENED''),
      (''THESIS_AT_RISK'', ''AT_RISK''), (''POST_EVENT_REPLAN_ONLY'', ''POST_EVENT''),
      (''REPLAN'', ''REPLAN_REQUIRED''), (''SETUP_CANDIDATE'', ''CONDITIONAL''),
      (''SETUP_ARMED'', ''ACTIVE''), (''SETUP_TRIGGERED'', ''ACTIVE'')]"

definition normalizeThesisStateV1 :: "jsval \<Rightarrow> string" where
  "normalizeThesisStateV1 value =
     (let normalized = normalizeEnum (js_or value (Str ''NO_ACTIVE'')) in
      case map_of STATE_ALIASES normalized of Some s \<Rightarrow> s | None \<Rightarrow> normalized)"

definition thesis_result ::
  "bool \<Rightarrow> string \<Rightarrow> thesis_state option \<Rightarrow> string \<Rightarrow> string \<Rightarrow> thesis_state transition" where
  "thesis_result = transitionResult ''thesis_transition_v1'' ''thesis'' thesis_terminal"

definition transitionThesisStateV1 :: "jsval \<Rightarrow> jsval \<Rightarrow> thesis_state transition" where
  "transitionThesisStateV1 currentState cmd =
     (let previousState = normalizeThesisStateV1 (default_param currentState ''NO_ACTIVE'');
          normalizedCommand = normalizeEnum (default_param cmd ''NOOP'') in
      case map_of THESIS_STATES_V1 previousState of
        None \<Rightarrow> thesis_result False previousState None normalizedCommand ''UNKNOWN_THESIS_STATE''
      | Some s \<Rightarrow> (case map_of THESIS_COMMANDS_V1 normalizedCommand of
          None \<Rightarrow> thesis_result False previousState None normalizedCommand ''UNKNOWN_THESIS_COMMAND''
        | Some c \<Rightarrow> (case thesis_TRANSITIONS s c of
            None \<Rightarrow> thesis_result False previousState None normalizedCommand ''INVALID_THESIS_TRANSITION''
          | Some t \<Rightarrow> thesis_result True previousState (Some t) normalizedCommand ''APPLIED'')))"

section \<open>The machine behind the calls\<close>

interpretation th: frozen_machine "map_of THESIS_STATES_V1" thesis_name thesis_TRANSITIONS NOOP
  "\<lambda>s. s = SUPERSEDED"
proof
  fix s c t n
  show "map_of THESIS_STATES_V1 (thesis_name s) = Some s"
    by (cases s) (simp_all add: THESIS_STATES_V1_def)
  show "map_of THESIS_STATES_V1 n = Some s \<Longrightarrow> thesis_name s = n"
    by (auto simp: THESIS_STATES_V1_def split: if_splits)
  show "thesis_TRANSITIONS s NOOP = Some s" by (cases s) simp_all
  show "s = SUPERSEDED \<Longrightarrow> thesis_TRANSITIONS s c = Some t \<Longrightarrow> t = s"
    by (auto split: thesis_command.splits)
qed

lemma normalizeThesis_name [simp]: "normalizeThesisStateV1 (Str (thesis_name s)) = thesis_name s"
  by (cases s) (simp_all add: normalizeThesisStateV1_def STATE_ALIASES_def, code_simp+)

text \<open>The command a call carries: \<open>NOOP\<close> where the code refuses what it was given.\<close>

definition thesis_cmd :: "jsval \<Rightarrow> thesis_command" where
  "thesis_cmd v = (case map_of THESIS_COMMANDS_V1 (normalizeEnum (default_param v ''NOOP'')) of
     Some c \<Rightarrow> c | None \<Rightarrow> NOOP)"

definition thesis_apply :: "thesis_state \<Rightarrow> jsval list \<Rightarrow> thesis_state" where
  "thesis_apply s cmds = foldl (\<lambda>s v.
     (case next_state (transitionThesisStateV1 (Str (thesis_name s)) v) of Some t \<Rightarrow> t | None \<Rightarrow> s)) s cmds"

lemma thesis_step: "(case next_state (transitionThesisStateV1 (Str (thesis_name s)) v) of
    Some t \<Rightarrow> t | None \<Rightarrow> s) = th.step s (thesis_cmd v)"
  by (simp add: transitionThesisStateV1_def Let_def th.parse_name thesis_cmd_def thesis_result_def
      th.step_def th.table_noop split: option.split)

lemma thesis_apply_run: "thesis_apply s cmds = th.run s (List.map thesis_cmd cmds)"
  by (induction cmds arbitrary: s) (simp_all add: thesis_apply_def thesis_step)

text \<open>
  A thesis that was superseded stays superseded, whatever calls follow. One that was
  invalidated or has expired changes only by first entering \<open>REPLAN_REQUIRED\<close>: no sequence of
  calls, valid or not, reactivates it directly.
\<close>

theorem thesis_restart_needs_replan:
  assumes "s = INVALIDATED \<or> s = EXPIRED" and "thesis_apply s cmds \<noteq> s"
  shows "\<exists>ds es. cmds = ds @ es \<and> thesis_apply s ds = REPLAN_REQUIRED"
proof -
  have "\<exists>ds es. List.map thesis_cmd cmds = ds @ es \<and> th.run s ds = REPLAN_REQUIRED"
  proof (rule th.run_passes[where A = "\<lambda>t. t = s" and B = "\<lambda>t. t = REPLAN_REQUIRED"])
    fix u c t assume "u = s" "thesis_TRANSITIONS u c = Some t"
    then show "t = s \<or> t = REPLAN_REQUIRED"
      using assms(1) by (auto split: thesis_command.splits)
  qed (use assms(2) in \<open>auto simp: thesis_apply_run\<close>)
  then obtain ds es where "List.map thesis_cmd cmds = ds @ es" "th.run s ds = REPLAN_REQUIRED" by auto
  then show ?thesis
    by (auto simp: map_eq_append_conv thesis_apply_run)
qed

theorem thesis_restart_needs_replan_witness:
  "\<exists>ds es. [Str ''activate'', Str ''require-replan'', Str ''activate''] = ds @ es
     \<and> thesis_apply INVALIDATED ds = REPLAN_REQUIRED"
  by (rule thesis_restart_needs_replan) (simp, code_simp)

text \<open>
  \<open>SUPERSEDED\<close> is final: after any calls the thesis is still superseded, and every call
  that is not a \<open>NOOP\<close> is refused.
\<close>

theorem thesis_superseded_final:
  "thesis_apply SUPERSEDED cmds = SUPERSEDED \<and>
   (tr_accepted (transitionThesisStateV1 (Str ''SUPERSEDED'') v)
      = (normalizeEnum (default_param v ''NOOP'') = ''NOOP''))"
proof
  show "thesis_apply SUPERSEDED cmds = SUPERSEDED" by (simp add: thesis_apply_run th.run_final)
  have "normalizeThesisStateV1 (Str ''SUPERSEDED'') = thesis_name SUPERSEDED"
    using normalizeThesis_name[of SUPERSEDED] by simp
  then show "tr_accepted (transitionThesisStateV1 (Str ''SUPERSEDED'') v)
      = (normalizeEnum (default_param v ''NOOP'') = ''NOOP'')"
    by (auto simp: transitionThesisStateV1_def Let_def thesis_result_def THESIS_STATES_V1_def
        THESIS_COMMANDS_V1_def)
qed

end
