(* ===== verification/Trade_Gates.thy ===== *)
theory Trade_Gates
  imports Domain_Result
begin

text \<open>
  The deterministic gates a proposed trade passes: the setup validator
  (\<open>setup-validator.js\<close>), the risk engine (\<open>risk-engine.js\<close>), the decision gates
  (\<open>gate-evaluator.js\<close>) and the open-position rules (\<open>position-manager.js\<close>), all under
  \<open>packages/desk-domain/src\<close>. Each is a function from loosely shaped records to a domain
  result; the lemmas after each say exactly when it accepts.
\<close>

section \<open>setup-validator.js\<close>

definition WAIT_VALUES :: "string list" where
  "WAIT_VALUES = [''wait'', ''wait_only'', ''no_trade'', ''ne_pas_prendre'', ''gestion_seule'',
     ''management_only'']"

definition setup_isWaitLike :: "jsval \<Rightarrow> jsval \<Rightarrow> bool" where
  "setup_isWaitLike setup decision =
     (let vals = List.map (\<lambda>v. to_lower (str_or_empty v))
        [get setup ''decision'', get setup ''direction'', get setup ''setup_type'', get setup ''status'',
         get decision ''decision'', get decision ''direction'', get decision ''setup_type'']
      in list_ex (\<lambda>v. v \<in> set WAIT_VALUES) vals)"

definition positive_risk :: "jnum option \<Rightarrow> bool" where
  "positive_risk r = (case r of Some n \<Rightarrow> jlt (Fin 0) n | None \<Rightarrow> False)"

definition ordered_prices :: "jnum option \<Rightarrow> jnum option \<Rightarrow> jnum option \<Rightarrow> bool" where
  "ordered_prices a b c =
     (case (a, b, c) of (Some x, Some y, Some z) \<Rightarrow> jlt x y \<and> jlt y z | _ \<Rightarrow> False)"

definition validateSetup :: "jsval \<Rightarrow> jsval \<Rightarrow> domain_result" where
  "validateSetup setup decision =
     (let candidate = js_or (js_or setup decision) (Obj []);
          dir = setupDirection candidate;
          riskPct = numberOrNull (js_coalesce (get candidate ''risk_pct'') (get decision ''risk_pct''));
          g = computeRewardRisk candidate;
          ev = [(''normalized_price_geometry'', geometry_js g)]
      in if setup_isWaitLike candidate decision then
           (if positive_risk riskPct
            then resultFromIssues [''wait_has_risk''] [] [''SETUP_WAIT_HAS_RISK''] ev
            else resultFromIssues [] [] [] ev)
         else if \<not> tradable dir \<or> setupEntry candidate = None \<or> setupStop candidate = None
                 \<or> target g = None then
           resultFromIssues [''setup_incomplete''] [] [''SETUP_INCOMPLETE''] ev
         else
           (let badLong = dir = ''long'' \<and> \<not> ordered_prices (stop g) (entry g) (target g);
                badShort = dir = ''short'' \<and> \<not> ordered_prices (target g) (entry g) (stop g)
            in resultFromIssues
                 ((if badLong then [''invalid_long_prices''] else []) @
                  (if badShort then [''invalid_short_prices''] else [])) []
                 ((if badLong then [''SETUP_INVALID_LONG_PRICES''] else []) @
                  (if badShort then [''SETUP_INVALID_SHORT_PRICES''] else [])) ev))"

lemma ordered_prices_iff:
  "ordered_prices (Some x) (Some y) (Some z) \<longleftrightarrow> jlt x y \<and> jlt y z"
  "ordered_prices None b c \<longleftrightarrow> False" "ordered_prices a None c \<longleftrightarrow> False"
  "ordered_prices a b None \<longleftrightarrow> False"
  by (auto simp: ordered_prices_def split: option.splits)

lemma validateSetup_ok_iff:
  assumes "candidate = js_or (js_or setup decision) (Obj [])"
  shows "ok (validateSetup setup decision) \<longleftrightarrow>
    (if setup_isWaitLike candidate decision
     then \<not> positive_risk (numberOrNull
            (js_coalesce (get candidate ''risk_pct'') (get decision ''risk_pct'')))
     else (setupDirection candidate = ''long'' \<and>
             ordered_prices (setupStop candidate) (setupEntry candidate) (target (computeRewardRisk candidate)))
        \<or> (setupDirection candidate = ''short'' \<and>
             ordered_prices (target (computeRewardRisk candidate)) (setupEntry candidate) (setupStop candidate)))"
  unfolding validateSetup_def Let_def assms[symmetric]
  by (auto simp: tradable_def ordered_prices_iff)

section \<open>risk-engine.js\<close>

definition ACTIVE_STATUSES :: "string list" where
  "ACTIVE_STATUSES = ['''', ''active'', ''open'', ''pending'', ''paper_ready'', ''triggered'']"

definition RISK_WAIT_VALUES :: "string list" where
  "RISK_WAIT_VALUES = [''wait'', ''wait_only'', ''no_trade'', ''ne_pas_prendre'', ''gestion_seule'',
     ''management_only'']"

definition CORRELATION_GROUPS :: "(string \<times> string list) list" where
  "CORRELATION_GROUPS =
     [(''equity_index'', [''MES'', ''ES'', ''MNQ'', ''NQ'', ''MYM'', ''YM'', ''M2K'', ''RTY'']),
      (''energy_crude'', [''MCL'', ''CL''])]"

definition correlationGroup :: "string \<Rightarrow> string" where
  "correlationGroup symbol =
     (let compact = to_upper (replace_first ''!'' [] (replace_first ''NYMEX:'' []
            (replace_first ''CME_MINI:'' [] symbol)))
      in case List.find (\<lambda>(g, prefixes). list_ex (starts_with compact) prefixes) CORRELATION_GROUPS of
           Some (g, _) \<Rightarrow> g
         | None \<Rightarrow> ''single_name'')"

definition risk_isWaitLike :: "jsval \<Rightarrow> bool" where
  "risk_isWaitLike setup = list_ex (\<lambda>v. to_lower (str_or_empty v) \<in> set RISK_WAIT_VALUES)
     [get setup ''decision'', get setup ''direction'', get setup ''setup_type'', get setup ''status'']"

definition effectiveRR :: "jsval \<Rightarrow> geometry \<Rightarrow> jnum option" where
  "effectiveRR setup g =
     (case numberOrNull (firstPresent [get setup ''rr'', get setup ''reward_risk'', get setup ''r_multiple'']) of
        Some n \<Rightarrow> Some n
      | None \<Rightarrow> (case rr g of Some n \<Rightarrow> Some n | None \<Rightarrow> numberOrNull (get setup ''rr_minimum'')))"

definition num_or_default :: "jnum option \<Rightarrow> jnum \<Rightarrow> jnum" where
  "num_or_default v d = (case v of Some n \<Rightarrow> n | None \<Rightarrow> d)"

definition minRequiredRR :: "jsval \<Rightarrow> jsval \<Rightarrow> jnum" where
  "minRequiredRR setup rules =
     (let riskMode = to_upper (str_or_empty (js_or (get setup ''risk_mode'') (get setup ''riskMode'')))
      in if riskMode = ''REDUCED_SIZE''
         then num_or_default (numberOrNull (firstPresent
                [get rules ''conditionalMinRR'', get rules ''conditional_min_rr''])) (rnd (12 / 10))
         else num_or_default (numberOrNull (firstPresent
                [get rules ''minRR'', get rules ''min_rr''])) (Fin (3 / 2)))"

text \<open>\<open>typeof v === "object"\<close>: true of null as well.\<close>

definition typeof_object :: "jsval \<Rightarrow> bool" where
  "typeof_object v = (case v of Null \<Rightarrow> True | Arr _ \<Rightarrow> True | Obj _ \<Rightarrow> True | _ \<Rightarrow> False)"

definition order_of_row :: "jsval \<Rightarrow> jsval" where
  "order_of_row row =
     (if truthy row \<and> typeof_object (get row ''ready_order'') then get row ''ready_order'' else row)"

definition duplicate_row :: "jsval \<Rightarrow> jsval \<Rightarrow> string option" where
  "duplicate_row setup row =
     (let order = order_of_row row in
      if \<not> truthy order \<or> \<not> typeof_object order then None
      else if to_lower (str_or_empty (js_or (get row ''status'') (get order ''status'')))
                \<notin> set ACTIVE_STATUSES then None
      else if setupInstrument order \<noteq> setupInstrument setup then None
      else if setupDirection order \<noteq> setupDirection setup then None
      else if setupKey setup \<noteq> [] \<and> setupKey order \<noteq> [] \<and> setupKey setup \<noteq> setupKey order then None
      else Some (to_str (js_or (get row ''cycle_id'') (js_or (get row ''candidate_id'')
             (js_or (get row ''doc_id'') (js_or (get order ''order_id'') (Str ''-'')))))))"

definition duplicateSignalMatches :: "jsval \<Rightarrow> jsval list \<Rightarrow> string list" where
  "duplicateSignalMatches setup activeOrders =
     (if setupInstrument setup = [] \<or> \<not> tradable (setupDirection setup) then []
      else List.map_filter (duplicate_row setup) activeOrders)"

record correlated =
  blocking :: bool
  correlation_group :: string
  corr_direction :: "string option"
  active_count :: nat
  count_with_candidate :: nat
  max_allowed :: jnum
  symbols :: "string list"

text \<open>\<open>{ ...row.ready_order, status: row.status }\<close> for a row that wraps its order.\<close>

definition exposure_of_row :: "jsval \<Rightarrow> jsval" where
  "exposure_of_row row =
     (if truthy row \<and> typeof_object (get row ''ready_order'')
      then Obj (fset ''status'' (get row ''status'') (obj_or_empty (get row ''ready_order'')))
      else row)"

definition matching_exposure :: "string \<Rightarrow> string \<Rightarrow> jsval \<Rightarrow> bool" where
  "matching_exposure grp dir row \<longleftrightarrow>
     to_lower (str_or_empty (js_or (get row ''status'') (get row ''position_status''))) \<in> set ACTIVE_STATUSES
     \<and> correlationGroup (setupInstrument row) = grp \<and> setupDirection row = dir"

definition correlatedExposure :: "jsval \<Rightarrow> jsval list \<Rightarrow> jsval list \<Rightarrow> jsval \<Rightarrow> correlated" where
  "correlatedExposure setup activeOrders activeExposures rules =
     (let inst = setupInstrument setup; dir = setupDirection setup;
          grp = correlationGroup inst;
          maxAllowed = jmax (Fin 1) (num_or_default (numberOrNull (firstPresent
             [get rules ''maxCorrelatedActive'', get rules ''max_correlated_active''])) (Fin 1))
      in if inst = [] \<or> \<not> tradable dir \<or> grp = ''single_name'' then
           \<lparr>blocking = False, correlation_group = grp, corr_direction = None, active_count = 0,
            count_with_candidate = 1, max_allowed = maxAllowed, symbols = []\<rparr>
         else
           (let exposures = filter (\<lambda>r. truthy r \<and> typeof_object r)
                  (activeExposures @ List.map exposure_of_row activeOrders);
                matching = filter (matching_exposure grp dir) exposures;
                n = length matching
            in \<lparr>blocking = jlt maxAllowed (Fin (of_nat n + 1)), correlation_group = grp,
                corr_direction = Some dir, active_count = n, count_with_candidate = n + 1,
                max_allowed = maxAllowed,
                symbols = uniq (filter (\<lambda>s. s \<noteq> []) (List.map setupInstrument matching))\<rparr>))"

definition correlated_js :: "correlated \<Rightarrow> jsval" where
  "correlated_js c = Obj [(''blocking'', Bool (blocking c)),
     (''correlation_group'', Str (correlation_group c)),
     (''direction'', (case corr_direction c of Some d \<Rightarrow> Str d | None \<Rightarrow> Undef)),
     (''active_count'', Num (Fin (of_nat (active_count c)))),
     (''count_with_candidate'', Num (Fin (of_nat (count_with_candidate c)))),
     (''max_allowed'', Num (max_allowed c)), (''symbols'', Arr (List.map Str (symbols c)))]"

definition risk_reasons :: "jnum option \<Rightarrow> jnum \<Rightarrow> jnum option \<Rightarrow> jnum \<Rightarrow> bool \<Rightarrow> bool \<Rightarrow> (string \<times> string) list" where
  "risk_reasons riskPct maxRiskPct rrv minRR duplicate correlatedBlock =
     (case riskPct of None \<Rightarrow> [(''risk_pct_missing'', ''RISK_PCT_MISSING'')]
      | Some r \<Rightarrow> if jlt maxRiskPct r then [(''risk_pct_above_limit'', ''RISK_PCT_ABOVE_LIMIT'')] else []) @
     (case rrv of None \<Rightarrow> [(''rr_missing'', ''RISK_RR_MISSING'')]
      | Some v \<Rightarrow> if jlt v minRR then [(''rr_below_minimum'', ''RISK_RR_BELOW_MINIMUM'')] else []) @
     (if duplicate then [(''duplicate_signal'', ''RISK_DUPLICATE_SIGNAL'')] else []) @
     (if correlatedBlock then [(''correlated_active_exposure'', ''RISK_CORRELATED_ACTIVE_EXPOSURE'')] else [])"

definition maxRiskPct_of :: "jsval \<Rightarrow> jnum" where
  "maxRiskPct_of rules = num_or_default (numberOrNull (firstPresent
     [get rules ''maxRiskPct'', get rules ''max_risk_pct'', get rules ''max_risk_pct_primary_setup'',
      get rules ''max_risk_pct_session''])) (Fin 1)"

definition evaluateRisk :: "jsval \<Rightarrow> jsval \<Rightarrow> jsval list \<Rightarrow> jsval list \<Rightarrow> domain_result" where
  "evaluateRisk setup rules activeOrders activeExposures =
     (let g = computeRewardRisk setup; riskPct = numberOrNull (get setup ''risk_pct'');
          maxRiskPct = maxRiskPct_of rules; rrv = effectiveRR setup g; minRR = minRequiredRR setup rules;
          ev = [(''computed_rr'', js_opt_num rrv), (''min_rr_required'', Num minRR),
                (''max_risk_allowed'', Num maxRiskPct), (''normalized_price_geometry'', geometry_js g)]
      in if risk_isWaitLike setup \<and> riskPct = Some (Fin 0) then
           resultFromIssues [] [] [] (ev @ [(''risk_mode'', Str ''wait_no_trade'')])
         else
           (let dups = duplicateSignalMatches setup activeOrders;
                duplicate = dups \<noteq> [] \<and> get rules ''allowDuplicateSignal'' \<noteq> Bool True;
                corr = correlatedExposure setup activeOrders activeExposures rules;
                issues = risk_reasons riskPct maxRiskPct rrv minRR duplicate (blocking corr)
            in resultFromIssues (List.map fst issues) [] (List.map snd issues)
                 (ev @ (if duplicate then [(''duplicate_matches'', Arr (List.map Str dups))] else [])
                     @ (if blocking corr then [(''correlated_active_exposure'', correlated_js corr)] else []))))"

lemma risk_reasons_Nil_iff:
  "risk_reasons riskPct mx rrv mn d c = [] \<longleftrightarrow>
    (\<exists>r. riskPct = Some r \<and> \<not> jlt mx r) \<and> (\<exists>v. rrv = Some v \<and> \<not> jlt v mn) \<and> \<not> d \<and> \<not> c"
  by (auto simp: risk_reasons_def split: option.splits)

lemma effectiveRR_None_NaN:
  "effectiveRR setup (computeRewardRisk setup) = Some v \<Longrightarrow>
   numberOrNull (firstPresent [get setup ''rr'', get setup ''reward_risk'', get setup ''r_multiple'']) = Some v
   \<or> rr (computeRewardRisk setup) = Some v \<or> numberOrNull (get setup ''rr_minimum'') = Some v"
  by (auto simp: effectiveRR_def split: option.splits)

lemma num_or_default_not_NaN:
  "d \<noteq> NaN \<Longrightarrow> num_or_default (numberOrNull v) d \<noteq> NaN"
  using numberOrNull_finite[of v] by (auto simp: num_or_default_def split: option.splits)

lemma correlated_not_blocking:
  assumes "\<not> blocking (correlatedExposure setup orders exposures rules)"
  shows "jle (Fin (of_nat (count_with_candidate (correlatedExposure setup orders exposures rules))))
             (max_allowed (correlatedExposure setup orders exposures rules))"
proof -
  have n: "num_or_default (numberOrNull v) (Fin 1) \<noteq> NaN" for v
    by (rule num_or_default_not_NaN) simp
  have "jmax (Fin 1) (num_or_default (numberOrNull v) (Fin 1)) \<noteq> NaN
    \<and> jle (Fin 1) (jmax (Fin 1) (num_or_default (numberOrNull v) (Fin 1)))" for v
    using n[of v] jmax_ge[of "Fin 1" "num_or_default (numberOrNull v) (Fin 1)"]
    by (auto simp: jmax_def)
  then show ?thesis
    using assms unfolding correlatedExposure_def Let_def
    by (auto simp: not_jlt add.commute split: if_splits)
qed

section \<open>Properties\<close>

lemma evaluateRisk_limits:
  assumes "ok (evaluateRisk setup rules orders exposures)"
    and "\<not> (risk_isWaitLike setup \<and> numberOrNull (get setup ''risk_pct'') = Some (Fin 0))"
  shows "(\<exists>r. numberOrNull (get setup ''risk_pct'') = Some r \<and> \<not> jlt (maxRiskPct_of rules) r)
    \<and> (\<exists>v. effectiveRR setup (computeRewardRisk setup) = Some v \<and> \<not> jlt v (minRequiredRR setup rules))
    \<and> (duplicateSignalMatches setup orders = [] \<or> get rules ''allowDuplicateSignal'' = Bool True)
    \<and> \<not> blocking (correlatedExposure setup orders exposures rules)"
proof -
  have "risk_reasons (numberOrNull (get setup ''risk_pct'')) (maxRiskPct_of rules)
      (effectiveRR setup (computeRewardRisk setup)) (minRequiredRR setup rules)
      (duplicateSignalMatches setup orders \<noteq> [] \<and> get rules ''allowDuplicateSignal'' \<noteq> Bool True)
      (blocking (correlatedExposure setup orders exposures rules)) = []"
    using assms by (simp add: evaluateRisk_def Let_def split: if_splits)
  then show ?thesis
    by (auto simp: risk_reasons_Nil_iff)
qed

lemma validateSetup_prices:
  assumes "truthy setup" and "ok (validateSetup setup decision)" and "\<not> setup_isWaitLike setup decision"
  shows "\<exists>e s t. setupEntry setup = Some e \<and> setupStop setup = Some s \<and> target (computeRewardRisk setup) = Some t
    \<and> (setupDirection setup = ''long'' \<and> jlt s e \<and> jlt e t \<or> setupDirection setup = ''short'' \<and> jlt t e \<and> jlt e s)"
proof -
  have "setup = js_or (js_or setup decision) (Obj [])" using assms(1) by (simp add: js_or_def)
  from validateSetup_ok_iff[OF this] assms(2,3) show ?thesis
    by (auto simp: ordered_prices_def split: option.splits)
qed

text \<open>
  What the risk engine accepts: unless the setup is a wait without risk, the risk percentage
  is given and within the limit, the reward/risk is known and at least the minimum required, no
  active order repeats the signal (or the rules allow it), and with the candidate the number of
  correlated active exposures stays within the allowed maximum.
\<close>

theorem evaluateRisk_accepts:
  assumes "ok (evaluateRisk setup rules orders exposures)"
    and "\<not> (risk_isWaitLike setup \<and> numberOrNull (get setup ''risk_pct'') = Some (Fin 0))"
  shows "(\<exists>r. numberOrNull (get setup ''risk_pct'') = Some r \<and> \<not> jlt (maxRiskPct_of rules) r)
    \<and> (\<exists>v. effectiveRR setup (computeRewardRisk setup) = Some v \<and> \<not> jlt v (minRequiredRR setup rules))
    \<and> (duplicateSignalMatches setup orders = [] \<or> get rules ''allowDuplicateSignal'' = Bool True)
    \<and> jle (Fin (of_nat (count_with_candidate (correlatedExposure setup orders exposures rules))))
          (max_allowed (correlatedExposure setup orders exposures rules))"
  using evaluateRisk_limits[OF assms] correlated_not_blocking by blast

definition sample_setup :: jsval where
  "sample_setup = Obj [(''instrument'', Str ''CME_MINI:MES1!''), (''direction'', Str ''long''),
     (''entry_price'', Num (Fin 100)), (''stop_loss'', Num (Fin 90)), (''take_profit_1'', Num (Fin 120)),
     (''risk_pct'', Num (Fin 1)), (''rr'', Num (Fin 2))]"

lemma sample_setup_prices:
  "setupDirection sample_setup = ''long''" "setupInstrument sample_setup = ''CME_MINI:MES1!''"
  "setupEntry sample_setup = Some (Fin 100)" "setupStop sample_setup = Some (Fin 90)"
  "setupTarget sample_setup = Some (Fin 120)"
  by code_simp+

lemma sample_setup_rr: "effectiveRR sample_setup g = Some (Fin 2)" "minRequiredRR sample_setup (Obj []) = Fin (3 / 2)"
  "maxRiskPct_of (Obj []) = Fin 1" "numberOrNull (get sample_setup ''risk_pct'') = Some (Fin 1)"
  by (simp_all add: effectiveRR_def minRequiredRR_def maxRiskPct_of_def sample_setup_def firstPresent_def present_def
      numberOrNull_def num_or_default_def js_or_def to_upper_def)

lemma sample_setup_not_wait: "\<not> risk_isWaitLike sample_setup" "\<not> setup_isWaitLike sample_setup (Obj [])"
  by code_simp+

lemma sample_risk_ok: "ok (evaluateRisk sample_setup (Obj []) [] [])"
proof -
  have "\<not> blocking (correlatedExposure sample_setup [] [] (Obj []))"
    by (simp add: correlatedExposure_def Let_def firstPresent_def num_or_default_def numberOrNull_def present_def jmax_def)
  then show ?thesis
    by (simp add: evaluateRisk_def Let_def sample_setup_rr sample_setup_not_wait risk_reasons_Nil_iff
        duplicateSignalMatches_def)
qed

lemma sample_validated: "ok (validateSetup sample_setup (Obj []))"
proof -
  have c: "sample_setup = js_or (js_or sample_setup (Obj [])) (Obj [])" by (simp add: js_or_def sample_setup_def)
  have "firstTargetFromCollection (Num (Fin 120)) = Some (Fin 120)" by code_simp
  then have "target (computeRewardRisk sample_setup) = Some (Fin 120)"
    by (simp add: computeRewardRisk_def Let_def sample_setup_prices tradable_def)
  then show ?thesis
    unfolding validateSetup_ok_iff[OF c]
    by (simp add: sample_setup_not_wait sample_setup_prices ordered_prices_iff)
qed

theorem evaluateRisk_accepts_witness:
  "(\<exists>r. numberOrNull (get sample_setup ''risk_pct'') = Some r \<and> \<not> jlt (maxRiskPct_of (Obj [])) r)
    \<and> (\<exists>v. effectiveRR sample_setup (computeRewardRisk sample_setup) = Some v \<and> \<not> jlt v (minRequiredRR sample_setup (Obj [])))
    \<and> (duplicateSignalMatches sample_setup [] = [] \<or> get (Obj []) ''allowDuplicateSignal'' = Bool True)
    \<and> jle (Fin (of_nat (count_with_candidate (correlatedExposure sample_setup [] [] (Obj [])))))
          (max_allowed (correlatedExposure sample_setup [] [] (Obj [])))"
  by (rule evaluateRisk_accepts[OF sample_risk_ok]) (simp add: sample_setup_not_wait)

text \<open>
  What the setup validator accepts: a setup that is not a wait is accepted only when it is
  long with stop below entry below target, or short with target below entry below stop.
\<close>

theorem validateSetup_orders_prices:
  assumes "truthy setup" and "ok (validateSetup setup decision)" and "\<not> setup_isWaitLike setup decision"
  shows "\<exists>e s t. setupEntry setup = Some e \<and> setupStop setup = Some s \<and> target (computeRewardRisk setup) = Some t
    \<and> (setupDirection setup = ''long'' \<and> jlt s e \<and> jlt e t \<or> setupDirection setup = ''short'' \<and> jlt t e \<and> jlt e s)"
  by (rule validateSetup_prices[OF assms])

theorem validateSetup_orders_prices_witness:
  "\<exists>e s t. setupEntry sample_setup = Some e \<and> setupStop sample_setup = Some s
    \<and> target (computeRewardRisk sample_setup) = Some t
    \<and> (setupDirection sample_setup = ''long'' \<and> jlt s e \<and> jlt e t
       \<or> setupDirection sample_setup = ''short'' \<and> jlt t e \<and> jlt e s)"
  by (rule validateSetup_orders_prices[OF _ sample_validated])
     (simp_all add: sample_setup_not_wait, simp add: sample_setup_def)

text \<open>
  A row that wraps no order hides its exposure: \<open>typeof null\<close> is \<open>object\<close>, so an active row
  whose \<open>ready_order\<close> is \<open>null\<close> is skipped by the search for duplicate signals, whatever
  instrument and direction the row itself has.
\<close>

theorem duplicate_row_null_order:
  assumes "get row ''ready_order'' = Null"
  shows "duplicate_row setup row = None"
proof -
  have "truthy row" using assms by (cases row) simp_all
  with assms show ?thesis by (simp add: duplicate_row_def order_of_row_def typeof_object_def)
qed

theorem duplicate_row_null_order_witness:
  "duplicate_row sample_setup (Obj [(''status'', Str ''open''), (''instrument'', Str ''CME_MINI:MES1!''),
     (''direction'', Str ''long''), (''ready_order'', Null)]) = None"
  by (rule duplicate_row_null_order) simp

end
