(* ===== verification/Spec2Isabelle.thy ===== *)
theory Spec2Isabelle
  imports Agent_Runtime
    Batch_Join
    Break_Retest
    Candidate_Allocation
    Canonical_Json
    Circuit_Breaker
    Decision_Gates
    Domain_Helpers
    Domain_Result
    Entry_Order
    Execution_Scope
    Greedy_Scan
    Human_Gate
    Js_Date
    Js_Number
    Js_String
    Js_Value
    Lifecycle
    Native_Validator
    Opportunity_Policy
    Order_Intent
    Order_Simulator
    Position_V1
    Predicate_Conditions
    Predicate_Registry
    Prelude
    Replan_V1
    Replay_Conditions
    Replay_Engine
    Replay_Metrics
    Replay_Policy
    Risk_Budget
    Risk_Economics
    Scheduled_Claim
    Scheduler_Policy
    Setup_V1
    Signal_Selection
    Simulation_Metrics
    Target_Position
    Thesis_Legacy
    Thesis_V1
    Trade_Gates
    Trade_Plan
begin

text \<open>
  Verification of the domain core of the trading desk (\<open>packages/desk-domain/src\<close>).

  The desk is a JavaScript monorepo. Language models propose market theses, setups and positions;
  the deterministic rules of \<open>desk-domain\<close> decide what may happen: they validate a setup, limit
  its risk, drive its lifecycle, route its order to a broker and lease the work of the agents.
  They are pure functions from loosely shaped JSON records to results, and the servers around
  them (\<open>mcp_gpt_desk\<close>, the control plane) store what they return. This development models those
  functions on the values they see, numbers as IEEE doubles and missing fields included.

  \<^bold>\<open>Foundations.\<close> \<open>Prelude\<close>: association lists, \<open>uniq\<close> and a small error monad.
  \<open>Js_Number\<close>: doubles with rounding to nearest even, comparisons that are false on \<open>NaN\<close>.
  \<open>Js_String\<close>, \<open>Js_Date\<close>, \<open>Js_Value\<close>: strings, \<open>Number(s)\<close> and \<open>String(n)\<close>, the calendar with
  the round trip of \<open>toISOString\<close>, objects as association lists, \<open>JSON.stringify\<close>. What the host
  supplies (SHA-256, the time zone database, \<open>Date.parse\<close> of other formats) is the record \<open>host\<close>,
  an argument of the definitions that use it.

  \<^bold>\<open>Rules of a trade.\<close> \<open>Domain_Result\<close> (\<open>result.js\<close>, \<open>instant.js\<close>, \<open>setup-shape.js\<close>),
  \<open>Trade_Gates\<close> (\<open>setup-validator.js\<close>, \<open>risk-engine.js\<close>), \<open>Decision_Gates\<close>
  (\<open>gate-evaluator.js\<close>, \<open>position-manager.js\<close>, \<open>outcome-replayer.js\<close>): every function, with
  lemmas that say exactly when a rule accepts.

  \<^bold>\<open>Lifecycles.\<close> \<open>Lifecycle\<close> states the contract of a state machine as locales (\<open>machine\<close>,
  \<open>frozen_machine\<close>); \<open>Thesis_V1\<close>, \<open>Setup_V1\<close>, \<open>Position_V1\<close>, \<open>Replan_V1\<close> model the four machines and
  interpret the locales, so that a property of all sequences of calls follows from the table.
  \<open>Thesis_Legacy\<close> is the older thesis machine and the split of positions out of it.

  \<^bold>\<open>Scopes and hashes.\<close> \<open>Canonical_Json\<close>, \<open>Execution_Scope\<close> (\<open>execution-scope.js\<close>): canonical
  hashing, building, rebuilding and comparing an execution scope; thrown errors are left values
  of a sum.

  \<^bold>\<open>Replay.\<close> \<open>Order_Simulator\<close> (\<open>desk-replay-engine/src/order-simulator-v1.js\<close>): how entry and exit orders
  are filled on a candle, refined by a rule with four verdicts. \<open>Replay_Conditions\<close> and
  \<open>Replay_Engine\<close> (\<open>canonical-simulation-engine-v1.js\<close>, \<open>canonical-simulation-result-v1.js\<close>): the loop that
  replays a plan over candles; it implements the abstract desk that is flat or in one position,
  does not look ahead (rows dated later change nothing that was done before them), and opens positions only after
  their confirmation. Rows by instrument are given as a plain object, not as a \<open>Map\<close>. The rules on conditions
  and opportunities and the metrics are arguments (\<open>engine_rules\<close>): what is shown of the loop holds
  for any rules. \<open>Replay_Policy\<close> puts the desk's own opportunity policy in their place, \<open>Replay_Metrics\<close> its
  own metrics. \<open>Simulation_Metrics\<close> (\<open>simulation-metrics-v1.js\<close>): equity curve, drawdown, ratios,
  excursions and segmentations; \<open>Math.sqrt\<close> is the rounded integer root of the scaled value.

  \<^bold>\<open>Conditions and opportunities.\<close> \<open>Predicate_Conditions\<close>, \<open>Break_Retest\<close> and \<open>Predicate_Registry\<close>
  (\<open>deterministic-predicate-registry-v1.js\<close>): the predicates without memory, the machine that waits for a
  break, a retest and a rejection, and the evaluation of one condition and of a set. The machine is specified
  by three row indices (\<open>confirms\<close>), and evaluating as the rows come in is shown to give what one evaluation
  of all rows gives; the invariant that carries both is \<open>seq_at\<close>. \<open>Opportunity_Policy\<close>
  (\<open>opportunity-policy-v1.js\<close>, \<open>opportunity-gate-normalizer-v1.js\<close>): hard and soft gates, the phase at
  which a gate is enforced, and exactly when a setup may trigger.

  \<^bold>\<open>Plans, portfolio, operator.\<close> \<open>Native_Validator\<close> (\<open>native-cross-field-validator-v1.js\<close>) and
  \<open>Entry_Order\<close> (\<open>entry-order-semantics-v1.js\<close>): what a plan or a monitor without an issue satisfies; the search for
  a cycle of conditions is a \<open>while\<close> loop, modelled as a partial function and shown to end.
  The chain from signals to orders: \<open>Trade_Plan\<close> (\<open>trade-plan-economics-v1.js\<close>), the normal form of a plan and what it risks;
  \<open>Signal_Selection\<close> (\<open>portfolio-signal-selection-v1.js\<close>), which of the competing signals may trade, each selected or
  rejected exactly once; \<open>Candidate_Allocation\<close> (\<open>portfolio-candidate-allocation-v1.js\<close>), from signals to allocations
  and the virtual portfolio. \<open>Target_Position\<close>
  (\<open>portfolio-target-position-v1.js\<close>): from allocations and their risk evaluation to net targets, with every
  allocation accounted for. \<open>Risk_Budget\<close> and \<open>Risk_Economics\<close> (\<open>portfolio-risk-budget-v1.js\<close>,
  \<open>portfolio-monetary-risk-v1.js\<close>): the size every allocation is granted under the limits of the portfolio, one after the
  other, and that what the targets read of it, looked up by the ids of the allocations, stays within them when the ids
  are distinct. \<open>Order_Intent\<close> (\<open>portfolio-order-intent-v1.js\<close>): from targets to orders, and that the
  targets of the first carry the authority the second asks for and become orders unless nothing changes, their plan points
  elsewhere or an active intent stands in the way. \<open>Human_Gate\<close> (\<open>human-execution-gate-v1.js\<close>): when a decision may be undone.

  \<^bold>\<open>Work and routing.\<close> \<open>Agent_Runtime\<close> (\<open>agent-runtime-v1.js\<close>, its retry policy): leases on
  tasks, as an interpretation of \<open>settling_system\<close>. \<open>Circuit_Breaker\<close>
  (\<open>execution-provider-circuit-breaker-v1.js\<close>): the barrier against sending an order twice, and what it does
  not look at: a command that is \<open>FILLED\<close> does not hold a route back.

  \<open>Batch_Join\<close> (\<open>agent-batch-join-policy-v1.js\<close>): when a batch of tasks is decided, and that a decision stands.
  \<open>Scheduler_Policy\<close> (\<open>agent-runtime-scheduler-policy-v1.js\<close>): which tasks may run in a window, as an
  interpretation of the locale of greedy selection under a budget (\<open>Greedy_Scan\<close>); lanes keep their
  quotas and live work goes first. \<open>Scheduled_Claim\<close>: what the scheduler selects the runtime hands out.

  \<^bold>\<open>Here\<close>: the composition of the setup validator and the risk engine.

  \<^bold>\<open>Bounds.\<close> No model needs fuel except \<open>shortest_digits\<close> (the digits of \<open>String(n)\<close>: at most 17
  are needed for a double, and 17 is its fuel). Strings are lists of 8-bit characters: upper and
  lower case and white space are those of ASCII.

  \<^bold>\<open>Not modelled.\<close> The servers, the front end, the generated contracts and the scripts (input and
  output around these rules), and the parts of \<open>desk-domain\<close> named in the manifest. Getters,
  prototypes beyond the names \<open>PROTOTYPE_NAMES\<close>, symbols and cyclic values cannot occur in the
  JSON these functions are given.
\<close>

section \<open>A trade that passes the validator and the risk engine\<close>

lemma wait_for_risk_is_wait: "risk_isWaitLike setup \<Longrightarrow> setup_isWaitLike setup decision"
  by (auto simp: risk_isWaitLike_def setup_isWaitLike_def RISK_WAIT_VALUES_def WAIT_VALUES_def)

lemma effectiveRR_source:
  "effectiveRR setup (computeRewardRisk setup) = Some v \<Longrightarrow>
     (case numberOrNull (firstPresent [get setup ''rr'', get setup ''reward_risk'', get setup ''r_multiple'']) of
        Some stated \<Rightarrow> v = stated
      | None \<Rightarrow> (case rr (computeRewardRisk setup) of Some computed \<Rightarrow> v = computed | None \<Rightarrow> numberOrNull (get setup ''rr_minimum'') = Some v))"
  by (auto simp: effectiveRR_def split: option.splits)

text \<open>
  C6. The gates compose: a setup that is given, is not a wait for the validator, and passes both the setup validator and the risk
  engine has a stop, entry and target in the order of its direction, a risk percentage that is not above the limit, a reward/risk
  not below the minimum its risk mode requires, where the reward/risk is the one the setup states and only failing that the
  one computed from its prices, no active order with the same signal unless the rules allow it, and, counting itself, no more
  correlated exposures than allowed.
\<close>

theorem accepted_trade_is_sound:
  assumes "truthy setup" and "\<not> setup_isWaitLike setup decision"
    and "ok (validateSetup setup decision)" and "ok (evaluateRisk setup rules orders exposures)"
  shows "(\<exists>e s t. setupEntry setup = Some e \<and> setupStop setup = Some s \<and> target (computeRewardRisk setup) = Some t
      \<and> (setupDirection setup = ''long'' \<and> jlt s e \<and> jlt e t \<or> setupDirection setup = ''short'' \<and> jlt t e \<and> jlt e s))
    \<and> (\<exists>r. numberOrNull (get setup ''risk_pct'') = Some r \<and> \<not> jlt (maxRiskPct_of rules) r)
    \<and> (\<exists>v. \<not> jlt v (minRequiredRR setup rules)
         \<and> (case numberOrNull (firstPresent [get setup ''rr'', get setup ''reward_risk'', get setup ''r_multiple'']) of
              Some stated \<Rightarrow> v = stated
            | None \<Rightarrow> (case rr (computeRewardRisk setup) of Some computed \<Rightarrow> v = computed | None \<Rightarrow> numberOrNull (get setup ''rr_minimum'') = Some v)))
    \<and> (duplicateSignalMatches setup orders = [] \<or> get rules ''allowDuplicateSignal'' = Bool True)
    \<and> jle (Fin (of_nat (count_with_candidate (correlatedExposure setup orders exposures rules))))
          (max_allowed (correlatedExposure setup orders exposures rules))"
proof -
  have "\<not> (risk_isWaitLike setup \<and> numberOrNull (get setup ''risk_pct'') = Some (Fin 0))"
    using assms(2) wait_for_risk_is_wait by blast
  from evaluateRisk_limits[OF assms(4) this] correlated_not_blocking
  have "\<exists>r. numberOrNull (get setup ''risk_pct'') = Some r \<and> \<not> jlt (maxRiskPct_of rules) r"
    and rr: "\<exists>v. effectiveRR setup (computeRewardRisk setup) = Some v \<and> \<not> jlt v (minRequiredRR setup rules)"
    and "duplicateSignalMatches setup orders = [] \<or> get rules ''allowDuplicateSignal'' = Bool True"
    and "jle (Fin (of_nat (count_with_candidate (correlatedExposure setup orders exposures rules))))
          (max_allowed (correlatedExposure setup orders exposures rules))" by blast+
  moreover have "\<exists>v. \<not> jlt v (minRequiredRR setup rules)
         \<and> (case numberOrNull (firstPresent [get setup ''rr'', get setup ''reward_risk'', get setup ''r_multiple'']) of
              Some stated \<Rightarrow> v = stated
            | None \<Rightarrow> (case rr (computeRewardRisk setup) of Some computed \<Rightarrow> v = computed | None \<Rightarrow> numberOrNull (get setup ''rr_minimum'') = Some v))"
    using rr effectiveRR_source by blast
  ultimately show ?thesis using validateSetup_prices[OF assms(1,3,2)] by blast
qed

theorem accepted_trade_is_sound_witness:
  "(\<exists>e s t. setupEntry sample_setup = Some e \<and> setupStop sample_setup = Some s
      \<and> target (computeRewardRisk sample_setup) = Some t
      \<and> (setupDirection sample_setup = ''long'' \<and> jlt s e \<and> jlt e t
         \<or> setupDirection sample_setup = ''short'' \<and> jlt t e \<and> jlt e s))
    \<and> (\<exists>r. numberOrNull (get sample_setup ''risk_pct'') = Some r \<and> \<not> jlt (maxRiskPct_of (Obj [])) r)"
proof -
  have "truthy sample_setup" by (simp add: sample_setup_def)
  from accepted_trade_is_sound[OF this sample_setup_not_wait(2) sample_validated sample_risk_ok] show ?thesis by blast
qed

end
